(* ===== verification/Prelude.thy ===== *)
theory Prelude
  imports Main "HOL-Library.Sublist" "HOL-Library.AList"
begin

text \<open>
  Shared vocabulary of the development: the fact collections the component theories
  extend, the fragment of Go's \<open>strings\<close> and \<open>strconv\<close> packages the program calls
  (on byte strings, Isabelle's \<open>char list\<close>), result types and effectful computations.

  Go strings are byte strings, so \<open>length\<close> is \<open>len\<close>. \<open>TrimSpace\<close> and
  \<open>ToLower\<close> are modelled on the ASCII range, where Go uses its byte tables; the Unicode
  white space and case tables are left out.
\<close>

named_theorems string_simps \<open>equations of the Go string operations\<close>
named_theorems record_defs \<open>unfolding rules of constructors and default values\<close>

section \<open>Results and effects\<close>

text \<open>
  A Go function with results \<open>(T, error)\<close> is a function into \<open>error + T\<close>: \<open>Inl\<close> for
  a non-nil error, \<open>Inr\<close> otherwise. A call that also acts on the outside world (a
  provider, a tool, a timer) threads a world \<open>'w\<close>.
\<close>

type_synonym ('e, 'a) result = "'e + 'a"
type_synonym ('w, 'e, 'a) io = "'w \<Rightarrow> ('e + 'a) \<times> 'w"

definition is_ok :: "'e + 'a \<Rightarrow> bool" where
  "is_ok r \<longleftrightarrow> (case r of Inl _ \<Rightarrow> False | Inr _ \<Rightarrow> True)"

lemma is_ok_simps [simp]: "\<not> is_ok (Inl e)" "is_ok (Inr a)"
  by (simp_all add: is_ok_def)

lemma is_ok_iff: "is_ok r \<longleftrightarrow> (\<exists>a. r = Inr a)"
  by (cases r) auto

text \<open>A value of \<open>time.Duration\<close> after arithmetic that may overflow: 64 bits, signed.\<close>

definition wrap64 :: "int \<Rightarrow> int" where
  "wrap64 x = signed_take_bit 63 x"

section \<open>Strings\<close>

definition HasPrefix :: "string \<Rightarrow> string \<Rightarrow> bool" where
  "HasPrefix s p = prefix p s"

definition HasSuffix :: "string \<Rightarrow> string \<Rightarrow> bool" where
  "HasSuffix s p = suffix p s"

definition TrimPrefix :: "string \<Rightarrow> string \<Rightarrow> string" where
  "TrimPrefix s p = (if prefix p s then drop (length p) s else s)"

definition TrimSuffix :: "string \<Rightarrow> string \<Rightarrow> string" where
  "TrimSuffix s p = (if suffix p s then take (length s - length p) s else s)"

definition is_space :: "char \<Rightarrow> bool" where
  "is_space c \<longleftrightarrow> c \<in> {CHR '' '', CHR 0x09, CHR 0x0A, CHR 0x0B, CHR 0x0C, CHR 0x0D}"

definition TrimLeft :: "string \<Rightarrow> string" where
  "TrimLeft s = dropWhile is_space s"

definition TrimSpace :: "string \<Rightarrow> string" where
  "TrimSpace s = rev (dropWhile is_space (rev (dropWhile is_space s)))"

definition IndexByte :: "string \<Rightarrow> char \<Rightarrow> nat option" where
  "IndexByte s c = (if c \<in> set s then Some (length (takeWhile (\<lambda>d. d \<noteq> c) s)) else None)"

text \<open>\<open>strings.Cut\<close> at a one-byte separator: before, after, found.\<close>

definition Cut :: "string \<Rightarrow> char \<Rightarrow> string \<times> string \<times> bool" where
  "Cut s c = (if c \<in> set s
     then (takeWhile (\<lambda>d. d \<noteq> c) s, tl (dropWhile (\<lambda>d. d \<noteq> c) s), True)
     else (s, [], False))"

fun Contains :: "string \<Rightarrow> string \<Rightarrow> bool" where
  "Contains [] sub = (sub = [])"
| "Contains (c # s) sub = (prefix sub (c # s) \<or> Contains s sub)"

fun Join :: "string list \<Rightarrow> string \<Rightarrow> string" where
  "Join [] sep = []"
| "Join [x] sep = x"
| "Join (x # y # zs) sep = x @ sep @ Join (y # zs) sep"

text \<open>
  \<open>strings.ReplaceAll\<close> for a non-empty pattern, from the left and without overlap (an
  empty pattern, which no caller uses, leaves the text alone here).
\<close>

function ReplaceAll :: "string \<Rightarrow> string \<Rightarrow> string \<Rightarrow> string" where
  "ReplaceAll s old new =
     (if old = [] then s
      else case s of [] \<Rightarrow> []
        | c # t \<Rightarrow>
            if prefix old s then new @ ReplaceAll (drop (length old) s) old new
            else c # ReplaceAll t old new)"
  by pat_completeness auto
termination
  by (relation "measure (\<lambda>(s, old, new). length s)") (auto simp: prefix_def)

declare ReplaceAll.simps [simp del]

definition ascii_lower :: "char \<Rightarrow> char" where
  "ascii_lower c = (if of_char c \<in> {65..90::nat} then char_of (of_char c + 32 :: nat) else c)"

definition ToLower :: "string \<Rightarrow> string" where
  "ToLower s = map ascii_lower s"

text \<open>Decimal rendering, the verb \<open>%d\<close>.\<close>

definition digit_char :: "nat \<Rightarrow> char" where
  "digit_char d = char_of (48 + d)"

fun nat_dec :: "nat \<Rightarrow> string" where
  "nat_dec n = (if n < 10 then [digit_char n] else nat_dec (n div 10) @ [digit_char (n mod 10)])"

declare nat_dec.simps [simp del]

definition int_dec :: "int \<Rightarrow> string" where
  "int_dec i = (if i < 0 then CHR ''-'' # nat_dec (nat (- i)) else nat_dec (nat i))"

lemma nat_dec_nonempty [simp]: "nat_dec n \<noteq> []"
  by (subst nat_dec.simps) simp

section \<open>Lemmas on strings\<close>

lemma TrimPrefix_append [simp]: "TrimPrefix (p @ s) p = s"
  by (simp add: TrimPrefix_def)

lemma TrimSuffix_append [simp]: "TrimSuffix (s @ p) p = s"
  by (auto simp: TrimSuffix_def suffix_def)

lemma HasPrefix_append [simp]: "HasPrefix (p @ s) p"
  by (simp add: HasPrefix_def)

lemma HasPrefix_iff: "HasPrefix s p \<longleftrightarrow> (\<exists>t. s = p @ t)"
  by (auto simp: HasPrefix_def prefix_def)

lemma Cut_append: "c \<notin> set a \<Longrightarrow> Cut (a @ c # b) c = (a, b, True)"
  by (simp add: Cut_def takeWhile_append dropWhile_append)

lemma Cut_found:
  assumes "Cut s c = (a, b, True)"
  shows "s = a @ c # b \<and> c \<notin> set a"
proof -
  from assms have c: "c \<in> set s" and ab: "a = takeWhile (\<lambda>d. d \<noteq> c) s"
      "b = tl (dropWhile (\<lambda>d. d \<noteq> c) s)"
    by (auto simp: Cut_def split: if_splits)
  from c have "dropWhile (\<lambda>d. d \<noteq> c) s \<noteq> []" by (auto simp: dropWhile_eq_Nil_conv)
  then have "dropWhile (\<lambda>d. d \<noteq> c) s = c # b"
    using hd_dropWhile [of "\<lambda>d. d \<noteq> c" s] ab(2) by (metis list.collapse)
  then have "s = a @ c # b" using ab(1) by (metis takeWhile_dropWhile_id)
  moreover have "c \<notin> set a" using ab(1) by (auto dest: set_takeWhileD)
  ultimately show ?thesis by blast
qed

lemma Contains_iff_sublist: "Contains s sub \<longleftrightarrow> (\<exists>a b. s = a @ sub @ b)"
proof (induction s)
  case Nil
  then show ?case by auto
next
  case (Cons c s)
  have "(\<exists>a b. c # s = a @ sub @ b) \<longleftrightarrow> prefix sub (c # s) \<or> (\<exists>a b. s = a @ sub @ b)"
  proof
    assume "\<exists>a b. c # s = a @ sub @ b"
    then obtain a b where ab: "c # s = a @ sub @ b" by blast
    then show "prefix sub (c # s) \<or> (\<exists>a b. s = a @ sub @ b)"
      by (cases a) (auto simp: prefix_def)
  next
    assume "prefix sub (c # s) \<or> (\<exists>a b. s = a @ sub @ b)"
    then show "\<exists>a b. c # s = a @ sub @ b"
      by (metis append_Cons append_Nil prefix_def)
  qed
  with Cons.IH show ?case by simp
qed

lemma ReplaceAll_absent: "old \<noteq> [] \<Longrightarrow> \<not> Contains s old \<Longrightarrow> ReplaceAll s old new = s"
proof (induction s)
  case Nil
  then show ?case by (simp add: ReplaceAll.simps)
next
  case (Cons c s)
  then show ?case by (subst ReplaceAll.simps) auto
qed

lemma ReplaceAll_prefix:
  "old \<noteq> [] \<Longrightarrow> prefix old s \<Longrightarrow>
   ReplaceAll s old new = new @ ReplaceAll (drop (length old) s) old new"
  using ReplaceAll.simps [of s old new] by (cases s) auto

lemma ReplaceAll_hit: "old \<noteq> [] \<Longrightarrow> ReplaceAll (old @ t) old new = new @ ReplaceAll t old new"
  by (simp add: ReplaceAll_prefix)

text \<open>\<open>TrimSpace\<close> takes off exactly the padding of a text without white space.\<close>

lemma trim_padded:
  assumes "list_all (\<lambda>c. \<not> is_space c) x" "x \<noteq> []" "list_all is_space u" "list_all is_space v"
  shows "TrimSpace (u @ x @ v) = x"
proof -
  have "dropWhile is_space (u @ x @ v) = x @ v"
    using assms(1-3) by (cases x) (auto simp: list_all_iff dropWhile_append)
  moreover have "dropWhile is_space (rev (x @ v)) = rev x"
    using assms(1,2,4) by (cases x rule: rev_cases) (auto simp: list_all_iff dropWhile_append)
  ultimately show ?thesis by (simp add: TrimSpace_def)
qed

section \<open>Lists\<close>

lemma fold_append_map: "fold (\<lambda>x acc. acc @ [f x]) xs ys = ys @ map f xs"
  by (induction xs arbitrary: ys) auto

lemma fold_append_concat: "fold (\<lambda>x acc. acc @ f x) xs ys = ys @ concat (map f xs)"
  by (induction xs arbitrary: ys) auto

lemma map_of_update_AList: "map_of (AList.update k v al) = (map_of al)(k \<mapsto> v)"
  by (rule ext) (simp add: update_conv')

lemma sum_list_map_le_mono:
  fixes f :: "'a \<Rightarrow> nat"
  shows "x \<in> set xs \<Longrightarrow> f x \<le> sum_list (map f xs)"
  by (induction xs) auto

end
