(* ===== verification/Go_Values.thy ===== *)
theory Go_Values
  imports Complex_Main Prelude
begin

text \<open>
  Values of Go's dynamic types and its error values.

  \<^item> \<open>json\<close> is the value an \<open>any\<close> holds after \<open>encoding/json\<close> decoded it; objects keep
    their entries in an association list. A \<open>float64\<close> a document can hold is a rational.
  \<^item> \<open>raw_json\<close> is a \<open>json.RawMessage\<close>: absent, bytes that do not decode, or a document.
  \<^item> \<open>go_error\<close> is the tree that \<open>fmt.Errorf\<close> with \<open>%w\<close> builds, walked by \<open>errors.As\<close> and
    \<open>errors.Is\<close> (\<open>find_err\<close>, \<open>err_is\<close>) in their pre-order, and printed by \<open>error_text\<close>.
  \<^item> \<open>dyn\<close> is the payload of a graph interrupt and the value a run is resumed with.
\<close>

section \<open>JSON documents\<close>

datatype json =
    JNull
  | JBool bool
  | JNum rat
  | JStr string
  | JArr "json list"
  | JObj "(string \<times> json) list"

datatype raw_json = RawNil | RawInvalid string | RawJson json

fun raw_empty :: "raw_json \<Rightarrow> bool" where
  "raw_empty RawNil = True"
| "raw_empty (RawInvalid s) = (s = [])"
| "raw_empty (RawJson _) = False"

fun jfield :: "string \<Rightarrow> json \<Rightarrow> json option" where
  "jfield k (JObj kvs) = map_of kvs k"
| "jfield k _ = None"

section \<open>Payloads of the human-in-the-loop layer\<close>

text \<open>\<open>agent.Decision\<close>, \<open>agent.ApprovalRequest\<close> and \<open>agent.Approvals\<close>.\<close>

record decision =
  dec_approve :: bool
  dec_reason :: string
  dec_arguments :: string

type_synonym approvals = "string \<rightharpoonup> decision"

record approval_request =
  ar_key :: string
  ar_tool :: string
  ar_arguments :: string
  ar_schema :: raw_json
  ar_decided :: approvals

record elicit_request =
  er_message :: string
  er_schema :: string

record elicit_result =
  el_action :: string
  el_content :: "json option"

type_synonym elicitations = "string \<rightharpoonup> elicit_result"

record pending_elicitation =
  pe_key :: string
  pe_request :: elicit_request
  pe_answered :: elicitations

datatype dyn =
    DNil
  | DBool bool
  | DInt int
  | DStr string
  | DApprovals approvals
  | DApproval approval_request
  | DElicitations elicitations
  | DElicitation pending_elicitation

section \<open>Errors\<close>

text \<open>
  \<open>langrails.APIError\<close>; \<open>RetryAfter\<close> is a duration in nanoseconds.
\<close>

record api_error =
  ae_status :: int
  ae_message :: string
  ae_provider :: string
  ae_retry_after :: int

text \<open>
  \<open>Errorf f args\<close> is the value of \<open>fmt.Errorf(f, args...)\<close>: \<open>FWrap\<close> is an argument under
  \<open>%w\<close>, \<open>FShow\<close> an error printed under \<open>%v\<close> and so not part of the chain.
  \<open>Sentinel\<close> is a package-level error variable, compared by identity; \<open>Opaque\<close> an error
  the outside world returned.
\<close>

datatype go_error =
    Errorf string "fmt_arg list"
  | Sentinel string
  | Opaque string
  | APIErr api_error
  | InterruptErr dyn
  | AbortErr go_error
and fmt_arg = FStr string | FInt int | FWrap go_error | FShow go_error

text \<open>The direct children \<open>errors.Unwrap\<close> yields.\<close>

fun unwrap_arg :: "fmt_arg \<Rightarrow> go_error list" where
  "unwrap_arg (FWrap e) = [e]"
| "unwrap_arg _ = []"

fun unwrap :: "go_error \<Rightarrow> go_error list" where
  "unwrap (Errorf f as) = concat (map unwrap_arg as)"
| "unwrap (AbortErr e) = [e]"
| "unwrap _ = []"

text \<open>\<open>errors.As\<close>: the first error of the tree, in pre-order, the target type accepts.\<close>

fun find_err :: "(go_error \<Rightarrow> 'a option) \<Rightarrow> go_error \<Rightarrow> 'a option"
  and find_args :: "(go_error \<Rightarrow> 'a option) \<Rightarrow> fmt_arg list \<Rightarrow> 'a option" where
  "find_err p (Errorf f as) =
     (case p (Errorf f as) of Some a \<Rightarrow> Some a | None \<Rightarrow> find_args p as)"
| "find_err p (AbortErr e) = (case p (AbortErr e) of Some a \<Rightarrow> Some a | None \<Rightarrow> find_err p e)"
| "find_err p e = p e"
| "find_args p [] = None"
| "find_args p (FWrap e # as) =
     (case find_err p e of Some a \<Rightarrow> Some a | None \<Rightarrow> find_args p as)"
| "find_args p (_ # as) = find_args p as"

definition err_is :: "string \<Rightarrow> go_error \<Rightarrow> bool" where
  "err_is name e \<longleftrightarrow> find_err (\<lambda>e. if e = Sentinel name then Some () else None) e \<noteq> None"

fun sel_api :: "go_error \<Rightarrow> api_error option" where
  "sel_api (APIErr a) = Some a"
| "sel_api _ = None"

fun sel_interrupt :: "go_error \<Rightarrow> dyn option" where
  "sel_interrupt (InterruptErr p) = Some p"
| "sel_interrupt _ = None"

fun sel_abort :: "go_error \<Rightarrow> go_error option" where
  "sel_abort (AbortErr e) = Some e"
| "sel_abort _ = None"

definition as_api :: "go_error \<Rightarrow> api_error option" where
  "as_api = find_err sel_api"

lemma as_api_APIErr [simp]: "as_api (APIErr a) = Some a"
  by (simp add: as_api_def)

lemma find_err_wrap1 [simp]:
  "p (Errorf f [FStr s, FWrap e]) = None \<Longrightarrow> find_err p (Errorf f [FStr s, FWrap e]) = find_err p e"
  "p (Errorf f [FWrap e]) = None \<Longrightarrow> find_err p (Errorf f [FWrap e]) = find_err p e"
  by (simp_all split: option.splits)

section \<open>Printing errors\<close>

text \<open>\<open>strconv.Quote\<close> (\<open>%q\<close>); bytes from 0x80 on are kept, as in printable UTF-8 text.\<close>

definition hex_char :: "nat \<Rightarrow> char" where
  "hex_char d = (if d < 10 then char_of (48 + d) else char_of (87 + d))"

definition quote_char :: "char \<Rightarrow> string" where
  "quote_char c =
     (if c = CHR 0x22 then [CHR 0x5C, CHR 0x22]
      else if c = CHR 0x5C then [CHR 0x5C, CHR 0x5C]
      else if c = CHR 0x07 then [CHR 0x5C, CHR ''a'']
      else if c = CHR 0x08 then [CHR 0x5C, CHR ''b'']
      else if c = CHR 0x0C then [CHR 0x5C, CHR ''f'']
      else if c = CHR 0x0A then [CHR 0x5C, CHR ''n'']
      else if c = CHR 0x0D then [CHR 0x5C, CHR ''r'']
      else if c = CHR 0x09 then [CHR 0x5C, CHR ''t'']
      else if c = CHR 0x0B then [CHR 0x5C, CHR ''v'']
      else let n = of_char c :: nat in
        if n < 32 \<or> n = 127 then [CHR 0x5C, CHR ''x'', hex_char (n div 16), hex_char (n mod 16)]
        else [c])"

definition Quote :: "string \<Rightarrow> string" where
  "Quote s = [CHR 0x22] @ concat (map quote_char s) @ [CHR 0x22]"

text \<open>\<open>fmt.Sprintf\<close> for the verbs \<open>%s %v %w %d %q\<close>, and \<open>Error()\<close>.\<close>

definition quote_verb :: "char \<Rightarrow> string \<Rightarrow> string" where
  "quote_verb v s = (if v = CHR ''q'' then Quote s else s)"

fun render :: "string \<Rightarrow> (char \<Rightarrow> string) list \<Rightarrow> string" where
  "render (c # v # f) as =
     (if c = CHR ''%'' then (case as of [] \<Rightarrow> c # v # render f [] | a # as' \<Rightarrow> a v @ render f as')
      else c # render (v # f) as)"
| "render f as = f"

primrec error_text :: "go_error \<Rightarrow> string"
  and arg_text :: "fmt_arg \<Rightarrow> char \<Rightarrow> string" where
  "error_text (Errorf f as) = render f (map arg_text as)"
| "error_text (Sentinel s) = s"
| "error_text (Opaque s) = s"
| "error_text (APIErr a) =
     ae_provider a @ '': api error (status '' @ int_dec (ae_status a) @ ''): '' @ ae_message a"
| "error_text (InterruptErr p) = ''graph: interrupted''"
| "error_text (AbortErr e) = error_text e"
| "arg_text (FStr s) = (\<lambda>v. quote_verb v s)"
| "arg_text (FInt i) = (\<lambda>v. int_dec i)"
| "arg_text (FWrap e) = (\<lambda>v. quote_verb v (error_text e))"
| "arg_text (FShow e) = (\<lambda>v. quote_verb v (error_text e))"

section \<open>The error predicates of the program\<close>

text \<open>\<open>APIError.IsAuthError\<close>, \<open>IsRateLimitError\<close>, \<open>IsServerError\<close>, \<open>IsRetryable\<close>.\<close>

definition IsAuthError :: "api_error \<Rightarrow> bool" where
  "IsAuthError e \<longleftrightarrow> ae_status e = 401 \<or> ae_status e = 403"

definition IsRateLimitError :: "api_error \<Rightarrow> bool" where
  "IsRateLimitError e \<longleftrightarrow> ae_status e = 429"

definition IsServerError :: "api_error \<Rightarrow> bool" where
  "IsServerError e \<longleftrightarrow> ae_status e \<ge> 500 \<and> ae_status e < 600"

definition IsRetryable :: "api_error \<Rightarrow> bool" where
  "IsRetryable e \<longleftrightarrow> IsRateLimitError e \<or> IsServerError e"

text \<open>\<open>graph.asInterrupt\<close> and \<open>agent.aborts\<close>.\<close>

definition asInterrupt :: "go_error \<Rightarrow> dyn option" where
  "asInterrupt e = find_err sel_interrupt e"

definition asAbort :: "go_error \<Rightarrow> go_error option" where
  "asAbort e = find_err sel_abort e"

definition aborts :: "go_error \<Rightarrow> bool" where
  "aborts e \<longleftrightarrow> asAbort e \<noteq> None \<or> asInterrupt e \<noteq> None"

lemma asInterrupt_simps [simp]:
  "asInterrupt (InterruptErr p) = Some p"
  "asInterrupt (Opaque s) = None"
  "asInterrupt (Sentinel s) = None"
  "asInterrupt (APIErr a) = None"
  "asInterrupt (AbortErr e) = asInterrupt e"
  by (simp_all add: asInterrupt_def)

text \<open>Wrapping keeps an interrupt visible, whatever else the message carries.\<close>

lemma find_args_append:
  "find_args p (as @ bs) = (case find_args p as of Some a \<Rightarrow> Some a | None \<Rightarrow> find_args p bs)"
proof (induction as)
  case (Cons a as)
  then show ?case by (cases a) (simp_all split: option.splits)
qed simp

lemma asInterrupt_Errorf: "asInterrupt (Errorf f as) = find_args sel_interrupt as"
  by (simp add: asInterrupt_def)

lemma asInterrupt_wrap: "asInterrupt (Errorf f (as @ [FWrap e])) =
  (case find_args sel_interrupt as of Some p \<Rightarrow> Some p | None \<Rightarrow> asInterrupt e)"
  by (simp add: asInterrupt_Errorf find_args_append asInterrupt_def split: option.splits)

lemma asInterrupt_wrap1 [simp]:
  "asInterrupt (Errorf f [FWrap e]) = asInterrupt e"
  "asInterrupt (Errorf f [FStr s, FWrap e]) = asInterrupt e"
  "asInterrupt (Errorf f [FStr s, FInt i, FWrap e]) = asInterrupt e"
  by (simp_all add: asInterrupt_def split: option.splits)

lemma aborts_Abort [simp]: "aborts (AbortErr e)"
  by (simp add: aborts_def asAbort_def)

lemma aborts_Interrupt [simp]: "aborts (InterruptErr p)"
  by (simp add: aborts_def)

lemma aborts_Opaque [simp]: "\<not> aborts (Opaque s)"
  by (simp add: aborts_def asAbort_def)

end
