(* ===== verification/Messages.thy ===== *)
theory Messages
  imports Go_Values
begin

text \<open>
  The unified request and response types of package \<open>langrails\<close> (\<open>message.go\<close>,
  \<open>provider.go\<close>, \<open>toolchoice.go\<close>, \<open>servertool.go\<close>, \<open>reasoning.go\<close>).

  The string types of the source (\<open>Role\<close>, content part types, tool choice modes) stay
  strings, since every switch over them has a case for the values it does not name. A nil
  pointer is \<open>None\<close>. A \<open>float64\<close> parameter is a rational: it is only passed on. Token
  counts are \<open>int\<close>: sums of counts of real responses are far below \<open>2 ^ 63\<close>.
\<close>

section \<open>Roles and content types\<close>

definition RoleSystem :: string where [simp]: "RoleSystem = ''system''"
definition RoleUser :: string where [simp]: "RoleUser = ''user''"
definition RoleAssistant :: string where [simp]: "RoleAssistant = ''assistant''"
definition RoleTool :: string where [simp]: "RoleTool = ''tool''"

definition ContentText :: string where [simp]: "ContentText = ''text''"
definition ContentImage :: string where [simp]: "ContentImage = ''image''"
definition ContentAudio :: string where [simp]: "ContentAudio = ''audio''"
definition ContentDocument :: string where [simp]: "ContentDocument = ''document''"

section \<open>Messages\<close>

record content_part =
  cp_type :: string
  cp_text :: string
  cp_image_url :: string
  cp_media_type :: string
  cp_data :: string
  cp_url :: string
  cp_filename :: string

definition zero_part :: content_part where
  "zero_part = \<lparr>cp_type = [], cp_text = [], cp_image_url = [], cp_media_type = [],
     cp_data = [], cp_url = [], cp_filename = []\<rparr>"

definition TextPart :: "string \<Rightarrow> content_part" where
  "TextPart text = zero_part\<lparr>cp_type := ''text'', cp_text := text\<rparr>"

definition ImageURLPart :: "string \<Rightarrow> content_part" where
  "ImageURLPart url = zero_part\<lparr>cp_type := ''image'', cp_image_url := url\<rparr>"

definition ImageBase64Part :: "string \<Rightarrow> string \<Rightarrow> content_part" where
  "ImageBase64Part data mediaType =
     zero_part\<lparr>cp_type := ''image'', cp_image_url := ''data:'' @ mediaType @ '';base64,'' @ data\<rparr>"

definition AudioPart :: "string \<Rightarrow> string \<Rightarrow> content_part" where
  "AudioPart data mediaType =
     zero_part\<lparr>cp_type := ContentAudio, cp_data := data, cp_media_type := mediaType\<rparr>"

definition DocumentPart :: "string \<Rightarrow> string \<Rightarrow> string \<Rightarrow> content_part" where
  "DocumentPart data mediaType filename =
     zero_part\<lparr>cp_type := ContentDocument, cp_data := data, cp_media_type := mediaType,
       cp_filename := filename\<rparr>"

definition DocumentURLPart :: "string \<Rightarrow> string \<Rightarrow> content_part" where
  "DocumentURLPart url mediaType =
     zero_part\<lparr>cp_type := ContentDocument, cp_url := url, cp_media_type := mediaType\<rparr>"

text \<open>The metadata map of a tool call is an association list; a nil map is the empty list.\<close>

record tool_call =
  tc_id :: string
  tc_name :: string
  tc_arguments :: string
  tc_metadata :: "(string \<times> string) list"

definition zero_call :: tool_call where
  "zero_call = \<lparr>tc_id = [], tc_name = [], tc_arguments = [], tc_metadata = []\<rparr>"

record message =
  msg_role :: string
  msg_content :: string
  msg_parts :: "content_part list"
  msg_tool_call_id :: string
  msg_tool_calls :: "tool_call list"

definition zero_msg :: message where
  "zero_msg = \<lparr>msg_role = [], msg_content = [], msg_parts = [], msg_tool_call_id = [],
     msg_tool_calls = []\<rparr>"

definition text_msg :: "string \<Rightarrow> string \<Rightarrow> message" where
  "text_msg role content = zero_msg\<lparr>msg_role := role, msg_content := content\<rparr>"

record tool_definition =
  td_name :: string
  td_description :: string
  td_parameters :: raw_json

section \<open>Tool choice, server tools, reasoning\<close>

definition ToolChoiceAuto :: string where [simp]: "ToolChoiceAuto = ''auto''"
definition ToolChoiceNone :: string where [simp]: "ToolChoiceNone = ''none''"
definition ToolChoiceRequired :: string where [simp]: "ToolChoiceRequired = ''required''"
definition ToolChoiceTool :: string where [simp]: "ToolChoiceTool = ''tool''"

record tool_choice =
  tch_mode :: string
  tch_name :: string

definition ServerToolWebSearch :: string where [simp]: "ServerToolWebSearch = ''web_search''"

record web_search_options =
  ws_max_uses :: int
  ws_allowed :: "string list"
  ws_blocked :: "string list"
  ws_location :: string

record server_tool =
  st_type :: string
  st_web_search :: "web_search_options option"

record citation =
  cit_url :: string
  cit_title :: string
  cit_snippet :: string
  cit_start :: int
  cit_end :: int

definition Requested :: "string \<Rightarrow> bool" where
  "Requested e \<longleftrightarrow> e \<noteq> [] \<and> e \<noteq> ''none''"

definition BudgetTokens :: "string \<Rightarrow> int" where
  "BudgetTokens e =
     (if e = ''minimal'' then 1024
      else if e = ''low'' then 4096
      else if e = ''medium'' then 8192
      else if e = ''high'' then 16384
      else 0)"

text \<open>A level with a budget is always one the caller asked for.\<close>

lemma BudgetTokens_Requested: "BudgetTokens e \<noteq> 0 \<Longrightarrow> Requested e"
  by (auto simp: BudgetTokens_def Requested_def split: if_splits)

section \<open>Requests, responses, usage\<close>

record completion_request =
  req_model :: string
  req_messages :: "message list"
  req_system :: string
  req_temperature :: "rat option"
  req_max_tokens :: "int option"
  req_top_p :: "rat option"
  req_top_k :: "int option"
  req_freq_penalty :: "rat option"
  req_pres_penalty :: "rat option"
  req_stop :: "string list"
  req_seed :: "int option"
  req_tools :: "tool_definition list"
  req_output_schema :: raw_json
  req_effort :: string
  req_budget :: "int option"
  req_tool_choice :: "tool_choice option"
  req_server_tools :: "server_tool list"
  req_response_format :: string
  req_cache_control :: bool

definition zero_request :: completion_request where
  "zero_request = \<lparr>req_model = [], req_messages = [], req_system = [], req_temperature = None,
     req_max_tokens = None, req_top_p = None, req_top_k = None, req_freq_penalty = None,
     req_pres_penalty = None, req_stop = [], req_seed = None, req_tools = [],
     req_output_schema = RawNil, req_effort = [], req_budget = None, req_tool_choice = None,
     req_server_tools = [], req_response_format = [], req_cache_control = False\<rparr>"

record token_usage =
  prompt_tokens :: int
  completion_tokens :: int
  total_tokens :: int
  cached_tokens :: int
  cache_creation_tokens :: int
  reasoning_tokens :: int

definition zero_usage :: token_usage where
  "zero_usage = \<lparr>prompt_tokens = 0, completion_tokens = 0, total_tokens = 0,
     cached_tokens = 0, cache_creation_tokens = 0, reasoning_tokens = 0\<rparr>"

record completion_response =
  resp_content :: string
  resp_thinking :: string
  resp_tool_calls :: "tool_call list"
  resp_citations :: "citation list"
  resp_usage :: token_usage
  resp_finish :: string
  resp_model :: string

definition zero_response :: completion_response where
  "zero_response = \<lparr>resp_content = [], resp_thinking = [], resp_tool_calls = [],
     resp_citations = [], resp_usage = zero_usage, resp_finish = [], resp_model = []\<rparr>"

lemmas message_defs [record_defs] =
  zero_part_def zero_call_def zero_msg_def text_msg_def zero_request_def zero_usage_def
  zero_response_def

section \<open>Providers\<close>

text \<open>
  \<open>langrails.Provider\<close>: a call reads and changes the world \<open>'w\<close> (the remote service, the
  clock, cancellation of the context) and returns a response or an error. A stream that
  opened is the finite list of events its channel delivers before it is closed.

  \<open>ctx_ops\<close> is what the program asks of a \<open>context.Context\<close> and of the runtime's timers:
  \<open>ctx_err\<close> is \<open>ctx.Err()\<close>, and \<open>ctx_wait d\<close> is a \<open>select\<close> over a timer of \<open>d\<close>
  nanoseconds and \<open>ctx.Done()\<close>, true when the timer won.
\<close>

type_synonym 'w complete_fn = "completion_request \<Rightarrow> ('w, go_error, completion_response) io"

record 'w ctx_ops =
  ctx_err :: "'w \<Rightarrow> go_error option"
  ctx_wait :: "int \<Rightarrow> 'w \<Rightarrow> bool \<times> 'w"

end
