(* ===== verification/Conversation_Memory.thy ===== *)
theory Conversation_Memory
  imports Messages
begin

text \<open>
  Conversation memory (\<open>memory/memory.go\<close>): a message history with a message limit and an
  estimated token limit. Every method takes the mutex for its whole body, so a concurrent
  history is some order of these operations.

  \<open>trim\<close>'s token loop has no bound of its own. It is modelled as a partial function whose
  value \<open>None\<close> is "the loop does not end" (with the lock held), and the theory determines
  exactly when that happens. \<open>Last\<close> of a negative number is the panic of \<open>make\<close>, \<open>None\<close>.
\<close>

section \<open>State and options\<close>

record memory =
  mem_messages :: "message list"
  mem_max_messages :: int
  mem_max_tokens :: int

definition WithMaxMessages :: "int \<Rightarrow> memory \<Rightarrow> memory" where
  "WithMaxMessages n m = m\<lparr>mem_max_messages := n\<rparr>"

definition WithMaxTokens :: "int \<Rightarrow> memory \<Rightarrow> memory" where
  "WithMaxTokens n m = m\<lparr>mem_max_tokens := n\<rparr>"

definition New_memory :: "(memory \<Rightarrow> memory) list \<Rightarrow> memory" where
  "New_memory opts =
     foldl (\<lambda>m opt. opt m) \<lparr>mem_messages = [], mem_max_messages = 0, mem_max_tokens = 0\<rparr> opts"

section \<open>Operations\<close>

definition estimateTokens :: "string \<Rightarrow> int" where
  "estimateTokens text = int (length text div 4 + 1)"

fun tokenCount :: "message list \<Rightarrow> int" where
  "tokenCount [] = 0"
| "tokenCount (msg # msgs) = estimateTokens (msg_content msg) + 4 + tokenCount msgs"

text \<open>The index of the first message that is not a system message.\<close>

fun system_start :: "message list \<Rightarrow> nat" where
  "system_start [] = 0"
| "system_start (msg # msgs) = (if msg_role msg = RoleSystem then Suc (system_start msgs) else 0)"

fun remove_loop :: "nat \<Rightarrow> nat \<Rightarrow> message list \<Rightarrow> message list" where
  "remove_loop 0 start msgs = msgs"
| "remove_loop (Suc n) start msgs =
     (if Suc start < length msgs
      then remove_loop n start (take start msgs @ drop (Suc start) msgs)
      else msgs)"

definition removeOldest :: "message list \<Rightarrow> int \<Rightarrow> message list" where
  "removeOldest msgs n = remove_loop (nat n) (system_start msgs) msgs"

partial_function (option) trim_tokens :: "int \<Rightarrow> message list \<Rightarrow> message list option" where
  "trim_tokens maxTokens msgs =
     (if tokenCount msgs > maxTokens \<and> length msgs > 1
      then trim_tokens maxTokens (removeOldest msgs 1)
      else Some msgs)"

definition trim_count :: "memory \<Rightarrow> message list \<Rightarrow> message list" where
  "trim_count m msgs =
     (if mem_max_messages m > 0 \<and> int (length msgs) > mem_max_messages m
      then removeOldest msgs (int (length msgs) - mem_max_messages m) else msgs)"

definition trim :: "memory \<Rightarrow> memory option" where
  "trim m =
     (let msgs = trim_count m (mem_messages m)
      in if mem_max_tokens m > 0
         then (case trim_tokens (mem_max_tokens m) msgs of
                 None \<Rightarrow> None
               | Some msgs' \<Rightarrow> Some (m\<lparr>mem_messages := msgs'\<rparr>))
         else Some (m\<lparr>mem_messages := msgs\<rparr>))"

definition Add :: "memory \<Rightarrow> message \<Rightarrow> memory option" where
  "Add m msg = trim (m\<lparr>mem_messages := mem_messages m @ [msg]\<rparr>)"

definition AddUserMessage :: "memory \<Rightarrow> string \<Rightarrow> memory option" where
  "AddUserMessage m content = Add m (text_msg ''user'' content)"

definition AddAssistantMessage :: "memory \<Rightarrow> string \<Rightarrow> memory option" where
  "AddAssistantMessage m content = Add m (text_msg ''assistant'' content)"

definition Messages :: "memory \<Rightarrow> message list" where
  "Messages m = mem_messages m"

definition Len :: "memory \<Rightarrow> int" where
  "Len m = int (length (mem_messages m))"

definition TokenCount :: "memory \<Rightarrow> int" where
  "TokenCount m = tokenCount (mem_messages m)"

definition Clear :: "memory \<Rightarrow> memory" where
  "Clear m = m\<lparr>mem_messages := []\<rparr>"

definition Last :: "memory \<Rightarrow> int \<Rightarrow> message list option" where
  "Last m n =
     (if n \<ge> int (length (mem_messages m)) then Some (mem_messages m)
      else if n < 0 then None
      else Some (drop (length (mem_messages m) - nat n) (mem_messages m)))"

section \<open>Removing the oldest messages\<close>

definition is_system :: "message \<Rightarrow> bool" where
  "is_system msg \<longleftrightarrow> msg_role msg = RoleSystem"

lemma system_start_eq: "system_start msgs = length (takeWhile is_system msgs)"
  by (induction msgs) (auto simp: is_system_def)

lemma system_start_le: "system_start msgs \<le> length msgs"
  by (induction msgs) auto

text \<open>The loop removes one block, just after the leading system messages.\<close>

lemma remove_loop_block:
  "remove_loop n start msgs = take start msgs @ drop (start + min n (length msgs - Suc start)) msgs"
proof (induction n start msgs rule: remove_loop.induct)
  case (1 start msgs)
  then show ?case by simp
next
  case (2 n start msgs)
  show ?case
  proof (cases "Suc start < length msgs")
    case True
    let ?msgs = "take start msgs @ drop (Suc start) msgs"
    from True have len: "length ?msgs = length msgs - 1" "length (take start msgs) = start" by auto
    from True have "remove_loop (Suc n) start msgs = remove_loop n start ?msgs" by simp
    also have "\<dots> = take start ?msgs @ drop (start + min n (length ?msgs - Suc start)) ?msgs"
      by (rule "2.IH") (rule True)
    also have "\<dots> = take start msgs
        @ drop (Suc (start + min n (length msgs - 1 - Suc start))) msgs"
      using len by (simp add: add.commute)
    also have "Suc (start + min n (length msgs - 1 - Suc start))
        = start + min (Suc n) (length msgs - Suc start)"
      using True by (simp add: min_def) arith
    finally show ?thesis .
  qed simp
qed

lemma removeOldest_block:
  "removeOldest msgs n = take (system_start msgs) msgs
     @ drop (system_start msgs + min (nat n) (length msgs - Suc (system_start msgs))) msgs"
  by (simp add: removeOldest_def remove_loop_block)

lemma subseq_drop_block: "i \<le> j \<Longrightarrow> subseq (take i xs @ drop j xs) xs"
proof -
  assume "i \<le> j"
  then have "drop j xs = drop (j - i) (drop i xs)" by simp
  then have "subseq (drop j xs) (drop i xs)"
    by (metis suffix_drop suffix_imp_subseq)
  then have "subseq (take i xs @ drop j xs) (take i xs @ drop i xs)"
    by (rule list_emb_append_mono [OF subseq_order.refl])
  then show ?thesis by simp
qed

lemma removeOldest_subseq: "subseq (removeOldest msgs n) msgs"
  by (simp add: removeOldest_block subseq_drop_block)

lemma prefix_takeWhile_take: "prefix (takeWhile P xs) (take (length (takeWhile P xs)) xs @ ys)"
  by (metis prefix_append prefix_order.refl takeWhile_eq_take)

lemma removeOldest_leading: "prefix (takeWhile is_system msgs) (removeOldest msgs n)"
  by (simp add: removeOldest_block system_start_eq prefix_takeWhile_take)

lemma removeOldest_last:
  assumes "msgs \<noteq> []"
  shows "removeOldest msgs n \<noteq> [] \<and> last (removeOldest msgs n) = last msgs"
proof -
  let ?s = "system_start msgs"
  let ?j = "?s + min (nat n) (length msgs - Suc ?s)"
  show ?thesis
  proof (cases "?j < length msgs")
    case True
    then show ?thesis by (simp add: removeOldest_block last_append)
  next
    case False
    with assms have "?s = length msgs"
      using system_start_le [of msgs] by (simp add: min_def split: if_splits)
    with assms show ?thesis by (simp add: removeOldest_block)
  qed
qed

lemma removeOldest_length:
  assumes "msgs \<noteq> []"
  shows "length (removeOldest msgs n)
    = max (length msgs - nat n) (min (length msgs) (Suc (system_start msgs)))"
  using assms system_start_le [of msgs] by (simp add: removeOldest_block min_def max_def) arith

section \<open>The token loop\<close>

text \<open>Dropping the oldest message that is not a system message.\<close>

fun drop_user :: "message list \<Rightarrow> message list" where
  "drop_user [] = []"
| "drop_user (x # xs) = (if is_system x then x # drop_user xs else xs)"

lemma removeOldest_1: "removeOldest (b @ [l]) 1 = drop_user b @ [l]"
proof -
  let ?s = "\<lambda>b. system_start (b @ [l])"
  have "take (?s b) (b @ [l]) @ drop (?s b + min (Suc 0) (length b - ?s b)) (b @ [l])
      = drop_user b @ [l]"
    by (induction b) (auto simp: is_system_def)
  then show ?thesis by (simp add: removeOldest_block)
qed

lemma drop_user_system [simp]:
  "filter is_system (drop_user b) = filter is_system b"
  "Bex (set (drop_user b)) is_system \<longleftrightarrow> Bex (set b) is_system"
  by (induction b) auto

lemma drop_user_stuck: "(\<forall>x\<in>set b. is_system x) \<Longrightarrow> drop_user b = b"
  by (induction b) auto

lemma drop_user_measure:
  "\<not> (\<forall>x\<in>set b. is_system x) \<Longrightarrow>
   Suc (length (filter (\<lambda>x. \<not> is_system x) (drop_user b))) = length (filter (\<lambda>x. \<not> is_system x) b)"
  by (induction b) auto

lemma drop_user_subseq: "subseq (drop_user b) b"
  by (induction b) auto

lemma drop_user_leading: "prefix (takeWhile is_system b) (drop_user b)"
  by (induction b) auto

lemma drop_user_leading_snoc:
  "prefix (takeWhile is_system (b @ [l])) (takeWhile is_system (drop_user b @ [l]))"
  by (induction b) auto

lemma tokenCount_append [simp]: "tokenCount (a @ b) = tokenCount a + tokenCount b"
  by (induction a) auto

lemma estimateTokens_pos: "0 < estimateTokens s"
  by (simp add: estimateTokens_def)

lemma tokenCount_nonneg: "0 \<le> tokenCount a"
proof (induction a)
  case (Cons x a)
  then show ?case using estimateTokens_pos [of "msg_content x"] by auto
qed simp

lemma tokenCount_filter_le: "tokenCount (filter P a) \<le> tokenCount a"
proof (induction a)
  case (Cons x a)
  then show ?case using estimateTokens_pos [of "msg_content x"] by auto
qed simp

lemma trim_tokens_snoc:
  "trim_tokens mx (b @ [l]) =
     (if tokenCount (b @ [l]) > mx \<and> b \<noteq> [] then trim_tokens mx (drop_user b @ [l])
      else Some (b @ [l]))"
  using trim_tokens.simps [of mx "b @ [l]"] by (simp add: removeOldest_1)

text \<open>
  A history whose messages before the last are all system messages is a fixed point of the
  loop body: over budget, the loop never ends.
\<close>

lemma trim_tokens_stuck:
  assumes "b \<noteq> []" "\<forall>x\<in>set b. is_system x" "tokenCount (b @ [l]) > mx"
  shows "trim_tokens mx (b @ [l]) = None"
proof (rule ccontr)
  assume "trim_tokens mx (b @ [l]) \<noteq> None"
  then obtain r where ret: "trim_tokens mx (b @ [l]) = Some r" by auto
  have "mx = mx \<longrightarrow> b @ [l] = b @ [l] \<longrightarrow> \<not> tokenCount (b @ [l]) > mx"
  proof (rule trim_tokens.raw_induct
      [where P = "\<lambda>m msgs r. m = mx \<longrightarrow> msgs = b @ [l] \<longrightarrow> \<not> tokenCount (b @ [l]) > mx", OF _ ret],
      intro impI)
    fix f m msgs r
    assume IH: "\<And>m msgs r. f m msgs = Some r \<Longrightarrow>
        m = mx \<longrightarrow> msgs = b @ [l] \<longrightarrow> \<not> tokenCount (b @ [l]) > mx"
      and eq: "(if tokenCount msgs > m \<and> length msgs > 1 then f m (removeOldest msgs 1)
        else Some msgs) = Some r"
      and m: "m = mx" and msgs: "msgs = b @ [l]"
    show "\<not> tokenCount (b @ [l]) > mx"
      using IH [of mx "b @ [l]" r] eq assms(1,2) unfolding m msgs removeOldest_1
      by (auto simp: drop_user_stuck split: if_splits)
  qed
  with assms(3) show False by simp
qed

lemma trim_tokens_None_iff:
  "trim_tokens mx (b @ [l]) = None \<longleftrightarrow>
     Bex (set b) is_system \<and> tokenCount (filter is_system b @ [l]) > mx"
proof (induction "length (filter (\<lambda>x. \<not> is_system x) b)" arbitrary: b rule: less_induct)
  case less
  show ?case
  proof (cases "tokenCount (b @ [l]) > mx \<and> b \<noteq> []")
    case False
    then have "trim_tokens mx (b @ [l]) = Some (b @ [l])"
      using trim_tokens_snoc [of mx b l] by (simp only: if_False)
    with False show ?thesis using tokenCount_filter_le [of is_system b] by auto
  next
    case True
    show ?thesis
    proof (cases "\<forall>x\<in>set b. is_system x")
      case all: True
      then have "filter is_system b = b" "Bex (set b) is_system"
        using True by (auto simp: filter_id_conv neq_Nil_conv)
      with all True show ?thesis by (simp add: trim_tokens_stuck)
    next
      case some: False
      have "length (filter (\<lambda>x. \<not> is_system x) (drop_user b)) < length (filter (\<lambda>x. \<not> is_system x) b)"
        using drop_user_measure [OF some] by simp
      from less [OF this] True show ?thesis by (subst trim_tokens_snoc) simp
    qed
  qed
qed

lemma trim_tokens_Some:
  assumes "trim_tokens mx (b @ [l]) = Some r"
  shows "(\<exists>c. r = c @ [l] \<and> subseq c b) \<and>
    prefix (takeWhile is_system (b @ [l])) r \<and> (tokenCount r \<le> mx \<or> r = [l])"
  using assms
proof (induction "length (filter (\<lambda>x. \<not> is_system x) b)" arbitrary: b rule: less_induct)
  case less
  show ?case
  proof (cases "tokenCount (b @ [l]) > mx \<and> b \<noteq> []")
    case False
    with less.prems have "r = b @ [l]"
      using trim_tokens_snoc [of mx b l] by (simp only: if_False) simp
    with False show ?thesis
      using takeWhile_is_prefix [of is_system "b @ [l]"] by (auto simp: not_less)
  next
    case True
    then have some: "\<not> (\<forall>x\<in>set b. is_system x)"
      using trim_tokens_stuck [of b mx l] less.prems by auto
    have dec: "length (filter (\<lambda>x. \<not> is_system x) (drop_user b))
        < length (filter (\<lambda>x. \<not> is_system x) b)"
      using drop_user_measure [OF some] by simp
    from True less.prems have "trim_tokens mx (drop_user b @ [l]) = Some r"
      by (subst (asm) trim_tokens_snoc) simp
    from less.hyps [OF dec this] obtain c where c: "r = c @ [l]" "subseq c (drop_user b)"
      "prefix (takeWhile is_system (drop_user b @ [l])) r" "tokenCount r \<le> mx \<or> r = [l]"
      by blast
    from c(2) drop_user_subseq have "subseq c b" by (rule subseq_order.trans)
    moreover have "prefix (takeWhile is_system (b @ [l])) r"
      using drop_user_leading_snoc c(3) by (rule prefix_order.trans)
    ultimately show ?thesis using c by blast
  qed
qed

section \<open>Adding a message\<close>

text \<open>What the count limit leaves of a history.\<close>

lemma trim_count_facts:
  assumes "msgs \<noteq> []"
  shows "subseq (trim_count m msgs) msgs" "trim_count m msgs \<noteq> []"
    "last (trim_count m msgs) = last msgs"
    "prefix (takeWhile is_system msgs) (trim_count m msgs)"
    "0 < mem_max_messages m \<Longrightarrow>
       int (length (trim_count m msgs)) \<le> max (mem_max_messages m) (int (system_start msgs) + 1)"
  using assms removeOldest_last [OF assms] removeOldest_subseq [of msgs]
    removeOldest_length [OF assms] removeOldest_leading [of msgs] takeWhile_is_prefix [of is_system msgs]
  by (auto simp: trim_count_def)

lemma Add_unfold:
  "Add m msg =
     (let msgs = trim_count m (mem_messages m @ [msg])
      in if mem_max_tokens m > 0
         then map_option (\<lambda>msgs'. m\<lparr>mem_messages := msgs'\<rparr>) (trim_tokens (mem_max_tokens m) msgs)
         else Some (m\<lparr>mem_messages := msgs\<rparr>))"
  by (simp add: Add_def trim_def Let_def trim_count_def split: option.split)

lemma prefix_takeWhile_mono:
  assumes "prefix (takeWhile P xs) ys"
  shows "prefix (takeWhile P xs) (takeWhile P ys)"
proof -
  from assms obtain zs where "ys = takeWhile P xs @ zs" by (auto simp: prefix_def)
  moreover have "takeWhile P (takeWhile P xs @ zs) = takeWhile P xs @ takeWhile P zs"
    by (rule takeWhile_append2) (auto dest: set_takeWhileD)
  ultimately show ?thesis by simp
qed

lemma trim_count_snoc: "\<exists>c. trim_count m (msgs @ [msg]) = c @ [msg]"
  using trim_count_facts(2,3) [of "msgs @ [msg]" m] by (metis append_butlast_last_id last_snoc snoc_eq_iff_butlast)



text \<open>
  C39. Exactly when \<open>Add\<close> never returns (holding the lock): a token budget is set, a
  system message other than the new message survives the count limit, and the system
  messages with the new message alone exceed the budget. In every other case \<open>Add\<close>
  terminates.
\<close>

theorem memory_add_diverges_iff:
  "Add m msg = None \<longleftrightarrow>
     mem_max_tokens m > 0 \<and>
     (let kept = butlast (trim_count m (Messages m @ [msg]))
      in Bex (set kept) is_system \<and> tokenCount (filter is_system kept @ [msg]) > mem_max_tokens m)"
proof -
  obtain c where c: "trim_count m (mem_messages m @ [msg]) = c @ [msg]" using trim_count_snoc by blast
  then show ?thesis
    by (simp add: Add_unfold Messages_def Let_def trim_tokens_None_iff del: tokenCount_append)
qed

text \<open>
  The chat loop of the documentation can hang: after a system prompt, a first user
  message too long for the token budget makes \<open>Add\<close> loop for ever, whatever the
  message limit above one is.
\<close>

theorem memory_chat_loop_hangs:
  assumes "mem_max_tokens m = budget" "0 < budget" "Messages m = []"
    "mem_max_messages m \<le> 0 \<or> 1 < mem_max_messages m"
    "estimateTokens prompt + estimateTokens question + 8 > budget"
  shows "\<exists>m1. Add m (text_msg ''system'' prompt) = Some m1 \<and> AddUserMessage m1 question = None"
proof -
  let ?s = "text_msg ''system'' prompt" and ?u = "text_msg ''user'' question"
  let ?m1 = "m\<lparr>mem_messages := [?s]\<rparr>"
  have sys: "is_system ?s" by (simp add: is_system_def text_msg_def zero_msg_def)
  have "trim_count m [?s] = [?s]" using assms(4) by (auto simp: trim_count_def)
  then have add1: "Add m ?s = Some ?m1"
    using assms(3) trim_tokens_snoc [of budget "[]" ?s] assms(1)
    by (simp add: Add_unfold Messages_def Let_def)
  have "trim_count ?m1 [?s, ?u] = [?s, ?u]" using assms(4) by (auto simp: trim_count_def)
  then have "Add ?m1 ?u = None"
    using assms sys unfolding memory_add_diverges_iff
    by (simp add: Messages_def Let_def text_msg_def zero_msg_def)
  with add1 show ?thesis unfolding AddUserMessage_def by blast
qed

theorem memory_chat_loop_hangs_witness:
  "\<exists>m1. Add (New_memory [WithMaxTokens 8]) (text_msg ''system'' ''be brief'') = Some m1
     \<and> AddUserMessage m1 ''hello'' = None"
  by (rule memory_chat_loop_hangs [where budget = 8])
    (simp_all add: New_memory_def WithMaxTokens_def Messages_def estimateTokens_def)

text \<open>
  \<open>Last(n)\<close> returns the newest \<open>min n len\<close> messages for every non-negative \<open>n\<close>,
  and panics exactly on a negative one.
\<close>

theorem memory_last_spec:
  "Last m n = (if n < 0 then None
     else Some (drop (length (Messages m) - nat (min n (Len m))) (Messages m)))"
  by (auto simp: Last_def Messages_def Len_def min_def nat_le_iff)

end
