(* ===== verification/Streaming.thy ===== *)
theory Streaming
  imports Messages
begin

text \<open>
  Streaming events and their accumulation (\<open>stream.go\<close>). A stream is the list of events
  its channel delivers. \<open>StreamAccumulator\<close> is the record of the source's four fields and
  \<open>acc_add\<close> its \<open>Add\<close>; \<open>CollectStream\<close> is the loop over a whole stream. The closed forms
  at the end say what a stream assembles to, independently of the order of the loop.
\<close>

section \<open>Events\<close>

definition EventContent :: string where [simp]: "EventContent = ''content''"
definition EventReasoning :: string where [simp]: "EventReasoning = ''reasoning''"
definition EventCitation :: string where [simp]: "EventCitation = ''citation''"
definition EventToolCall :: string where [simp]: "EventToolCall = ''tool_call''"
definition EventToolCallDelta :: string where [simp]: "EventToolCallDelta = ''tool_call_delta''"
definition EventDone :: string where [simp]: "EventDone = ''done''"
definition EventError :: string where [simp]: "EventError = ''error''"

record tool_call_delta =
  tcd_index :: int
  tcd_id :: string
  tcd_name :: string
  tcd_arguments :: string

record stream_event =
  ev_type :: string
  ev_content :: string
  ev_reasoning :: string
  ev_citation :: "citation option"
  ev_tool_call :: "tool_call option"
  ev_delta :: "tool_call_delta option"
  ev_error :: "go_error option"
  ev_usage :: "token_usage option"

definition zero_event :: stream_event where
  "zero_event = \<lparr>ev_type = [], ev_content = [], ev_reasoning = [], ev_citation = None,
     ev_tool_call = None, ev_delta = None, ev_error = None, ev_usage = None\<rparr>"

text \<open>The event literals the providers send.\<close>

definition content_event :: "string \<Rightarrow> stream_event" where
  "content_event s = zero_event\<lparr>ev_type := EventContent, ev_content := s\<rparr>"

definition reasoning_event :: "string \<Rightarrow> stream_event" where
  "reasoning_event s = zero_event\<lparr>ev_type := EventReasoning, ev_reasoning := s\<rparr>"

definition tool_call_event :: "tool_call \<Rightarrow> stream_event" where
  "tool_call_event c = zero_event\<lparr>ev_type := EventToolCall, ev_tool_call := Some c\<rparr>"

definition delta_event :: "tool_call_delta \<Rightarrow> stream_event" where
  "delta_event d = zero_event\<lparr>ev_type := EventToolCallDelta, ev_delta := Some d\<rparr>"

definition usage_event :: "token_usage \<Rightarrow> stream_event" where
  "usage_event u = zero_event\<lparr>ev_usage := Some u\<rparr>"

definition error_event :: "go_error \<Rightarrow> stream_event" where
  "error_event e = zero_event\<lparr>ev_type := EventError, ev_error := Some e\<rparr>"

definition done_event :: stream_event where
  "done_event = zero_event\<lparr>ev_type := EventDone\<rparr>"

lemmas event_defs [record_defs] =
  zero_event_def content_event_def reasoning_event_def tool_call_event_def delta_event_def
  usage_event_def error_event_def done_event_def

type_synonym 'w stream_fn = "completion_request \<Rightarrow> ('w, go_error, stream_event list) io"

record 'w provider =
  Complete :: "'w complete_fn"
  Stream :: "'w stream_fn"

section \<open>The accumulator\<close>

record accumulator =
  acc_content :: string
  acc_reasoning :: string
  acc_resp :: completion_response
  acc_err :: "go_error option"

definition acc_zero :: accumulator where
  "acc_zero = \<lparr>acc_content = [], acc_reasoning = [], acc_resp = zero_response, acc_err = None\<rparr>"

text \<open>The switch on the event's type, then the usage every event may carry.\<close>

definition acc_switch :: "accumulator \<Rightarrow> stream_event \<Rightarrow> accumulator" where
  "acc_switch a ev =
     (if ev_type ev = EventContent then a\<lparr>acc_content := acc_content a @ ev_content ev\<rparr>
      else if ev_type ev = EventReasoning then a\<lparr>acc_reasoning := acc_reasoning a @ ev_reasoning ev\<rparr>
      else if ev_type ev = EventToolCall then
        (case ev_tool_call ev of None \<Rightarrow> a
         | Some c \<Rightarrow> a\<lparr>acc_resp := acc_resp a
             \<lparr>resp_tool_calls := resp_tool_calls (acc_resp a) @ [c]\<rparr>\<rparr>)
      else if ev_type ev = EventCitation then
        (case ev_citation ev of None \<Rightarrow> a
         | Some c \<Rightarrow> a\<lparr>acc_resp := acc_resp a
             \<lparr>resp_citations := resp_citations (acc_resp a) @ [c]\<rparr>\<rparr>)
      else if ev_type ev = EventError then
        (if ev_error ev \<noteq> None \<and> acc_err a = None then a\<lparr>acc_err := ev_error ev\<rparr> else a)
      else a)"

definition acc_usage :: "accumulator \<Rightarrow> stream_event \<Rightarrow> accumulator" where
  "acc_usage a ev = (case ev_usage ev of None \<Rightarrow> a
     | Some u \<Rightarrow> a\<lparr>acc_resp := acc_resp a\<lparr>resp_usage := u\<rparr>\<rparr>)"

definition acc_add :: "accumulator \<Rightarrow> stream_event \<Rightarrow> accumulator" where
  "acc_add a ev = acc_usage (acc_switch a ev) ev"

definition acc_response :: "accumulator \<Rightarrow> completion_response" where
  "acc_response a = (acc_resp a)
     \<lparr>resp_content := acc_content a,
      resp_thinking := acc_reasoning a,
      resp_finish := (if resp_tool_calls (acc_resp a) \<noteq> [] then ''tool_calls'' else ''stop'')\<rparr>"

definition CollectStream :: "stream_event list \<Rightarrow> go_error + completion_response" where
  "CollectStream evs =
     (let acc = foldl acc_add acc_zero evs
      in case acc_err acc of Some e \<Rightarrow> Inl e | None \<Rightarrow> Inr (acc_response acc))"

section \<open>What a stream assembles to\<close>

text \<open>The parts of a stream, read off the list of events.\<close>

definition text_of :: "stream_event list \<Rightarrow> string" where
  "text_of evs = concat (map ev_content (filter (\<lambda>e. ev_type e = EventContent) evs))"

definition reasoning_of :: "stream_event list \<Rightarrow> string" where
  "reasoning_of evs = concat (map ev_reasoning (filter (\<lambda>e. ev_type e = EventReasoning) evs))"

definition calls_of :: "stream_event list \<Rightarrow> tool_call list" where
  "calls_of evs = List.map_filter
     (\<lambda>e. if ev_type e = EventToolCall then ev_tool_call e else None) evs"

definition citations_of :: "stream_event list \<Rightarrow> citation list" where
  "citations_of evs = List.map_filter
     (\<lambda>e. if ev_type e = EventCitation then ev_citation e else None) evs"

definition errors_of :: "stream_event list \<Rightarrow> go_error list" where
  "errors_of evs = List.map_filter
     (\<lambda>e. if ev_type e = EventError then ev_error e else None) evs"

definition usages_of :: "stream_event list \<Rightarrow> token_usage list" where
  "usages_of evs = List.map_filter ev_usage evs"

lemmas stream_parts_defs =
  text_of_def reasoning_of_def calls_of_def citations_of_def errors_of_def usages_of_def

named_theorems stream_parts \<open>parts of a stream, on the constructors of its event list\<close>

lemma stream_parts_Nil [stream_parts, simp]:
  "text_of [] = []" "reasoning_of [] = []" "calls_of [] = []" "citations_of [] = []"
  "errors_of [] = []" "usages_of [] = []"
  by (simp_all add: stream_parts_defs)

lemma stream_parts_append [stream_parts, simp]:
  "text_of (xs @ ys) = text_of xs @ text_of ys"
  "reasoning_of (xs @ ys) = reasoning_of xs @ reasoning_of ys"
  "calls_of (xs @ ys) = calls_of xs @ calls_of ys"
  "citations_of (xs @ ys) = citations_of xs @ citations_of ys"
  "errors_of (xs @ ys) = errors_of xs @ errors_of ys"
  "usages_of (xs @ ys) = usages_of xs @ usages_of ys"
  by (simp_all add: stream_parts_defs List.map_filter_def)

lemma stream_parts_snoc:
  "text_of [e] = (if ev_type e = EventContent then ev_content e else [])"
  "reasoning_of [e] = (if ev_type e = EventReasoning then ev_reasoning e else [])"
  "calls_of [e] = (if ev_type e = EventToolCall then
     (case ev_tool_call e of None \<Rightarrow> [] | Some c \<Rightarrow> [c]) else [])"
  "citations_of [e] = (if ev_type e = EventCitation then
     (case ev_citation e of None \<Rightarrow> [] | Some c \<Rightarrow> [c]) else [])"
  "errors_of [e] = (if ev_type e = EventError then
     (case ev_error e of None \<Rightarrow> [] | Some c \<Rightarrow> [c]) else [])"
  "usages_of [e] = (case ev_usage e of None \<Rightarrow> [] | Some c \<Rightarrow> [c])"
  by (simp_all add: stream_parts_defs List.map_filter_def split: option.split)

lemma stream_parts_Cons:
  "text_of (e # es) = text_of [e] @ text_of es"
  "reasoning_of (e # es) = reasoning_of [e] @ reasoning_of es"
  "calls_of (e # es) = calls_of [e] @ calls_of es"
  "errors_of (e # es) = errors_of [e] @ errors_of es"
  "usages_of (e # es) = usages_of [e] @ usages_of es"
  using stream_parts_append [of "[e]" es] by simp_all

lemma stream_parts_events [stream_parts, simp]:
  "text_of [content_event s] = s" "text_of [reasoning_event s] = []"
  "text_of [tool_call_event c] = []" "text_of [delta_event d] = []"
  "text_of [usage_event u] = []" "text_of [error_event x] = []" "text_of [done_event] = []"
  "calls_of [content_event s] = []" "calls_of [reasoning_event s] = []"
  "calls_of [tool_call_event c] = [c]" "calls_of [delta_event d] = []"
  "calls_of [usage_event u] = []" "calls_of [error_event x] = []" "calls_of [done_event] = []"
  "errors_of [content_event s] = []" "errors_of [reasoning_event s] = []"
  "errors_of [tool_call_event c] = []" "errors_of [delta_event d] = []"
  "errors_of [usage_event u] = []" "errors_of [error_event x] = [x]" "errors_of [done_event] = []"
  "reasoning_of [content_event s] = []" "reasoning_of [reasoning_event s] = s"
  "reasoning_of [tool_call_event c] = []" "reasoning_of [delta_event d] = []"
  "reasoning_of [usage_event u] = []" "reasoning_of [error_event x] = []"
  "reasoning_of [done_event] = []"
  by (simp_all add: stream_parts_snoc record_defs)

definition first_error :: "stream_event list \<Rightarrow> go_error option" where
  "first_error evs = (case errors_of evs of [] \<Rightarrow> None | e # _ \<Rightarrow> Some e)"

definition last_usage :: "stream_event list \<Rightarrow> token_usage" where
  "last_usage evs = (if usages_of evs = [] then zero_usage else last (usages_of evs))"

text \<open>One event, field by field; then any number of events.\<close>

lemma acc_add_fields:
  "acc_content (acc_add a e) = acc_content a @ text_of [e]"
  "acc_reasoning (acc_add a e) = acc_reasoning a @ reasoning_of [e]"
  "acc_err (acc_add a e) = (if acc_err a = None then first_error [e] else acc_err a)"
  by (auto simp: acc_add_def acc_usage_def acc_switch_def first_error_def stream_parts_snoc
      split: option.splits)

lemma acc_add_resp:
  "resp_tool_calls (acc_resp (acc_add a e)) = resp_tool_calls (acc_resp a) @ calls_of [e]"
  "resp_citations (acc_resp (acc_add a e)) = resp_citations (acc_resp a) @ citations_of [e]"
  "resp_usage (acc_resp (acc_add a e)) =
     (case ev_usage e of None \<Rightarrow> resp_usage (acc_resp a) | Some u \<Rightarrow> u)"
  "resp_model (acc_resp (acc_add a e)) = resp_model (acc_resp a)"
  by (auto simp: acc_add_def acc_usage_def acc_switch_def stream_parts_snoc split: option.splits)

lemma first_error_snoc:
  "first_error (es @ [e]) = (if first_error es = None then first_error [e] else first_error es)"
  by (simp add: first_error_def split: list.split)

lemma last_usage_snoc:
  "last_usage (es @ [e]) = (case ev_usage e of None \<Rightarrow> last_usage es | Some u \<Rightarrow> u)"
  by (simp add: last_usage_def stream_parts_snoc split: option.split)

lemma acc_foldl:
  "acc_content (foldl acc_add acc_zero es) = text_of es"
  "acc_reasoning (foldl acc_add acc_zero es) = reasoning_of es"
  "acc_err (foldl acc_add acc_zero es) = first_error es"
  "resp_tool_calls (acc_resp (foldl acc_add acc_zero es)) = calls_of es"
  "resp_citations (acc_resp (foldl acc_add acc_zero es)) = citations_of es"
  "resp_usage (acc_resp (foldl acc_add acc_zero es)) = last_usage es"
  "resp_model (acc_resp (foldl acc_add acc_zero es)) = []"
  by (induction es rule: rev_induct)
    (simp_all add: acc_add_fields acc_add_resp first_error_snoc last_usage_snoc split: option.split,
     simp_all add: acc_zero_def zero_response_def first_error_def last_usage_def)

text \<open>The response \<open>Response()\<close> assembles from a stream.\<close>

definition assembled :: "stream_event list \<Rightarrow> completion_response" where
  "assembled evs =
     \<lparr>resp_content = text_of evs, resp_thinking = reasoning_of evs,
      resp_tool_calls = calls_of evs, resp_citations = citations_of evs,
      resp_usage = last_usage evs,
      resp_finish = (if calls_of evs = [] then ''stop'' else ''tool_calls''),
      resp_model = []\<rparr>"

lemma acc_response_assembled: "acc_response (foldl acc_add acc_zero evs) = assembled evs"
  by (rule completion_response.equality) (simp_all add: acc_response_def assembled_def acc_foldl)

lemma CollectStream_eq:
  "CollectStream evs = (case first_error evs of Some e \<Rightarrow> Inl e | None \<Rightarrow> Inr (assembled evs))"
  by (simp add: CollectStream_def Let_def acc_response_assembled acc_foldl split: option.split)

text \<open>
  Collecting a stream is exact: it fails with the first error event that carries an
  error, wherever it stands, and otherwise returns the text and reasoning chunks in order,
  every tool call and citation in order, the last usage report (zero when there was none)
  and a finish reason that says whether the model called tools.
\<close>

theorem collect_stream_exact:
  "CollectStream evs =
     (case errors_of evs of
        e # _ \<Rightarrow> Inl e
      | [] \<Rightarrow> Inr \<lparr>resp_content = text_of evs, resp_thinking = reasoning_of evs,
          resp_tool_calls = calls_of evs, resp_citations = citations_of evs,
          resp_usage = (if usages_of evs = [] then zero_usage else last (usages_of evs)),
          resp_finish = (if calls_of evs = [] then ''stop'' else ''tool_calls''),
          resp_model = []\<rparr>)"
  by (simp add: CollectStream_eq first_error_def assembled_def last_usage_def split: list.split)

end
