(* ===== verification/Resilience.thy ===== *)
theory Resilience
  imports Streaming
begin

text \<open>
  The retrying and falling-back providers (\<open>retry.go\<close>, \<open>fallback.go\<close>).

  Durations are \<open>int\<close> nanoseconds. \<open>retry_ops\<close> is what the code asks of the runtime: the
  context and timers, \<open>rand.N\<close>, and \<open>dur_ovf\<close>, the value of Go's conversion of a
  \<open>float64\<close> outside the range of \<open>int64\<close>, which the language leaves to the implementation.
  The product \<open>float64(baseDelay) * math.Pow(2, attempt)\<close> is computed exactly: it is a
  scaling by a power of two, so the only rounding is that of \<open>float64(baseDelay)\<close>, exact up
  to \<open>2 ^ 53\<close> ns (104 days).

  \<open>Complete\<close> and \<open>Stream\<close> have the same loop, here \<open>retry_from\<close> over the inner call. A
  negative number of retries skips the loop, and the code then returns a nil response with
  a nil error: \<open>Inr None\<close>.
\<close>

section \<open>Retrying\<close>

definition second :: int where "second = 1000000000"
definition DefaultMaxRetryDelay :: int where "DefaultMaxRetryDelay = 60 * second"

record 'w retry_provider =
  rt_inner :: "'w provider"
  rt_max_retries :: int
  rt_base_delay :: int
  rt_max_delay :: int
  rt_jitter :: bool
  rt_retryable :: "go_error \<Rightarrow> bool"

record 'w retry_ops = "'w ctx_ops" +
  rand_n :: "int \<Rightarrow> 'w \<Rightarrow> int \<times> 'w"
  dur_ovf :: "int \<Rightarrow> int"

definition isRetryable :: "go_error \<Rightarrow> bool" where
  "isRetryable err = (case as_api err of Some a \<Rightarrow> IsRetryable a | None \<Rightarrow> False)"

type_synonym 'w retry_option = "'w retry_provider \<Rightarrow> 'w retry_provider"

definition WithBaseDelay :: "int \<Rightarrow> 'w retry_option" where
  "WithBaseDelay d r = r\<lparr>rt_base_delay := d\<rparr>"

definition WithMaxDelay :: "int \<Rightarrow> 'w retry_option" where
  "WithMaxDelay d r = r\<lparr>rt_max_delay := d\<rparr>"

definition WithoutJitter :: "'w retry_option" where
  "WithoutJitter r = r\<lparr>rt_jitter := False\<rparr>"

definition WithRetryableStatuses :: "int list \<Rightarrow> 'w retry_option" where
  "WithRetryableStatuses statuses r = r\<lparr>rt_retryable := (\<lambda>err.
     case as_api err of Some a \<Rightarrow> ae_status a \<in> set statuses | None \<Rightarrow> False)\<rparr>"

definition WithRetry :: "'w provider \<Rightarrow> int \<Rightarrow> 'w retry_option list \<Rightarrow> 'w retry_provider" where
  "WithRetry provider maxRetries opts = foldl (\<lambda>r opt. opt r)
     \<lparr>rt_inner = provider, rt_max_retries = maxRetries, rt_base_delay = second,
      rt_max_delay = DefaultMaxRetryDelay, rt_jitter = True, rt_retryable = isRetryable\<rparr> opts"

text \<open>\<open>time.Duration(float64(base) * math.Pow(2, float64(attempt)))\<close>.\<close>

definition scaled_delay :: "'w retry_ops \<Rightarrow> int \<Rightarrow> nat \<Rightarrow> int" where
  "scaled_delay ops base attempt =
     (let x = base * 2 ^ attempt
      in if - (2 ^ 63) \<le> x \<and> x < 2 ^ 63 then x else dur_ovf ops x)"

definition backoff :: "'w retry_ops \<Rightarrow> 'w retry_provider \<Rightarrow> nat \<Rightarrow> 'w \<Rightarrow> int \<times> 'w" where
  "backoff ops r attempt w =
     (let d0 = scaled_delay ops (rt_base_delay r) attempt;
          delay = (if d0 > rt_max_delay r \<or> (d0 < 0 \<and> rt_base_delay r > 0)
                   then rt_max_delay r else d0)
      in if rt_jitter r \<and> delay > 1
         then (let half = delay div 2; (n, w') = rand_n ops (delay - half + 1) w
               in (half + n, w'))
         else (delay, w))"

text \<open>\<open>wait\<close>: true when the next attempt may be made.\<close>

definition retry_wait ::
  "'w retry_ops \<Rightarrow> 'w retry_provider \<Rightarrow> nat \<Rightarrow> go_error \<Rightarrow> 'w \<Rightarrow> bool \<times> 'w" where
  "retry_wait ops r attempt err w =
     (let (delay, w1) = backoff ops r attempt w
      in case as_api err of
           Some a \<Rightarrow>
             if ae_retry_after a > 0 then
               if ae_retry_after a > rt_max_delay r then (False, w1)
               else ctx_wait ops (ae_retry_after a) w1
             else ctx_wait ops delay w1
         | None \<Rightarrow> ctx_wait ops delay w1)"

function retry_from ::
  "'w retry_ops \<Rightarrow> 'w retry_provider \<Rightarrow> ('w, go_error, 'a) io \<Rightarrow> nat \<Rightarrow> go_error option
   \<Rightarrow> 'w \<Rightarrow> (go_error + 'a option) \<times> 'w" where
  "retry_from ops r call attempt lastErr w =
     (if int attempt \<le> rt_max_retries r then
        (case call w of
           (Inr resp, w1) \<Rightarrow> (Inr (Some resp), w1)
         | (Inl err, w1) \<Rightarrow>
             if \<not> rt_retryable r err then (Inl err, w1)
             else if int attempt < rt_max_retries r then
               (case retry_wait ops r attempt err w1 of
                  (True, w2) \<Rightarrow> retry_from ops r call (Suc attempt) (Some err) w2
                | (False, w2) \<Rightarrow> (Inl err, w2))
             else retry_from ops r call (Suc attempt) (Some err) w1)
      else (case lastErr of None \<Rightarrow> (Inr None, w) | Some e \<Rightarrow> (Inl e, w)))"
  by pat_completeness auto
termination
  by (relation "measure (\<lambda>(ops, r, call, attempt, lastErr, w). nat (rt_max_retries r + 1 - int attempt))")
    auto

declare retry_from.simps [simp del]

definition retry_Complete ::
  "'w retry_ops \<Rightarrow> 'w retry_provider \<Rightarrow> completion_request \<Rightarrow> ('w, go_error, completion_response option) io" where
  "retry_Complete ops r req = retry_from ops r (Complete (rt_inner r) req) 0 None"

definition retry_Stream ::
  "'w retry_ops \<Rightarrow> 'w retry_provider \<Rightarrow> completion_request \<Rightarrow> ('w, go_error, stream_event list option) io" where
  "retry_Stream ops r req = retry_from ops r (Stream (rt_inner r) req) 0 None"

section \<open>The backoff\<close>

lemma rand_half_bounds:
  fixes d n :: int
  assumes "1 < d" "0 \<le> n" "n < d - d div 2 + 1"
  shows "d div 2 \<le> d div 2 + n" "d div 2 + n \<le> d"
  using assms by auto

text \<open>
  A backoff is never negative, never above the cap, and with jitter at least half
  the nominal delay, for every attempt, every random draw and every overflow behaviour of
  the platform's float conversion; without overflow and jitter it is the capped doubling.
\<close>

theorem backoff_bounds:
  assumes rand: "\<And>n w. 0 < n \<Longrightarrow> 0 \<le> fst (rand_n ops n w) \<and> fst (rand_n ops n w) < n"
    and base: "0 \<le> rt_base_delay r" and cap: "0 \<le> rt_max_delay r"
  shows "0 \<le> fst (backoff ops r attempt w) \<and> fst (backoff ops r attempt w) \<le> rt_max_delay r \<and>
    (rt_base_delay r * 2 ^ attempt < 2 ^ 63 \<longrightarrow>
       (let nominal = min (rt_base_delay r * 2 ^ attempt) (rt_max_delay r) in
          nominal div 2 \<le> fst (backoff ops r attempt w) \<and>
          (\<not> rt_jitter r \<longrightarrow> fst (backoff ops r attempt w) = nominal)))"
proof -
  define d0 where "d0 = scaled_delay ops (rt_base_delay r) attempt"
  define d where "d = (if d0 > rt_max_delay r \<or> (d0 < 0 \<and> rt_base_delay r > 0) then rt_max_delay r else d0)"
  have nonneg: "0 \<le> rt_base_delay r * 2 ^ attempt" using base by simp
  have d0_zero: "rt_base_delay r = 0 \<Longrightarrow> d0 = 0" by (simp add: d0_def scaled_delay_def)
  have d: "0 \<le> d" "d \<le> rt_max_delay r" using cap base d0_zero by (auto simp: d_def not_less)
  have nominal: "d = min (rt_base_delay r * 2 ^ attempt) (rt_max_delay r)"
    if "rt_base_delay r * 2 ^ attempt < 2 ^ 63"
    using that nonneg by (auto simp: d_def d0_def scaled_delay_def Let_def min_def)
  have b: "fst (backoff ops r attempt w) =
      (if rt_jitter r \<and> d > 1 then d div 2 + fst (rand_n ops (d - d div 2 + 1) w) else d)"
    by (simp add: backoff_def Let_def d_def d0_def split: prod.split)
  have draw: "1 < d \<Longrightarrow> 0 \<le> fst (rand_n ops (d - d div 2 + 1) w) \<and>
      fst (rand_n ops (d - d div 2 + 1) w) < d - d div 2 + 1"
    by (rule rand) (use d in linarith)
  have "0 \<le> fst (backoff ops r attempt w)" "fst (backoff ops r attempt w) \<le> d"
    "d div 2 \<le> fst (backoff ops r attempt w)"
    using draw d unfolding b by auto
  then show ?thesis using d nominal b by (auto simp: Let_def)
qed

theorem backoff_bounds_witness:
  "let ops = \<lparr>ctx_err = (\<lambda>_. None), ctx_wait = (\<lambda>_ w. (True, w)),
          rand_n = (\<lambda>_ w. (0, w)), dur_ovf = (\<lambda>_. - (2 ^ 63))\<rparr> :: unit retry_ops;
       r = WithRetry \<lparr>Complete = undefined, Stream = undefined\<rparr> 3 [WithoutJitter]
   in fst (backoff ops r 70 ()) \<le> DefaultMaxRetryDelay \<and> fst (backoff ops r 2 ()) = 4 * second"
proof -
  define ops :: "unit retry_ops" where
    "ops = \<lparr>ctx_err = (\<lambda>_. None), ctx_wait = (\<lambda>_ w. (True, w)),
       rand_n = (\<lambda>_ w. (0, w)), dur_ovf = (\<lambda>_. - (2 ^ 63))\<rparr>"
  define r :: "unit retry_provider" where
    "r = WithRetry \<lparr>Complete = undefined, Stream = undefined\<rparr> 3 [WithoutJitter]"
  have h: "\<And>n w. 0 < n \<Longrightarrow> 0 \<le> fst (rand_n ops n w) \<and> fst (rand_n ops n w) < n"
    by (simp add: ops_def)
  have rs: "rt_base_delay r = second" "rt_max_delay r = DefaultMaxRetryDelay" "\<not> rt_jitter r"
    by (simp_all add: r_def WithRetry_def WithoutJitter_def)
  have "0 \<le> rt_base_delay r" "0 \<le> rt_max_delay r"
    by (simp_all add: rs second_def DefaultMaxRetryDelay_def)
  note bb = backoff_bounds [of ops r, OF h this]
  show ?thesis unfolding Let_def ops_def [symmetric] r_def [symmetric]
    using bb [of 70 "()"] bb [of 2 "()"] rs
    by (simp add: second_def DefaultMaxRetryDelay_def)
qed

section \<open>The retry loop\<close>

text \<open>
  The reference: scan the outcomes of successive calls, up to \<open>maxRetries + 1\<close> of them, and
  stop at the first success or at the first error that must not be retried, because it is
  not retryable or asks for a longer wait than allowed; the last error otherwise.
\<close>

definition asks_too_long :: "'w retry_provider \<Rightarrow> go_error \<Rightarrow> bool" where
  "asks_too_long r err = (case as_api err of
     Some a \<Rightarrow> ae_retry_after a > 0 \<and> ae_retry_after a > rt_max_delay r | None \<Rightarrow> False)"

fun scan_outcomes :: "(go_error \<Rightarrow> bool) \<Rightarrow> nat \<Rightarrow> (go_error + 'a) list \<Rightarrow> (go_error + 'a) \<times> nat" where
  "scan_outcomes again n (Inr a # xs) = (Inr a, 1)"
| "scan_outcomes again 0 (Inl e # xs) = (Inl e, 1)"
| "scan_outcomes again (Suc n) (Inl e # xs) =
     (if again e then (let (res, k) = scan_outcomes again n xs in (res, Suc k)) else (Inl e, 1))"
| "scan_outcomes again n [] = (Inl (Opaque ''script ended''), 0)"

text \<open>A scripted provider: its world is the list of outcomes still to come.\<close>

fun scripted :: "(go_error + 'a) list \<Rightarrow> (go_error + 'a) \<times> (go_error + 'a) list" where
  "scripted [] = (Inl (Opaque ''script ended''), [])"
| "scripted (x # xs) = (x, xs)"

lemma retry_from_last:
  assumes "\<not> int attempt \<le> rt_max_retries r"
  shows "retry_from ops r call attempt (Some e) w = (Inl e, w)"
  using assms by (subst retry_from.simps) simp

lemma retry_wait_fires:
  assumes "\<And>d w. ctx_wait ops d w = (True, w)" and "\<And>n w. snd (rand_n ops n w) = w"
  shows "retry_wait ops r n err w = (\<not> asks_too_long r err, w)"
proof -
  have "snd (backoff ops r n w) = w"
    by (simp add: backoff_def Let_def case_prod_beta assms(2))
  then obtain d where "backoff ops r n w = (d, w)" by (metis prod.collapse)
  then show ?thesis by (auto simp: retry_wait_def assms(1) asks_too_long_def split: option.split)
qed

lemma retry_from_scripted:
  assumes wait: "\<And>n e w. retry_wait ops r n e w = (\<not> asks_too_long r e, w)"
    and m: "int attempt + int n = rt_max_retries r" and len: "n < length xs"
  shows "retry_from ops r scripted attempt lastErr xs =
    (case scan_outcomes (\<lambda>e. rt_retryable r e \<and> \<not> asks_too_long r e) n xs of (res, k) \<Rightarrow>
       (case res of Inl e \<Rightarrow> Inl e | Inr a \<Rightarrow> Inr (Some a), drop k xs))"
  using m len
proof (induction n arbitrary: attempt lastErr xs)
  case 0
  then obtain y ys where xs: "xs = y # ys" by (cases xs) auto
  from 0 show ?case unfolding xs
    by (subst retry_from.simps) (auto simp: retry_from_last split: sum.split)
next
  case (Suc n)
  then obtain y ys where xs: "xs = y # ys" by (cases xs) auto
  have IH: "retry_from ops r scripted (Suc attempt) l ys =
    (case scan_outcomes (\<lambda>e. rt_retryable r e \<and> \<not> asks_too_long r e) n ys of (res, k) \<Rightarrow>
       (case res of Inl e \<Rightarrow> Inl e | Inr a \<Rightarrow> Inr (Some a), drop k ys))" for l
    by (rule Suc.IH) (use Suc.prems xs in auto)
  from Suc.prems(1) have "int attempt \<le> rt_max_retries r" "int attempt < rt_max_retries r" by auto
  then show ?case unfolding xs
    by (subst retry_from.simps) (auto simp: IH wait split: sum.split prod.split)
qed

text \<open>
  C13. Against any script of outcomes, with a context that stays alive, the retry loop
  returns what the reference scan returns and makes exactly as many calls: it stops at the
  first success, at the first error that is not retryable or asks to wait beyond the cap,
  or after \<open>maxRetries + 1\<close> calls with the last error.
\<close>

theorem retry_refines_scan:
  assumes "\<And>d w. ctx_wait ops d w = (True, w)" and "\<And>n w. snd (rand_n ops n w) = w"
    and "0 \<le> rt_max_retries r" and "nat (rt_max_retries r) < length outcomes"
  shows "retry_from ops r scripted 0 None outcomes =
    (case scan_outcomes (\<lambda>e. rt_retryable r e \<and> \<not> asks_too_long r e)
        (nat (rt_max_retries r)) outcomes of (res, k) \<Rightarrow>
       (case res of Inl e \<Rightarrow> Inl e | Inr a \<Rightarrow> Inr (Some a), drop k outcomes))"
proof (rule retry_from_scripted)
  show "retry_wait ops r n e w = (\<not> asks_too_long r e, w)" for n e w
    by (rule retry_wait_fires) (simp_all add: assms(1,2))
qed (use assms(3,4) in simp_all)

definition sample_ops :: "'w retry_ops" where
  "sample_ops = \<lparr>ctx_err = (\<lambda>_. None), ctx_wait = (\<lambda>_ w. (True, w)),
     rand_n = (\<lambda>_ w. (0, w)), dur_ovf = (\<lambda>_. - (2 ^ 63))\<rparr>"

definition api_err :: "int \<Rightarrow> int \<Rightarrow> go_error" where
  "api_err status after = APIErr \<lparr>ae_status = status, ae_message = [], ae_provider = ''p'',
     ae_retry_after = after\<rparr>"

theorem retry_refines_scan_witness:
  "retry_from sample_ops (WithRetry \<lparr>Complete = undefined, Stream = undefined\<rparr> 2 []) scripted 0 None
     [Inl (api_err 503 0), Inl (api_err 429 second), Inr ''ok'', Inr ''unused'']
   = (Inr (Some ''ok''), [Inr ''unused''])"
  by (subst retry_refines_scan)
    (auto simp: sample_ops_def WithRetry_def api_err_def isRetryable_def IsRetryable_def
      IsRateLimitError_def IsServerError_def asks_too_long_def second_def DefaultMaxRetryDelay_def
      numeral_2_eq_2)

text \<open>The calls the loop makes are bounded in every world, cancelled or not.\<close>

lemma retry_from_calls:
  fixes calls :: "'w \<Rightarrow> nat"
  assumes call: "\<And>w. calls (snd (call w)) = Suc (calls w)"
    and wait: "\<And>n e w. calls (snd (retry_wait ops r n e w)) = calls w"
  shows "calls (snd (retry_from ops r call attempt lastErr w))
    \<le> calls w + nat (rt_max_retries r + 1 - int attempt)"
proof (induction "nat (rt_max_retries r + 1 - int attempt)" arbitrary: attempt lastErr w)
  case 0
  then show ?case by (subst retry_from.simps) (auto split: option.split)
next
  case (Suc n)
  have n: "n = nat (rt_max_retries r + 1 - int (Suc attempt))" using Suc.hyps(2) by auto
  have IH: "calls (snd (retry_from ops r call (Suc attempt) l v)) \<le> calls v + n" for l v
    using Suc.hyps(1) [OF n] n by simp
  obtain res w1 where cw: "call w = (res, w1)" by (cases "call w")
  with call [of w] have c1: "calls w1 = Suc (calls w)" by simp
  have w2: "calls w2 = calls w1" if "retry_wait ops r attempt e w1 = (b, w2)" for e b w2
    using wait [of attempt e w1] that by simp
  have le: "int attempt \<le> rt_max_retries r" using Suc.hyps(2) by auto
  show ?case
    using IH c1 le Suc.hyps(2)
    by (subst retry_from.simps)
      (auto simp: cw Suc_le_eq dest!: w2 split: sum.split prod.split bool.split
        intro: order.trans [OF IH])
qed

lemma retry_from_calls_mono:
  fixes calls :: "'w \<Rightarrow> nat"
  assumes call: "\<And>w. calls (snd (call w)) = Suc (calls w)"
    and wait: "\<And>n e w. calls (snd (retry_wait ops r n e w)) = calls w"
  shows "calls w + (if int attempt \<le> rt_max_retries r then 1 else 0)
    \<le> calls (snd (retry_from ops r call attempt lastErr w))"
proof (induction "nat (rt_max_retries r + 1 - int attempt)" arbitrary: attempt lastErr w)
  case 0
  then show ?case by (subst retry_from.simps) (auto split: option.split)
next
  case (Suc n)
  have n: "n = nat (rt_max_retries r + 1 - int (Suc attempt))" using Suc.hyps(2) by auto
  have IH: "calls v \<le> calls (snd (retry_from ops r call (Suc attempt) l v))" for l v
    using Suc.hyps(1) [OF n, of v l] by (auto split: if_splits)
  obtain res w1 where cw: "call w = (res, w1)" by (cases "call w")
  with call [of w] have c1: "calls w1 = Suc (calls w)" by simp
  have w2: "calls w2 = calls w1" if "retry_wait ops r attempt e w1 = (b, w2)" for e b w2
    using wait [of attempt e w1] that by simp
  show ?case
    using c1 by (subst retry_from.simps)
      (auto simp: cw dest!: w2 split: sum.split prod.split bool.split option.split
        intro: order.trans [OF _ IH])
qed

lemma retry_from_not_nil:
  "lastErr \<noteq> None \<or> int attempt \<le> rt_max_retries r \<Longrightarrow>
   fst (retry_from ops r call attempt lastErr w) \<noteq> Inr None"
proof (induction "nat (rt_max_retries r + 1 - int attempt)" arbitrary: attempt lastErr w)
  case 0
  then show ?case by (subst retry_from.simps) auto
next
  case (Suc n)
  have n: "n = nat (rt_max_retries r + 1 - int (Suc attempt))" using Suc.hyps(2) by auto
  have IH: "fst (retry_from ops r call (Suc attempt) (Some e) v) \<noteq> Inr None" for e v
    by (rule Suc.hyps(1) [OF n]) simp
  have "int attempt \<le> rt_max_retries r" using Suc.hyps(2) by auto
  then show ?case
    using IH by (subst retry_from.simps) (auto split: sum.split prod.split bool.split)
qed

text \<open>
  A retrying provider with a non-negative limit always returns a response or an error,
  and makes between one and \<open>maxRetries + 1\<close> calls, whatever the context does.
\<close>

theorem retry_call_bounds:
  fixes calls :: "'w \<Rightarrow> nat"
  assumes "\<And>w. calls (snd (Complete (rt_inner r) req w)) = Suc (calls w)"
    and "\<And>n e w. calls (snd (retry_wait ops r n e w)) = calls w"
    and "0 \<le> rt_max_retries r"
  shows "fst (retry_Complete ops r req w) \<noteq> Inr None \<and>
    calls w < calls (snd (retry_Complete ops r req w)) \<and>
    calls (snd (retry_Complete ops r req w)) \<le> calls w + nat (rt_max_retries r + 1)"
proof (intro conjI)
  show "fst (retry_Complete ops r req w) \<noteq> Inr None"
    using retry_from_not_nil [of None 0 r] assms(3) by (simp add: retry_Complete_def)
  show "calls w < calls (snd (retry_Complete ops r req w))"
    using retry_from_calls_mono [of calls "Complete (rt_inner r) req" ops r w 0 None] assms
    by (simp add: retry_Complete_def)
  show "calls (snd (retry_Complete ops r req w)) \<le> calls w + nat (rt_max_retries r + 1)"
    using retry_from_calls [of calls "Complete (rt_inner r) req" ops r 0 None w] assms
    by (simp add: retry_Complete_def)
qed

theorem retry_call_bounds_witness:
  "let r = WithRetry \<lparr>Complete = (\<lambda>_ n. (Inl (api_err 500 0), Suc n)), Stream = undefined\<rparr> 3 [];
       out = retry_Complete sample_ops r zero_request (0 :: nat)
   in fst out \<noteq> Inr None \<and> 0 < snd out \<and> snd out \<le> 4"
proof -
  let ?r = "WithRetry \<lparr>Complete = (\<lambda>_ n. (Inl (api_err 500 0), Suc n)), Stream = undefined\<rparr> 3 []
    :: nat retry_provider"
  have wait: "snd (retry_wait sample_ops ?r n e w) = w" for n e w
    by (subst retry_wait_fires) (simp_all add: sample_ops_def)
  show ?thesis unfolding Let_def
    using retry_call_bounds [of "\<lambda>n. n" ?r zero_request sample_ops 0] wait
    by (simp add: WithRetry_def)
qed

text \<open>
  A negative retry limit makes the provider return a nil response with a nil error
  and never call the wrapped provider.
\<close>

theorem retry_negative_limit:
  assumes "rt_max_retries r < 0"
  shows "retry_Complete ops r req w = (Inr None, w) \<and> retry_Stream ops r req w = (Inr None, w)"
  using assms by (simp add: retry_Complete_def retry_Stream_def retry_from.simps)

theorem retry_negative_limit_witness:
  "retry_Complete sample_ops (WithRetry \<lparr>Complete = (\<lambda>_ n. (Inr zero_response, Suc n)), Stream = undefined\<rparr> (-1) [])
     zero_request 0 = (Inr None, 0 :: nat)"
  using retry_negative_limit [of "WithRetry \<lparr>Complete = (\<lambda>_ n. (Inr zero_response, Suc n)), Stream = undefined\<rparr> (-1) []"]
  by (simp add: WithRetry_def)

section \<open>Falling back\<close>

record 'w fallback_provider =
  fb_primary :: "'w provider"
  fb_fallback :: "'w provider"

definition WithFallback :: "'w provider \<Rightarrow> 'w provider \<Rightarrow> 'w fallback_provider" where
  "WithFallback primary fallback = \<lparr>fb_primary = primary, fb_fallback = fallback\<rparr>"

text \<open>\<open>Complete\<close> and \<open>Stream\<close>: the secondary is tried unless the context ended meanwhile.\<close>

definition fallback_Complete :: "'w ctx_ops \<Rightarrow> 'w fallback_provider \<Rightarrow> 'w complete_fn" where
  "fallback_Complete ops f req w =
     (case Complete (fb_primary f) req w of
        (Inr resp, w1) \<Rightarrow> (Inr resp, w1)
      | (Inl err, w1) \<Rightarrow>
          (case ctx_err ops w1 of
             Some e \<Rightarrow> (Inl e, w1)
           | None \<Rightarrow> Complete (fb_fallback f) req w1))"

definition fallback_Stream :: "'w ctx_ops \<Rightarrow> 'w fallback_provider \<Rightarrow> 'w stream_fn" where
  "fallback_Stream ops f req w =
     (case Stream (fb_primary f) req w of
        (Inr ch, w1) \<Rightarrow> (Inr ch, w1)
      | (Inl err, w1) \<Rightarrow>
          (case ctx_err ops w1 of
             Some e \<Rightarrow> (Inl e, w1)
           | None \<Rightarrow> Stream (fb_fallback f) req w1))"

definition fallback_provider :: "'w ctx_ops \<Rightarrow> 'w fallback_provider \<Rightarrow> 'w provider" where
  "fallback_provider ops f = \<lparr>Complete = fallback_Complete ops f, Stream = fallback_Stream ops f\<rparr>"

text \<open>A priority list, nested as the documentation suggests.\<close>

fun fallback_chain :: "'w ctx_ops \<Rightarrow> 'w provider \<Rightarrow> 'w provider list \<Rightarrow> 'w provider" where
  "fallback_chain ops p [] = p"
| "fallback_chain ops p (q # qs) =
     fallback_provider ops (WithFallback p (fallback_chain ops q qs))"

text \<open>The reference: the providers in order, until one answers or the context ends.\<close>

fun try_in_order :: "'w ctx_ops \<Rightarrow> 'w complete_fn list \<Rightarrow> go_error \<Rightarrow> 'w complete_fn" where
  "try_in_order ops [] err req w = (Inl err, w)"
| "try_in_order ops (c # cs) err req w =
     (case c req w of
        (Inr resp, w1) \<Rightarrow> (Inr resp, w1)
      | (Inl e, w1) \<Rightarrow>
          (case (if cs = [] then None else ctx_err ops w1) of
             Some e' \<Rightarrow> (Inl e', w1)
           | None \<Rightarrow> try_in_order ops cs e req w1))"

text \<open>
  Chained fallback providers are a priority list: they answer with the first provider
  that succeeds, stop with the context's error when it ends between two attempts, and
  otherwise return the last provider's error.
\<close>

theorem fallback_chain_priority:
  "Complete (fallback_chain ops p ps) req w =
     try_in_order ops (Complete p # map Complete ps) err req w"
proof (induction ps arbitrary: p w err)
  case Nil
  then show ?case by (auto split: prod.split sum.split)
next
  case (Cons q qs)
  have "Complete (fallback_chain ops q qs) req v =
      try_in_order ops (Complete q # map Complete qs) e req v" for e v
    by (rule Cons.IH)
  then show ?case
    by (simp add: fallback_provider_def fallback_Complete_def WithFallback_def
        split: prod.split sum.split option.split)
qed

end
