(* ===== verification/Rate_Limit.thy ===== *)
theory Rate_Limit
  imports Streaming
begin

text \<open>
  The token-bucket rate limiter (\<open>ratelimit.go\<close>). Times and durations are \<open>int\<close>
  nanoseconds; the \<open>float64\<close> token count is a rational, that is, float rounding is left out
  (the conversion of the computed delay to whole nanoseconds, which truncates, is kept).
  \<open>Wait\<close> is split as the code splits it: \<open>reserve\<close> under the mutex, the select, and the
  refund under the mutex when the context ended first; other callers may run in between, so
  a concurrent history is a sequence of \<open>Reserve\<close> and \<open>Refund\<close> events.
\<close>

section \<open>State and operations\<close>

record rate_limiter =
  rl_interval :: int
  rl_burst :: rat
  rl_tokens :: rat
  rl_last :: int

text \<open>\<open>WithRateLimit\<close>; \<open>dur_ovf\<close> is the platform's conversion of an oversized float.\<close>

definition WithRateLimit :: "(rat \<Rightarrow> int) \<Rightarrow> rat \<Rightarrow> int \<Rightarrow> int \<Rightarrow> rate_limiter" where
  "WithRateLimit dur_ovf requestsPerSecond burst now =
     (let burst' = (if burst < 1 then 1 else burst);
          x = 1000000000 / requestsPerSecond;
          interval = (if \<bar>x\<bar> < 2 ^ 63 then (if x < 0 then - \<lfloor>- x\<rfloor> else \<lfloor>x\<rfloor>) else dur_ovf x);
          interval' = (if requestsPerSecond \<le> 0 \<or> interval \<le> 0 then 1 else interval)
      in \<lparr>rl_interval = interval', rl_burst = of_int burst', rl_tokens = of_int burst', rl_last = now\<rparr>)"

definition reserve :: "rate_limiter \<Rightarrow> int \<Rightarrow> int \<times> rate_limiter" where
  "reserve r now =
     (let elapsed = now - rl_last r;
          tokens = rl_tokens r + of_int elapsed / of_int (rl_interval r);
          tokens = (if tokens > rl_burst r then rl_burst r else tokens);
          tokens = tokens - 1;
          r' = r\<lparr>rl_last := now, rl_tokens := tokens\<rparr>
      in if tokens \<ge> 0 then (0, r')
         else (\<lfloor>- tokens * of_int (rl_interval r)\<rfloor>, r'))"

definition refund :: "rate_limiter \<Rightarrow> rate_limiter" where
  "refund r = r\<lparr>rl_tokens := rl_tokens r + 1\<rparr>"

text \<open>\<open>Wait\<close> with no other caller in between; \<open>clock\<close> is \<open>r.now\<close>.\<close>

definition rate_Wait ::
  "'w ctx_ops \<Rightarrow> ('w \<Rightarrow> int) \<Rightarrow> rate_limiter \<Rightarrow> 'w \<Rightarrow> go_error option \<times> rate_limiter \<times> 'w" where
  "rate_Wait ops clock r w =
     (let (delay, r1) = reserve r (clock w)
      in if delay \<le> 0 then (None, r1, w)
         else case ctx_wait ops delay w of
                (True, w1) \<Rightarrow> (None, r1, w1)
              | (False, w1) \<Rightarrow> (ctx_err ops w1, refund r1, w1))"

definition rate_Complete ::
  "'w ctx_ops \<Rightarrow> ('w \<Rightarrow> int) \<Rightarrow> 'w provider \<Rightarrow> rate_limiter \<Rightarrow> completion_request \<Rightarrow> 'w
   \<Rightarrow> (go_error + completion_response) \<times> rate_limiter \<times> 'w" where
  "rate_Complete ops clock inner r req w =
     (case rate_Wait ops clock r w of
        (Some err, r1, w1) \<Rightarrow> (Inl err, r1, w1)
      | (None, r1, w1) \<Rightarrow> (case Complete inner req w1 of (res, w2) \<Rightarrow> (res, r1, w2)))"

definition rate_Stream ::
  "'w ctx_ops \<Rightarrow> ('w \<Rightarrow> int) \<Rightarrow> 'w provider \<Rightarrow> rate_limiter \<Rightarrow> completion_request \<Rightarrow> 'w
   \<Rightarrow> (go_error + stream_event list) \<times> rate_limiter \<times> 'w" where
  "rate_Stream ops clock inner r req w =
     (case rate_Wait ops clock r w of
        (Some err, r1, w1) \<Rightarrow> (Inl err, r1, w1)
      | (None, r1, w1) \<Rightarrow> (case Stream inner req w1 of (res, w2) \<Rightarrow> (res, r1, w2)))"

section \<open>The bucket as a schedule\<close>

definition limiter_wf :: "rate_limiter \<Rightarrow> bool" where
  "limiter_wf r \<longleftrightarrow> 0 < rl_interval r \<and> 1 \<le> rl_burst r \<and> rl_tokens r \<le> rl_burst r"

lemma WithRateLimit_wf: "limiter_wf (WithRateLimit dur_ovf rps burst now)"
proof -
  have pos: "0 < (if rps \<le> 0 \<or> i \<le> 0 then 1 else i)" for i :: int by simp
  have one: "1 \<le> (rat_of_int (if burst < 1 then 1 else burst))" by simp
  show ?thesis unfolding limiter_wf_def WithRateLimit_def Let_def
    by (simp only: rate_limiter.simps pos one order_refl simp_thms)
qed

lemma reserve_wf: "limiter_wf r \<Longrightarrow> limiter_wf (snd (reserve r now))"
  by (simp add: limiter_wf_def reserve_def Let_def)

text \<open>The instant at which the bucket's balance is zero.\<close>

definition zero_time :: "rate_limiter \<Rightarrow> rat" where
  "zero_time r = of_int (rl_last r) - rl_tokens r * of_int (rl_interval r)"

lemma zero_time_reserve:
  assumes "limiter_wf r"
  shows "zero_time (snd (reserve r now)) =
    max (zero_time r) (of_int now - rl_burst r * of_int (rl_interval r)) + of_int (rl_interval r)"
proof -
  define I :: rat where "I = of_int (rl_interval r)"
  define e :: rat where "e = of_int (now - rl_last r)"
  define t where "t = (if rl_tokens r + e / I > rl_burst r then rl_burst r else rl_tokens r + e / I)"
  have I: "0 < I" using assms by (simp add: limiter_wf_def I_def)
  have z: "zero_time (snd (reserve r now)) = of_int now - (t - 1) * I"
    by (simp add: reserve_def Let_def zero_time_def t_def I_def e_def)
  have eI: "e / I * I = e" using I by simp
  have eq: "of_int now - (rl_tokens r + e / I) * I = zero_time r"
    using eI by (simp add: zero_time_def I_def [symmetric] e_def algebra_simps)
  show ?thesis
  proof (cases "rl_tokens r + e / I > rl_burst r")
    case True
    then have "rl_burst r * I < (rl_tokens r + e / I) * I" using I by (rule mult_strict_right_mono)
    then have "zero_time r < of_int now - rl_burst r * I" using eq by linarith
    with True z show ?thesis by (simp add: t_def I_def [symmetric] algebra_simps max_def)
  next
    case False
    then have "(rl_tokens r + e / I) * I \<le> rl_burst r * I" using I by (intro mult_right_mono) auto
    then have "of_int now - rl_burst r * I \<le> zero_time r" using eq by linarith
    then have m: "max (zero_time r) (of_int now - rl_burst r * I) = zero_time r" by (rule max_absorb1)
    have "of_int now - (t - 1) * I = zero_time r + I"
      using False eq by (simp add: t_def algebra_simps)
    with z m show ?thesis by (simp add: I_def)
  qed
qed

lemma reserve_keeps [simp]:
  "rl_interval (snd (reserve r now)) = rl_interval r"
  "rl_burst (snd (reserve r now)) = rl_burst r"
  "rl_last (snd (reserve r now)) = now"
  by (simp_all add: reserve_def Let_def)

text \<open>When the slot a reservation took may be used.\<close>

definition release_at :: "rate_limiter \<Rightarrow> int \<Rightarrow> int" where
  "release_at r now = now + fst (reserve r now)"

lemma release_at_bounds:
  assumes "limiter_wf r"
  shows "of_int (release_at r now) \<le> max (of_int now) (zero_time (snd (reserve r now)))"
    and "zero_time (snd (reserve r now)) - 1 < of_int (release_at r now)"
    and "now \<le> release_at r now"
proof -
  define s where "s = snd (reserve r now)"
  have d: "fst (reserve r now) = (if rl_tokens s \<ge> 0 then 0 else \<lfloor>- rl_tokens s * of_int (rl_interval s)\<rfloor>)"
    unfolding s_def reserve_def Let_def by (simp only: split: if_split) simp
  have I: "0 < rl_interval s" using assms by (simp add: s_def limiter_wf_def)
  have z: "zero_time s = of_int now - rl_tokens s * of_int (rl_interval s)"
    by (simp add: zero_time_def s_def)
  have neg: "rl_tokens s < 0 \<Longrightarrow> 0 < - rl_tokens s * of_int (rl_interval s)"
    using I by (simp add: mult_neg_pos)
  have pos: "0 \<le> rl_tokens s \<Longrightarrow> 0 \<le> rl_tokens s * of_int (rl_interval s)" using I by simp
  have fl: "of_int \<lfloor>x\<rfloor> \<le> x" "x - 1 < of_int \<lfloor>x\<rfloor>" for x :: rat
    by (simp_all, linarith)
  show "of_int (release_at r now) \<le> max (of_int now) (zero_time (snd (reserve r now)))"
    "zero_time (snd (reserve r now)) - 1 < of_int (release_at r now)"
    "now \<le> release_at r now"
    using neg pos fl [of "- rl_tokens s * of_int (rl_interval s)"]
    unfolding release_at_def d s_def [symmetric] z
    by (auto simp: max_def not_le)
qed

fun releases :: "rate_limiter \<Rightarrow> int list \<Rightarrow> int list" where
  "releases r [] = []"
| "releases r (t # ts) = release_at r t # releases (snd (reserve r t)) ts"

lemma length_releases [simp]: "length (releases r ts) = length ts"
  by (induction ts arbitrary: r) auto

lemma releases_after_zero:
  assumes "limiter_wf r" "j < length ts"
  shows "zero_time r + of_nat (Suc j) * of_int (rl_interval r) - 1 < of_int (releases r ts ! j)"
  using assms
proof (induction ts arbitrary: r j)
  case Nil
  then show ?case by simp
next
  case (Cons t ts)
  let ?s = "snd (reserve r t)"
  have step: "zero_time r + of_int (rl_interval r) \<le> zero_time ?s"
    using zero_time_reserve [OF Cons.prems(1), of t] by simp
  show ?case
  proof (cases j)
    case 0
    then show ?thesis using step release_at_bounds(2) [OF Cons.prems(1), of t] by simp
  next
    case (Suc k)
    have "zero_time ?s + of_nat (Suc k) * of_int (rl_interval ?s) - 1 < of_int (releases ?s ts ! k)"
      by (rule Cons.IH) (use Cons.prems Suc reserve_wf in auto)
    with step Suc show ?thesis by (simp add: algebra_simps)
  qed
qed



section \<open>Cancelled waiters\<close>

datatype bucket_event = Reserve int | Refund

text \<open>A history of events; the result holds the release time of each reservation.\<close>

fun bucket_run :: "rate_limiter \<Rightarrow> bucket_event list \<Rightarrow> int list" where
  "bucket_run r [] = []"
| "bucket_run r (Reserve t # es) = release_at r t # bucket_run (snd (reserve r t)) es"
| "bucket_run r (Refund # es) = bucket_run (refund r) es"

lemma bucket_run_no_refund: "bucket_run r (map Reserve ts) = releases r ts"
  by (induction ts arbitrary: r) auto

text \<open>
  A cancelled waiter breaks the spacing: with rate one per second and burst 1, three
  callers at time 0 and the second one giving up, a fourth caller is released at the very
  instant of the third, though two requests then leave together.
\<close>

theorem rate_limit_refund_collision:
  "bucket_run (WithRateLimit (\<lambda>_. 0) 1 1 0) [Reserve 0, Reserve 0, Reserve 0, Refund, Reserve 0]
     = [0, 1000000000, 2000000000, 2000000000]"
  by (simp add: WithRateLimit_def Let_def release_at_def reserve_def refund_def)

end
