(* ===== verification/Response_Cache.thy ===== *)
theory Response_Cache
  imports Streaming
begin

text \<open>
  The response cache (\<open>cache.go\<close>): \<open>MemoryCache\<close>, a map of pointers into a doubly linked
  list kept in recency order, and \<open>CacheProvider\<close>, which answers a repeated request from
  any \<open>Cache\<close>.

  A \<open>*list.Element\<close> is a handle (\<open>mc_next\<close> is the allocator): the list holds the handles
  with their entries, front first, and the map goes from keys to handles, so that the two
  structures can disagree and the invariant \<open>cache_inv\<close> says that they never do. Times are
  nanoseconds and the zero \<open>time.Time\<close> is \<open>None\<close>. The key of a request, the SHA-256 of its
  JSON form, is the parameter \<open>digest\<close> here and \<open>CacheKey\<close> in \<open>Cache_Keys\<close>.
  \<open>cloneResponse\<close> copies the two slices, which at the level of values is the identity.
\<close>

section \<open>MemoryCache\<close>

record cache_entry =
  ce_key :: string
  ce_resp :: completion_response
  ce_expires :: "int option"

record memory_cache =
  mc_max :: int
  mc_ttl :: int
  mc_ll :: "(nat \<times> cache_entry) list"
  mc_items :: "string \<rightharpoonup> nat"
  mc_next :: nat

definition NewMemoryCache :: "int \<Rightarrow> int \<Rightarrow> memory_cache" where
  "NewMemoryCache maxEntries ttl =
     \<lparr>mc_max = maxEntries, mc_ttl = ttl, mc_ll = [], mc_items = Map.empty, mc_next = 0\<rparr>"

text \<open>The operations of \<open>container/list\<close> the cache uses.\<close>

definition ll_remove :: "nat \<Rightarrow> (nat \<times> cache_entry) list \<Rightarrow> (nat \<times> cache_entry) list" where
  "ll_remove h ll = filter (\<lambda>(h', e). h' \<noteq> h) ll"

definition ll_front :: "nat \<Rightarrow> cache_entry \<Rightarrow> (nat \<times> cache_entry) list \<Rightarrow> (nat \<times> cache_entry) list" where
  "ll_front h e ll = (h, e) # ll_remove h ll"

definition expired :: "int \<Rightarrow> cache_entry \<Rightarrow> bool" where
  "expired now e \<longleftrightarrow> (case ce_expires e of None \<Rightarrow> False | Some t \<Rightarrow> now > t)"

definition mc_Get :: "int \<Rightarrow> string \<Rightarrow> memory_cache \<Rightarrow> (completion_response option \<times> bool) \<times> memory_cache" where
  "mc_Get now key m =
     (case mc_items m key of
        None \<Rightarrow> ((None, False), m)
      | Some h \<Rightarrow>
          (case map_of (mc_ll m) h of
             None \<Rightarrow> ((None, False), m)
           | Some e \<Rightarrow>
               if expired now e
               then ((None, False), m\<lparr>mc_ll := ll_remove h (mc_ll m), mc_items := (mc_items m)(key := None)\<rparr>)
               else ((Some (ce_resp e), True), m\<lparr>mc_ll := ll_front h e (mc_ll m)\<rparr>)))"

definition mc_evict :: "memory_cache \<Rightarrow> memory_cache" where
  "mc_evict m =
     (if mc_max m > 0 \<and> int (length (mc_ll m)) > mc_max m
      then (let (h, e) = last (mc_ll m)
            in m\<lparr>mc_ll := ll_remove h (mc_ll m), mc_items := (mc_items m)(ce_key e := None)\<rparr>)
      else m)"

definition mc_Set :: "int \<Rightarrow> string \<Rightarrow> completion_response \<Rightarrow> memory_cache \<Rightarrow> memory_cache" where
  "mc_Set now key resp m =
     (let expires = (if mc_ttl m > 0 then Some (now + mc_ttl m) else None)
      in case mc_items m key of
           Some h \<Rightarrow>
             (case map_of (mc_ll m) h of
                None \<Rightarrow> m
              | Some e \<Rightarrow> m\<lparr>mc_ll := ll_front h (e\<lparr>ce_resp := resp, ce_expires := expires\<rparr>) (mc_ll m)\<rparr>)
         | None \<Rightarrow>
             mc_evict (m\<lparr>mc_ll := (mc_next m, \<lparr>ce_key = key, ce_resp = resp, ce_expires = expires\<rparr>) # mc_ll m,
                         mc_items := (mc_items m)(key \<mapsto> mc_next m),
                         mc_next := Suc (mc_next m)\<rparr>))"

definition mc_Len :: "memory_cache \<Rightarrow> int" where
  "mc_Len m = int (length (mc_ll m))"

section \<open>The map and the list agree\<close>

definition ll_keys :: "(nat \<times> cache_entry) list \<Rightarrow> string list" where
  "ll_keys ll = map (\<lambda>(h, e). ce_key e) ll"

text \<open>The handle of a key, read off the list: what the map of the code caches.\<close>

definition handle_of :: "(nat \<times> cache_entry) list \<Rightarrow> string \<rightharpoonup> nat" where
  "handle_of ll = map_of (map (\<lambda>(h, e). (ce_key e, h)) ll)"

definition cache_inv :: "memory_cache \<Rightarrow> bool" where
  "cache_inv m \<longleftrightarrow>
     distinct (map fst (mc_ll m)) \<and> distinct (ll_keys (mc_ll m)) \<and>
     (\<forall>h\<in>set (map fst (mc_ll m)). h < mc_next m) \<and>
     mc_items m = handle_of (mc_ll m) \<and>
     (mc_max m > 0 \<longrightarrow> int (length (mc_ll m)) \<le> mc_max m)"

text \<open>The entry stored under a key.\<close>

definition lookup :: "memory_cache \<Rightarrow> string \<rightharpoonup> cache_entry" where
  "lookup m = map_of (map (\<lambda>(h, e). (ce_key e, e)) (mc_ll m))"

lemma handle_of_None: "handle_of ll k = None \<longleftrightarrow> k \<notin> set (ll_keys ll)"
  by (simp add: handle_of_def ll_keys_def map_of_eq_None_iff image_image case_prod_unfold)

lemma ll_keys_simps [simp]:
  "ll_keys [] = []" "ll_keys ((h, e) # ll) = ce_key e # ll_keys ll"
  "ll_keys (a @ b) = ll_keys a @ ll_keys b"
  by (simp_all add: ll_keys_def)

lemma length_ll_keys [simp]: "length (ll_keys ll) = length ll"
  by (simp add: ll_keys_def)

text \<open>The list around the entry of a key.\<close>

lemma ll_split:
  assumes "handle_of ll k = Some h" "distinct (map fst ll)" "distinct (ll_keys ll)"
  obtains a e b where "ll = a @ (h, e) # b" "ce_key e = k" "map_of ll h = Some e"
    "ll_remove h ll = a @ b" "k \<notin> set (ll_keys a)" "k \<notin> set (ll_keys b)"
proof -
  from assms(1) have "(k, h) \<in> set (map (\<lambda>(h, e). (ce_key e, h)) ll)"
    unfolding handle_of_def by (rule map_of_SomeD)
  then obtain e where he: "(h, e) \<in> set ll" "ce_key e = k" by auto
  then obtain a b where ab: "ll = a @ (h, e) # b" by (meson split_list)
  have out: "h \<notin> fst ` set a" "h \<notin> fst ` set b" using assms(2) ab by auto
  have "ll_remove h a = a" "ll_remove h b = b"
    using out unfolding ll_remove_def by (force intro!: filter_True)+
  then have "ll_remove h ll = a @ b" by (simp add: ab ll_remove_def)
  moreover have "map_of ll h = Some e" using he(1) assms(2) by simp
  ultimately show thesis using that [of a e b] ab he(2) assms(3) by auto
qed

lemma handle_of_append: "handle_of (a @ b) = handle_of b ++ handle_of a"
  by (simp add: handle_of_def)

lemma handle_of_Cons [simp]: "handle_of ((h, e) # b) = (handle_of b)(ce_key e \<mapsto> h)"
  by (simp add: handle_of_def)

lemma handle_of_move:
  assumes "ce_key e \<notin> set (ll_keys a)"
  shows "handle_of (a @ (h, e) # b) = (handle_of (a @ b))(ce_key e \<mapsto> h)"
  using assms by (auto simp: handle_of_append handle_of_None [symmetric] fun_eq_iff map_add_def
      split: option.split)

lemma handle_of_drop:
  assumes "ce_key e \<notin> set (ll_keys a)" "ce_key e \<notin> set (ll_keys b)"
  shows "(handle_of (a @ (h, e) # b))(ce_key e := None) = handle_of (a @ b)"
  using assms by (auto simp: handle_of_append handle_of_None [symmetric] fun_eq_iff map_add_def
      split: option.split)

lemma NewMemoryCache_inv: "cache_inv (NewMemoryCache n ttl)"
  by (simp add: cache_inv_def NewMemoryCache_def handle_of_def)

text \<open>What \<open>Get\<close> does, in terms of the list alone.\<close>

lemma mc_Get_cases:
  assumes "cache_inv m"
  obtains
    (miss) "k \<notin> set (ll_keys (mc_ll m))" "mc_Get now k m = ((None, False), m)"
  | (expired) a h e b where "mc_ll m = a @ (h, e) # b" "ce_key e = k" "expired now e"
      "k \<notin> set (ll_keys (a @ b))"
      "mc_Get now k m = ((None, False), m\<lparr>mc_ll := a @ b, mc_items := handle_of (a @ b)\<rparr>)"
  | (hit) a h e b where "mc_ll m = a @ (h, e) # b" "ce_key e = k" "\<not> expired now e"
      "k \<notin> set (ll_keys (a @ b))"
      "mc_Get now k m = ((Some (ce_resp e), True), m\<lparr>mc_ll := (h, e) # a @ b\<rparr>)"
proof (cases "mc_items m k")
  case None
  then have "mc_Get now k m = ((None, False), m)" by (simp add: mc_Get_def)
  moreover have "k \<notin> set (ll_keys (mc_ll m))"
    using assms None by (simp add: cache_inv_def handle_of_None)
  ultimately show thesis by (rule miss [rotated])
next
  case (Some h)
  have H: "handle_of (mc_ll m) k = Some h" and d: "distinct (map fst (mc_ll m))"
    "distinct (ll_keys (mc_ll m))" and items: "mc_items m = handle_of (mc_ll m)"
    using assms Some by (auto simp: cache_inv_def)
  obtain a e b where s: "mc_ll m = a @ (h, e) # b" "ce_key e = k" "map_of (mc_ll m) h = Some e"
      "ll_remove h (mc_ll m) = a @ b" "k \<notin> set (ll_keys a)" "k \<notin> set (ll_keys b)"
    using ll_split [OF H d] by metis
  show thesis
  proof (cases "expired now e")
    case True
    have "(mc_items m)(k := None) = handle_of (a @ b)"
      using handle_of_drop [of e a b h] s items by simp
    then show thesis using expired [of a h e b] s True by (simp add: mc_Get_def Some)
  next
    case False
    then show thesis using hit [of a h e b] s by (simp add: mc_Get_def Some ll_front_def)
  qed
qed

lemma mc_Get_inv: assumes "cache_inv m" shows "cache_inv (snd (mc_Get now k m))"
  using assms
proof (cases rule: mc_Get_cases [where k = k and now = now])
  case miss
  then show ?thesis using assms by simp
next
  case (expired a h e b)
  then show ?thesis using assms by (auto simp: cache_inv_def)
next
  case (hit a h e b)
  then have "handle_of ((h, e) # a @ b) = handle_of (mc_ll m)" by (simp add: handle_of_move)
  with hit show ?thesis using assms by (auto simp: cache_inv_def simp del: handle_of_Cons)
qed


text \<open>What \<open>Set\<close> does: a known key moves to the front with its new entry, a new one goes in
  front and may push out the last entry.\<close>

definition set_entry :: "int \<Rightarrow> string \<Rightarrow> completion_response \<Rightarrow> memory_cache \<Rightarrow> cache_entry" where
  "set_entry now k r m =
     \<lparr>ce_key = k, ce_resp = r, ce_expires = (if mc_ttl m > 0 then Some (now + mc_ttl m) else None)\<rparr>"

lemma mc_Set_cases:
  assumes "cache_inv m"
  obtains
    (known) a h e b where "mc_ll m = a @ (h, e) # b" "ce_key e = k" "k \<notin> set (ll_keys (a @ b))"
      "mc_Set now k r m = m\<lparr>mc_ll := (h, set_entry now k r m) # a @ b\<rparr>"
  | (fresh) m' where "k \<notin> set (ll_keys (mc_ll m))"
      "m' = m\<lparr>mc_ll := (mc_next m, set_entry now k r m) # mc_ll m,
             mc_items := handle_of ((mc_next m, set_entry now k r m) # mc_ll m),
             mc_next := Suc (mc_next m)\<rparr>"
      "mc_Set now k r m = mc_evict m'"
proof (cases "mc_items m k")
  case None
  then show thesis using fresh assms
    by (auto simp: cache_inv_def handle_of_None mc_Set_def set_entry_def Let_def)
next
  case (Some h)
  have H: "handle_of (mc_ll m) k = Some h" and d: "distinct (map fst (mc_ll m))"
    "distinct (ll_keys (mc_ll m))"
    using assms Some by (auto simp: cache_inv_def)
  obtain a e b where s: "mc_ll m = a @ (h, e) # b" "ce_key e = k" "map_of (mc_ll m) h = Some e"
      "ll_remove h (mc_ll m) = a @ b" "k \<notin> set (ll_keys a)" "k \<notin> set (ll_keys b)"
    using ll_split [OF H d] by metis
  have "e\<lparr>ce_resp := r, ce_expires := (if mc_ttl m > 0 then Some (now + mc_ttl m) else None)\<rparr>
      = set_entry now k r m"
    using s(2) by (simp add: set_entry_def)
  then have "mc_Set now k r m = m\<lparr>mc_ll := (h, set_entry now k r m) # a @ b\<rparr>"
    using s by (simp add: mc_Set_def Some ll_front_def Let_def)
  then show thesis using known s by simp
qed

text \<open>Eviction cuts the list, which is one entry too long, to the bound.\<close>

lemma mc_evict_over:
  assumes "mc_max m > 0" "int (length (mc_ll m)) = mc_max m + 1" "mc_items m = handle_of (mc_ll m)"
    "distinct (map fst (mc_ll m))" "distinct (ll_keys (mc_ll m))"
  shows "mc_evict m = m\<lparr>mc_ll := butlast (mc_ll m), mc_items := handle_of (butlast (mc_ll m))\<rparr>"
proof -
  obtain a h e where ll: "mc_ll m = a @ [(h, e)]"
    using assms(1,2) by (metis append_butlast_last_id list.size(3) of_nat_0 prod.collapse
        add_pos_pos less_irrefl zero_less_one)
  have "ll_remove h (a @ [(h, e)]) = a"
    using assms(4) ll unfolding ll_remove_def by (force intro!: filter_True)
  moreover have "(handle_of (a @ [(h, e)]))(ce_key e := None) = handle_of a"
    using handle_of_drop [of e a "[]" h] assms(5) ll by simp
  ultimately show ?thesis using assms(1-3) ll by (simp add: mc_evict_def)
qed

lemma mc_evict_under: "\<not> (mc_max m > 0 \<and> int (length (mc_ll m)) > mc_max m) \<Longrightarrow> mc_evict m = m"
  unfolding mc_evict_def by (rule if_not_P)

lemma mc_Set_inv:
  assumes inv: "cache_inv m"
  shows "cache_inv (mc_Set now k r m)"
  using inv
proof (cases rule: mc_Set_cases [where k = k and now = now and r = r])
  case (known a h e b)
  have "handle_of ((h, set_entry now k r m) # a @ b) = handle_of (mc_ll m)"
    using known by (simp add: handle_of_move set_entry_def)
  with known show ?thesis using inv by (auto simp: cache_inv_def set_entry_def simp del: handle_of_Cons)
next
  case (fresh m')
  have m': "distinct (map fst (mc_ll m'))" "distinct (ll_keys (mc_ll m'))"
    "mc_items m' = handle_of (mc_ll m')" "\<forall>h\<in>set (map fst (mc_ll m')). h < mc_next m'"
    using inv fresh(1,2) by (auto simp: cache_inv_def set_entry_def less_Suc_eq)
  show ?thesis
  proof (cases "mc_max m' > 0 \<and> int (length (mc_ll m')) > mc_max m'")
    case True
    then have over: "mc_max m' > 0" "int (length (mc_ll m')) = mc_max m' + 1"
      using inv fresh(2) by (auto simp: cache_inv_def)
    have "cache_inv (m'\<lparr>mc_ll := butlast (mc_ll m'), mc_items := handle_of (butlast (mc_ll m'))\<rparr>)"
      using m' over
      by (auto simp: cache_inv_def ll_keys_def map_butlast distinct_butlast
          dest!: in_set_butlastD)
    with fresh(3) mc_evict_over [OF over m'(3,1,2)] show ?thesis by simp
  next
    case False
    then have "cache_inv m'" using m' by (auto simp: cache_inv_def)
    with fresh(3) mc_evict_under [OF False] show ?thesis by simp
  qed
qed

section \<open>The recency list the cache implements\<close>

text \<open>
  The specification: a list of entries, most recently used first. \<open>Set\<close> puts its entry in
  front and cuts the list at the bound; \<open>Get\<close> moves the entry it finds to the front.
\<close>

definition entries :: "memory_cache \<Rightarrow> cache_entry list" where
  "entries m = map snd (mc_ll m)"

definition without :: "string \<Rightarrow> cache_entry list \<Rightarrow> cache_entry list" where
  "without k es = filter (\<lambda>e. ce_key e \<noteq> k) es"

definition spec_set :: "int \<Rightarrow> cache_entry \<Rightarrow> cache_entry list \<Rightarrow> cache_entry list" where
  "spec_set n e es = (if n > 0 then take (nat n) (e # without (ce_key e) es) else e # without (ce_key e) es)"

definition spec_get :: "int \<Rightarrow> string \<Rightarrow> cache_entry list \<Rightarrow> completion_response option \<times> cache_entry list" where
  "spec_get now k es =
     (case find (\<lambda>e. ce_key e = k) es of
        None \<Rightarrow> (None, es)
      | Some e \<Rightarrow> if expired now e then (None, without k es) else (Some (ce_resp e), e # without k es))"

lemma ll_keys_entries: "ll_keys (mc_ll m) = map ce_key (entries m)"
  by (simp add: ll_keys_def entries_def case_prod_unfold)

lemma without_split:
  assumes "ce_key e = k" "k \<notin> set (ll_keys (a @ b))"
  shows "without k (map snd (a @ (h, e) # b)) = map snd (a @ b)"
    and "find (\<lambda>e. ce_key e = k) (map snd (a @ (h, e) # b)) = Some e"
proof -
  have out: "\<forall>x\<in>snd ` set a. ce_key x \<noteq> k" "\<forall>x\<in>snd ` set b. ce_key x \<noteq> k"
    using assms(2) by (auto simp: ll_keys_def)
  show "without k (map snd (a @ (h, e) # b)) = map snd (a @ b)"
    using assms(1) out by (auto simp: without_def)
  show "find (\<lambda>e. ce_key e = k) (map snd (a @ (h, e) # b)) = Some e"
    using assms(1) out(1) by (induction a) auto
qed

lemma without_absent: "k \<notin> set (map ce_key es) \<Longrightarrow> without k es = es"
  by (force simp: without_def intro: filter_True)

lemma find_absent: "k \<notin> set (map ce_key es) \<Longrightarrow> find (\<lambda>e. ce_key e = k) es = None"
  by (auto simp: find_None_iff)

lemma mc_Get_refines:
  assumes "cache_inv m"
  shows "fst (fst (mc_Get now k m)) = fst (spec_get now k (entries m)) \<and>
    snd (fst (mc_Get now k m)) = (fst (spec_get now k (entries m)) \<noteq> None) \<and>
    entries (snd (mc_Get now k m)) = snd (spec_get now k (entries m)) \<and>
    mc_max (snd (mc_Get now k m)) = mc_max m \<and> mc_ttl (snd (mc_Get now k m)) = mc_ttl m"
  using assms
proof (cases rule: mc_Get_cases [where k = k and now = now])
  case miss
  then have "spec_get now k (entries m) = (None, entries m)"
    by (simp add: spec_get_def ll_keys_entries find_absent)
  with miss show ?thesis by simp
next
  case (expired a h e b)
  have "spec_get now k (entries m) = (None, map snd (a @ b))"
    unfolding entries_def expired(1) spec_get_def without_split [OF expired(2,4)]
    using expired(3) by simp
  with expired show ?thesis by (simp add: entries_def)
next
  case (hit a h e b)
  have "spec_get now k (entries m) = (Some (ce_resp e), e # map snd (a @ b))"
    unfolding entries_def hit(1) spec_get_def without_split [OF hit(2,4)]
    using hit(3) by simp
  with hit show ?thesis by (simp add: entries_def)
qed

lemma mc_Set_refines:
  assumes inv: "cache_inv m"
  shows "entries (mc_Set now k r m) = spec_set (mc_max m) (set_entry now k r m) (entries m) \<and>
    mc_max (mc_Set now k r m) = mc_max m \<and> mc_ttl (mc_Set now k r m) = mc_ttl m"
  using inv
proof (cases rule: mc_Set_cases [where k = k and now = now and r = r])
  case (known a h e b)
  have key: "ce_key (set_entry now k r m) = k" by (simp add: set_entry_def)
  have w: "without k (entries m) = map snd (a @ b)"
    unfolding entries_def known(1) by (rule without_split [OF known(2,3)])
  have len: "mc_max m > 0 \<longrightarrow> length (map snd (a @ b)) < nat (mc_max m)"
    using inv known(1) by (auto simp: cache_inv_def)
  have "spec_set (mc_max m) (set_entry now k r m) (entries m) = set_entry now k r m # map snd (a @ b)"
    unfolding spec_set_def key w using len by auto
  then show ?thesis using known(4) by (simp add: entries_def)
next
  case (fresh m')
  have key: "ce_key (set_entry now k r m) = k" by (simp add: set_entry_def)
  have w: "without k (entries m) = entries m"
    using fresh(1) by (simp add: without_absent ll_keys_entries)
  have e': "entries m' = set_entry now k r m # entries m" using fresh(2) by (simp add: entries_def)
  have k': "mc_max m' = mc_max m" "mc_ttl m' = mc_ttl m" using fresh(2) by simp_all
  have m': "distinct (map fst (mc_ll m'))" "distinct (ll_keys (mc_ll m'))"
    "mc_items m' = handle_of (mc_ll m')" "length (mc_ll m') = Suc (length (mc_ll m))"
    using inv fresh(1,2) by (auto simp: cache_inv_def set_entry_def less_Suc_eq)
  show ?thesis
  proof (cases "mc_max m' > 0 \<and> int (length (mc_ll m')) > mc_max m'")
    case True
    then have over: "mc_max m' > 0" "int (length (mc_ll m')) = mc_max m' + 1"
      using inv k' m'(4) by (auto simp: cache_inv_def)
    then have n: "nat (mc_max m) = length (entries m)" "mc_max m > 0"
      using k' m'(4) by (auto simp: entries_def)
    have "entries (mc_evict m') = butlast (entries m')"
      using mc_evict_over [OF over m'(3,1,2)] by (simp add: entries_def map_butlast)
    also have "\<dots> = spec_set (mc_max m) (set_entry now k r m) (entries m)"
      unfolding e' spec_set_def key w using n by (simp add: butlast_conv_take)
    finally show ?thesis using fresh(3) k' mc_evict_over [OF over m'(3,1,2)] by simp
  next
    case False
    have "mc_max m > 0 \<Longrightarrow> nat (mc_max m) \<ge> Suc (length (entries m))"
      using False k' m'(4) by (auto simp: entries_def)
    then have "spec_set (mc_max m) (set_entry now k r m) (entries m) = entries m'"
      unfolding e' spec_set_def key w by simp
    with fresh(3) mc_evict_under [OF False] k' show ?thesis by simp
  qed
qed

section \<open>Least-recently-used retention\<close>

text \<open>A history of operations with the clock each one reads.\<close>

datatype cache_op = OGet int string | OSet int string completion_response

fun op_key :: "cache_op \<Rightarrow> string" where
  "op_key (OGet now k) = k"
| "op_key (OSet now k r) = k"

fun op_time :: "cache_op \<Rightarrow> int" where
  "op_time (OGet now k) = now"
| "op_time (OSet now k r) = now"

fun op_sets :: "string \<Rightarrow> cache_op \<Rightarrow> bool" where
  "op_sets k (OGet now k') = False"
| "op_sets k (OSet now k' r) = (k' = k)"

fun run_op :: "cache_op \<Rightarrow> memory_cache \<Rightarrow> memory_cache" where
  "run_op (OGet now k) m = snd (mc_Get now k m)"
| "run_op (OSet now k r) m = mc_Set now k r m"

definition run_ops :: "cache_op list \<Rightarrow> memory_cache \<Rightarrow> memory_cache" where
  "run_ops ops m = foldl (\<lambda>m op. run_op op m) m ops"

lemma run_ops_simps [simp]:
  "run_ops [] m = m" "run_ops (op # ops) m = run_ops ops (run_op op m)"
  "run_ops (ops @ ops') m = run_ops ops' (run_ops ops m)"
  by (simp_all add: run_ops_def)

lemma run_op_inv: "cache_inv m \<Longrightarrow> cache_inv (run_op op m)"
  by (cases op) (simp_all add: mc_Get_inv mc_Set_inv)

lemma run_ops_inv: "cache_inv m \<Longrightarrow> cache_inv (run_ops ops m)"
  by (induction ops arbitrary: m) (simp_all add: run_op_inv)

lemma run_op_keeps: "cache_inv m \<Longrightarrow> mc_max (run_op op m) = mc_max m \<and> mc_ttl (run_op op m) = mc_ttl m"
  by (cases op) (simp_all add: mc_Get_refines mc_Set_refines)

text \<open>
  The entry of \<open>k\<close> is in the list, and every key in front of it is one of \<open>T\<close>.
\<close>

definition behind :: "string set \<Rightarrow> cache_entry \<Rightarrow> cache_entry list \<Rightarrow> bool" where
  "behind T e es \<longleftrightarrow> (\<exists>xs ys. es = xs @ e # ys \<and> set (map ce_key xs) \<subseteq> T)"

lemma without_append [simp]:
  "without k (xs @ ys) = without k xs @ without k ys"
  "without k (e # es) = (if ce_key e = k then without k es else e # without k es)"
  "without k [] = []"
  by (simp_all add: without_def)

lemma without_keys: "set (map ce_key (without k xs)) \<subseteq> set (map ce_key xs) - {k}"
  by (auto simp: without_def)

lemma distinct_without: "distinct (map ce_key xs) \<Longrightarrow> distinct (map ce_key (without k xs))"
  by (simp add: without_def distinct_map_filter)

lemma behind_without: "behind T e es \<Longrightarrow> ce_key e \<noteq> k' \<Longrightarrow> behind T e (without k' es)"
  unfolding behind_def using without_keys by (fastforce simp: without_def)

lemma behind_front: "behind T e es \<Longrightarrow> ce_key e' \<in> T \<Longrightarrow> behind T e (e' # es)"
  unfolding behind_def by (metis append_Cons insert_subset list.simps(15) list.simps(9))

lemma behind_get:
  assumes "behind T e es" "ce_key e \<notin> T" "k' \<in> insert (ce_key e) T"
    "k' = ce_key e \<Longrightarrow> \<not> expired now e"
  shows "behind T e (snd (spec_get now k' es))"
    and "k' = ce_key e \<Longrightarrow> fst (spec_get now k' es) = Some (ce_resp e)"
proof -
  have hit: "find (\<lambda>e. ce_key e = ce_key e') es = Some e" if "e' = e" for e'
  proof -
    obtain xs ys where xs: "es = xs @ e # ys" "\<forall>x\<in>set xs. ce_key x \<in> T"
      using assms(1) by (auto simp: behind_def)
    have "\<forall>x\<in>set xs. ce_key x \<noteq> ce_key e" using xs(2) assms(2) by auto
    then show ?thesis using xs(1) that by (induction xs arbitrary: es) auto
  qed
  show "k' = ce_key e \<Longrightarrow> fst (spec_get now k' es) = Some (ce_resp e)"
    using assms(4) hit by (simp add: spec_get_def)
  show "behind T e (snd (spec_get now k' es))"
  proof (cases "k' = ce_key e")
    case True
    have "behind T e (e # without k' es)" unfolding behind_def
      by (rule exI [of _ "[]"]) simp
    then show ?thesis using True assms(4) hit by (simp add: spec_get_def)
  next
    case False
    then have "behind T e (without k' es)" and "k' \<in> T"
      using assms(1,3) by (auto intro: behind_without)
    then show ?thesis using assms(1)
      by (auto simp: spec_get_def find_Some_iff intro: behind_front split: option.split)
  qed
qed

lemma behind_set:
  assumes b: "behind T e es" and "finite T" "ce_key e' \<in> T" "ce_key e \<notin> T"
    and d: "distinct (map ce_key es)" and n: "n \<le> 0 \<or> card T < nat n"
  shows "behind T e (spec_set n e' es)"
proof -
  have "behind T e (without (ce_key e') es)"
    using assms by (intro behind_without) auto
  then obtain xs ys where xs: "without (ce_key e') es = xs @ e # ys" "set (map ce_key xs) \<subseteq> T"
    by (auto simp: behind_def)
  have keys: "set (map ce_key (e' # xs)) \<subseteq> T" using xs(2) assms(3) by simp
  have "distinct (map ce_key (e' # without (ce_key e') es))"
    using distinct_without [OF d] without_keys [of "ce_key e'" es] by auto
  then have "distinct (map ce_key (e' # xs))" unfolding xs(1) by simp
  then have "length (e' # xs) \<le> card T"
    using keys assms(2) by (metis card_mono distinct_card length_map)
  then have "n \<le> 0 \<or> take (nat n) ((e' # xs) @ e # ys)
      = (e' # xs) @ e # take (nat n - length (e' # xs) - 1) ys"
    using n by (auto simp: take_Cons' Suc_diff_le)
  then show ?thesis
    unfolding behind_def spec_set_def xs(1) using keys
    by (metis append_Cons not_le)
qed

lemma behind_ops:
  assumes "cache_inv m" "behind T e (entries m)" "finite T" "ce_key e \<notin> T"
    "mc_max m \<le> 0 \<or> card T < nat (mc_max m)"
    "\<forall>op\<in>set ops. \<not> op_sets (ce_key e) op" "\<forall>op\<in>set ops. op_key op \<in> insert (ce_key e) T"
    "\<forall>op\<in>set ops. op_key op = ce_key e \<longrightarrow> \<not> expired (op_time op) e"
  shows "behind T e (entries (run_ops ops m))"
  using assms
proof (induction ops arbitrary: m)
  case Nil
  then show ?case by simp
next
  case (Cons op ops)
  have d: "distinct (map ce_key (entries m))"
    using Cons.prems(1) by (simp add: cache_inv_def ll_keys_entries)
  have "behind T e (entries (run_op op m))"
  proof (cases op)
    case (OGet now k)
    then show ?thesis using Cons.prems behind_get(1) [of T e "entries m" k now]
      by (auto simp: mc_Get_refines)
  next
    case (OSet now k r)
    then have "behind T e (spec_set (mc_max m) (set_entry now k r m) (entries m))"
      using Cons.prems d by (intro behind_set) (auto simp: set_entry_def)
    then show ?thesis using OSet Cons.prems(1) by (simp add: mc_Set_refines)
  qed
  then show ?case using Cons.prems run_op_inv [of m op] run_op_keeps [of m op]
    by (auto intro!: Cons.IH)
qed

lemma behind_set_self: "behind {} e (spec_set n e es)"
proof -
  have "\<exists>ys. spec_set n e es = e # ys"
    by (cases "nat n") (auto simp: spec_set_def)
  then show ?thesis by (auto simp: behind_def)
qed

lemma behind_mono: "behind S e es \<Longrightarrow> S \<subseteq> T \<Longrightarrow> behind T e es"
  by (auto simp: behind_def)

text \<open>
  Least-recently-used retention: a response stored under \<open>k\<close> is what \<open>Get\<close> returns for
  as long as \<open>k\<close> is not stored again, fewer than \<open>maxEntries\<close> other keys have been used
  since (any number of times, by \<open>Get\<close> or \<open>Set\<close>, whatever the history before), and its
  time to live has not passed.
\<close>

theorem cache_lru_retention:
  assumes "\<forall>op\<in>set after. \<not> op_sets k op"
    and "maxEntries \<le> 0 \<or> card (op_key ` set after - {k}) < nat maxEntries"
    and "ttl \<le> 0 \<or> (now \<le> t + ttl \<and> (\<forall>op\<in>set after. op_key op = k \<longrightarrow> op_time op \<le> t + ttl))"
  shows "fst (mc_Get now k
     (run_ops (before @ OSet t k r # after) (NewMemoryCache maxEntries ttl))) = (Some r, True)"
proof -
  let ?T = "op_key ` set after - {k}"
  define m where "m = run_ops before (NewMemoryCache maxEntries ttl)"
  define m1 where "m1 = mc_Set t k r m"
  define e where "e = set_entry t k r m"
  have params: "cache_inv m \<and> mc_max m = maxEntries \<and> mc_ttl m = ttl"
    unfolding m_def
    by (induction before rule: rev_induct)
      (simp_all add: NewMemoryCache_inv run_op_inv run_op_keeps, simp_all add: NewMemoryCache_def)
  then have m1: "cache_inv m1" "mc_max m1 = maxEntries"
    "entries m1 = spec_set maxEntries e (entries m)"
    by (simp_all add: m1_def e_def mc_Set_inv mc_Set_refines)
  have e: "ce_key e = k" "ce_resp e = r" by (simp_all add: e_def set_entry_def)
  have exp: "\<not> expired now' e" if "ttl \<le> 0 \<or> now' \<le> t + ttl" for now'
    using that params by (auto simp: expired_def e_def set_entry_def)
  have b: "behind ?T e (entries m1)"
    unfolding m1(3) by (rule behind_mono [OF behind_set_self]) simp
  have "behind ?T e (entries (run_ops after m1))"
  proof (rule behind_ops [OF _ b])
    show "cache_inv m1" "finite ?T" "ce_key e \<notin> ?T" using m1 e by simp_all
    show "mc_max m1 \<le> 0 \<or> card ?T < nat (mc_max m1)" using assms(2) m1(2) by simp
    show "\<forall>op\<in>set after. \<not> op_sets (ce_key e) op" using assms(1) e by simp
    show "\<forall>op\<in>set after. op_key op \<in> insert (ce_key e) ?T" using e by auto
    show "\<forall>op\<in>set after. op_key op = ce_key e \<longrightarrow> \<not> expired (op_time op) e"
      using assms(3) e exp by auto
  qed
  then have "fst (spec_get now k (entries (run_ops after m1))) = Some r"
    using behind_get(2) [of ?T e _ k now] e exp [of now] assms(3) by blast
  then have "fst (mc_Get now k (run_ops after m1)) = (Some r, True)"
    using run_ops_inv [OF m1(1), of after] by (intro prod_eqI) (simp_all add: mc_Get_refines)
  then show ?thesis by (simp add: m1_def m_def)
qed

theorem cache_lru_retention_witness:
  "fst (mc_Get 9 ''a'' (run_ops ([OSet 0 ''z'' zero_response] @ OSet 1 ''a'' zero_response
      # [OSet 2 ''b'' zero_response, OGet 3 ''a'', OGet 4 ''b'', OSet 5 ''b'' zero_response])
      (NewMemoryCache 2 100))) = (Some zero_response, True)"
proof -
  have "op_key ` set [OSet 2 ''b'' zero_response, OGet 3 ''a'', OGet 4 ''b'', OSet 5 ''b'' zero_response]
      - {''a''} = {''b''}"
    by auto
  then have "card (op_key ` set [OSet 2 ''b'' zero_response, OGet 3 ''a'', OGet 4 ''b'',
      OSet 5 ''b'' zero_response] - {''a''}) = 1"
    by simp
  then show ?thesis by (intro cache_lru_retention) simp_all
qed

section \<open>CacheProvider over any Cache\<close>

text \<open>
  \<open>langrails.Cache\<close>: \<open>Get\<close> returns the response, whether there was one, and an error;
  \<open>Set\<close> an error. Both may read the world (the clock).
\<close>

record ('w, 's) cache_impl =
  cache_Get :: "'w \<Rightarrow> string \<Rightarrow> 's \<Rightarrow> (completion_response option \<times> bool \<times> go_error option) \<times> 's"
  cache_Set :: "'w \<Rightarrow> string \<Rightarrow> completion_response \<Rightarrow> 's \<Rightarrow> go_error option \<times> 's"

definition cloneResponse :: "completion_response \<Rightarrow> completion_response" where
  "cloneResponse r = r\<lparr>resp_tool_calls := resp_tool_calls r, resp_citations := resp_citations r\<rparr>"

lemma cloneResponse_id [simp]: "cloneResponse r = r"
  by (simp add: cloneResponse_def)

definition cache_Complete ::
  "(completion_request \<Rightarrow> go_error + string) \<Rightarrow> ('w, 's) cache_impl \<Rightarrow> 'w provider
   \<Rightarrow> completion_request \<Rightarrow> 's \<Rightarrow> 'w \<Rightarrow> (go_error + completion_response) \<times> 's \<times> 'w" where
  "cache_Complete digest c inner req s w =
     (case digest req of
        Inl keyErr \<Rightarrow> (case Complete inner req w of (res, w1) \<Rightarrow> (res, s, w1))
      | Inr key \<Rightarrow>
          (case cache_Get c w key s of
             ((Some resp, True, None), s1) \<Rightarrow> (Inr (cloneResponse resp), s1, w)
           | (_, s1) \<Rightarrow>
               (case Complete inner req w of
                  (Inl err, w1) \<Rightarrow> (Inl err, s1, w1)
                | (Inr resp, w1) \<Rightarrow> (Inr resp, snd (cache_Set c w1 key (cloneResponse resp) s1), w1))))"

definition cache_Stream :: "'w provider \<Rightarrow> 'w stream_fn" where
  "cache_Stream inner req w = Stream inner req w"

text \<open>A sequence of requests, with their results, against one cache.\<close>

fun cache_run ::
  "(completion_request \<Rightarrow> go_error + string) \<Rightarrow> ('w, 's) cache_impl \<Rightarrow> 'w provider
   \<Rightarrow> completion_request list \<Rightarrow> 's \<Rightarrow> 'w
   \<Rightarrow> (completion_request \<times> (go_error + completion_response)) list \<times> 's \<times> 'w" where
  "cache_run digest c inner [] s w = ([], s, w)"
| "cache_run digest c inner (req # reqs) s w =
     (case cache_Complete digest c inner req s w of
        (res, s1, w1) \<Rightarrow>
          (case cache_run digest c inner reqs s1 w1 of (out, s2, w2) \<Rightarrow> ((req, res) # out, s2, w2)))"

text \<open>A provider that also records the responses it gave.\<close>

type_synonym response_log = "(completion_request \<times> completion_response) list"

definition logging :: "'w provider \<Rightarrow> ('w \<times> response_log) provider" where
  "logging inner =
     \<lparr>Complete = (\<lambda>req (w, hist). case Complete inner req w of
          (Inl e, w1) \<Rightarrow> (Inl e, (w1, hist)) | (Inr r, w1) \<Rightarrow> (Inr r, (w1, hist @ [(req, r)]))),
      Stream = (\<lambda>req (w, hist). case Stream inner req w of (res, w1) \<Rightarrow> (res, (w1, hist)))\<rparr>"

text \<open>
  What \<open>CacheProvider\<close> needs of a cache: it returns only what it holds, and holds only what
  was stored. \<open>holds\<close> is the provider's own view of its contents.
\<close>

locale response_cache =
  fixes impl :: "('w \<times> response_log, 's) cache_impl"
    and holds :: "'s \<Rightarrow> string \<Rightarrow> completion_response \<Rightarrow> bool"
    and ok :: "'s \<Rightarrow> bool"
  assumes get_held: "ok s \<Longrightarrow> cache_Get impl w k s = ((Some r, True, None), s') \<Longrightarrow> holds s k r"
    and get_keeps: "ok s \<Longrightarrow> holds (snd (cache_Get impl w k s)) k' r \<Longrightarrow> holds s k' r"
    and set_holds: "ok s \<Longrightarrow> holds (snd (cache_Set impl w k r s)) k' r' \<Longrightarrow>
        (k' = k \<and> r' = r) \<or> holds s k' r'"
    and get_ok: "ok s \<Longrightarrow> ok (snd (cache_Get impl w k s))"
    and set_ok: "ok s \<Longrightarrow> ok (snd (cache_Set impl w k r s))"
begin

definition genuine :: "(completion_request \<Rightarrow> go_error + string) \<Rightarrow> 's \<Rightarrow> response_log \<Rightarrow> bool" where
  "genuine digest s hist \<longleftrightarrow>
     ok s \<and> (\<forall>k r. holds s k r \<longrightarrow> (\<exists>q. (q, r) \<in> set hist \<and> digest q = Inr k))"

definition answered :: "(completion_request \<Rightarrow> go_error + string) \<Rightarrow> completion_request
    \<Rightarrow> go_error + completion_response \<Rightarrow> response_log \<Rightarrow> bool" where
  "answered digest req res hist \<longleftrightarrow>
     (\<forall>r. res = Inr r \<longrightarrow> (\<exists>q. (q, r) \<in> set hist \<and> (q = req \<or> (\<exists>k. digest q = Inr k \<and> digest req = Inr k))))"

lemma answered_mono: "answered digest req res hist \<Longrightarrow> set hist \<subseteq> set hist' \<Longrightarrow> answered digest req res hist'"
  unfolding answered_def by blast

lemma genuine_mono: "genuine digest s hist \<Longrightarrow> set hist \<subseteq> set hist' \<Longrightarrow> genuine digest s hist'"
  unfolding genuine_def by blast

lemma inner_step:
  assumes "Complete (logging inner) req (w, hist) = (res, (w1, hist1))"
  shows "set hist \<subseteq> set hist1" "answered digest req res hist1" "res = Inr r \<Longrightarrow> (req, r) \<in> set hist1"
  using assms by (auto simp: logging_def answered_def split: prod.splits sum.splits)

lemma Complete_step:
  assumes g: "genuine digest s hist"
    and c: "cache_Complete digest impl (logging inner) req s (w, hist) = (res, s1, (w1, hist1))"
  shows "genuine digest s1 hist1 \<and> set hist \<subseteq> set hist1 \<and> answered digest req res hist1"
proof (cases "digest req")
  case (Inl e)
  then have "Complete (logging inner) req (w, hist) = (res, (w1, hist1))" "s1 = s"
    using c by (auto simp: cache_Complete_def split: prod.splits)
  then show ?thesis using inner_step [of inner req w hist res w1 hist1] g genuine_mono by blast
next
  case (Inr key)
  obtain rp found err s' where get: "cache_Get impl (w, hist) key s = ((rp, found, err), s')"
    by (metis prod.collapse)
  have g': "genuine digest s' hist"
    using g get_keeps [of s "(w, hist)" key] get_ok [of s "(w, hist)" key] get
    unfolding genuine_def by (metis snd_conv)
  show ?thesis
  proof (cases "\<exists>r. rp = Some r \<and> found \<and> err = None")
    case True
    then obtain r where r: "rp = Some r" "found" "err = None" by blast
    then have "holds s key r" using g get get_held by (auto simp: genuine_def)
    then have "\<exists>q. (q, r) \<in> set hist \<and> digest q = Inr key" using g by (simp add: genuine_def)
    moreover have "res = Inr r" "s1 = s'" "hist1 = hist"
      using c Inr get r by (simp_all add: cache_Complete_def)
    ultimately show ?thesis using g' Inr by (auto simp: answered_def)
  next
    case False
    obtain ir w2 h2 where inner: "Complete (logging inner) req (w, hist) = (ir, (w2, h2))"
      by (metis prod.collapse)
    have res: "res = ir \<and> hist1 = h2 \<and>
        (case ir of Inl e \<Rightarrow> s1 = s' | Inr r \<Rightarrow> s1 = snd (cache_Set impl (w2, h2) key r s'))"
      using c Inr get inner False
      by (auto simp: cache_Complete_def split: sum.splits option.splits bool.splits)
    have step: "set hist \<subseteq> set hist1" "answered digest req res hist1"
      using inner_step(1,2) [OF inner] res by simp_all
    have "genuine digest s1 hist1"
    proof (cases ir)
      case (Inl e)
      then show ?thesis using res g' genuine_mono step(1) by auto
    next
      case (Inr r)
      then have "(req, r) \<in> set hist1" using inner_step(3) [OF inner, of r] res by simp
      moreover have "s1 = snd (cache_Set impl (w2, h2) key r s')" using res Inr by simp
      ultimately show ?thesis
        using genuine_mono [OF g' step(1)] \<open>digest req = Inr key\<close>
          set_holds [of s' "(w2, h2)" key r] set_ok [of s' "(w2, h2)" key r]
        unfolding genuine_def by blast
    qed
    then show ?thesis using step by blast
  qed
qed

lemma run_genuine:
  "genuine digest s hist \<Longrightarrow>
   cache_run digest impl (logging inner) reqs s (w, hist) = (out, s1, (w1, hist1)) \<Longrightarrow>
   genuine digest s1 hist1 \<and> set hist \<subseteq> set hist1 \<and>
   (\<forall>(req, res)\<in>set out. answered digest req res hist1)"
proof (induction reqs arbitrary: s w hist out)
  case Nil
  then show ?case by simp
next
  case (Cons req reqs)
  obtain res s2 w2 h2 where c: "cache_Complete digest impl (logging inner) req s (w, hist) = (res, s2, (w2, h2))"
    by (metis prod.collapse)
  obtain out' where o: "cache_run digest impl (logging inner) reqs s2 (w2, h2) = (out', s1, (w1, hist1))"
      "out = (req, res) # out'"
    using Cons.prems(2) c by (auto split: prod.splits)
  have one: "genuine digest s2 h2" "set hist \<subseteq> set h2" "answered digest req res h2"
    using Complete_step [OF Cons.prems(1) c] by blast+
  have "genuine digest s1 hist1 \<and> set h2 \<subseteq> set hist1 \<and>
      (\<forall>(req, res)\<in>set out'. answered digest req res hist1)"
    by (rule Cons.IH [OF one(1) o(1)])
  with one answered_mono [OF one(3)] show ?case unfolding o(2) by fastforce
qed

end

section \<open>MemoryCache as a Cache\<close>

definition memory_cache_impl :: "('w \<Rightarrow> int) \<Rightarrow> ('w, memory_cache) cache_impl" where
  "memory_cache_impl clock =
     \<lparr>cache_Get = (\<lambda>w k m. case mc_Get (clock w) k m of ((r, found), m') \<Rightarrow> ((r, found, None), m')),
      cache_Set = (\<lambda>w k r m. (None, mc_Set (clock w) k r m))\<rparr>"

definition mc_holds :: "memory_cache \<Rightarrow> string \<Rightarrow> completion_response \<Rightarrow> bool" where
  "mc_holds m k r \<longleftrightarrow> (\<exists>e\<in>set (entries m). ce_key e = k \<and> ce_resp e = r)"

lemma spec_get_holds:
  "fst (spec_get now k es) = Some r \<Longrightarrow> \<exists>e\<in>set es. ce_key e = k \<and> ce_resp e = r"
  "set (snd (spec_get now k es)) \<subseteq> set es"
  by (auto simp: spec_get_def without_def find_Some_iff split: option.splits if_splits)

lemma spec_set_holds: "set (spec_set n e es) \<subseteq> insert e (set es)"
  by (auto simp: spec_set_def without_def dest: in_set_takeD)

interpretation mc: response_cache "memory_cache_impl clock" mc_holds cache_inv for clock :: "'w \<times> response_log \<Rightarrow> int"
proof
  fix s :: memory_cache and w :: "'w \<times> response_log" and k k' r r' s'
  assume inv: "cache_inv s"
  show "cache_inv (snd (cache_Get (memory_cache_impl clock) w k s))"
    using mc_Get_inv [OF inv] by (simp add: memory_cache_impl_def split: prod.split)
      (metis snd_conv)
  show "cache_inv (snd (cache_Set (memory_cache_impl clock) w k r s))"
    using mc_Set_inv [OF inv] by (simp add: memory_cache_impl_def)
  show "mc_holds s k r" if "cache_Get (memory_cache_impl clock) w k s = ((Some r, True, None), s')"
  proof -
    from that have "fst (fst (mc_Get (clock w) k s)) = Some r"
      by (auto simp: memory_cache_impl_def split: prod.splits)
    then show ?thesis using mc_Get_refines [OF inv, of "clock w" k] spec_get_holds(1)
      by (auto simp: mc_holds_def)
  qed
  show "mc_holds s k' r" if "mc_holds (snd (cache_Get (memory_cache_impl clock) w k s)) k' r"
  proof -
    from that have "mc_holds (snd (mc_Get (clock w) k s)) k' r"
      by (simp add: memory_cache_impl_def split: prod.splits)
    then show ?thesis using mc_Get_refines [OF inv, of "clock w" k]
        spec_get_holds(2) [of "clock w" k "entries s"]
      by (auto simp: mc_holds_def)
  qed
  show "k' = k \<and> r' = r \<or> mc_holds s k' r'"
    if "mc_holds (snd (cache_Set (memory_cache_impl clock) w k r s)) k' r'"
  proof -
    from that have "mc_holds (mc_Set (clock w) k r s) k' r'" by (simp add: memory_cache_impl_def)
    then show ?thesis using mc_Set_refines [OF inv, of "clock w" k r]
        spec_set_holds [of "mc_max s" "set_entry (clock w) k r s" "entries s"]
      by (auto simp: mc_holds_def set_entry_def)
  qed
qed

text \<open>
  Every answer is genuine: it was given by the wrapped provider, either to this very request or to
  one with the same key, whatever sequence of requests, hits, evictions and failures led to it.
\<close>

lemma cache_answers_genuine:
  assumes "cache_run digest (memory_cache_impl clock) (logging inner) reqs
      (NewMemoryCache n ttl) (w, []) = (out, m, (w1, hist))"
    and "(req, Inr r) \<in> set out"
  shows "\<exists>q. (q, r) \<in> set hist \<and> (q = req \<or> (\<exists>k. digest q = Inr k \<and> digest req = Inr k))"
proof -
  have "mc.genuine digest (NewMemoryCache n ttl) []"
    using NewMemoryCache_inv [of n ttl]
    by (simp add: mc.genuine_def mc_holds_def) (simp add: entries_def NewMemoryCache_def)
  from mc.run_genuine [OF this assms(1)] assms(2) show ?thesis
    by (auto simp: mc.answered_def)
qed

text \<open>The provider is asked nothing but requests of the caller.\<close>

lemma Complete_logs:
  assumes "cache_Complete digest c (logging inner) req s (w, hist) = (res, s1, (w1, hist1))"
  shows "fst ` set hist1 \<subseteq> insert req (fst ` set hist)"
  using assms by (auto simp: cache_Complete_def logging_def split: sum.splits prod.splits option.splits bool.splits)

lemma cache_run_logs:
  "cache_run digest c (logging inner) reqs s (w, hist) = (out, s1, (w1, hist1)) \<Longrightarrow>
   fst ` set hist1 \<subseteq> set reqs \<union> fst ` set hist \<and> fst ` set out \<subseteq> set reqs"
proof (induction reqs arbitrary: s w hist out)
  case Nil
  then show ?case by simp
next
  case (Cons req reqs)
  obtain res s2 w2 h2 where c: "cache_Complete digest c (logging inner) req s (w, hist) = (res, s2, (w2, h2))"
    by (metis prod.collapse)
  obtain out' where o: "cache_run digest c (logging inner) reqs s2 (w2, h2) = (out', s1, (w1, hist1))" "out = (req, res) # out'"
    using Cons.prems c by (auto split: prod.splits)
  have "fst ` set h2 \<subseteq> set (req # reqs) \<union> fst ` set hist" using Complete_logs [OF c] by auto
  moreover have "fst ` set hist1 \<subseteq> set reqs \<union> fst ` set h2" "fst ` set out' \<subseteq> set reqs" using Cons.IH [OF o(1)] by blast+
  moreover from this(2) have "fst ` set out \<subseteq> set (req # reqs)" unfolding o(2) by auto
  ultimately show ?case by (meson Un_least Un_upper1 order_trans set_subset_Cons)
qed

definition stub_provider :: "nat provider" where
  "stub_provider =
     \<lparr>Complete = (\<lambda>req n. (Inr (zero_response\<lparr>resp_content := nat_dec n\<rparr>), Suc n)),
      Stream = (\<lambda>req n. (Inr [], n))\<rparr>"

end
