(* ===== verification/Json_Documents.thy ===== *)
theory Json_Documents
  imports Prelude Go_Values "HOL-Library.Monad_Syntax" "HOL-Library.List_Lexorder" "HOL-Library.Char_ord"
begin

text \<open>
  How \<open>encoding/json\<close> writes and reads the fields of a struct: a field with \<open>omitempty\<close> is left out when
  empty, field names are matched without regard to case, \<open>null\<close> leaves a field as it is, and a value
  of the wrong kind is an error (\<open>None\<close>). A Go map is its list of entries.
\<close>

section \<open>Documents\<close>

type_synonym gomap = "(string \<times> json) list"

definition omit :: "string \<Rightarrow> bool \<Rightarrow> json \<Rightarrow> (string \<times> json) list" where
  "omit k is_zero v = (if is_zero then [] else [(k, v)])"

definition omit_str :: "string \<Rightarrow> string \<Rightarrow> (string \<times> json) list" where
  "omit_str k s = omit k (s = []) (JStr s)"

text \<open>The value a field of a struct gets, \<open>JNull\<close> where there is none.\<close>

definition member :: "string \<Rightarrow> (string \<times> json) list \<Rightarrow> json" where
  "member k kvs = (case filter (\<lambda>(x, v). ToLower x = ToLower k \<and> v \<noteq> JNull) (rev kvs) of [] \<Rightarrow> JNull | (_, v) # _ \<Rightarrow> v)"

fun dec_str :: "json \<Rightarrow> string option" where
  "dec_str JNull = Some []"
| "dec_str (JStr s) = Some s"
| "dec_str _ = None"

fun dec_bool :: "json \<Rightarrow> bool option" where
  "dec_bool JNull = Some False"
| "dec_bool (JBool b) = Some b"
| "dec_bool _ = None"

fun dec_int :: "json \<Rightarrow> int option" where
  "dec_int JNull = Some 0"
| "dec_int (JNum r) = (if of_int \<lfloor>r\<rfloor> = r then Some \<lfloor>r\<rfloor> else None)"
| "dec_int _ = None"

fun dec_map :: "json \<Rightarrow> gomap option" where
  "dec_map JNull = Some []"
| "dec_map (JObj kvs) = Some kvs"
| "dec_map _ = None"

fun dec_all :: "('j \<Rightarrow> 'a option) \<Rightarrow> 'j list \<Rightarrow> 'a list option" where
  "dec_all f [] = Some []"
| "dec_all f (j # js) = (case f j of None \<Rightarrow> None | Some a \<Rightarrow> map_option ((#) a) (dec_all f js))"

fun dec_list :: "(json \<Rightarrow> 'a option) \<Rightarrow> json \<Rightarrow> 'a list option" where
  "dec_list f JNull = Some []"
| "dec_list f (JArr js) = dec_all f js"
| "dec_list f _ = None"

definition dec_ptr :: "(json \<Rightarrow> 'a option) \<Rightarrow> json \<Rightarrow> 'a option option" where
  "dec_ptr f j = (if j = JNull then Some None else map_option Some (f j))"

text \<open>A struct is read from its entries; \<open>null\<close> reads as one without entries.\<close>

fun dec_obj :: "((string \<times> json) list \<Rightarrow> 'a option) \<Rightarrow> json \<Rightarrow> 'a option" where
  "dec_obj f JNull = f []"
| "dec_obj f (JObj kvs) = f kvs"
| "dec_obj f _ = None"

definition enc_strs :: "string list \<Rightarrow> json" where
  "enc_strs ss = JArr (map JStr ss)"

text \<open>Raw JSON that is none fails to marshal; a map is written in the order of its keys.\<close>

fun enc_raw :: "raw_json \<Rightarrow> json option" where
  "enc_raw RawNil = Some JNull"
| "enc_raw (RawInvalid s) = None"
| "enc_raw (RawJson j) = Some j"

definition enc_strmap :: "(string \<times> string) list \<Rightarrow> json" where
  "enc_strmap m = JObj (map (\<lambda>(k, v). (k, JStr v)) (sort_key fst m))"

definition enc_int :: "int \<Rightarrow> json" where "enc_int n = JNum (of_int n)"

text \<open>A raw message with \<open>omitempty\<close>.\<close>

definition enc_raw_field :: "string \<Rightarrow> raw_json \<Rightarrow> (string \<times> json) list option" where
  "enc_raw_field k raw = (if raw_empty raw then Some [] else map_option (\<lambda>j. [(k, j)]) (enc_raw raw))"

text \<open>A nil slice is written as \<open>null\<close>.\<close>

definition null_list :: "json list \<Rightarrow> json" where
  "null_list js = (if js = [] then JNull else JArr js)"

text \<open>A whole body: a value of the wrong type is an error of its own.\<close>

definition read_body :: "(string \<Rightarrow> go_error + json) \<Rightarrow> (json \<Rightarrow> 'a option) \<Rightarrow> string \<Rightarrow> go_error + 'a" where
  "read_body parse dec s =
     (case parse s of
        Inl e \<Rightarrow> Inl e
      | Inr j \<Rightarrow> (case dec j of None \<Rightarrow> Inl (Opaque ''json: cannot unmarshal'') | Some x \<Rightarrow> Inr x))"

text \<open>A raw member is there even when \<open>null\<close>.\<close>

definition raw_member :: "string \<Rightarrow> (string \<times> json) list \<Rightarrow> json option" where
  "raw_member k kvs = (case filter (\<lambda>(x, v). ToLower x = ToLower k) (rev kvs) of [] \<Rightarrow> None | (_, v) # _ \<Rightarrow> Some v)"

section \<open>What is written is read\<close>

lemma null_list_eq [simp]: "null_list js = null_list ks \<longleftrightarrow> js = ks"
  by (simp add: null_list_def)

lemma dec_all_map: "(\<And>x. x \<in> set xs \<Longrightarrow> f (g x) = Some x) \<Longrightarrow> dec_all f (map g xs) = Some xs"
  by (induction xs) simp_all

text \<open>Of two parts of an object the later one counts.\<close>

definition or_else :: "json \<Rightarrow> json \<Rightarrow> json" where
  "or_else a b = (if a = JNull then b else a)"

lemma or_else_null [simp]: "or_else JNull b = b" "or_else a JNull = a"
  by (simp_all add: or_else_def)

lemma member_Nil [simp]: "member k [] = JNull"
  by (simp add: member_def)

lemma member_snoc: "member k (kvs @ [(x, v)]) = (if ToLower x = ToLower k \<and> v \<noteq> JNull then v else member k kvs)"
  by (simp add: member_def)

lemma member_append: "member k (xs @ ys) = or_else (member k ys) (member k xs)"
  by (induction ys rule: rev_induct) (auto simp: member_snoc or_else_def simp flip: append_assoc)

lemma member_Cons: "member k ((x, v) # ys) = or_else (member k ys) (if ToLower x = ToLower k then v else JNull)"
  using member_append [of k "[(x, v)]" ys] member_snoc [of k "[]" x v] by (simp add: or_else_def)

lemma member_omit [simp]:
  "member k (omit x z v) = (if \<not> z \<and> ToLower x = ToLower k then v else JNull)"
  "member k (omit_str x s) = (if s \<noteq> [] \<and> ToLower x = ToLower k then JStr s else JNull)"
  by (auto simp: omit_def omit_str_def member_Cons)

lemma dec_enc_int [simp]: "dec_int (enc_int n) = Some n" "enc_int n \<noteq> JNull"
  by (simp_all add: enc_int_def)

lemma raw_member_append: "raw_member k (xs @ ys) = (case raw_member k ys of None \<Rightarrow> raw_member k xs | Some v \<Rightarrow> Some v)"
  by (simp add: raw_member_def split: list.split)

lemma raw_member_Cons: "raw_member k ((x, v) # ys) = (case raw_member k ys of None \<Rightarrow> if ToLower x = ToLower k then Some v else None | Some u \<Rightarrow> Some u)"
proof -
  have "raw_member k [(x, v)] = (if ToLower x = ToLower k then Some v else None)" by (simp add: raw_member_def)
  then show ?thesis using raw_member_append [of k "[(x, v)]" ys] by (cases "raw_member k ys") simp_all
qed

lemma raw_member_Nil [simp]: "raw_member k [] = None"
  by (simp add: raw_member_def)

lemmas documents = member_append member_Cons dec_ptr_def enc_strs_def

end
