(* ===== verification/Url_Encodings.thy ===== *)
theory Url_Encodings
  imports Prelude "HOL-Library.List_Lexorder" "HOL-Library.Char_ord"
begin

text \<open>
  The encodings of the standard library that tokens and signatures use: \<open>url.QueryEscape\<close>,
  \<open>url.Values.Encode\<close>, \<open>base64.RawURLEncoding\<close> and \<open>hex.EncodeToString\<close>, on strings of bytes.
\<close>

section \<open>Queries and base64\<close>

definition hex_digits :: string where "hex_digits = ''0123456789ABCDEF''"

definition unreserved :: "char \<Rightarrow> bool" where
  "unreserved c \<longleftrightarrow> (let n = of_char c :: nat in
     48 \<le> n \<and> n \<le> 57 \<or> 65 \<le> n \<and> n \<le> 90 \<or> 97 \<le> n \<and> n \<le> 122 \<or> c \<in> set ''-_.~'')"

definition QueryEscape :: "string \<Rightarrow> string" where
  "QueryEscape s = concat (map (\<lambda>c. if unreserved c then [c] else if c = CHR '' '' then ''+''
     else (let n = of_char c :: nat in [CHR ''%'', hex_digits ! (n div 16), hex_digits ! (n mod 16)])) s)"

definition Values_Encode :: "(string \<times> string) list \<Rightarrow> string" where
  "Values_Encode q = Join (map (\<lambda>(k, v). QueryEscape k @ ''='' @ QueryEscape v) (sort_key fst q)) ''&''"

definition b64url_digits :: string where
  "b64url_digits = ''ABCDEFGHIJKLMNOPQRSTUVWXYZabcdefghijklmnopqrstuvwxyz0123456789-_''"

definition b64url_chars :: "nat \<Rightarrow> nat \<Rightarrow> string" where
  "b64url_chars k n = map (\<lambda>i. b64url_digits ! (n div 64 ^ (3 - i) mod 64)) [0..<k]"

text \<open>\<open>base64.RawURLEncoding\<close>: three bytes make four digits, without padding.\<close>

fun b64url_bytes :: "nat list \<Rightarrow> string" where
  "b64url_bytes (a # b # c # rest) = b64url_chars 4 (a * 65536 + b * 256 + c) @ b64url_bytes rest"
| "b64url_bytes [a, b] = b64url_chars 3 (a * 65536 + b * 256)"
| "b64url_bytes [a] = b64url_chars 2 (a * 65536)"
| "b64url_bytes [] = []"

definition RawURLEncoding :: "string \<Rightarrow> string" where
  "RawURLEncoding s = b64url_bytes (map of_char s)"

definition hex_lower :: string where "hex_lower = ''0123456789abcdef''"

definition EncodeToString :: "string \<Rightarrow> string" where
  "EncodeToString s = concat (map (\<lambda>c. let n = of_char c :: nat in [hex_lower ! (n div 16), hex_lower ! (n mod 16)]) s)"

definition pad :: "nat \<Rightarrow> nat \<Rightarrow> string" where
  "pad k n = replicate (k - length (nat_dec n)) (CHR ''0'') @ nat_dec n"

lemma length_nat_dec: "n < 10 ^ Suc k \<Longrightarrow> length (nat_dec n) \<le> Suc k"
proof (induction k arbitrary: n)
  case 0
  then show ?case by (subst nat_dec.simps) simp
next
  case (Suc k)
  then have "n div 10 < 10 ^ Suc k" by (simp add: less_mult_imp_div_less)
  then have "length (nat_dec (n div 10)) \<le> Suc k" by (rule Suc.IH)
  then show ?case by (subst nat_dec.simps) simp
qed

lemma length_pad: "n < 10 ^ Suc k \<Longrightarrow> length (pad (Suc k) n) = Suc k"
  using length_nat_dec [of n k] by (simp add: pad_def)

lemma hex_lower_inj: "i < 16 \<Longrightarrow> j < 16 \<Longrightarrow> hex_lower ! i = hex_lower ! j \<longleftrightarrow> i = j"
  by (rule nth_eq_iff_index_eq) (simp_all add: hex_lower_def)

lemma EncodeToString_inj: "EncodeToString s = EncodeToString t \<Longrightarrow> s = t"
proof (induction s arbitrary: t)
  case Nil
  then show ?case by (cases t) (simp_all add: EncodeToString_def Let_def)
next
  case (Cons c s)
  from Cons.prems obtain d t' where t: "t = d # t'" by (cases t) (simp_all add: EncodeToString_def Let_def)
  let ?c = "of_char c :: nat" and ?d = "of_char d :: nat"
  have lt: "?c div 16 < 16" "?d div 16 < 16"
    using of_char_mod_256 [of c, where 'a = nat] of_char_mod_256 [of d, where 'a = nat] by linarith+
  have "hex_lower ! (?c div 16) = hex_lower ! (?d div 16)" "hex_lower ! (?c mod 16) = hex_lower ! (?d mod 16)"
    and rest: "EncodeToString s = EncodeToString t'"
    using Cons.prems by (simp_all add: t EncodeToString_def Let_def)
  then have "?c div 16 = ?d div 16" "?c mod 16 = ?d mod 16" using lt by (simp_all add: hex_lower_inj)
  then have "?c = ?d" by (metis div_mult_mod_eq)
  then show ?case using Cons.IH [OF rest] by (simp add: t)
qed

end
