(* ===== verification/Cache_Keys.thy ===== *)
theory Cache_Keys
  imports Response_Cache Json_Documents Url_Encodings
begin

text \<open>
  The keys of the response cache: \<open>CacheKey\<close> of \<open>cache.go\<close>, the SHA-256 of a request as \<open>json.Marshal\<close>
  writes it. No type of a request has field tags, so that every field is written, under its own name
  and also when it is empty: a nil pointer, slice, map or raw document as \<open>null\<close>. The model has no other empty
  slices. How a document is written as text, and the hash, are parameters.
\<close>

section \<open>The document of a request\<close>

definition null_ptr :: "('a \<Rightarrow> json) \<Rightarrow> 'a option \<Rightarrow> json" where
  "null_ptr f x = (case x of None \<Rightarrow> JNull | Some v \<Rightarrow> f v)"

definition strs_document :: "string list \<Rightarrow> json" where
  "strs_document ss = null_list (map JStr ss)"

definition part_document :: "content_part \<Rightarrow> json" where
  "part_document p = JObj [(''Type'', JStr (cp_type p)), (''Text'', JStr (cp_text p)), (''ImageURL'', JStr (cp_image_url p)),
     (''MediaType'', JStr (cp_media_type p)), (''Data'', JStr (cp_data p)), (''URL'', JStr (cp_url p)), (''Filename'', JStr (cp_filename p))]"

definition call_document :: "tool_call \<Rightarrow> json" where
  "call_document c = JObj [(''ID'', JStr (tc_id c)), (''Name'', JStr (tc_name c)), (''Arguments'', JStr (tc_arguments c)),
     (''Metadata'', if tc_metadata c = [] then JNull else enc_strmap (tc_metadata c))]"

definition message_document :: "message \<Rightarrow> json" where
  "message_document m = JObj [(''Role'', JStr (msg_role m)), (''Content'', JStr (msg_content m)),
     (''ContentParts'', null_list (map part_document (msg_parts m))), (''ToolCallID'', JStr (msg_tool_call_id m)),
     (''ToolCalls'', null_list (map call_document (msg_tool_calls m)))]"

definition tool_document :: "tool_definition \<Rightarrow> json option" where
  "tool_document t = map_option (\<lambda>p. JObj [(''Name'', JStr (td_name t)), (''Description'', JStr (td_description t)), (''Parameters'', p)])
     (enc_raw (td_parameters t))"

definition choice_document :: "tool_choice \<Rightarrow> json" where
  "choice_document c = JObj [(''Mode'', JStr (tch_mode c)), (''Name'', JStr (tch_name c))]"

definition search_document :: "web_search_options \<Rightarrow> json" where
  "search_document ws = JObj [(''MaxUses'', enc_int (ws_max_uses ws)), (''AllowedDomains'', strs_document (ws_allowed ws)),
     (''BlockedDomains'', strs_document (ws_blocked ws)), (''UserLocation'', JStr (ws_location ws))]"

definition server_tool_document :: "server_tool \<Rightarrow> json" where
  "server_tool_document t = JObj [(''Type'', JStr (st_type t)), (''WebSearch'', null_ptr search_document (st_web_search t))]"

definition key_fields :: "completion_request \<Rightarrow> json list \<Rightarrow> json \<Rightarrow> (string \<times> json) list" where
  "key_fields r tools schema =
     [(''Model'', JStr (req_model r)), (''Messages'', null_list (map message_document (req_messages r))),
      (''SystemPrompt'', JStr (req_system r)), (''Temperature'', null_ptr JNum (req_temperature r)),
      (''MaxTokens'', null_ptr enc_int (req_max_tokens r)), (''TopP'', null_ptr JNum (req_top_p r)), (''TopK'', null_ptr enc_int (req_top_k r)),
      (''FrequencyPenalty'', null_ptr JNum (req_freq_penalty r)), (''PresencePenalty'', null_ptr JNum (req_pres_penalty r)),
      (''Stop'', strs_document (req_stop r)), (''Seed'', null_ptr enc_int (req_seed r)), (''Tools'', null_list tools),
      (''OutputSchema'', schema), (''ReasoningEffort'', JStr (req_effort r)), (''ReasoningBudget'', null_ptr enc_int (req_budget r)),
      (''ToolChoice'', null_ptr choice_document (req_tool_choice r)), (''ServerTools'', null_list (map server_tool_document (req_server_tools r))),
      (''ResponseFormat'', JStr (req_response_format r)), (''CacheControl'', JBool (req_cache_control r))]"

text \<open>A request with raw JSON that is none has no document.\<close>

definition key_document :: "completion_request \<Rightarrow> json option" where
  "key_document r = do {
     tools \<leftarrow> dec_all tool_document (req_tools r);
     schema \<leftarrow> enc_raw (req_output_schema r);
     Some (JObj (key_fields r tools schema)) }"

definition CacheKey :: "(json \<Rightarrow> string) \<Rightarrow> (string \<Rightarrow> string) \<Rightarrow> completion_request \<Rightarrow> go_error + string" where
  "CacheKey write sha r =
     (case key_document r of
        None \<Rightarrow> Inl (Opaque ''json: error calling MarshalJSON for type json.RawMessage'')
      | Some j \<Rightarrow> Inr (EncodeToString (sha (write j))))"

section \<open>What a key tells of a request\<close>

text \<open>
  Requests with one document are equal but for the order in which a map of metadata lists its
  entries, and for raw JSON that is absent or is the value \<open>null\<close>.
\<close>

definition raw_form :: "raw_json \<Rightarrow> raw_json" where
  "raw_form raw = (if raw = RawJson JNull then RawNil else raw)"

definition call_form :: "tool_call \<Rightarrow> tool_call" where
  "call_form c = c\<lparr>tc_metadata := sort_key fst (tc_metadata c)\<rparr>"

definition message_form :: "message \<Rightarrow> message" where
  "message_form m = m\<lparr>msg_tool_calls := map call_form (msg_tool_calls m)\<rparr>"

definition tool_form :: "tool_definition \<Rightarrow> tool_definition" where
  "tool_form t = t\<lparr>td_parameters := raw_form (td_parameters t)\<rparr>"

definition request_form :: "completion_request \<Rightarrow> completion_request" where
  "request_form r = r\<lparr>req_messages := map message_form (req_messages r), req_tools := map tool_form (req_tools r),
     req_output_schema := raw_form (req_output_schema r)\<rparr>"

lemma null_ptr_eq: "(\<And>a b. f a = f b \<longleftrightarrow> a = b) \<Longrightarrow> (\<And>a. f a \<noteq> JNull) \<Longrightarrow> null_ptr f x = null_ptr f y \<longleftrightarrow> x = y"
  by (cases x; cases y) (simp_all add: null_ptr_def eq_commute [of JNull])

lemma map_form: "(\<And>x y. f x = f y \<Longrightarrow> g x = g y) \<Longrightarrow> map f xs = map f ys \<Longrightarrow> map g xs = map g ys"
proof -
  assume step: "\<And>x y. f x = f y \<Longrightarrow> g x = g y" and eq: "map f xs = map f ys"
  have len: "length xs = length ys" using eq by (rule map_eq_imp_length_eq)
  moreover have "g (xs ! i) = g (ys ! i)" if "i < length xs" for i
    using step [of "xs ! i" "ys ! i"] arg_cong [OF eq, of "\<lambda>l. l ! i"] that len by simp
  ultimately show "map g xs = map g ys" by (simp add: list_eq_iff_nth_eq)
qed

lemma strs_document_eq [simp]: "strs_document ss = strs_document ts \<longleftrightarrow> ss = ts"
proof -
  have "inj JStr" by (simp add: inj_def)
  then show ?thesis by (simp add: strs_document_def inj_map_eq_map)
qed

lemma enc_int_eq [simp]: "enc_int a = enc_int b \<longleftrightarrow> a = b"
  by (simp add: enc_int_def)

lemma part_document_eq [simp]: "part_document p = part_document q \<longleftrightarrow> p = q"
  by (auto simp: part_document_def)

lemma strmap_form: "enc_strmap m = enc_strmap n \<Longrightarrow> sort_key fst m = sort_key fst n"
proof -
  have "inj (\<lambda>(k :: string, v). (k, JStr v))" by (auto simp: inj_def)
  then show "enc_strmap m = enc_strmap n \<Longrightarrow> sort_key fst m = sort_key fst n"
    by (simp add: enc_strmap_def inj_map_eq_map)
qed

lemma enc_strmap_not_null [simp]: "enc_strmap m \<noteq> JNull" "JNull \<noteq> enc_strmap m"
  by (simp_all add: enc_strmap_def)

lemma call_document_form: "call_document c = call_document d \<Longrightarrow> call_form c = call_form d"
  using strmap_form [of "tc_metadata c" "tc_metadata d"]
  by (cases c; cases d) (auto simp: call_document_def call_form_def split: if_splits)

lemma message_document_form: "message_document m = message_document n \<Longrightarrow> message_form m = message_form n"
proof -
  assume eq: "message_document m = message_document n"
  have "inj part_document" by (simp add: inj_def)
  then have "msg_parts m = msg_parts n" using eq by (simp add: message_document_def inj_map_eq_map)
  moreover have "map call_form (msg_tool_calls m) = map call_form (msg_tool_calls n)"
    using eq by (intro map_form [of call_document, OF call_document_form]) (simp_all add: message_document_def)
  ultimately show ?thesis using eq by (cases m; cases n) (simp add: message_document_def message_form_def)
qed

lemma raw_document_form: "enc_raw a = Some j \<Longrightarrow> enc_raw b = Some j \<Longrightarrow> raw_form a = raw_form b"
  by (cases a; cases b) (auto simp: raw_form_def)

lemma tool_document_form: "tool_document t = Some j \<Longrightarrow> tool_document u = Some j \<Longrightarrow> tool_form t = tool_form u"
  by (cases t; cases u) (auto simp: tool_document_def tool_form_def dest: raw_document_form)

lemma tools_document_form: "dec_all tool_document ts = Some js \<Longrightarrow> dec_all tool_document us = Some js \<Longrightarrow> map tool_form ts = map tool_form us"
proof (induction ts arbitrary: us js)
  case Nil
  then show ?case by (cases us) (auto split: option.splits)
next
  case (Cons t ts)
  from Cons.prems(1) obtain j js' where j: "tool_document t = Some j" "dec_all tool_document ts = Some js'" "js = j # js'"
    by (auto split: option.splits)
  with Cons.prems(2) obtain u us' where u: "us = u # us'" "tool_document u = Some j" "dec_all tool_document us' = Some js'"
    by (cases us) (auto split: option.splits)
  show ?case using Cons.IH [OF j(2) u(3)] tool_document_form [OF j(1) u(2)] u(1) by simp
qed

lemma choice_document_eq [simp]: "choice_document c = choice_document d \<longleftrightarrow> c = d" "choice_document c \<noteq> JNull"
  by (auto simp: choice_document_def)

lemma search_document_eq [simp]: "search_document c = search_document d \<longleftrightarrow> c = d" "search_document c \<noteq> JNull"
  by (auto simp: search_document_def)

lemma null_ptrs [simp]:
  "null_ptr JNum x = null_ptr JNum y \<longleftrightarrow> x = y" "null_ptr enc_int i = null_ptr enc_int k \<longleftrightarrow> i = k"
  "null_ptr choice_document c = null_ptr choice_document d \<longleftrightarrow> c = d"
  "null_ptr search_document s = null_ptr search_document t \<longleftrightarrow> s = t"
  by (rule null_ptr_eq; simp)+

lemma server_tool_document_eq [simp]: "server_tool_document t = server_tool_document u \<longleftrightarrow> t = u"
  by (auto simp: server_tool_document_def)

lemma key_fields_eq:
  assumes "key_fields r js j = key_fields q ks k"
  shows "js = ks" "j = k"
  using assms by (simp_all add: key_fields_def)

lemma key_fields_form:
  assumes "key_fields r js j = key_fields q ks k" "map tool_form (req_tools r) = map tool_form (req_tools q)"
    and "raw_form (req_output_schema r) = raw_form (req_output_schema q)"
  shows "request_form r = request_form q"
proof -
  have "inj server_tool_document" by (simp add: inj_def)
  then have "req_server_tools r = req_server_tools q" using assms(1) by (simp add: key_fields_def inj_map_eq_map)
  moreover have "map message_form (req_messages r) = map message_form (req_messages q)"
    using assms(1) by (intro map_form [of message_document, OF message_document_form]) (simp_all add: key_fields_def)
  ultimately show ?thesis using assms by (cases r; cases q) (simp add: key_fields_def request_form_def)
qed

lemma key_documentE:
  assumes "key_document r = Some d"
  obtains js j where "dec_all tool_document (req_tools r) = Some js" "enc_raw (req_output_schema r) = Some j" "d = JObj (key_fields r js j)"
  using assms by (auto simp: key_document_def split: bind_splits)

lemma key_document_form:
  assumes "key_document r = Some d" "key_document q = Some d"
  shows "request_form r = request_form q"
proof -
  obtain js j where r: "dec_all tool_document (req_tools r) = Some js" "enc_raw (req_output_schema r) = Some j" "d = JObj (key_fields r js j)"
    using assms(1) by (rule key_documentE)
  obtain ks k where q: "dec_all tool_document (req_tools q) = Some ks" "enc_raw (req_output_schema q) = Some k" "d = JObj (key_fields q ks k)"
    using assms(2) by (rule key_documentE)
  have eq: "key_fields r js j = key_fields q ks k" using r(3) q(3) by simp
  note same = key_fields_eq [OF eq]
  show ?thesis
    using r(1,2) q(1,2) unfolding same by (intro key_fields_form [OF eq] tools_document_form raw_document_form)
qed

text \<open>Conversely a request of the same form has the same document, hence the same key.\<close>

lemma call_form_document: "call_document (call_form c) = call_document c"
proof -
  have "sort_key fst (sort_key fst m) = sort_key fst m" "sort_key fst m = [] \<longleftrightarrow> m = []" for m :: "(string \<times> string) list"
    by (simp_all add: sort_key_id_if_sorted flip: length_0_conv)
  then show ?thesis by (simp add: call_document_def call_form_def enc_strmap_def)
qed

lemma form_document: "key_document (request_form r) = key_document r"
proof -
  have raw: "enc_raw (raw_form a) = enc_raw a" for a by (simp add: raw_form_def)
  have "tool_document (tool_form t) = tool_document t" for t by (simp add: tool_document_def tool_form_def raw)
  then have tools: "dec_all tool_document (map tool_form ts) = dec_all tool_document ts" for ts by (induction ts) (simp_all split: option.split)
  have "message_document (message_form m) = message_document m" for m
    by (simp add: message_document_def message_form_def call_form_document cong: map_cong)
  then have "key_fields (request_form r) js j = key_fields r js j" for js j
    by (simp add: key_fields_def request_form_def cong: map_cong)
  then show ?thesis by (simp add: key_document_def tools raw) (simp add: request_form_def tools raw)
qed

lemma same_form_same_key: "request_form q = request_form r \<Longrightarrow> CacheKey write sha q = CacheKey write sha r"
  by (metis CacheKey_def form_document)

section \<open>Cached answers\<close>

text \<open>The documents of a list of requests: no two of them may be written or hashed alike.\<close>

definition documents_of :: "completion_request list \<Rightarrow> json set" where
  "documents_of reqs = {d. \<exists>q\<in>set reqs. key_document q = Some d}"

lemma CacheKey_form:
  assumes "inj_on (\<lambda>d. sha (write d)) (documents_of reqs)" "q \<in> set reqs" "r \<in> set reqs"
    and "CacheKey write sha q = Inr k" "CacheKey write sha r = Inr k"
  shows "request_form q = request_form r"
proof -
  obtain d e where d: "key_document q = Some d" "key_document r = Some e"
    using assms(4,5) by (auto simp: CacheKey_def split: option.splits)
  have "sha (write d) = sha (write e)" using assms(4,5) d by (auto simp: CacheKey_def dest: EncodeToString_inj)
  moreover have "d \<in> documents_of reqs" "e \<in> documents_of reqs" using assms(2,3) d by (auto simp: documents_of_def)
  ultimately have "d = e" using assms(1) by (auto dest: inj_onD)
  with d(2) show ?thesis by (intro key_document_form [OF d(1)]) simp
qed

text \<open>
  C18. Through a \<open>CacheProvider\<close> over a \<open>MemoryCache\<close> (of any size and time to live) every answer was
  given by the wrapped provider to a request of the caller that is the same in every field:
  whatever sequence of requests, hits, evictions and failures led to it, and provided that SHA-256 keeps
  the requests of the sequence apart. Errors are never cached.
\<close>

theorem cached_answer_same_request:
  assumes "cache_run (CacheKey write sha) (memory_cache_impl clock) (logging inner) reqs
      (NewMemoryCache n ttl) (w, []) = (out, m, (w1, hist))"
    and "(req, Inr r) \<in> set out" "inj_on (\<lambda>d. sha (write d)) (documents_of reqs)"
  shows "\<exists>q\<in>set reqs. (q, r) \<in> set hist \<and> request_form q = request_form req"
proof -
  obtain q where q: "(q, r) \<in> set hist" "q = req \<or> (\<exists>k. CacheKey write sha q = Inr k \<and> CacheKey write sha req = Inr k)"
    using cache_answers_genuine [OF assms(1,2)] by blast
  have "q \<in> set reqs" "req \<in> set reqs" using cache_run_logs [OF assms(1)] q(1) assms(2) by force+
  then show ?thesis using q CacheKey_form [of sha "write", OF assms(3)] by blast
qed

text \<open>A request asked twice, the second time as a message with its metadata in another order.\<close>

definition with_meta :: "(string \<times> string) list \<Rightarrow> completion_request" where
  "with_meta m = zero_request\<lparr>req_messages := [zero_msg\<lparr>msg_role := ''assistant'', msg_tool_calls := [zero_call\<lparr>tc_metadata := m\<rparr>]\<rparr>]\<rparr>"

lemma with_meta_form: "request_form (with_meta [(''b'', ''2''), (''a'', ''1'')]) = request_form (with_meta [(''a'', ''1''), (''b'', ''2'')])"
  by (simp add: with_meta_def request_form_def message_form_def call_form_def)

lemma with_meta_document: "\<exists>d. key_document (with_meta m) = Some d"
  by (simp add: key_document_def with_meta_def zero_request_def)

theorem cached_answer_same_request_witness:
  "\<exists>q\<in>{with_meta [(''a'', ''1''), (''b'', ''2'')], with_meta [(''b'', ''2''), (''a'', ''1'')]}.
     (q, zero_response\<lparr>resp_content := nat_dec 0\<rparr>) \<in> {(with_meta [(''a'', ''1''), (''b'', ''2'')], zero_response\<lparr>resp_content := nat_dec 0\<rparr>)} \<and>
     request_form q = request_form (with_meta [(''b'', ''2''), (''a'', ''1'')])"
proof -
  let ?p = "with_meta [(''a'', ''1''), (''b'', ''2'')]" and ?q = "with_meta [(''b'', ''2''), (''a'', ''1'')]"
  let ?r = "zero_response\<lparr>resp_content := nat_dec 0\<rparr>"
  let ?key = "CacheKey (\<lambda>_. ''x'') (\<lambda>s. s)"
  obtain d where d: "key_document ?p = Some d" "key_document ?q = Some d"
    using with_meta_document form_document with_meta_form by metis
  let ?k = "EncodeToString ''x''"
  have k: "?key ?p = Inr ?k" "?key ?q = Inr ?k" using d by (simp_all add: CacheKey_def)
  have run: "cache_run ?key (memory_cache_impl (\<lambda>_. 0)) (logging stub_provider) [?p, ?q] (NewMemoryCache 2 0) (0, []) =
      ([(?p, Inr ?r), (?q, Inr ?r)], mc_Set 0 ?k ?r (NewMemoryCache 2 0), (1, [(?p, ?r)]))"
    using k by (simp add: cache_Complete_def memory_cache_impl_def logging_def stub_provider_def mc_Get_def
        mc_Set_def NewMemoryCache_def mc_evict_def ll_front_def ll_remove_def expired_def)
  have "documents_of [?p, ?q] = {d}" using d by (auto simp: documents_of_def)
  then have "inj_on (\<lambda>d. (\<lambda>s. s) ((\<lambda>_. ''x'') d)) (documents_of [?p, ?q])" by simp
  from cached_answer_same_request [OF run _ this, of ?q ?r] show ?thesis by simp
qed

end
