(* ===== verification/Checkpoints.thy ===== *)
theory Checkpoints
  imports Go_Values
begin

text \<open>
  Durable snapshots of a graph run (\<open>graph/checkpoint.go\<close>, \<open>graph/drain.go\<close>), the values
  that pass between a paused run and its caller (\<open>graph/interrupt.go\<close>), and the contract a
  \<open>Checkpointer\<close> fulfils, with \<open>MemoryCheckpointer\<close> as its instance.

  A checkpointer's operations act on the environment \<open>'w\<close> of the run, which holds its store.
\<close>

section \<open>Data\<close>

definition END_node :: string where [simp]: "END_node = ''__end__''"

record interruption =
  intr_node :: string
  intr_payload :: dyn

record 's checkpoint =
  ck_thread :: string
  ck_step :: int
  ck_node :: string
  ck_state :: 's
  ck_done :: bool
  ck_interruption :: "interruption option"

record ('w, 's) checkpointer =
  cp_Save :: "string \<Rightarrow> 's checkpoint \<Rightarrow> 'w \<Rightarrow> go_error option \<times> 'w"
  cp_Load :: "string \<Rightarrow> 'w \<Rightarrow> (go_error + 's checkpoint option) \<times> 'w"
  cp_History :: "string \<Rightarrow> 'w \<Rightarrow> (go_error + 's checkpoint list) \<times> 'w"

section \<open>The memory checkpointer\<close>

text \<open>
  The map from threads to histories is the first component of the environment. A thread with
  no entry reads as the nil slice.
\<close>

type_synonym 's histories = "string \<rightharpoonup> 's checkpoint list"

definition hist_get :: "'s histories \<Rightarrow> string \<Rightarrow> 's checkpoint list" where
  "hist_get m t = (case m t of None \<Rightarrow> [] | Some h \<Rightarrow> h)"

definition NewMemoryCheckpointer :: "'s histories" where
  "NewMemoryCheckpointer = Map.empty"

definition mcp_Save :: "string \<Rightarrow> 's checkpoint \<Rightarrow> 's histories \<Rightarrow> go_error option \<times> 's histories" where
  "mcp_Save threadID cp m = (None, m(threadID \<mapsto> hist_get m threadID @ [cp]))"

definition mcp_Load :: "string \<Rightarrow> 's histories \<Rightarrow> go_error + 's checkpoint option" where
  "mcp_Load threadID m =
     (let h = hist_get m threadID in if length h = 0 then Inr None else Inr (Some (h ! (length h - 1))))"

definition mcp_History :: "string \<Rightarrow> 's histories \<Rightarrow> go_error + 's checkpoint list" where
  "mcp_History threadID m = Inr (hist_get m threadID)"

definition MemoryCheckpointer :: "('s histories \<times> 'w, 's) checkpointer" where
  "MemoryCheckpointer =
     \<lparr>cp_Save = (\<lambda>t cp (m, w). case mcp_Save t cp m of (e, m') \<Rightarrow> (e, (m', w))),
      cp_Load = (\<lambda>t (m, w). (mcp_Load t m, (m, w))),
      cp_History = (\<lambda>t (m, w). (mcp_History t m, (m, w)))\<rparr>"

section \<open>The contract\<close>

text \<open>
  What the engine relies on: a successful \<open>Save\<close> makes its checkpoint the latest of its
  thread and appends it to the thread's history, leaves the other threads alone, and reading
  changes nothing.
\<close>

locale checkpoint_store =
  fixes impl :: "('w, 's) checkpointer"
    and latest :: "'w \<Rightarrow> string \<Rightarrow> 's checkpoint list"
  assumes save: "cp_Save impl t c w = (None, w') \<Longrightarrow>
      latest w' t' = (if t' = t then latest w t @ [c] else latest w t')"
    and load: "cp_Load impl t w = (Inr (if latest w t = [] then None else Some (last (latest w t))), w)"
    and history: "cp_History impl t w = (Inr (latest w t), w)"
begin

lemma load_saved: "cp_Save impl t c w = (None, w') \<Longrightarrow> cp_Load impl t w' = (Inr (Some c), w')"
  using load [of t w'] save [of t c w w' t] by simp

lemma load_empty: "latest w t = [] \<Longrightarrow> cp_Load impl t w = (Inr None, w)"
  using load [of t w] by simp

lemma history_grows: "cp_Save impl t c w = (None, w') \<Longrightarrow>
    cp_History impl t w' = (Inr (latest w t @ [c]), w')"
  using history [of t w'] save [of t c w w' t] by simp

end

lemma hist_get_upd [simp]: "hist_get (m(t \<mapsto> h)) t' = (if t' = t then h else hist_get m t')"
  by (simp add: hist_get_def)

interpretation mcp: checkpoint_store MemoryCheckpointer "\<lambda>(m, w). hist_get m"
proof
  fix t c t' and w w' :: "'a histories \<times> 'b"
  obtain m u where w: "w = (m, u)" by (cases w)
  show "cp_Load MemoryCheckpointer t w = (Inr (if (case w of (m, w) \<Rightarrow> hist_get m) t = [] then None
      else Some (last ((case w of (m, w) \<Rightarrow> hist_get m) t))), w)"
    by (simp add: w MemoryCheckpointer_def mcp_Load_def Let_def last_conv_nth)
  show "cp_History MemoryCheckpointer t w = (Inr ((case w of (m, w) \<Rightarrow> hist_get m) t), w)"
    by (simp add: w MemoryCheckpointer_def mcp_History_def)
  assume "cp_Save MemoryCheckpointer t c w = (None, w')"
  then have "w' = (m(t \<mapsto> hist_get m t @ [c]), u)"
    by (simp add: w MemoryCheckpointer_def mcp_Save_def)
  then show "(case w' of (m, w) \<Rightarrow> hist_get m) t' = (if t' = t
      then (case w of (m, w) \<Rightarrow> hist_get m) t @ [c] else (case w of (m, w) \<Rightarrow> hist_get m) t')"
    by (simp add: w)
qed

section \<open>Drains\<close>

text \<open>A \<open>Drain\<close>: its \<open>sync.Once\<close> and whether its channel is closed.\<close>

record drain_cell =
  dr_once :: bool
  dr_closed :: bool

definition NewDrain :: drain_cell where "NewDrain = \<lparr>dr_once = False, dr_closed = False\<rparr>"

definition Request :: "drain_cell \<Rightarrow> drain_cell" where
  "Request d = (if dr_once d then d else d\<lparr>dr_once := True, dr_closed := True\<rparr>)"

definition Requested :: "drain_cell \<Rightarrow> bool" where
  "Requested d = dr_closed d"

lemma drain_monotone:
  "\<not> Requested NewDrain" "dr_once d = dr_closed d \<Longrightarrow> Requested (Request d)" "Request (Request d) = Request d"
  by (simp_all add: NewDrain_def Request_def Requested_def)

end
