(* ===== verification/Graph_Engine.thy ===== *)
theory Graph_Engine
  imports Messages Checkpoints "HOL-Library.Word"
begin

text \<open>
  The workflow engine (\<open>graph/graph.go\<close>, \<open>node.go\<close>, \<open>interrupt.go\<close>, \<open>subgraph.go\<close>).

  A node, router, fan function, handler or hook takes the context and acts on the world: the
  cells of resume slots (\<open>gw_slots\<close>, addressed by the context, so that a value consumed by
  one node is gone for every other) and the environment \<open>'w\<close> of the run, which carries the
  cancellation of the context, the clock and the checkpointer's store.

  Scheduling is a parameter, \<open>runtime\<close>: \<open>rt_race\<close> says, for a node under a timeout, which
  side of the \<open>select\<close> won, and \<open>rt_order\<close> in which order the concurrent branches of a
  fan-out run (each as one atomic step; any list of numbers is completed to an order of all
  branches). Steps are \<open>int\<close>; the doubling backoff of a node's retries wraps at 64 bits.
\<close>

section \<open>World, context, runtime\<close>

record resume_slot =
  sl_value :: dyn
  sl_used :: bool

record 'w gworld =
  gw_slots :: "resume_slot list"
  gw_env :: 'w

record gctx =
  gc_cancelled :: bool
  gc_slot :: "nat option"

datatype race = DoneFirst bool | TimerFirst

record 'w runtime = "'w ctx_ops" +
  rt_race :: "int \<Rightarrow> 'w \<Rightarrow> race"
  rt_order :: "nat \<Rightarrow> 'w \<Rightarrow> nat list"

definition background :: gctx where
  "background = \<lparr>gc_cancelled = False, gc_slot = None\<rparr>"

definition ErrCanceled :: go_error where
  "ErrCanceled = Sentinel ''context canceled''"

definition ErrNodeTimeout :: go_error where
  "ErrNodeTimeout = Sentinel ''graph: node timed out''"

definition ctxErr :: "'w runtime \<Rightarrow> gctx \<Rightarrow> 'w gworld \<Rightarrow> go_error option" where
  "ctxErr rt c w = (case ctx_err rt (gw_env w) of
     Some e \<Rightarrow> Some e | None \<Rightarrow> if gc_cancelled c then Some ErrCanceled else None)"

section \<open>Await\<close>

text \<open>
  \<open>Await\<close> and \<open>ResumeValue\<close> at a type: \<open>sel\<close> is the type assertion, \<open>bad\<close> the error it
  gives on a value of another type.
\<close>

definition Await :: "(dyn \<Rightarrow> 'a option) \<Rightarrow> (dyn \<Rightarrow> string) \<Rightarrow> string \<Rightarrow> gctx \<Rightarrow> dyn \<Rightarrow> 'w gworld
    \<Rightarrow> (go_error + 'a) \<times> 'w gworld" where
  "Await sel type_of want c payload w =
     (case gc_slot c of
        None \<Rightarrow> (Inl (InterruptErr payload), w)
      | Some a \<Rightarrow>
          if sl_used (gw_slots w ! a) then (Inl (InterruptErr payload), w)
          else let w' = w\<lparr>gw_slots := (gw_slots w)[a := (gw_slots w ! a)\<lparr>sl_used := True\<rparr>]\<rparr>
            in case sel (sl_value (gw_slots w ! a)) of
                 None \<Rightarrow> (Inl (Errorf ''graph: resume value is %s, want %s''
                            [FStr (type_of (sl_value (gw_slots w ! a))), FStr want]), w')
               | Some v \<Rightarrow> (Inr v, w'))"

definition ResumeValue :: "(dyn \<Rightarrow> 'a option) \<Rightarrow> gctx \<Rightarrow> 'w gworld \<Rightarrow> 'a option" where
  "ResumeValue sel c w =
     (case gc_slot c of None \<Rightarrow> None | Some a \<Rightarrow> sel (sl_value (gw_slots w ! a)))"

section \<open>Graphs and run settings\<close>

type_synonym ('w, 's) node_fn = "gctx \<Rightarrow> 's \<Rightarrow> 'w gworld \<Rightarrow> (go_error + 's) \<times> 'w gworld"
type_synonym ('w, 's) router_fn = "gctx \<Rightarrow> 's \<Rightarrow> 'w gworld \<Rightarrow> (go_error + string) \<times> 'w gworld"
type_synonym ('w, 's) handler_fn =
  "gctx \<Rightarrow> 's \<Rightarrow> go_error \<Rightarrow> 'w gworld \<Rightarrow> (go_error + 's \<times> string) \<times> 'w gworld"

record 's send =
  snd_node :: string
  snd_state :: 's

record ('w, 's) fan_out =
  fo_fan :: "gctx \<Rightarrow> 's \<Rightarrow> 'w gworld \<Rightarrow> (go_error + 's send list) \<times> 'w gworld"
  fo_reduce :: "('s \<Rightarrow> 's list \<Rightarrow> 's) option"
  fo_join :: string

record ('w, 's) node_config =
  nc_timeout :: int
  nc_retries :: int
  nc_backoff :: int
  nc_onFailure :: "('w, 's) handler_fn option"

record ('w, 's) graph =
  g_nodes :: "string \<rightharpoonup> ('w, 's) node_fn"
  g_configs :: "string \<rightharpoonup> ('w, 's) node_config"
  g_edges :: "string \<rightharpoonup> string"
  g_cond :: "string \<rightharpoonup> ('w, 's) router_fn"
  g_fan :: "string \<rightharpoonup> ('w, 's) fan_out"
  g_entry :: string

definition New_graph :: "('w, 's) graph" where
  "New_graph = \<lparr>g_nodes = Map.empty, g_configs = Map.empty, g_edges = Map.empty,
     g_cond = Map.empty, g_fan = Map.empty, g_entry = []\<rparr>"

definition AddNode :: "string \<Rightarrow> ('w, 's) node_fn \<Rightarrow> ('w, 's) graph \<Rightarrow> ('w, 's) graph" where
  "AddNode name fn g = g\<lparr>g_nodes := (g_nodes g)(name \<mapsto> fn), g_configs := (g_configs g)(name := None)\<rparr>"

definition WithNodeTimeout :: "int \<Rightarrow> ('w, 's) node_config \<Rightarrow> ('w, 's) node_config" where
  "WithNodeTimeout d c = c\<lparr>nc_timeout := d\<rparr>"

definition WithNodeRetry :: "int \<Rightarrow> int \<Rightarrow> ('w, 's) node_config \<Rightarrow> ('w, 's) node_config" where
  "WithNodeRetry n backoff c = c\<lparr>nc_retries := n, nc_backoff := backoff\<rparr>"

definition WithErrorHandler :: "('w, 's) handler_fn \<Rightarrow> ('w, 's) node_config \<Rightarrow> ('w, 's) node_config" where
  "WithErrorHandler h c = c\<lparr>nc_onFailure := Some h\<rparr>"

definition AddNodeWithOptions :: "string \<Rightarrow> ('w, 's) node_fn
    \<Rightarrow> (('w, 's) node_config \<Rightarrow> ('w, 's) node_config) list \<Rightarrow> ('w, 's) graph \<Rightarrow> ('w, 's) graph" where
  "AddNodeWithOptions name fn opts g =
     g\<lparr>g_nodes := (g_nodes g)(name \<mapsto> fn),
       g_configs := (g_configs g)(name \<mapsto> foldl (\<lambda>c opt. opt c)
         \<lparr>nc_timeout = 0, nc_retries = 0, nc_backoff = 0, nc_onFailure = None\<rparr> opts)\<rparr>"

definition SetEntryPoint :: "string \<Rightarrow> ('w, 's) graph \<Rightarrow> ('w, 's) graph" where
  "SetEntryPoint name g = g\<lparr>g_entry := name\<rparr>"

definition AddEdge :: "string \<Rightarrow> string \<Rightarrow> ('w, 's) graph \<Rightarrow> ('w, 's) graph" where
  "AddEdge from to g = g\<lparr>g_edges := (g_edges g)(from \<mapsto> to)\<rparr>"

definition AddConditionalEdge :: "string \<Rightarrow> ('s \<Rightarrow> string) \<Rightarrow> ('w, 's) graph \<Rightarrow> ('w, 's) graph" where
  "AddConditionalEdge from router g =
     g\<lparr>g_cond := (g_cond g)(from \<mapsto> (\<lambda>_ state w. (Inr (router state), w)))\<rparr>"

definition AddConditionalEdgeCtx :: "string \<Rightarrow> ('w, 's) router_fn \<Rightarrow> ('w, 's) graph \<Rightarrow> ('w, 's) graph" where
  "AddConditionalEdgeCtx from router g = g\<lparr>g_cond := (g_cond g)(from \<mapsto> router)\<rparr>"

definition AddFanOut :: "string \<Rightarrow> (gctx \<Rightarrow> 's \<Rightarrow> 'w gworld \<Rightarrow> (go_error + 's send list) \<times> 'w gworld)
    \<Rightarrow> ('s \<Rightarrow> 's list \<Rightarrow> 's) option \<Rightarrow> string \<Rightarrow> ('w, 's) graph \<Rightarrow> ('w, 's) graph" where
  "AddFanOut from fan reduce join g =
     g\<lparr>g_fan := (g_fan g)(from \<mapsto> \<lparr>fo_fan = fan, fo_reduce = reduce, fo_join = join\<rparr>)\<rparr>"

lemmas graph_builders [record_defs] =
  New_graph_def AddNode_def AddNodeWithOptions_def SetEntryPoint_def AddEdge_def
  AddConditionalEdge_def AddConditionalEdgeCtx_def AddFanOut_def
  WithNodeTimeout_def WithNodeRetry_def WithErrorHandler_def

record ('w, 's) hooks =
  on_node_start :: "(gctx \<Rightarrow> string \<Rightarrow> 's \<Rightarrow> 'w gworld \<Rightarrow> gctx option \<times> 'w gworld) option"
  on_node_end :: "(gctx \<Rightarrow> string \<Rightarrow> go_error + 's \<Rightarrow> 'w gworld \<Rightarrow> 'w gworld) option"

record ('w, 's) run_config =
  rc_max :: int
  rc_checkpointer :: "('w, 's) checkpointer option"
  rc_thread :: string
  rc_hooks :: "('w, 's) hooks"
  rc_resume :: "dyn option"
  rc_drain :: "('w \<Rightarrow> drain_cell) option"

definition buildConfig :: "(('w, 's) run_config \<Rightarrow> ('w, 's) run_config) list \<Rightarrow> ('w, 's) run_config" where
  "buildConfig opts = foldl (\<lambda>c opt. opt c)
     \<lparr>rc_max = 100, rc_checkpointer = None, rc_thread = [],
      rc_hooks = \<lparr>on_node_start = None, on_node_end = None\<rparr>, rc_resume = None, rc_drain = None\<rparr> opts"

definition WithMaxSteps :: "int \<Rightarrow> ('w, 's) run_config \<Rightarrow> ('w, 's) run_config" where
  "WithMaxSteps n c = c\<lparr>rc_max := n\<rparr>"

definition WithCheckpointer :: "('w, 's) checkpointer \<Rightarrow> ('w, 's) run_config \<Rightarrow> ('w, 's) run_config" where
  "WithCheckpointer cp c = c\<lparr>rc_checkpointer := Some cp\<rparr>"

definition WithThreadID :: "string \<Rightarrow> ('w, 's) run_config \<Rightarrow> ('w, 's) run_config" where
  "WithThreadID t c = c\<lparr>rc_thread := t\<rparr>"

definition WithHooks :: "('w, 's) hooks \<Rightarrow> ('w, 's) run_config \<Rightarrow> ('w, 's) run_config" where
  "WithHooks h c = c\<lparr>rc_hooks := h\<rparr>"

definition WithResumeValue :: "dyn \<Rightarrow> ('w, 's) run_config \<Rightarrow> ('w, 's) run_config" where
  "WithResumeValue v c = c\<lparr>rc_resume := Some v\<rparr>"

definition WithDrain :: "('w \<Rightarrow> drain_cell) \<Rightarrow> ('w, 's) run_config \<Rightarrow> ('w, 's) run_config" where
  "WithDrain d c = c\<lparr>rc_drain := Some d\<rparr>"

definition drained :: "('w, 's) run_config \<Rightarrow> 'w gworld \<Rightarrow> bool" where
  "drained c w \<longleftrightarrow> (case rc_drain c of None \<Rightarrow> False | Some d \<Rightarrow> Requested (d (gw_env w)))"

definition checkThread :: "('w, 's) run_config \<Rightarrow> go_error option" where
  "checkThread c =
     (if rc_checkpointer c \<noteq> None \<and> rc_thread c = []
      then Some (Errorf ''graph: checkpointer set but no thread ID (use WithThreadID)'' []) else None)"

section \<open>Running one node\<close>

definition callNode :: "('w, 's) run_config \<Rightarrow> gctx \<Rightarrow> string \<Rightarrow> ('w, 's) node_fn \<Rightarrow> 's \<Rightarrow> 'w gworld
    \<Rightarrow> (go_error + 's) \<times> 'w gworld" where
  "callNode cfg c name fn state w =
     (let (c', w') = (case on_node_start (rc_hooks cfg) of
            None \<Rightarrow> (c, w)
          | Some h \<Rightarrow> (case h c name state w of (Some hc, w') \<Rightarrow> (hc, w') | (None, w') \<Rightarrow> (c, w')));
          (res, w'') = fn c' state w'
      in case on_node_end (rc_hooks cfg) of
           None \<Rightarrow> (res, w'')
         | Some h \<Rightarrow> (res, h c' name res w''))"

text \<open>\<open>nodeConfig.wrap\<close>; the duration is printed in nanoseconds.\<close>

definition node_wrap :: "'w runtime \<Rightarrow> ('w, 's) node_config \<Rightarrow> string \<Rightarrow> ('w, 's) node_fn \<Rightarrow> ('w, 's) node_fn" where
  "node_wrap rt nc name fn =
     (if nc_timeout nc \<le> 0 then fn
      else (\<lambda>c state w. case fn c state w of (res, w1) \<Rightarrow>
        (case rt_race rt (nc_timeout nc) (gw_env w1) of
           DoneFirst late \<Rightarrow>
             (case res of
                Inl err \<Rightarrow>
                  if late \<and> ctxErr rt c w1 = None
                  then (Inl (Errorf ''%w: %q after %v: %w''
                         [FWrap ErrNodeTimeout, FStr name, FInt (nc_timeout nc), FWrap err]), w1)
                  else (Inl err, w1)
              | Inr s \<Rightarrow> (Inr s, w1))
         | TimerFirst \<Rightarrow>
             (case ctxErr rt c w1 of
                Some e \<Rightarrow> (Inl e, w1)
              | None \<Rightarrow> (Inl (Errorf ''%w: %q after %v''
                  [FWrap ErrNodeTimeout, FStr name, FInt (nc_timeout nc)]), w1)))))"

definition node_sleep :: "'w runtime \<Rightarrow> gctx \<Rightarrow> int \<Rightarrow> 'w gworld \<Rightarrow> bool \<times> 'w gworld" where
  "node_sleep rt c d w =
     (if d \<le> 0 then (ctxErr rt c w = None, w)
      else if gc_cancelled c then (False, w)
      else case ctx_wait rt d (gw_env w) of (ok, u) \<Rightarrow> (ok, w\<lparr>gw_env := u\<rparr>))"

function exec_attempts :: "'w runtime \<Rightarrow> ('w, 's) run_config \<Rightarrow> ('w, 's) node_config \<Rightarrow> gctx \<Rightarrow> string
    \<Rightarrow> ('w, 's) node_fn \<Rightarrow> 's \<Rightarrow> int \<Rightarrow> int \<Rightarrow> 'w gworld \<Rightarrow> (go_error + 's) \<times> 'w gworld" where
  "exec_attempts rt cfg nc c name fn state backoff attempt w =
     (case callNode cfg c name (node_wrap rt nc name fn) state w of
        (Inr out, w1) \<Rightarrow> (Inr out, w1)
      | (Inl err, w1) \<Rightarrow>
          if asInterrupt err \<noteq> None \<or> ctxErr rt c w1 \<noteq> None \<or> attempt \<ge> nc_retries nc
          then (Inl err, w1)
          else case node_sleep rt c backoff w1 of
                 (False, w2) \<Rightarrow> (Inl err, w2)
               | (True, w2) \<Rightarrow>
                   exec_attempts rt cfg nc c name fn state (wrap64 (backoff * 2)) (attempt + 1) w2)"
  by pat_completeness auto
termination
  by (relation "measure (\<lambda>(rt, cfg, nc, c, name, fn, state, backoff, attempt, w).
    nat (nc_retries nc - attempt))") auto

declare exec_attempts.simps [simp del]

definition execNode :: "'w runtime \<Rightarrow> ('w, 's) graph \<Rightarrow> ('w, 's) run_config \<Rightarrow> gctx \<Rightarrow> string \<Rightarrow> 's
    \<Rightarrow> 'w gworld \<Rightarrow> (go_error + 's \<times> string) \<times> 'w gworld" where
  "execNode rt g cfg c name state w =
     (let fn = the (g_nodes g name)
      in case g_configs g name of
           None \<Rightarrow>
             (case callNode cfg c name fn state w of
                (Inl err, w1) \<Rightarrow> (Inl err, w1) | (Inr out, w1) \<Rightarrow> (Inr (out, []), w1))
         | Some nc \<Rightarrow>
             (case exec_attempts rt cfg nc c name fn state (nc_backoff nc) 0 w of
                (Inr out, w1) \<Rightarrow> (Inr (out, []), w1)
              | (Inl err, w1) \<Rightarrow>
                  (case nc_onFailure nc of
                     None \<Rightarrow> (Inl err, w1)
                   | Some h \<Rightarrow>
                       if asInterrupt err \<noteq> None \<or> ctxErr rt c w1 \<noteq> None then (Inl err, w1)
                       else h c state err w1)))"

section \<open>Fan-out\<close>

definition unknown_send :: "('w, 's) graph \<Rightarrow> 's send list \<Rightarrow> 's send option" where
  "unknown_send g sends = find (\<lambda>sd. g_nodes g (snd_node sd) = None) sends"

definition planFanOut :: "('w, 's) graph \<Rightarrow> ('w, 's) fan_out \<Rightarrow> gctx \<Rightarrow> 's \<Rightarrow> 'w gworld
    \<Rightarrow> (go_error + 's send list) \<times> 'w gworld" where
  "planFanOut g fo c state w =
     (case fo_fan fo c state w of
        (Inl err, w1) \<Rightarrow> (Inl (Errorf ''graph: fan-out failed: %w'' [FWrap err]), w1)
      | (Inr sends, w1) \<Rightarrow>
          (case unknown_send g sends of
             Some sd \<Rightarrow> (Inl (Errorf ''graph: unknown fan-out node %q'' [FStr (snd_node sd)]), w1)
           | None \<Rightarrow> (Inr sends, w1)))"

text \<open>The order the branches take, completed so that each runs exactly once.\<close>

definition branch_order :: "'w runtime \<Rightarrow> nat \<Rightarrow> 'w gworld \<Rightarrow> nat list" where
  "branch_order rt n w =
     (let o1 = remdups (filter (\<lambda>i. i < n) (rt_order rt n (gw_env w)))
      in o1 @ filter (\<lambda>i. i \<notin> set o1) [0..<n])"

text \<open>The two result slices of \<open>runBranches\<close> as one, \<open>None\<close> while a branch has not run.\<close>

fun run_order :: "'w runtime \<Rightarrow> ('w, 's) graph \<Rightarrow> ('w, 's) run_config \<Rightarrow> gctx \<Rightarrow> 's send list
    \<Rightarrow> nat list \<Rightarrow> (go_error + 's) option list \<Rightarrow> 'w gworld
    \<Rightarrow> (go_error + 's) option list \<times> 'w gworld" where
  "run_order rt g cfg c sends [] rs w = (rs, w)"
| "run_order rt g cfg c sends (i # is) rs w =
     (case execNode rt g cfg c (snd_node (sends ! i)) (snd_state (sends ! i)) w of
        (Inl e, w1) \<Rightarrow> run_order rt g cfg (c\<lparr>gc_cancelled := True\<rparr>) sends is (rs[i := Some (Inl e)]) w1
      | (Inr (out, _), w1) \<Rightarrow> run_order rt g cfg c sends is (rs[i := Some (Inr out)]) w1)"

text \<open>The first failed branch by index, with its error; otherwise every result.\<close>

fun collect_branches :: "'s send list \<Rightarrow> (go_error + 's) option list \<Rightarrow> go_error + 's list" where
  "collect_branches (sd # sends) (Some (Inl e) # rs) =
     Inl (Errorf ''graph: fan-out node %q failed: %w'' [FStr (snd_node sd), FWrap e])"
| "collect_branches (sd # sends) (Some (Inr s) # rs) =
     (case collect_branches sends rs of Inl e \<Rightarrow> Inl e | Inr ss \<Rightarrow> Inr (s # ss))"
| "collect_branches (sd # sends) (None # rs) = collect_branches sends rs"
| "collect_branches _ _ = Inr []"

definition runBranches :: "'w runtime \<Rightarrow> ('w, 's) graph \<Rightarrow> ('w, 's) run_config \<Rightarrow> gctx \<Rightarrow> 's send list
    \<Rightarrow> 'w gworld \<Rightarrow> (go_error + 's list) \<times> 'w gworld" where
  "runBranches rt g cfg c sends w =
     (if sends = [] then (Inr [], w)
      else case run_order rt g cfg c sends (branch_order rt (length sends) w)
                  (replicate (length sends) None) w of
             (rs, w1) \<Rightarrow> (collect_branches sends rs, w1))"

definition reduceFanOut :: "('s \<Rightarrow> 's list \<Rightarrow> 's) option \<Rightarrow> 's \<Rightarrow> 's list \<Rightarrow> 's" where
  "reduceFanOut reduce base results =
     (case reduce of Some r \<Rightarrow> r base results
      | None \<Rightarrow> if length results = 1 then results ! 0 else base)"

section \<open>The run loop\<close>

record 's step_event =
  se_node :: string
  se_state :: 's
  se_step :: int
  se_interruption :: "interruption option"

record 's run_result =
  rr_state :: 's
  rr_steps :: "'s step_event list"
  rr_interruption :: "interruption option"
  rr_drained :: bool

text \<open>The variables of the loop: \<open>result.Steps\<close>, \<open>state\<close>, \<open>currentNode\<close> and \<open>step\<close>.\<close>

record 's run_state =
  rs_state :: 's
  rs_node :: string
  rs_step :: int
  rs_events :: "'s step_event list"

datatype ('s, 'w) outcome =
    Next "'s run_state" "'w gworld"
  | Stop "go_error + 's run_result" "'s step_event list" "'w gworld"

definition saveCheckpoint :: "('w, 's) run_config \<Rightarrow> int \<Rightarrow> string \<Rightarrow> 's \<Rightarrow> 'w gworld
    \<Rightarrow> go_error option \<times> 'w gworld" where
  "saveCheckpoint cfg step nextNode state w =
     (case rc_checkpointer cfg of
        None \<Rightarrow> (None, w)
      | Some cp \<Rightarrow>
          (case cp_Save cp (rc_thread cfg)
             \<lparr>ck_thread = rc_thread cfg, ck_step = step, ck_node = nextNode, ck_state = state,
              ck_done = (nextNode = END_node), ck_interruption = None\<rparr> (gw_env w) of
             (Some err, u) \<Rightarrow> (Some (Errorf ''graph: save checkpoint: %w'' [FWrap err]), w\<lparr>gw_env := u\<rparr>)
           | (None, u) \<Rightarrow> (None, w\<lparr>gw_env := u\<rparr>)))"

definition drainedResult :: "'s run_state \<Rightarrow> 's run_result" where
  "drainedResult st = \<lparr>rr_state = rs_state st, rr_steps = rs_events st, rr_interruption = None,
     rr_drained = True\<rparr>"

text \<open>The tail of an iteration, once the next node is known: checkpoint, then drain.\<close>

definition advance :: "('w, 's) run_config \<Rightarrow> 's run_state \<Rightarrow> 'w gworld \<Rightarrow> ('s, 'w) outcome" where
  "advance cfg st w =
     (case saveCheckpoint cfg (rs_step st) (rs_node st) (rs_state st) w of
        (Some err, w1) \<Rightarrow> Stop (Inl err) (rs_events st) w1
      | (None, w1) \<Rightarrow>
          if rs_node st \<noteq> END_node \<and> drained cfg w1
          then Stop (Inr (drainedResult st)) (rs_events st) w1
          else Next st w1)"

definition pause :: "('w, 's) run_config \<Rightarrow> 's run_state \<Rightarrow> dyn \<Rightarrow> go_error \<Rightarrow> 'w gworld \<Rightarrow> ('s, 'w) outcome" where
  "pause cfg st payload err w =
     (case rc_checkpointer cfg of
        None \<Rightarrow> Stop (Inl (Errorf ''graph: node %q interrupted but no checkpointer is set: %w''
                  [FStr (rs_node st), FWrap err])) (rs_events st) w
      | Some cp \<Rightarrow>
          let intr = \<lparr>intr_node = rs_node st, intr_payload = payload\<rparr>;
              ev = \<lparr>se_node = rs_node st, se_state = rs_state st, se_step = rs_step st,
                    se_interruption = Some intr\<rparr>
          in case cp_Save cp (rc_thread cfg)
               \<lparr>ck_thread = rc_thread cfg, ck_step = rs_step st, ck_node = rs_node st,
                ck_state = rs_state st, ck_done = False, ck_interruption = Some intr\<rparr> (gw_env w) of
               (Some e, u) \<Rightarrow> Stop (Inl (Errorf ''graph: save checkpoint: %w'' [FWrap e]))
                  (rs_events st) (w\<lparr>gw_env := u\<rparr>)
             | (None, u) \<Rightarrow> Stop (Inr \<lparr>rr_state = rs_state st, rr_steps = rs_events st @ [ev],
                  rr_interruption = Some intr, rr_drained = False\<rparr>) (rs_events st @ [ev]) (w\<lparr>gw_env := u\<rparr>))"

definition exceeded :: "int \<Rightarrow> go_error" where
  "exceeded n = Errorf ''graph: exceeded maximum steps (%d)'' [FInt n]"

definition record_step :: "'s run_state \<Rightarrow> string \<Rightarrow> 's \<Rightarrow> 's run_state" where
  "record_step st node state =
     st\<lparr>rs_step := rs_step st + 1,
        rs_events := rs_events st @ [\<lparr>se_node = node, se_state = state, se_step = rs_step st + 1,
          se_interruption = None\<rparr>]\<rparr>"

fun record_branches :: "'s run_state \<Rightarrow> 's send list \<Rightarrow> 's list \<Rightarrow> 's run_state" where
  "record_branches st (sd # sends) (r # results) =
     record_branches (record_step st (snd_node sd) r) sends results"
| "record_branches st _ _ = st"

definition fan_step :: "'w runtime \<Rightarrow> ('w, 's) graph \<Rightarrow> ('w, 's) run_config \<Rightarrow> gctx
    \<Rightarrow> ('w, 's) fan_out \<Rightarrow> 's run_state \<Rightarrow> 'w gworld \<Rightarrow> ('s, 'w) outcome" where
  "fan_step rt g cfg c fo st w =
     (case planFanOut g fo c (rs_state st) w of
        (Inl err, w1) \<Rightarrow> Stop (Inl err) (rs_events st) w1
      | (Inr sends, w1) \<Rightarrow>
          if rs_step st + int (length sends) > rc_max cfg
          then Stop (Inl (exceeded (rc_max cfg))) (rs_events st) w1
          else case runBranches rt g cfg c sends w1 of
                 (Inl err, w2) \<Rightarrow>
                   if asInterrupt err \<noteq> None
                   then Stop (Inl (Errorf ''graph: interrupts are not supported inside fan-out branches: %w''
                          [FWrap err])) (rs_events st) w2
                   else Stop (Inl err) (rs_events st) w2
               | (Inr results, w2) \<Rightarrow>
                   let st' = record_branches st sends results
                   in advance cfg (st'\<lparr>rs_state := reduceFanOut (fo_reduce fo) (rs_state st) results,
                                      rs_node := fo_join fo\<rparr>) w2)"

definition edge_step :: "('w, 's) graph \<Rightarrow> ('w, 's) run_config \<Rightarrow> gctx \<Rightarrow> 's run_state \<Rightarrow> 'w gworld
    \<Rightarrow> ('s, 'w) outcome" where
  "edge_step g cfg c st w =
     (case g_cond g (rs_node st) of
        Some router \<Rightarrow>
          (case router c (rs_state st) w of
             (Inl err, w1) \<Rightarrow> Stop (Inl (Errorf ''graph: router for node %q failed: %w''
                [FStr (rs_node st), FWrap err])) (rs_events st) w1
           | (Inr nxt, w1) \<Rightarrow> advance cfg (st\<lparr>rs_node := nxt\<rparr>) w1)
      | None \<Rightarrow>
          (case g_edges g (rs_node st) of
             Some nxt \<Rightarrow> advance cfg (st\<lparr>rs_node := nxt\<rparr>) w
           | None \<Rightarrow> Stop (Inl (Errorf ''graph: no edge from node %q'' [FStr (rs_node st)])) (rs_events st) w))"

text \<open>One iteration of the loop in \<open>run\<close>.\<close>

definition superstep :: "'w runtime \<Rightarrow> ('w, 's) graph \<Rightarrow> ('w, 's) run_config \<Rightarrow> gctx
    \<Rightarrow> 's run_state \<Rightarrow> 'w gworld \<Rightarrow> ('s, 'w) outcome" where
  "superstep rt g cfg c st w =
     (if rs_node st = END_node
      then Stop (Inr \<lparr>rr_state = rs_state st, rr_steps = rs_events st, rr_interruption = None,
             rr_drained = False\<rparr>) (rs_events st) w
      else case ctxErr rt c w of
        Some err \<Rightarrow> Stop (Inl err) (rs_events st) w
      | None \<Rightarrow>
        if rs_step st \<ge> rc_max cfg then Stop (Inl (exceeded (rc_max cfg))) (rs_events st) w
        else if g_nodes g (rs_node st) = None
        then Stop (Inl (Errorf ''graph: unknown node %q'' [FStr (rs_node st)])) (rs_events st) w
        else case execNode rt g cfg c (rs_node st) (rs_state st) w of
          (Inl err, w1) \<Rightarrow>
            (case asInterrupt err of
               Some payload \<Rightarrow> pause cfg st payload err w1
             | None \<Rightarrow> Stop (Inl (Errorf ''graph: node %q failed: %w'' [FStr (rs_node st), FWrap err]))
                 (rs_events st) w1)
        | (Inr (newState, override), w1) \<Rightarrow>
            let st1 = (record_step st (rs_node st) newState)\<lparr>rs_state := newState\<rparr>
            in if override \<noteq> [] then advance cfg (st1\<lparr>rs_node := override\<rparr>) w1
               else case g_fan g (rs_node st) of
                      Some fo \<Rightarrow> fan_step rt g cfg c fo st1 w1
                    | None \<Rightarrow> edge_step g cfg c st1 w1)"

lemma advance_Next: "advance cfg st w = Next st' w' \<Longrightarrow> st' = st"
  by (auto simp: advance_def split: prod.splits option.splits if_splits)

lemma record_step_simps [simp]:
  "rs_step (record_step st n s) = rs_step st + 1"
  "rs_node (record_step st n s) = rs_node st"
  "rs_state (record_step st n s) = rs_state st"
  "rs_events (record_step st n s) = rs_events st @ [\<lparr>se_node = n, se_state = s,
     se_step = rs_step st + 1, se_interruption = None\<rparr>]"
  by (simp_all add: record_step_def)

lemma record_branches_step:
  "rs_step (record_branches st sends rs) = rs_step st + int (min (length sends) (length rs))"
  by (induction st sends rs rule: record_branches.induct) auto

lemma collect_branches_length: "collect_branches sends rs = Inr ss \<Longrightarrow> length ss \<le> length sends"
  by (induction sends rs arbitrary: ss rule: collect_branches.induct) (auto split: sum.splits)

lemma runBranches_length:
  "runBranches rt g cfg c sends w = (Inr ss, w') \<Longrightarrow> length ss \<le> length sends"
  by (auto simp: runBranches_def dest: collect_branches_length split: if_splits prod.splits)

text \<open>Every iteration that goes on has executed a node within the budget.\<close>

lemma superstep_Next:
  assumes "superstep rt g cfg c st w = Next st' w'"
  shows "rs_step st < rs_step st'" "rs_step st < rc_max cfg" "rs_step st' \<le> rc_max cfg"
proof -
  have fan: "rs_step st1 \<le> rs_step st' \<and> (rs_step st1 \<le> rc_max cfg \<longrightarrow> rs_step st' \<le> rc_max cfg)"
    if "fan_step rt g cfg c fo st1 w1 = Next st' w'" for fo st1 w1
  proof -
    from that obtain sends ss w2 where s: "planFanOut g fo c (rs_state st1) w1 = (Inr sends, w2)"
      "\<not> rs_step st1 + int (length sends) > rc_max cfg"
      "st' = (record_branches st1 sends ss)\<lparr>rs_state := reduceFanOut (fo_reduce fo) (rs_state st1) ss,
         rs_node := fo_join fo\<rparr>"
      by (auto simp: fan_step_def Let_def dest!: advance_Next split: prod.splits sum.splits if_splits)
    then show ?thesis by (auto simp: record_branches_step)
  qed
  from assms show "rs_step st < rs_step st'" "rs_step st < rc_max cfg" "rs_step st' \<le> rc_max cfg"
    by (auto simp: superstep_def Let_def edge_step_def pause_def dest!: advance_Next fan
        split: if_splits option.splits prod.splits sum.splits)
qed

function graph_loop :: "'w runtime \<Rightarrow> ('w, 's) graph \<Rightarrow> ('w, 's) run_config \<Rightarrow> gctx
    \<Rightarrow> 's run_state \<Rightarrow> 'w gworld \<Rightarrow> (go_error + 's run_result) \<times> 's step_event list \<times> 'w gworld" where
  "graph_loop rt g cfg c st w =
     (case superstep rt g cfg c st w of
        Stop res evs w' \<Rightarrow> (res, evs, w')
      | Next st' w' \<Rightarrow> graph_loop rt g cfg c st' w')"
  by pat_completeness auto
termination
  by (relation "measure (\<lambda>(rt, g, cfg, c, st, w). nat (rc_max cfg - rs_step st))")
    (auto dest: superstep_Next)

declare graph_loop.simps [simp del]

section \<open>Run, Stream, Resume, AsNode\<close>

definition start_state :: "'s \<Rightarrow> string \<Rightarrow> int \<Rightarrow> 's run_state" where
  "start_state state node step = \<lparr>rs_state = state, rs_node = node, rs_step = step, rs_events = []\<rparr>"

definition no_entry :: go_error where
  "no_entry = Errorf ''graph: no entry point set'' []"

definition graph_Run :: "'w runtime \<Rightarrow> ('w, 's) graph \<Rightarrow> ('w, 's) run_config \<Rightarrow> gctx \<Rightarrow> 's
    \<Rightarrow> 'w gworld \<Rightarrow> (go_error + 's run_result) \<times> 'w gworld" where
  "graph_Run rt g cfg c initialState w =
     (if g_entry g = [] then (Inl no_entry, w)
      else case checkThread cfg of
             Some err \<Rightarrow> (Inl err, w)
           | None \<Rightarrow>
               (case graph_loop rt g cfg c (start_state initialState (g_entry g) 0) w of
                  (res, _, w') \<Rightarrow> (res, w')))"

text \<open>\<open>Stream\<close>, for a consumer that reads both channels to the end: the events, and the error
  the one-shot channel carries.\<close>

definition graph_Stream :: "'w runtime \<Rightarrow> ('w, 's) graph \<Rightarrow> ('w, 's) run_config \<Rightarrow> gctx \<Rightarrow> 's
    \<Rightarrow> 'w gworld \<Rightarrow> 's step_event list \<times> go_error option \<times> 'w gworld" where
  "graph_Stream rt g cfg c initialState w =
     (if g_entry g = [] then ([], Some no_entry, w)
      else case checkThread cfg of
             Some err \<Rightarrow> ([], Some err, w)
           | None \<Rightarrow>
               (case graph_loop rt g cfg c (start_state initialState (g_entry g) 0) w of
                  (Inl err, evs, w') \<Rightarrow> (evs, Some err, w')
                | (Inr res, evs, w') \<Rightarrow> (evs, None, w')))"

text \<open>A resume value gets a cell of its own, which the context of the run points to.\<close>

definition attach_resume :: "dyn option \<Rightarrow> gctx \<Rightarrow> 'w gworld \<Rightarrow> gctx \<times> 'w gworld" where
  "attach_resume v c w =
     (case v of
        None \<Rightarrow> (c, w)
      | Some v \<Rightarrow> (c\<lparr>gc_slot := Some (length (gw_slots w))\<rparr>,
                   w\<lparr>gw_slots := gw_slots w @ [\<lparr>sl_value = v, sl_used = False\<rparr>]\<rparr>))"

definition graph_Resume :: "'w runtime \<Rightarrow> ('w, 's) graph \<Rightarrow> ('w, 's) run_config \<Rightarrow> gctx
    \<Rightarrow> 'w gworld \<Rightarrow> (go_error + 's run_result) \<times> 'w gworld" where
  "graph_Resume rt g cfg c w =
     (case rc_checkpointer cfg of
        None \<Rightarrow> (Inl (Errorf ''graph: resume requires a checkpointer'' []), w)
      | Some cp \<Rightarrow>
          if rc_thread cfg = [] then (Inl (Errorf ''graph: resume requires a thread ID'' []), w)
          else case cp_Load cp (rc_thread cfg) (gw_env w) of
            (Inl err, u) \<Rightarrow> (Inl (Errorf ''graph: load checkpoint: %w'' [FWrap err]), w\<lparr>gw_env := u\<rparr>)
          | (Inr None, u) \<Rightarrow>
              (Inl (Errorf ''graph: no checkpoint for thread %q'' [FStr (rc_thread cfg)]), w\<lparr>gw_env := u\<rparr>)
          | (Inr (Some ck), u) \<Rightarrow>
              if ck_done ck \<or> ck_node ck = END_node
              then (Inr \<lparr>rr_state = ck_state ck, rr_steps = [], rr_interruption = None, rr_drained = False\<rparr>,
                    w\<lparr>gw_env := u\<rparr>)
              else (case attach_resume (rc_resume cfg) c (w\<lparr>gw_env := u\<rparr>) of
                (c', w1) \<Rightarrow>
                  (case graph_loop rt g cfg c' (start_state (ck_state ck) (ck_node ck) (ck_step ck)) w1 of
                     (res, _, w2) \<Rightarrow> (res, w2))))"

definition AsNode :: "'w runtime \<Rightarrow> ('w, 's) graph \<Rightarrow> ('p \<Rightarrow> 's) \<Rightarrow> ('s \<Rightarrow> 'p \<Rightarrow> 'p) \<Rightarrow> ('w, 'p) node_fn" where
  "AsNode rt sub into out c p w =
     (case graph_Run rt sub (buildConfig []) c (into p) w of
        (Inl err, w1) \<Rightarrow> (Inl (Errorf ''graph: subgraph: %w'' [FWrap err]), w1)
      | (Inr res, w1) \<Rightarrow> (Inr (out (rr_state res) p), w1))"

end
