(* ===== verification/Graph_Properties.thy ===== *)
theory Graph_Properties
  imports Graph_Engine
begin

text \<open>
  What the workflow engine promises: the run loop as a step relation and its reachable
  states, numbering and budget of steps, and the equivalence of interrupted and
  uninterrupted runs, proved once for every checkpointer that keeps the contract and then
  stated for \<open>MemoryCheckpointer\<close>.
\<close>

section \<open>The loop as a step relation\<close>

inductive reaches :: "'w runtime \<Rightarrow> ('w, 's) graph \<Rightarrow> ('w, 's) run_config \<Rightarrow> gctx
    \<Rightarrow> 's run_state \<Rightarrow> 'w gworld \<Rightarrow> 's run_state \<Rightarrow> 'w gworld \<Rightarrow> bool"
  for rt g cfg c where
  start: "reaches rt g cfg c st w st w"
| step: "reaches rt g cfg c st w st1 w1 \<Longrightarrow> superstep rt g cfg c st1 w1 = Next st2 w2 \<Longrightarrow>
    reaches rt g cfg c st w st2 w2"

inductive_cases reachesE: "reaches rt g cfg c st w st' w'"

lemma reaches_loop:
  "reaches rt g cfg c st w st' w' \<Longrightarrow> graph_loop rt g cfg c st w = graph_loop rt g cfg c st' w'"
proof (induction rule: reaches.induct)
  case (start st w)
  then show ?case by simp
next
  case (step st w st1 w1 st2 w2)
  then show ?case using graph_loop.simps [of rt g cfg c st1 w1] by simp
qed

lemma reaches_first:
  "reaches rt g cfg c st1 w1 st2 w2 \<Longrightarrow> superstep rt g cfg c st w = Next st1 w1 \<Longrightarrow>
   reaches rt g cfg c st w st2 w2"
proof (induction rule: reaches.induct)
  case (start st1 w1)
  show ?case by (rule reaches.step [OF reaches.start start])
next
  case step
  then show ?case by (blast intro: reaches.step)
qed

text \<open>Every run ends at a reachable state whose next step stops.\<close>

lemma loop_stops:
  "\<exists>st' w'. reaches rt g cfg c st w st' w' \<and>
     superstep rt g cfg c st' w' = (case graph_loop rt g cfg c st w of (res, evs, v) \<Rightarrow> Stop res evs v)"
proof (induction rt g cfg c st w rule: graph_loop.induct)
  case (1 rt g cfg c st w)
  show ?case
  proof (cases "superstep rt g cfg c st w")
    case (Next st1 w1)
    from "1.IH" [OF Next] obtain st' w' where *: "reaches rt g cfg c st1 w1 st' w'"
      "superstep rt g cfg c st' w' = (case graph_loop rt g cfg c st1 w1 of (res, evs, v) \<Rightarrow> Stop res evs v)"
      by blast
    from *(1) Next have "reaches rt g cfg c st w st' w'" by (rule reaches_first)
    with * Next show ?thesis using graph_loop.simps [of rt g cfg c st w] by auto
  next
    case (Stop res evs v)
    then show ?thesis using graph_loop.simps [of rt g cfg c st w] by (auto intro: reaches.start)
  qed
qed

section \<open>Numbering and budget\<close>

definition executions :: "'s step_event list \<Rightarrow> 's step_event list" where
  "executions evs = filter (\<lambda>ev. se_interruption ev = None) evs"

lemma executions_simps [simp]:
  "executions [] = []" "executions (xs @ ys) = executions xs @ executions ys"
  "executions (ev # evs) = (if se_interruption ev = None then ev # executions evs else executions evs)"
  by (simp_all add: executions_def)

text \<open>The events of a state are the executions so far, numbered from the offset of the run.\<close>

definition numbered :: "int \<Rightarrow> int \<Rightarrow> 's step_event list \<Rightarrow> bool" where
  "numbered n0 n evs \<longleftrightarrow> n0 \<le> n \<and> map se_step (executions evs) = [n0 + 1 .. n]"

lemma upto_snoc: "(i :: int) \<le> j + 1 \<Longrightarrow> [i .. j + 1] = [i .. j] @ [j + 1]"
  using upto_rec2 [of i "j + 1"] by simp

lemma numbered_record: "numbered n0 (rs_step st) (rs_events st) \<Longrightarrow>
    numbered n0 (rs_step (record_step st n s)) (rs_events (record_step st n s))"
  by (simp add: numbered_def upto_snoc)

lemma numbered_branches: "numbered n0 (rs_step st) (rs_events st) \<Longrightarrow>
    numbered n0 (rs_step (record_branches st sends rs)) (rs_events (record_branches st sends rs))"
  by (induction st sends rs rule: record_branches.induct) (simp_all add: numbered_record del: record_step_simps)

definition state_ok :: "int \<Rightarrow> ('w, 's) run_config \<Rightarrow> 's run_state \<Rightarrow> bool" where
  "state_ok n0 cfg st \<longleftrightarrow> numbered n0 (rs_step st) (rs_events st) \<and> rs_step st \<le> max n0 (rc_max cfg)"

definition events_ok :: "int \<Rightarrow> ('w, 's) run_config \<Rightarrow> 's step_event list \<Rightarrow> bool" where
  "events_ok n0 cfg evs \<longleftrightarrow> (\<exists>n. numbered n0 n evs \<and> n \<le> max n0 (rc_max cfg))"

text \<open>The stops of each part of an iteration.\<close>

lemma advance_Stop: "advance cfg st w = Stop res evs w' \<Longrightarrow> evs = rs_events st"
  by (auto simp: advance_def split: prod.splits option.splits if_splits)

lemma pause_events: "pause cfg st p err w = Stop res evs w' \<Longrightarrow>
    executions evs = executions (rs_events st)"
  by (auto simp: pause_def Let_def split: option.splits prod.splits)

lemma result_steps:
  "advance cfg st w = Stop (Inr r) evs w' \<Longrightarrow> rr_steps r = evs"
  "pause cfg st p err w = Stop (Inr r) evs w' \<Longrightarrow> rr_steps r = evs"
  by (auto simp: advance_def pause_def Let_def drainedResult_def
      split: prod.splits option.splits if_splits)

lemma fan_step_cases:
  obtains
    (fail) err w' where "fan_step rt g cfg c fo st w = Stop (Inl err) (rs_events st) w'"
  | (joined) sends results w' where "rs_step st + int (length sends) \<le> rc_max cfg"
      "fan_step rt g cfg c fo st w = advance cfg ((record_branches st sends results)
         \<lparr>rs_state := reduceFanOut (fo_reduce fo) (rs_state st) results, rs_node := fo_join fo\<rparr>) w'"
proof (cases "planFanOut g fo c (rs_state st) w")
  case plan: (Pair r1 w1)
  show thesis
  proof (cases r1)
    case (Inl err)
    then have "fan_step rt g cfg c fo st w = Stop (Inl err) (rs_events st) w1"
      using plan by (simp add: fan_step_def)
    then show thesis by (rule fail)
  next
    case (Inr sends)
    obtain r2 w2 where run: "runBranches rt g cfg c sends w1 = (r2, w2)" by (metis prod.collapse)
    show thesis
    proof (cases "rs_step st + int (length sends) \<le> rc_max cfg \<and> is_ok r2")
      case True
      then obtain results where r2: "r2 = Inr results" by (auto simp: is_ok_iff)
      have "fan_step rt g cfg c fo st w = advance cfg ((record_branches st sends results)
         \<lparr>rs_state := reduceFanOut (fo_reduce fo) (rs_state st) results, rs_node := fo_join fo\<rparr>) w2"
        using True plan run Inr r2 by (simp add: fan_step_def Let_def)
      with True show thesis using joined by blast
    next
      case False
      then have "\<exists>err w'. fan_step rt g cfg c fo st w = Stop (Inl err) (rs_events st) w'"
        using plan run Inr by (cases r2) (auto simp: fan_step_def)
      then show thesis using fail by blast
    qed
  qed
qed

text \<open>What an iteration may have recorded when it stops or goes on: nothing, the node, or the
  node and its branches.\<close>

lemma superstep_cases:
  assumes "superstep rt g cfg c st w = out"
  obtains
    (none) res w' where "out = Stop res (rs_events st) w'"
      "\<forall>r. res = Inr r \<longrightarrow> rs_node st = END_node \<and> w' = w \<and> r = \<lparr>rr_state = rs_state st,
        rr_steps = rs_events st, rr_interruption = None, rr_drained = False\<rparr>"
  | (paused) payload err w' where "rs_step st < rc_max cfg" "rs_node st \<noteq> END_node"
      "execNode rt g cfg c (rs_node st) (rs_state st) w = (Inl err, w')" "asInterrupt err = Some payload"
      "out = pause cfg st payload err w'"
  | (fail) newState err w' where "rs_step st < rc_max cfg"
      "out = Stop (Inl err) (rs_events (record_step st (rs_node st) newState)) w'"
  | (moved) newState node w' where "rs_step st < rc_max cfg"
      "out = advance cfg ((record_step st (rs_node st) newState)\<lparr>rs_state := newState, rs_node := node\<rparr>) w'"
  | (joined) newState sends results s' node w' where "rs_step st < rc_max cfg"
      "rs_step st + 1 + int (length sends) \<le> rc_max cfg"
      "out = advance cfg ((record_branches ((record_step st (rs_node st) newState)\<lparr>rs_state := newState\<rparr>)
         sends results)\<lparr>rs_state := s', rs_node := node\<rparr>) w'"
proof (cases "rs_node st = END_node \<or> ctxErr rt c w \<noteq> None \<or> rs_step st \<ge> rc_max cfg \<or> g_nodes g (rs_node st) = None")
  case True
  then show thesis using assms none
    by (auto simp: superstep_def simp del: END_node_def split: if_splits option.splits)
next
  case False
  let ?st = "\<lambda>s. (record_step st (rs_node st) s)\<lparr>rs_state := s\<rparr>"
  from False have pre: "rs_node st \<noteq> END_node" "ctxErr rt c w = None" "\<not> rs_step st \<ge> rc_max cfg"
    "g_nodes g (rs_node st) \<noteq> None"
    by blast+
  obtain r w1 where ex: "execNode rt g cfg c (rs_node st) (rs_state st) w = (r, w1)"
    by (metis prod.collapse)
  show thesis
  proof (cases r)
    case (Inl err)
    show thesis
    proof (cases "asInterrupt err")
      case None
      then have "out = Stop (Inl (Errorf ''graph: node %q failed: %w'' [FStr (rs_node st), FWrap err]))
          (rs_events st) w1"
        using assms pre ex Inl by (simp add: superstep_def del: END_node_def)
      then show thesis by (rule none) simp
    next
      case (Some payload)
      then show thesis using assms pre ex Inl paused by (simp add: superstep_def del: END_node_def)
    qed
  next
    case (Inr no)
    obtain s ov where no: "no = (s, ov)" by (cases no)
    have out: "out = (if ov \<noteq> [] then advance cfg ((?st s)\<lparr>rs_node := ov\<rparr>) w1
      else case g_fan g (rs_node st) of Some fo \<Rightarrow> fan_step rt g cfg c fo (?st s) w1
        | None \<Rightarrow> edge_step g cfg c (?st s) w1)"
      using assms pre ex Inr no by (simp add: superstep_def Let_def del: END_node_def)
    have bud: "rs_step st < rc_max cfg" using pre(3) by simp
    show thesis
    proof (cases "ov \<noteq> []")
      case True
      then show thesis using out moved [OF bud] by auto
    next
      case False
      show thesis
      proof (cases "g_fan g (rs_node st)")
        case None
        then show thesis using out False moved [OF bud] fail [OF bud]
          by (auto simp: edge_step_def split: option.splits prod.splits sum.splits)
      next
        case (Some fo)
        have eq: "out = fan_step rt g cfg c fo (?st s) w1" using out False Some by simp
        show thesis
        proof (cases rule: fan_step_cases [of rt g cfg c fo "?st s" w1])
          case (fail err w')
          then show thesis using eq that(3) [OF bud] by simp
        next
          case (joined sends results w')
          show thesis
          proof (rule that(5) [OF bud])
            show "rs_step st + 1 + int (length sends) \<le> rc_max cfg" using joined(1) by simp
            show "out = advance cfg ((record_branches (?st s) sends results)
              \<lparr>rs_state := reduceFanOut (fo_reduce fo) (rs_state (?st s)) results, rs_node := fo_join fo\<rparr>) w'"
              using eq joined(2) by simp
          qed
        qed
      qed
    qed
  qed
qed

lemma state_ok_moves:
  assumes "state_ok n0 cfg st" "rs_step st < rc_max cfg"
  shows "state_ok n0 cfg ((record_step st node s)\<lparr>rs_state := s', rs_node := node'\<rparr>)"
    and "rs_step st + 1 + int (length sends) \<le> rc_max cfg \<Longrightarrow>
      state_ok n0 cfg ((record_branches ((record_step st node s)\<lparr>rs_state := s\<rparr>) sends results)
        \<lparr>rs_state := s', rs_node := node'\<rparr>)"
proof -
  have num: "numbered n0 (rs_step (record_step st node s)) (rs_events (record_step st node s))"
    using assms by (intro numbered_record) (simp add: state_ok_def)
  then show "state_ok n0 cfg ((record_step st node s)\<lparr>rs_state := s', rs_node := node'\<rparr>)"
    using assms by (simp add: state_ok_def)
  assume "rs_step st + 1 + int (length sends) \<le> rc_max cfg"
  then show "state_ok n0 cfg ((record_branches ((record_step st node s)\<lparr>rs_state := s\<rparr>) sends results)
        \<lparr>rs_state := s', rs_node := node'\<rparr>)"
    using num numbered_branches [of n0 "(record_step st node s)\<lparr>rs_state := s\<rparr>" sends results]
    by (simp add: state_ok_def record_branches_step)
qed

lemma superstep_ok:
  assumes "state_ok n0 cfg st"
  shows "case superstep rt g cfg c st w of
      Next st' w' \<Rightarrow> state_ok n0 cfg st'
    | Stop res evs w' \<Rightarrow> events_ok n0 cfg evs \<and> (\<forall>r. res = Inr r \<longrightarrow> rr_steps r = evs)"
proof -
  have evs: "state_ok n0 cfg st' \<Longrightarrow> executions evs = executions (rs_events st') \<Longrightarrow> events_ok n0 cfg evs"
    for st' :: "'b run_state" and evs
    by (auto simp: state_ok_def events_ok_def numbered_def)
  have adv: "case advance cfg st' w' of Next st'' w'' \<Rightarrow> state_ok n0 cfg st''
      | Stop res evs w'' \<Rightarrow> events_ok n0 cfg evs \<and> (\<forall>r. res = Inr r \<longrightarrow> rr_steps r = evs)"
    if "state_ok n0 cfg st'" for st' w'
    using that evs advance_Next advance_Stop result_steps(1)
    by (fastforce split: outcome.split)
  show ?thesis
  proof (rule superstep_cases [OF refl, of rt g cfg c st w], goal_cases)
    case (1 res w')
    then show ?thesis using evs [OF assms] by (auto simp: superstep_def)
  next
    case (2 payload err w')
    then show ?thesis using evs [OF assms] pause_events result_steps(2)
      by (fastforce simp: pause_def Let_def split: outcome.split option.splits prod.splits)
  next
    case (3 s err w')
    then show ?thesis
      using evs [OF state_ok_moves(1) [OF assms 3(1), where node = "rs_node st" and s = s and s' = s
          and node' = "[]"], of "rs_events (record_step st (rs_node st) s)"] by simp
  next
    case (4 s node w')
    then show ?thesis using adv [OF state_ok_moves(1) [OF assms 4(1)]] by simp
  next
    case (5 s sends results s' node w')
    then show ?thesis using adv [OF state_ok_moves(2) [OF assms 5(1,2)]] by simp
  qed
qed

lemma loop_ok:
  assumes "state_ok n0 cfg st" "graph_loop rt g cfg c st w = (res, evs, w')"
  shows "events_ok n0 cfg evs" "res = Inr r \<Longrightarrow> rr_steps r = evs"
proof -
  have "reaches rt g cfg c st w st' w' \<Longrightarrow> state_ok n0 cfg st \<Longrightarrow> state_ok n0 cfg st'" for st' w'
  proof (induction rule: reaches.induct)
    case (step st w st1 w1 st2 w2)
    then show ?case using superstep_ok [of n0 cfg st1 rt g c w1] by simp
  qed
  moreover obtain st' v where "reaches rt g cfg c st w st' v"
      "superstep rt g cfg c st' v = Stop res evs w'"
    using loop_stops [of rt g cfg c st w] assms(2) by auto
  ultimately show "events_ok n0 cfg evs" "res = Inr r \<Longrightarrow> rr_steps r = evs"
    using assms(1) superstep_ok [of n0 cfg st' rt g c v] by auto
qed

lemma start_ok: "state_ok n0 cfg (start_state s node n0)"
  by (simp add: state_ok_def start_state_def numbered_def)

text \<open>
  Every run, however it ends, reports its node executions (fan-out branches included)
  numbered \<open>1, 2, 3, ...\<close> without a gap or a repetition, and never more of them than
  \<open>MaxSteps\<close>; only the event of a pause repeats the number of the last execution. The
  successful result carries exactly the events the stream emitted.
\<close>

theorem graph_step_budget:
  "case graph_Stream rt g cfg c s w of (evs, err, w') \<Rightarrow>
     (\<exists>k. map se_step (executions evs) = [1 .. k] \<and> 0 \<le> k \<and> k \<le> max 0 (rc_max cfg)) \<and>
     graph_Run rt g cfg c s w =
       (case err of Some e \<Rightarrow> Inl e | None \<Rightarrow> fst (graph_Run rt g cfg c s w), w') \<and>
     (case fst (graph_Run rt g cfg c s w) of Inl e \<Rightarrow> err = Some e | Inr r \<Rightarrow> err = None \<and> rr_steps r = evs)"
proof -
  obtain res evs w' where l: "graph_loop rt g cfg c (start_state s (g_entry g) 0) w = (res, evs, w')"
    by (metis prod.collapse)
  have "events_ok 0 cfg evs" "\<And>r. res = Inr r \<Longrightarrow> rr_steps r = evs"
    using loop_ok [OF start_ok l] by blast+
  moreover have "\<exists>k. [] = [1 .. k] \<and> 0 \<le> k \<and> k \<le> max 0 (rc_max cfg)"
    by (rule exI [of _ 0]) simp
  ultimately show ?thesis using l
    by (auto simp: graph_Stream_def graph_Run_def events_ok_def numbered_def split: option.split sum.split)
qed

section \<open>Draining\<close>

text \<open>The settings of a run matter only through their own fields.\<close>

lemma callNode_cfg: "rc_hooks cfg = rc_hooks cfg' \<Longrightarrow> callNode cfg = callNode cfg'"
  by (intro ext) (simp add: callNode_def)

lemma exec_attempts_cfg:
  "rc_hooks cfg = rc_hooks cfg' \<Longrightarrow>
   exec_attempts rt cfg nc c name fn s b a w = exec_attempts rt cfg' nc c name fn s b a w"
proof (induction rt cfg nc c name fn s b a w rule: exec_attempts.induct)
  case (1 rt cfg nc c name fn s b a w)
  have eq: "callNode cfg' c name (node_wrap rt nc name fn) s w
      = callNode cfg c name (node_wrap rt nc name fn) s w"
    using callNode_cfg [OF "1.prems"] by simp
  show ?case
    unfolding exec_attempts.simps [of rt cfg nc c name fn s b a w]
      exec_attempts.simps [of rt cfg' nc c name fn s b a w] eq
    using 1 by (auto split: prod.split sum.split bool.split)
qed

lemma execNode_cfg:
  assumes "rc_hooks cfg = rc_hooks cfg'"
  shows "execNode rt g cfg = execNode rt g cfg'"
  by (intro ext) (unfold execNode_def callNode_cfg [OF assms] exec_attempts_cfg [OF assms], rule refl)

lemma run_order_cfg:
  "rc_hooks cfg = rc_hooks cfg' \<Longrightarrow>
   run_order rt g cfg c sends is rs w = run_order rt g cfg' c sends is rs w"
  by (induction "is" arbitrary: c rs w)
    (auto simp: execNode_cfg [of cfg cfg'] split: prod.split sum.split)

lemma runBranches_cfg:
  assumes "rc_hooks cfg = rc_hooks cfg'"
  shows "runBranches rt g cfg = runBranches rt g cfg'"
  by (intro ext) (unfold runBranches_def run_order_cfg [OF assms], rule refl)

definition no_drain :: "('w, 's) run_config \<Rightarrow> ('w, 's) run_config" where
  "no_drain cfg = cfg\<lparr>rc_drain := None\<rparr>"

lemma no_drain_simps [simp]:
  "rc_max (no_drain cfg) = rc_max cfg" "rc_checkpointer (no_drain cfg) = rc_checkpointer cfg"
  "rc_thread (no_drain cfg) = rc_thread cfg" "rc_hooks (no_drain cfg) = rc_hooks cfg"
  "rc_resume (no_drain cfg) = rc_resume cfg" "rc_drain (no_drain cfg) = None"
  by (simp_all add: no_drain_def)

lemma saveCheckpoint_no_drain [simp]: "saveCheckpoint (no_drain cfg) = saveCheckpoint cfg"
  by (intro ext) (unfold saveCheckpoint_def no_drain_simps, rule refl)

lemma pause_no_drain [simp]: "pause (no_drain cfg) = pause cfg"
  by (intro ext) (unfold pause_def no_drain_simps, rule refl)

text \<open>An iteration with a drain is the one without it, stopped when the drain was requested.\<close>

definition drain_check :: "('w, 's) run_config \<Rightarrow> ('s, 'w) outcome \<Rightarrow> ('s, 'w) outcome" where
  "drain_check cfg out = (case out of
     Next st w \<Rightarrow> if rs_node st \<noteq> END_node \<and> drained cfg w
       then Stop (Inr (drainedResult st)) (rs_events st) w else Next st w
   | Stop res evs w \<Rightarrow> Stop res evs w)"

lemma drain_check_simps [simp]:
  "drain_check cfg (Stop res evs w) = Stop res evs w"
  "drain_check cfg (pause cfg st p err w) = pause cfg st p err w"
  by (auto simp: drain_check_def pause_def Let_def split: option.split prod.split)

lemma advance_drain: "advance cfg st w = drain_check cfg (advance (no_drain cfg) st w)"
  by (auto simp: advance_def drain_check_def drained_def split: prod.split option.split)

lemma superstep_drain:
  "superstep rt g cfg c st w = drain_check cfg (superstep rt g (no_drain cfg) c st w)"
proof -
  have fan: "fan_step rt g cfg c fo st w = drain_check cfg (fan_step rt g (no_drain cfg) c fo st w)"
    for fo st w
    by (auto simp: fan_step_def Let_def advance_drain [of cfg] runBranches_cfg [of cfg "no_drain cfg"]
        split: prod.split sum.split)
  have edge: "edge_step g cfg c st w = drain_check cfg (edge_step g (no_drain cfg) c st w)" for st w
    by (auto simp: edge_step_def advance_drain [of cfg] split: prod.split sum.split option.split)
  show ?thesis
    by (auto simp: superstep_def Let_def fan edge advance_drain [of cfg] execNode_cfg [of cfg "no_drain cfg"]
        simp del: END_node_def split: prod.split sum.split option.split)
qed

lemma reaches_no_drain: "reaches rt g cfg c st w st' w' \<Longrightarrow> reaches rt g (no_drain cfg) c st w st' w'"
proof (induction rule: reaches.induct)
  case (step st w st1 w1 st2 w2)
  then have "superstep rt g (no_drain cfg) c st1 w1 = Next st2 w2"
    by (auto simp: superstep_drain [of rt g cfg] drain_check_def split: outcome.splits if_splits)
  with step show ?case by (blast intro: reaches.step)
qed (rule reaches.start)

text \<open>A run that reports a drain stopped right after a checkpoint of where it would have gone.\<close>

lemma pause_not_drained: "pause cfg st p err w = Stop (Inr r) evs w' \<Longrightarrow> \<not> rr_drained r"
  by (auto simp: pause_def Let_def split: option.splits prod.splits)

lemma advance_not_drained: "advance (no_drain cfg) st w = Stop (Inr r) evs w' \<Longrightarrow> \<not> rr_drained r"
  by (auto simp: advance_def drained_def split: option.splits prod.splits if_splits)

lemma superstep_Next_saved:
  assumes "superstep rt g cfg c st w = Next st' w'"
  shows "\<exists>v. saveCheckpoint cfg (rs_step st') (rs_node st') (rs_state st') v = (None, w')"
proof -
  have adv: "advance cfg s v = Next st' w' \<Longrightarrow>
      \<exists>v. saveCheckpoint cfg (rs_step st') (rs_node st') (rs_state st') v = (None, w')" for s v
    by (auto simp: advance_def split: prod.splits option.splits if_splits)
  show ?thesis
  proof (rule superstep_cases [OF assms], goal_cases)
    case (2 p err w1)
    then show ?case by (auto simp: pause_def Let_def split: option.splits prod.splits)
  qed (use adv in \<open>auto simp: assms\<close>)
qed

lemma superstep_not_drained:
  assumes "superstep rt g (no_drain cfg) c st w = Stop (Inr r) evs w'"
  shows "\<not> rr_drained r"
proof (rule superstep_cases [OF assms], goal_cases)
  case (2 p err w1)
  then show ?case using pause_not_drained [of cfg st p err w1 r evs w'] by simp
qed (auto dest: advance_not_drained [OF sym])

lemma drained_stop:
  assumes "graph_loop rt g cfg c st w = (Inr r, evs, w')" "rr_drained r"
  shows "\<exists>st' v. reaches rt g (no_drain cfg) c st w st' w' \<and> r = drainedResult st' \<and>
    rs_node st' \<noteq> END_node \<and> evs = rs_events st' \<and>
    saveCheckpoint cfg (rs_step st') (rs_node st') (rs_state st') v = (None, w')"
proof -
  obtain st1 w1 where r1: "reaches rt g cfg c st w st1 w1" and
    s1: "superstep rt g cfg c st1 w1 = Stop (Inr r) evs w'"
    using loop_stops [of rt g cfg c st w] assms(1) by auto
  then obtain st' where st': "superstep rt g (no_drain cfg) c st1 w1 = Next st' w'"
    "rs_node st' \<noteq> END_node" "r = drainedResult st'" "evs = rs_events st'"
    using assms(2) unfolding superstep_drain [of rt g cfg]
    by (auto simp: drain_check_def dest: superstep_not_drained split: outcome.splits if_splits)
  have "reaches rt g (no_drain cfg) c st w st' w'"
    using reaches_no_drain [OF r1] st'(1) by (rule reaches.step)
  with superstep_Next_saved [OF st'(1)] st' show ?thesis by auto
qed

text \<open>Events recorded before a step are carried along unchanged.\<close>

definition shift :: "'s step_event list \<Rightarrow> 's run_state \<Rightarrow> 's run_state" where
  "shift E st = st\<lparr>rs_events := E @ rs_events st\<rparr>"

definition shift_result :: "'s step_event list \<Rightarrow> go_error + 's run_result \<Rightarrow> go_error + 's run_result" where
  "shift_result E res = map_sum id (\<lambda>r. r\<lparr>rr_steps := E @ rr_steps r\<rparr>) res"

definition shift_out :: "'s step_event list \<Rightarrow> ('s, 'w) outcome \<Rightarrow> ('s, 'w) outcome" where
  "shift_out E out = (case out of Next st w \<Rightarrow> Next (shift E st) w
     | Stop res evs w \<Rightarrow> Stop (shift_result E res) (E @ evs) w)"

lemma shift_simps [simp]:
  "rs_state (shift E st) = rs_state st" "rs_node (shift E st) = rs_node st"
  "rs_step (shift E st) = rs_step st" "rs_events (shift E st) = E @ rs_events st"
  "(shift E st)\<lparr>rs_state := s\<rparr> = shift E (st\<lparr>rs_state := s\<rparr>)"
  "(shift E st)\<lparr>rs_node := n\<rparr> = shift E (st\<lparr>rs_node := n\<rparr>)"
  "record_step (shift E st) n s = shift E (record_step st n s)"
  "shift_result E (Inl e) = Inl e"
  "shift_result E (Inr r) = Inr (r\<lparr>rr_steps := E @ rr_steps r\<rparr>)"
  "shift_out E (Next st w) = Next (shift E st) w"
  "shift_out E (Stop res evs w) = Stop (shift_result E res) (E @ evs) w"
  by (simp_all add: shift_def shift_result_def shift_out_def record_step_def)

lemma shift_branches: "record_branches (shift E st) sends rs = shift E (record_branches st sends rs)"
  by (induction st sends rs rule: record_branches.induct) simp_all

lemma shift_advance: "advance cfg (shift E st) w = shift_out E (advance cfg st w)"
  by (auto simp: advance_def drainedResult_def split: prod.split option.split)

lemma shift_pause: "pause cfg (shift E st) p err w = shift_out E (pause cfg st p err w)"
  by (auto simp: pause_def Let_def split: prod.split option.split)

lemma shift_superstep: "superstep rt g cfg c (shift E st) w = shift_out E (superstep rt g cfg c st w)"
proof -
  have fan: "fan_step rt g cfg c fo (shift E st) w = shift_out E (fan_step rt g cfg c fo st w)"
    for fo st w
    by (auto simp: fan_step_def Let_def shift_branches shift_advance split: prod.split sum.split)
  have edge: "edge_step g cfg c (shift E st) w = shift_out E (edge_step g cfg c st w)" for st w
    by (auto simp: edge_step_def shift_advance split: prod.split sum.split option.split)
  show ?thesis
    by (auto simp: superstep_def Let_def fan edge shift_advance shift_pause
        simp del: END_node_def split: prod.split sum.split option.split)
qed

lemma shift_loop:
  "graph_loop rt g cfg c (shift E st) w =
     (case graph_loop rt g cfg c st w of (res, evs, w') \<Rightarrow> (shift_result E res, E @ evs, w'))"
proof (induction rt g cfg c st w rule: graph_loop.induct)
  case (1 rt g cfg c st w)
  show ?case
    unfolding graph_loop.simps [of rt g cfg c "shift E st" w] graph_loop.simps [of rt g cfg c st w]
      shift_superstep
    using "1.IH" by (auto split: outcome.split)
qed

section \<open>How a run ends without an error\<close>

lemma advance_ends: "advance cfg st w = Stop (Inr r) evs w' \<Longrightarrow> rr_drained r \<and> rr_interruption r = None"
  by (auto simp: advance_def drainedResult_def split: option.splits prod.splits if_splits)

lemma loop_ends:
  assumes loop: "graph_loop rt g cfg c st w = (Inr r, evs, w')" and nd: "\<not> rr_drained r"
  obtains
    (finished) st' where "reaches rt g cfg c st w st' w'" "rs_node st' = END_node"
      "rr_state r = rs_state st'" "rr_interruption r = None"
  | (paused) st' v payload err u where "reaches rt g cfg c st w st' v" "rs_node st' \<noteq> END_node"
      "execNode rt g cfg c (rs_node st') (rs_state st') v = (Inl err, u)" "asInterrupt err = Some payload"
      "pause cfg st' payload err u = Stop (Inr r) evs w'"
proof -
  obtain st1 w1 where r1: "reaches rt g cfg c st w st1 w1" and
    s1: "superstep rt g cfg c st1 w1 = Stop (Inr r) evs w'"
    using loop_stops [of rt g cfg c st w] loop by auto
  show thesis
  proof (rule superstep_cases [OF s1], goal_cases)
    case (1 res w2)
    then show ?case using finished r1 by auto
  next
    case (2 payload err w2)
    then show ?case using paused [OF r1] by simp
  qed (use nd in \<open>auto dest: advance_ends [OF sym]\<close>)
qed

lemma pause_result:
  assumes "pause cfg st payload err u = Stop (Inr r) evs w'"
  shows "rr_state r = rs_state st" "rr_interruption r = Some \<lparr>intr_node = rs_node st, intr_payload = payload\<rparr>"
    "rr_steps r \<noteq> []" "se_step (last (rr_steps r)) = rs_step st"
    "\<exists>cp u'. rc_checkpointer cfg = Some cp \<and> w' = u\<lparr>gw_env := u'\<rparr> \<and> cp_Save cp (rc_thread cfg)
       \<lparr>ck_thread = rc_thread cfg, ck_step = rs_step st, ck_node = rs_node st, ck_state = rs_state st,
        ck_done = False, ck_interruption = rr_interruption r\<rparr> (gw_env u) = (None, u')"
  using assms by (auto simp: pause_def Let_def split: option.splits prod.splits)

lemma reaches_saved:
  "reaches rt g cfg c st w st' w' \<Longrightarrow> rs_node st \<noteq> rs_node st' \<Longrightarrow>
   \<exists>v. saveCheckpoint cfg (rs_step st') (rs_node st') (rs_state st') v = (None, w')"
  by (erule reachesE) (auto dest: superstep_Next_saved)

section \<open>Resuming, for every checkpoint store\<close>

text \<open>A resume from a checkpoint that says where to go next.\<close>

lemma Resume_from:
  assumes "rc_checkpointer cfg = Some cp" "rc_thread cfg \<noteq> []"
    and "cp_Load cp (rc_thread cfg) (gw_env w) = (Inr (Some ck), gw_env w)"
    and "\<not> ck_done ck" "ck_node ck \<noteq> END_node"
  shows "graph_Resume rt g cfg c w = (case attach_resume (rc_resume cfg) c w of (c', w1) \<Rightarrow>
      (case graph_loop rt g cfg c' (start_state (ck_state ck) (ck_node ck) (ck_step ck)) w1 of
         (res, _, w2) \<Rightarrow> (res, w2)))"
  using assms by (simp add: graph_Resume_def)

context checkpoint_store
begin

lemma saved_loads:
  assumes "saveCheckpoint cfg n node s v = (None, w)" "rc_checkpointer cfg = Some impl"
  shows "cp_Load impl (rc_thread cfg) (gw_env w) = (Inr (Some
    \<lparr>ck_thread = rc_thread cfg, ck_step = n, ck_node = node, ck_state = s,
     ck_done = (node = END_node), ck_interruption = None\<rparr>), gw_env w)"
  using assms by (auto simp: saveCheckpoint_def dest!: load_saved split: prod.splits option.splits)

lemma drain_resume:
  assumes cp: "rc_checkpointer cfg = Some impl" and t: "rc_thread cfg \<noteq> []"
    and nores: "rc_resume cfg = None"
    and run: "graph_Run rt g cfg c s w = (Inr r, w1)" "rr_drained r"
  shows "graph_Run rt g (no_drain cfg) c s w =
    (case graph_Resume rt g (no_drain cfg) c w1 of (res, w2) \<Rightarrow> (shift_result (rr_steps r) res, w2))"
proof -
  let ?st = "start_state s (g_entry g) 0"
  have ok: "g_entry g \<noteq> []" "checkThread cfg = None" using run(1) t
    by (auto simp: graph_Run_def checkThread_def split: if_splits)
  obtain evs where loop: "graph_loop rt g cfg c ?st w = (Inr r, evs, w1)"
    using run(1) ok by (auto simp: graph_Run_def split: prod.splits)
  obtain st' v where st': "reaches rt g (no_drain cfg) c ?st w st' w1" "r = drainedResult st'"
      "rs_node st' \<noteq> END_node" "saveCheckpoint cfg (rs_step st') (rs_node st') (rs_state st') v = (None, w1)"
    using drained_stop [OF loop run(2)] by blast
  have "st' = shift (rr_steps r) (start_state (rs_state st') (rs_node st') (rs_step st'))"
    using st'(2) by (simp add: drainedResult_def start_state_def shift_def)
  then have "graph_loop rt g (no_drain cfg) c ?st w =
      (case graph_loop rt g (no_drain cfg) c (start_state (rs_state st') (rs_node st') (rs_step st')) w1
        of (res, evs, w') \<Rightarrow> (shift_result (rr_steps r) res, rr_steps r @ evs, w'))"
    using reaches_loop [OF st'(1)] shift_loop by metis
  moreover have "graph_Resume rt g (no_drain cfg) c w1 = (case attach_resume None c w1 of (c', w2) \<Rightarrow>
      (case graph_loop rt g (no_drain cfg) c' (start_state (rs_state st') (rs_node st') (rs_step st')) w2 of
         (res, _, w2) \<Rightarrow> (res, w2)))"
    using Resume_from [of "no_drain cfg" impl w1] saved_loads [OF st'(4) cp] st'(3) cp t nores
    by simp
  ultimately show ?thesis using ok
    by (simp add: graph_Run_def attach_resume_def checkThread_def split: prod.split)
qed

lemma complete_resume:
  assumes cp: "rc_checkpointer cfg = Some impl" and t: "rc_thread cfg \<noteq> []"
    and run: "graph_Run rt g cfg c s w = (Inr r, w1)" "\<not> rr_drained r" "rr_interruption r = None"
    and entry: "g_entry g \<noteq> END_node"
  shows "graph_Resume rt g cfg c' w1 =
    (Inr \<lparr>rr_state = rr_state r, rr_steps = [], rr_interruption = None, rr_drained = False\<rparr>, w1)"
proof -
  let ?st = "start_state s (g_entry g) 0"
  obtain evs where loop: "graph_loop rt g cfg c ?st w = (Inr r, evs, w1)"
    using run(1) by (auto simp: graph_Run_def split: if_splits option.splits prod.splits)
  show ?thesis
  proof (cases rule: loop_ends [OF loop run(2)])
    case (1 st')
    have "rs_node ?st \<noteq> rs_node st'" using entry 1(2) by (simp add: start_state_def)
    then obtain v where "saveCheckpoint cfg (rs_step st') (rs_node st') (rs_state st') v = (None, w1)"
      using reaches_saved [OF 1(1)] by blast
    from saved_loads [OF this cp] 1 show ?thesis using cp t by (simp add: graph_Resume_def)
  next
    case (2 st' v payload err u)
    then show ?thesis using pause_result(2) [OF 2(5)] run(3) by simp
  qed
qed

lemma pause_resume:
  assumes cp: "rc_checkpointer cfg = Some impl" and t: "rc_thread cfg \<noteq> []"
    and run: "graph_Run rt g cfg c s w = (Inr r, w1)" "rr_interruption r = Some i"
  shows "graph_Resume rt g (cfg\<lparr>rc_resume := Some ans\<rparr>) c w1 =
    (let w2 = w1\<lparr>gw_slots := gw_slots w1 @ [\<lparr>sl_value = ans, sl_used = False\<rparr>]\<rparr>
     in case graph_loop rt g (cfg\<lparr>rc_resume := Some ans\<rparr>) (c\<lparr>gc_slot := Some (length (gw_slots w1))\<rparr>)
          (start_state (rr_state r) (intr_node i) (se_step (last (rr_steps r)))) w2
        of (res, _, w3) \<Rightarrow> (res, w3))"
proof -
  let ?st = "start_state s (g_entry g) 0"
  obtain evs where loop: "graph_loop rt g cfg c ?st w = (Inr r, evs, w1)"
    using run(1) by (auto simp: graph_Run_def split: if_splits option.splits prod.splits)
  have nd: "\<not> rr_drained r"
    using run(2) drained_stop [OF loop] by (auto simp: drainedResult_def)
  show ?thesis
  proof (cases rule: loop_ends [OF loop nd])
    case (1 st')
    then show ?thesis using run(2) by simp
  next
    case (2 st' v payload err u)
    note p = pause_result [OF 2(5)]
    have i: "intr_node i = rs_node st'" using p(2) run(2) by simp
    obtain u' where "w1 = u\<lparr>gw_env := u'\<rparr>" "cp_Save impl (rc_thread cfg)
        \<lparr>ck_thread = rc_thread cfg, ck_step = rs_step st', ck_node = rs_node st', ck_state = rs_state st',
         ck_done = False, ck_interruption = rr_interruption r\<rparr> (gw_env u) = (None, u')"
      using p(5) cp by auto
    then have "cp_Load impl (rc_thread cfg) (gw_env w1) = (Inr (Some
        \<lparr>ck_thread = rc_thread cfg, ck_step = rs_step st', ck_node = rs_node st', ck_state = rs_state st',
         ck_done = False, ck_interruption = rr_interruption r\<rparr>), gw_env w1)"
      using load_saved by auto
    then show ?thesis using cp t 2(2) i p(1,4)
      by (subst Resume_from [where cp = impl]) (auto simp: attach_resume_def Let_def)
  qed
qed

end

section \<open>The memory checkpointer\<close>

text \<open>
  C3. Draining loses nothing: a run that a drain stopped (at whatever step, in the middle of
  whatever graph) and that is then resumed gives the result, the error, the events and the
  final world of the same run without a drain; the two event lists concatenate.
\<close>

theorem drain_resume_equivalence:
  assumes "rc_checkpointer cfg = Some MemoryCheckpointer" "rc_thread cfg \<noteq> []" "rc_resume cfg = None"
    and "graph_Run rt g cfg c s w = (Inr r, w1)" "rr_drained r"
  shows "graph_Run rt g (cfg\<lparr>rc_drain := None\<rparr>) c s w =
    (case graph_Resume rt g (cfg\<lparr>rc_drain := None\<rparr>) c w1 of
       (Inl e, w2) \<Rightarrow> (Inl e, w2)
     | (Inr r', w2) \<Rightarrow> (Inr (r'\<lparr>rr_steps := rr_steps r @ rr_steps r'\<rparr>), w2))"
  using mcp.drain_resume [OF assms] by (simp add: no_drain_def split: prod.split sum.split)

text \<open>
  A completed run stays completed: resuming its thread returns the final state it
  returned, executes no node and changes nothing.
\<close>

theorem completed_run_resumes_to_itself:
  assumes "rc_checkpointer cfg = Some MemoryCheckpointer" "rc_thread cfg \<noteq> []"
    and "graph_Run rt g cfg c s w = (Inr r, w1)" "\<not> rr_drained r" "rr_interruption r = None"
    and "g_entry g \<noteq> ''__end__''"
  shows "graph_Resume rt g cfg c' w1 =
    (Inr \<lparr>rr_state = rr_state r, rr_steps = [], rr_interruption = None, rr_drained = False\<rparr>, w1)"
  using mcp.complete_resume [OF assms(1-5)] assms(6) by simp

text \<open>
  C4. Resuming a paused run with an answer runs the node that asked again, first, on the
  state it had received and at the same step, in a context whose first \<open>Await\<close> gets the
  answer while any later one pauses again.
\<close>

theorem pause_then_resume:
  assumes "rc_checkpointer cfg = Some MemoryCheckpointer" "rc_thread cfg \<noteq> []"
    and "graph_Run rt g cfg c s w = (Inr r, w1)" "rr_interruption r = Some i"
  shows "\<exists>c' w2. graph_Resume rt g (cfg\<lparr>rc_resume := Some ans\<rparr>) c w1 =
      (case graph_loop rt g (cfg\<lparr>rc_resume := Some ans\<rparr>) c'
         (start_state (rr_state r) (intr_node i) (se_step (last (rr_steps r)))) w2 of (res, _, w3) \<Rightarrow> (res, w3))
    \<and> gw_env w2 = gw_env w1
    \<and> (case Await Some type_of want c' p w2 of (res, w3) \<Rightarrow>
         res = Inr ans \<and> Await Some type_of want c' q w3 = (Inl (InterruptErr q), w3))"
proof (intro exI conjI)
  let ?w2 = "w1\<lparr>gw_slots := gw_slots w1 @ [\<lparr>sl_value = ans, sl_used = False\<rparr>]\<rparr>"
  let ?c = "c\<lparr>gc_slot := Some (length (gw_slots w1))\<rparr>"
  show "graph_Resume rt g (cfg\<lparr>rc_resume := Some ans\<rparr>) c w1 =
      (case graph_loop rt g (cfg\<lparr>rc_resume := Some ans\<rparr>) ?c
         (start_state (rr_state r) (intr_node i) (se_step (last (rr_steps r)))) ?w2 of (res, _, w3) \<Rightarrow> (res, w3))"
    using mcp.pause_resume [OF assms] by (simp add: Let_def)
  show "gw_env ?w2 = gw_env w1" by simp
  show "case Await Some type_of want ?c p ?w2 of (res, w3) \<Rightarrow>
         res = Inr ans \<and> Await Some type_of want ?c q w3 = (Inl (InterruptErr q), w3)"
    by (simp add: Await_def Let_def)
qed

section \<open>A small graph\<close>

text \<open>Two nodes, one of which asks; the runs below instantiate the theorems above.\<close>

definition quiet :: "'w runtime" where
  "quiet = \<lparr>ctx_err = (\<lambda>_. None), ctx_wait = (\<lambda>_ w. (True, w)), rt_race = (\<lambda>_ _. DoneFirst False),
     rt_order = (\<lambda>_ _. [])\<rparr>"

definition incr :: "int \<Rightarrow> ('w, int) node_fn" where
  "incr n c s w = (Inr (s + n), w)"

definition asking :: "('w, int) node_fn" where
  "asking c s w = (case Await Some (\<lambda>_. ''T'') ''T'' c (DStr ''go on?'') w of
     (Inl e, w1) \<Rightarrow> (Inl e, w1) | (Inr v, w1) \<Rightarrow> (Inr (if v = DBool True then s * 10 else 0), w1))"

definition two_nodes :: "(int histories \<times> bool, int) graph" where
  "two_nodes = AddEdge ''b'' ''__end__'' (AddEdge ''a'' ''b'' (SetEntryPoint ''a''
     (AddNode ''b'' (incr 2) (AddNode ''a'' (incr 1) New_graph))))"

definition asking_graph :: "(int histories \<times> bool, int) graph" where
  "asking_graph = AddEdge ''b'' ''__end__'' (AddEdge ''a'' ''b'' (SetEntryPoint ''a''
     (AddNode ''b'' asking (AddNode ''a'' (incr 1) New_graph))))"

definition saving :: "(int histories \<times> bool, int) run_config" where
  "saving = buildConfig [WithCheckpointer MemoryCheckpointer, WithThreadID ''t'']"

definition empty_world :: "(int histories \<times> bool) gworld" where
  "empty_world = \<lparr>gw_slots = [], gw_env = (Map.empty, True)\<rparr>"

definition snap :: "int \<Rightarrow> string \<Rightarrow> int \<Rightarrow> int checkpoint" where
  "snap n node s = \<lparr>ck_thread = ''t'', ck_step = n, ck_node = node, ck_state = s,
     ck_done = (node = END_node), ck_interruption = None\<rparr>"

definition ran_step :: "string \<Rightarrow> int \<Rightarrow> int \<Rightarrow> int step_event" where
  "ran_step node s n = \<lparr>se_node = node, se_state = s, se_step = n, se_interruption = None\<rparr>"

lemmas run_defs = graph_Run_def graph_loop.simps superstep_def advance_def saveCheckpoint_def
  edge_step_def execNode_def callNode_def ctxErr_def checkThread_def start_state_def record_step_def
  drained_def MemoryCheckpointer_def mcp_Save_def hist_get_def quiet_def incr_def saving_def
  buildConfig_def WithCheckpointer_def WithThreadID_def WithDrain_def empty_world_def background_def
  NewDrain_def Request_def Requested_def two_nodes_def asking_graph_def snap_def ran_step_def
  drainedResult_def asking_def Await_def pause_def Let_def

lemma two_nodes_drained:
  "graph_Run quiet two_nodes (WithDrain (\<lambda>_. Request NewDrain) saving) background 5 empty_world =
    (Inr \<lparr>rr_state = 6, rr_steps = [ran_step ''a'' 6 1], rr_interruption = None, rr_drained = True\<rparr>,
     \<lparr>gw_slots = [], gw_env = ([''t'' \<mapsto> [snap 1 ''b'' 6]], True)\<rparr>)"
  by (simp add: run_defs graph_builders)

lemma two_nodes_done:
  "graph_Run quiet two_nodes saving background 5 empty_world =
    (Inr \<lparr>rr_state = 8, rr_steps = [ran_step ''a'' 6 1, ran_step ''b'' 8 2], rr_interruption = None,
       rr_drained = False\<rparr>,
     \<lparr>gw_slots = [], gw_env = ([''t'' \<mapsto> [snap 1 ''b'' 6, snap 2 ''__end__'' 8]], True)\<rparr>)"
  by (simp add: run_defs graph_builders)

definition asked :: interruption where
  "asked = \<lparr>intr_node = ''b'', intr_payload = DStr ''go on?''\<rparr>"

lemma asking_paused:
  "graph_Run quiet asking_graph saving background 5 empty_world =
    (Inr \<lparr>rr_state = 6, rr_steps = [ran_step ''a'' 6 1,
        \<lparr>se_node = ''b'', se_state = 6, se_step = 1, se_interruption = Some asked\<rparr>],
       rr_interruption = Some asked, rr_drained = False\<rparr>,
     \<lparr>gw_slots = [], gw_env = ([''t'' \<mapsto> [snap 1 ''b'' 6,
        (snap 1 ''b'' 6)\<lparr>ck_interruption := Some asked\<rparr>]], True)\<rparr>)"
  by (simp add: run_defs graph_builders asked_def)

theorem drain_resume_equivalence_witness:
  "graph_Run quiet two_nodes saving background 5 empty_world =
    (case graph_Resume quiet two_nodes saving background
        \<lparr>gw_slots = [], gw_env = ([''t'' \<mapsto> [snap 1 ''b'' 6]], True)\<rparr> of
       (Inl e, w2) \<Rightarrow> (Inl e, w2)
     | (Inr r', w2) \<Rightarrow> (Inr (r'\<lparr>rr_steps := [ran_step ''a'' 6 1] @ rr_steps r'\<rparr>), w2))"
proof -
  let ?cfg = "WithDrain (\<lambda>_. Request NewDrain) saving"
  have cfg: "rc_checkpointer ?cfg = Some MemoryCheckpointer" "rc_thread ?cfg \<noteq> []" "rc_resume ?cfg = None"
    by (simp_all add: run_defs)
  have "?cfg\<lparr>rc_drain := None\<rparr> = saving" by (simp add: run_defs)
  then show ?thesis
    using drain_resume_equivalence [OF cfg two_nodes_drained] by (simp split: prod.split sum.split)
qed

theorem completed_run_resumes_to_itself_witness:
  "graph_Resume quiet two_nodes saving background
     \<lparr>gw_slots = [], gw_env = ([''t'' \<mapsto> [snap 1 ''b'' 6, snap 2 ''__end__'' 8]], True)\<rparr> =
   (Inr \<lparr>rr_state = 8, rr_steps = [], rr_interruption = None, rr_drained = False\<rparr>,
    \<lparr>gw_slots = [], gw_env = ([''t'' \<mapsto> [snap 1 ''b'' 6, snap 2 ''__end__'' 8]], True)\<rparr>)"
proof -
  have cfg: "rc_checkpointer saving = Some MemoryCheckpointer" "rc_thread saving \<noteq> []"
    "g_entry two_nodes \<noteq> ''__end__''"
    by (simp_all add: run_defs graph_builders)
  show ?thesis
    using completed_run_resumes_to_itself [OF cfg(1,2) two_nodes_done _ _ cfg(3)] by simp
qed

theorem pause_then_resume_witness:
  "\<exists>c' w2. graph_Resume quiet asking_graph (saving\<lparr>rc_resume := Some (DBool True)\<rparr>) background
      \<lparr>gw_slots = [], gw_env = ([''t'' \<mapsto> [snap 1 ''b'' 6,
        (snap 1 ''b'' 6)\<lparr>ck_interruption := Some asked\<rparr>]], True)\<rparr> =
      (case graph_loop quiet asking_graph (saving\<lparr>rc_resume := Some (DBool True)\<rparr>) c'
         (start_state 6 ''b'' 1) w2 of (res, _, w3) \<Rightarrow> (res, w3))
    \<and> gw_env w2 = ([''t'' \<mapsto> [snap 1 ''b'' 6, (snap 1 ''b'' 6)\<lparr>ck_interruption := Some asked\<rparr>]], True)
    \<and> (case Await Some (\<lambda>_. ''T'') ''T'' c' DNil w2 of (res, w3) \<Rightarrow>
         res = Inr (DBool True) \<and> Await Some (\<lambda>_. ''T'') ''T'' c' DNil w3 = (Inl (InterruptErr DNil), w3))"
proof -
  have cfg: "rc_checkpointer saving = Some MemoryCheckpointer" "rc_thread saving \<noteq> []"
    by (simp_all add: run_defs)
  show ?thesis
    using pause_then_resume [OF cfg asking_paused, of asked "DBool True" "\<lambda>_. ''T''" "''T''" DNil DNil]
    by (simp add: asked_def)
qed

section \<open>Retries of a node\<close>

text \<open>
  The outcomes of the attempts, as the engine should use them: the first success or
  interrupt, else the last of the allowed failures.
\<close>

fun attempts_scan :: "nat \<Rightarrow> (go_error + 's) list \<Rightarrow> (go_error + 's) \<times> (go_error + 's) list" where
  "attempts_scan n [] = (Inl (Opaque ''exhausted''), [])"
| "attempts_scan 0 (o1 # os) = (o1, os)"
| "attempts_scan (Suc n) (o1 # os) =
     (case o1 of Inr s \<Rightarrow> (o1, os)
      | Inl e \<Rightarrow> if asInterrupt e \<noteq> None then (o1, os) else attempts_scan n os)"

text \<open>A node that replays a script of outcomes held in the environment, \<open>exhausted\<close> after it.\<close>

definition replay :: "((go_error + 's) list, 's) node_fn" where
  "replay c s w = (case gw_env w of [] \<Rightarrow> (Inl (Opaque ''exhausted''), w) | o1 # os \<Rightarrow> (o1, w\<lparr>gw_env := os\<rparr>))"

definition plain_config :: "('w, 's) run_config" where
  "plain_config = buildConfig []"

lemma exec_attempts_scan:
  assumes "nc_timeout nc \<le> 0" "n = nat (nc_retries nc - a)" "n < length outs"
  shows "exec_attempts quiet plain_config nc background name replay s b a \<lparr>gw_slots = sl, gw_env = outs\<rparr> =
    (case attempts_scan n outs of (r, os) \<Rightarrow> (r, \<lparr>gw_slots = sl, gw_env = os\<rparr>))"
  using assms
proof (induction n arbitrary: a b outs)
  case 0
  then obtain o1 os where "outs = o1 # os" by (cases outs) auto
  then show ?case using 0
    by (subst exec_attempts.simps) (auto simp: callNode_def node_wrap_def replay_def plain_config_def
        buildConfig_def split: sum.split)
next
  case (Suc n)
  then obtain o1 os where outs: "outs = o1 # os" by (cases outs) auto
  have step: "callNode plain_config background name (node_wrap quiet nc name replay) s
      \<lparr>gw_slots = sl, gw_env = outs\<rparr> = (o1, \<lparr>gw_slots = sl, gw_env = os\<rparr>)"
    using Suc.prems(1) outs
    by (simp add: callNode_def node_wrap_def replay_def plain_config_def buildConfig_def)
  have ctx: "ctxErr quiet background \<lparr>gw_slots = sl, gw_env = os\<rparr> = None"
    by (simp add: ctxErr_def quiet_def background_def)
  have sleep: "node_sleep quiet background b \<lparr>gw_slots = sl, gw_env = os\<rparr>
      = (True, \<lparr>gw_slots = sl, gw_env = os\<rparr>)"
    using ctx by (simp add: node_sleep_def) (simp add: background_def quiet_def)
  have IH: "exec_attempts quiet plain_config nc background name replay s (wrap64 (b * 2)) (a + 1)
      \<lparr>gw_slots = sl, gw_env = os\<rparr> = (case attempts_scan n os of (r, os) \<Rightarrow> (r, \<lparr>gw_slots = sl, gw_env = os\<rparr>))"
    by (rule Suc.IH) (use Suc.prems outs in auto)
  have "\<not> nc_retries nc \<le> a" using Suc.prems(2) by linarith
  then show ?case
    by (subst exec_attempts.simps) (simp add: step [unfolded outs] ctx sleep IH outs split: sum.split)
qed

text \<open>
  A node's retries follow its outcomes: with \<open>WithNodeRetry n\<close> it is attempted until it
  succeeds or interrupts, at most \<open>n + 1\<close> times (once when \<open>n\<close> is negative), the last
  attempt's outcome decides, no attempt is made after that one, and the backoff, which
  doubles with wrap-around, never changes the outcome.
\<close>

theorem node_retries_follow_outcomes:
  assumes "nat n < length outs"
  shows "exec_attempts quiet plain_config (WithNodeRetry n backoff \<lparr>nc_timeout = 0, nc_retries = 0,
       nc_backoff = 0, nc_onFailure = None\<rparr>) background name replay s backoff 0
       \<lparr>gw_slots = [], gw_env = outs\<rparr> =
    (case attempts_scan (nat n) outs of (r, os) \<Rightarrow> (r, \<lparr>gw_slots = [], gw_env = os\<rparr>))"
  by (rule exec_attempts_scan) (use assms in \<open>simp_all add: WithNodeRetry_def\<close>)

theorem node_retries_follow_outcomes_witness:
  "exec_attempts quiet plain_config (WithNodeRetry 2 7 \<lparr>nc_timeout = 0, nc_retries = 0,
       nc_backoff = 0, nc_onFailure = None\<rparr>) background ''n'' replay (0 :: int) 7 0
       \<lparr>gw_slots = [], gw_env = [Inl (Opaque ''x''), Inr 4, Inr 5]\<rparr> =
    (Inr 4, \<lparr>gw_slots = [], gw_env = [Inr 5]\<rparr>)"
  using node_retries_follow_outcomes [of 2 "[Inl (Opaque ''x''), Inr 4, Inr 5]" 7 "''n''" 0]
  by (simp add: numeral_2_eq_2)

section \<open>Fan-out\<close>

lemma branch_order_set: "set (branch_order rt n w) = {..<n}"
  by (auto simp: branch_order_def Let_def)

lemma run_order_pure:
  assumes "\<And>i c. i < length sends \<Longrightarrow> execNode rt g cfg c (snd_node (sends ! i)) (snd_state (sends ! i)) w
      = (map_sum id (\<lambda>s. (s, [])) (out i), w)"
  shows "set is \<subseteq> {..<length sends} \<Longrightarrow> length rs = length sends \<Longrightarrow>
    run_order rt g cfg c sends is rs w =
      (map (\<lambda>i. if i \<in> set is then Some (out i) else rs ! i) [0..<length sends], w)"
proof (induction "is" arbitrary: c rs)
  case Nil
  then show ?case using map_nth [of rs] by simp
next
  case (Cons i "is")
  from Cons.prems have i: "i < length sends" by simp
  have "run_order rt g cfg c sends (i # is) rs w =
      (map (\<lambda>j. if j \<in> set is then Some (out j) else rs[i := Some (out i)] ! j) [0..<length sends], w)"
    using assms [OF i, of c] Cons.IH Cons.prems by (cases "out i") simp_all
  also have "\<dots> = (map (\<lambda>j. if j \<in> set (i # is) then Some (out j) else rs ! j) [0..<length sends], w)"
    using Cons.prems by (auto simp: nth_list_update)
  finally show ?case .
qed

definition pure_node :: "('w, 's) graph \<Rightarrow> string \<Rightarrow> ('s \<Rightarrow> go_error + 's) \<Rightarrow> bool" where
  "pure_node g name f \<longleftrightarrow> g_nodes g name = Some (\<lambda>c s w. (f s, w)) \<and> g_configs g name = None"

lemma pure_execNode:
  assumes "pure_node g name f" "rc_hooks cfg = rc_hooks plain_config"
  shows "execNode rt g cfg c name s w = (map_sum id (\<lambda>s. (s, [])) (f s), w)"
  using assms
  by (simp add: execNode_def pure_node_def callNode_def plain_config_def buildConfig_def split: sum.split)

text \<open>
  C14. A fan-out over branches that compute from their state alone has one result, whatever
  order the scheduler runs them in: the branch outputs in branch order, or the error of the
  first failing branch in branch order, and the world is untouched.
\<close>

theorem fan_out_schedule_independent:
  assumes "rc_hooks cfg = rc_hooks plain_config"
    and "\<forall>sd\<in>set sends. pure_node g (snd_node sd) (f (snd_node sd))"
  shows "runBranches rt g cfg c sends w =
    (case find (\<lambda>sd. \<not> is_ok (f (snd_node sd) (snd_state sd))) sends of
       Some sd \<Rightarrow> (Inl (Errorf ''graph: fan-out node %q failed: %w''
         [FStr (snd_node sd), FWrap (projl (f (snd_node sd) (snd_state sd)))]), w)
     | None \<Rightarrow> (Inr (map (\<lambda>sd. projr (f (snd_node sd) (snd_state sd))) sends), w))"
proof -
  let ?out = "\<lambda>i. f (snd_node (sends ! i)) (snd_state (sends ! i))"
  let ?o = "\<lambda>sd. f (snd_node sd) (snd_state sd)"
  have "execNode rt g cfg c (snd_node (sends ! i)) (snd_state (sends ! i)) w
      = (map_sum id (\<lambda>s. (s, [])) (?out i), w)" if "i < length sends" for i c
    by (rule pure_execNode) (use assms that in auto)
  from run_order_pure [OF this, of "branch_order rt (length sends) w" "replicate (length sends) None"]
  have run: "run_order rt g cfg c sends (branch_order rt (length sends) w) (replicate (length sends) None) w
      = (map (\<lambda>i. Some (?out i)) [0..<length sends], w)"
    by (simp add: branch_order_set)
  have "map (\<lambda>i. Some (?out i)) [0..<length sends] = map (\<lambda>sd. Some (?o sd)) sends"
    by (rule nth_equalityI) auto
  then have "runBranches rt g cfg c sends w = (collect_branches sends (map (\<lambda>sd. Some (?o sd)) sends), w)"
    using run by (simp add: runBranches_def)
  moreover have "collect_branches xs (map (\<lambda>sd. Some (?o sd)) xs) =
    (case find (\<lambda>sd. \<not> is_ok (?o sd)) xs of
       Some sd \<Rightarrow> Inl (Errorf ''graph: fan-out node %q failed: %w'' [FStr (snd_node sd), FWrap (projl (?o sd))])
     | None \<Rightarrow> Inr (map (\<lambda>sd. projr (?o sd)) xs))" for xs
  proof (induction xs)
    case (Cons sd xs)
    then show ?case by (cases "?o sd") (simp_all split: option.splits)
  qed simp
  ultimately show ?thesis by (simp split: option.split)
qed

definition fan_graph :: "(unit, int) graph" where
  "fan_graph = AddNode ''x'' (\<lambda>c s w. (if s = 0 then Inl (Opaque ''zero'') else Inr (100 div s), w)) New_graph"

theorem fan_out_schedule_independent_witness:
  "runBranches quiet fan_graph plain_config background
      [\<lparr>snd_node = ''x'', snd_state = 5\<rparr>, \<lparr>snd_node = ''x'', snd_state = 4\<rparr>] \<lparr>gw_slots = [], gw_env = ()\<rparr>
    = (Inr [20, 25], \<lparr>gw_slots = [], gw_env = ()\<rparr>)"
  using fan_out_schedule_independent [of plain_config
      "[\<lparr>snd_node = ''x'', snd_state = 5\<rparr>, \<lparr>snd_node = ''x'', snd_state = 4\<rparr>]" fan_graph
      "\<lambda>_ s. if s = 0 then Inl (Opaque ''zero'') else Inr (100 div s)" quiet background "\<lparr>gw_slots = [], gw_env = ()\<rparr>"]
  by (simp add: pure_node_def fan_graph_def graph_builders)

text \<open>
  A branch that watches its context: cancelled by the failure of a later branch, it is the
  one whose error is reported.
\<close>

definition watching :: "(unit, int) node_fn" where
  "watching c s w = (if gc_cancelled c then Inl ErrCanceled else Inr s, w)"

definition failing_last :: "(unit, int) graph" where
  "failing_last = AddNode ''bad'' (\<lambda>c s w. (Inl (Opaque ''boom''), w)) (AddNode ''slow'' watching New_graph)"

text \<open>
  The error a fan-out reports may not be the failure that ended it: branch 1 fails first
  and cancels branch 0, and \<open>runBranches\<close>, which takes the lowest index, reports branch 0's
  cancellation; in the other order of execution the same fan-out reports the failure.
\<close>

theorem fan_out_masks_cause:
  "fst (runBranches (quiet\<lparr>rt_order := \<lambda>_ _. [1, 0]\<rparr>) failing_last plain_config background
      [\<lparr>snd_node = ''slow'', snd_state = 1\<rparr>, \<lparr>snd_node = ''bad'', snd_state = 2\<rparr>] w) =
    Inl (Errorf ''graph: fan-out node %q failed: %w'' [FStr ''slow'', FWrap ErrCanceled])
   \<and> fst (runBranches quiet failing_last plain_config background
      [\<lparr>snd_node = ''slow'', snd_state = 1\<rparr>, \<lparr>snd_node = ''bad'', snd_state = 2\<rparr>] w) =
    Inl (Errorf ''graph: fan-out node %q failed: %w'' [FStr ''bad'', FWrap (Opaque ''boom'')])"
  by (simp add: runBranches_def branch_order_def quiet_def failing_last_def graph_builders execNode_def
      callNode_def plain_config_def buildConfig_def watching_def background_def Let_def upt_rec)

end
