(* ===== verification/Tool_Loop.thy ===== *)
theory Tool_Loop
  imports Streaming
begin

text \<open>
  Tools and the tool-calling loop (\<open>tools/tools.go\<close>, \<open>tools/typed.go\<close>), and chains of
  completions (\<open>chain/chain.go\<close>).

  A tool function takes its JSON arguments and returns Go's pair of a result and an error.
  In \<open>New\<close> the code that \<open>encoding/json\<close> and the schema package run for the types \<open>In\<close> and
  \<open>Out\<close> is a parameter (\<open>json_codec\<close>). \<open>RunLoop\<close> changes the caller's request, which is
  returned beside the result. Loops over \<open>i < maxIterations\<close> recurse on the rounds left.
\<close>

section \<open>Executors\<close>

type_synonym 'w tool_func = "string \<Rightarrow> 'w \<Rightarrow> (string \<times> go_error option) \<times> 'w"
type_synonym 'w executor = "string \<Rightarrow> string \<Rightarrow> 'w \<Rightarrow> (string \<times> go_error option) \<times> 'w"

definition unknown_tool :: "string \<Rightarrow> go_error" where
  "unknown_tool name = Errorf ''unknown tool: %s'' [FStr name]"

definition map_Execute :: "(string \<rightharpoonup> 'w tool_func) \<Rightarrow> 'w executor" where
  "map_Execute funcs name arguments w =
     (case funcs name of None \<Rightarrow> (([], Some (unknown_tool name)), w) | Some fn \<Rightarrow> fn arguments w)"

record 'w tool =
  tool_def :: tool_definition
  tool_fn :: "'w tool_func"

record ('i, 'o) json_codec =
  jc_schema :: "go_error + raw_json"
  jc_zero :: 'i
  jc_decode :: "string \<Rightarrow> go_error + 'i"
  jc_string :: "'o \<Rightarrow> string option"
  jc_encode :: "'o \<Rightarrow> go_error + string"

definition New_tool :: "('i, 'o) json_codec \<Rightarrow> string \<Rightarrow> string
    \<Rightarrow> ('i \<Rightarrow> 'w \<Rightarrow> (go_error + 'o) \<times> 'w) \<Rightarrow> go_error + 'w tool" where
  "New_tool jc name description fn =
     (case jc_schema jc of
        Inl err \<Rightarrow> Inl (Errorf ''tool %s: %w'' [FStr name, FWrap err])
      | Inr schema \<Rightarrow> Inr
          \<lparr>tool_def = \<lparr>td_name = name, td_description = description, td_parameters = schema\<rparr>,
           tool_fn = (\<lambda>arguments w.
             let decoded = (if TrimSpace arguments \<noteq> [] then jc_decode jc arguments else Inr (jc_zero jc))
             in case decoded of
                  Inl err \<Rightarrow> (([], Some (Errorf ''tool %s: invalid arguments: %w'' [FStr name, FWrap err])), w)
                | Inr i \<Rightarrow>
                    (case fn i w of
                       (Inl err, w1) \<Rightarrow> (([], Some err), w1)
                     | (Inr out, w1) \<Rightarrow>
                         (case jc_string jc out of
                            Some s \<Rightarrow> ((s, None), w1)
                          | None \<Rightarrow>
                              (case jc_encode jc out of
                                 Inl err \<Rightarrow> (([], Some (Errorf ''tool %s: encode result: %w'' [FStr name, FWrap err])), w1)
                               | Inr b \<Rightarrow> ((b, None), w1)))))\<rparr>)"

text \<open>\<open>Set\<close>: the slice of tools and the map from names to functions.\<close>

record 'w tool_set =
  ts_tools :: "'w tool list"
  ts_by_name :: "string \<rightharpoonup> 'w tool_func"

definition tool_name :: "'w tool \<Rightarrow> string" where
  "tool_name t = td_name (tool_def t)"

definition set_Add :: "'w tool_set \<Rightarrow> 'w tool \<Rightarrow> 'w tool_set" where
  "set_Add s t =
     \<lparr>ts_tools = (if ts_by_name s (tool_name t) \<noteq> None
         then map (\<lambda>u. if tool_name u = tool_name t then t else u) (ts_tools s)
         else ts_tools s @ [t]),
      ts_by_name = (ts_by_name s)(tool_name t \<mapsto> tool_fn t)\<rparr>"

definition NewSet :: "'w tool list \<Rightarrow> 'w tool_set" where
  "NewSet tools = foldl set_Add \<lparr>ts_tools = [], ts_by_name = Map.empty\<rparr> tools"

definition Definitions :: "'w tool_set \<Rightarrow> tool_definition list" where
  "Definitions s = map tool_def (ts_tools s)"

definition set_Execute :: "'w tool_set \<Rightarrow> 'w executor" where
  "set_Execute s name arguments w =
     (case ts_by_name s name of None \<Rightarrow> (([], Some (unknown_tool name)), w) | Some fn \<Rightarrow> fn arguments w)"

text \<open>
  The contract of an executor the loops rely on: it runs exactly the functions of a table of
  names and answers any other name with an error, leaving the world alone.
\<close>

locale tool_box =
  fixes exec :: "'w executor" and table :: "string \<rightharpoonup> 'w tool_func"
  assumes known: "table name = Some fn \<Longrightarrow> exec name args w = fn args w"
    and unknown: "table name = None \<Longrightarrow> exec name args w = (([], Some (unknown_tool name)), w)"
begin

definition keeps :: "('w \<Rightarrow> bool) \<Rightarrow> bool" where
  "keeps I \<longleftrightarrow> (\<forall>fn\<in>ran table. \<forall>args w. I w \<longrightarrow> I (snd (fn args w)))"

lemma exec_keeps: "keeps I \<Longrightarrow> I w \<Longrightarrow> I (snd (exec name args w))"
  by (cases "table name") (auto simp: keeps_def known unknown intro: ranI)

lemma exec_cases:
  obtains (found) fn where "table name = Some fn" "exec name args w = fn args w"
  | (missing) "table name = None" "exec name args w = (([], Some (unknown_tool name)), w)"
  using known unknown by (cases "table name") blast+

end

interpretation mx: tool_box "map_Execute funcs" funcs for funcs :: "string \<rightharpoonup> 'w tool_func"
  by unfold_locales (simp_all add: map_Execute_def)

interpretation tset: tool_box "set_Execute s" "ts_by_name s" for s :: "'w tool_set"
  by unfold_locales (simp_all add: set_Execute_def)

section \<open>The tool loop\<close>

record 'w loop_config =
  lc_max :: int
  lc_hook :: "(tool_call \<Rightarrow> string \<Rightarrow> go_error option \<Rightarrow> 'w \<Rightarrow> 'w) option"

definition MaxIterations :: int where "MaxIterations = 20"

definition WithMaxIterations :: "int \<Rightarrow> 'w loop_config \<Rightarrow> 'w loop_config" where
  "WithMaxIterations n c = c\<lparr>lc_max := n\<rparr>"

definition WithToolCallHook ::
  "(tool_call \<Rightarrow> string \<Rightarrow> go_error option \<Rightarrow> 'w \<Rightarrow> 'w) \<Rightarrow> 'w loop_config \<Rightarrow> 'w loop_config" where
  "WithToolCallHook fn c = c\<lparr>lc_hook := Some fn\<rparr>"

record loop_result =
  lr_response :: completion_response
  lr_usage :: token_usage
  lr_iterations :: int

text \<open>The usage the loop and the chain accumulate: three of the six counters.\<close>

definition add_usage3 :: "token_usage \<Rightarrow> token_usage \<Rightarrow> token_usage" where
  "add_usage3 acc u = acc
     \<lparr>prompt_tokens := prompt_tokens acc + prompt_tokens u,
      completion_tokens := completion_tokens acc + completion_tokens u,
      total_tokens := total_tokens acc + total_tokens u\<rparr>"

definition assistant_turn :: "completion_response \<Rightarrow> message" where
  "assistant_turn resp = zero_msg
     \<lparr>msg_role := RoleAssistant, msg_content := resp_content resp, msg_tool_calls := resp_tool_calls resp\<rparr>"

definition tool_msg :: "string \<Rightarrow> string \<Rightarrow> message" where
  "tool_msg content callID = zero_msg
     \<lparr>msg_role := RoleTool, msg_content := content, msg_tool_call_id := callID\<rparr>"

text \<open>\<open>fmt.Sprintf(`{"error": "%s"}`, err.Error())\<close>.\<close>

definition loop_error_text :: "go_error \<Rightarrow> string" where
  "loop_error_text err =
     [CHR 0x7B, CHR 0x22] @ ''error'' @ [CHR 0x22] @ '': '' @ [CHR 0x22] @ error_text err @ [CHR 0x22, CHR 0x7D]"

fun run_calls :: "'w loop_config \<Rightarrow> 'w executor \<Rightarrow> tool_call list \<Rightarrow> 'w \<Rightarrow> message list \<times> 'w" where
  "run_calls cfg exec [] w = ([], w)"
| "run_calls cfg exec (tc # tcs) w =
     (let ((out, err), w1) = exec (tc_name tc) (tc_arguments tc) w;
          w2 = (case lc_hook cfg of None \<Rightarrow> w1 | Some h \<Rightarrow> h tc out err w1);
          text = (case err of None \<Rightarrow> out | Some e \<Rightarrow> loop_error_text e);
          (msgs, w3) = run_calls cfg exec tcs w2
      in (tool_msg text (tc_id tc) # msgs, w3))"

fun run_rounds :: "'w loop_config \<Rightarrow> 'w provider \<Rightarrow> 'w executor \<Rightarrow> nat \<Rightarrow> token_usage \<Rightarrow> int
    \<Rightarrow> completion_request \<Rightarrow> 'w \<Rightarrow> (go_error + loop_result) \<times> completion_request \<times> 'w" where
  "run_rounds cfg provider exec 0 usage iters req w =
     (Inl (Errorf ''tool loop exceeded maximum iterations (%d)'' [FInt (lc_max cfg)]), req, w)"
| "run_rounds cfg provider exec (Suc left) usage iters req w =
     (case Complete provider req w of
        (Inl err, w1) \<Rightarrow> (Inl (Errorf ''tool loop iteration %d: %w'' [FInt (iters + 1), FWrap err]), req, w1)
      | (Inr resp, w1) \<Rightarrow>
          let usage1 = add_usage3 usage (resp_usage resp)
          in if resp_tool_calls resp = []
             then (Inr \<lparr>lr_response = resp, lr_usage = usage1, lr_iterations = iters + 1\<rparr>, req, w1)
             else case run_calls cfg exec (resp_tool_calls resp) w1 of
                    (msgs, w2) \<Rightarrow>
                      run_rounds cfg provider exec left usage1 (iters + 1)
                        (req\<lparr>req_messages := req_messages req @ assistant_turn resp # msgs\<rparr>) w2)"

definition RunLoop :: "'w provider \<Rightarrow> completion_request \<Rightarrow> 'w executor
    \<Rightarrow> ('w loop_config \<Rightarrow> 'w loop_config) list \<Rightarrow> 'w
    \<Rightarrow> (go_error + loop_result) \<times> completion_request \<times> 'w" where
  "RunLoop provider req exec opts w =
     (let cfg = foldl (\<lambda>c opt. opt c) \<lparr>lc_max = MaxIterations, lc_hook = None\<rparr> opts
      in run_rounds cfg provider exec (nat (lc_max cfg)) zero_usage 0 req w)"

section \<open>Chains\<close>

record 'w chain_step =
  cs_system :: string
  cs_model :: string
  cs_provider :: "'w provider option"
  cs_temperature :: "rat option"
  cs_max_tokens :: "int option"
  cs_transform :: "(string \<Rightarrow> string) option"
  cs_template :: string

record 'w chain =
  ch_provider :: "'w provider"
  ch_model :: string
  ch_steps :: "'w chain_step list"

record step_result =
  sr_output :: string
  sr_usage :: token_usage
  sr_model :: string

record chain_result =
  cr_output :: string
  cr_steps :: "step_result list"
  cr_usage :: token_usage

definition WithModel_chain :: "string \<Rightarrow> 'w chain \<Rightarrow> 'w chain" where
  "WithModel_chain model c = c\<lparr>ch_model := model\<rparr>"

definition New_chain :: "'w provider \<Rightarrow> 'w chain_step list \<Rightarrow> ('w chain \<Rightarrow> 'w chain) list \<Rightarrow> 'w chain" where
  "New_chain provider steps opts = foldl (\<lambda>c opt. opt c)
     \<lparr>ch_provider = provider, ch_model = [], ch_steps = steps\<rparr> opts"

definition input_hole :: string where
  "input_hole = [CHR 0x7B] @ ''input'' @ [CHR 0x7D]"

definition step_request :: "'w chain_step \<Rightarrow> string \<Rightarrow> string \<Rightarrow> completion_request" where
  "step_request step model currentInput = zero_request
     \<lparr>req_model := model, req_system := cs_system step,
      req_messages := [text_msg RoleUser
        (if cs_template step = [] then currentInput
         else ReplaceAll (cs_template step) input_hole currentInput)],
      req_temperature := cs_temperature step, req_max_tokens := cs_max_tokens step\<rparr>"

fun run_steps :: "'w chain \<Rightarrow> nat \<Rightarrow> 'w chain_step list \<Rightarrow> string \<Rightarrow> step_result list \<Rightarrow> token_usage
    \<Rightarrow> 'w \<Rightarrow> (go_error + step_result list \<times> token_usage) \<times> 'w" where
  "run_steps c i [] currentInput acc usage w = (Inr (acc, usage), w)"
| "run_steps c i (step # steps) currentInput acc usage w =
     (let provider = (case cs_provider step of None \<Rightarrow> ch_provider c | Some p \<Rightarrow> p);
          model = (if cs_model step = [] then ch_model c else cs_model step)
      in if model = [] then (Inl (Errorf ''chain step %d: no model specified'' [FInt (int i + 1)]), w)
         else case Complete provider (step_request step model currentInput) w of
           (Inl err, w1) \<Rightarrow> (Inl (Errorf ''chain step %d: %w'' [FInt (int i + 1), FWrap err]), w1)
         | (Inr resp, w1) \<Rightarrow>
             let output = (case cs_transform step of None \<Rightarrow> resp_content resp | Some t \<Rightarrow> t (resp_content resp))
             in run_steps c (Suc i) steps output
                  (acc @ [\<lparr>sr_output = output, sr_usage = resp_usage resp, sr_model = resp_model resp\<rparr>])
                  (add_usage3 usage (resp_usage resp)) w1)"

definition chain_Run :: "'w chain \<Rightarrow> string \<Rightarrow> 'w \<Rightarrow> (go_error + chain_result) \<times> 'w" where
  "chain_Run c input w =
     (case run_steps c 0 (ch_steps c) input [] zero_usage w of
        (Inl err, w1) \<Rightarrow> (Inl err, w1)
      | (Inr (steps, usage), w1) \<Rightarrow>
          (Inr \<lparr>cr_output = (if steps = [] then [] else sr_output (last steps)), cr_steps = steps,
                cr_usage = usage\<rparr>, w1))"

section \<open>The transcript of a loop\<close>

text \<open>One round with tool calls: the response, and the text of each result.\<close>

type_synonym turn = "completion_response \<times> string list"

definition turn_ok :: "turn \<Rightarrow> bool" where
  "turn_ok t \<longleftrightarrow> resp_tool_calls (fst t) \<noteq> [] \<and> length (snd t) = length (resp_tool_calls (fst t))"

definition turn_msgs :: "turn \<Rightarrow> message list" where
  "turn_msgs t = assistant_turn (fst t) # map2 (\<lambda>c tc. tool_msg c (tc_id tc)) (snd t) (resp_tool_calls (fst t))"

lemma run_calls_msgs:
  "\<exists>texts. length texts = length tcs \<and>
     fst (run_calls cfg exec tcs w) = map2 (\<lambda>c tc. tool_msg c (tc_id tc)) texts tcs"
proof (induction tcs arbitrary: w)
  case Nil
  then show ?case by simp
next
  case (Cons tc tcs)
  obtain out err w1 where e: "exec (tc_name tc) (tc_arguments tc) w = ((out, err), w1)"
    by (metis prod.collapse)
  let ?w2 = "case lc_hook cfg of None \<Rightarrow> w1 | Some h \<Rightarrow> h tc out err w1"
  let ?text = "case err of None \<Rightarrow> out | Some e \<Rightarrow> loop_error_text e"
  obtain texts where t: "length texts = length tcs"
    "fst (run_calls cfg exec tcs ?w2) = map2 (\<lambda>c tc. tool_msg c (tc_id tc)) texts tcs"
    using Cons.IH by blast
  have "fst (run_calls cfg exec (tc # tcs) w) = tool_msg ?text (tc_id tc) # fst (run_calls cfg exec tcs ?w2)"
    by (simp add: e Let_def split: prod.split)
  then show ?case using t by (intro exI [of _ "?text # texts"]) simp
qed

lemma run_rounds_transcript:
  assumes "run_rounds cfg provider exec left usage iters req w = (res, req', w')"
  shows "\<exists>turns. (\<forall>t\<in>set turns. turn_ok t) \<and> length turns \<le> left \<and>
    req' = req\<lparr>req_messages := req_messages req @ concat (map turn_msgs turns)\<rparr> \<and>
    (\<forall>r. res = Inr r \<longrightarrow> resp_tool_calls (lr_response r) = [] \<and> length turns < left \<and>
       lr_iterations r = iters + int (length turns) + 1 \<and>
       lr_usage r = foldl add_usage3 usage (map (\<lambda>t. resp_usage (fst t)) turns @ [resp_usage (lr_response r)]))"
  using assms
proof (induction left arbitrary: usage iters req w)
  case 0
  then show ?case by (intro exI [of _ "[]"]) auto
next
  case (Suc left)
  obtain cr w1 where c: "Complete provider req w = (cr, w1)" by (metis prod.collapse)
  show ?case
  proof (cases cr)
    case (Inl err)
    then show ?thesis using Suc.prems c by (intro exI [of _ "[]"]) auto
  next
    case (Inr resp)
    show ?thesis
    proof (cases "resp_tool_calls resp = []")
      case True
      then show ?thesis using Suc.prems c Inr by (intro exI [of _ "[]"]) auto
    next
      case False
      obtain msgs w2 where rc: "run_calls cfg exec (resp_tool_calls resp) w1 = (msgs, w2)"
        by (metis prod.collapse)
      let ?req = "req\<lparr>req_messages := req_messages req @ assistant_turn resp # msgs\<rparr>"
      have rest: "run_rounds cfg provider exec left (add_usage3 usage (resp_usage resp)) (iters + 1) ?req w2
          = (res, req', w')"
        using Suc.prems c Inr False rc by simp
      obtain texts where t: "length texts = length (resp_tool_calls resp)"
        "msgs = map2 (\<lambda>c tc. tool_msg c (tc_id tc)) texts (resp_tool_calls resp)"
        using run_calls_msgs [of "resp_tool_calls resp" cfg exec w1] rc by auto
      have turn: "turn_ok (resp, texts)" "assistant_turn resp # msgs = turn_msgs (resp, texts)"
        using False t by (simp_all add: turn_ok_def turn_msgs_def)
      from Suc.IH [OF rest] obtain turns where u: "\<forall>t\<in>set turns. turn_ok t" "length turns \<le> left"
        "req' = ?req\<lparr>req_messages := req_messages ?req @ concat (map turn_msgs turns)\<rparr>"
        "\<forall>r. res = Inr r \<longrightarrow> resp_tool_calls (lr_response r) = [] \<and> length turns < left \<and>
           lr_iterations r = iters + 1 + int (length turns) + 1 \<and>
           lr_usage r = foldl add_usage3 (add_usage3 usage (resp_usage resp))
             (map (\<lambda>t. resp_usage (fst t)) turns @ [resp_usage (lr_response r)])"
        by blast
      show ?thesis
        by (rule exI [of _ "(resp, texts) # turns"]) (use u turn in auto)
    qed
  qed
qed

lemma add_usage3_fields:
  "prompt_tokens (foldl add_usage3 u us) = prompt_tokens u + sum_list (map prompt_tokens us)"
  "completion_tokens (foldl add_usage3 u us) = completion_tokens u + sum_list (map completion_tokens us)"
  "total_tokens (foldl add_usage3 u us) = total_tokens u + sum_list (map total_tokens us)"
  "cached_tokens (foldl add_usage3 u us) = cached_tokens u"
  "reasoning_tokens (foldl add_usage3 u us) = reasoning_tokens u"
  by (induction us arbitrary: u) (simp_all add: add_usage3_def)


text \<open>A provider that replays responses, and an echoing tool.\<close>

definition script_provider :: "completion_response list provider" where
  "script_provider =
     \<lparr>Complete = (\<lambda>req w. case w of [] \<Rightarrow> (Inl (Opaque ''end of script''), []) | r # rs \<Rightarrow> (Inr r, rs)),
      Stream = (\<lambda>req w. (Inl (Opaque ''not streamed''), w))\<rparr>"

definition echo_tools :: "string \<rightharpoonup> 'w tool_func" where
  "echo_tools = [''echo'' \<mapsto> (\<lambda>args w. ((args, None), w))]"

definition echo_call :: tool_call where
  "echo_call = zero_call\<lparr>tc_id := ''c1'', tc_name := ''echo'', tc_arguments := ''hi''\<rparr>"


section \<open>Tool sets\<close>

text \<open>The names of a list, each where it first occurs.\<close>

fun firsts :: "string list \<Rightarrow> string list" where
  "firsts [] = []"
| "firsts (n # ns) = n # filter (\<lambda>m. m \<noteq> n) (firsts ns)"

definition last_named :: "string \<Rightarrow> 'w tool list \<Rightarrow> 'w tool option" where
  "last_named n tools = find (\<lambda>t. tool_name t = n) (rev tools)"

lemma firsts_snoc: "firsts (ns @ [n]) = (if n \<in> set ns then firsts ns else firsts ns @ [n])"
  by (induction ns) auto

lemma set_firsts [simp]: "set (firsts ns) = set ns"
  by (induction ns) auto

lemma distinct_firsts: "distinct (firsts ns)"
  by (induction ns) auto

lemma last_named_snoc:
  "last_named n (ts @ [t]) = (if tool_name t = n then Some t else last_named n ts)"
  by (simp add: last_named_def)

lemma last_named_None: "last_named n ts = None \<longleftrightarrow> n \<notin> set (map tool_name ts)"
  by (auto simp: last_named_def find_None_iff)

lemma last_named_name: "last_named n ts = Some t \<Longrightarrow> tool_name t = n"
  by (auto simp: last_named_def find_Some_iff)

lemma NewSet_snoc: "NewSet (ts @ [t]) = set_Add (NewSet ts) t"
  by (simp add: NewSet_def)

lemma NewSet_spec:
  "ts_by_name (NewSet ts) = (\<lambda>n. map_option tool_fn (last_named n ts)) \<and>
   ts_tools (NewSet ts) = map (\<lambda>n. the (last_named n ts)) (firsts (map tool_name ts))"
proof (induction ts rule: rev_induct)
  case Nil
  then show ?case by (simp add: NewSet_def last_named_def)
next
  case (snoc t ts)
  have by_name: "ts_by_name (NewSet (ts @ [t])) = (\<lambda>n. map_option tool_fn (last_named n (ts @ [t])))"
    using snoc by (auto simp: NewSet_snoc set_Add_def last_named_snoc fun_eq_iff)
  have known: "ts_by_name (NewSet ts) (tool_name t) \<noteq> None \<longleftrightarrow> tool_name t \<in> set (map tool_name ts)"
    using snoc last_named_None [of "tool_name t" ts] by auto
  have "ts_tools (NewSet (ts @ [t])) =
      map (\<lambda>n. the (last_named n (ts @ [t]))) (firsts (map tool_name (ts @ [t])))"
  proof (cases "tool_name t \<in> set (map tool_name ts)")
    case True
    have "ts_tools (NewSet (ts @ [t])) =
        map (\<lambda>u. if tool_name u = tool_name t then t else u) (ts_tools (NewSet ts))"
      using True known by (simp add: NewSet_snoc set_Add_def)
    also have "\<dots> = map (\<lambda>n. the (last_named n (ts @ [t]))) (firsts (map tool_name ts))"
      using snoc last_named_None last_named_name
      by (fastforce simp: last_named_snoc)
    finally show ?thesis using True by (simp add: firsts_snoc)
  next
    case False
    then have "ts_tools (NewSet (ts @ [t])) = ts_tools (NewSet ts) @ [t]"
      using known by (simp add: NewSet_snoc set_Add_def)
    moreover have "map (\<lambda>n. the (last_named n (ts @ [t]))) (firsts (map tool_name ts))
        = ts_tools (NewSet ts)"
      using False snoc by (auto simp: last_named_snoc)
    ultimately show ?thesis using False by (simp add: firsts_snoc last_named_snoc)
  qed
  with by_name show ?case by blast
qed

text \<open>
  A tool set advertises each name once, where it was first registered, with the
  definition registered last, and runs the function registered last under that name; any
  other name is an error and runs nothing.
\<close>

theorem tool_set_last_wins:
  "distinct (map td_name (Definitions (NewSet ts))) \<and>
   map td_name (Definitions (NewSet ts)) = firsts (map (\<lambda>t. td_name (tool_def t)) ts) \<and>
   list_all (\<lambda>d. map_option tool_def (last_named (td_name d) ts) = Some d) (Definitions (NewSet ts)) \<and>
   set_Execute (NewSet ts) name args w =
     (case last_named name ts of None \<Rightarrow> (([], Some (unknown_tool name)), w) | Some t \<Rightarrow> tool_fn t args w)"
proof -
  have some: "last_named n ts \<noteq> None" if "n \<in> set (firsts (map tool_name ts))" for n
    using that last_named_None by auto
  have names: "map td_name (Definitions (NewSet ts)) = firsts (map tool_name ts)"
  proof -
    have "map td_name (Definitions (NewSet ts)) =
        map (\<lambda>n. tool_name (the (last_named n ts))) (firsts (map tool_name ts))"
      by (simp add: Definitions_def NewSet_spec tool_name_def)
    also have "\<dots> = firsts (map tool_name ts)"
      by (rule map_idI) (use some last_named_name in fastforce)
    finally show ?thesis .
  qed
  moreover have "\<forall>d\<in>set (Definitions (NewSet ts)). map_option tool_def (last_named (td_name d) ts) = Some d"
    using some last_named_name
    by (fastforce simp: Definitions_def NewSet_spec tool_name_def)
  moreover have "set_Execute (NewSet ts) name args w =
     (case last_named name ts of None \<Rightarrow> (([], Some (unknown_tool name)), w) | Some t \<Rightarrow> tool_fn t args w)"
    by (simp add: set_Execute_def NewSet_spec split: option.split)
  ultimately show ?thesis using distinct_firsts by (simp add: tool_name_def [abs_def] list_all_iff)
qed

section \<open>Chains as pipelines\<close>

text \<open>What one step makes of its input when the provider answers \<open>ans req\<close>.\<close>

definition step_fn :: "'w chain \<Rightarrow> (completion_request \<Rightarrow> completion_response) \<Rightarrow> 'w chain_step \<Rightarrow> string \<Rightarrow> step_result" where
  "step_fn c ans step input =
     (let resp = ans (step_request step (if cs_model step = [] then ch_model c else cs_model step) input)
      in \<lparr>sr_output = (case cs_transform step of None \<Rightarrow> resp_content resp | Some t \<Rightarrow> t (resp_content resp)),
          sr_usage = resp_usage resp, sr_model = resp_model resp\<rparr>)"

fun pipeline :: "'w chain \<Rightarrow> (completion_request \<Rightarrow> completion_response) \<Rightarrow> 'w chain_step list \<Rightarrow> string
    \<Rightarrow> step_result list" where
  "pipeline c ans [] input = []"
| "pipeline c ans (step # steps) input =
     (let r = step_fn c ans step input in r # pipeline c ans steps (sr_output r))"

lemma run_steps_pipeline:
  assumes "\<forall>step\<in>set steps. cs_model step \<noteq> [] \<or> ch_model c \<noteq> []"
    and "\<forall>step\<in>set steps. \<forall>req. Complete (case cs_provider step of None \<Rightarrow> ch_provider c | Some p \<Rightarrow> p) req w
      = (Inr (ans req), w)"
  shows "run_steps c i steps input acc usage w =
    (Inr (acc @ pipeline c ans steps input,
       foldl add_usage3 usage (map sr_usage (pipeline c ans steps input))), w)"
  using assms
proof (induction steps arbitrary: i input acc usage)
  case (Cons step steps)
  then show ?case by (auto simp: Let_def step_fn_def)
qed simp

text \<open>
  A chain is the composition of its steps: when the providers answer (as a function of
  the request) and every step has a model, it calls each step once, in order, on the step's
  template filled with the previous output, returns the transformed answers and their summed
  usage, and its output is the last of them.
\<close>

theorem chain_is_pipeline:
  assumes "\<forall>step\<in>set (ch_steps c). cs_model step \<noteq> [] \<or> ch_model c \<noteq> []"
    and "\<forall>step\<in>set (ch_steps c). \<forall>req. Complete (case cs_provider step of None \<Rightarrow> ch_provider c | Some p \<Rightarrow> p) req w
      = (Inr (ans req), w)"
  shows "chain_Run c input w =
    (let rs = pipeline c ans (ch_steps c) input
     in (Inr \<lparr>cr_output = (if rs = [] then [] else sr_output (last rs)), cr_steps = rs,
           cr_usage = foldl add_usage3 zero_usage (map sr_usage rs)\<rparr>, w))"
  using run_steps_pipeline [OF assms] by (simp add: chain_Run_def Let_def)

definition parrot :: "unit provider" where
  "parrot = \<lparr>Complete = (\<lambda>req w. (Inr (zero_response\<lparr>resp_content :=
      msg_content (hd (req_messages req)) @ ''!''\<rparr>), w)), Stream = (\<lambda>req w. (Inr [], w))\<rparr>"

definition plain_step :: "'w chain_step" where
  "plain_step = \<lparr>cs_system = [], cs_model = ''m'', cs_provider = None, cs_temperature = None,
     cs_max_tokens = None, cs_transform = None, cs_template = []\<rparr>"

theorem chain_is_pipeline_witness:
  "cr_output (projr (fst (chain_Run (New_chain parrot
     [plain_step, plain_step\<lparr>cs_template := ''say '' @ input_hole\<rparr>] []) ''hi'' ()))) = ''say hi!!''"
proof -
  let ?c = "New_chain parrot [plain_step, plain_step\<lparr>cs_template := ''say '' @ input_hole\<rparr>] []"
  let ?ans = "\<lambda>req. zero_response\<lparr>resp_content := msg_content (hd (req_messages req)) @ ''!''\<rparr>"
  have "chain_Run ?c ''hi'' () = (let rs = pipeline ?c ?ans (ch_steps ?c) ''hi''
     in (Inr \<lparr>cr_output = (if rs = [] then [] else sr_output (last rs)), cr_steps = rs,
           cr_usage = foldl add_usage3 zero_usage (map sr_usage rs)\<rparr>, ()))"
    by (rule chain_is_pipeline) (simp_all add: New_chain_def plain_step_def parrot_def)
  then show ?thesis
    by (simp add: New_chain_def plain_step_def step_fn_def step_request_def input_hole_def Let_def
        text_msg_def zero_msg_def zero_response_def ReplaceAll.simps)
qed

end
