(* ===== verification/Agents.thy ===== *)
theory Agents
  imports Tool_Loop
begin

text \<open>
  The agent loop and its middleware interface (\<open>agent/agent.go\<close>, \<open>agent/middleware.go\<close>,
  \<open>agent/stream.go\<close>).

  A run has a world of its own around the environment \<open>'w\<close> of provider and tools: the call
  counters that \<open>runStats\<close> keeps in the run's context, the events emitted so far (read to the
  end by the consumer of \<open>Stream\<close>) and the \<open>streamed\<close> flag of the current iteration.

  Hooks mutate the request and the response behind the pointers of \<open>State\<close>; here they return
  the changed state. A model call does not change the request it is given.
\<close>

section \<open>Results and events\<close>

record agent_result =
  ag_response :: completion_response
  ag_messages :: "message list"
  ag_usage :: token_usage
  ag_iterations :: int

definition AgentContent :: string where [simp]: "AgentContent = ''content''"
definition AgentReasoning :: string where [simp]: "AgentReasoning = ''reasoning''"
definition AgentToolCall :: string where [simp]: "AgentToolCall = ''tool_call''"
definition AgentToolCallDelta :: string where [simp]: "AgentToolCallDelta = ''tool_call_delta''"
definition AgentToolResult :: string where [simp]: "AgentToolResult = ''tool_result''"
definition AgentDone :: string where [simp]: "AgentDone = ''done''"
definition AgentError :: string where [simp]: "AgentError = ''error''"

record agent_event =
  age_type :: string
  age_iteration :: int
  age_content :: string
  age_reasoning :: string
  age_tool_call :: "tool_call option"
  age_delta :: "tool_call_delta option"
  age_tool_error :: "go_error option"
  age_result :: "agent_result option"
  age_error :: "go_error option"

definition agent_event0 :: "string \<Rightarrow> int \<Rightarrow> agent_event" where
  "agent_event0 t i = \<lparr>age_type = t, age_iteration = i, age_content = [], age_reasoning = [],
     age_tool_call = None, age_delta = None, age_tool_error = None, age_result = None, age_error = None\<rparr>"

record 'w aworld =
  aw_calls :: "string \<Rightarrow> nat"
  aw_total :: nat
  aw_events :: "agent_event list"
  aw_streamed :: bool
  aw_env :: 'w

definition emit :: "bool \<Rightarrow> agent_event \<Rightarrow> 'w aworld \<Rightarrow> 'w aworld" where
  "emit em ev w = (if em then w\<lparr>aw_events := aw_events w @ [ev]\<rparr> else w)"

section \<open>Middleware\<close>

record agent_state =
  st_request :: completion_request
  st_response :: "completion_response option"
  st_iteration :: int
  st_stop :: bool

definition Stop_run :: "agent_state \<Rightarrow> agent_state" where
  "Stop_run s = s\<lparr>st_stop := True\<rparr>"

definition Stopped :: "agent_state \<Rightarrow> bool" where
  "Stopped s = st_stop s"

type_synonym 'w call_fn =
  "completion_request \<Rightarrow> 'w aworld \<Rightarrow> (go_error + completion_response) \<times> 'w aworld"
type_synonym 'w call_tool_fn = "tool_call \<Rightarrow> 'w aworld \<Rightarrow> (string \<times> go_error option) \<times> 'w aworld"
type_synonym 'w hook_fn = "agent_state \<Rightarrow> 'w aworld \<Rightarrow> (go_error option \<times> agent_state) \<times> 'w aworld"

text \<open>A middleware; the tool wrapper is the optional extension \<open>ToolWrapper\<close>.\<close>

record 'w middleware =
  mw_before :: "'w hook_fn"
  mw_after :: "'w hook_fn"
  mw_wrap_model :: "'w call_fn \<Rightarrow> 'w call_fn"
  mw_wrap_tool :: "('w call_tool_fn \<Rightarrow> 'w call_tool_fn) option"

definition BaseMiddleware :: "'w middleware" where
  "BaseMiddleware = \<lparr>mw_before = (\<lambda>s w. ((None, s), w)), mw_after = (\<lambda>s w. ((None, s), w)),
     mw_wrap_model = id, mw_wrap_tool = None\<rparr>"

fun run_hooks :: "'w hook_fn list \<Rightarrow> 'w hook_fn" where
  "run_hooks [] s w = ((None, s), w)"
| "run_hooks (h # hs) s w =
     (case h s w of
        ((Some err, s1), w1) \<Rightarrow> ((Some err, s1), w1)
      | ((None, s1), w1) \<Rightarrow> run_hooks hs s1 w1)"

section \<open>The agent\<close>

record 'w agent =
  a_provider :: "'w provider"
  a_model :: string
  a_system :: string
  a_tools :: "tool_definition list"
  a_executor :: "'w executor option"
  a_middlewares :: "'w middleware list"
  a_max :: int

definition New_agent :: "'w provider \<Rightarrow> ('w agent \<Rightarrow> 'w agent) list \<Rightarrow> 'w agent" where
  "New_agent provider opts = foldl (\<lambda>a opt. opt a)
     \<lparr>a_provider = provider, a_model = [], a_system = [], a_tools = [], a_executor = None,
      a_middlewares = [], a_max = 20\<rparr> opts"

definition WithModel :: "string \<Rightarrow> 'w agent \<Rightarrow> 'w agent" where
  "WithModel model a = a\<lparr>a_model := model\<rparr>"

definition WithSystemPrompt :: "string \<Rightarrow> 'w agent \<Rightarrow> 'w agent" where
  "WithSystemPrompt prompt a = a\<lparr>a_system := prompt\<rparr>"

definition WithTools :: "tool_definition list \<Rightarrow> 'w executor \<Rightarrow> 'w agent \<Rightarrow> 'w agent" where
  "WithTools defs executor a = a\<lparr>a_tools := defs, a_executor := Some executor\<rparr>"

definition WithMiddleware :: "'w middleware list \<Rightarrow> 'w agent \<Rightarrow> 'w agent" where
  "WithMiddleware mw a = a\<lparr>a_middlewares := a_middlewares a @ mw\<rparr>"

definition WithMaxIterations_agent :: "int \<Rightarrow> 'w agent \<Rightarrow> 'w agent" where
  "WithMaxIterations_agent n a = a\<lparr>a_max := n\<rparr>"

definition clone_message :: "message \<Rightarrow> message" where
  "clone_message m = m
     \<lparr>msg_parts := map (\<lambda>p. p) (msg_parts m),
      msg_tool_calls := map (\<lambda>tc. tc\<lparr>tc_metadata := map (\<lambda>(k, v). (k, v)) (tc_metadata tc)\<rparr>) (msg_tool_calls m)\<rparr>"

definition cloneMessages :: "message list \<Rightarrow> message list" where
  "cloneMessages msgs = map clone_message msgs"

definition addUsage :: "token_usage \<Rightarrow> token_usage \<Rightarrow> token_usage" where
  "addUsage a u =
     \<lparr>prompt_tokens = prompt_tokens a + prompt_tokens u,
      completion_tokens = completion_tokens a + completion_tokens u,
      total_tokens = total_tokens a + total_tokens u,
      cached_tokens = cached_tokens a + cached_tokens u,
      cache_creation_tokens = cache_creation_tokens a + cache_creation_tokens u,
      reasoning_tokens = reasoning_tokens a + reasoning_tokens u\<rparr>"

text \<open>\<open>runStats.count\<close> and \<open>toolCallCount\<close>.\<close>

definition count_call :: "string \<Rightarrow> 'w aworld \<Rightarrow> 'w aworld" where
  "count_call name w = w\<lparr>aw_calls := (aw_calls w)(name := aw_calls w name + 1), aw_total := aw_total w + 1\<rparr>"

definition toolCallCount :: "'w aworld \<Rightarrow> string \<Rightarrow> nat" where
  "toolCallCount w name = (if name = [] then aw_total w else aw_calls w name)"

definition baseCall :: "'w agent \<Rightarrow> 'w call_fn" where
  "baseCall a req w = (case Complete (a_provider a) req (aw_env w) of (res, u) \<Rightarrow> (res, w\<lparr>aw_env := u\<rparr>))"

text \<open>The loop over the provider's events in \<open>streamCall\<close>: what each one makes the run emit.\<close>

definition forward_event :: "int \<Rightarrow> 'w aworld \<Rightarrow> stream_event \<Rightarrow> 'w aworld" where
  "forward_event iteration w ev =
     (if ev_type ev = EventContent
      then emit True ((agent_event0 AgentContent iteration)\<lparr>age_content := ev_content ev\<rparr>) (w\<lparr>aw_streamed := True\<rparr>)
      else if ev_type ev = EventReasoning
      then emit True ((agent_event0 AgentReasoning iteration)\<lparr>age_reasoning := ev_reasoning ev\<rparr>) (w\<lparr>aw_streamed := True\<rparr>)
      else if ev_type ev = EventToolCallDelta
      then emit True ((agent_event0 AgentToolCallDelta iteration)\<lparr>age_delta := ev_delta ev\<rparr>) w
      else w)"

definition streamCall :: "'w agent \<Rightarrow> int \<Rightarrow> 'w call_fn" where
  "streamCall a iteration req w =
     (case Stream (a_provider a) req (aw_env w) of
        (Inl err, u) \<Rightarrow> (Inl err, w\<lparr>aw_env := u\<rparr>)
      | (Inr events, u) \<Rightarrow> (CollectStream events, foldl (forward_event iteration) (w\<lparr>aw_env := u\<rparr>) events))"

definition model_call :: "'w agent \<Rightarrow> bool \<Rightarrow> int \<Rightarrow> 'w call_fn" where
  "model_call a em iteration =
     foldr mw_wrap_model (a_middlewares a) (if em then streamCall a iteration else baseCall a)"

definition exec_tool :: "'w executor \<Rightarrow> 'w call_tool_fn" where
  "exec_tool executor call w =
     (case executor (tc_name call) (tc_arguments call) (aw_env w) of (r, u) \<Rightarrow> (r, w\<lparr>aw_env := u\<rparr>))"

definition toolChain :: "'w agent \<Rightarrow> 'w executor \<Rightarrow> 'w call_tool_fn" where
  "toolChain a executor = foldr (\<lambda>m run. case mw_wrap_tool m of None \<Rightarrow> run | Some wr \<Rightarrow> wr run)
     (a_middlewares a) (exec_tool executor)"

section \<open>The loop\<close>

definition error_result :: "string \<Rightarrow> string" where
  "error_result text = [CHR 0x7B, CHR 0x22] @ ''error'' @ [CHR 0x22] @ '': '' @ Quote text @ [CHR 0x7D]"

fun agent_calls :: "bool \<Rightarrow> int \<Rightarrow> 'w call_tool_fn \<Rightarrow> tool_call list \<Rightarrow> 'w aworld
    \<Rightarrow> (go_error + message list) \<times> 'w aworld" where
  "agent_calls em iteration runTool [] w = (Inr [], w)"
| "agent_calls em iteration runTool (tc # tcs) w =
     (let w1 = emit em ((agent_event0 AgentToolCall iteration)\<lparr>age_tool_call := Some tc\<rparr>) w;
          ((out, execErr), w2) = runTool tc (count_call (tc_name tc) w1);
          w3 = emit em ((agent_event0 AgentToolResult iteration)\<lparr>age_tool_call := Some tc,
                 age_content := out, age_tool_error := execErr\<rparr>) w2
      in case execErr of
           Some err \<Rightarrow>
             if aborts err
             then (Inl (Errorf ''agent: tool %q (iteration %d): %w'' [FStr (tc_name tc), FInt iteration, FWrap err]), w3)
             else (case agent_calls em iteration runTool tcs w3 of
                     (Inl e, w4) \<Rightarrow> (Inl e, w4)
                   | (Inr msgs, w4) \<Rightarrow> (Inr (tool_msg (error_result (error_text err)) (tc_id tc) # msgs), w4))
         | None \<Rightarrow>
             (case agent_calls em iteration runTool tcs w3 of
                (Inl e, w4) \<Rightarrow> (Inl e, w4)
              | (Inr msgs, w4) \<Rightarrow> (Inr (tool_msg out (tc_id tc) # msgs), w4)))"

fun agent_rounds :: "'w agent \<Rightarrow> bool \<Rightarrow> nat \<Rightarrow> int \<Rightarrow> completion_request \<Rightarrow> token_usage
    \<Rightarrow> 'w aworld \<Rightarrow> (go_error + agent_result) \<times> 'w aworld" where
  "agent_rounds a em 0 i req usage w = (Inl (Errorf ''agent: exceeded maximum iterations (%d)'' [FInt (a_max a)]), w)"
| "agent_rounds a em (Suc left) i req usage w =
     (case run_hooks (map mw_before (a_middlewares a))
        \<lparr>st_request = req, st_response = None, st_iteration = i + 1, st_stop = False\<rparr> w of
        ((Some err, _), w1) \<Rightarrow> (Inl (Errorf ''agent: before_model (iteration %d): %w'' [FInt (i + 1), FWrap err]), w1)
      | ((None, st), w1) \<Rightarrow>
        (case model_call a em (i + 1) (st_request st) (w1\<lparr>aw_streamed := False\<rparr>) of
           (Inl err, w2) \<Rightarrow> (Inl (Errorf ''agent: iteration %d: %w'' [FInt (i + 1), FWrap err]), w2)
         | (Inr resp0, w2) \<Rightarrow>
           (case run_hooks (map mw_after (rev (a_middlewares a))) (st\<lparr>st_response := Some resp0\<rparr>) w2 of
              ((Some err, _), w3) \<Rightarrow>
                (Inl (Errorf ''agent: after_model (iteration %d): %w'' [FInt (i + 1), FWrap err]), w3)
            | ((None, st1), w3) \<Rightarrow>
                let resp = (case st_response st1 of Some r \<Rightarrow> r | None \<Rightarrow> resp0);
                    req1 = st_request st1;
                    w4 = (if \<not> aw_streamed w3 \<and> resp_content resp \<noteq> []
                          then emit em ((agent_event0 AgentContent (i + 1))\<lparr>age_content := resp_content resp\<rparr>) w3
                          else w3);
                    usage1 = addUsage usage (resp_usage resp)
                in if Stopped st1 \<or> resp_tool_calls resp = []
                   then (Inr \<lparr>ag_response = resp, ag_messages = req_messages req1, ag_usage = usage1,
                          ag_iterations = i + 1\<rparr>, w4)
                   else case a_executor a of
                     None \<Rightarrow> (Inl (Errorf ''agent: model requested tools but no executor configured'' []), w4)
                   | Some executor \<Rightarrow>
                       (case agent_calls em (i + 1) (toolChain a executor) (resp_tool_calls resp) w4 of
                          (Inl e, w5) \<Rightarrow> (Inl e, w5)
                        | (Inr msgs, w5) \<Rightarrow>
                            agent_rounds a em left (i + 1)
                              (req1\<lparr>req_messages := req_messages req1 @ assistant_turn resp # msgs\<rparr>) usage1 w5))))"

definition agent_world :: "'w \<Rightarrow> 'w aworld" where
  "agent_world w = \<lparr>aw_calls = (\<lambda>_. 0), aw_total = 0, aw_events = [], aw_streamed = False, aw_env = w\<rparr>"

definition agent_request :: "'w agent \<Rightarrow> message list \<Rightarrow> completion_request" where
  "agent_request a messages = zero_request
     \<lparr>req_model := a_model a, req_system := a_system a, req_messages := cloneMessages messages,
      req_tools := a_tools a\<rparr>"

definition agent_run :: "'w agent \<Rightarrow> bool \<Rightarrow> message list \<Rightarrow> 'w \<Rightarrow> (go_error + agent_result) \<times> 'w aworld" where
  "agent_run a em messages w =
     (if a_model a = [] then (Inl (Errorf ''agent: no model set (use WithModel)'' []), agent_world w)
      else agent_rounds a em (nat (a_max a)) 0 (agent_request a messages) zero_usage (agent_world w))"

definition RunMessages :: "'w agent \<Rightarrow> message list \<Rightarrow> 'w \<Rightarrow> (go_error + agent_result) \<times> 'w" where
  "RunMessages a messages w = (case agent_run a False messages w of (res, aw) \<Rightarrow> (res, aw_env aw))"

definition Run_agent :: "'w agent \<Rightarrow> string \<Rightarrow> 'w \<Rightarrow> (go_error + agent_result) \<times> 'w" where
  "Run_agent a input w = RunMessages a [text_msg RoleUser input] w"

definition StreamMessages :: "'w agent \<Rightarrow> message list \<Rightarrow> 'w \<Rightarrow> agent_event list \<times> 'w" where
  "StreamMessages a messages w =
     (case agent_run a True messages w of
        (Inl err, aw) \<Rightarrow> (aw_events aw @ [(agent_event0 AgentError 0)\<lparr>age_error := Some err\<rparr>], aw_env aw)
      | (Inr res, aw) \<Rightarrow>
          (aw_events aw @ [(agent_event0 AgentDone (ag_iterations res))\<lparr>age_result := Some res\<rparr>], aw_env aw))"

definition Stream_agent :: "'w agent \<Rightarrow> string \<Rightarrow> 'w \<Rightarrow> agent_event list \<times> 'w" where
  "Stream_agent a input w = StreamMessages a [text_msg RoleUser input] w"

section \<open>World invariants of a run\<close>

text \<open>What every part of the loop keeps, the loop keeps.\<close>

lemma run_hooks_inv:
  assumes "\<And>h s w. h \<in> set hs \<Longrightarrow> I w \<Longrightarrow> I (snd (h s w))"
  shows "I w \<Longrightarrow> I (snd (run_hooks hs s w))"
  using assms
proof (induction hs arbitrary: s w)
  case (Cons h hs)
  obtain e s1 w1 where h: "h s w = ((e, s1), w1)" by (metis prod.collapse)
  then have "I w1" using Cons.prems(2) [of h w s] Cons.prems(1) by simp
  then show ?case using h Cons by (cases e) auto
qed simp

lemma emit_inv: "(\<And>w evs. I w \<Longrightarrow> I (w\<lparr>aw_events := evs\<rparr>)) \<Longrightarrow> I w \<Longrightarrow> I (emit em ev w)"
  by (simp add: emit_def)

lemma agent_calls_inv:
  assumes ev: "\<And>w evs. I w \<Longrightarrow> I (w\<lparr>aw_events := evs\<rparr>)"
    and tool: "\<And>tc w. tc \<in> set tcs \<Longrightarrow> I w \<Longrightarrow> I (snd (runTool tc (count_call (tc_name tc) w)))"
  shows "I w \<Longrightarrow> I (snd (agent_calls em it runTool tcs w))"
  using tool
proof (induction tcs arbitrary: w)
  case (Cons tc tcs)
  let ?w1 = "emit em ((agent_event0 AgentToolCall it)\<lparr>age_tool_call := Some tc\<rparr>) w"
  obtain out err w2 where t: "runTool tc (count_call (tc_name tc) ?w1) = ((out, err), w2)"
    by (metis prod.collapse)
  have "I ?w1" using Cons.prems(1) ev by (rule emit_inv [rotated])
  then have "I w2" using Cons.prems(2) [of tc ?w1] t by simp
  then have w3: "I (emit em ev' w2)" for ev' using ev by (rule emit_inv [rotated])
  have "I (snd (agent_calls em it runTool tcs (emit em ev' w2)))" for ev'
    by (rule Cons.IH [OF w3]) (use Cons.prems(2) in auto)
  then show ?case using w3 t
    by (auto simp: Let_def simp del: AgentToolCall_def AgentToolResult_def split: option.split prod.split sum.split)
      (metis snd_conv)+
qed simp

lemma agent_rounds_inv:
  assumes ev: "\<And>w evs. I w \<Longrightarrow> I (w\<lparr>aw_events := evs\<rparr>)" "\<And>w b. I w \<Longrightarrow> I (w\<lparr>aw_streamed := b\<rparr>)"
    and hooks: "\<And>m s w. m \<in> set (a_middlewares a) \<Longrightarrow> I w \<Longrightarrow> I (snd (mw_before m s w)) \<and> I (snd (mw_after m s w))"
    and call: "\<And>it req w. I w \<Longrightarrow> I (snd (model_call a em it req w))"
    and tool: "\<And>ex tc w. a_executor a = Some ex \<Longrightarrow> I w \<Longrightarrow> I (snd (toolChain a ex tc (count_call (tc_name tc) w)))"
  shows "I w \<Longrightarrow> I (snd (agent_rounds a em left i req usage w))"
proof (induction left arbitrary: i req usage w)
  case 0
  then show ?case by simp
next
  case (Suc left)
  let ?st0 = "\<lparr>st_request = req, st_response = None, st_iteration = i + 1, st_stop = False\<rparr>"
  obtain e1 st w1 where b: "run_hooks (map mw_before (a_middlewares a)) ?st0 w = ((e1, st), w1)"
    by (metis prod.collapse)
  have "I (snd (run_hooks (map mw_before (a_middlewares a)) ?st0 w))"
    by (rule run_hooks_inv [where I = I]) (use hooks Suc.prems in auto)
  then have I1: "I w1" using b by simp
  obtain r0 w2 where c: "model_call a em (i + 1) (st_request st) (w1\<lparr>aw_streamed := False\<rparr>) = (r0, w2)"
    by (metis prod.collapse)
  have I2: "I w2" using call [OF ev(2) [OF I1]] c by (metis snd_conv)
  have I3: "I (snd (run_hooks (map mw_after (rev (a_middlewares a))) s w2))" for s
    by (rule run_hooks_inv [where I = I]) (use hooks I2 in auto)
  show ?case
  proof (cases e1)
    case (Some err)
    then show ?thesis using b I1 by simp
  next
    case None
    show ?thesis
    proof (cases r0)
      case (Inl err)
      then show ?thesis using b c None I2 by simp
    next
      case (Inr resp0)
      obtain e2 st1 w3 where d: "run_hooks (map mw_after (rev (a_middlewares a)))
          (st\<lparr>st_response := Some resp0\<rparr>) w2 = ((e2, st1), w3)"
        by (metis prod.collapse)
      have w3: "I w3" using I3 [of "st\<lparr>st_response := Some resp0\<rparr>"] d by simp
      then have w4: "I (emit em ev w3)" for ev using ev(1) by (rule emit_inv [rotated])
      have calls: "I (snd (agent_calls em it (toolChain a ex) tcs w'))"
        if "I w'" "a_executor a = Some ex" for it tcs w' ex
        by (rule agent_calls_inv [where I = I]) (use that ev(1) tool in auto)
      have rest: "I (snd (case agent_calls em it (toolChain a ex) tcs w' of
            (Inl e, w5) \<Rightarrow> (Inl e, w5)
          | (Inr msgs, w5) \<Rightarrow> agent_rounds a em left (i + 1) (rq msgs) u w5))"
        if "I w'" "a_executor a = Some ex" for it tcs w' ex rq u
      proof -
        obtain r w5 where r: "agent_calls em it (toolChain a ex) tcs w' = (r, w5)" by (metis prod.collapse)
        then have "I w5" using calls [OF that, of it tcs] by simp
        then show ?thesis using r Suc.IH by (cases r) simp_all
      qed
      show ?thesis
        using b c d None Inr w3 w4 rest
        by (cases e2) (auto simp: Let_def split: option.split)
    qed
  qed
qed

section \<open>Without middleware\<close>

lemma clone_message_id [simp]: "clone_message m = m"
proof -
  have "map (\<lambda>tc. tc\<lparr>tc_metadata := map (\<lambda>(k, v). (k, v)) (tc_metadata tc)\<rparr>) (msg_tool_calls m) = msg_tool_calls m"
    by (rule map_idI) simp
  then show ?thesis by (simp add: clone_message_def)
qed

lemma cloneMessages_id [simp]: "cloneMessages msgs = msgs"
  by (simp add: cloneMessages_def map_idI)

lemma bare_calls:
  assumes "a_middlewares a = []"
  shows "model_call a em it = (if em then streamCall a it else baseCall a)" "toolChain a ex = exec_tool ex"
  by (simp_all add: model_call_def toolChain_def assms)

text \<open>One round of an agent without middleware.\<close>

lemma bare_round:
  assumes "a_middlewares a = []"
  shows "agent_rounds a em (Suc left) i req usage w =
     (case model_call a em (i + 1) req (w\<lparr>aw_streamed := False\<rparr>) of
        (Inl err, w2) \<Rightarrow> (Inl (Errorf ''agent: iteration %d: %w'' [FInt (i + 1), FWrap err]), w2)
      | (Inr resp, w2) \<Rightarrow>
          let w4 = (if \<not> aw_streamed w2 \<and> resp_content resp \<noteq> []
                then emit em ((agent_event0 AgentContent (i + 1))\<lparr>age_content := resp_content resp\<rparr>) w2 else w2);
              usage1 = addUsage usage (resp_usage resp)
          in if resp_tool_calls resp = []
             then (Inr \<lparr>ag_response = resp, ag_messages = req_messages req, ag_usage = usage1,
                    ag_iterations = i + 1\<rparr>, w4)
             else case a_executor a of
               None \<Rightarrow> (Inl (Errorf ''agent: model requested tools but no executor configured'' []), w4)
             | Some executor \<Rightarrow>
                 (case agent_calls em (i + 1) (exec_tool executor) (resp_tool_calls resp) w4 of
                    (Inl e, w5) \<Rightarrow> (Inl e, w5)
                  | (Inr msgs, w5) \<Rightarrow>
                      agent_rounds a em left (i + 1)
                        (req\<lparr>req_messages := req_messages req @ assistant_turn resp # msgs\<rparr>) usage1 w5))"
proof (cases "model_call a em (i + 1) req (w\<lparr>aw_streamed := False\<rparr>)")
  case (Pair r w2)
  then show ?thesis using assms
    by (cases r) (simp_all add: bare_calls(2) Stopped_def Let_def del: AgentContent_def
        split: option.split prod.split sum.split)
qed

declare agent_rounds.simps(2) [simp del]

text \<open>When no tool fails, the rounds of tool calls are those of \<open>RunLoop\<close>.\<close>

lemma bare_agent_calls:
  assumes "\<And>n args w. snd (fst (exec n args w)) = None" "lc_hook cfg = None"
  shows "\<exists>w'. agent_calls False it (exec_tool exec) tcs w = (Inr (fst (run_calls cfg exec tcs (aw_env w))), w') \<and>
    aw_env w' = snd (run_calls cfg exec tcs (aw_env w))"
proof (induction tcs arbitrary: w)
  case (Cons tc tcs)
  obtain out err u where e: "exec (tc_name tc) (tc_arguments tc) (aw_env w) = ((out, err), u)"
    by (metis prod.collapse)
  then have err: "err = None" using assms(1) [of "tc_name tc" "tc_arguments tc" "aw_env w"] by simp
  let ?w2 = "(count_call (tc_name tc) w)\<lparr>aw_env := u\<rparr>"
  have t: "exec_tool exec tc (count_call (tc_name tc) w) = ((out, None), ?w2)"
    using e err by (simp add: exec_tool_def count_call_def)
  obtain w' where w': "agent_calls False it (exec_tool exec) tcs ?w2 = (Inr (fst (run_calls cfg exec tcs u)), w')"
      "aw_env w' = snd (run_calls cfg exec tcs u)"
    using Cons.IH [of ?w2] by auto
  have "run_calls cfg exec (tc # tcs) (aw_env w) =
      (tool_msg out (tc_id tc) # fst (run_calls cfg exec tcs u), snd (run_calls cfg exec tcs u))"
    using e err assms(2) by (simp add: Let_def split: prod.split)
  then show ?case using t w' by (simp add: emit_def Let_def)
qed simp

definition same_outcome :: "go_error + agent_result \<Rightarrow> go_error + loop_result \<Rightarrow> message list \<Rightarrow> bool" where
  "same_outcome ar lr msgs = (case ar of
     Inl _ \<Rightarrow> (case lr of Inl _ \<Rightarrow> True | Inr _ \<Rightarrow> False)
   | Inr r \<Rightarrow> (case lr of Inl _ \<Rightarrow> False
       | Inr l \<Rightarrow> ag_response r = lr_response l \<and> ag_messages r = msgs \<and> ag_iterations r = lr_iterations l \<and>
           prompt_tokens (ag_usage r) = prompt_tokens (lr_usage l) \<and>
           completion_tokens (ag_usage r) = completion_tokens (lr_usage l) \<and>
           total_tokens (ag_usage r) = total_tokens (lr_usage l)))"

lemma bare_rounds:
  assumes mw: "a_middlewares a = []" and ex: "a_executor a = Some exec"
    and ok: "\<And>n args w. snd (fst (exec n args w)) = None" and nohook: "lc_hook cfg = None"
  shows "prompt_tokens u = prompt_tokens u' \<Longrightarrow> completion_tokens u = completion_tokens u' \<Longrightarrow>
    total_tokens u = total_tokens u' \<Longrightarrow>
    (case agent_rounds a False left i req u w of (ar, aw) \<Rightarrow>
     case run_rounds cfg (a_provider a) exec left u' i req (aw_env w) of (lr, req', v) \<Rightarrow>
       same_outcome ar lr (req_messages req') \<and> aw_env aw = v)"
proof (induction left arbitrary: i req u u' w)
  case 0
  then show ?case by (simp add: same_outcome_def)
next
  case (Suc left)
  obtain cr v where c: "Complete (a_provider a) req (aw_env w) = (cr, v)" by (metis prod.collapse)
  let ?w2 = "w\<lparr>aw_streamed := False, aw_env := v\<rparr>"
  have m: "model_call a False (i + 1) req (w\<lparr>aw_streamed := False\<rparr>) = (cr, ?w2)"
    using c mw by (simp add: bare_calls baseCall_def)
  show ?case
  proof (cases cr)
    case (Inl err)
    then show ?thesis using m c by (simp add: bare_round [OF mw] same_outcome_def)
  next
    case (Inr resp)
    show ?thesis
    proof (cases "resp_tool_calls resp = []")
      case True
      then show ?thesis using m c Inr Suc.prems
        by (simp add: bare_round [OF mw] same_outcome_def emit_def addUsage_def add_usage3_def)
    next
      case False
      let ?rc = "run_calls cfg exec (resp_tool_calls resp) v"
      obtain w' where w': "agent_calls False (i + 1) (exec_tool exec) (resp_tool_calls resp) ?w2 =
          (Inr (fst ?rc), w')" "aw_env w' = snd ?rc"
        using bare_agent_calls [where exec = exec and cfg = cfg and it = "i + 1"
            and tcs = "resp_tool_calls resp" and w = ?w2] ok nohook by auto
      let ?req = "req\<lparr>req_messages := req_messages req @ assistant_turn resp # fst ?rc\<rparr>"
      have l: "agent_rounds a False (Suc left) i req u w =
          agent_rounds a False left (i + 1) ?req (addUsage u (resp_usage resp)) w'"
        using m Inr False w' ex by (simp add: bare_round [OF mw] emit_def)
      have r: "run_rounds cfg (a_provider a) exec (Suc left) u' i req (aw_env w) =
          run_rounds cfg (a_provider a) exec left (add_usage3 u' (resp_usage resp)) (i + 1) ?req (aw_env w')"
        using c Inr False w'(2) by (simp split: prod.split)
      show ?thesis unfolding l r
        by (rule Suc.IH) (use Suc.prems in \<open>simp_all add: addUsage_def add_usage3_def\<close>)
    qed
  qed
qed

text \<open>
  C5. An agent without middleware is the tool loop: on the same request, with tools that do
  not fail, \<open>RunMessages\<close> and \<open>tools.RunLoop\<close> call the model and the tools in the same
  order (the worlds agree), succeed or fail together, and return the same response,
  transcript, iteration count and token totals.
\<close>

theorem bare_agent_is_run_loop:
  assumes "a_middlewares a = []" "a_model a \<noteq> []" "a_executor a = Some exec"
    and "\<forall>n args w. snd (fst (exec n args w)) = None"
  shows "case RunMessages a msgs w of (ar, w1) \<Rightarrow>
    case RunLoop (a_provider a) (zero_request\<lparr>req_model := a_model a, req_system := a_system a,
        req_messages := msgs, req_tools := a_tools a\<rparr>) exec [WithMaxIterations (a_max a)] w of
      (lr, req', w2) \<Rightarrow> same_outcome ar lr (req_messages req') \<and> w1 = w2"
proof -
  let ?req = "agent_request a msgs"
  have req: "?req = zero_request\<lparr>req_model := a_model a, req_system := a_system a,
        req_messages := msgs, req_tools := a_tools a\<rparr>"
    by (simp add: agent_request_def)
  have "case agent_rounds a False (nat (a_max a)) 0 ?req zero_usage (agent_world w) of (ar, aw) \<Rightarrow>
     case run_rounds \<lparr>lc_max = a_max a, lc_hook = None\<rparr> (a_provider a) exec (nat (a_max a)) zero_usage 0 ?req
         (aw_env (agent_world w)) of (lr, req', v) \<Rightarrow>
       same_outcome ar lr (req_messages req') \<and> aw_env aw = v"
    by (rule bare_rounds) (use assms in auto)
  then show ?thesis using assms(2) unfolding req
    by (auto simp: RunMessages_def agent_run_def RunLoop_def WithMaxIterations_def Let_def agent_world_def req
        split: prod.splits)
qed

theorem bare_agent_is_run_loop_witness:
  "case RunMessages (New_agent script_provider [WithModel ''m'', WithTools [] (map_Execute (\<lambda>_. Some (\<lambda>args w. ((args, None), w))))])
      [text_msg ''user'' ''go''] [zero_response\<lparr>resp_tool_calls := [echo_call]\<rparr>, zero_response] of (ar, w1) \<Rightarrow>
    case RunLoop script_provider (zero_request\<lparr>req_model := ''m'', req_messages := [text_msg ''user'' ''go'']\<rparr>)
        (map_Execute (\<lambda>_. Some (\<lambda>args w. ((args, None), w)))) [WithMaxIterations 20]
        [zero_response\<lparr>resp_tool_calls := [echo_call]\<rparr>, zero_response] of
      (lr, req', w2) \<Rightarrow> same_outcome ar lr (req_messages req') \<and> w1 = w2"
proof -
  let ?ex = "map_Execute (\<lambda>_. Some (\<lambda>args w. ((args, None), w)))"
  let ?a = "New_agent script_provider [WithModel ''m'', WithTools [] ?ex]"
  have a: "a_middlewares ?a = []" "a_model ?a \<noteq> []" "a_executor ?a = Some ?ex"
    "\<forall>n args w. snd (fst (?ex n args w)) = None"
    by (simp_all add: New_agent_def WithModel_def WithTools_def map_Execute_def)
  have b: "a_provider ?a = script_provider" "a_model ?a = ''m''" "a_system ?a = []" "a_tools ?a = []"
    "a_max ?a = 20"
    by (simp_all add: New_agent_def WithModel_def WithTools_def)
  have z: "zero_request\<lparr>req_model := ''m'', req_system := [], req_messages := m, req_tools := []\<rparr>
      = zero_request\<lparr>req_model := ''m'', req_messages := m\<rparr>" for m
    by (simp add: zero_request_def)
  show ?thesis
    using bare_agent_is_run_loop [OF a, of "[text_msg ''user'' ''go'']"
        "[zero_response\<lparr>resp_tool_calls := [echo_call]\<rparr>, zero_response]"]
    unfolding b z .
qed

section \<open>Streaming a run\<close>

definition chunks :: "int \<Rightarrow> agent_event list \<Rightarrow> string" where
  "chunks it evs = concat (map age_content (filter (\<lambda>e. age_type e = AgentContent \<and> age_iteration e = it) evs))"

lemma chunks_simps [simp]:
  "chunks it [] = []" "chunks it (xs @ ys) = chunks it xs @ chunks it ys"
  by (simp_all add: chunks_def)

lemma chunks_other: "\<forall>e\<in>set evs. age_iteration e \<le> i \<Longrightarrow> chunks (i + 1) evs = []"
  by (auto simp: chunks_def filter_empty_conv)

text \<open>Two run worlds that differ in their events only.\<close>

definition same_world :: "'w aworld \<Rightarrow> 'w aworld \<Rightarrow> bool" where
  "same_world v w \<longleftrightarrow> aw_calls v = aw_calls w \<and> aw_total v = aw_total w \<and> aw_env v = aw_env w"

lemma same_world_emit [simp]:
  "same_world (emit em e v) w = same_world v w"
  "same_world v (emit em e w) = same_world v w"
  by (simp_all add: same_world_def emit_def)

lemma forward_events:
  "\<exists>new. aw_events (foldl (forward_event it) w evs) = aw_events w @ new \<and>
     (\<forall>e\<in>set new. age_iteration e = it) \<and> chunks it new = text_of evs"
proof (induction evs arbitrary: w)
  case (Cons ev evs)
  obtain new where n: "aw_events (foldl (forward_event it) (forward_event it w ev) evs)
      = aw_events (forward_event it w ev) @ new" "\<forall>e\<in>set new. age_iteration e = it"
      "chunks it new = text_of evs"
    using Cons.IH by blast
  obtain fst1 where f: "aw_events (forward_event it w ev) = aw_events w @ fst1"
      "\<forall>e\<in>set fst1. age_iteration e = it" "chunks it fst1 = text_of [ev]"
  proof
    let ?f = "drop (length (aw_events w)) (aw_events (forward_event it w ev))"
    show "aw_events (forward_event it w ev) = aw_events w @ ?f" "\<forall>e\<in>set ?f. age_iteration e = it"
      "chunks it ?f = text_of [ev]"
      by (auto simp: forward_event_def emit_def agent_event0_def chunks_def stream_parts_snoc)
  qed
  show ?case
    by (rule exI [of _ "fst1 @ new"]) (use n f stream_parts_Cons(1) [of ev evs] in auto)
qed simp

lemma forward_world:
  "same_world (foldl (forward_event it) v evs) v"
  "aw_streamed (foldl (forward_event it) v evs) \<longleftrightarrow>
     aw_streamed v \<or> (\<exists>e\<in>set evs. ev_type e = EventContent \<or> ev_type e = EventReasoning)"
  by (induction evs arbitrary: v) (auto simp: forward_event_def same_world_def emit_def)

lemma stream_call:
  assumes "CollectStream evs = Inr resp"
    and "w2 = foldl (forward_event (i + 1)) (w\<lparr>aw_streamed := False, aw_env := u\<rparr>) evs"
    and "\<forall>e\<in>set (aw_events w). age_iteration e \<le> i"
  shows "aw_streamed w2 \<or> resp_content resp = []" "chunks (i + 1) (aw_events w2) = resp_content resp"
    "\<forall>e\<in>set (aw_events w2). age_iteration e \<le> i + 1"
proof -
  have cont: "resp_content resp = text_of evs"
    using assms(1) by (auto simp: CollectStream_eq assembled_def split: option.splits)
  then show "aw_streamed w2 \<or> resp_content resp = []"
    using forward_world(2) [of "i + 1" "w\<lparr>aw_streamed := False, aw_env := u\<rparr>" evs] assms(2)
    by (auto simp: text_of_def)
  obtain new where n: "aw_events w2 = aw_events w @ new" "\<forall>e\<in>set new. age_iteration e = i + 1"
      "chunks (i + 1) new = text_of evs"
    using forward_events [of "i + 1" "w\<lparr>aw_streamed := False, aw_env := u\<rparr>" evs] assms(2) by auto
  then show "chunks (i + 1) (aw_events w2) = resp_content resp"
    using chunks_other [OF assms(3)] cont by simp
  show "\<forall>e\<in>set (aw_events w2). age_iteration e \<le> i + 1"
    using n assms(3) by auto
qed

lemma streamed_calls:
  "same_world v w \<Longrightarrow> \<forall>e\<in>set (aw_events v). age_iteration e \<le> it \<Longrightarrow>
   case agent_calls True it (exec_tool ex) tcs v of (r, v') \<Rightarrow>
   case agent_calls False it (exec_tool ex) tcs w of (r', w') \<Rightarrow>
     r = r' \<and> same_world v' w' \<and> (\<forall>e\<in>set (aw_events v'). age_iteration e \<le> it)"
proof (induction tcs arbitrary: v w)
  case (Cons tc tcs)
  obtain out err u where e: "ex (tc_name tc) (tc_arguments tc) (aw_env w) = ((out, err), u)"
    by (metis prod.collapse)
  let ?v1 = "emit True ((agent_event0 AgentToolCall it)\<lparr>age_tool_call := Some tc\<rparr>) v"
  let ?v3 = "emit True ((agent_event0 AgentToolResult it)\<lparr>age_tool_call := Some tc, age_content := out,
      age_tool_error := err\<rparr>) ((count_call (tc_name tc) ?v1)\<lparr>aw_env := u\<rparr>)"
  let ?w3 = "(count_call (tc_name tc) w)\<lparr>aw_env := u\<rparr>"
  have tv: "exec_tool ex tc (count_call (tc_name tc) ?v1) = ((out, err), (count_call (tc_name tc) ?v1)\<lparr>aw_env := u\<rparr>)"
    using e Cons.prems(1) by (simp add: exec_tool_def same_world_def count_call_def emit_def)
  have tw: "exec_tool ex tc (count_call (tc_name tc) w) = ((out, err), ?w3)"
    using e by (simp add: exec_tool_def count_call_def)
  have s3: "same_world ?v3 ?w3" "\<forall>e\<in>set (aw_events ?v3). age_iteration e \<le> it"
    using Cons.prems by (auto simp: same_world_def count_call_def emit_def agent_event0_def)
  have IH: "case agent_calls True it (exec_tool ex) tcs ?v3 of (r, v') \<Rightarrow>
      case agent_calls False it (exec_tool ex) tcs ?w3 of (r', w') \<Rightarrow>
        r = r' \<and> same_world v' w' \<and> (\<forall>e\<in>set (aw_events v'). age_iteration e \<le> it)"
    by (rule Cons.IH [OF s3])
  have v: "agent_calls True it (exec_tool ex) (tc # tcs) v = (case err of
      Some er \<Rightarrow> if aborts er then (Inl (Errorf ''agent: tool %q (iteration %d): %w''
          [FStr (tc_name tc), FInt it, FWrap er]), ?v3)
        else (case agent_calls True it (exec_tool ex) tcs ?v3 of (Inl e, w4) \<Rightarrow> (Inl e, w4)
          | (Inr msgs, w4) \<Rightarrow> (Inr (tool_msg (error_result (error_text er)) (tc_id tc) # msgs), w4))
    | None \<Rightarrow> (case agent_calls True it (exec_tool ex) tcs ?v3 of (Inl e, w4) \<Rightarrow> (Inl e, w4)
          | (Inr msgs, w4) \<Rightarrow> (Inr (tool_msg out (tc_id tc) # msgs), w4)))"
    by (simp only: agent_calls.simps Let_def tv prod.case)
  have w: "agent_calls False it (exec_tool ex) (tc # tcs) w = (case err of
      Some er \<Rightarrow> if aborts er then (Inl (Errorf ''agent: tool %q (iteration %d): %w''
          [FStr (tc_name tc), FInt it, FWrap er]), ?w3)
        else (case agent_calls False it (exec_tool ex) tcs ?w3 of (Inl e, w4) \<Rightarrow> (Inl e, w4)
          | (Inr msgs, w4) \<Rightarrow> (Inr (tool_msg (error_result (error_text er)) (tc_id tc) # msgs), w4))
    | None \<Rightarrow> (case agent_calls False it (exec_tool ex) tcs ?w3 of (Inl e, w4) \<Rightarrow> (Inl e, w4)
          | (Inr msgs, w4) \<Rightarrow> (Inr (tool_msg out (tc_id tc) # msgs), w4)))"
    by (simp only: agent_calls.simps Let_def tw prod.case emit_def if_False)
  obtain r v' w' where IH': "agent_calls True it (exec_tool ex) tcs ?v3 = (r, v')"
      "agent_calls False it (exec_tool ex) tcs ?w3 = (r, w')" "same_world v' w'"
      "\<forall>e\<in>set (aw_events v'). age_iteration e \<le> it"
    using IH by (auto split: prod.splits)
  show ?case unfolding v w IH'(1,2) using IH'(3,4) s3
    by (cases err; cases r) auto
qed simp

lemma streamed_rounds:
  assumes mw: "a_middlewares a = []"
    and con: "\<And>req w. Complete (a_provider a) req w = (case Stream (a_provider a) req w of
        (Inl e, u) \<Rightarrow> (Inl e, u) | (Inr evs, u) \<Rightarrow> (CollectStream evs, u))"
  shows "same_world v w \<Longrightarrow> \<forall>e\<in>set (aw_events v). age_iteration e \<le> i \<Longrightarrow>
   case agent_rounds a True left i req us v of (r, v') \<Rightarrow>
   case agent_rounds a False left i req us w of (r', w') \<Rightarrow>
     r = r' \<and> same_world v' w' \<and>
     (case r of Inl _ \<Rightarrow> True
      | Inr res \<Rightarrow> chunks (ag_iterations res) (aw_events v') = resp_content (ag_response res))"
proof (induction left arbitrary: v w i req us)
  case 0
  then show ?case by simp
next
  case (Suc left)
  obtain sr u where st: "Stream (a_provider a) req (aw_env w) = (sr, u)" by (metis prod.collapse)
  have env: "aw_env v = aw_env w" using Suc.prems(1) by (simp add: same_world_def)
  let ?w1 = "w\<lparr>aw_streamed := False, aw_env := u\<rparr>"
  let ?v1 = "v\<lparr>aw_streamed := False, aw_env := u\<rparr>"
  show ?case
  proof (cases sr)
    case (Inl err)
    have "model_call a True (i + 1) req (v\<lparr>aw_streamed := False\<rparr>) = (Inl err, ?v1)"
      "model_call a False (i + 1) req (w\<lparr>aw_streamed := False\<rparr>) = (Inl err, ?w1)"
      using st env Inl by (simp_all add: bare_calls [OF mw] streamCall_def baseCall_def con)
    then show ?thesis using Suc.prems(1) by (simp add: bare_round [OF mw] same_world_def)
  next
    case (Inr evs)
    let ?v2 = "foldl (forward_event (i + 1)) ?v1 evs"
    have mv: "model_call a True (i + 1) req (v\<lparr>aw_streamed := False\<rparr>) = (CollectStream evs, ?v2)"
      "model_call a False (i + 1) req (w\<lparr>aw_streamed := False\<rparr>) = (CollectStream evs, ?w1)"
      using st env Inr by (simp_all add: bare_calls [OF mw] streamCall_def baseCall_def con)
    have sw: "same_world ?v2 ?w1"
      using forward_world(1) [of "i + 1" ?v1 evs] Suc.prems(1) by (simp add: same_world_def)
    show ?thesis
    proof (cases "CollectStream evs")
      case (Inl err)
      then show ?thesis using mv sw by (simp add: bare_round [OF mw])
    next
      case r: (Inr resp)
      note sc = stream_call [OF r refl Suc.prems(2), of u]
      let ?w4 = "if resp_content resp \<noteq> [] then emit False ((agent_event0 AgentContent (i + 1))
          \<lparr>age_content := resp_content resp\<rparr>) ?w1 else ?w1"
      have w4: "?w4 = ?w1" by (simp add: emit_def)
      have noemit: "(\<not> aw_streamed ?v2 \<and> resp_content resp \<noteq> []) = False" using sc(1) by blast
      show ?thesis
      proof (cases "resp_tool_calls resp = []")
        case True
        have "agent_rounds a True (Suc left) i req us v = (Inr \<lparr>ag_response = resp,
            ag_messages = req_messages req, ag_usage = addUsage us (resp_usage resp), ag_iterations = i + 1\<rparr>, ?v2)"
          unfolding bare_round [OF mw] mv r using True sc(1) by (auto simp: Let_def)
        moreover have "agent_rounds a False (Suc left) i req us w = (Inr \<lparr>ag_response = resp,
            ag_messages = req_messages req, ag_usage = addUsage us (resp_usage resp), ag_iterations = i + 1\<rparr>, ?w1)"
          unfolding bare_round [OF mw] mv r using True by (simp add: Let_def emit_def)
        ultimately show ?thesis using sw sc(2) by simp
      next
        case False
        show ?thesis
        proof (cases "a_executor a")
          case None
          have "agent_rounds a True (Suc left) i req us v =
              (Inl (Errorf ''agent: model requested tools but no executor configured'' []), ?v2)"
            unfolding bare_round [OF mw] mv r using False sc(1) None by (auto simp: Let_def)
          moreover have "agent_rounds a False (Suc left) i req us w =
              (Inl (Errorf ''agent: model requested tools but no executor configured'' []), ?w1)"
            unfolding bare_round [OF mw] mv r using False None by (simp add: Let_def emit_def)
          ultimately show ?thesis using sw by simp
        next
          case (Some ex)
          obtain cr v5 w5 where calls: "agent_calls True (i + 1) (exec_tool ex) (resp_tool_calls resp) ?v2 = (cr, v5)"
            "agent_calls False (i + 1) (exec_tool ex) (resp_tool_calls resp) ?w1 = (cr, w5)"
            "same_world v5 w5" "\<forall>e\<in>set (aw_events v5). age_iteration e \<le> i + 1"
            using streamed_calls [OF sw sc(3), of ex "resp_tool_calls resp"] by (auto split: prod.splits)
          let ?next = "\<lambda>b x. case cr of Inl e \<Rightarrow> (Inl e, x)
            | Inr msgs \<Rightarrow> agent_rounds a b left (i + 1)
                (req\<lparr>req_messages := req_messages req @ assistant_turn resp # msgs\<rparr>) (addUsage us (resp_usage resp)) x"
          have v: "agent_rounds a True (Suc left) i req us v = ?next True v5"
            unfolding bare_round [OF mw] mv r using False sc(1) Some calls(1) by (auto simp: Let_def)
          have w: "agent_rounds a False (Suc left) i req us w = ?next False w5"
            unfolding bare_round [OF mw] mv r using False Some calls(2) by (simp add: Let_def emit_def)
          show ?thesis
          proof (cases cr)
            case (Inl e)
            then show ?thesis unfolding v w using calls(3) by simp
          next
            case (Inr msgs)
            show ?thesis unfolding v w Inr sum.case by (rule Suc.IH [OF calls(3,4)])
          qed
        qed
      qed
    qed
  qed
qed


definition echo_stream :: "nat provider" where
  "echo_stream =
     \<lparr>Complete = (\<lambda>req w. (CollectStream [content_event ''he'', content_event ''llo''], Suc w)),
      Stream = (\<lambda>req w. (Inr [content_event ''he'', content_event ''llo''], Suc w))\<rparr>"


end
