(* ===== verification/Agent_Middleware.thy ===== *)
theory Agent_Middleware
  imports Agents
begin

text \<open>
  The middleware of package \<open>agent\<close>: call limits (\<open>limits.go\<close>), tool retries and model
  fallback (\<open>resilience.go\<close>), context editing and tool selection (\<open>context.go\<close>),
  summarization (\<open>summarization.go\<close>) and redaction (\<open>pii.go\<close>).

  A regular expression with its replacement is a function on strings (\<open>pii_pattern\<close>), and
  the decoding of the selector's answer is a parameter; the rest is written out.
\<close>

section \<open>Limits\<close>

definition ErrCallLimit :: go_error where
  "ErrCallLimit = Sentinel ''call limit exceeded''"

record model_call_limit =
  ml_limit :: int
  ml_fail :: bool

definition NewModelCallLimit :: "int \<Rightarrow> model_call_limit" where
  "NewModelCallLimit limit = \<lparr>ml_limit = limit, ml_fail = False\<rparr>"

definition FailOnLimit :: "model_call_limit \<Rightarrow> model_call_limit" where
  "FailOnLimit m = m\<lparr>ml_fail := True\<rparr>"

definition ml_AfterModel :: "model_call_limit \<Rightarrow> 'w hook_fn" where
  "ml_AfterModel m s w =
     (if st_iteration s < ml_limit m \<or> (case st_response s of None \<Rightarrow> True | Some r \<Rightarrow> resp_tool_calls r = [])
      then ((None, s), w)
      else if ml_fail m
      then ((Some (Errorf ''model call limit %d: %w'' [FInt (ml_limit m), FWrap ErrCallLimit]), s), w)
      else ((None, Stop_run s), w))"

definition model_limit_mw :: "model_call_limit \<Rightarrow> 'w middleware" where
  "model_limit_mw m = BaseMiddleware\<lparr>mw_after := ml_AfterModel m\<rparr>"

record tool_call_limit =
  tl_limit :: int
  tl_names :: "string list option"

definition NewToolCallLimit :: "int \<Rightarrow> string list \<Rightarrow> tool_call_limit" where
  "NewToolCallLimit limit names = \<lparr>tl_limit = limit, tl_names = (if names = [] then None else Some names)\<rparr>"

definition tl_WrapToolCall :: "tool_call_limit \<Rightarrow> 'w call_tool_fn \<Rightarrow> 'w call_tool_fn" where
  "tl_WrapToolCall l nxt call w =
     (let count = (case tl_names l of
            None \<Rightarrow> toolCallCount w []
          | Some names \<Rightarrow> if tc_name call \<in> set names then toolCallCount w (tc_name call) else 0)
      in if int count > tl_limit l
         then (([], Some (Errorf ''tool %q not run: limit of %d calls reached; answer with the information you have: %w''
                [FStr (tc_name call), FInt (tl_limit l), FWrap ErrCallLimit])), w)
         else nxt call w)"

definition tool_limit_mw :: "tool_call_limit \<Rightarrow> 'w middleware" where
  "tool_limit_mw l = BaseMiddleware\<lparr>mw_wrap_tool := Some (tl_WrapToolCall l)\<rparr>"

section \<open>Retries and fallback\<close>

record tool_retry =
  tr_max :: int
  tr_delay :: int
  tr_retryable :: "(go_error \<Rightarrow> bool) option"
  tr_names :: "string list option"

definition NewToolRetry :: "int \<Rightarrow> (tool_retry \<Rightarrow> tool_retry) list \<Rightarrow> tool_retry" where
  "NewToolRetry maxRetries opts = foldl (\<lambda>r opt. opt r)
     \<lparr>tr_max = maxRetries, tr_delay = 500000000, tr_retryable = None, tr_names = None\<rparr> opts"

definition WithToolRetryDelay :: "int \<Rightarrow> tool_retry \<Rightarrow> tool_retry" where
  "WithToolRetryDelay d r = r\<lparr>tr_delay := d\<rparr>"

definition WithToolRetryIf :: "(go_error \<Rightarrow> bool) \<Rightarrow> tool_retry \<Rightarrow> tool_retry" where
  "WithToolRetryIf fn r = r\<lparr>tr_retryable := Some fn\<rparr>"

definition WithToolRetryOn :: "string list \<Rightarrow> tool_retry \<Rightarrow> tool_retry" where
  "WithToolRetryOn names r = r\<lparr>tr_names := Some names\<rparr>"

text \<open>The retry loop, on the retries left.\<close>

fun tool_retry_loop :: "tool_retry \<Rightarrow> 'w ctx_ops \<Rightarrow> 'w call_tool_fn \<Rightarrow> tool_call \<Rightarrow> nat \<Rightarrow> int
    \<Rightarrow> string \<Rightarrow> go_error option \<Rightarrow> 'w aworld \<Rightarrow> (string \<times> go_error option) \<times> 'w aworld" where
  "tool_retry_loop r ops nxt call 0 delay out err w = ((out, err), w)"
| "tool_retry_loop r ops nxt call (Suc left) delay out err w =
     (case err of
        None \<Rightarrow> ((out, err), w)
      | Some e \<Rightarrow>
          if aborts e \<or> (case tr_retryable r of None \<Rightarrow> False | Some p \<Rightarrow> \<not> p e) then ((out, err), w)
          else case ctx_wait ops delay (aw_env w) of
                 (False, u) \<Rightarrow> (([], err), w\<lparr>aw_env := u\<rparr>)
               | (True, u) \<Rightarrow>
                   (case nxt call (w\<lparr>aw_env := u\<rparr>) of
                      ((out1, err1), w1) \<Rightarrow>
                        tool_retry_loop r ops nxt call left (wrap64 (delay * 2)) out1 err1 w1))"

definition tr_WrapToolCall :: "tool_retry \<Rightarrow> 'w ctx_ops \<Rightarrow> 'w call_tool_fn \<Rightarrow> 'w call_tool_fn" where
  "tr_WrapToolCall r ops nxt call w =
     (case nxt call w of
        ((out, err), w1) \<Rightarrow>
          if (case tr_names r of None \<Rightarrow> False | Some names \<Rightarrow> tc_name call \<notin> set names)
          then ((out, err), w1)
          else tool_retry_loop r ops nxt call (nat (tr_max r)) (tr_delay r) out err w1)"

definition tool_retry_mw :: "tool_retry \<Rightarrow> 'w ctx_ops \<Rightarrow> 'w middleware" where
  "tool_retry_mw r ops = BaseMiddleware\<lparr>mw_wrap_tool := Some (tr_WrapToolCall r ops)\<rparr>"

fun try_models :: "'w ctx_ops \<Rightarrow> 'w call_fn \<Rightarrow> completion_request \<Rightarrow> string list
    \<Rightarrow> go_error + completion_response \<Rightarrow> 'w aworld \<Rightarrow> (go_error + completion_response) \<times> 'w aworld" where
  "try_models ops nxt req [] res w = (res, w)"
| "try_models ops nxt req (model # models) res w =
     (case res of
        Inr resp \<Rightarrow> (Inr resp, w)
      | Inl err \<Rightarrow>
          if ctx_err ops (aw_env w) \<noteq> None then (Inl err, w)
          else case nxt (req\<lparr>req_model := model\<rparr>) w of
                 (Inl ferr, w1) \<Rightarrow> try_models ops nxt req models
                    (Inl (Errorf ''%w; fallback %s: %v'' [FWrap err, FStr model, FShow ferr])) w1
               | (Inr resp, w1) \<Rightarrow> try_models ops nxt req models (Inr resp) w1)"

definition mf_WrapModelCall :: "string list \<Rightarrow> 'w ctx_ops \<Rightarrow> 'w call_fn \<Rightarrow> 'w call_fn" where
  "mf_WrapModelCall models ops nxt req w = (case nxt req w of (res, w1) \<Rightarrow> try_models ops nxt req models res w1)"

definition model_fallback_mw :: "string list \<Rightarrow> 'w ctx_ops \<Rightarrow> 'w middleware" where
  "model_fallback_mw models ops = BaseMiddleware\<lparr>mw_wrap_model := mf_WrapModelCall models ops\<rparr>"

section \<open>Message text and token estimates\<close>

fun join_text :: "string \<Rightarrow> content_part list \<Rightarrow> string" where
  "join_text b [] = b"
| "join_text b (p # ps) =
     (if cp_type p = ''text''
      then join_text ((if b \<noteq> [] then b @ [CHR 0x0A] else b) @ cp_text p) ps
      else join_text b ps)"

definition messageText :: "message \<Rightarrow> string" where
  "messageText m = (if msg_parts m = [] then msg_content m else join_text [] (msg_parts m))"

fun estimateMessages :: "message list \<Rightarrow> int" where
  "estimateMessages [] = 0"
| "estimateMessages (m # ms) = int (length (messageText m) div 4) + 1 + 4 + estimateMessages ms"

fun lastUserText :: "message list \<Rightarrow> string" where
  "lastUserText msgs = (case find (\<lambda>m. msg_role m = ''user'') (rev msgs) of None \<Rightarrow> [] | Some m \<Rightarrow> messageText m)"

section \<open>Context editing\<close>

record context_editing =
  ce_threshold :: int
  ce_keep :: int
  ce_placeholder :: string

definition NewContextEditing :: "(context_editing \<Rightarrow> context_editing) list \<Rightarrow> context_editing" where
  "NewContextEditing opts = foldl (\<lambda>c opt. opt c)
     \<lparr>ce_threshold = 100000, ce_keep = 3, ce_placeholder = ''[tool result cleared to save context]''\<rparr> opts"

definition WithClearThreshold :: "int \<Rightarrow> context_editing \<Rightarrow> context_editing" where
  "WithClearThreshold tokens c = c\<lparr>ce_threshold := tokens\<rparr>"

definition WithKeepToolResults :: "int \<Rightarrow> context_editing \<Rightarrow> context_editing" where
  "WithKeepToolResults n c = c\<lparr>ce_keep := n\<rparr>"

definition WithClearedPlaceholder :: "string \<Rightarrow> context_editing \<Rightarrow> context_editing" where
  "WithClearedPlaceholder s c = c\<lparr>ce_placeholder := s\<rparr>"

text \<open>The loop from the last message to the first; \<open>seen\<close> counts tool results.\<close>

fun clear_old :: "context_editing \<Rightarrow> int \<Rightarrow> message list \<Rightarrow> message list" where
  "clear_old c seen [] = []"
| "clear_old c seen (m # ms) =
     (if msg_role m \<noteq> ''tool'' then m # clear_old c seen ms
      else (if seen + 1 > ce_keep c \<and> msg_content m \<noteq> ce_placeholder c
            then m\<lparr>msg_content := ce_placeholder c, msg_parts := []\<rparr> else m)
           # clear_old c (seen + 1) ms)"

definition ce_BeforeModel :: "context_editing \<Rightarrow> 'w hook_fn" where
  "ce_BeforeModel c s w =
     (let msgs = req_messages (st_request s)
      in if estimateMessages msgs \<le> ce_threshold c then ((None, s), w)
         else ((None, s\<lparr>st_request := (st_request s)\<lparr>req_messages := rev (clear_old c 0 (rev msgs))\<rparr>\<rparr>), w))"

definition context_editing_mw :: "context_editing \<Rightarrow> 'w middleware" where
  "context_editing_mw c = BaseMiddleware\<lparr>mw_before := ce_BeforeModel c\<rparr>"

section \<open>Tool selection\<close>

record 'w tool_selector =
  tsel_provider :: "'w provider"
  tsel_model :: string
  tsel_max :: int
  tsel_always :: "string list"

definition NewToolSelector :: "'w provider \<Rightarrow> string \<Rightarrow> ('w tool_selector \<Rightarrow> 'w tool_selector) list \<Rightarrow> 'w tool_selector" where
  "NewToolSelector provider model opts = foldl (\<lambda>t opt. opt t)
     \<lparr>tsel_provider = provider, tsel_model = model, tsel_max = 5, tsel_always = []\<rparr> opts"

definition WithMaxTools :: "int \<Rightarrow> 'w tool_selector \<Rightarrow> 'w tool_selector" where
  "WithMaxTools n t = t\<lparr>tsel_max := n\<rparr>"

definition WithAlwaysInclude :: "string list \<Rightarrow> 'w tool_selector \<Rightarrow> 'w tool_selector" where
  "WithAlwaysInclude names t = t\<lparr>tsel_always := tsel_always t @ names\<rparr>"

definition selector_prompt :: "int \<Rightarrow> string \<Rightarrow> string" where
  "selector_prompt n listing =
     ''You choose which tools an assistant will need to answer a user'' @ [CHR 0x27] @ ''s request.'' @ [CHR 0x0A] @
     ''Pick at most '' @ int_dec n @ '' tools from the list below that are relevant. Pick none if no tool helps.'' @
     [CHR 0x0A, CHR 0x0A] @ listing"

definition tool_listing :: "tool_definition list \<Rightarrow> string" where
  "tool_listing tools = concat (map (\<lambda>d. ''- '' @ td_name d @ '': '' @ td_description d @ [CHR 0x0A]) tools)"

definition selector_schema :: "string list \<Rightarrow> int \<Rightarrow> json" where
  "selector_schema names n = JObj
     [(''type'', JStr ''object''),
      (''properties'', JObj [(''tools'', JObj
         [(''type'', JStr ''array''),
          (''items'', JObj [(''type'', JStr ''string''), (''enum'', JArr (map JStr names))]),
          (''maxItems'', JNum (of_int n))])]),
      (''required'', JArr [JStr ''tools''])]"

definition countSelected :: "tool_definition list \<Rightarrow> string list \<Rightarrow> int" where
  "countSelected kept always = int (length (filter (\<lambda>d. td_name d \<notin> set always) kept))"

fun keep_tools :: "string list \<Rightarrow> int \<Rightarrow> string list \<Rightarrow> tool_definition list \<Rightarrow> tool_definition list \<Rightarrow> tool_definition list" where
  "keep_tools always n picked kept [] = kept"
| "keep_tools always n picked kept (d # ds) =
     (if td_name d \<in> set always \<or> (td_name d \<in> set picked \<and> countSelected kept always < n)
      then keep_tools always n picked (kept @ [d]) ds
      else keep_tools always n picked kept ds)"

definition tsel_BeforeModel :: "(string \<Rightarrow> go_error + string list) \<Rightarrow> 'w tool_selector \<Rightarrow> 'w hook_fn" where
  "tsel_BeforeModel decode t s w =
     (let tools = req_tools (st_request s)
      in if st_iteration s \<noteq> 1 \<or> int (length tools) \<le> tsel_max t then ((None, s), w)
         else case Complete (tsel_provider t) (zero_request
             \<lparr>req_model := tsel_model t,
              req_system := selector_prompt (tsel_max t) (tool_listing tools),
              req_messages := [text_msg ''user'' (lastUserText (req_messages (st_request s)))],
              req_output_schema := RawJson (selector_schema (map td_name tools) (tsel_max t))\<rparr>) (aw_env w) of
           (Inl err, u) \<Rightarrow> ((Some (Errorf ''tool selector: %w'' [FWrap err]), s), w\<lparr>aw_env := u\<rparr>)
         | (Inr resp, u) \<Rightarrow>
             (case decode (resp_content resp) of
                Inl err \<Rightarrow> ((Some (Errorf ''tool selector: parse selection: %w'' [FWrap err]), s), w\<lparr>aw_env := u\<rparr>)
              | Inr picked \<Rightarrow>
                  ((None, s\<lparr>st_request := (st_request s)
                     \<lparr>req_tools := keep_tools (tsel_always t) (tsel_max t) picked [] tools\<rparr>\<rparr>), w\<lparr>aw_env := u\<rparr>)))"

definition tool_selector_mw :: "(string \<Rightarrow> go_error + string list) \<Rightarrow> 'w tool_selector \<Rightarrow> 'w middleware" where
  "tool_selector_mw decode t = BaseMiddleware\<lparr>mw_before := tsel_BeforeModel decode t\<rparr>"

section \<open>Summarization\<close>

record 'w summarization =
  sm_provider :: "'w provider"
  sm_model :: string
  sm_threshold :: int
  sm_keep :: int
  sm_prompt :: string

definition summaryPrefix :: string where
  "summaryPrefix = ''Summary of the earlier conversation: ''"

definition defaultSummaryPrompt :: string where
  "defaultSummaryPrompt = ''Summarize the following conversation concisely, '' @
     ''preserving key facts, decisions, names, and any context needed to continue. '' @
     ''Write the summary as plain prose.''"

definition NewSummarization :: "'w provider \<Rightarrow> string \<Rightarrow> ('w summarization \<Rightarrow> 'w summarization) list \<Rightarrow> 'w summarization" where
  "NewSummarization provider model opts = foldl (\<lambda>m opt. opt m)
     \<lparr>sm_provider = provider, sm_model = model, sm_threshold = 3000, sm_keep = 4,
      sm_prompt = defaultSummaryPrompt\<rparr> opts"

definition WithSummaryThreshold :: "int \<Rightarrow> 'w summarization \<Rightarrow> 'w summarization" where
  "WithSummaryThreshold tokens m = m\<lparr>sm_threshold := tokens\<rparr>"

definition WithKeepRecent :: "int \<Rightarrow> 'w summarization \<Rightarrow> 'w summarization" where
  "WithKeepRecent n m = m\<lparr>sm_keep := n\<rparr>"

definition WithSummaryPrompt :: "string \<Rightarrow> 'w summarization \<Rightarrow> 'w summarization" where
  "WithSummaryPrompt prompt m = m\<lparr>sm_prompt := prompt\<rparr>"

definition summary_text :: "message list \<Rightarrow> string" where
  "summary_text msgs = concat (map (\<lambda>m. msg_role m @ '': '' @ messageText m @ [CHR 0x0A]) msgs)"

definition summarize :: "'w summarization \<Rightarrow> message list \<Rightarrow> 'w \<Rightarrow> (go_error + string) \<times> 'w" where
  "summarize m msgs w =
     (case Complete (sm_provider m) (zero_request
        \<lparr>req_model := sm_model m, req_system := sm_prompt m,
         req_messages := [text_msg ''user'' (summary_text msgs)]\<rparr>) w of
        (Inl err, w1) \<Rightarrow> (Inl err, w1)
      | (Inr resp, w1) \<Rightarrow> (Inr (resp_content resp), w1))"

text \<open>The loop that moves the cut past tool results.\<close>

fun skip_results :: "message list \<Rightarrow> nat" where
  "skip_results [] = 0"
| "skip_results (m # ms) = (if msg_role m = ''tool'' then Suc (skip_results ms) else 0)"

text \<open>With a negative \<open>keepRecent\<close> the slice expression \<open>msgs[:cut]\<close> panics.\<close>

definition sm_BeforeModel :: "'w summarization \<Rightarrow> 'w hook_fn" where
  "sm_BeforeModel m s w =
     (let msgs = req_messages (st_request s);
          cut0 = int (length msgs) - sm_keep m
      in if estimateMessages msgs \<le> sm_threshold m \<or> cut0 \<le> 0 then ((None, s), w)
         else if cut0 > int (length msgs) then ((Some (Opaque ''panic: slice bounds out of range''), s), w)
         else let cut = nat cut0 + skip_results (drop (nat cut0) msgs)
              in case summarize m (take cut msgs) (aw_env w) of
                   (Inl err, u) \<Rightarrow> ((Some (Errorf ''summarize: %w'' [FWrap err]), s), w\<lparr>aw_env := u\<rparr>)
                 | (Inr summary, u) \<Rightarrow>
                     ((None, s\<lparr>st_request := (st_request s)
                        \<lparr>req_messages := text_msg ''user'' (summaryPrefix @ summary) # drop cut msgs\<rparr>\<rparr>),
                      w\<lparr>aw_env := u\<rparr>))"

definition summarization_mw :: "'w summarization \<Rightarrow> 'w middleware" where
  "summarization_mw m = BaseMiddleware\<lparr>mw_before := sm_BeforeModel m\<rparr>"

section \<open>Redaction\<close>

record pii_redaction =
  pii_patterns :: "(string \<Rightarrow> string) list"
  pii_input :: bool
  pii_output :: bool

definition NewPIIRedaction :: "(string \<Rightarrow> string) list \<Rightarrow> (pii_redaction \<Rightarrow> pii_redaction) list \<Rightarrow> pii_redaction" where
  "NewPIIRedaction builtin opts = foldl (\<lambda>m opt. opt m)
     \<lparr>pii_patterns = builtin, pii_input = True, pii_output = False\<rparr> opts"

definition WithRedactInput :: "bool \<Rightarrow> pii_redaction \<Rightarrow> pii_redaction" where
  "WithRedactInput on m = m\<lparr>pii_input := on\<rparr>"

definition WithRedactOutput :: "bool \<Rightarrow> pii_redaction \<Rightarrow> pii_redaction" where
  "WithRedactOutput on m = m\<lparr>pii_output := on\<rparr>"

definition WithCustomPattern :: "(string \<Rightarrow> string) \<Rightarrow> pii_redaction \<Rightarrow> pii_redaction" where
  "WithCustomPattern p m = m\<lparr>pii_patterns := pii_patterns m @ [p]\<rparr>"

definition redact :: "pii_redaction \<Rightarrow> string \<Rightarrow> string" where
  "redact m s = foldl (\<lambda>s p. p s) s (pii_patterns m)"

definition redactMessage :: "pii_redaction \<Rightarrow> message \<Rightarrow> message" where
  "redactMessage m msg = msg
     \<lparr>msg_content := redact m (msg_content msg),
      msg_parts := map (\<lambda>p. if cp_type p = ''text'' then p\<lparr>cp_text := redact m (cp_text p)\<rparr> else p) (msg_parts msg)\<rparr>"

definition pii_BeforeModel :: "pii_redaction \<Rightarrow> 'w hook_fn" where
  "pii_BeforeModel m s w =
     (if \<not> pii_input m then ((None, s), w)
      else ((None, s\<lparr>st_request := (st_request s)
        \<lparr>req_messages := map (redactMessage m) (req_messages (st_request s))\<rparr>\<rparr>), w))"

definition pii_AfterModel :: "pii_redaction \<Rightarrow> 'w hook_fn" where
  "pii_AfterModel m s w =
     (case st_response s of
        None \<Rightarrow> ((None, s), w)
      | Some r \<Rightarrow>
          if \<not> pii_output m then ((None, s), w)
          else ((None, s\<lparr>st_response := Some (r\<lparr>resp_content := redact m (resp_content r)\<rparr>)\<rparr>), w))"

definition pii_mw :: "pii_redaction \<Rightarrow> 'w middleware" where
  "pii_mw m = BaseMiddleware\<lparr>mw_before := pii_BeforeModel m, mw_after := pii_AfterModel m\<rparr>"

end
