(* ===== verification/Middleware_Properties.thy ===== *)
theory Middleware_Properties
  imports Agent_Middleware
begin

text \<open>
  What the middleware promises: the provider's transcript discipline survives summarization
  and context editing, limits are kept, the selector narrows as it says.
\<close>

section \<open>Transcripts\<close>

text \<open>
  The order of messages the providers accept: every assistant message with tool calls is
  followed at once by one result per call, in order, and no tool result stands elsewhere.
\<close>

function transcript :: "message list \<Rightarrow> bool" where
  "transcript [] = True"
| "transcript (m # ms) =
     (let n = length (msg_tool_calls m) in
        msg_role m \<noteq> ''tool'' \<and> n \<le> length ms \<and>
        (\<forall>r\<in>set (take n ms). msg_role r = ''tool'') \<and>
        map msg_tool_call_id (take n ms) = map tc_id (msg_tool_calls m) \<and>
        transcript (drop n ms))"
  by pat_completeness auto
termination by (relation "measure length") auto

declare transcript.simps(2) [simp del]

lemma transcript_plain: "msg_role m \<noteq> ''tool'' \<Longrightarrow> msg_tool_calls m = [] \<Longrightarrow> transcript (m # ms) = transcript ms"
  by (simp add: transcript.simps(2))

text \<open>A transcript may be cut in front of any message that is not a tool result.\<close>

lemma transcript_drop:
  "transcript msgs \<Longrightarrow> n \<ge> length msgs \<or> msg_role (msgs ! n) \<noteq> ''tool'' \<Longrightarrow> transcript (drop n msgs)"
proof (induction msgs arbitrary: n rule: transcript.induct)
  case 1
  then show ?case by simp
next
  case (2 m ms)
  let ?k = "length (msg_tool_calls m)"
  have t: "?k \<le> length ms" "\<forall>r\<in>set (take ?k ms). msg_role r = ''tool''" "transcript (drop ?k ms)"
    using "2.prems"(1) by (simp_all add: transcript.simps(2) Let_def)
  show ?case
  proof (cases n)
    case 0
    then show ?thesis using "2.prems"(1) by simp
  next
    case (Suc j)
    have "\<not> j < ?k \<or> n \<ge> length (m # ms)"
    proof (rule ccontr)
      assume "\<not> (\<not> j < ?k \<or> n \<ge> length (m # ms))"
      then have "j < ?k" "\<not> n \<ge> length (m # ms)" by auto
      then have "ms ! j \<in> set (take ?k ms)" using Suc t(1) by (auto simp: in_set_conv_nth intro!: exI [of _ j])
      then show False using t(2) "2.prems"(2) Suc \<open>\<not> n \<ge> length (m # ms)\<close> by simp
    qed
    then show ?thesis
    proof
      assume "\<not> j < ?k"
      then have "drop n (m # ms) = drop (j - ?k) (drop ?k ms)" using Suc by simp
      moreover have "transcript (drop (j - ?k) (drop ?k ms))"
        by (rule "2.IH" [OF refl t(3)]) (use "2.prems"(2) Suc \<open>\<not> j < ?k\<close> in \<open>auto simp: nth_drop\<close>)
      ultimately show ?thesis by simp
    qed simp
  qed
qed

text \<open>A per-message change that keeps roles, call ids and calls keeps transcripts.\<close>

lemma transcript_map:
  assumes "\<And>m. msg_role (f m) = msg_role m" "\<And>m. msg_tool_call_id (f m) = msg_tool_call_id m"
    "\<And>m. msg_tool_calls (f m) = msg_tool_calls m"
  shows "transcript (map f msgs) = transcript msgs"
proof (induction msgs rule: transcript.induct)
  case (2 m ms)
  have "map (\<lambda>x. msg_tool_call_id (f x)) xs = map msg_tool_call_id xs" for xs
    using assms(2) by simp
  then show ?case using 2 assms
    by (simp add: transcript.simps(2) Let_def take_map drop_map o_def)
qed simp

section \<open>Summarization\<close>

lemma skip_results_at:
  "skip_results ms \<ge> length ms \<or> msg_role (ms ! skip_results ms) \<noteq> ''tool''" "skip_results ms \<le> length ms"
  by (induction ms) auto

text \<open>
  Summarization never breaks a transcript: when it replaces the older messages, what is
  left is one summary message and a suffix of the history, at most \<open>keepRecent\<close> messages
  long, and every kept tool result still follows the call it answers. Under the threshold,
  or with too little history, nothing changes and no model is called.
\<close>

theorem summarization_keeps_transcript:
  assumes "transcript (req_messages (st_request s))"
    and "sm_BeforeModel m s w = ((None, s'), w')"
  shows "transcript (req_messages (st_request s')) \<and>
    (s' = s \<and> w' = w \<or>
     (\<exists>summary n. req_messages (st_request s') =
        text_msg ''user'' (''Summary of the earlier conversation: '' @ summary) # drop n (req_messages (st_request s)) \<and>
        int (length (req_messages (st_request s'))) \<le> sm_keep m + 1 \<and>
        estimateMessages (req_messages (st_request s)) > sm_threshold m))"
proof -
  let ?msgs = "req_messages (st_request s)"
  let ?c = "int (length ?msgs) - sm_keep m"
  show ?thesis
  proof (cases "estimateMessages ?msgs \<le> sm_threshold m \<or> ?c \<le> 0")
    case True
    then show ?thesis using assms by (simp add: sm_BeforeModel_def Let_def)
  next
    case False
    let ?cut = "nat ?c + skip_results (drop (nat ?c) ?msgs)"
    have c: "\<not> ?c > int (length ?msgs)" using assms(2) False
      by (auto simp: sm_BeforeModel_def Let_def)
    then obtain summary where s': "req_messages (st_request s') =
        text_msg ''user'' (summaryPrefix @ summary) # drop ?cut ?msgs"
      using assms(2) False
      by (auto simp: sm_BeforeModel_def Let_def split: prod.splits sum.splits)
    have at: "?cut \<ge> length ?msgs \<or> msg_role (?msgs ! ?cut) \<noteq> ''tool''"
      using skip_results_at(1) [of "drop (nat ?c) ?msgs"] by (auto simp: add.commute)
    have "transcript (drop ?cut ?msgs)" by (rule transcript_drop [OF assms(1) at])
    then have "transcript (req_messages (st_request s'))"
      unfolding s' by (subst transcript_plain) (simp_all add: text_msg_def zero_msg_def)
    moreover have "int (length (req_messages (st_request s'))) \<le> sm_keep m + 1"
      unfolding s' using False c by (simp add: nat_le_iff)
    ultimately show ?thesis using s' False unfolding summaryPrefix_def by auto
  qed
qed

definition sample_turns :: "message list" where
  "sample_turns = [text_msg ''user'' ''question'', assistant_turn (zero_response\<lparr>resp_tool_calls := [echo_call]\<rparr>),
     tool_msg ''hi'' ''c1'', text_msg ''user'' ''more'']"

lemma sample_turns_transcript: "transcript sample_turns"
  by (simp add: sample_turns_def transcript.simps(2) assistant_turn_def tool_msg_def message_defs echo_call_def)

definition summarizer :: "unit summarization" where
  "summarizer = NewSummarization \<lparr>Complete = (\<lambda>req w. (Inr (zero_response\<lparr>resp_content := ''short''\<rparr>), w)),
     Stream = (\<lambda>req w. (Inr [], w))\<rparr> ''m'' [WithSummaryThreshold 5, WithKeepRecent 2]"

definition sample_state :: "message list \<Rightarrow> agent_state" where
  "sample_state msgs = \<lparr>st_request = zero_request\<lparr>req_messages := msgs\<rparr>, st_response = None,
     st_iteration = 1, st_stop = False\<rparr>"

text \<open>The cut would fall on a tool result; that result goes into the summary.\<close>

theorem summarization_keeps_transcript_witness:
  "transcript (req_messages (st_request (sample_state [text_msg ''user'' (summaryPrefix @ ''short''), text_msg ''user'' ''more''])))"
proof -
  have e: "estimateMessages sample_turns > 5"
    by (simp add: sample_turns_def messageText_def assistant_turn_def tool_msg_def message_defs)
  have l: "length sample_turns = 4" by (simp add: sample_turns_def)
  have sk: "skip_results (drop 2 sample_turns) = 1" "drop 3 sample_turns = [text_msg ''user'' ''more'']"
    by (simp_all add: sample_turns_def tool_msg_def message_defs numeral_2_eq_2 numeral_3_eq_3)
  have sm: "sm_threshold summarizer = 5" "sm_keep summarizer = 2"
    by (simp_all add: summarizer_def NewSummarization_def WithSummaryThreshold_def WithKeepRecent_def)
  have sum: "summarize summarizer msgs w = (Inr ''short'', w)" for msgs w
    by (simp add: summarize_def summarizer_def NewSummarization_def WithSummaryThreshold_def WithKeepRecent_def)
  have run: "sm_BeforeModel summarizer (sample_state sample_turns) (agent_world ()) =
    ((None, sample_state [text_msg ''user'' (summaryPrefix @ ''short''), text_msg ''user'' ''more'']), agent_world ())"
    using e l sk by (simp add: sm_BeforeModel_def Let_def sm sum sample_state_def agent_world_def)
  show ?thesis
    by (rule conjunct1 [OF summarization_keeps_transcript [OF _ run]])
      (simp add: sample_state_def sample_turns_transcript)
qed

section \<open>Context editing\<close>

definition is_result :: "message \<Rightarrow> bool" where
  "is_result m \<longleftrightarrow> msg_role m = ''tool''"

lemma clear_old_keeps:
  "transcript_shape_of (clear_old c seen ms) = transcript_shape_of ms"
  if "transcript_shape_of = map (\<lambda>m. m\<lparr>msg_content := [], msg_parts := []\<rparr>)"
  unfolding that by (induction c seen ms rule: clear_old.induct) simp_all

lemma clear_old_others: "filter (\<lambda>m. \<not> is_result m) (clear_old c seen ms) = filter (\<lambda>m. \<not> is_result m) ms"
  by (induction c seen ms rule: clear_old.induct) (simp_all add: is_result_def)

lemma clear_old_results:
  "filter is_result (clear_old c seen ms) =
     take (nat (ce_keep c - seen)) (filter is_result ms) @
     map (\<lambda>m. if msg_content m = ce_placeholder c then m else m\<lparr>msg_content := ce_placeholder c, msg_parts := []\<rparr>)
       (drop (nat (ce_keep c - seen)) (filter is_result ms))"
proof (induction c seen ms rule: clear_old.induct)
  case (2 c seen m ms)
  show ?case
  proof (cases "msg_role m = ''tool''")
    case True
    show ?thesis
    proof (cases "seen + 1 > ce_keep c")
      case k: True
      then have "nat (ce_keep c - seen) = 0" "nat (ce_keep c - (seen + 1)) = 0" by auto
      then show ?thesis using 2 True k by (simp add: is_result_def)
    next
      case False
      then have "nat (ce_keep c - seen) = Suc (nat (ce_keep c - (seen + 1)))" by linarith
      then show ?thesis using 2 True False by (simp add: is_result_def)
    qed
  next
    case False
    then show ?thesis using 2 by (simp add: is_result_def)
  qed
qed simp

text \<open>
  Context editing touches nothing but old tool results: roles, call ids and calls are
  those of the history (so transcripts stay transcripts), every other message is unchanged,
  the last \<open>keep\<close> results are unchanged, and over the threshold each older one reads as the
  placeholder; under it nothing changes.
\<close>

theorem context_editing_spec:
  "case ce_BeforeModel c s w of ((err, s'), w') \<Rightarrow>
    let msgs = req_messages (st_request s); msgs' = req_messages (st_request s');
        results = filter is_result msgs; k = length results - nat (ce_keep c)
    in err = None \<and> w' = w \<and> transcript msgs' = transcript msgs \<and>
       map (\<lambda>m. (msg_role m, msg_tool_call_id m, msg_tool_calls m)) msgs' =
         map (\<lambda>m. (msg_role m, msg_tool_call_id m, msg_tool_calls m)) msgs \<and>
       filter (\<lambda>m. \<not> is_result m) msgs' = filter (\<lambda>m. \<not> is_result m) msgs \<and>
       drop k (filter is_result msgs') = drop k results \<and>
       (if estimateMessages msgs \<le> ce_threshold c then s' = s
        else list_all (\<lambda>m. msg_content m = ce_placeholder c) (take k (filter is_result msgs')))"
proof -
  let ?msgs = "req_messages (st_request s)"
  let ?new = "rev (clear_old c 0 (rev ?msgs))"
  let ?r = "filter is_result ?msgs"
  let ?clear = "\<lambda>m. if msg_content m = ce_placeholder c then m else m\<lparr>msg_content := ce_placeholder c, msg_parts := []\<rparr>"
  let ?key = "\<lambda>m. (msg_role m, msg_tool_call_id m, msg_tool_calls m)"
  have shape: "map (\<lambda>m. m\<lparr>msg_content := [], msg_parts := []\<rparr>) ?new = map (\<lambda>m. m\<lparr>msg_content := [], msg_parts := []\<rparr>) ?msgs"
    using clear_old_keeps [OF refl, of c 0 "rev ?msgs"] by (simp add: rev_map [symmetric])
  then have keys: "map ?key ?new = map ?key ?msgs"
  proof -
    have e: "map ?key (map (\<lambda>m. m\<lparr>msg_content := [], msg_parts := []\<rparr>) ms) = map ?key ms" for ms by simp
    have "map ?key (map (\<lambda>m. m\<lparr>msg_content := [], msg_parts := []\<rparr>) ?new)
        = map ?key (map (\<lambda>m. m\<lparr>msg_content := [], msg_parts := []\<rparr>) ?msgs)"
      by (rule arg_cong [OF shape])
    then show ?thesis unfolding e .
  qed
  have tr: "transcript ?new = transcript ?msgs"
  proof -
    have "transcript (map (\<lambda>m. m\<lparr>msg_content := [], msg_parts := []\<rparr>) ms) = transcript ms" for ms
      by (rule transcript_map) simp_all
    from this [of ?new] this [of ?msgs] show ?thesis unfolding shape by simp
  qed
  have others: "filter (\<lambda>m. \<not> is_result m) ?new = filter (\<lambda>m. \<not> is_result m) ?msgs"
    using clear_old_others [of c 0 "rev ?msgs"] by (simp add: rev_filter [symmetric])
  have res: "filter is_result ?new = map ?clear (take (length ?r - nat (ce_keep c)) ?r)
      @ drop (length ?r - nat (ce_keep c)) ?r"
    using clear_old_results [of c 0 "rev ?msgs"]
    by (simp add: rev_filter [symmetric] take_rev drop_rev rev_map)
  have clear: "list_all (\<lambda>m. msg_content m = ce_placeholder c) (take k (map ?clear xs @ ys))" if "k = length xs" for k xs ys
    using that by (auto simp: list_all_iff)
  show ?thesis
  proof (cases "estimateMessages ?msgs \<le> ce_threshold c")
    case True
    then show ?thesis by (simp add: ce_BeforeModel_def Let_def)
  next
    case False
    then have run: "ce_BeforeModel c s w =
        ((None, s\<lparr>st_request := (st_request s)\<lparr>req_messages := ?new\<rparr>\<rparr>), w)"
      by (simp add: ce_BeforeModel_def Let_def)
    have k: "length ?r - nat (ce_keep c) = length (take (length ?r - nat (ce_keep c)) ?r)" by simp
    have "drop (length ?r - nat (ce_keep c)) (filter is_result ?new) = drop (length ?r - nat (ce_keep c)) ?r"
      unfolding res by simp
    moreover have "list_all (\<lambda>m. msg_content m = ce_placeholder c) (take (length ?r - nat (ce_keep c)) (filter is_result ?new))"
      unfolding res by (rule clear) simp
    ultimately show ?thesis unfolding run Let_def using False tr keys others by simp
  qed
qed

section \<open>Limits\<close>

text \<open>An executor that counts the tools it ran, and a provider that leaves the count alone.\<close>

definition counted :: "'w executor \<Rightarrow> (nat \<times> 'w) executor" where
  "counted exec name args w = (case exec name args (snd w) of (r, u) \<Rightarrow> (r, (Suc (fst w), u)))"

definition beside :: "'w provider \<Rightarrow> (nat \<times> 'w) provider" where
  "beside p = \<lparr>Complete = (\<lambda>req w. case Complete p req (snd w) of (r, u) \<Rightarrow> (r, (fst w, u))),
     Stream = (\<lambda>req w. case Stream p req (snd w) of (r, u) \<Rightarrow> (r, (fst w, u)))\<rparr>"

lemma model_call_plain:
  assumes "a_middlewares a = [BaseMiddleware\<lparr>mw_wrap_tool := wt\<rparr>]"
  shows "model_call a em it = (if em then streamCall a it else baseCall a)"
  using assms by (simp add: model_call_def BaseMiddleware_def)

lemma forward_keeps:
  "(\<And>w evs. I w \<Longrightarrow> I (w\<lparr>aw_events := evs\<rparr>)) \<Longrightarrow> (\<And>w b. I w \<Longrightarrow> I (w\<lparr>aw_streamed := b\<rparr>)) \<Longrightarrow>
   I w \<Longrightarrow> I (foldl (forward_event it) w evs)"
  by (induction evs arbitrary: w) (simp_all add: forward_event_def emit_def)

text \<open>
  \<open>ToolCallLimit\<close>: in a run of an agent with the middleware (streaming or not, whatever
  the model asks for, however often), at most \<open>limit\<close> tool executions reach the executor.
\<close>

theorem tool_limit_bounds_executions:
  assumes "a_provider a = beside p" "a_executor a = Some (counted exec)"
    and "a_middlewares a = [tool_limit_mw (NewToolCallLimit limit [])]"
  shows "int (fst (aw_env (snd (agent_run a em msgs (0, u))))) \<le> max 0 limit"
proof -
  define I :: "(nat \<times> 'a) aworld \<Rightarrow> bool" where
    "I w \<longleftrightarrow> fst (aw_env w) \<le> aw_total w \<and> int (fst (aw_env w)) \<le> max 0 limit" for w
  have mw: "a_middlewares a = [BaseMiddleware\<lparr>mw_wrap_tool := Some (tl_WrapToolCall (NewToolCallLimit limit []))\<rparr>]"
    using assms(3) by (simp add: tool_limit_mw_def)
  have ev: "I w \<Longrightarrow> I (w\<lparr>aw_events := evs\<rparr>)" "I w \<Longrightarrow> I (w\<lparr>aw_streamed := b\<rparr>)" for w evs b
    by (simp_all add: I_def)
  have keep: "I (snd (agent_rounds a em left i req usage w))" if "I w" for left i req usage w
  proof (rule agent_rounds_inv [where I = I])
    show "I (snd (mw_before m s w)) \<and> I (snd (mw_after m s w))" if "m \<in> set (a_middlewares a)" "I w" for m s w
      using that mw by (simp add: BaseMiddleware_def)
    show "I (snd (model_call a em it req w))" if "I w" for it req w
    proof -
      obtain r v where c: "Complete p req (snd (aw_env w)) = (r, v)" by (metis prod.collapse)
      obtain r' v' where s: "Stream p req (snd (aw_env w)) = (r', v')" by (metis prod.collapse)
      have "I (w\<lparr>aw_env := (fst (aw_env w), x)\<rparr>)" for x using that by (simp add: I_def)
      then show ?thesis using c s forward_keeps [of I, OF ev]
        by (cases r') (auto simp: model_call_plain [OF mw] baseCall_def streamCall_def assms(1) beside_def)
    qed
    show "I (snd (toolChain a ex tc (count_call (tc_name tc) w)))" if "a_executor a = Some ex" "I w" for ex tc w
    proof -
      obtain r v where c: "exec (tc_name tc) (tc_arguments tc) (snd (aw_env w)) = (r, v)" by (metis prod.collapse)
      show ?thesis using that assms(2) c
        by (auto simp: toolChain_def mw BaseMiddleware_def tl_WrapToolCall_def NewToolCallLimit_def Let_def
            toolCallCount_def count_call_def exec_tool_def counted_def I_def)
    qed
  qed (use ev that in auto)
  have "I (agent_world (0, u))" by (simp add: I_def agent_world_def)
  then have "I (snd (agent_run a em msgs (0, u)))"
    using keep by (simp add: agent_run_def)
  then show ?thesis by (simp add: I_def)
qed

definition greedy :: "nat provider" where
  "greedy = \<lparr>Complete = (\<lambda>req w. (Inr (zero_response\<lparr>resp_tool_calls := [echo_call]\<rparr>), Suc w)),
     Stream = (\<lambda>req w. (Inr [tool_call_event echo_call], Suc w))\<rparr>"

definition limited_agent :: "'w provider \<Rightarrow> 'w executor \<Rightarrow> 'w middleware list \<Rightarrow> 'w agent" where
  "limited_agent p exec mws = New_agent p [WithModel ''m'', WithTools [] exec, WithMiddleware mws, WithMaxIterations_agent 4]"

lemma limited_agent_simps [simp]:
  "a_provider (limited_agent p exec mws) = p" "a_executor (limited_agent p exec mws) = Some exec"
  "a_middlewares (limited_agent p exec mws) = mws" "a_model (limited_agent p exec mws) = ''m''"
  "a_max (limited_agent p exec mws) = 4"
  by (simp_all add: limited_agent_def New_agent_def WithModel_def WithTools_def WithMiddleware_def
      WithMaxIterations_agent_def)

theorem tool_limit_bounds_executions_witness:
  "int (fst (aw_env (snd (agent_run (limited_agent (beside greedy) (counted (map_Execute echo_tools))
     [tool_limit_mw (NewToolCallLimit 2 [])]) False [] (0, 0))))) \<le> 2"
  using tool_limit_bounds_executions [of "limited_agent (beside greedy) (counted (map_Execute echo_tools))
     [tool_limit_mw (NewToolCallLimit 2 [])]" greedy "map_Execute echo_tools" 2 False "[]" 0]
  by simp

text \<open>A tool that fails every time, for the retry middleware.\<close>

definition failing_exec :: "'w executor" where
  "failing_exec name args w = (([], Some (Opaque ''down'')), w)"

definition patient :: "'w ctx_ops" where
  "patient = \<lparr>ctx_err = (\<lambda>_. None), ctx_wait = (\<lambda>_ w. (True, w))\<rparr>"

text \<open>
  Behind \<open>ToolRetry\<close>, \<open>ToolCallLimit\<close> does not limit executions: the count is of the
  calls the model made, so with a limit of one call and two retries the failing tool is
  executed three times, although the limit's contract says at most once.
\<close>

theorem tool_retry_exceeds_limit:
  "fst (aw_env (snd (tr_WrapToolCall (NewToolRetry 2 []) patient
     (tl_WrapToolCall (NewToolCallLimit 1 []) (exec_tool (counted failing_exec))) echo_call
     (count_call ''echo'' (agent_world (0, ())))))) = 3"
  by (simp add: tr_WrapToolCall_def NewToolRetry_def tl_WrapToolCall_def NewToolCallLimit_def Let_def
      toolCallCount_def count_call_def agent_world_def exec_tool_def counted_def failing_exec_def
      patient_def numeral_2_eq_2)

lemma model_limit_rounds:
  assumes mw: "a_middlewares a = [model_limit_mw (NewModelCallLimit l)]"
  shows "i < l \<Longrightarrow> l \<le> i + int left \<Longrightarrow>
    (case fst (agent_rounds a em left i req usage w) of
       Inr r \<Rightarrow> ag_iterations r \<le> l
     | Inl e \<Rightarrow> e \<noteq> Errorf ''agent: exceeded maximum iterations (%d)'' [FInt (a_max a)])"
proof (induction left arbitrary: i req usage w)
  case 0
  then show ?case by simp
next
  case (Suc left)
  have before: "run_hooks (map mw_before (a_middlewares a)) st v = ((None, st), v)" for st v
    by (simp add: mw model_limit_mw_def BaseMiddleware_def)
  have after: "run_hooks (map mw_after (rev (a_middlewares a))) st v =
      ((None, if st_iteration st < l \<or> (case st_response st of None \<Rightarrow> True | Some r \<Rightarrow> resp_tool_calls r = [])
         then st else st\<lparr>st_stop := True\<rparr>), v)" for st v
    by (simp add: mw model_limit_mw_def BaseMiddleware_def ml_AfterModel_def NewModelCallLimit_def Stop_run_def)
  obtain cr w2 where c: "model_call a em (i + 1) req (w\<lparr>aw_streamed := False\<rparr>) = (cr, w2)"
    by (metis prod.collapse)
  show ?case
  proof (cases cr)
    case (Inl err)
    then show ?thesis unfolding agent_rounds.simps(2) before by (simp add: c)
  next
    case (Inr resp)
    show ?thesis
    proof (cases "i + 1 < l \<and> resp_tool_calls resp \<noteq> []")
      case False
      then show ?thesis unfolding agent_rounds.simps(2) before using c Inr after Suc.prems
        by (auto simp: Let_def Stopped_def)
    next
      case True
      have IH: "case fst (agent_rounds a em left (i + 1) rq us v) of
          Inr r \<Rightarrow> ag_iterations r \<le> l
        | Inl e \<Rightarrow> e \<noteq> Errorf ''agent: exceeded maximum iterations (%d)'' [FInt (a_max a)]" for rq us v
        by (rule Suc.IH) (use True Suc.prems in auto)
      have calls: "agent_calls em it rt tcs v = (Inl e, v') \<Longrightarrow>
          e \<noteq> Errorf ''agent: exceeded maximum iterations (%d)'' [FInt (a_max a)]" for it rt tcs v v' e
        by (induction tcs arbitrary: v)
          (auto simp: Let_def split: prod.splits option.splits if_splits sum.splits)
      have rest: "case fst (case agent_calls em it rt tcs v of
            (Inl e, w5) \<Rightarrow> (Inl e, w5)
          | (Inr msgs, w5) \<Rightarrow> agent_rounds a em left (i + 1) (rq msgs) us w5) of
          Inr r \<Rightarrow> ag_iterations r \<le> l
        | Inl e \<Rightarrow> e \<noteq> Errorf ''agent: exceeded maximum iterations (%d)'' [FInt (a_max a)]" for it rt tcs v rq us
      proof -
        obtain r w5 where r: "agent_calls em it rt tcs v = (r, w5)" by (metis prod.collapse)
        show ?thesis
        proof (cases r)
          case (Inl e)
          then show ?thesis using calls r by simp
        next
          case (Inr msgs)
          then show ?thesis using IH r by simp
        qed
      qed
      show ?thesis unfolding agent_rounds.simps(2) before using c Inr after True rest
        by (simp add: Let_def Stopped_def split: option.split)
    qed
  qed
qed

text \<open>
  \<open>ModelCallLimit\<close> ends a run gracefully: with a limit within \<open>MaxIterations\<close> the agent
  returns its last response after at most \<open>limit\<close> model calls, and never fails for having
  exceeded its iterations, however long the model keeps asking for tools.
\<close>

theorem model_limit_is_graceful:
  assumes "a_middlewares a = [model_limit_mw (NewModelCallLimit limit)]" "1 \<le> limit" "limit \<le> a_max a"
  shows "case fst (RunMessages a msgs w) of
      Inr r \<Rightarrow> ag_iterations r \<le> limit
    | Inl e \<Rightarrow> e \<noteq> Errorf ''agent: exceeded maximum iterations (%d)'' [FInt (a_max a)]"
proof (cases "a_model a = []")
  case True
  then show ?thesis by (simp add: RunMessages_def agent_run_def)
next
  case False
  have "case fst (agent_rounds a False (nat (a_max a)) 0 (agent_request a msgs) zero_usage (agent_world w)) of
       Inr r \<Rightarrow> ag_iterations r \<le> limit
     | Inl e \<Rightarrow> e \<noteq> Errorf ''agent: exceeded maximum iterations (%d)'' [FInt (a_max a)]"
    by (rule model_limit_rounds [OF assms(1)]) (use assms in auto)
  then show ?thesis using False by (auto simp: RunMessages_def agent_run_def case_prod_unfold)
qed

theorem model_limit_is_graceful_witness:
  "case fst (RunMessages (limited_agent greedy (map_Execute echo_tools)
      [model_limit_mw (NewModelCallLimit 3)]) [] 0) of
      Inr r \<Rightarrow> ag_iterations r \<le> 3
    | Inl e \<Rightarrow> e \<noteq> Errorf ''agent: exceeded maximum iterations (%d)'' [FInt 4]"
  using model_limit_is_graceful [of "limited_agent greedy (map_Execute echo_tools)
      [model_limit_mw (NewModelCallLimit 3)]" 3 "[]" 0]
  unfolding limited_agent_simps by simp

section \<open>Tool selection\<close>

lemma keep_tools_spec:
  "\<exists>xs. keep_tools always n picked kept ds = kept @ xs \<and> subseq xs ds \<and>
     filter (\<lambda>d. td_name d \<in> set always) xs = filter (\<lambda>d. td_name d \<in> set always) ds \<and>
     list_all (\<lambda>d. td_name d \<in> set always \<union> set picked) xs \<and>
     countSelected (kept @ xs) always \<le> max (countSelected kept always) n"
proof (induction ds arbitrary: kept)
  case Nil
  then show ?case by (intro exI [of _ "[]"]) (simp add: countSelected_def)
next
  case (Cons d ds)
  show ?case
  proof (cases "td_name d \<in> set always \<or> (td_name d \<in> set picked \<and> countSelected kept always < n)")
    case True
    obtain xs where xs: "keep_tools always n picked (kept @ [d]) ds = (kept @ [d]) @ xs" "subseq xs ds"
        "filter (\<lambda>d. td_name d \<in> set always) xs = filter (\<lambda>d. td_name d \<in> set always) ds"
        "list_all (\<lambda>d. td_name d \<in> set always \<union> set picked) xs"
        "countSelected ((kept @ [d]) @ xs) always \<le> max (countSelected (kept @ [d]) always) n"
      using Cons.IH [of "kept @ [d]"] by blast
    have "max (countSelected (kept @ [d]) always) n \<le> max (countSelected kept always) n"
      using True by (auto simp: countSelected_def)
    then show ?thesis using xs True by (intro exI [of _ "d # xs"]) auto
  next
    case False
    obtain xs where xs: "keep_tools always n picked kept ds = kept @ xs" "subseq xs ds"
        "filter (\<lambda>d. td_name d \<in> set always) xs = filter (\<lambda>d. td_name d \<in> set always) ds"
        "list_all (\<lambda>d. td_name d \<in> set always \<union> set picked) xs"
        "countSelected (kept @ xs) always \<le> max (countSelected kept always) n"
      using Cons.IH [of kept] by blast
    then show ?thesis using False by (intro exI [of _ xs]) auto
  qed
qed

text \<open>
  The tool selector narrows and only narrows: after it, the request's tools are a
  subsequence of those before (same order, nothing invented), every always-included tool is
  there, any other was picked by the selector model, and at most \<open>maxTools\<close> of those were
  kept; the messages are untouched.
\<close>

theorem tool_selector_narrows:
  assumes "tsel_BeforeModel decode t s w = ((None, s'), w')" "0 \<le> tsel_max t"
  shows "subseq (req_tools (st_request s')) (req_tools (st_request s)) \<and>
    filter (\<lambda>d. td_name d \<in> set (tsel_always t)) (req_tools (st_request s')) =
      filter (\<lambda>d. td_name d \<in> set (tsel_always t)) (req_tools (st_request s)) \<and>
    (st_iteration s = 1 \<longrightarrow> countSelected (req_tools (st_request s')) (tsel_always t) \<le> tsel_max t) \<and>
    req_messages (st_request s') = req_messages (st_request s)"
proof (cases "st_iteration s \<noteq> 1 \<or> int (length (req_tools (st_request s))) \<le> tsel_max t")
  case True
  have "countSelected ds always \<le> int (length ds)" for ds always by (simp add: countSelected_def)
  from this [of "req_tools (st_request s)" "tsel_always t"] True assms show ?thesis
    by (auto simp: tsel_BeforeModel_def)
next
  case False
  then obtain picked where s': "s' = s\<lparr>st_request := (st_request s)
      \<lparr>req_tools := keep_tools (tsel_always t) (tsel_max t) picked [] (req_tools (st_request s))\<rparr>\<rparr>"
    using assms(1) by (auto simp: tsel_BeforeModel_def Let_def split: prod.splits sum.splits)
  obtain xs where "keep_tools (tsel_always t) (tsel_max t) picked [] (req_tools (st_request s)) = xs"
      "subseq xs (req_tools (st_request s))"
      "filter (\<lambda>d. td_name d \<in> set (tsel_always t)) xs = filter (\<lambda>d. td_name d \<in> set (tsel_always t)) (req_tools (st_request s))"
      "countSelected xs (tsel_always t) \<le> max (countSelected [] (tsel_always t)) (tsel_max t)"
    using keep_tools_spec [of "tsel_always t" "tsel_max t" picked "[]" "req_tools (st_request s)"] by auto
  then show ?thesis using s' assms(2) by (simp add: countSelected_def)
qed

definition named_tool :: "string \<Rightarrow> tool_definition" where
  "named_tool n = \<lparr>td_name = n, td_description = [], td_parameters = RawNil\<rparr>"

theorem tool_selector_narrows_witness:
  "subseq [named_tool ''b'', named_tool ''c''] [named_tool ''a'', named_tool ''b'', named_tool ''c'', named_tool ''d'']
   \<and> countSelected [named_tool ''b'', named_tool ''c''] [''c''] \<le> 1"
proof -
  let ?t = "NewToolSelector \<lparr>Complete = (\<lambda>req w. (Inr zero_response, w)), Stream = (\<lambda>req w. (Inr [], w))\<rparr> ''m''
    [WithMaxTools 1, WithAlwaysInclude [''c'']]"
  let ?tools = "[named_tool ''a'', named_tool ''b'', named_tool ''c'', named_tool ''d'']"
  let ?s = "\<lambda>ts. (sample_state [])\<lparr>st_request := (st_request (sample_state []))\<lparr>req_tools := ts\<rparr>\<rparr>"
  have run: "tsel_BeforeModel (\<lambda>_. Inr [''b'', ''d'']) ?t (?s ?tools) (agent_world ()) =
      ((None, ?s [named_tool ''b'', named_tool ''c'']), agent_world ())"
    by (simp add: tsel_BeforeModel_def NewToolSelector_def WithMaxTools_def WithAlwaysInclude_def
        sample_state_def agent_world_def named_tool_def countSelected_def Let_def)
  have t: "tsel_max ?t = 1" "tsel_always ?t = [''c'']"
    by (simp_all add: NewToolSelector_def WithMaxTools_def WithAlwaysInclude_def)
  show ?thesis
    using tool_selector_narrows [OF run] unfolding t by (simp add: sample_state_def)
qed

end
