(* ===== verification/Human_Approval.thy ===== *)
theory Human_Approval
  imports Graph_Engine Agents "HOL-Library.Char_ord" "HOL-Library.List_Lexorder"
begin

text \<open>
  The approval gate of package \<open>agent\<close> (\<open>hitl.go\<close>) and the validation of tool arguments
  (\<open>validate.go\<close>).

  Of \<open>encoding/json\<close> and \<open>fmt\<close>, \<open>json_fns\<close> provides the decoding of a document into a value
  whose objects hold each key once (in the order the loop over the Go map takes) and the
  printing of a value with \<open>%v\<close>. Decoding a schema into the struct with \<open>properties\<close>,
  \<open>required\<close> and \<open>additionalProperties\<close> is written out, with the types it rejects; the
  matching of member names regardless of case is left out.
\<close>

record json_fns =
  jf_parse :: "string \<Rightarrow> json option"
  jf_show :: "json \<Rightarrow> string"

section \<open>ValidateArguments\<close>

fun jsonType :: "json \<Rightarrow> string" where
  "jsonType JNull = ''null''"
| "jsonType (JBool b) = ''boolean''"
| "jsonType (JNum r) = ''number''"
| "jsonType (JStr s) = ''string''"
| "jsonType (JArr xs) = ''array''"
| "jsonType (JObj kvs) = ''object''"

definition hasType :: "json \<Rightarrow> string \<Rightarrow> bool" where
  "hasType v t =
     (if t = ''integer'' then (case v of JNum r \<Rightarrow> r = of_int \<lfloor>r\<rfloor> | _ \<Rightarrow> False)
      else if t = ''number'' then (case v of JNum r \<Rightarrow> True | _ \<Rightarrow> False)
      else jsonType v = t)"

text \<open>\<open>equalJSON\<close>: the encoder writes the members of an object in the order of their names.\<close>

fun json_norm :: "json \<Rightarrow> json" where
  "json_norm (JArr xs) = JArr (map json_norm xs)"
| "json_norm (JObj kvs) = JObj (sort_key fst (map (\<lambda>(k, v). (k, json_norm v)) kvs))"
| "json_norm v = v"

definition equalJSON :: "json \<Rightarrow> json \<Rightarrow> bool" where
  "equalJSON a b \<longleftrightarrow> json_norm a = json_norm b"

fun str_or_empty :: "json \<Rightarrow> string" where
  "str_or_empty (JStr s) = s"
| "str_or_empty _ = []"

definition declared_types :: "json option \<Rightarrow> string list" where
  "declared_types t = (case t of
     None \<Rightarrow> []
   | Some (JStr s) \<Rightarrow> [s]
   | Some JNull \<Rightarrow> [[]]
   | Some (JArr xs) \<Rightarrow> map str_or_empty xs
   | Some _ \<Rightarrow> [])"

definition enum_of :: "json option \<Rightarrow> json list option" where
  "enum_of e = (case e of None \<Rightarrow> Some [] | Some JNull \<Rightarrow> Some [] | Some (JArr xs) \<Rightarrow> Some xs | Some _ \<Rightarrow> None)"

definition bracketed :: "string list \<Rightarrow> string" where
  "bracketed xs = ''['' @ Join xs '' '' @ '']''"

definition checkProperty :: "json_fns \<Rightarrow> json \<Rightarrow> json \<Rightarrow> go_error option" where
  "checkProperty jf p v =
     (case p of
        JObj kvs \<Rightarrow>
          (case enum_of (map_of kvs ''enum'') of
             None \<Rightarrow> None
           | Some enum \<Rightarrow>
               let types = declared_types (map_of kvs ''type'')
               in if types \<noteq> [] \<and> \<not> list_ex (hasType v) types
                  then Some (Errorf ''want %v, got %s'' [FStr (bracketed types), FStr (jsonType v)])
                  else if enum \<noteq> [] \<and> \<not> list_ex (\<lambda>e. equalJSON e v) enum
                  then Some (Errorf ''value %v is not one of %v''
                         [FStr (jf_show jf v), FStr (bracketed (map (jf_show jf) enum))])
                  else None)
      | _ \<Rightarrow> None)"

record arg_schema =
  as_properties :: "(string \<times> json) list"
  as_required :: "string list"
  as_additional :: "bool option"

definition decode_properties :: "json option \<Rightarrow> (string \<times> json) list option" where
  "decode_properties p = (case p of None \<Rightarrow> Some [] | Some JNull \<Rightarrow> Some [] | Some (JObj ps) \<Rightarrow> Some ps | Some _ \<Rightarrow> None)"

definition string_or_null :: "json \<Rightarrow> bool" where
  "string_or_null x = (case x of JStr s \<Rightarrow> True | JNull \<Rightarrow> True | _ \<Rightarrow> False)"

definition decode_required :: "json option \<Rightarrow> string list option" where
  "decode_required r = (case r of
     None \<Rightarrow> Some []
   | Some JNull \<Rightarrow> Some []
   | Some (JArr xs) \<Rightarrow> if list_all string_or_null xs then Some (map str_or_empty xs) else None
   | Some _ \<Rightarrow> None)"

definition decode_additional :: "json option \<Rightarrow> bool option option" where
  "decode_additional a = (case a of None \<Rightarrow> Some None | Some JNull \<Rightarrow> Some None | Some (JBool b) \<Rightarrow> Some (Some b) | Some _ \<Rightarrow> None)"

definition decode_schema :: "json \<Rightarrow> arg_schema option" where
  "decode_schema j = (case j of
     JNull \<Rightarrow> Some \<lparr>as_properties = [], as_required = [], as_additional = None\<rparr>
   | JObj kvs \<Rightarrow>
       (case decode_properties (map_of kvs ''properties'') of None \<Rightarrow> None
        | Some ps \<Rightarrow> (case decode_required (map_of kvs ''required'') of None \<Rightarrow> None
        | Some req \<Rightarrow> (case decode_additional (map_of kvs ''additionalProperties'') of None \<Rightarrow> None
        | Some addl \<Rightarrow> Some \<lparr>as_properties = ps, as_required = req, as_additional = addl\<rparr>)))
   | _ \<Rightarrow> None)"

fun check_required :: "string list \<Rightarrow> (string \<times> json) list \<Rightarrow> go_error option" where
  "check_required [] args = None"
| "check_required (name # names) args =
     (if map_of args name = None then Some (Errorf ''missing required property %q'' [FStr name])
      else check_required names args)"

fun check_args :: "json_fns \<Rightarrow> arg_schema \<Rightarrow> (string \<times> json) list \<Rightarrow> go_error option" where
  "check_args jf s [] = None"
| "check_args jf s ((name, v) # args) =
     (case map_of (as_properties s) name of
        None \<Rightarrow>
          if as_additional s = Some False then Some (Errorf ''unknown property %q'' [FStr name])
          else check_args jf s args
      | Some raw \<Rightarrow>
          (case checkProperty jf raw v of
             Some err \<Rightarrow> Some (Errorf ''property %q: %w'' [FStr name, FWrap err])
           | None \<Rightarrow> check_args jf s args))"

definition invalid_schema :: "go_error option" where
  "invalid_schema = Some (Errorf ''invalid schema: %w'' [FWrap (Opaque ''json: cannot unmarshal'')])"

definition ValidateArguments :: "json_fns \<Rightarrow> raw_json \<Rightarrow> string \<Rightarrow> go_error option" where
  "ValidateArguments jf schema arguments =
     (case jf_parse jf arguments of
        Some (JObj args) \<Rightarrow>
          if raw_empty schema then None
          else (case schema of
             RawJson j \<Rightarrow>
               (case decode_schema j of
                  None \<Rightarrow> invalid_schema
                | Some s \<Rightarrow>
                    (case check_required (as_required s) args of
                       Some err \<Rightarrow> Some err
                     | None \<Rightarrow> check_args jf s args))
           | _ \<Rightarrow> invalid_schema)
      | _ \<Rightarrow> Some (Errorf ''arguments must be a JSON object'' []))"

section \<open>The gate\<close>

definition ErrInvalidEdit :: go_error where
  "ErrInvalidEdit = Sentinel (''agent: edited arguments do not match the tool'' @ [CHR 0x27] @ ''s schema'')"

definition Approve :: decision where
  "Approve = \<lparr>dec_approve = True, dec_reason = [], dec_arguments = []\<rparr>"

definition Reject :: "string \<Rightarrow> decision" where
  "Reject reason = \<lparr>dec_approve = False, dec_reason = reason, dec_arguments = []\<rparr>"

definition Edit :: "string \<Rightarrow> decision" where
  "Edit arguments = \<lparr>dec_approve = True, dec_reason = [], dec_arguments = arguments\<rparr>"

definition Abort :: "go_error \<Rightarrow> go_error" where
  "Abort err = AbortErr err"

type_synonym 'w approver = "tool_call \<Rightarrow> 'w \<Rightarrow> (go_error + decision) \<times> 'w"

record 'w human_in_loop =
  h_executor :: "'w executor"
  h_approve :: "'w approver"
  h_guarded :: "string list"
  h_schemas :: "string \<rightharpoonup> raw_json"

definition schema_map :: "tool_definition list \<Rightarrow> string \<rightharpoonup> raw_json" where
  "schema_map defs = foldl (\<lambda>m d. m(td_name d \<mapsto> td_parameters d)) Map.empty defs"

definition WithInterruptOn :: "string list \<Rightarrow> 'w human_in_loop \<Rightarrow> 'w human_in_loop" where
  "WithInterruptOn names h = h\<lparr>h_guarded := names\<rparr>"

definition WithToolSchemas :: "tool_definition list \<Rightarrow> 'w human_in_loop \<Rightarrow> 'w human_in_loop" where
  "WithToolSchemas defs h = h\<lparr>h_schemas := schema_map defs\<rparr>"

definition NewHumanInLoop :: "'w executor \<Rightarrow> 'w approver \<Rightarrow> ('w human_in_loop \<Rightarrow> 'w human_in_loop) list \<Rightarrow> 'w human_in_loop" where
  "NewHumanInLoop executor approve opts = foldl (\<lambda>h opt. opt h)
     \<lparr>h_executor = executor, h_approve = approve, h_guarded = [], h_schemas = Map.empty\<rparr> opts"

definition requiresApproval :: "'w human_in_loop \<Rightarrow> string \<Rightarrow> bool" where
  "requiresApproval h name \<longleftrightarrow> h_guarded h = [] \<or> name \<in> set (h_guarded h)"

definition hitl_Execute :: "json_fns \<Rightarrow> 'w human_in_loop \<Rightarrow> 'w executor" where
  "hitl_Execute jf h name arguments w =
     (if \<not> requiresApproval h name then h_executor h name arguments w
      else case h_approve h (zero_call\<lparr>tc_name := name, tc_arguments := arguments\<rparr>) w of
        (Inl err, w1) \<Rightarrow> (([], Some (Abort (Errorf ''approval for %q: %w'' [FStr name, FWrap err]))), w1)
      | (Inr dec, w1) \<Rightarrow>
          if \<not> dec_approve dec
          then ((error_result (if dec_reason dec = [] then ''tool call rejected by human reviewer''
                  else dec_reason dec), None), w1)
          else if dec_arguments dec = [] then h_executor h name arguments w1
          else (case h_schemas h name of
             None \<Rightarrow> h_executor h name (dec_arguments dec) w1
           | Some schema \<Rightarrow>
               (case ValidateArguments jf schema (dec_arguments dec) of
                  Some err \<Rightarrow> (([], Some (Abort (Errorf ''%w: %q: %w''
                     [FWrap ErrInvalidEdit, FStr name, FWrap err]))), w1)
                | None \<Rightarrow> h_executor h name (dec_arguments dec) w1)))"

definition With_approval :: "approvals \<Rightarrow> approval_request \<Rightarrow> decision \<Rightarrow> approvals" where
  "With_approval a req d = a(ar_key req \<mapsto> d)"

fun sel_approvals :: "dyn \<Rightarrow> approvals option" where
  "sel_approvals (DApprovals a) = Some a"
| "sel_approvals _ = None"

definition approval_key :: "tool_call \<Rightarrow> string" where
  "approval_key call = tc_name call @ [CHR 0x00] @ tc_arguments call"

definition approval_request_of :: "tool_definition list \<Rightarrow> approvals \<Rightarrow> tool_call \<Rightarrow> approval_request" where
  "approval_request_of defs decided call =
     \<lparr>ar_key = approval_key call, ar_tool = tc_name call, ar_arguments = tc_arguments call,
      ar_schema = (case schema_map defs (tc_name call) of None \<Rightarrow> RawNil | Some s \<Rightarrow> s), ar_decided = decided\<rparr>"

definition AwaitApproval :: "tool_definition list \<Rightarrow> gctx \<Rightarrow> 'w gworld approver" where
  "AwaitApproval defs c call w =
     (let decided = (case ResumeValue sel_approvals c w of None \<Rightarrow> Map.empty | Some a \<Rightarrow> a)
      in case decided (approval_key call) of
           Some d \<Rightarrow> (Inr d, w)
         | None \<Rightarrow> (Inl (InterruptErr (DApproval (approval_request_of defs decided call))), w))"

section \<open>What validation accepts\<close>

lemma check_required_None:
  "check_required names args = None \<longleftrightarrow> list_all (\<lambda>n. map_of args n \<noteq> None) names"
  by (induction names) auto

definition property_ok :: "json_fns \<Rightarrow> arg_schema \<Rightarrow> string \<Rightarrow> json \<Rightarrow> bool" where
  "property_ok jf s name v \<longleftrightarrow> (case map_of (as_properties s) name of
     None \<Rightarrow> as_additional s \<noteq> Some False | Some raw \<Rightarrow> checkProperty jf raw v = None)"

lemma check_args_Cons:
  "check_args jf s ((n, v) # args) = None \<longleftrightarrow> property_ok jf s n v \<and> check_args jf s args = None"
  by (auto simp: property_ok_def split: option.splits)

lemma check_args_None: "check_args jf s args = None \<longleftrightarrow> list_all (\<lambda>(n, v). property_ok jf s n v) args"
proof (induction args)
  case (Cons nv args)
  then show ?case by (cases nv) (simp add: check_args_Cons del: check_args.simps)
qed simp

text \<open>
  \<open>ValidateArguments\<close> accepts exactly the JSON objects that carry every required property
  and whose every property is declared with a schema its value meets, or undeclared while
  \<open>additionalProperties\<close> is not false; so the verdict does not depend on the order in which
  the map of arguments is walked.
\<close>

theorem validate_arguments_iff:
  "ValidateArguments jf (RawJson j) arguments = None \<longleftrightarrow>
    (\<exists>args s. jf_parse jf arguments = Some (JObj args) \<and> decode_schema j = Some s \<and>
       list_all (\<lambda>n. map_of args n \<noteq> None) (as_required s) \<and>
       list_all (\<lambda>(n, v). property_ok jf s n v) args)"
proof -
  have "ValidateArguments jf (RawJson j) arguments = None \<longleftrightarrow>
    (\<exists>args s. jf_parse jf arguments = Some (JObj args) \<and> decode_schema j = Some s \<and>
       check_required (as_required s) args = None \<and> check_args jf s args = None)"
    by (auto simp: ValidateArguments_def invalid_schema_def split: option.splits json.splits)
  then show ?thesis by (simp add: check_required_None check_args_None)
qed

text \<open>
  The schema of a tool that takes a map, \<open>{"type": "object", "additionalProperties": S}\<close>
  with a schema \<open>S\<close>, makes \<open>ValidateArguments\<close> reject whatever arguments it is given.
\<close>

theorem validate_rejects_map_schema:
  "ValidateArguments jf (RawJson (JObj [(''type'', JStr ''object''), (''additionalProperties'', JObj kvs)])) arguments
    \<noteq> None"
  by (auto simp: ValidateArguments_def invalid_schema_def decode_schema_def decode_properties_def
      decode_required_def decode_additional_def split: option.splits json.splits)

section \<open>Decisions across a pause\<close>

text \<open>
  An approval asked for and answered: a guarded call with no decision pauses with a
  request that names it and carries the decisions so far; once the run is resumed with
  \<open>req.Decided.With(req, d)\<close>, the same call gets \<open>d\<close>, and every other call the decision it
  had.
\<close>

theorem approval_round_trip:
  "case AwaitApproval defs c call w of (res, w') \<Rightarrow>
     w' = w \<and>
     (case res of
        Inr d \<Rightarrow> \<exists>a. ResumeValue sel_approvals c w = Some a \<and> a (approval_key call) = Some d
      | Inl err \<Rightarrow>
          \<exists>req. asInterrupt err = Some (DApproval req) \<and> ar_tool req = tc_name call \<and>
            ar_arguments req = tc_arguments call \<and>
            (let c' = c\<lparr>gc_slot := Some (length (gw_slots v))\<rparr>;
                 v' = v\<lparr>gw_slots := gw_slots v @ [\<lparr>sl_value = DApprovals (With_approval (ar_decided req) req d), sl_used = u\<rparr>]\<rparr>
             in AwaitApproval defs c' call v' = (Inr d, v') \<and>
                fst (AwaitApproval defs c' other v') =
                  (if approval_key other = approval_key call then Inr d
                   else case ar_decided req (approval_key other) of Some d' \<Rightarrow> Inr d'
                    | None \<Rightarrow> Inl (InterruptErr (DApproval
                        (approval_request_of defs (With_approval (ar_decided req) req d) other))))))"
proof (cases "fst (AwaitApproval defs c call w)")
  case (Inr d')
  then show ?thesis
    by (auto simp: AwaitApproval_def Let_def ResumeValue_def split: option.splits)
next
  case (Inl err)
  then obtain decided where *: "AwaitApproval defs c call w =
      (Inl (InterruptErr (DApproval (approval_request_of defs decided call))), w)"
    by (auto simp: AwaitApproval_def Let_def split: option.splits)
  show ?thesis
    unfolding * prod.case sum.case
    by (intro conjI refl exI [of _ "approval_request_of defs decided call"])
      (auto simp: AwaitApproval_def Let_def approval_request_of_def With_approval_def ResumeValue_def
        split: option.split)
qed

section \<open>No execution without approval\<close>

text \<open>An executor that logs the calls it is given, and a provider that leaves the log alone.\<close>

definition logged :: "'w executor \<Rightarrow> ((string \<times> string) list \<times> 'w) executor" where
  "logged exec name args w = (case exec name args (snd w) of (r, u) \<Rightarrow> (r, (fst w @ [(name, args)], u)))"

definition aside :: "'w provider \<Rightarrow> ((string \<times> string) list \<times> 'w) provider" where
  "aside p = \<lparr>Complete = (\<lambda>req w. case Complete p req (snd w) of (r, u) \<Rightarrow> (r, (fst w, u))),
     Stream = (\<lambda>req w. case Stream p req (snd w) of (r, u) \<Rightarrow> (r, (fst w, u)))\<rparr>"

text \<open>What a reviewer who decides by \<open>verdict\<close> lets through.\<close>

definition approved :: "json_fns \<Rightarrow> (string \<rightharpoonup> raw_json) \<Rightarrow> (tool_call \<Rightarrow> go_error + decision) \<Rightarrow> string \<times> string \<Rightarrow> bool" where
  "approved jf schemas verdict = (\<lambda>(name, args). \<exists>asked d.
     verdict (zero_call\<lparr>tc_name := name, tc_arguments := asked\<rparr>) = Inr d \<and> dec_approve d \<and>
     args = (if dec_arguments d = [] then asked else dec_arguments d) \<and>
     (case schemas name of None \<Rightarrow> True
      | Some schema \<Rightarrow> dec_arguments d = [] \<or> ValidateArguments jf schema args = None))"

lemma hitl_log:
  assumes "h_executor h = logged exec" "h_approve h = (\<lambda>call w. (verdict call, w))" "h_guarded h = []"
  shows "\<exists>new. fst (snd (hitl_Execute jf h name args w)) = fst w @ new \<and>
    list_all (approved jf (h_schemas h) verdict) new"
proof (cases "\<exists>d args'. verdict (zero_call\<lparr>tc_name := name, tc_arguments := args\<rparr>) = Inr d \<and> dec_approve d \<and>
    hitl_Execute jf h name args w = logged exec name args' w \<and>
    args' = (if dec_arguments d = [] then args else dec_arguments d) \<and>
    (case h_schemas h name of None \<Rightarrow> True
      | Some schema \<Rightarrow> dec_arguments d = [] \<or> ValidateArguments jf schema args' = None)")
  case True
  then obtain d args' where *: "verdict (zero_call\<lparr>tc_name := name, tc_arguments := args\<rparr>) = Inr d" "dec_approve d"
    "hitl_Execute jf h name args w = logged exec name args' w"
    "args' = (if dec_arguments d = [] then args else dec_arguments d)"
    "case h_schemas h name of None \<Rightarrow> True
      | Some schema \<Rightarrow> dec_arguments d = [] \<or> ValidateArguments jf schema args' = None"
    by blast
  have "approved jf (h_schemas h) verdict (name, args')"
    unfolding approved_def prod.case using * by blast
  moreover have "fst (snd (hitl_Execute jf h name args w)) = fst w @ [(name, args')]"
    using *(3) by (simp add: logged_def split: prod.split)
  ultimately show ?thesis by (intro exI [of _ "[(name, args')]"]) simp
next
  case False
  have "fst (snd (hitl_Execute jf h name args w)) = fst w"
  proof (rule ccontr)
    assume "fst (snd (hitl_Execute jf h name args w)) \<noteq> fst w"
    with False show False
      by (auto simp: hitl_Execute_def requiresApproval_def assms split: sum.splits if_splits option.splits)
  qed
  then show ?thesis by (intro exI [of _ "[]"]) simp
qed


definition careful :: "tool_call \<Rightarrow> go_error + decision" where
  "careful call = Inr (if tc_arguments call = ''hi'' then Edit ''hello'' else Reject ''no'')"


end
