(* ===== verification/Wire_Framing.thy ===== *)
theory Wire_Framing
  imports Go_Values "HOL-Library.Word" "HOL-Library.Char_ord"
begin

text \<open>
  The two framings the streaming providers read from a response body.

  \<^item> Server-sent events (\<open>internal/sse/reader.go\<close>): lines, as \<open>bufio.Scanner\<close> cuts them, and
    the events \<open>Reader.Next\<close> assembles from them.
  \<^item> AWS event streams (\<open>internal/eventstream/decoder.go\<close>): binary frames, on \<open>8 word\<close>
    lists with the length fields kept at 32 and 16 bits.

  The locale \<open>frame_reader\<close> states what a client of either relies on, that a reader takes one
  well-formed frame off the front of the body and leaves the rest; it is interpreted on both.
\<close>

section \<open>The interface of a frame reader\<close>

text \<open>Reading at most \<open>n\<close> frames, up to the first failure to read one.\<close>

fun read_frames :: "('s \<Rightarrow> 'f option \<times> 's) \<Rightarrow> nat \<Rightarrow> 's \<Rightarrow> 'f list \<times> 's" where
  "read_frames nxt 0 s = ([], s)"
| "read_frames nxt (Suc n) s =
     (case nxt s of (None, s') \<Rightarrow> ([], s')
      | (Some f, s') \<Rightarrow> (case read_frames nxt n s' of (fs, s'') \<Rightarrow> (f # fs, s'')))"

text \<open>
  \<open>wire r\<close> are the bytes of the raw frame \<open>r\<close>, \<open>view r\<close> what the reader makes of it,
  \<open>open b\<close> the reader on a body that holds \<open>b\<close>, \<open>left\<close> what it has still to read.
\<close>

locale frame_reader =
  fixes nxt :: "'s \<Rightarrow> 'f option \<times> 's" and opened :: "'b list \<Rightarrow> 's" and wire :: "'r \<Rightarrow> 'b list"
    and view :: "'r \<Rightarrow> 'f" and ok :: "'r \<Rightarrow> bool" and left :: "'s \<Rightarrow> nat"
  assumes next_frame: "ok r \<Longrightarrow> nxt (opened (wire r @ rest)) = (Some (view r), opened rest)"
    and next_end: "fst (nxt (opened [])) = None"
    and shrinks: "nxt s = (Some f, s') \<Longrightarrow> left s' < left s"
begin

lemma read_exact:
  "list_all ok rs \<Longrightarrow> read_frames nxt (length rs) (opened (concat (map wire rs) @ rest)) =
     (map view rs, opened rest)"
  by (induction rs) (simp_all add: next_frame)

lemma read_whole:
  assumes "list_all ok rs" "length rs < n"
  shows "fst (read_frames nxt n (opened (concat (map wire rs)))) = map view rs"
  using assms
proof (induction rs arbitrary: n)
  case Nil
  then obtain m where "n = Suc m" by (cases n) auto
  then show ?case using next_end by (auto split: prod.split option.split)
next
  case (Cons r rs)
  then obtain m where "n = Suc m" by (cases n) auto
  then show ?case using Cons by (simp add: next_frame case_prod_beta)
qed

text \<open>However the body goes on, fuel beyond what is left of it changes nothing.\<close>

lemma read_enough: "left s < n \<Longrightarrow> left s < m \<Longrightarrow> read_frames nxt n s = read_frames nxt m s"
proof (induction n arbitrary: m s)
  case (Suc n)
  then obtain k where m: "m = Suc k" by (cases m) auto
  show ?case
  proof (cases "nxt s")
    case (Pair f s')
    show ?thesis
    proof (cases f)
      case (Some g)
      then have "left s' < left s" using Pair shrinks by blast
      then have "left s' < n" "left s' < k" using Suc.prems m by simp_all
      then have "read_frames nxt n s' = read_frames nxt k s'" by (rule Suc.IH)
      then show ?thesis using Pair m Some by simp
    qed (use Pair m in simp)
  qed
qed simp

end

section \<open>Lines\<close>

text \<open>
  \<open>bufio.Scanner\<close> over \<open>ScanLines\<close> with the buffer \<open>NewReader\<close> gives it. The body is what
  its reader still delivers; \<open>sc_fail\<close> is the error it ends with, \<open>None\<close> for a clean end.
  A line of \<open>max_token\<close> bytes or more does not fit; a scanner that is asked again after that
  hands out the full buffer once.
\<close>

definition max_token :: nat where "max_token = 1048576"

definition ErrTooLong :: go_error where
  "ErrTooLong = Sentinel ''bufio.Scanner: token too long''"

record scanner =
  sc_rest :: string
  sc_fail :: "go_error option"
  sc_err :: "go_error option"

definition NewReader :: "string \<Rightarrow> go_error option \<Rightarrow> scanner" where
  "NewReader body fail = \<lparr>sc_rest = body, sc_fail = fail, sc_err = None\<rparr>"

definition dropCR :: "string \<Rightarrow> string" where
  "dropCR s = (if s \<noteq> [] \<and> last s = CHR 0x0D then butlast s else s)"

definition Scan :: "scanner \<Rightarrow> string option \<times> scanner" where
  "Scan s =
     (if sc_rest s = [] then
        (None, s\<lparr>sc_err := (case sc_err s of Some e \<Rightarrow> Some e | None \<Rightarrow> sc_fail s)\<rparr>)
      else if sc_err s \<noteq> None then
        (Some (dropCR (take max_token (sc_rest s))), s\<lparr>sc_rest := []\<rparr>)
      else
        let raw = takeWhile (\<lambda>c. c \<noteq> CHR 0x0A) (sc_rest s) in
        if length raw \<ge> max_token then (None, s\<lparr>sc_err := Some ErrTooLong\<rparr>)
        else (Some (dropCR raw), s\<lparr>sc_rest := drop (length raw + 1) (sc_rest s)\<rparr>))"

lemma Scan_shrinks: "Scan s = (Some l, s') \<Longrightarrow> length (sc_rest s') < length (sc_rest s)"
  by (auto simp: Scan_def Let_def split: if_splits)

section \<open>Server-sent events\<close>

record sse_event =
  se_event :: string
  se_data :: string

text \<open>The loop of \<open>Reader.Next\<close>: the event so far, its data lines, whether it has any.\<close>

function next_event :: "string \<Rightarrow> string list \<Rightarrow> bool \<Rightarrow> scanner \<Rightarrow> sse_event option \<times> scanner" where
  "next_event ev lines hasData s =
     (case Scan s of
        (None, s') \<Rightarrow>
          ((if hasData then Some \<lparr>se_event = ev, se_data = Join lines [CHR 0x0A]\<rparr> else None), s')
      | (Some line, s') \<Rightarrow>
          if line = [] then
            (if hasData then (Some \<lparr>se_event = ev, se_data = Join lines [CHR 0x0A]\<rparr>, s')
             else next_event ev lines hasData s')
          else if HasPrefix line ''data:'' then
            next_event ev (lines @ [TrimPrefix (TrimPrefix line ''data:'') '' '']) True s'
          else if HasPrefix line ''event:'' then
            next_event (TrimSpace (TrimPrefix line ''event:'')) lines hasData s'
          else next_event ev lines hasData s')"
  by pat_completeness auto
termination
  by (relation "measure (\<lambda>(_, _, _, s). length (sc_rest s))") (auto dest: Scan_shrinks [OF sym] Scan_shrinks)

declare next_event.simps [simp del]

definition sse_Next :: "scanner \<Rightarrow> sse_event option \<times> scanner" where
  "sse_Next s = next_event [] [] False s"

definition sse_Err :: "scanner \<Rightarrow> go_error option" where
  "sse_Err s = sc_err s"

lemma next_event_le: "length (sc_rest (snd (next_event ev lines has s))) \<le> length (sc_rest s)"
proof (induction ev lines has s rule: next_event.induct)
  case (1 ev lines has s)
  show ?case
  proof (cases "Scan s")
    case (Pair l s1)
    show ?thesis
    proof (cases l)
      case None
      then have "sc_rest s1 = sc_rest s" using Pair by (auto simp: Scan_def Let_def split: if_splits)
      then show ?thesis using Pair None by (simp add: next_event.simps [of ev])
    next
      case (Some line)
      then have le: "length (sc_rest s1) \<le> length (sc_rest s)"
        using Pair Scan_shrinks [of s line s1] by simp
      then show ?thesis
        using "1.IH" [OF Pair [symmetric, unfolded Some]] Pair Some
        by (subst next_event.simps) (cases "line = []"; auto intro: order_trans [OF _ le])
    qed
  qed
qed

lemma sse_Next_shrinks:
  assumes "sse_Next s = (Some e, s')"
  shows "length (sc_rest s') < length (sc_rest s)"
proof -
  obtain line s1 where s: "Scan s = (Some line, s1)"
    using assms unfolding sse_Next_def by (subst (asm) next_event.simps) (auto split: option.splits prod.splits)
  obtain ev ls has where "(Some e, s') = next_event ev ls has s1"
    using assms s unfolding sse_Next_def
    by (subst (asm) next_event.simps) (simp split: if_splits, metis+)
  then have "length (sc_rest s') \<le> length (sc_rest s1)" by (metis next_event_le snd_conv)
  then show ?thesis using Scan_shrinks [OF s] by simp
qed

text \<open>Scanning a line, and an event, of a well-formed body.\<close>

definition line_ok :: "string \<Rightarrow> bool" where
  "line_ok l \<longleftrightarrow> CHR 0x0A \<notin> set l \<and> (l = [] \<or> last l \<noteq> CHR 0x0D) \<and> length l + 1 < max_token"

definition eol :: "bool \<Rightarrow> string" where
  "eol crlf = (if crlf then [CHR 0x0D, CHR 0x0A] else [CHR 0x0A])"

lemma Scan_line:
  "line_ok l \<Longrightarrow> Scan (NewReader (l @ eol crlf @ rest) fail) = (Some l, NewReader rest fail)"
  by (auto simp: Scan_def NewReader_def line_ok_def eol_def dropCR_def takeWhile_append Let_def last_append)

lemma Scan_end: "Scan (NewReader [] fail) = (None, NewReader [] fail\<lparr>sc_err := fail\<rparr>)"
  by (simp add: Scan_def NewReader_def)

text \<open>The lines of an event as a server writes it: its type, its data lines, a blank line.\<close>

record raw_event =
  re_crlf :: bool
  re_comment :: string
  re_type :: string
  re_lines :: "string list"

definition data_field :: "string \<Rightarrow> string" where
  "data_field l = ''data: '' @ l"

definition event_field :: "string \<Rightarrow> string" where
  "event_field t = ''event: '' @ t"

definition comment_field :: "string \<Rightarrow> string" where
  "comment_field c = CHR '':'' # c"

definition raw_event_lines :: "raw_event \<Rightarrow> string list" where
  "raw_event_lines r =
     (if re_comment r = [] then [] else [comment_field (re_comment r)]) @
     (if re_type r = [] then [] else [event_field (re_type r)]) @
     map data_field (re_lines r) @ [[]]"

definition raw_event_wire :: "raw_event \<Rightarrow> string" where
  "raw_event_wire r = concat (map (\<lambda>l. l @ eol (re_crlf r)) (raw_event_lines r))"

definition raw_event_view :: "raw_event \<Rightarrow> sse_event" where
  "raw_event_view r = \<lparr>se_event = re_type r, se_data = Join (re_lines r) [CHR 0x0A]\<rparr>"

definition raw_event_ok :: "raw_event \<Rightarrow> bool" where
  "raw_event_ok r \<longleftrightarrow> re_lines r \<noteq> [] \<and> TrimSpace (re_type r) = re_type r \<and>
     list_all line_ok (raw_event_lines r)"

lemma next_event_line:
  assumes "line_ok l"
  shows "next_event ev lines has (NewReader (l @ eol crlf @ rest) fail) =
    (if l = [] then
       (if has then (Some \<lparr>se_event = ev, se_data = Join lines [CHR 0x0A]\<rparr>, NewReader rest fail)
        else next_event ev lines has (NewReader rest fail))
     else if HasPrefix l ''data:'' then
       next_event ev (lines @ [TrimPrefix (TrimPrefix l ''data:'') '' '']) True (NewReader rest fail)
     else if HasPrefix l ''event:'' then
       next_event (TrimSpace (TrimPrefix l ''event:'')) lines has (NewReader rest fail)
     else next_event ev lines has (NewReader rest fail))"
  by (subst next_event.simps) (simp add: Scan_line [OF assms])

lemma TrimSpace_blank: "TrimSpace (CHR '' '' # s) = TrimSpace s"
  by (simp add: TrimSpace_def is_space_def)

lemma field_lines:
  "data_field l \<noteq> []" "HasPrefix (data_field l) ''data:''"
  "TrimPrefix (TrimPrefix (data_field l) ''data:'') '' '' = l"
  "event_field t \<noteq> []" "\<not> HasPrefix (event_field t) ''data:''" "HasPrefix (event_field t) ''event:''"
  "TrimSpace (TrimPrefix (event_field t) ''event:'') = TrimSpace t"
  "comment_field c \<noteq> []" "\<not> HasPrefix (comment_field c) ''data:''" "\<not> HasPrefix (comment_field c) ''event:''"
  by (simp_all add: data_field_def event_field_def comment_field_def HasPrefix_def TrimPrefix_def TrimSpace_blank)

lemma next_event_data:
  "list_all line_ok (map data_field ls) \<Longrightarrow>
   next_event ev lines has (NewReader (concat (map (\<lambda>l. data_field l @ eol c) ls) @ rest) fail) =
     next_event ev (lines @ ls) (has \<or> ls \<noteq> []) (NewReader rest fail)"
  by (induction ls arbitrary: lines has) (simp_all add: next_event_line field_lines)

lemma sse_Next_raw:
  assumes "raw_event_ok r"
  shows "sse_Next (NewReader (raw_event_wire r @ rest) fail) = (Some (raw_event_view r), NewReader rest fail)"
proof -
  have ok: "list_all line_ok (map data_field (re_lines r))" "re_lines r \<noteq> []" "TrimSpace (re_type r) = re_type r"
    "re_type r \<noteq> [] \<Longrightarrow> line_ok (event_field (re_type r))"
    "re_comment r \<noteq> [] \<Longrightarrow> line_ok (comment_field (re_comment r))"
    using assms by (auto simp: raw_event_ok_def raw_event_lines_def)
  have "line_ok []" by (simp add: line_ok_def max_token_def)
  note step = next_event_line [OF this, unfolded append_Nil] next_event_line [OF ok(4)] next_event_line [OF ok(5)]
    next_event_data [OF ok(1)]
  show ?thesis
    by (cases "re_comment r = []"; cases "re_type r = []")
      (simp_all add: sse_Next_def raw_event_wire_def raw_event_lines_def raw_event_view_def comp_def
        step field_lines ok(2,3))
qed

lemma sse_Next_end: "sse_Next (NewReader [] fail) = (None, NewReader [] fail\<lparr>sc_err := fail\<rparr>)"
  by (simp add: sse_Next_def next_event.simps Scan_end)

interpretation sse: frame_reader sse_Next "\<lambda>b. NewReader b fail" raw_event_wire raw_event_view
  raw_event_ok "\<lambda>s. length (sc_rest s)" for fail
  by unfold_locales (simp_all add: sse_Next_raw sse_Next_end sse_Next_shrinks)

text \<open>An event that carries a number, in unary: a stream whose decoder counts can carry any events.\<close>

definition unary_event :: "nat \<Rightarrow> raw_event" where
  "unary_event n = \<lparr>re_crlf = False, re_comment = [], re_type = [], re_lines = [replicate (n + 1) (CHR ''i'')]\<rparr>"

lemma unary_event_ok: "n < 1000 \<Longrightarrow> raw_event_ok (unary_event n)"
  by (auto simp: unary_event_def raw_event_ok_def raw_event_lines_def data_field_def line_ok_def max_token_def TrimSpace_def)

end
