(* ===== verification/Event_Frames.thy ===== *)
theory Event_Frames
  imports Wire_Framing
begin

text \<open>
  The binary event-stream decoder (\<open>internal/eventstream/decoder.go\<close>): \<open>Decoder.Next\<close>,
  \<open>parseHeaders\<close>, \<open>skipHeaderValue\<close>, on byte lists. The two lengths of the prelude are
  \<open>uint32\<close> values and compared as such; the checks that keep the slices in range are the
  source's. A reader is the bytes it still delivers and the error it ends with.
\<close>

type_synonym byte = "8 word"

definition byte_str :: "byte list \<Rightarrow> string" where
  "byte_str bs = map (\<lambda>b. char_of (unat b)) bs"

definition str_bytes :: "string \<Rightarrow> byte list" where
  "str_bytes s = map (\<lambda>c. word_of_nat (of_char c)) s"

record es_message =
  es_headers :: "string \<rightharpoonup> string"
  es_payload :: "byte list"

definition header_value :: "string \<Rightarrow> es_message \<Rightarrow> string" where
  "header_value name m = (case es_headers m name of None \<Rightarrow> [] | Some v \<Rightarrow> v)"

definition EventType :: "es_message \<Rightarrow> string" where
  "EventType m = header_value '':event-type'' m"

definition MessageType :: "es_message \<Rightarrow> string" where
  "MessageType m = header_value '':message-type'' m"

section \<open>Reading\<close>

record byte_reader =
  br_bytes :: "byte list"
  br_fail :: "go_error option"

definition ErrEOF :: go_error where "ErrEOF = Sentinel ''EOF''"
definition ErrUnexpectedEOF :: go_error where "ErrUnexpectedEOF = Sentinel ''unexpected EOF''"

text \<open>\<open>io.ReadFull\<close> of \<open>n > 0\<close> bytes.\<close>

definition ReadFull :: "nat \<Rightarrow> byte_reader \<Rightarrow> (go_error + byte list) \<times> byte_reader" where
  "ReadFull n r =
     (if n \<le> length (br_bytes r) then (Inr (take n (br_bytes r)), r\<lparr>br_bytes := drop n (br_bytes r)\<rparr>)
      else (Inl (case br_fail r of Some e \<Rightarrow> e
                 | None \<Rightarrow> if br_bytes r = [] then ErrEOF else ErrUnexpectedEOF), r\<lparr>br_bytes := []\<rparr>))"

definition preludeLen :: "32 word" where [simp]: "preludeLen = 12"
definition messageCRCLen :: "32 word" where [simp]: "messageCRCLen = 4"
definition headerStrType :: byte where [simp]: "headerStrType = 7"
definition maxMessageSize :: "32 word" where [simp]: "maxMessageSize = 25165824"

text \<open>\<open>binary.BigEndian\<close>: the value of a byte string, and its bytes.\<close>

definition be_nat :: "byte list \<Rightarrow> nat" where
  "be_nat bs = foldl (\<lambda>a b. a * 256 + unat b) 0 bs"

fun be_bytes :: "nat \<Rightarrow> nat \<Rightarrow> byte list" where
  "be_bytes 0 n = []"
| "be_bytes (Suc k) n = word_of_nat (n div 256 ^ k) # be_bytes k n"

definition Uint32 :: "byte list \<Rightarrow> 32 word" where "Uint32 bs = word_of_nat (be_nat bs)"
definition Uint16 :: "byte list \<Rightarrow> 16 word" where "Uint16 bs = word_of_nat (be_nat bs)"

definition fixed_width :: "byte list \<Rightarrow> nat \<Rightarrow> go_error + nat" where
  "fixed_width b n = (if length b < n then Inl (Errorf ''eventstream: truncated header value'' []) else Inr n)"

definition skipHeaderValue :: "byte \<Rightarrow> byte list \<Rightarrow> go_error + nat" where
  "skipHeaderValue ty b =
     (if ty = 0 \<or> ty = 1 then Inr 0
      else if ty = 2 then fixed_width b 1
      else if ty = 3 then fixed_width b 2
      else if ty = 4 then fixed_width b 4
      else if ty = 5 then fixed_width b 8
      else if ty = 6 then
        (if length b < 2 then Inl (Errorf ''eventstream: truncated bytearray header'' [])
         else fixed_width b (2 + unat (Uint16 (take 2 b))))
      else if ty = 8 then fixed_width b 8
      else if ty = 9 then fixed_width b 16
      else Inl (Errorf ''eventstream: unknown header value type %d'' [FInt (uint ty)]))"

lemma drop_Cons_length: "drop n b = x # v \<Longrightarrow> length v < length b"
  by (metis add_Suc_right le_add2 le_imp_less_Suc length_Cons length_append append_take_drop_id)

text \<open>\<open>parseHeaders\<close>; the list is \<open>b[i:]\<close>.\<close>

function parseHeaders :: "byte list \<Rightarrow> (string \<rightharpoonup> string) \<Rightarrow> go_error + (string \<rightharpoonup> string)" where
  "parseHeaders [] headers = Inr headers"
| "parseHeaders (n # b) headers =
     (if length b < unat n then Inl (Errorf ''eventstream: truncated header name'' [])
      else
        let name = byte_str (take (unat n) b) in
        case drop (unat n) b of
          [] \<Rightarrow> Inl (Errorf ''eventstream: truncated header type'' [])
        | ty # v \<Rightarrow>
            if ty = headerStrType then
              (if length v < 2 then Inl (Errorf ''eventstream: truncated string header length'' [])
               else
                 let vlen = unat (Uint16 (take 2 v)) in
                 if length (drop 2 v) < vlen then Inl (Errorf ''eventstream: truncated string header value'' [])
                 else parseHeaders (drop vlen (drop 2 v)) (headers(name \<mapsto> byte_str (take vlen (drop 2 v)))))
            else
              (case skipHeaderValue ty v of
                 Inl e \<Rightarrow> Inl e
               | Inr k \<Rightarrow> parseHeaders (drop k v) headers))"
  by pat_completeness auto

termination
  by (relation "measure (\<lambda>(b, h). length b)") (auto dest!: drop_Cons_length)

definition dec_Next :: "byte_reader \<Rightarrow> (go_error + es_message) \<times> byte_reader" where
  "dec_Next r =
     (case ReadFull (unat preludeLen) r of
        (Inl e, r1) \<Rightarrow> (Inl e, r1)
      | (Inr prelude, r1) \<Rightarrow>
          let totalLen = Uint32 (take 4 prelude); headersLen = Uint32 (take 4 (drop 4 prelude)) in
          if totalLen < preludeLen + messageCRCLen \<or> totalLen > maxMessageSize then
            (Inl (Errorf ''eventstream: invalid frame length %d'' [FInt (uint totalLen)]), r1)
          else if headersLen > totalLen - preludeLen - messageCRCLen then
            (Inl (Errorf ''eventstream: invalid headers length %d'' [FInt (uint headersLen)]), r1)
          else
            case ReadFull (unat (totalLen - preludeLen)) r1 of
              (Inl e, r2) \<Rightarrow> (Inl (Errorf ''eventstream: short frame: %w'' [FWrap e]), r2)
            | (Inr rest, r2) \<Rightarrow>
                let h = unat headersLen in
                (case parseHeaders (take h rest) Map.empty of
                   Inl e \<Rightarrow> (Inl e, r2)
                 | Inr headers \<Rightarrow>
                     (Inr \<lparr>es_headers = headers,
                        es_payload = take (length rest - unat messageCRCLen - h) (drop h rest)\<rparr>, r2)))"

section \<open>What a service sends\<close>

datatype es_header = StrHeader string string | OtherHeader string byte "byte list"

definition width_ok :: "byte \<Rightarrow> byte list \<Rightarrow> bool" where
  "width_ok ty v \<longleftrightarrow> ty \<noteq> headerStrType \<and> skipHeaderValue ty v = Inr (length v)"

fun header_ok :: "es_header \<Rightarrow> bool" where
  "header_ok (StrHeader n v) \<longleftrightarrow> length n < 256 \<and> length v < 65536"
| "header_ok (OtherHeader n ty v) \<longleftrightarrow> length n < 256 \<and> width_ok ty v"

fun header_wire :: "es_header \<Rightarrow> byte list" where
  "header_wire (StrHeader n v) = word_of_nat (length n) # str_bytes n @ headerStrType #
     be_bytes 2 (length v) @ str_bytes v"
| "header_wire (OtherHeader n ty v) = word_of_nat (length n) # str_bytes n @ ty # v"

fun header_view :: "(string \<rightharpoonup> string) \<Rightarrow> es_header \<Rightarrow> (string \<rightharpoonup> string)" where
  "header_view m (StrHeader n v) = m(n \<mapsto> v)"
| "header_view m (OtherHeader n ty v) = m"

record es_frame =
  ef_headers :: "es_header list"
  ef_payload :: "byte list"
  ef_prelude_crc :: nat
  ef_crc :: nat

definition headers_wire :: "es_frame \<Rightarrow> byte list" where
  "headers_wire f = concat (map header_wire (ef_headers f))"

definition frame_size :: "es_frame \<Rightarrow> nat" where
  "frame_size f = 16 + length (headers_wire f) + length (ef_payload f)"

definition frame_wire :: "es_frame \<Rightarrow> byte list" where
  "frame_wire f = be_bytes 4 (frame_size f) @
     be_bytes 4 (length (headers_wire f)) @ be_bytes 4 (ef_prelude_crc f) @
     headers_wire f @ ef_payload f @ be_bytes 4 (ef_crc f)"

definition frame_ok :: "es_frame \<Rightarrow> bool" where
  "frame_ok f \<longleftrightarrow> list_all header_ok (ef_headers f) \<and> frame_size f \<le> 25165824"

definition frame_view :: "es_frame \<Rightarrow> es_message" where
  "frame_view f = \<lparr>es_headers = foldl header_view Map.empty (ef_headers f), es_payload = ef_payload f\<rparr>"

section \<open>Lemmas\<close>

lemma byte_str_bytes [simp]: "byte_str (str_bytes s) = s"
proof -
  have "char_of (unat (word_of_nat (of_char c) :: byte)) = c" for c
    by (simp add: unat_of_nat)
  then show ?thesis by (simp add: byte_str_def str_bytes_def comp_def)
qed

lemma length_str_bytes [simp]: "length (str_bytes s) = length s"
  by (simp add: str_bytes_def)

lemma length_be_bytes [simp]: "length (be_bytes k n) = k"
  by (induction k) simp_all

lemma be_nat_bytes: "be_nat (be_bytes k n) = n mod 256 ^ k"
proof -
  have "foldl (\<lambda>a b. a * 256 + unat b) a (be_bytes k n) = a * 256 ^ k + n mod 256 ^ k" for a
  proof (induction k arbitrary: a)
    case (Suc k)
    have "n mod 256 ^ Suc k = 256 ^ k * (n div 256 ^ k mod 256) + n mod 256 ^ k"
      using mod_mult2_eq [of n "256 ^ k" 256] by (simp add: mult.commute)
    then show ?case by (simp add: Suc.IH unat_of_nat) (simp add: algebra_simps)
  qed simp
  then show ?thesis by (simp add: be_nat_def)
qed

lemma Uint_bytes [simp]:
  "n < 4294967296 \<Longrightarrow> Uint32 (be_bytes 4 n) = word_of_nat n" "n < 65536 \<Longrightarrow> Uint16 (be_bytes 2 n) = word_of_nat n"
  by (simp_all add: Uint32_def Uint16_def be_nat_bytes)

lemma unat_of_length:
  "n < 256 \<Longrightarrow> unat (word_of_nat n :: byte) = n"
  "n < 65536 \<Longrightarrow> unat (word_of_nat n :: 16 word) = n"
  "n < 4294967296 \<Longrightarrow> unat (word_of_nat n :: 32 word) = n"
  by (simp_all add: unat_of_nat)

lemma fixed_width_append: "fixed_width b n = Inr k \<Longrightarrow> fixed_width (b @ c) n = Inr k"
  by (simp add: fixed_width_def split: if_splits)

lemma skip_append: "skipHeaderValue ty v = Inr k \<Longrightarrow> skipHeaderValue ty (v @ c) = Inr k"
  by (auto simp: skipHeaderValue_def fixed_width_append split: if_splits)

lemma parseHeaders_header:
  "header_ok h \<Longrightarrow> parseHeaders (header_wire h @ rest) m = parseHeaders rest (header_view m h)"
proof (cases h)
  case (StrHeader n v)
  moreover assume "header_ok h"
  ultimately show ?thesis by (simp add: unat_of_length Let_def del: be_bytes.simps)
next
  case (OtherHeader n ty v)
  moreover assume "header_ok h"
  ultimately show ?thesis by (simp add: unat_of_length Let_def width_ok_def skip_append)
qed

lemma parseHeaders_wire:
  "list_all header_ok hs \<Longrightarrow> parseHeaders (concat (map header_wire hs)) m = Inr (foldl header_view m hs)"
  by (induction hs arbitrary: m) (simp_all add: parseHeaders_header)

text \<open>The two stages of \<open>Next\<close> on the bytes of a frame.\<close>

definition bytes_reader :: "byte list \<Rightarrow> byte_reader" where
  "bytes_reader bs = \<lparr>br_bytes = bs, br_fail = None\<rparr>"

definition prelude_wire :: "es_frame \<Rightarrow> byte list" where
  "prelude_wire f = be_bytes 4 (frame_size f) @ be_bytes 4 (length (headers_wire f)) @ be_bytes 4 (ef_prelude_crc f)"

definition rest_wire :: "es_frame \<Rightarrow> byte list" where
  "rest_wire f = headers_wire f @ ef_payload f @ be_bytes 4 (ef_crc f)"

lemma frame_wire_parts:
  "frame_wire f = prelude_wire f @ rest_wire f" "length (prelude_wire f) = 12"
  "length (rest_wire f) = frame_size f - 12" "length (frame_wire f) = frame_size f"
  by (simp_all add: frame_wire_def prelude_wire_def rest_wire_def frame_size_def del: be_bytes.simps)

lemma ReadFull_append:
  "length a = n \<Longrightarrow> ReadFull n (bytes_reader (a @ b)) = (Inr a, bytes_reader b)"
  by (simp add: ReadFull_def bytes_reader_def)

lemma ReadFull_short:
  "length a < n \<Longrightarrow> ReadFull n (bytes_reader a) = (Inl (if a = [] then ErrEOF else ErrUnexpectedEOF), bytes_reader [])"
  by (simp add: ReadFull_def bytes_reader_def)

lemma dec_Next_prelude:
  assumes "frame_ok f"
  shows "dec_Next (bytes_reader (prelude_wire f @ body)) =
    (case ReadFull (frame_size f - 12) (bytes_reader body) of
       (Inl e, r2) \<Rightarrow> (Inl (Errorf ''eventstream: short frame: %w'' [FWrap e]), r2)
     | (Inr rest, r2) \<Rightarrow>
         let h = length (headers_wire f) in
         (case parseHeaders (take h rest) Map.empty of
            Inl e \<Rightarrow> (Inl e, r2)
          | Inr headers \<Rightarrow>
              (Inr \<lparr>es_headers = headers, es_payload = take (length rest - 4 - h) (drop h rest)\<rparr>, r2)))"
proof -
  let ?T = "frame_size f" and ?H = "length (headers_wire f)"
  have T: "?T \<le> 25165824" "16 \<le> ?T" "?H \<le> ?T - 16"
    using assms by (simp_all add: frame_ok_def frame_size_def)
  have u: "unat (word_of_nat ?T :: 32 word) = ?T" "unat (word_of_nat ?H :: 32 word) = ?H"
    using T by (simp_all add: unat_of_length)
  have le: "(16 :: 32 word) \<le> word_of_nat ?T" "(12 :: 32 word) \<le> word_of_nat ?T" "(word_of_nat ?T :: 32 word) \<le> 25165824"
    using T u by (simp_all add: word_le_nat_alt)
  have sub: "unat (word_of_nat ?T - 12 :: 32 word) = ?T - 12" "unat (word_of_nat ?T - 16 :: 32 word) = ?T - 16"
    using le u by (simp_all add: unat_sub)
  have hl: "(word_of_nat ?H :: 32 word) \<le> word_of_nat ?T - 16"
    using sub u T by (simp add: word_le_nat_alt)
  have lens: "take 4 (prelude_wire f) = be_bytes 4 ?T" "take 4 (drop 4 (prelude_wire f)) = be_bytes 4 ?H"
    by (simp_all add: prelude_wire_def del: be_bytes.simps)
  have U: "Uint32 (take 4 (prelude_wire f)) = word_of_nat ?T" "unat (Uint32 (take 4 (drop 4 (prelude_wire f)))) = ?H"
      "Uint32 (take 4 (drop 4 (prelude_wire f))) = word_of_nat ?H" "unat messageCRCLen = 4"
    using T u by (simp_all add: lens del: be_bytes.simps)
  have checks: "((word_of_nat ?T :: 32 word) < preludeLen + messageCRCLen \<or> word_of_nat ?T > maxMessageSize) = False"
      "((word_of_nat ?H :: 32 word) > word_of_nat ?T - preludeLen - messageCRCLen) = False"
    using le hl by (simp_all add: not_less)
  have n: "unat (word_of_nat ?T - preludeLen) = ?T - 12" using sub by simp
  have r: "ReadFull (unat preludeLen) (bytes_reader (prelude_wire f @ body)) = (Inr (prelude_wire f), bytes_reader body)"
    by (rule ReadFull_append) (simp add: frame_wire_parts)
  show ?thesis
    unfolding dec_Next_def r prod.case sum.case Let_def U u checks if_False n ..
qed

lemma dec_Next_frame:
  assumes "frame_ok f"
  shows "dec_Next (bytes_reader (frame_wire f @ rest)) = (Inr (frame_view f), bytes_reader rest)"
proof -
  have "list_all header_ok (ef_headers f)" using assms by (simp add: frame_ok_def)
  then have h: "parseHeaders (take (length (headers_wire f)) (rest_wire f)) Map.empty =
      Inr (foldl header_view Map.empty (ef_headers f))"
    by (simp add: rest_wire_def) (simp add: headers_wire_def parseHeaders_wire)
  have p: "take (length (rest_wire f) - 4 - length (headers_wire f)) (drop (length (headers_wire f)) (rest_wire f)) =
      ef_payload f"
    by (simp add: rest_wire_def del: be_bytes.simps)
  have "ReadFull (frame_size f - 12) (bytes_reader (rest_wire f @ rest)) = (Inr (rest_wire f), bytes_reader rest)"
    by (rule ReadFull_append) (rule frame_wire_parts)
  then show ?thesis
    using dec_Next_prelude [OF assms, of "rest_wire f @ rest"] h p
    by (simp add: frame_wire_parts(1) frame_view_def)
qed

lemma dec_Next_cut:
  assumes "frame_ok f" "k < length (frame_wire f)" "0 < k"
  shows "\<exists>e. fst (dec_Next (bytes_reader (take k (frame_wire f)))) = Inl e \<and> e \<noteq> ErrEOF"
proof (cases "k < 12")
  case True
  then show ?thesis
    using assms ReadFull_short [of "take k (frame_wire f)" 12]
    by (auto simp: dec_Next_def ErrEOF_def ErrUnexpectedEOF_def)
next
  case False
  then have "take k (frame_wire f) = prelude_wire f @ take (k - 12) (rest_wire f)"
    by (simp add: frame_wire_parts)
  moreover have "length (take (k - 12) (rest_wire f)) < frame_size f - 12"
    using assms(2) False by (simp add: frame_wire_parts)
  ultimately show ?thesis
    using dec_Next_prelude [OF assms(1)] by (simp add: ReadFull_short ErrEOF_def)
qed

text \<open>A decoder as a frame reader: a failure to decode ends the frames.\<close>

definition es_Next :: "byte_reader \<Rightarrow> es_message option \<times> byte_reader" where
  "es_Next r = (case dec_Next r of (Inl e, r') \<Rightarrow> (None, r') | (Inr m, r') \<Rightarrow> (Some m, r'))"

lemma ReadFull_shrinks:
  "ReadFull n r = (x, r') \<Longrightarrow> length (br_bytes r') \<le> length (br_bytes r)"
  "ReadFull n r = (Inr bs, r') \<Longrightarrow> 0 < n \<Longrightarrow> length (br_bytes r') < length (br_bytes r)"
  by (auto simp: ReadFull_def split: if_splits)

lemma es_Next_shrinks: "es_Next r = (Some m, r') \<Longrightarrow> length (br_bytes r') < length (br_bytes r)"
proof -
  assume "es_Next r = (Some m, r')"
  then have "dec_Next r = (Inr m, r')" by (auto simp: es_Next_def split: prod.splits sum.splits)
  then have d: "snd (dec_Next r) = r'" "\<not> (\<exists>e. fst (dec_Next r) = Inl e)" by simp_all
  obtain p r1 where p: "ReadFull 12 r = (Inr p, r1)"
    using d(2) by (cases "ReadFull 12 r"; cases "fst (ReadFull 12 r)") (simp_all add: dec_Next_def)
  have "\<exists>n. snd (dec_Next r) = snd (ReadFull n r1) \<or> (\<exists>e. fst (dec_Next r) = Inl e)"
    unfolding dec_Next_def preludeLen_def unat_numeral p
    by (auto simp: p Let_def split: prod.split sum.split) (metis snd_conv)+
  then obtain n where "r' = snd (ReadFull n r1)" using d by blast
  then show ?thesis
    using ReadFull_shrinks(1) [of n r1] ReadFull_shrinks(2) [OF p] by (metis order.strict_trans1 prod.collapse zero_less_numeral)
qed

interpretation es: frame_reader es_Next bytes_reader frame_wire frame_view frame_ok "\<lambda>r. length (br_bytes r)"
proof
  show "fst (es_Next (bytes_reader [])) = None"
    by (simp add: es_Next_def dec_Next_def ReadFull_short)
qed (simp_all add: es_Next_def [of "bytes_reader _"] dec_Next_frame es_Next_shrinks)

section \<open>Properties\<close>

text \<open>
  C20. A body of server-sent events is read back exactly, whatever mix of comments, named and
  unnamed events, multi-line data and line endings it has; at its end the reader reports the
  error the body ended with, or none.
\<close>

theorem sse_round_trip:
  assumes "list_all raw_event_ok rs"
  shows "read_frames sse_Next (Suc (length rs)) (NewReader (concat (map raw_event_wire rs)) fail) =
      (map raw_event_view rs, NewReader [] fail\<lparr>sc_err := fail\<rparr>)"
  using assms by (induction rs) (simp_all add: sse_Next_end sse_Next_raw)

definition sample_events :: "raw_event list" where
  "sample_events =
     [\<lparr>re_crlf = True, re_comment = ''ping'', re_type = ''delta'', re_lines = [''{'', '' x}'']\<rparr>,
      \<lparr>re_crlf = False, re_comment = [], re_type = [], re_lines = [''[DONE]'']\<rparr>]"

theorem sse_round_trip_witness:
  "read_frames sse_Next 3 (NewReader (concat (map raw_event_wire sample_events)) None) =
     (map raw_event_view sample_events, NewReader [] None)"
proof -
  have "list_all raw_event_ok sample_events" "length sample_events = 2"
    by (simp_all add: sample_events_def raw_event_ok_def raw_event_lines_def comment_field_def event_field_def data_field_def
        line_ok_def max_token_def TrimSpace_def is_space_def)
  then show ?thesis using sse_round_trip [of sample_events None] by (simp add: NewReader_def numeral_3_eq_3)
qed


definition sample_frame :: es_frame where
  "sample_frame = \<lparr>ef_headers = [StrHeader '':event-type'' ''messageStop'', OtherHeader ''n'' 4 [0, 0, 0, 7]],
     ef_payload = str_bytes ''{}'', ef_prelude_crc = 1, ef_crc = 2\<rparr>"


end
