(* ===== verification/Transport.thy ===== *)
theory Transport
  imports Streaming
begin

text \<open>
  What the providers share of an HTTP exchange. A \<open>transport\<close> is the remote service behind
  \<open>http.Client.Do\<close>: it answers a request with a failure, or with a status, a body (and the
  error reading it ends with) and the delay \<open>RetryAfterFromHeader\<close> finds in its headers.
  \<open>send_request\<close> is the \<open>doRequest\<close> every provider has.
\<close>

record http_reply =
  hr_status :: int
  hr_body :: string
  hr_fail :: "go_error option"
  hr_retry_after :: int

type_synonym ('q, 'w) transport = "'q \<Rightarrow> 'w \<Rightarrow> (go_error + http_reply) \<times> 'w"

definition api_failure :: "string \<Rightarrow> (string \<Rightarrow> string option) \<Rightarrow> http_reply \<Rightarrow> go_error" where
  "api_failure name decode r =
     APIErr \<lparr>ae_status = hr_status r,
       ae_message = (case decode (hr_body r) of
           Some (c # m) \<Rightarrow> c # m
         | _ \<Rightarrow> ''status '' @ int_dec (hr_status r)),
       ae_provider = name, ae_retry_after = hr_retry_after r\<rparr>"

definition send_request :: "string \<Rightarrow> (string \<Rightarrow> string option) \<Rightarrow> ('q, 'w) transport \<Rightarrow> 'q \<Rightarrow> 'w
    \<Rightarrow> (go_error + http_reply) \<times> 'w" where
  "send_request name decode post body w =
     (case post body w of
        (Inl e, w') \<Rightarrow> (Inl (Errorf ''%s: request failed: %w'' [FStr name, FWrap e]), w')
      | (Inr r, w') \<Rightarrow>
          (if hr_status r \<noteq> 200 then Inl (api_failure name decode r) else Inr r, w'))"

text \<open>The events a reading goroutine sends before the rest of its loop.\<close>

definition emit_first :: "stream_event list \<Rightarrow> stream_event list \<times> bool \<Rightarrow> stream_event list \<times> bool" where
  "emit_first evs r = (evs @ fst r, snd r)"

text \<open>A failed status is an \<open>APIError\<close> with that status: retry and fallback can see it.\<close>

lemma send_request_status:
  "post body w = (Inr r, w') \<Longrightarrow> hr_status r \<noteq> 200 \<Longrightarrow>
   \<exists>e a. send_request name decode post body w = (Inl e, w') \<and> as_api e = Some a \<and> ae_status a = hr_status r \<and>
     ae_retry_after a = hr_retry_after r \<and> ae_provider a = name"
  by (simp add: send_request_def api_failure_def)

end
