(* ===== verification/Media_Parts.thy ===== *)
theory Media_Parts
  imports Messages
begin

text \<open>
  Media in messages (\<open>internal/mediautil\<close>): which content parts a provider can send, and
  image references as data URIs. A provider's abilities are a record; \<open>CheckParts\<close> walks the
  parts of a request in order and reports the first it cannot send, at its position.
\<close>

section \<open>Supported parts\<close>

definition ErrUnsupportedContent :: go_error where
  "ErrUnsupportedContent = Sentinel ''unsupported content''"

record support =
  su_audio :: bool
  su_audio_formats :: "string list option"
  su_document_data :: bool
  su_document_url :: bool

definition where_part :: "string \<Rightarrow> nat \<Rightarrow> nat \<Rightarrow> string" where
  "where_part provider i j =
     error_text (Errorf ''%s: message %d part %d'' [FStr provider, FInt (int i), FInt (int j)])"

text \<open>One part of the walk: \<open>None\<close> when it can be sent.\<close>

definition check_part :: "string \<Rightarrow> support \<Rightarrow> content_part \<Rightarrow> go_error option" where
  "check_part loc s p =
     (if cp_type p = ContentAudio then
        (if \<not> su_audio s then Some (Errorf ''%s: audio input: %w'' [FStr loc, FWrap ErrUnsupportedContent])
         else if cp_data p = [] \<or> cp_media_type p = [] then
           Some (Errorf ''%s: audio part needs Data and MediaType'' [FStr loc])
         else case su_audio_formats s of
             None \<Rightarrow> None
           | Some formats \<Rightarrow>
               if cp_media_type p \<in> set formats then None
               else Some (Errorf ''%s: audio format %q (supported: %s): %w''
                 [FStr loc, FStr (cp_media_type p), FStr (Join formats '', ''), FWrap ErrUnsupportedContent]))
      else if cp_type p = ContentDocument then
        (if cp_data p \<noteq> [] then
           (if \<not> su_document_data s then
              Some (Errorf ''%s: document input: %w'' [FStr loc, FWrap ErrUnsupportedContent])
            else if cp_media_type p = [] then Some (Errorf ''%s: document part needs a MediaType'' [FStr loc])
            else None)
         else if cp_url p \<noteq> [] then
           (if \<not> su_document_url s then
              Some (Errorf ''%s: document by URL (send the data inline instead): %w''
                [FStr loc, FWrap ErrUnsupportedContent])
            else None)
         else Some (Errorf ''%s: document part needs Data or URL'' [FStr loc]))
      else None)"

fun first_some :: "'a option list \<Rightarrow> 'a option" where
  "first_some [] = None"
| "first_some (x # xs) = (case x of Some a \<Rightarrow> Some a | None \<Rightarrow> first_some xs)"

definition positions :: "completion_request \<Rightarrow> (nat \<times> nat \<times> content_part) list" where
  "positions req = concat (map (\<lambda>(i, m). map (\<lambda>(j, p). (i, j, p)) (List.enumerate 0 (msg_parts m)))
     (List.enumerate 0 (req_messages req)))"

definition CheckParts :: "string \<Rightarrow> completion_request \<Rightarrow> support \<Rightarrow> go_error option" where
  "CheckParts provider req s =
     first_some (map (\<lambda>(i, j, p). check_part (where_part provider i j) s p) (positions req))"

lemma first_some_None: "first_some xs = None \<longleftrightarrow> list_all (\<lambda>x. x = None) xs"
  by (induction xs) (auto split: option.splits)

text \<open>Nothing is sent that the provider cannot carry.\<close>

lemma CheckParts_None:
  "CheckParts provider req s = None \<longleftrightarrow>
     list_all (\<lambda>(i, j, p). check_part (where_part provider i j) s p = None) (positions req)"
  by (auto simp: CheckParts_def first_some_None list_all_iff)

lemma check_part_text: "cp_type p = ContentText \<or> cp_type p = ContentImage \<Longrightarrow> check_part loc s p = None"
  by (auto simp: check_part_def)

section \<open>Data URIs\<close>

definition DataURI :: "string \<Rightarrow> string \<Rightarrow> string" where
  "DataURI mediaType data = ''data:'' @ mediaType @ '';base64,'' @ data"

definition Filename :: "string \<Rightarrow> nat \<Rightarrow> string" where
  "Filename name n = (if name \<noteq> [] then name else ''document-'' @ int_dec (int n))"

text \<open>\<open>b64\<close> is \<open>base64.StdEncoding\<close>, \<open>None\<close> for an input that is not base64.\<close>

definition DecodeText :: "(string \<Rightarrow> string option) \<Rightarrow> string \<Rightarrow> string" where
  "DecodeText b64 data = (case b64 data of None \<Rightarrow> data | Some t \<Rightarrow> t)"

text \<open>The media type, the payload, the URL, and whether the reference is base64 data.\<close>

definition ParseImageURL :: "string \<Rightarrow> string \<times> string \<times> string \<times> bool" where
  "ParseImageURL s =
     (if \<not> HasPrefix s ''data:'' then ([], [], s, False)
      else
        let rest = TrimPrefix s ''data:'' in
        case IndexByte rest (CHR '','') of
          None \<Rightarrow> ([], [], s, False)
        | Some comma \<Rightarrow>
            let meta = take comma rest; payload = drop (comma + 1) rest in
            if \<not> Contains meta ''base64'' then ([], [], s, False)
            else (TrimSuffix meta '';base64'', payload, [], True))"

definition ImageFormat :: "string \<Rightarrow> string" where
  "ImageFormat mediaType =
     (if \<not> HasPrefix mediaType ''image/'' then [] else TrimPrefix mediaType ''image/'')"

text \<open>Data written as a URI, by \<open>DataURI\<close> or by \<open>ImageBase64Part\<close>, is read back.\<close>

lemma ParseImageURL_DataURI:
  assumes "CHR '','' \<notin> set mt"
  shows "ParseImageURL (DataURI mt data) = (mt, data, [], True)"
proof -
  have i: "IndexByte (mt @ '';base64,'' @ data) (CHR '','') = Some (length (mt @ '';base64''))"
    using assms by (simp add: IndexByte_def takeWhile_append)
  have "Contains (mt @ '';base64'') ''base64''"
    unfolding Contains_iff_sublist by (intro exI [of _ "mt @ '';''"] exI [of _ "[]"]) simp
  moreover have "TrimSuffix (mt @ '';base64'') '';base64'' = mt" by (rule TrimSuffix_append)
  moreover have "TrimPrefix (DataURI mt data) ''data:'' = mt @ '';base64,'' @ data"
    "HasPrefix (DataURI mt data) ''data:''"
    by (simp_all only: DataURI_def TrimPrefix_append HasPrefix_append)
  ultimately show ?thesis using i by (simp add: ParseImageURL_def Let_def)
qed

lemma ImageBase64Part_URI: "cp_image_url (ImageBase64Part data mt) = DataURI mt data"
  by (simp add: ImageBase64Part_def DataURI_def zero_part_def)

end
