(* ===== verification/Compat_Provider.thy ===== *)
theory Compat_Provider
  imports Transport Media_Parts Wire_Framing Tool_Loop "HOL-Library.List_Lexorder" "HOL-Library.Product_Lexorder"
begin

text \<open>
  The OpenAI-compatible provider (\<open>llm/compat\<close>) that two dozen of the providers configure:
  the request it builds (\<open>buildRequestBody\<close>, \<open>convertMessages\<close>, \<open>enforceStrictSchema\<close>), the
  response it parses and the stream it reads. The wire types of \<open>types.go\<close> are records; a
  pointer or an \<open>omitempty\<close> field that is absent is \<open>None\<close> or empty.

  What is not under the repository is a parameter: \<open>transport\<close> sends a request and returns the
  status, the \<open>Retry-After\<close> the headers ask for and the body; \<open>codec\<close> decodes JSON bodies and
  chunks. A streamed body is the text a \<open>sse\<close> scanner reads.
\<close>

section \<open>Wire types\<close>

datatype ReasoningStyle = ReasoningStyleObject | ReasoningStyleEffortField

record compat_config =
  cc_name :: string
  cc_style :: ReasoningStyle

record wire_part =
  wp_type :: string
  wp_text :: string
  wp_image_url :: "string option"
  wp_input_audio :: "(string \<times> string) option"
  wp_file :: "(string \<times> string) option"

datatype wire_content = WText string | WParts "wire_part list"

record wire_call =
  wc_id :: string
  wc_type :: string
  wc_name :: string
  wc_arguments :: string
  wc_metadata :: "(string \<times> string) list"

record wire_message =
  wm_role :: string
  wm_content :: wire_content
  wm_tool_call_id :: string
  wm_tool_calls :: "wire_call list"

record wire_usage =
  wu_prompt :: int
  wu_completion :: int
  wu_total :: int
  wu_cached :: "int option"
  wu_reasoning :: "int option"

record wire_annotation =
  wa_type :: string
  wa_url_citation :: "(string \<times> string \<times> int \<times> int) option"

record wire_choice =
  ch_content :: string
  ch_tool_calls :: "wire_call list"
  ch_reasoning_content :: string
  ch_reasoning :: string
  ch_annotations :: "wire_annotation list"
  ch_finish :: string

record wire_response =
  wr_model :: string
  wr_choices :: "wire_choice list"
  wr_usage :: wire_usage
  wr_citations :: "string list"

record stream_call =
  sc_index :: int
  sc_id :: string
  sc_name :: string
  sc_arguments :: string
  sc_metadata :: "(string \<times> string) list"

record stream_choice =
  sd_content :: string
  sd_tool_calls :: "stream_call list"
  sd_reasoning_content :: string
  sd_reasoning :: string
  sd_finish :: string

record stream_chunk =
  sk_choices :: "stream_choice list"
  sk_usage :: "wire_usage option"

section \<open>Requests\<close>

definition audio_formats :: "(string \<times> string) list" where
  "audio_formats = [(''audio/wav'', ''wav''), (''audio/x-wav'', ''wav''), (''audio/wave'', ''wav''),
     (''audio/mpeg'', ''mp3''), (''audio/mp3'', ''mp3'')]"

definition media_support :: support where
  "media_support = \<lparr>su_audio = True, su_audio_formats = Some (map fst audio_formats),
     su_document_data = True, su_document_url = False\<rparr>"

definition zero_wire_part :: wire_part where
  "zero_wire_part = \<lparr>wp_type = [], wp_text = [], wp_image_url = None, wp_input_audio = None, wp_file = None\<rparr>"

text \<open>The switch on a part's type; a type it does not name is dropped.\<close>

definition convert_part :: "nat \<Rightarrow> content_part \<Rightarrow> wire_part option" where
  "convert_part n p =
     (if cp_type p = ''text'' then Some (zero_wire_part\<lparr>wp_type := ''text'', wp_text := cp_text p\<rparr>)
      else if cp_type p = ''image'' then
        Some (zero_wire_part\<lparr>wp_type := ''image_url'', wp_image_url := Some (cp_image_url p)\<rparr>)
      else if cp_type p = ContentAudio then
        Some (zero_wire_part\<lparr>wp_type := ''input_audio'', wp_input_audio :=
          Some (cp_data p, case map_of audio_formats (cp_media_type p) of None \<Rightarrow> [] | Some f \<Rightarrow> f)\<rparr>)
      else if cp_type p = ContentDocument then
        Some (zero_wire_part\<lparr>wp_type := ''file'', wp_file :=
          Some (Filename (cp_filename p) (n + 1), DataURI (cp_media_type p) (cp_data p))\<rparr>)
      else None)"

definition convert_parts :: "content_part list \<Rightarrow> wire_part list" where
  "convert_parts ps =
     foldl (\<lambda>parts p. case convert_part (length parts) p of None \<Rightarrow> parts | Some w \<Rightarrow> parts @ [w]) [] ps"

definition convert_call :: "tool_call \<Rightarrow> wire_call" where
  "convert_call tc = \<lparr>wc_id = tc_id tc, wc_type = ''function'', wc_name = tc_name tc,
     wc_arguments = tc_arguments tc, wc_metadata = tc_metadata tc\<rparr>"

definition convert_message :: "message \<Rightarrow> wire_message" where
  "convert_message m =
     \<lparr>wm_role = msg_role m,
      wm_content = (if msg_parts m \<noteq> [] then WParts (convert_parts (msg_parts m)) else WText (msg_content m)),
      wm_tool_call_id = msg_tool_call_id m,
      wm_tool_calls = map convert_call (msg_tool_calls m)\<rparr>"

definition convertMessages :: "completion_request \<Rightarrow> wire_message list" where
  "convertMessages req =
     (if req_system req \<noteq> [] then
        [\<lparr>wm_role = ''system'', wm_content = WText (req_system req), wm_tool_call_id = [], wm_tool_calls = []\<rparr>]
      else []) @ map convert_message (req_messages req)"

datatype wire_choice_mode = ChoiceMode string | ChoiceFunction string

definition convertToolChoice :: "tool_choice option \<Rightarrow> wire_choice_mode option" where
  "convertToolChoice tc =
     (case tc of None \<Rightarrow> None
      | Some c \<Rightarrow>
          if tch_mode c = ToolChoiceAuto then Some (ChoiceMode ''auto'')
          else if tch_mode c = ToolChoiceNone then Some (ChoiceMode ''none'')
          else if tch_mode c = ToolChoiceRequired then Some (ChoiceMode ''required'')
          else if tch_mode c = ToolChoiceTool then Some (ChoiceFunction (tch_name c))
          else None)"

definition hasWebSearch :: "server_tool list \<Rightarrow> bool" where
  "hasWebSearch ts = list_ex (\<lambda>t. st_type t = ServerToolWebSearch) ts"

definition firstNonEmpty :: "string list \<Rightarrow> string" where
  "firstNonEmpty vs = (case filter (\<lambda>v. v \<noteq> []) vs of [] \<Rightarrow> [] | v # _ \<Rightarrow> v)"

text \<open>The effort a request asks for, and where it goes on the wire.\<close>

definition request_effort :: "completion_request \<Rightarrow> string" where
  "request_effort req =
     (if req_effort req \<noteq> [] then req_effort req
      else case req_budget req of None \<Rightarrow> []
      | Some b \<Rightarrow> if b \<le> 1024 then ''low'' else if b \<ge> 16384 then ''high'' else ''medium'')"

section \<open>Strict schemas\<close>

text \<open>
  \<open>strictify\<close> on the entries of a JSON object. The Go map is mutated in place; here each
  assignment is an update of the association list. \<open>makeNullable\<close> is the switch on the
  dynamic type of \<open>"type"\<close>.
\<close>

type_synonym entries = "(string \<times> json) list"

definition add_null_enum :: "entries \<Rightarrow> entries" where
  "add_null_enum p = (case map_of p ''enum'' of
     Some (JArr es) \<Rightarrow> AList.update ''enum'' (JArr (es @ [JNull])) p | _ \<Rightarrow> p)"

definition makeNullable :: "entries \<Rightarrow> entries" where
  "makeNullable p =
     (case map_of p ''type'' of
        Some (JStr t) \<Rightarrow>
          add_null_enum (if t \<noteq> ''null'' then AList.update ''type'' (JArr [JStr t, JStr ''null'']) p else p)
      | Some (JArr ts) \<Rightarrow>
          if JStr ''null'' \<in> set ts then p
          else add_null_enum (AList.update ''type'' (JArr (ts @ [JStr ''null''])) p)
      | _ \<Rightarrow> p)"

fun str_of :: "json \<Rightarrow> string list" where
  "str_of (JStr s) = [s]"
| "str_of _ = []"

definition required_names :: "entries \<Rightarrow> string list" where
  "required_names s = (case map_of s ''required'' of Some (JArr rs) \<Rightarrow> concat (map str_of rs) | _ \<Rightarrow> [])"

fun obj_of :: "json option \<Rightarrow> entries option" where
  "obj_of (Some (JObj kvs)) = Some kvs"
| "obj_of _ = None"

fun jsize :: "json \<Rightarrow> nat" where
  "jsize (JArr js) = Suc (sum_list (map jsize js))"
| "jsize (JObj kvs) = Suc (sum_list (map (\<lambda>kv. Suc (jsize (snd kv))) kvs))"
| "jsize _ = 1"

definition esize :: "entries \<Rightarrow> nat" where
  "esize kvs = sum_list (map (\<lambda>kv. Suc (jsize (snd kv))) kvs)"

lemma esize_member: "(k, j) \<in> set kvs \<Longrightarrow> jsize j < esize kvs"
  unfolding esize_def using sum_list_map_le_mono [of "(k, j)" kvs "\<lambda>kv. Suc (jsize (snd kv))"] by simp

lemma obj_of_Some: "obj_of x = Some kvs \<longleftrightarrow> x = Some (JObj kvs)"
  by (cases x rule: obj_of.cases) auto

lemma obj_of_size: "obj_of (map_of kvs k) = Some p \<Longrightarrow> esize p < esize kvs"
  unfolding obj_of_Some using esize_member [of k "JObj p" kvs]
  by (auto dest!: map_of_SomeD simp: esize_def)

function strictify :: "entries \<Rightarrow> entries"
  and strict_props :: "string list \<Rightarrow> entries \<Rightarrow> entries" where
  "strictify s =
     (let s1 = (case obj_of (map_of s ''items'') of
           None \<Rightarrow> s | Some items \<Rightarrow> AList.update ''items'' (JObj (strictify items)) s) in
      case obj_of (map_of s ''additionalProperties'') of
        Some ap \<Rightarrow> AList.update ''additionalProperties'' (JObj (strictify ap)) s1
      | None \<Rightarrow>
          (case obj_of (map_of s ''properties'') of
             None \<Rightarrow>
               if map_of s ''type'' \<noteq> Some (JStr ''object'') then s1
               else AList.update ''required'' (JArr [])
                 (AList.update ''additionalProperties'' (JBool False) s1)
           | Some props \<Rightarrow>
               AList.update ''required'' (JArr (map JStr (sort (map fst props))))
                 (AList.update ''properties'' (JObj (strict_props (required_names s) props))
                   (AList.update ''additionalProperties'' (JBool False) s1))))"
| "strict_props required [] = []"
| "strict_props required ((name, JObj p) # props) =
     (name, JObj (if name \<in> set required then strictify p else makeNullable (strictify p)))
       # strict_props required props"
| "strict_props required ((name, JNull) # props) = (name, JNull) # strict_props required props"
| "strict_props required ((name, JBool b) # props) = (name, JBool b) # strict_props required props"
| "strict_props required ((name, JNum x) # props) = (name, JNum x) # strict_props required props"
| "strict_props required ((name, JStr x) # props) = (name, JStr x) # strict_props required props"
| "strict_props required ((name, JArr x) # props) = (name, JArr x) # strict_props required props"
  by pat_completeness auto
termination
  by (relation "measure (\<lambda>x. case x of Inl s \<Rightarrow> esize s | Inr (_, ps) \<Rightarrow> esize ps)")
    (auto dest: obj_of_size simp: esize_def)

declare strictify.simps [simp del]

text \<open>\<open>enforceStrictSchema\<close>: bytes that are not a JSON object come back unchanged.\<close>

fun enforceStrictSchema :: "raw_json \<Rightarrow> raw_json" where
  "enforceStrictSchema (RawJson (JObj s)) = RawJson (JObj (strictify s))"
| "enforceStrictSchema (RawJson JNull) = RawJson JNull"
| "enforceStrictSchema raw = raw"

section \<open>The request body\<close>

datatype wire_format = FormatSchema raw_json | FormatObject

record wire_request =
  wq_model :: string
  wq_messages :: "wire_message list"
  wq_temperature :: "rat option"
  wq_max_tokens :: "int option"
  wq_top_p :: "rat option"
  wq_freq_penalty :: "rat option"
  wq_pres_penalty :: "rat option"
  wq_stop :: "string list"
  wq_seed :: "int option"
  wq_stream :: bool
  wq_tools :: "tool_definition list"
  wq_tool_choice :: "wire_choice_mode option"
  wq_format :: "wire_format option"
  wq_reasoning :: "string option"
  wq_reasoning_effort :: string
  wq_web_search :: bool

definition buildRequestBody :: "compat_config \<Rightarrow> completion_request \<Rightarrow> bool \<Rightarrow> go_error + wire_request" where
  "buildRequestBody cfg req stream =
     (case CheckParts (cc_name cfg) req media_support of
        Some e \<Rightarrow> Inl e
      | None \<Rightarrow>
          let effort = request_effort req; field = cc_style cfg = ReasoningStyleEffortField in
          Inr \<lparr>wq_model = req_model req, wq_messages = convertMessages req,
            wq_temperature = req_temperature req, wq_max_tokens = req_max_tokens req,
            wq_top_p = req_top_p req, wq_freq_penalty = req_freq_penalty req,
            wq_pres_penalty = req_pres_penalty req, wq_stop = req_stop req, wq_seed = req_seed req,
            wq_stream = stream, wq_tools = req_tools req,
            wq_tool_choice = convertToolChoice (req_tool_choice req),
            wq_format =
              (if \<not> raw_empty (req_output_schema req) then
                 Some (FormatSchema (enforceStrictSchema (req_output_schema req)))
               else if req_response_format req = ''json_object'' then Some FormatObject
               else None),
            wq_reasoning =
              (if effort \<noteq> [] \<and> \<not> field \<and> (Requested (req_effort req) \<or> req_budget req \<noteq> None)
               then Some effort else None),
            wq_reasoning_effort = (if effort \<noteq> [] \<and> field then effort else []),
            wq_web_search = hasWebSearch (req_server_tools req)\<rparr>)"

section \<open>Responses\<close>

definition toUsage :: "wire_usage \<Rightarrow> token_usage" where
  "toUsage u = zero_usage\<lparr>prompt_tokens := wu_prompt u, completion_tokens := wu_completion u,
     total_tokens := wu_total u,
     cached_tokens := (case wu_cached u of None \<Rightarrow> 0 | Some n \<Rightarrow> n),
     reasoning_tokens := (case wu_reasoning u of None \<Rightarrow> 0 | Some n \<Rightarrow> n)\<rparr>"

definition parse_call :: "wire_call \<Rightarrow> tool_call" where
  "parse_call c = \<lparr>tc_id = wc_id c, tc_name = wc_name c, tc_arguments = wc_arguments c, tc_metadata = wc_metadata c\<rparr>"

definition zero_citation :: citation where
  "zero_citation = \<lparr>cit_url = [], cit_title = [], cit_snippet = [], cit_start = 0, cit_end = 0\<rparr>"

definition parse_annotation :: "wire_annotation \<Rightarrow> citation list" where
  "parse_annotation a =
     (case wa_url_citation a of
        Some (url, title, s, e) \<Rightarrow>
          if wa_type a = ''url_citation''
          then [zero_citation\<lparr>cit_url := url, cit_title := title, cit_start := s, cit_end := e\<rparr>] else []
      | None \<Rightarrow> [])"

definition parseResponse :: "wire_response \<Rightarrow> completion_response" where
  "parseResponse resp =
     (let base = zero_response\<lparr>resp_model := wr_model resp, resp_usage := toUsage (wr_usage resp)\<rparr>;
          first = (case wr_choices resp of
             [] \<Rightarrow> base
           | c # _ \<Rightarrow> base\<lparr>resp_content := ch_content c,
               resp_thinking := firstNonEmpty [ch_reasoning_content c, ch_reasoning c],
               resp_finish := ch_finish c,
               resp_tool_calls := map parse_call (ch_tool_calls c),
               resp_citations := concat (map parse_annotation (ch_annotations c))\<rparr>)
      in first\<lparr>resp_citations := resp_citations first @
           map (\<lambda>u. zero_citation\<lparr>cit_url := u\<rparr>) (wr_citations resp)\<rparr>)"

record compat_codec =
  cd_response :: "string \<Rightarrow> go_error + wire_response"
  cd_chunk :: "string \<Rightarrow> go_error + stream_chunk"
  cd_error :: "string \<Rightarrow> string option"

definition doRequest :: "compat_config \<Rightarrow> compat_codec \<Rightarrow> (wire_request, 'w) transport \<Rightarrow> wire_request \<Rightarrow> 'w
    \<Rightarrow> (go_error + http_reply) \<times> 'w" where
  "doRequest cfg cd post body w = send_request (cc_name cfg) (cd_error cd) post body w"

definition compat_Complete :: "compat_config \<Rightarrow> compat_codec \<Rightarrow> (wire_request, 'w) transport \<Rightarrow> 'w complete_fn" where
  "compat_Complete cfg cd post req w =
     (case buildRequestBody cfg req False of
        Inl e \<Rightarrow> (Inl e, w)
      | Inr body \<Rightarrow>
          (case doRequest cfg cd post body w of
             (Inl e, w') \<Rightarrow> (Inl e, w')
           | (Inr r, w') \<Rightarrow>
               (case hr_fail r of
                  Some e \<Rightarrow> Inl (Errorf ''%s: failed to read response: %w'' [FStr (cc_name cfg), FWrap e])
                | None \<Rightarrow>
                    (case cd_response cd (hr_body r) of
                       Inl e \<Rightarrow> Inl (Errorf ''%s: failed to parse response: %w'' [FStr (cc_name cfg), FWrap e])
                     | Inr resp \<Rightarrow> Inr (parseResponse resp)), w')))"

section \<open>Streams\<close>

text \<open>
  One fragment of a tool call: the pending calls are padded up to its index, which the Go code
  then uses as it is, so a negative one panics (\<open>None\<close>).
\<close>

definition merge_call :: "tool_call \<Rightarrow> stream_call \<Rightarrow> tool_call" where
  "merge_call p tc =
     p\<lparr>tc_id := (if sc_id tc \<noteq> [] then sc_id tc else tc_id p),
       tc_name := (if sc_name tc \<noteq> [] then sc_name tc else tc_name p),
       tc_metadata := (if sc_metadata tc \<noteq> [] then sc_metadata tc else tc_metadata p),
       tc_arguments := tc_arguments p @ sc_arguments tc\<rparr>"

definition add_fragment :: "tool_call list \<Rightarrow> stream_call \<Rightarrow> tool_call list option" where
  "add_fragment pending tc =
     (if sc_index tc < 0 then None
      else
        let i = nat (sc_index tc);
            padded = pending @ replicate (i + 1 - length pending) zero_call
        in Some (padded[i := merge_call (padded ! i) tc]))"

definition fragment_event :: "stream_call \<Rightarrow> stream_event" where
  "fragment_event tc = delta_event \<lparr>tcd_index = sc_index tc, tcd_id = sc_id tc, tcd_name = sc_name tc,
     tcd_arguments = sc_arguments tc\<rparr>"

text \<open>The fragments of a chunk: the events sent, and the pending calls unless it panicked.\<close>

fun add_fragments :: "tool_call list \<Rightarrow> stream_call list \<Rightarrow> stream_event list \<times> tool_call list option" where
  "add_fragments pending [] = ([], Some pending)"
| "add_fragments pending (tc # tcs) =
     (case add_fragment pending tc of
        None \<Rightarrow> ([], None)
      | Some p \<Rightarrow> (case add_fragments p tcs of (evs, r) \<Rightarrow> (fragment_event tc # evs, r)))"

definition flush_calls :: "tool_call list \<Rightarrow> stream_event list" where
  "flush_calls pending = map tool_call_event pending @ [done_event]"

definition chunk_text :: "stream_choice \<Rightarrow> stream_event list" where
  "chunk_text d =
     (let r = firstNonEmpty [sd_reasoning_content d, sd_reasoning d] in
      (if r \<noteq> [] then [reasoning_event r] else []) @
      (if sd_content d \<noteq> [] then [content_event (sd_content d)] else []))"

definition chunk_usage :: "stream_chunk \<Rightarrow> stream_choice \<Rightarrow> stream_event list" where
  "chunk_usage k d =
     (if sd_finish d = ''stop'' \<or> sd_finish d = ''tool_calls''
      then (case sk_usage k of None \<Rightarrow> [] | Some u \<Rightarrow> [usage_event (toUsage u)]) else [])"

text \<open>
  \<open>readStream\<close>: the events sent, and whether the goroutine panicked. \<open>stop i\<close> says whether the
  context is done when the loop polls it for the \<open>i\<close>-th time.
\<close>

function read_loop :: "string \<Rightarrow> (string \<Rightarrow> go_error + stream_chunk) \<Rightarrow> (nat \<Rightarrow> bool) \<Rightarrow> nat \<Rightarrow> tool_call list
    \<Rightarrow> scanner \<Rightarrow> stream_event list \<times> bool" where
  "read_loop name decode stop i pending s =
     (if stop i then ([], False)
      else case sse_Next s of
          (None, s') \<Rightarrow>
            ((case sse_Err s' of
                Some e \<Rightarrow> [error_event (Errorf ''%s: stream read error: %w'' [FStr name, FWrap e])]
              | None \<Rightarrow> flush_calls pending), False)
        | (Some ev, s') \<Rightarrow>
            if se_data ev = ''[DONE]'' then (flush_calls pending, False)
            else (case decode (se_data ev) of
                Inl e \<Rightarrow> ([error_event (Errorf ''%s: failed to parse stream chunk: %w'' [FStr name, FWrap e])], False)
              | Inr k \<Rightarrow>
                  (case sk_choices k of
                     [] \<Rightarrow> read_loop name decode stop (i + 1) pending s'
                   | d # _ \<Rightarrow>
                       (case add_fragments pending (sd_tool_calls d) of
                          (evs, None) \<Rightarrow> (chunk_text d @ evs, True)
                        | (evs, Some p) \<Rightarrow>
                            emit_first (chunk_text d @ evs @ chunk_usage k d)
                              (read_loop name decode stop (i + 1) p s')))))"
  by pat_completeness auto
termination
  by (relation "measure (\<lambda>(_, _, _, _, _, s). length (sc_rest s))") (auto dest: sse_Next_shrinks [OF sym])

declare read_loop.simps [simp del]

definition readStream :: "compat_config \<Rightarrow> compat_codec \<Rightarrow> (nat \<Rightarrow> bool) \<Rightarrow> http_reply \<Rightarrow> stream_event list \<times> bool" where
  "readStream cfg cd stop r = read_loop (cc_name cfg) (cd_chunk cd) stop 0 [] (NewReader (hr_body r) (hr_fail r))"

definition compat_Stream :: "compat_config \<Rightarrow> compat_codec \<Rightarrow> (nat \<Rightarrow> bool) \<Rightarrow> (wire_request, 'w) transport \<Rightarrow> 'w stream_fn" where
  "compat_Stream cfg cd stop post req w =
     (case buildRequestBody cfg req True of
        Inl e \<Rightarrow> (Inl e, w)
      | Inr body \<Rightarrow>
          (case doRequest cfg cd post body w of
             (Inl e, w') \<Rightarrow> (Inl e, w')
           | (Inr r, w') \<Rightarrow> (Inr (fst (readStream cfg cd stop r)), w')))"

end
