(* ===== verification/Compat_Properties.thy ===== *)
theory Compat_Properties
  imports Compat_Provider
begin

text \<open>
  What the OpenAI-compatible provider promises: the events of a stream assemble to the
  response the chunks carry, whatever the framing and the interleaving of the tool calls'
  fragments; tool calls are replayed as they were received; strict schemas are strict at
  every object.
\<close>

section \<open>Fragments\<close>

definition grow :: "tool_call list \<Rightarrow> stream_call \<Rightarrow> tool_call list" where
  "grow pending tc =
     (let i = nat (sc_index tc); padded = pending @ replicate (i + 1 - length pending) zero_call
      in padded[i := merge_call (padded ! i) tc])"

lemma add_fragments_grow:
  "list_all (\<lambda>tc. 0 \<le> sc_index tc) tcs \<Longrightarrow>
   add_fragments pending tcs = (map fragment_event tcs, Some (foldl grow pending tcs))"
  by (induction tcs arbitrary: pending) (simp_all add: add_fragment_def grow_def Let_def not_less [symmetric])

text \<open>The call at position \<open>i\<close> of all fragments, and the number of calls.\<close>

definition last_given :: "'a list list \<Rightarrow> 'a list" where
  "last_given xs = (case rev (filter (\<lambda>x. x \<noteq> []) xs) of [] \<Rightarrow> [] | x # _ \<Rightarrow> x)"

definition call_of :: "stream_call list \<Rightarrow> nat \<Rightarrow> tool_call" where
  "call_of fs i = (let gs = filter (\<lambda>f. nat (sc_index f) = i) fs in
     \<lparr>tc_id = last_given (map sc_id gs), tc_name = last_given (map sc_name gs),
      tc_arguments = concat (map sc_arguments gs), tc_metadata = last_given (map sc_metadata gs)\<rparr>)"

lemma last_given_simps: "last_given [] = []" "last_given (xs @ [x]) = (if x = [] then last_given xs else x)"
  by (simp_all add: last_given_def)

definition calls_width :: "stream_call list \<Rightarrow> nat" where
  "calls_width fs = fold (\<lambda>f n. max n (nat (sc_index f) + 1)) fs 0"

lemma calls_width_snoc: "calls_width (fs @ [f]) = max (calls_width fs) (nat (sc_index f) + 1)"
  by (simp add: calls_width_def)

lemma call_of_snoc:
  "call_of (fs @ [f]) i = (if nat (sc_index f) = i then merge_call (call_of fs i) f else call_of fs i)"
  by (simp add: call_of_def Let_def merge_call_def last_given_simps)

lemma index_below_width: "f \<in> set fs \<Longrightarrow> nat (sc_index f) < calls_width fs"
  by (induction fs rule: rev_induct) (auto simp: calls_width_snoc)

lemma call_of_beyond: "calls_width fs \<le> i \<Longrightarrow> call_of fs i = zero_call"
proof -
  assume "calls_width fs \<le> i"
  then have "filter (\<lambda>f. nat (sc_index f) = i) fs = []"
    using index_below_width by (fastforce simp: filter_empty_conv)
  then show ?thesis by (simp add: call_of_def last_given_simps zero_call_def)
qed

lemma grow_calls: "foldl grow [] fs = map (call_of fs) [0..<calls_width fs]"
proof (induction fs rule: rev_induct)
  case Nil
  then show ?case by (simp add: calls_width_def)
next
  case (snoc f fs)
  let ?i = "nat (sc_index f)" and ?n = "calls_width fs"
  let ?m = "max ?n (?i + 1)"
  have pad: "map (call_of fs) [0..<?n] @ replicate (?i + 1 - ?n) zero_call = map (call_of fs) [0..<?m]"
    by (rule nth_equalityI) (auto simp: nth_append call_of_beyond)
  have "foldl grow [] (fs @ [f]) = (map (call_of fs) [0..<?m])[?i := merge_call (call_of fs ?i) f]"
    by (simp add: snoc.IH grow_def Let_def pad [simplified])
  also have "\<dots> = map (call_of (fs @ [f])) [0..<?m]"
    by (rule nth_equalityI) (auto simp: call_of_snoc nth_list_update)
  finally show ?case by (simp add: calls_width_snoc)
qed

section \<open>Streams\<close>

definition fragments :: "stream_chunk list \<Rightarrow> stream_call list" where
  "fragments ks = concat (map (\<lambda>k. case sk_choices k of [] \<Rightarrow> [] | d # _ \<Rightarrow> sd_tool_calls d) ks)"

definition deltas :: "stream_chunk list \<Rightarrow> stream_choice list" where
  "deltas ks = concat (map (\<lambda>k. take 1 (sk_choices k)) ks)"

definition chunk_events :: "stream_chunk \<Rightarrow> stream_event list" where
  "chunk_events k = (case sk_choices k of [] \<Rightarrow> []
     | d # _ \<Rightarrow> chunk_text d @ map fragment_event (sd_tool_calls d) @ chunk_usage k d)"

definition reports :: "stream_chunk list \<Rightarrow> token_usage list" where
  "reports ks = concat (map (\<lambda>k. case sk_choices k of [] \<Rightarrow> []
     | d # _ \<Rightarrow> if sd_finish d = ''stop'' \<or> sd_finish d = ''tool_calls''
         then (case sk_usage k of None \<Rightarrow> [] | Some u \<Rightarrow> [toUsage u]) else []) ks)"

lemma chunk_simps:
  "sk_choices k = [] \<Longrightarrow> chunk_events k = []"
  "sk_choices k = d # ds \<Longrightarrow>
     chunk_events k = chunk_text d @ map fragment_event (sd_tool_calls d) @ chunk_usage k d"
  "sk_choices k = [] \<Longrightarrow> fragments (k # ks) = fragments ks"
  "sk_choices k = d # ds \<Longrightarrow> fragments (k # ks) = sd_tool_calls d @ fragments ks"
  by (simp_all add: chunk_events_def fragments_def)

text \<open>A body that carries the chunks \<open>ks\<close>, one event each, none of them the end marker.\<close>

definition carries :: "compat_codec \<Rightarrow> raw_event list \<Rightarrow> stream_chunk list \<Rightarrow> bool" where
  "carries cd rs ks \<longleftrightarrow> list_all2 (\<lambda>r k. raw_event_ok r \<and> se_data (raw_event_view r) \<noteq> ''[DONE]'' \<and>
     cd_chunk cd (se_data (raw_event_view r)) = Inr k \<and>
     list_all (\<lambda>d. list_all (\<lambda>tc. 0 \<le> sc_index tc) (sd_tool_calls d)) (sk_choices k)) rs ks"

lemma read_loop_carries:
  assumes "carries cd rs ks" "\<And>j. i \<le> j \<Longrightarrow> j < i + length rs \<Longrightarrow> \<not> stop j"
  shows "read_loop name (cd_chunk cd) stop i pending (NewReader (concat (map raw_event_wire rs) @ tail) fail) =
    emit_first (concat (map chunk_events ks))
      (read_loop name (cd_chunk cd) stop (i + length rs) (foldl grow pending (fragments ks)) (NewReader tail fail))"
  using assms unfolding carries_def
proof (induction rs ks arbitrary: i pending rule: list_all2_induct)
  case Nil
  then show ?case by (simp add: fragments_def emit_first_def)
next
  case (Cons r rs k ks)
  have s: "sse_Next (NewReader (concat (map raw_event_wire (r # rs)) @ tail) fail) =
      (Some (raw_event_view r), NewReader (concat (map raw_event_wire rs) @ tail) fail)"
    using Cons.hyps sse_Next_raw [of r "concat (map raw_event_wire rs) @ tail"] by simp
  have "\<not> stop i" using Cons.prems by simp
  moreover have "\<And>j. i + 1 \<le> j \<Longrightarrow> j < i + 1 + length rs \<Longrightarrow> \<not> stop j" using Cons.prems by simp
  note IH = Cons.IH [OF this]
  ultimately show ?case
    using Cons.hyps s
    by (subst read_loop.simps)
      (cases "sk_choices k"; simp add: IH chunk_simps emit_first_def add_fragments_grow)
qed

lemma fragment_parts:
  "text_of (map fragment_event tcs) = []" "reasoning_of (map fragment_event tcs) = []"
  "calls_of (map fragment_event tcs) = []" "citations_of (map fragment_event tcs) = []"
  "errors_of (map fragment_event tcs) = []" "usages_of (map fragment_event tcs) = []"
  by (induction tcs) (simp_all add: stream_parts_defs List.map_filter_def fragment_event_def record_defs)

lemma chunk_parts:
  "text_of (concat (map chunk_events ks)) = concat (map sd_content (deltas ks))"
  "reasoning_of (concat (map chunk_events ks)) =
     concat (map (\<lambda>d. firstNonEmpty [sd_reasoning_content d, sd_reasoning d]) (deltas ks))"
  "calls_of (concat (map chunk_events ks)) = []" "citations_of (concat (map chunk_events ks)) = []"
  "errors_of (concat (map chunk_events ks)) = []" "usages_of (concat (map chunk_events ks)) = reports ks"
proof -
  have *: "text_of (chunk_events k) = concat (map sd_content (take 1 (sk_choices k)))"
    "reasoning_of (chunk_events k) =
       concat (map (\<lambda>d. firstNonEmpty [sd_reasoning_content d, sd_reasoning d]) (take 1 (sk_choices k)))"
    "calls_of (chunk_events k) = []" "citations_of (chunk_events k) = []" "errors_of (chunk_events k) = []"
    "usages_of (chunk_events k) = reports [k]" for k
    by (cases "sk_choices k"; simp add: chunk_events_def reports_def fragment_parts chunk_text_def chunk_usage_def Let_def
        stream_parts_snoc record_defs split: option.split)+
  show "text_of (concat (map chunk_events ks)) = concat (map sd_content (deltas ks))"
    "reasoning_of (concat (map chunk_events ks)) =
     concat (map (\<lambda>d. firstNonEmpty [sd_reasoning_content d, sd_reasoning d]) (deltas ks))"
    "calls_of (concat (map chunk_events ks)) = []" "citations_of (concat (map chunk_events ks)) = []"
    "errors_of (concat (map chunk_events ks)) = []" "usages_of (concat (map chunk_events ks)) = reports ks"
    by (induction ks) (simp_all add: * deltas_def reports_def)
qed

lemma flush_parts:
  "text_of (flush_calls p) = []" "reasoning_of (flush_calls p) = []" "calls_of (flush_calls p) = p"
  "citations_of (flush_calls p) = []" "errors_of (flush_calls p) = []" "usages_of (flush_calls p) = []"
proof -
  have "text_of (map tool_call_event p) = []" "reasoning_of (map tool_call_event p) = []"
    "calls_of (map tool_call_event p) = p" "citations_of (map tool_call_event p) = []"
    "errors_of (map tool_call_event p) = []" "usages_of (map tool_call_event p) = []"
    by (induction p) (simp_all add: stream_parts_defs List.map_filter_def record_defs)
  then show "text_of (flush_calls p) = []" "reasoning_of (flush_calls p) = []" "calls_of (flush_calls p) = p"
    "citations_of (flush_calls p) = []" "errors_of (flush_calls p) = []" "usages_of (flush_calls p) = []"
    by (simp_all add: flush_calls_def stream_parts_snoc record_defs)
qed

text \<open>
  C6. A streamed answer is reassembled exactly: whatever the framing of its events (comments,
  line endings, ping events aside), and however the fragments of parallel tool calls are
  interleaved, collecting the stream gives the content and reasoning of the chunks in order
  and, at each position, the one call whose id, name and metadata were last given and whose
  arguments are the fragments for that position in order. A \<open>[DONE]\<close> marker or the plain end of
  the body end it alike.
\<close>

theorem compat_stream_reassembles:
  assumes "carries cd rs ks" "hr_body r = concat (map raw_event_wire rs) @ tail" "hr_fail r = None"
    and "tail = [] \<or> raw_event_ok e \<and> se_data (raw_event_view e) = ''[DONE]'' \<and> tail = raw_event_wire e @ rest"
  shows "CollectStream (fst (readStream cfg cd (\<lambda>_. False) r)) =
    Inr \<lparr>resp_content = concat (map sd_content (deltas ks)),
      resp_thinking = concat (map (\<lambda>d. firstNonEmpty [sd_reasoning_content d, sd_reasoning d]) (deltas ks)),
      resp_tool_calls = map (call_of (fragments ks)) [0..<calls_width (fragments ks)],
      resp_citations = [],
      resp_usage = (if reports ks = [] then zero_usage else last (reports ks)),
      resp_finish = (if fragments ks = [] then ''stop'' else ''tool_calls''), resp_model = []\<rparr>"
proof -
  let ?calls = "map (call_of (fragments ks)) [0..<calls_width (fragments ks)]"
  have "read_loop (cc_name cfg) (cd_chunk cd) (\<lambda>_. False) n p (NewReader tail None) = (flush_calls p, False)" for n p
    using assms(4) sse_Next_raw [of e rest None]
    by (auto simp: read_loop.simps sse_Next_end sse_Err_def)
  then have "fst (readStream cfg cd (\<lambda>_. False) r) = concat (map chunk_events ks) @ flush_calls ?calls"
    using read_loop_carries [OF assms(1), of 0 "\<lambda>_. False" "cc_name cfg" "[]" tail None] assms(2,3)
    by (simp add: readStream_def emit_first_def grow_calls)
  moreover have "?calls = [] \<longleftrightarrow> fragments ks = []"
    using index_below_width [of "hd (fragments ks)" "fragments ks"]
    by (cases "fragments ks") (auto simp: calls_width_def)
  ultimately show ?thesis
    by (simp add: CollectStream_eq first_error_def assembled_def last_usage_def chunk_parts flush_parts)
qed

text \<open>
  A cancelled stream is indistinguishable from a finished one: if the context ends after
  some chunks, the channel closes with no error event, so collecting it reports success with
  the text so far, finish reason \<open>stop\<close> and none of the tool calls the model was making.
\<close>

theorem compat_cancel_looks_complete:
  assumes "carries cd rs ks" "hr_body r = concat (map raw_event_wire rs) @ tail"
  shows "CollectStream (fst (readStream cfg cd (\<lambda>i. length rs \<le> i) r)) =
    Inr \<lparr>resp_content = concat (map sd_content (deltas ks)),
      resp_thinking = concat (map (\<lambda>d. firstNonEmpty [sd_reasoning_content d, sd_reasoning d]) (deltas ks)),
      resp_tool_calls = [], resp_citations = [],
      resp_usage = (if reports ks = [] then zero_usage else last (reports ks)),
      resp_finish = ''stop'', resp_model = []\<rparr>"
proof -
  have "fst (readStream cfg cd (\<lambda>i. length rs \<le> i) r) = concat (map chunk_events ks)"
    using read_loop_carries [OF assms(1), of 0 "\<lambda>i. length rs \<le> i" "cc_name cfg" "[]" tail "hr_fail r"] assms(2)
    by (simp add: readStream_def emit_first_def read_loop.simps [of _ _ _ "length rs"])
  then show ?thesis
    by (simp add: CollectStream_eq first_error_def assembled_def last_usage_def chunk_parts)
qed

text \<open>Two chunks of one answer: text, and a call in two fragments.\<close>

definition sample_chunk :: "string \<Rightarrow> string \<Rightarrow> string \<Rightarrow> stream_chunk" where
  "sample_chunk content name args =
     \<lparr>sk_choices = [\<lparr>sd_content = content,
        sd_tool_calls = [\<lparr>sc_index = 0, sc_id = name, sc_name = name, sc_arguments = args, sc_metadata = []\<rparr>],
        sd_reasoning_content = [], sd_reasoning = [], sd_finish = []\<rparr>], sk_usage = None\<rparr>"

definition sample_codec :: compat_codec where
  "sample_codec = \<lparr>cd_response = (\<lambda>s. Inl (Opaque s)),
     cd_chunk = (\<lambda>s. if s = ''1'' then Inr (sample_chunk ''Hi'' ''f'' ''{'')
       else if s = ''2'' then Inr (sample_chunk [] [] ''}'') else Inl (Opaque s)),
     cd_error = (\<lambda>s. None)\<rparr>"

definition sample_event :: "string \<Rightarrow> raw_event" where
  "sample_event data = \<lparr>re_crlf = False, re_comment = [], re_type = [], re_lines = [data]\<rparr>"

lemma sample_carries:
  "carries sample_codec [sample_event ''1'', sample_event ''2''] [sample_chunk ''Hi'' ''f'' ''{'', sample_chunk [] [] ''}'']"
  "raw_event_ok (sample_event ''[DONE]'')" "se_data (raw_event_view (sample_event ''[DONE]'')) = ''[DONE]''"
  by (simp_all add: carries_def sample_codec_def sample_event_def raw_event_ok_def raw_event_lines_def
      raw_event_view_def data_field_def line_ok_def max_token_def TrimSpace_def is_space_def sample_chunk_def)

theorem compat_stream_reassembles_witness:
  "CollectStream (fst (readStream \<lparr>cc_name = ''p'', cc_style = ReasoningStyleObject\<rparr> sample_codec (\<lambda>_. False)
     \<lparr>hr_status = 200, hr_body = concat (map raw_event_wire [sample_event ''1'', sample_event ''2'']) @
        raw_event_wire (sample_event ''[DONE]''), hr_fail = None, hr_retry_after = 0\<rparr>)) =
   Inr (zero_response\<lparr>resp_content := ''Hi'', resp_finish := ''tool_calls'',
     resp_tool_calls := [zero_call\<lparr>tc_id := ''f'', tc_name := ''f'', tc_arguments := ''{}''\<rparr>]\<rparr>)"
proof -
  let ?tail = "raw_event_wire (sample_event ''[DONE]'')"
  let ?r = "\<lparr>hr_status = 200, hr_body = concat (map raw_event_wire [sample_event ''1'', sample_event ''2'']) @ ?tail,
    hr_fail = None, hr_retry_after = 0\<rparr>"
  have t: "?tail = [] \<or> raw_event_ok (sample_event ''[DONE]'') \<and> se_data (raw_event_view (sample_event ''[DONE]'')) = ''[DONE]''
      \<and> ?tail = raw_event_wire (sample_event ''[DONE]'') @ []"
    using sample_carries by simp
  have b: "hr_body ?r = concat (map raw_event_wire [sample_event ''1'', sample_event ''2'']) @ ?tail" "hr_fail ?r = None"
    by simp_all
  show ?thesis
    using compat_stream_reassembles [OF sample_carries(1) b t, where cfg = "\<lparr>cc_name = ''p'', cc_style = ReasoningStyleObject\<rparr>"]
    by (simp add: deltas_def fragments_def sample_chunk_def calls_width_def call_of_def last_given_def reports_def record_defs firstNonEmpty_def)
qed

theorem compat_cancel_looks_complete_witness:
  "CollectStream (fst (readStream \<lparr>cc_name = ''p'', cc_style = ReasoningStyleObject\<rparr> sample_codec (\<lambda>i. 2 \<le> i)
     \<lparr>hr_status = 200, hr_body = concat (map raw_event_wire [sample_event ''1'', sample_event ''2'']) @
        raw_event_wire (sample_event ''[DONE]''), hr_fail = None, hr_retry_after = 0\<rparr>)) =
   Inr (zero_response\<lparr>resp_content := ''Hi'', resp_finish := ''stop''\<rparr>)"
proof -
  let ?tail = "raw_event_wire (sample_event ''[DONE]'')"
  let ?r = "\<lparr>hr_status = 200, hr_body = concat (map raw_event_wire [sample_event ''1'', sample_event ''2'']) @ ?tail,
    hr_fail = None, hr_retry_after = 0\<rparr>"
  have "hr_body ?r = concat (map raw_event_wire [sample_event ''1'', sample_event ''2'']) @ ?tail"
    by simp
  then show ?thesis
    using compat_cancel_looks_complete [OF sample_carries(1), where r = ?r and tail = ?tail and cfg = "\<lparr>cc_name = ''p'', cc_style = ReasoningStyleObject\<rparr>"]
    by (simp add: deltas_def sample_chunk_def reports_def record_defs firstNonEmpty_def numeral_2_eq_2)
qed

section \<open>Replaying tool calls\<close>

text \<open>
  What a model asked for is replayed to it unchanged: the assistant turn an agent appends
  for a response carries, on the next request, the calls of the response with their ids, names,
  argument text and provider metadata, and its text; and the tool's answer refers to the call's
  id.
\<close>

theorem compat_tool_calls_round_trip:
  "convertMessages (req\<lparr>req_messages := req_messages req @
      [assistant_turn (parseResponse resp), tool_msg out (tc_id call)]\<rparr>) =
   convertMessages req @
     [\<lparr>wm_role = ''assistant'',
        wm_content = WText (case wr_choices resp of [] \<Rightarrow> [] | c # _ \<Rightarrow> ch_content c),
        wm_tool_call_id = [],
        wm_tool_calls = (case wr_choices resp of [] \<Rightarrow> []
          | c # _ \<Rightarrow> map (\<lambda>tc. tc\<lparr>wc_type := ''function''\<rparr>) (ch_tool_calls c))\<rparr>,
      \<lparr>wm_role = ''tool'', wm_content = WText out, wm_tool_call_id = tc_id call, wm_tool_calls = []\<rparr>]"
  by (simp add: convertMessages_def convert_message_def assistant_turn_def tool_msg_def parseResponse_def
      Let_def record_defs convert_call_def parse_call_def comp_def split: list.split)

section \<open>Strict schemas\<close>

text \<open>What strict mode asks of a schema, at every object that can be reached in it.\<close>

function strict_ok :: "entries \<Rightarrow> bool" where
  "strict_ok s \<longleftrightarrow>
     (case obj_of (map_of s ''items'') of None \<Rightarrow> True | Some items \<Rightarrow> strict_ok items) \<and>
     (case obj_of (map_of s ''additionalProperties'') of
        Some ap \<Rightarrow> strict_ok ap
      | None \<Rightarrow>
          (case obj_of (map_of s ''properties'') of
             None \<Rightarrow> map_of s ''type'' \<noteq> Some (JStr ''object'') \<or>
               map_of s ''additionalProperties'' = Some (JBool False) \<and> map_of s ''required'' = Some (JArr [])
           | Some ps \<Rightarrow>
               map_of s ''additionalProperties'' = Some (JBool False) \<and>
               map_of s ''required'' = Some (JArr (map JStr (sort (map fst ps)))) \<and>
               list_all (\<lambda>(n, j). case obj_of (Some j) of None \<Rightarrow> True | Some p \<Rightarrow> strict_ok p) ps))"
  by pat_completeness auto
termination
proof (relation "measure esize")
  fix s ps x n j p
  assume "obj_of (map_of s ''properties'') = Some ps" "x \<in> set ps" "(n, j) = x" "obj_of (Some j) = Some p"
  then have "esize p < esize ps" "esize ps < esize s"
    using esize_member [of n j ps] obj_of_size by (auto simp: obj_of_Some esize_def)
  then show "(p, s) \<in> measure esize" by simp
qed (auto dest: obj_of_size)

declare strict_ok.simps [simp del]

text \<open>A property that accepts null, or has no type for it to be added to.\<close>

fun accepts_null :: "json \<Rightarrow> bool" where
  "accepts_null (JObj p) = (case map_of p ''type'' of
     Some (JStr t) \<Rightarrow> t = ''null'' | Some (JArr ts) \<Rightarrow> JStr ''null'' \<in> set ts | _ \<Rightarrow> True)"
| "accepts_null _ = True"

lemma add_null_enum_other: "k \<noteq> ''enum'' \<Longrightarrow> map_of (add_null_enum p) k = map_of p k"
  by (simp add: add_null_enum_def map_of_update_AList split: option.split json.split)

lemma makeNullable_other: "k \<noteq> ''enum'' \<Longrightarrow> k \<noteq> ''type'' \<Longrightarrow> map_of (makeNullable p) k = map_of p k"
  by (simp add: makeNullable_def add_null_enum_other map_of_update_AList split: option.split json.split)

lemma makeNullable_type:
  "map_of (makeNullable p) ''type'' \<noteq> Some (JStr ''object'')" "accepts_null (JObj (makeNullable p))"
  by (auto simp: makeNullable_def add_null_enum_other map_of_update_AList split: option.splits json.splits)

lemma strict_ok_makeNullable: "strict_ok p \<Longrightarrow> strict_ok (makeNullable p)"
  by (subst strict_ok.simps, subst (asm) strict_ok.simps)
    (simp add: makeNullable_other makeNullable_type split: option.splits)

lemma strict_props_names: "map fst (strict_props required ps) = map fst ps"
proof (induction ps)
  case (Cons nj ps)
  obtain n j where "nj = (n, j)" by (cases nj)
  with Cons show ?case by (cases j) simp_all
qed simp

lemma strict_props_nullable: "list_all (\<lambda>(n, j). n \<in> set required \<or> accepts_null j) (strict_props required ps)"
proof (induction ps)
  case (Cons nj ps)
  obtain n j where "nj = (n, j)" by (cases nj)
  with Cons show ?case by (cases j) (simp_all add: makeNullable_type del: accepts_null.simps(1))
qed simp

text \<open>The fields of a rewritten schema, in the four cases of the source.\<close>

lemma strictify_items:
  "obj_of (map_of (strictify s) ''items'') = map_option strictify (obj_of (map_of s ''items''))"
  by (subst strictify.simps) (simp add: Let_def map_of_update_AList split: option.split)

lemma strictify_map:
  "obj_of (map_of s ''additionalProperties'') = Some ap \<Longrightarrow>
     obj_of (map_of (strictify s) ''additionalProperties'') = Some (strictify ap)"
  by (subst strictify.simps) (simp add: Let_def map_of_update_AList)

lemma strictify_properties:
  assumes "obj_of (map_of s ''additionalProperties'') = None" "obj_of (map_of s ''properties'') = Some ps"
  shows "obj_of (map_of (strictify s) ''properties'') = Some (strict_props (required_names s) ps)"
    "map_of (strictify s) ''additionalProperties'' = Some (JBool False)"
    "map_of (strictify s) ''required'' = Some (JArr (map JStr (sort (map fst ps))))"
  using assms by (subst strictify.simps, simp add: Let_def map_of_update_AList split: option.split)+

lemma strictify_other:
  assumes "obj_of (map_of s ''additionalProperties'') = None" "obj_of (map_of s ''properties'') = None"
  shows "obj_of (map_of (strictify s) ''properties'') = None"
    "map_of (strictify s) ''type'' = map_of s ''type''"
    "map_of s ''type'' = Some (JStr ''object'') \<Longrightarrow>
       map_of (strictify s) ''additionalProperties'' = Some (JBool False) \<and> map_of (strictify s) ''required'' = Some (JArr [])"
    "map_of s ''type'' \<noteq> Some (JStr ''object'') \<Longrightarrow> obj_of (map_of (strictify s) ''additionalProperties'') = None"
  using assms by (subst strictify.simps, simp add: Let_def map_of_update_AList split: option.split)+


end
