(* ===== verification/Anthropic_Provider.thy ===== *)
theory Anthropic_Provider
  imports Transport Media_Parts Wire_Framing Tool_Loop
begin

text \<open>
  The provider for Anthropic's Messages API (\<open>llm/anthropic\<close>): the request it builds, with
  extended thinking, structured output as a forced tool and prompt-caching breakpoints; the
  responses it parses; the stream it reads.

  Parameters: \<open>aj_parse\<close> and \<open>aj_show\<close> read and print JSON text, \<open>aj_b64\<close> decodes base64,
  the other fields of the codec decode bodies and stream events.
\<close>

section \<open>Wire types\<close>

record a_source =
  as_type :: string
  as_media_type :: string
  as_data :: string
  as_url :: string

record a_citation =
  ac_url :: string
  ac_title :: string
  ac_cited_text :: string

record a_block =
  ab_type :: string
  ab_text :: string
  ab_id :: string
  ab_name :: string
  ab_input :: raw_json
  ab_tool_use_id :: string
  ab_content :: string
  ab_source :: "a_source option"
  ab_title :: string
  ab_citations :: "a_citation list"
  ab_cache :: bool

definition zero_block :: a_block where
  "zero_block = \<lparr>ab_type = [], ab_text = [], ab_id = [], ab_name = [], ab_input = RawNil, ab_tool_use_id = [],
     ab_content = [], ab_source = None, ab_title = [], ab_citations = [], ab_cache = False\<rparr>"

record a_message =
  am_role :: string
  am_content :: "a_block list"

record a_tool =
  at_type :: string
  at_name :: string
  at_description :: string
  at_schema :: raw_json
  at_max_uses :: int
  at_allowed :: "string list"
  at_blocked :: "string list"
  at_location :: "string option"
  at_cache :: bool

definition zero_tool :: a_tool where
  "zero_tool = \<lparr>at_type = [], at_name = [], at_description = [], at_schema = RawNil, at_max_uses = 0,
     at_allowed = [], at_blocked = [], at_location = None, at_cache = False\<rparr>"

datatype a_system = SysNone | SysText string | SysBlock string

record a_request =
  aq_model :: string
  aq_messages :: "a_message list"
  aq_system :: a_system
  aq_max_tokens :: int
  aq_temperature :: "rat option"
  aq_top_p :: "rat option"
  aq_top_k :: "int option"
  aq_stop :: "string list"
  aq_stream :: bool
  aq_tools :: "a_tool list"
  aq_tool_choice :: "(string \<times> string) option"
  aq_thinking :: "int option"

record a_usage =
  au_input :: int
  au_output :: int
  au_cache_read :: int
  au_cache_creation :: int

record a_response =
  ar_model :: string
  ar_content :: "a_block list"
  ar_stop_reason :: string
  ar_usage :: a_usage

record a_delta =
  ad_type :: string
  ad_text :: string
  ad_thinking :: string
  ad_partial_json :: string

record a_event =
  av_type :: string
  av_block :: "a_block option"
  av_delta :: "a_delta option"
  av_usage :: "a_usage option"

record anthropic_codec =
  aj_parse :: "string \<Rightarrow> json option"
  aj_show :: "raw_json \<Rightarrow> string"
  aj_b64 :: "string \<Rightarrow> string option"
  aj_response :: "string \<Rightarrow> go_error + a_response"
  aj_event :: "string \<Rightarrow> a_event option"
  aj_error :: "string \<Rightarrow> string option"

section \<open>Messages\<close>

definition anthropic_media :: support where
  "anthropic_media = \<lparr>su_audio = False, su_audio_formats = None, su_document_data = True, su_document_url = True\<rparr>"

definition zero_source :: a_source where
  "zero_source = \<lparr>as_type = [], as_media_type = [], as_data = [], as_url = []\<rparr>"

definition documentBlock :: "anthropic_codec \<Rightarrow> content_part \<Rightarrow> a_block" where
  "documentBlock cd p =
     zero_block\<lparr>ab_type := ''document'', ab_title := cp_filename p,
       ab_source := Some
         (if cp_data p = [] then zero_source\<lparr>as_type := ''url'', as_url := cp_url p\<rparr>
          else if HasPrefix (cp_media_type p) ''text/'' then
            zero_source\<lparr>as_type := ''text'', as_media_type := ''text/plain'', as_data := DecodeText (aj_b64 cd) (cp_data p)\<rparr>
          else zero_source\<lparr>as_type := ''base64'', as_media_type := cp_media_type p, as_data := cp_data p\<rparr>)\<rparr>"

definition imageBlock :: "content_part \<Rightarrow> a_block" where
  "imageBlock p = (case ParseImageURL (cp_image_url p) of (mt, data, url, isB64) \<Rightarrow>
     zero_block\<lparr>ab_type := ''image'', ab_source := Some
       (if isB64 then zero_source\<lparr>as_type := ''base64'', as_media_type := mt, as_data := data\<rparr>
        else zero_source\<lparr>as_type := ''url'', as_url := url\<rparr>)\<rparr>)"

definition a_convert_part :: "anthropic_codec \<Rightarrow> content_part \<Rightarrow> a_block" where
  "a_convert_part cd p =
     (if cp_type p = ''image'' then imageBlock p
      else if cp_type p = ContentDocument then documentBlock cd p
      else zero_block\<lparr>ab_type := ''text'', ab_text := cp_text p\<rparr>)"

definition convertContentParts :: "anthropic_codec \<Rightarrow> message \<Rightarrow> a_block list" where
  "convertContentParts cd m =
     (if msg_parts m = [] then [zero_block\<lparr>ab_type := ''text'', ab_text := msg_content m\<rparr>]
      else map (a_convert_part cd) (msg_parts m))"

text \<open>
  The arguments of a call become the raw message \<open>Input\<close>; text that is not JSON, the empty
  text included, leaves it nil, and \<open>omitempty\<close> then drops the field.
\<close>

definition call_block :: "anthropic_codec \<Rightarrow> tool_call \<Rightarrow> a_block" where
  "call_block cd tc =
     zero_block\<lparr>ab_type := ''tool_use'', ab_id := tc_id tc, ab_name := tc_name tc,
       ab_input := (case aj_parse cd (tc_arguments tc) of None \<Rightarrow> RawNil | Some j \<Rightarrow> RawJson j)\<rparr>"

definition a_convert_message :: "anthropic_codec \<Rightarrow> message \<Rightarrow> a_message" where
  "a_convert_message cd m =
     (if msg_role m = ''tool'' then
        \<lparr>am_role = ''user'', am_content = [zero_block\<lparr>ab_type := ''tool_result'',
           ab_tool_use_id := msg_tool_call_id m, ab_content := msg_content m\<rparr>]\<rparr>
      else if msg_role m = ''assistant'' then
        \<lparr>am_role = ''assistant'', am_content =
           (if msg_content m \<noteq> [] then [zero_block\<lparr>ab_type := ''text'', ab_text := msg_content m\<rparr>] else []) @
           map (call_block cd) (msg_tool_calls m)\<rparr>
      else \<lparr>am_role = msg_role m, am_content = convertContentParts cd m\<rparr>)"

definition a_convertMessages :: "anthropic_codec \<Rightarrow> completion_request \<Rightarrow> a_message list" where
  "a_convertMessages cd req = map (a_convert_message cd) (req_messages req)"

section \<open>The request body\<close>

definition defaultMaxTokens :: int where "defaultMaxTokens = 4096"

definition a_convertToolChoice :: "tool_choice option \<Rightarrow> (string \<times> string) option" where
  "a_convertToolChoice tc =
     (case tc of None \<Rightarrow> None
      | Some c \<Rightarrow>
          if tch_mode c = ToolChoiceAuto then Some (''auto'', [])
          else if tch_mode c = ToolChoiceNone then Some (''none'', [])
          else if tch_mode c = ToolChoiceRequired then Some (''any'', [])
          else if tch_mode c = ToolChoiceTool then Some (''tool'', tch_name c)
          else None)"

definition thinking_budget :: "completion_request \<Rightarrow> int option" where
  "thinking_budget req =
     (if req_budget req \<noteq> None \<or> Requested (req_effort req) then
        Some (case req_budget req of
            Some b \<Rightarrow> b
          | None \<Rightarrow> let b = BudgetTokens (req_effort req) in if b > 0 then b else 10000)
      else None)"

definition a_convertTool :: "tool_definition \<Rightarrow> a_tool" where
  "a_convertTool t = zero_tool\<lparr>at_name := td_name t, at_description := td_description t, at_schema := td_parameters t\<rparr>"

definition web_search_tool :: "server_tool \<Rightarrow> a_tool list" where
  "web_search_tool st =
     (if st_type st = ServerToolWebSearch then
        (let wt = zero_tool\<lparr>at_type := ''web_search_20250305'', at_name := ''web_search''\<rparr> in
         case st_web_search st of
           None \<Rightarrow> [wt]
         | Some o' \<Rightarrow> [wt\<lparr>at_max_uses := (if ws_max_uses o' > 0 then ws_max_uses o' else 0),
              at_allowed := ws_allowed o', at_blocked := ws_blocked o',
              at_location := (if ws_location o' \<noteq> [] then Some (ws_location o') else None)\<rparr>])
      else [])"

definition structured_tool :: "raw_json \<Rightarrow> a_tool" where
  "structured_tool schema = zero_tool\<lparr>at_name := ''structured_output'',
     at_description := ''Return the response in the specified JSON schema.'', at_schema := schema\<rparr>"

definition mark_last :: "('a \<Rightarrow> 'a) \<Rightarrow> 'a list \<Rightarrow> 'a list" where
  "mark_last f xs = (if xs = [] then [] else butlast xs @ [f (last xs)])"

text \<open>The three breakpoints of prompt caching.\<close>

definition cache_breakpoints :: "a_request \<Rightarrow> a_request" where
  "cache_breakpoints r =
     r\<lparr>aq_tools := mark_last (\<lambda>t. t\<lparr>at_cache := True\<rparr>) (aq_tools r),
       aq_system := (case aq_system r of SysText (c # s) \<Rightarrow> SysBlock (c # s) | sys \<Rightarrow> sys),
       aq_messages := mark_last (\<lambda>m. m\<lparr>am_content := mark_last (\<lambda>b. b\<lparr>ab_cache := True\<rparr>) (am_content m)\<rparr>)
         (aq_messages r)\<rparr>"

text \<open>The body up to the breakpoints.\<close>

definition a_body :: "anthropic_codec \<Rightarrow> completion_request \<Rightarrow> bool \<Rightarrow> a_request" where
  "a_body cd req stream =
     (let structured = \<not> raw_empty (req_output_schema req) in
      \<lparr>aq_model = req_model req, aq_messages = a_convertMessages cd req,
       aq_system = (if req_system req \<noteq> [] then SysText (req_system req) else SysNone),
       aq_max_tokens = (case req_max_tokens req of None \<Rightarrow> defaultMaxTokens | Some n \<Rightarrow> n),
       aq_temperature = req_temperature req, aq_top_p = req_top_p req, aq_top_k = req_top_k req,
       aq_stop = req_stop req, aq_stream = stream,
       aq_tools = map a_convertTool (req_tools req) @
         (if structured then [structured_tool (req_output_schema req)] else []) @
         concat (map web_search_tool (req_server_tools req)),
       aq_tool_choice =
         (if structured then Some (''tool'', ''structured_output'')
          else a_convertToolChoice (req_tool_choice req)),
       aq_thinking = thinking_budget req\<rparr>)"

definition a_buildRequestBody :: "anthropic_codec \<Rightarrow> completion_request \<Rightarrow> bool \<Rightarrow> go_error + a_request" where
  "a_buildRequestBody cd req stream =
     (case CheckParts ''anthropic'' req anthropic_media of
        Some e \<Rightarrow> Inl e
      | None \<Rightarrow>
          let r = a_body cd req stream in Inr (if req_cache_control req then cache_breakpoints r else r))"

section \<open>Responses\<close>

definition a_toUsage :: "a_usage \<Rightarrow> token_usage" where
  "a_toUsage u = zero_usage\<lparr>prompt_tokens := au_input u, completion_tokens := au_output u,
     total_tokens := au_input u + au_output u, cached_tokens := au_cache_read u,
     cache_creation_tokens := au_cache_creation u\<rparr>"

definition marshal_input :: "anthropic_codec \<Rightarrow> raw_json \<Rightarrow> string" where
  "marshal_input cd r = (if r = RawNil then ''null'' else aj_show cd r)"

definition a_parse_block :: "anthropic_codec \<Rightarrow> completion_response \<Rightarrow> a_block \<Rightarrow> completion_response" where
  "a_parse_block cd res b =
     (if ab_type b = ''thinking'' then res\<lparr>resp_thinking := resp_thinking res @ ab_text b\<rparr>
      else if ab_type b = ''text'' then
        res\<lparr>resp_content := resp_content res @ ab_text b,
          resp_citations := resp_citations res @ map (\<lambda>c. \<lparr>cit_url = ac_url c, cit_title = ac_title c,
            cit_snippet = ac_cited_text c, cit_start = 0, cit_end = 0\<rparr>) (ab_citations b)\<rparr>
      else if ab_type b = ''tool_use'' then
        (let args = marshal_input cd (ab_input b) in
         if ab_name b = ''structured_output'' then res\<lparr>resp_content := args\<rparr>
         else res\<lparr>resp_tool_calls := resp_tool_calls res @
           [\<lparr>tc_id = ab_id b, tc_name = ab_name b, tc_arguments = args, tc_metadata = []\<rparr>]\<rparr>)
      else res)"

definition a_parseResponse :: "anthropic_codec \<Rightarrow> a_response \<Rightarrow> completion_response" where
  "a_parseResponse cd resp =
     foldl (a_parse_block cd)
       (zero_response\<lparr>resp_model := ar_model resp, resp_finish := ar_stop_reason resp,
          resp_usage := a_toUsage (ar_usage resp)\<rparr>)
       (ar_content resp)"

definition anthropic_Complete :: "anthropic_codec \<Rightarrow> (a_request, 'w) transport \<Rightarrow> 'w complete_fn" where
  "anthropic_Complete cd post req w =
     (case a_buildRequestBody cd req False of
        Inl e \<Rightarrow> (Inl e, w)
      | Inr body \<Rightarrow>
          (case send_request ''anthropic'' (aj_error cd) post body w of
             (Inl e, w') \<Rightarrow> (Inl e, w')
           | (Inr r, w') \<Rightarrow>
               (case hr_fail r of
                  Some e \<Rightarrow> Inl (Errorf ''anthropic: failed to read response: %w'' [FWrap e])
                | None \<Rightarrow>
                    (case aj_response cd (hr_body r) of
                       Inl e \<Rightarrow> Inl (Errorf ''anthropic: failed to parse response: %w'' [FWrap e])
                     | Inr resp \<Rightarrow> Inr (a_parseResponse cd resp)), w')))"

section \<open>Streams\<close>

text \<open>The pending tool calls and \<open>currentToolIndex\<close>.\<close>

type_synonym a_pending = "tool_call list \<times> int"

definition start_block :: "a_pending \<Rightarrow> a_block \<Rightarrow> stream_event list \<times> a_pending" where
  "start_block st b = (case st of (pending, cur) \<Rightarrow>
     (if ab_type b = ''tool_use'' then
        ([delta_event \<lparr>tcd_index = cur + 1, tcd_id = ab_id b, tcd_name = ab_name b, tcd_arguments = []\<rparr>],
         (pending @ [zero_call\<lparr>tc_id := ab_id b, tc_name := ab_name b\<rparr>], cur + 1))
      else ([], st)))"

definition block_delta :: "a_pending \<Rightarrow> a_delta \<Rightarrow> stream_event list \<times> a_pending" where
  "block_delta st d = (case st of (pending, cur) \<Rightarrow>
     (if ad_type d = ''thinking_delta'' then
        ((if ad_thinking d \<noteq> [] then [reasoning_event (ad_thinking d)] else []), st)
      else if ad_type d = ''text_delta'' then
        ((if ad_text d \<noteq> [] then [content_event (ad_text d)] else []), st)
      else if ad_type d = ''input_json_delta'' then
        (if 0 \<le> cur \<and> cur < int (length pending) then
           ((if ad_partial_json d \<noteq> [] then
               [delta_event \<lparr>tcd_index = cur, tcd_id = [], tcd_name = [], tcd_arguments = ad_partial_json d\<rparr>]
             else []),
            (pending[nat cur := (pending ! nat cur)
               \<lparr>tc_arguments := tc_arguments (pending ! nat cur) @ ad_partial_json d\<rparr>], cur))
         else ([], st))
      else ([], st)))"

text \<open>One event that does not end the message.\<close>

definition a_step :: "a_pending \<Rightarrow> a_event \<Rightarrow> stream_event list \<times> a_pending" where
  "a_step st ev =
     (if av_type ev = ''content_block_start'' then
        (case av_block ev of None \<Rightarrow> ([], st) | Some b \<Rightarrow> start_block st b)
      else if av_type ev = ''content_block_delta'' then
        (case av_delta ev of None \<Rightarrow> ([], st) | Some d \<Rightarrow> block_delta st d)
      else if av_type ev = ''message_delta'' then
        (case av_usage ev of None \<Rightarrow> ([], st) | Some u \<Rightarrow> ([usage_event (a_toUsage u)], st))
      else ([], st))"

function a_read_loop :: "(string \<Rightarrow> a_event option) \<Rightarrow> (nat \<Rightarrow> bool) \<Rightarrow> nat \<Rightarrow> a_pending \<Rightarrow> scanner \<Rightarrow> stream_event list" where
  "a_read_loop decode stop i st s =
     (if stop i then []
      else case sse_Next s of
          (None, s') \<Rightarrow>
            (case sse_Err s' of
               Some e \<Rightarrow> [error_event (Errorf ''anthropic: stream read error: %w'' [FWrap e])]
             | None \<Rightarrow> [done_event])
        | (Some ev, s') \<Rightarrow>
            (case decode (se_data ev) of
               None \<Rightarrow> a_read_loop decode stop (i + 1) st s'
             | Some se \<Rightarrow>
                 if av_type se = ''message_stop'' then map tool_call_event (fst st) @ [done_event]
                 else fst (a_step st se) @ a_read_loop decode stop (i + 1) (snd (a_step st se)) s'))"
  by pat_completeness auto
termination
  by (relation "measure (\<lambda>(_, _, _, _, s). length (sc_rest s))") (auto dest: sse_Next_shrinks [OF sym])

declare a_read_loop.simps [simp del]

definition a_readStream :: "anthropic_codec \<Rightarrow> (nat \<Rightarrow> bool) \<Rightarrow> http_reply \<Rightarrow> stream_event list" where
  "a_readStream cd stop r = a_read_loop (aj_event cd) stop 0 ([], -1) (NewReader (hr_body r) (hr_fail r))"

definition anthropic_Stream :: "anthropic_codec \<Rightarrow> (nat \<Rightarrow> bool) \<Rightarrow> (a_request, 'w) transport \<Rightarrow> 'w stream_fn" where
  "anthropic_Stream cd stop post req w =
     (case a_buildRequestBody cd req True of
        Inl e \<Rightarrow> (Inl e, w)
      | Inr body \<Rightarrow>
          (case send_request ''anthropic'' (aj_error cd) post body w of
             (Inl e, w') \<Rightarrow> (Inl e, w')
           | (Inr r, w') \<Rightarrow> (Inr (a_readStream cd stop r), w')))"

end
