(* ===== verification/Streamed_Blocks.thy ===== *)
theory Streamed_Blocks
  imports Streaming
begin

text \<open>
  Messages as the providers stream them: content blocks cut into pieces, what a list of events
  says (\<open>says\<close>), and what collecting it gives once the tool calls and the final event follow.
\<close>

text \<open>The content blocks of a message, each with the pieces it is streamed in.\<close>

datatype s_block =
    TextBlock "string list"
  | ThinkBlock "string list"
  | ToolBlock string string "string list"
  | OtherEvent string

fun block_text :: "s_block \<Rightarrow> string" where
  "block_text (TextBlock ds) = concat ds"
| "block_text _ = []"

fun block_thinking :: "s_block \<Rightarrow> string" where
  "block_thinking (ThinkBlock ds) = concat ds"
| "block_thinking _ = []"

fun block_calls :: "s_block \<Rightarrow> tool_call list" where
  "block_calls (ToolBlock i n ds) = [\<lparr>tc_id = i, tc_name = n, tc_arguments = concat ds, tc_metadata = []\<rparr>]"
| "block_calls _ = []"

definition says :: "stream_event list \<Rightarrow> string \<Rightarrow> string \<Rightarrow> token_usage list \<Rightarrow> bool" where
  "says out text thinking us \<longleftrightarrow> text_of out = text \<and> reasoning_of out = thinking \<and> calls_of out = [] \<and>
     citations_of out = [] \<and> errors_of out = [] \<and> usages_of out = us"

lemma says_Nil: "says [] [] [] []"
  by (simp add: says_def)

lemma says_append: "says xs t1 r1 u1 \<Longrightarrow> says ys t2 r2 u2 \<Longrightarrow> says (xs @ ys) (t1 @ t2) (r1 @ r2) (u1 @ u2)"
  by (simp add: says_def)

lemma says_event:
  "says [content_event s] s [] []" "says [reasoning_event s] [] s []" "says [delta_event d] [] [] []"
  "says [usage_event u] [] [] [u]"
  by (simp_all add: says_def stream_parts_snoc record_defs)

lemma tool_call_parts:
  "text_of (map tool_call_event p) = []" "reasoning_of (map tool_call_event p) = []"
  "calls_of (map tool_call_event p) = p" "citations_of (map tool_call_event p) = []"
  "errors_of (map tool_call_event p) = []" "usages_of (map tool_call_event p) = []"
  by (induction p) (simp_all add: stream_parts_defs List.map_filter_def record_defs)

lemma done_parts: "citations_of [done_event] = []" "usages_of [done_event] = []"
  by (simp_all add: stream_parts_snoc record_defs)

lemma collect_said:
  assumes "says out text thinking us"
  shows "CollectStream (out @ map tool_call_event calls @ [done_event]) =
    Inr \<lparr>resp_content = text, resp_thinking = thinking, resp_tool_calls = calls, resp_citations = [],
      resp_usage = (if us = [] then zero_usage else last us),
      resp_finish = (if calls = [] then ''stop'' else ''tool_calls''), resp_model = []\<rparr>"
  using assms
  by (simp add: CollectStream_eq first_error_def assembled_def last_usage_def says_def tool_call_parts done_parts)

lemma collect_said_error:
  assumes "says out text thinking us"
  shows "CollectStream (out @ [error_event e]) = Inl e"
  using assms by (simp add: CollectStream_eq first_error_def says_def)

end
