(* ===== verification/Anthropic_Properties.thy ===== *)
theory Anthropic_Properties
  imports Anthropic_Provider Streamed_Blocks
begin

text \<open>
  What the Anthropic provider promises: the events of a streamed message assemble to its
  blocks, and prompt caching marks the request without changing it.
\<close>

section \<open>Streamed messages\<close>

definition zero_a_event :: a_event where
  "zero_a_event = \<lparr>av_type = [], av_block = None, av_delta = None, av_usage = None\<rparr>"

definition start_event :: "a_block \<Rightarrow> a_event" where
  "start_event b = zero_a_event\<lparr>av_type := ''content_block_start'', av_block := Some b\<rparr>"

definition stop_event :: a_event where
  "stop_event = zero_a_event\<lparr>av_type := ''content_block_stop''\<rparr>"

definition piece :: "string \<Rightarrow> string \<Rightarrow> string \<Rightarrow> string \<Rightarrow> a_event" where
  "piece t text thinking json = zero_a_event\<lparr>av_type := ''content_block_delta'',
     av_delta := Some \<lparr>ad_type = t, ad_text = text, ad_thinking = thinking, ad_partial_json = json\<rparr>\<rparr>"

fun block_events :: "s_block \<Rightarrow> a_event list" where
  "block_events (TextBlock ds) = start_event (zero_block\<lparr>ab_type := ''text''\<rparr>) #
     map (\<lambda>d. piece ''text_delta'' d [] []) ds @ [stop_event]"
| "block_events (ThinkBlock ds) = start_event (zero_block\<lparr>ab_type := ''thinking''\<rparr>) #
     map (\<lambda>d. piece ''thinking_delta'' [] d []) ds @ [stop_event]"
| "block_events (ToolBlock i n ds) = start_event (zero_block\<lparr>ab_type := ''tool_use'', ab_id := i, ab_name := n\<rparr>) #
     map (\<lambda>d. piece ''input_json_delta'' [] [] d) ds @ [stop_event]"
| "block_events (OtherEvent t) = [zero_a_event\<lparr>av_type := ''ping'' @ t\<rparr>]"

definition delta_usage :: "a_usage \<Rightarrow> a_event" where
  "delta_usage u = zero_a_event\<lparr>av_type := ''message_delta'', av_usage := Some u\<rparr>"

definition message_events :: "s_block list \<Rightarrow> a_usage list \<Rightarrow> a_event list" where
  "message_events bs us = concat (map block_events bs) @ map delta_usage us"

section \<open>The reading loop on a list of events\<close>

fun a_run :: "a_pending \<Rightarrow> a_event list \<Rightarrow> stream_event list \<times> a_pending" where
  "a_run st [] = ([], st)"
| "a_run st (ev # evs) =
     (case a_run (snd (a_step st ev)) evs of (out, st') \<Rightarrow> (fst (a_step st ev) @ out, st'))"

lemma a_run_append:
  "a_run st (xs @ ys) = (case a_run st xs of (o1, st1) \<Rightarrow> case a_run st1 ys of (o2, st2) \<Rightarrow> (o1 @ o2, st2))"
  by (induction xs arbitrary: st) (simp_all split: prod.split)

definition a_carries :: "anthropic_codec \<Rightarrow> raw_event list \<Rightarrow> a_event list \<Rightarrow> bool" where
  "a_carries cd rs evs \<longleftrightarrow> list_all2 (\<lambda>r ev. raw_event_ok r \<and> aj_event cd (se_data (raw_event_view r)) = Some ev \<and>
     av_type ev \<noteq> ''message_stop'') rs evs"

lemma a_read_loop_carries:
  assumes "a_carries cd rs evs"
  shows "a_read_loop (aj_event cd) (\<lambda>_. False) i st (NewReader (concat (map raw_event_wire rs) @ tail) fail) =
    fst (a_run st evs) @ a_read_loop (aj_event cd) (\<lambda>_. False) (i + length rs) (snd (a_run st evs)) (NewReader tail fail)"
  using assms unfolding a_carries_def
proof (induction rs evs arbitrary: i st rule: list_all2_induct)
  case (Cons r rs ev evs)
  have "sse_Next (NewReader (concat (map raw_event_wire (r # rs)) @ tail) fail) =
      (Some (raw_event_view r), NewReader (concat (map raw_event_wire rs) @ tail) fail)"
    using Cons.hyps sse_Next_raw [of r "concat (map raw_event_wire rs) @ tail"] by simp
  then show ?case
    using Cons.hyps Cons.IH
    by (subst a_read_loop.simps) (simp split: prod.split)
qed simp

text \<open>What the events sent so far say, and the calls pending, after a message's blocks.\<close>

definition settled :: "a_pending \<Rightarrow> bool" where
  "settled st \<longleftrightarrow> snd st = int (length (fst st)) - 1"

lemmas step_defs = a_step_def start_block_def block_delta_def start_event_def stop_event_def piece_def
  zero_a_event_def delta_usage_def

lemmas edge_defs = a_step_def start_block_def start_event_def stop_event_def zero_a_event_def zero_block_def

lemma run_text: "\<exists>out. a_run st (map (\<lambda>d. piece ''text_delta'' d [] []) ds) = (out, st) \<and> says out (concat ds) [] []"
proof (induction ds)
  case (Cons d ds)
  then obtain out where out: "a_run st (map (\<lambda>d. piece ''text_delta'' d [] []) ds) = (out, st)" "says out (concat ds) [] []"
    by blast
  then show ?case
    using says_append [OF says_event(1) [of d] out(2)] by (cases st) (auto simp: step_defs)
qed (simp add: says_Nil)

lemma run_thinking:
  "\<exists>out. a_run st (map (\<lambda>d. piece ''thinking_delta'' [] d []) ds) = (out, st) \<and> says out [] (concat ds) []"
proof (induction ds)
  case (Cons d ds)
  then obtain out where out: "a_run st (map (\<lambda>d. piece ''thinking_delta'' [] d []) ds) = (out, st)" "says out [] (concat ds) []"
    by blast
  then show ?case
    using says_append [OF says_event(2) [of d] out(2)] by (cases st) (auto simp: step_defs)
qed (simp add: says_Nil)

lemma run_json:
  "\<exists>out. a_run (pending @ [c], int (length pending)) (map (\<lambda>d. piece ''input_json_delta'' [] [] d) ds) =
      (out, (pending @ [c\<lparr>tc_arguments := tc_arguments c @ concat ds\<rparr>], int (length pending))) \<and> says out [] [] []"
proof (induction ds arbitrary: c)
  case (Cons d ds)
  let ?c = "c\<lparr>tc_arguments := tc_arguments c @ d\<rparr>"
  obtain out where out: "a_run (pending @ [?c], int (length pending)) (map (\<lambda>d. piece ''input_json_delta'' [] [] d) ds) =
      (out, (pending @ [?c\<lparr>tc_arguments := tc_arguments ?c @ concat ds\<rparr>], int (length pending)))" "says out [] [] []"
    using Cons.IH [of ?c] by blast
  then show ?case
    using says_append [OF says_event(3) out(2)] by (auto simp: step_defs)
qed (simp add: says_Nil)

lemma run_block:
  assumes "settled st"
  shows "\<exists>out st'. a_run st (block_events b) = (out, st') \<and> fst st' = fst st @ block_calls b \<and> settled st' \<and>
    says out (block_text b) (block_thinking b) []"
proof -
  obtain pending cur where st: "st = (pending, cur)" "cur = int (length pending) - 1"
    using assms by (cases st) (simp add: settled_def)
  show ?thesis
  proof (cases b)
    case (TextBlock ds)
    obtain out where "a_run st (map (\<lambda>d. piece ''text_delta'' d [] []) ds) = (out, st)" "says out (concat ds) [] []"
      using run_text by blast
    then show ?thesis using TextBlock assms st(1) by (simp add: a_run_append) (simp add: edge_defs)
  next
    case (ThinkBlock ds)
    obtain out where "a_run st (map (\<lambda>d. piece ''thinking_delta'' [] d []) ds) = (out, st)" "says out [] (concat ds) []"
      using run_thinking by blast
    then show ?thesis using ThinkBlock assms st(1) by (simp add: a_run_append) (simp add: edge_defs)
  next
    case (ToolBlock i n ds)
    obtain out where "a_run (pending @ [zero_call\<lparr>tc_id := i, tc_name := n\<rparr>], int (length pending))
        (map (\<lambda>d. piece ''input_json_delta'' [] [] d) ds) =
      (out, (pending @ [zero_call\<lparr>tc_id := i, tc_name := n, tc_arguments := concat ds\<rparr>], int (length pending)))" "says out [] [] []"
      using run_json [of pending "zero_call\<lparr>tc_id := i, tc_name := n\<rparr>" ds] by (auto simp: zero_call_def)
    then show ?thesis
      using ToolBlock st says_append [OF says_event(3) \<open>says out [] [] []\<close>]
      by (simp add: a_run_append) (simp add: edge_defs settled_def zero_call_def)
  next
    case (OtherEvent t)
    then show ?thesis using assms says_Nil by (simp add: edge_defs)
  qed
qed

lemma run_blocks:
  assumes "settled st"
  shows "\<exists>out st'. a_run st (concat (map block_events bs)) = (out, st') \<and> fst st' = fst st @ concat (map block_calls bs) \<and>
    says out (concat (map block_text bs)) (concat (map block_thinking bs)) []"
  using assms
proof (induction bs arbitrary: st)
  case (Cons b bs)
  obtain o1 st1 where 1: "a_run st (block_events b) = (o1, st1)" "fst st1 = fst st @ block_calls b" "settled st1"
    "says o1 (block_text b) (block_thinking b) []"
    using run_block [OF Cons.prems] by blast
  obtain o2 st2 where "a_run st1 (concat (map block_events bs)) = (o2, st2)" "fst st2 = fst st1 @ concat (map block_calls bs)"
    "says o2 (concat (map block_text bs)) (concat (map block_thinking bs)) []"
    using Cons.IH [OF 1(3)] by blast
  then show ?case using 1 says_append [OF 1(4)] by (auto simp: a_run_append)
qed (simp add: says_Nil)

lemma run_usages: "a_run st (map delta_usage us) = (map (\<lambda>u. usage_event (a_toUsage u)) us, st)"
  by (induction us) (simp_all add: step_defs)

lemma says_usages: "says (map (\<lambda>u. usage_event (a_toUsage u)) us) [] [] (map a_toUsage us)"
  by (induction us) (use says_append [OF says_event(4)] in \<open>auto simp: says_Nil\<close>)

lemma message_run:
  "\<exists>out cur. a_run ([], -1) (message_events bs us) = (out, (concat (map block_calls bs), cur)) \<and>
    says out (concat (map block_text bs)) (concat (map block_thinking bs)) (map a_toUsage us)"
proof -
  obtain out st where "a_run ([], -1) (concat (map block_events bs)) = (out, st)" "fst st = concat (map block_calls bs)"
    "says out (concat (map block_text bs)) (concat (map block_thinking bs)) []"
    using run_blocks [of "([], -1)" bs] by (auto simp: settled_def)
  then show ?thesis
    using says_append [of out _ _ "[]", OF _ says_usages [of us]]
    by (cases st) (auto simp: message_events_def a_run_append run_usages)
qed


definition sample_message :: "s_block list" where
  "sample_message = [TextBlock [''Hi''], ToolBlock ''t1'' ''f'' [''{'', ''}'']]"

text \<open>A codec whose events are written as their position in the message, in unary.\<close>

definition indexed_codec :: "a_event list \<Rightarrow> anthropic_codec" where
  "indexed_codec evs = \<lparr>aj_parse = (\<lambda>_. None), aj_show = (\<lambda>_. []), aj_b64 = (\<lambda>_. None), aj_response = (\<lambda>s. Inl (Opaque s)),
     aj_event = (\<lambda>s. if length s - 1 < length evs then Some (evs ! (length s - 1)) else None), aj_error = (\<lambda>_. None)\<rparr>"

lemma unary_carries:
  assumes "length evs < 1000" "list_all (\<lambda>ev. av_type ev \<noteq> ''message_stop'') evs"
  shows "a_carries (indexed_codec evs) (map unary_event [0..<length evs]) evs"
proof -
  have "aj_event (indexed_codec evs) (se_data (raw_event_view (unary_event n))) = Some (evs ! n)" if "n < length evs" for n
    using that by (simp add: indexed_codec_def unary_event_def raw_event_view_def)
  then show ?thesis
    using assms unary_event_ok by (auto simp: a_carries_def list_all2_conv_all_nth list_all_length)
qed


text \<open>
  A call streamed without arguments is collected with the empty text as its arguments; replayed,
  its block then has no \<open>input\<close> at all, although the API asks for one.
\<close>

lemma anthropic_empty_input:
  assumes "aj_parse cd [] = None"
  shows "map (call_block cd) (block_calls (ToolBlock i n [])) =
    [zero_block\<lparr>ab_type := ''tool_use'', ab_id := i, ab_name := n, ab_input := RawNil\<rparr>]"
  using assms by (simp add: call_block_def)

section \<open>Prompt caching\<close>

text \<open>The breakpoints of a request, and the request without them.\<close>

definition breakpoints :: "a_request \<Rightarrow> nat" where
  "breakpoints r = length (filter at_cache (aq_tools r)) + (case aq_system r of SysBlock s \<Rightarrow> 1 | _ \<Rightarrow> 0) +
     length (filter ab_cache (concat (map am_content (aq_messages r))))"

definition unmarked :: "a_request \<Rightarrow> a_request" where
  "unmarked r = r\<lparr>aq_tools := map (\<lambda>t. t\<lparr>at_cache := False\<rparr>) (aq_tools r),
     aq_system := (case aq_system r of SysBlock s \<Rightarrow> SysText s | sys \<Rightarrow> sys),
     aq_messages := map (\<lambda>m. m\<lparr>am_content := map (\<lambda>b. b\<lparr>ab_cache := False\<rparr>) (am_content m)\<rparr>) (aq_messages r)\<rparr>"

lemma mark_last_map: "(\<And>x. g (f x) = g x) \<Longrightarrow> map g (mark_last f xs) = map g xs"
  by (cases xs rule: rev_cases) (simp_all add: mark_last_def)

lemma mark_last_count: "filter P xs = [] \<Longrightarrow> length (filter P (mark_last f xs)) \<le> 1"
  by (cases xs rule: rev_cases) (simp_all add: mark_last_def)

lemma unmarked_breakpoints: "unmarked (cache_breakpoints r) = unmarked r"
proof -
  have "map (\<lambda>b. b\<lparr>ab_cache := False\<rparr>) (mark_last (\<lambda>b. b\<lparr>ab_cache := True\<rparr>) bs) = map (\<lambda>b. b\<lparr>ab_cache := False\<rparr>) bs" for bs :: "a_block list"
    by (rule mark_last_map) simp
  then show ?thesis
    by (auto simp: unmarked_def cache_breakpoints_def mark_last_map split: a_system.split list.split)
qed

lemma count_breakpoints: "breakpoints r = 0 \<Longrightarrow> breakpoints (cache_breakpoints r) \<le> 3"
proof -
  assume r: "breakpoints r = 0"
  have "length (filter ab_cache (concat (map am_content
      (mark_last (\<lambda>m. m\<lparr>am_content := mark_last (\<lambda>b. b\<lparr>ab_cache := True\<rparr>) (am_content m)\<rparr>) ms)))) \<le> 1"
    if "filter ab_cache (concat (map am_content ms)) = []" for ms
  proof (cases ms rule: rev_cases)
    case (snoc ys y)
    then have "filter ab_cache (concat (map am_content ys)) = []" "filter ab_cache (am_content y) = []" using that by simp_all
    then show ?thesis using snoc mark_last_count [of ab_cache "am_content y"] by (simp add: mark_last_def [of _ "_ @ _"])
  qed (simp add: mark_last_def)
  moreover have "length (filter at_cache (mark_last (\<lambda>t. t\<lparr>at_cache := True\<rparr>) (aq_tools r))) \<le> 1"
    using r by (intro mark_last_count) (simp add: breakpoints_def)
  ultimately show ?thesis
    using r by (fastforce simp: breakpoints_def cache_breakpoints_def split: a_system.splits list.split)
qed

lemma fresh_tools: "filter at_cache (map a_convertTool ts @ (if b then [structured_tool s] else []) @ concat (map web_search_tool sts)) = []"
  "map (\<lambda>t. t\<lparr>at_cache := False\<rparr>) (map a_convertTool ts @ (if b then [structured_tool s] else []) @ concat (map web_search_tool sts)) =
     map a_convertTool ts @ (if b then [structured_tool s] else []) @ concat (map web_search_tool sts)"
  by (auto simp: a_convertTool_def structured_tool_def zero_tool_def filter_empty_conv web_search_tool_def Let_def map_concat
      intro!: arg_cong [of _ _ concat] split: option.splits if_splits)

lemma fresh_blocks: "ab_cache b = False" if "b \<in> set (am_content (a_convert_message cd m))"
  using that by (auto simp: a_convert_message_def convertContentParts_def a_convert_part_def imageBlock_def documentBlock_def
      call_block_def zero_block_def split: if_splits prod.splits)

text \<open>
  Prompt caching only marks: the request built with caching is the one built without it
  plus at most three breakpoints, within the four the API allows; and a request is refused for
  its parts with or without caching alike.
\<close>

theorem anthropic_cache_breakpoints:
  "case a_buildRequestBody cd (req\<lparr>req_cache_control := True\<rparr>) stream of
     Inl e \<Rightarrow> a_buildRequestBody cd (req\<lparr>req_cache_control := False\<rparr>) stream = Inl e
   | Inr q \<Rightarrow> breakpoints q \<le> 3 \<and>
       a_buildRequestBody cd (req\<lparr>req_cache_control := False\<rparr>) stream = Inr (unmarked q)"
proof -
  have C: "CheckParts p (req\<lparr>req_cache_control := b\<rparr>) s = CheckParts p req s" for p b s
    by (simp add: CheckParts_def positions_def)
  let ?r = "a_body cd req stream"
  have B: "a_body cd (req\<lparr>req_cache_control := b\<rparr>) stream = ?r" for b
    by (simp add: a_body_def a_convertMessages_def thinking_budget_def Let_def split: option.split)
  have M: "aq_messages ?r = a_convertMessages cd req" "aq_system ?r \<noteq> SysBlock s" for s
    by (simp_all add: a_body_def Let_def)
  have T: "filter at_cache (aq_tools ?r) = []" "map (\<lambda>t. t\<lparr>at_cache := False\<rparr>) (aq_tools ?r) = aq_tools ?r"
    using fresh_tools by (simp_all only: a_body_def Let_def a_request.simps)
  have blocks: "map (\<lambda>b. b\<lparr>ab_cache := False\<rparr>) (am_content (a_convert_message cd m)) = am_content (a_convert_message cd m)" for m
    by (rule map_idI) (simp add: fresh_blocks [of _ cd m, symmetric])
  have "filter ab_cache (concat (map am_content (aq_messages ?r))) = []"
    by (auto simp: M a_convertMessages_def filter_empty_conv dest: fresh_blocks)
  then have "breakpoints ?r = 0"
    using T M(2) by (auto simp: breakpoints_def split: a_system.split)
  moreover have "unmarked ?r = ?r"
    using T M(2) by (auto simp: unmarked_def M(1) a_convertMessages_def blocks comp_def intro!: a_request.equality split: a_system.split)
  ultimately show ?thesis
    using count_breakpoints [of ?r] unmarked_breakpoints [of ?r]
    by (simp add: a_buildRequestBody_def C B Let_def split: option.split)
qed

end
