(* ===== verification/Bedrock_Provider.thy ===== *)
theory Bedrock_Provider
  imports Transport Media_Parts Event_Frames Tool_Loop
begin

text \<open>
  The provider for Amazon Bedrock's Converse API (\<open>llm/bedrock\<close>): requests, responses, and
  the stream it reads through the event-stream decoder. Signing and HTTP are the transport;
  the codec decodes response bodies and the payloads of frames. File names are read in the
  ASCII range, where \<open>unicode.IsLetter\<close> is the byte table.
\<close>

section \<open>Wire types\<close>

text \<open>A content block has exactly one of its fields set.\<close>

datatype b_block =
    BText string
  | BImage string string
  | BDocument string string string
  | BToolUse string string string
  | BToolResult string string
  | BCachePoint

record b_message =
  bm_role :: string
  bm_content :: "b_block list"

datatype b_system = BSystem string | BSystemCache

datatype b_tool_entry = BToolSpec string string raw_json | BToolCache

datatype b_tool_choice = BAny | BTool string

record b_request =
  bq_messages :: "b_message list"
  bq_system :: "b_system list"
  bq_max_tokens :: int
  bq_temperature :: "rat option"
  bq_top_p :: "rat option"
  bq_stop :: "string list"
  bq_tools :: "(b_tool_entry list \<times> b_tool_choice option) option"
  bq_thinking :: "int option"

record b_usage =
  bu_input :: int
  bu_output :: int
  bu_total :: int
  bu_cache_read :: int
  bu_cache_write :: int

record b_reply_block =
  rb_text :: string
  rb_tool_use :: "(string \<times> string \<times> string) option"
  rb_reasoning :: "string option"

record b_response =
  bs_content :: "b_reply_block list"
  bs_stop_reason :: string
  bs_usage :: b_usage

record b_block_start =
  bst_index :: int
  bst_tool :: "(string \<times> string) option"

record b_block_delta =
  bdl_index :: int
  bdl_text :: string
  bdl_tool :: "string option"
  bdl_reasoning :: "string option"

record bedrock_codec =
  bj_response :: "string \<Rightarrow> go_error + b_response"
  bj_error :: "string \<Rightarrow> string option"
  bj_start :: "byte list \<Rightarrow> b_block_start option"
  bj_delta :: "byte list \<Rightarrow> b_block_delta option"
  bj_metadata :: "byte list \<Rightarrow> b_usage option"
  bj_exception :: "byte list \<Rightarrow> string"

section \<open>Requests\<close>

definition docFormats :: "(string \<times> string) list" where
  "docFormats = [(''application/pdf'', ''pdf''), (''text/csv'', ''csv''), (''application/msword'', ''doc''),
     (''application/vnd.openxmlformats-officedocument.wordprocessingml.document'', ''docx''),
     (''application/vnd.ms-excel'', ''xls''),
     (''application/vnd.openxmlformats-officedocument.spreadsheetml.sheet'', ''xlsx''),
     (''text/html'', ''html''), (''text/plain'', ''txt''), (''text/markdown'', ''md'')]"

definition doc_format :: "string \<Rightarrow> string" where
  "doc_format mt = (case map_of docFormats mt of None \<Rightarrow> [] | Some f \<Rightarrow> f)"

text \<open>\<open>path.Ext\<close>: from the last dot of the last path element.\<close>

definition path_Ext :: "string \<Rightarrow> string" where
  "path_Ext name =
     (let elem = rev (takeWhile (\<lambda>c. c \<noteq> CHR ''/'') (rev name)) in
      if CHR ''.'' \<in> set elem then CHR ''.'' # rev (takeWhile (\<lambda>c. c \<noteq> CHR ''.'') (rev elem)) else [])"

text \<open>Letters, digits and the marks a document name keeps, for ASCII names.\<close>

definition doc_char :: "char \<Rightarrow> bool" where
  "doc_char c \<longleftrightarrow> (let n = of_char c :: nat in
     (65 \<le> n \<and> n \<le> 90) \<or> (97 \<le> n \<and> n \<le> 122) \<or> (48 \<le> n \<and> n \<le> 57)) \<or> c \<in> set ''-()[]''"

text \<open>The loop over the runes: the text so far, and whether it ends in a blank of the loop.\<close>

definition doc_step :: "string \<times> bool \<Rightarrow> char \<Rightarrow> string \<times> bool" where
  "doc_step st c = (case st of (b, space) \<Rightarrow>
     if doc_char c then (b @ [c], False)
     else if \<not> space \<and> b \<noteq> [] then (b @ '' '', True)
     else st)"

definition docName :: "string \<Rightarrow> nat \<Rightarrow> string" where
  "docName name n =
     (let s = TrimSpace (fst (foldl doc_step ([], False) (TrimSuffix name (path_Ext name)))) in
      if s \<noteq> [] then s else ''document-'' @ int_dec (int n))"

definition bedrock_media :: support where
  "bedrock_media = \<lparr>su_audio = False, su_audio_formats = None, su_document_data = True, su_document_url = False\<rparr>"

definition checkParts :: "completion_request \<Rightarrow> go_error option" where
  "checkParts req =
     (case CheckParts ''bedrock'' req bedrock_media of
        Some e \<Rightarrow> Some e
      | None \<Rightarrow> first_some (map (\<lambda>(i, j, p).
          if cp_type p = ContentDocument \<and> doc_format (cp_media_type p) = []
          then Some (Errorf ''bedrock: message %d part %d: document type %q: %w''
            [FInt (int i), FInt (int j), FStr (cp_media_type p), FWrap ErrUnsupportedContent])
          else None) (positions req)))"

text \<open>A part's blocks; \<open>n\<close> blocks come before it. An image that is not base64 data is skipped.\<close>

definition b_convert_part :: "nat \<Rightarrow> content_part \<Rightarrow> b_block list" where
  "b_convert_part n p =
     (if cp_type p = ''image'' then
        (case ParseImageURL (cp_image_url p) of (mt, data, _, isB64) \<Rightarrow>
           if isB64 \<and> ImageFormat mt \<noteq> [] then [BImage (ImageFormat mt) data] else [])
      else if cp_type p = ContentDocument then
        [BDocument (doc_format (cp_media_type p)) (docName (cp_filename p) (n + 1)) (cp_data p)]
      else [BText (cp_text p)])"

definition b_convertContentParts :: "message \<Rightarrow> b_block list" where
  "b_convertContentParts m =
     (if msg_parts m = [] then [BText (msg_content m)]
      else
        let blocks = foldl (\<lambda>bs p. bs @ b_convert_part (length bs) p) [] (msg_parts m) in
        if blocks = [] then [BText (msg_content m)] else blocks)"

definition b_call_block :: "tool_call \<Rightarrow> b_block" where
  "b_call_block tc = BToolUse (tc_id tc) (tc_name tc) (if tc_arguments tc = [] then [CHR 0x7B, CHR 0x7D] else tc_arguments tc)"

definition b_convert_message :: "message \<Rightarrow> b_message list" where
  "b_convert_message m =
     (if msg_role m = ''system'' then []
      else if msg_role m = ''tool'' then
        [\<lparr>bm_role = ''user'', bm_content = [BToolResult (msg_tool_call_id m) (msg_content m)]\<rparr>]
      else if msg_role m = ''assistant'' then
        [\<lparr>bm_role = ''assistant'', bm_content =
           (if msg_content m \<noteq> [] then [BText (msg_content m)] else []) @ map b_call_block (msg_tool_calls m)\<rparr>]
      else [\<lparr>bm_role = ''user'', bm_content = b_convertContentParts m\<rparr>])"

definition b_convertMessages :: "completion_request \<Rightarrow> b_message list" where
  "b_convertMessages req = concat (map b_convert_message (req_messages req))"

definition buildSystem :: "completion_request \<Rightarrow> b_system list" where
  "buildSystem req =
     (if req_system req \<noteq> [] then [BSystem (req_system req)] else []) @
     map (\<lambda>m. BSystem (msg_content m))
       (filter (\<lambda>m. msg_role m = ''system'' \<and> msg_content m \<noteq> []) (req_messages req))"

definition b_convertToolChoice :: "tool_choice option \<Rightarrow> b_tool_choice option" where
  "b_convertToolChoice tc =
     (case tc of None \<Rightarrow> None
      | Some c \<Rightarrow>
          if tch_mode c = ToolChoiceRequired then Some BAny
          else if tch_mode c = ToolChoiceTool then Some (BTool (tch_name c))
          else None)"

definition b_tool_config :: "completion_request \<Rightarrow> (b_tool_entry list \<times> b_tool_choice option) option" where
  "b_tool_config req =
     (let structured = \<not> raw_empty (req_output_schema req);
          tools = map (\<lambda>t. BToolSpec (td_name t) (td_description t) (td_parameters t)) (req_tools req) @
            (if structured then [BToolSpec ''structured_output''
               ''Return the response in the specified JSON schema.'' (req_output_schema req)] else []);
          noTools = \<not> structured \<and> (case req_tool_choice req of None \<Rightarrow> False | Some c \<Rightarrow> tch_mode c = ToolChoiceNone)
      in if tools \<noteq> [] \<and> \<not> noTools
         then Some (tools, if structured then Some (BTool ''structured_output'') else b_convertToolChoice (req_tool_choice req))
         else None)"

definition b_thinking_budget :: "completion_request \<Rightarrow> int option" where
  "b_thinking_budget req =
     (if req_budget req \<noteq> None \<or> Requested (req_effort req) then
        (let budget = (case req_budget req of Some b \<Rightarrow> b | None \<Rightarrow> BudgetTokens (req_effort req))
         in Some (if budget = 0 then 10000 else budget))
      else None)"

text \<open>The cache points: after the tools, after the system blocks, in the last message.\<close>

definition b_cache_points :: "b_request \<Rightarrow> b_request" where
  "b_cache_points r =
     r\<lparr>bq_tools := (case bq_tools r of Some (t # ts, c) \<Rightarrow> Some (t # ts @ [BToolCache], c) | x \<Rightarrow> x),
       bq_system := (if bq_system r \<noteq> [] then bq_system r @ [BSystemCache] else []),
       bq_messages := (if bq_messages r \<noteq> [] then butlast (bq_messages r) @
         [(last (bq_messages r))\<lparr>bm_content := bm_content (last (bq_messages r)) @ [BCachePoint]\<rparr>] else [])\<rparr>"

definition b_buildRequestBody :: "completion_request \<Rightarrow> go_error + b_request" where
  "b_buildRequestBody req =
     (case checkParts req of
        Some e \<Rightarrow> Inl e
      | None \<Rightarrow>
          let r = \<lparr>bq_messages = b_convertMessages req, bq_system = buildSystem req,
                bq_max_tokens = (case req_max_tokens req of None \<Rightarrow> 4096 | Some n \<Rightarrow> n),
                bq_temperature = req_temperature req, bq_top_p = req_top_p req, bq_stop = req_stop req,
                bq_tools = b_tool_config req, bq_thinking = b_thinking_budget req\<rparr>
          in Inr (if req_cache_control req then b_cache_points r else r))"

section \<open>Responses\<close>

definition b_toUsage :: "b_usage \<Rightarrow> token_usage" where
  "b_toUsage u = zero_usage\<lparr>prompt_tokens := bu_input u, completion_tokens := bu_output u, total_tokens := bu_total u,
     cached_tokens := bu_cache_read u, cache_creation_tokens := bu_cache_write u\<rparr>"

definition b_parse_block :: "completion_response \<Rightarrow> b_reply_block \<Rightarrow> completion_response" where
  "b_parse_block res b =
     (case rb_reasoning b of
        Some t \<Rightarrow> res\<lparr>resp_thinking := resp_thinking res @ t\<rparr>
      | None \<Rightarrow>
          (case rb_tool_use b of
             Some (i, name, args) \<Rightarrow>
               if name = ''structured_output'' then res\<lparr>resp_content := args\<rparr>
               else res\<lparr>resp_tool_calls := resp_tool_calls res @
                 [\<lparr>tc_id = i, tc_name = name, tc_arguments = args, tc_metadata = []\<rparr>]\<rparr>
           | None \<Rightarrow>
               if rb_text b \<noteq> [] then res\<lparr>resp_content := resp_content res @ rb_text b\<rparr> else res))"

definition b_parseResponse :: "b_response \<Rightarrow> completion_response" where
  "b_parseResponse resp =
     foldl b_parse_block (zero_response\<lparr>resp_finish := bs_stop_reason resp, resp_usage := b_toUsage (bs_usage resp)\<rparr>)
       (bs_content resp)"

text \<open>A request goes to the URL of its model, which must be named.\<close>

definition b_send :: "bedrock_codec \<Rightarrow> (string \<times> string \<times> b_request, 'w) transport \<Rightarrow> string \<Rightarrow> string \<Rightarrow> b_request \<Rightarrow> 'w
    \<Rightarrow> (go_error + http_reply) \<times> 'w" where
  "b_send cd post model action body w =
     (if model = [] then (Inl (Errorf ''bedrock: model is required'' []), w)
      else send_request ''bedrock'' (bj_error cd) post (model, action, body) w)"

definition bedrock_Complete :: "bedrock_codec \<Rightarrow> (string \<times> string \<times> b_request, 'w) transport \<Rightarrow> 'w complete_fn" where
  "bedrock_Complete cd post req w =
     (case b_buildRequestBody req of
        Inl e \<Rightarrow> (Inl e, w)
      | Inr body \<Rightarrow>
          (case b_send cd post (req_model req) ''converse'' body w of
             (Inl e, w') \<Rightarrow> (Inl e, w')
           | (Inr r, w') \<Rightarrow>
               (case hr_fail r of
                  Some e \<Rightarrow> Inl (Errorf ''bedrock: failed to read response: %w'' [FWrap e])
                | None \<Rightarrow>
                    (case bj_response cd (hr_body r) of
                       Inl e \<Rightarrow> Inl (Errorf ''bedrock: failed to parse response: %w'' [FWrap e])
                     | Inr resp \<Rightarrow> Inr (b_parseResponse resp)), w')))"

section \<open>Streams\<close>

record b_pending =
  bp_id :: string
  bp_name :: string
  bp_index :: nat
  bp_input :: string

record b_state =
  bx_pending :: "int \<rightharpoonup> b_pending"
  bx_order :: "int list"

definition b_start :: "b_state \<Rightarrow> b_block_start \<Rightarrow> stream_event list \<times> b_state" where
  "b_start st ev =
     (case bst_tool ev of
        None \<Rightarrow> ([], st)
      | Some (i, name) \<Rightarrow>
          let n = length (bx_order st) in
          ([delta_event \<lparr>tcd_index = int n, tcd_id = i, tcd_name = name, tcd_arguments = []\<rparr>],
           st\<lparr>bx_pending := (bx_pending st)(bst_index ev \<mapsto> \<lparr>bp_id = i, bp_name = name, bp_index = n, bp_input = []\<rparr>),
              bx_order := bx_order st @ [bst_index ev]\<rparr>))"

definition b_delta :: "b_state \<Rightarrow> b_block_delta \<Rightarrow> stream_event list \<times> b_state" where
  "b_delta st ev =
     (let text = (case bdl_reasoning ev of Some (c # t) \<Rightarrow> [reasoning_event (c # t)] | _ \<Rightarrow> []) @
            (if bdl_text ev \<noteq> [] then [content_event (bdl_text ev)] else []) in
      case bdl_tool ev of
        None \<Rightarrow> (text, st)
      | Some input \<Rightarrow>
          (case bx_pending st (bdl_index ev) of
             None \<Rightarrow> (text, st)
           | Some pt \<Rightarrow>
               (text @ (if input \<noteq> [] then [delta_event \<lparr>tcd_index = int (bp_index pt), tcd_id = [], tcd_name = [],
                  tcd_arguments = input\<rparr>] else []),
                st\<lparr>bx_pending := (bx_pending st)(bdl_index ev \<mapsto> pt\<lparr>bp_input := bp_input pt @ input\<rparr>)\<rparr>)))"

definition b_flush :: "b_state \<Rightarrow> stream_event list" where
  "b_flush st = map (\<lambda>i. case bx_pending st i of
       None \<Rightarrow> tool_call_event zero_call
     | Some pt \<Rightarrow> tool_call_event \<lparr>tc_id = bp_id pt, tc_name = bp_name pt, tc_arguments = bp_input pt, tc_metadata = []\<rparr>)
     (bx_order st)"

definition b_step :: "bedrock_codec \<Rightarrow> b_state \<Rightarrow> es_message \<Rightarrow> stream_event list \<times> b_state" where
  "b_step cd st m =
     (if EventType m = ''contentBlockStart'' then
        (case bj_start cd (es_payload m) of None \<Rightarrow> ([], st) | Some ev \<Rightarrow> b_start st ev)
      else if EventType m = ''contentBlockDelta'' then
        (case bj_delta cd (es_payload m) of None \<Rightarrow> ([], st) | Some ev \<Rightarrow> b_delta st ev)
      else if EventType m = ''messageStop'' then (b_flush st, st\<lparr>bx_order := []\<rparr>)
      else if EventType m = ''metadata'' then
        (case bj_metadata cd (es_payload m) of None \<Rightarrow> ([], st) | Some u \<Rightarrow> ([usage_event (b_toUsage u)], st))
      else ([], st))"

definition stream_exception :: "bedrock_codec \<Rightarrow> es_message \<Rightarrow> stream_event" where
  "stream_exception cd m =
     (let detail = bj_exception cd (es_payload m) in
      error_event (Errorf ''bedrock: stream exception: %s''
        [FStr (if detail = [] then header_value '':exception-type'' m else detail)]))"

lemma dec_Next_shrinks:
  assumes "dec_Next r = (Inr m, r')"
  shows "length (br_bytes r') < length (br_bytes r)"
  using es_Next_shrinks [of r m r'] assms by (simp add: es_Next_def)

function b_read_loop :: "bedrock_codec \<Rightarrow> (nat \<Rightarrow> bool) \<Rightarrow> nat \<Rightarrow> b_state \<Rightarrow> byte_reader \<Rightarrow> stream_event list" where
  "b_read_loop cd stop i st r =
     (if stop i then []
      else case dec_Next r of
          (Inl e, r') \<Rightarrow>
            if e = ErrEOF then [done_event]
            else [error_event (Errorf ''bedrock: stream read error: %w'' [FWrap e])]
        | (Inr m, r') \<Rightarrow>
            if MessageType m = ''exception'' then [stream_exception cd m]
            else fst (b_step cd st m) @ b_read_loop cd stop (i + 1) (snd (b_step cd st m)) r')"
  by pat_completeness auto
termination
  by (relation "measure (\<lambda>(_, _, _, _, r). length (br_bytes r))") (auto dest: dec_Next_shrinks [OF sym])

declare b_read_loop.simps [simp del]

definition b_readStream :: "bedrock_codec \<Rightarrow> (nat \<Rightarrow> bool) \<Rightarrow> byte_reader \<Rightarrow> stream_event list" where
  "b_readStream cd stop r = b_read_loop cd stop 0 \<lparr>bx_pending = Map.empty, bx_order = []\<rparr> r"

text \<open>The body of a streamed reply is binary: its bytes are those of the reply's text.\<close>

definition bedrock_Stream :: "bedrock_codec \<Rightarrow> (nat \<Rightarrow> bool) \<Rightarrow> (string \<times> string \<times> b_request, 'w) transport \<Rightarrow> 'w stream_fn" where
  "bedrock_Stream cd stop post req w =
     (case b_buildRequestBody req of
        Inl e \<Rightarrow> (Inl e, w)
      | Inr body \<Rightarrow>
          (case b_send cd post (req_model req) ''converse-stream'' body w of
             (Inl e, w') \<Rightarrow> (Inl e, w')
           | (Inr r, w') \<Rightarrow>
               (Inr (b_readStream cd stop \<lparr>br_bytes = str_bytes (hr_body r), br_fail = hr_fail r\<rparr>), w')))"

end
