(* ===== verification/Bedrock_Properties.thy ===== *)
theory Bedrock_Properties
  imports Bedrock_Provider Streamed_Blocks
begin

text \<open>
  What the Bedrock provider promises of its stream: the frames of a message assemble to its
  blocks, and a body cut inside a frame is an error.
\<close>

section \<open>The events of a message\<close>

datatype b_event = SStart b_block_start | SDelta b_block_delta | SStop | SMeta b_usage | SOther

text \<open>A decoded frame stands for an event.\<close>

definition denotes :: "bedrock_codec \<Rightarrow> es_message \<Rightarrow> b_event \<Rightarrow> bool" where
  "denotes cd m ev \<longleftrightarrow> MessageType m \<noteq> ''exception'' \<and>
     (case ev of
        SStart s \<Rightarrow> EventType m = ''contentBlockStart'' \<and> bj_start cd (es_payload m) = Some s
      | SDelta d \<Rightarrow> EventType m = ''contentBlockDelta'' \<and> bj_delta cd (es_payload m) = Some d
      | SStop \<Rightarrow> EventType m = ''messageStop''
      | SMeta u \<Rightarrow> EventType m = ''metadata'' \<and> bj_metadata cd (es_payload m) = Some u
      | SOther \<Rightarrow> EventType m \<in> {''messageStart'', ''contentBlockStop''})"

fun event_step :: "b_state \<Rightarrow> b_event \<Rightarrow> stream_event list \<times> b_state" where
  "event_step st (SStart s) = b_start st s"
| "event_step st (SDelta d) = b_delta st d"
| "event_step st SStop = (b_flush st, st\<lparr>bx_order := []\<rparr>)"
| "event_step st (SMeta u) = ([usage_event (b_toUsage u)], st)"
| "event_step st SOther = ([], st)"

lemma denotes_step: "denotes cd m ev \<Longrightarrow> b_step cd st m = event_step st ev"
  by (cases ev) (auto simp: denotes_def b_step_def)

fun b_run :: "b_state \<Rightarrow> b_event list \<Rightarrow> stream_event list \<times> b_state" where
  "b_run st [] = ([], st)"
| "b_run st (ev # evs) =
     (case b_run (snd (event_step st ev)) evs of (out, st') \<Rightarrow> (fst (event_step st ev) @ out, st'))"

lemma b_run_append:
  "b_run st (xs @ ys) = (case b_run st xs of (o1, st1) \<Rightarrow> case b_run st1 ys of (o2, st2) \<Rightarrow> (o1 @ o2, st2))"
  by (induction xs arbitrary: st) (simp_all split: prod.split)

lemma b_read_loop_run:
  assumes "list_all frame_ok fs" "list_all2 (denotes cd) (map frame_view fs) evs"
  shows "b_read_loop cd (\<lambda>_. False) i st (bytes_reader (concat (map frame_wire fs) @ tail)) =
    fst (b_run st evs) @ b_read_loop cd (\<lambda>_. False) (i + length fs) (snd (b_run st evs)) (bytes_reader tail)"
  using assms
proof (induction fs arbitrary: i st evs)
  case (Cons f fs)
  then obtain ev evs' where ev: "evs = ev # evs'" "denotes cd (frame_view f) ev" "list_all2 (denotes cd) (map frame_view fs) evs'"
    by (auto simp: list_all2_Cons1)
  have "dec_Next (bytes_reader (concat (map frame_wire (f # fs)) @ tail)) =
      (Inr (frame_view f), bytes_reader (concat (map frame_wire fs) @ tail))"
    using Cons.prems dec_Next_frame [of f] by simp
  moreover have "MessageType (frame_view f) \<noteq> ''exception''" using ev(2) by (simp add: denotes_def)
  ultimately show ?case
    using Cons.IH Cons.prems(1) ev by (subst b_read_loop.simps) (simp add: denotes_step split: prod.split)
qed simp

section \<open>Blocks\<close>

definition piece_at :: "int \<Rightarrow> string \<Rightarrow> string option \<Rightarrow> string option \<Rightarrow> b_event" where
  "piece_at i text input thinking =
     SDelta \<lparr>bdl_index = i, bdl_text = text, bdl_tool = input, bdl_reasoning = thinking\<rparr>"

fun b_block_events :: "int \<Rightarrow> s_block \<Rightarrow> b_event list" where
  "b_block_events i (TextBlock ds) = map (\<lambda>d. piece_at i d None None) ds @ [SOther]"
| "b_block_events i (ThinkBlock ds) = map (\<lambda>d. piece_at i [] None (Some d)) ds @ [SOther]"
| "b_block_events i (ToolBlock t n ds) = SStart \<lparr>bst_index = i, bst_tool = Some (t, n)\<rparr> #
     map (\<lambda>d. piece_at i [] (Some d) None) ds @ [SOther]"
| "b_block_events i (OtherEvent t) = [SOther]"

fun blocks_from :: "nat \<Rightarrow> s_block list \<Rightarrow> b_event list" where
  "blocks_from n [] = []"
| "blocks_from n (b # bs) = b_block_events (int n) b @ blocks_from (Suc n) bs"

definition b_message_events :: "s_block list \<Rightarrow> b_usage list \<Rightarrow> b_event list" where
  "b_message_events bs us = SOther # blocks_from 0 bs @ SStop # map SMeta us"

text \<open>The pending calls of blocks below \<open>n\<close>, as they would be flushed.\<close>

definition pending_calls :: "nat \<Rightarrow> b_state \<Rightarrow> tool_call list \<Rightarrow> bool" where
  "pending_calls n st calls \<longleftrightarrow> b_flush st = map tool_call_event calls \<and> list_all (\<lambda>i. i < int n) (bx_order st)"

lemma b_flush_add:
  "list_all (\<lambda>i. i < int n) (bx_order st) \<Longrightarrow>
   b_flush (st\<lparr>bx_pending := (bx_pending st)(int n \<mapsto> pt), bx_order := bx_order st @ [int n]\<rparr>) =
     b_flush st @ [tool_call_event \<lparr>tc_id = bp_id pt, tc_name = bp_name pt, tc_arguments = bp_input pt, tc_metadata = []\<rparr>]"
  by (auto simp: b_flush_def list_all_iff)

lemma run_b_text:
  "\<exists>out. b_run st (map (\<lambda>d. piece_at i d None None) ds) = (out, st) \<and> says out (concat ds) [] []"
proof (induction ds)
  case (Cons d ds)
  then obtain out where "b_run st (map (\<lambda>d. piece_at i d None None) ds) = (out, st)" "says out (concat ds) [] []"
    by blast
  then show ?case
    using says_append [OF says_event(1) [of d]] by (auto simp: piece_at_def b_delta_def)
qed (simp add: says_Nil)

lemma run_b_thinking:
  "\<exists>out. b_run st (map (\<lambda>d. piece_at i [] None (Some d)) ds) = (out, st) \<and> says out [] (concat ds) []"
proof (induction ds)
  case (Cons d ds)
  then obtain out where "b_run st (map (\<lambda>d. piece_at i [] None (Some d)) ds) = (out, st)" "says out [] (concat ds) []"
    by blast
  then show ?case
    using says_append [OF says_event(2) [of d]] by (cases d) (auto simp: piece_at_def b_delta_def)
qed (simp add: says_Nil)

lemma run_b_input:
  "bx_pending st i = Some pt \<Longrightarrow>
   \<exists>out. b_run st (map (\<lambda>d. piece_at i [] (Some d) None) ds) =
       (out, st\<lparr>bx_pending := (bx_pending st)(i \<mapsto> pt\<lparr>bp_input := bp_input pt @ concat ds\<rparr>)\<rparr>) \<and> says out [] [] []"
proof (induction ds arbitrary: st pt)
  case Nil
  then show ?case by (simp add: says_Nil map_upd_triv)
next
  case (Cons d ds)
  let ?pt = "pt\<lparr>bp_input := bp_input pt @ d\<rparr>"
  let ?st = "st\<lparr>bx_pending := (bx_pending st)(i \<mapsto> ?pt)\<rparr>"
  obtain out where "b_run ?st (map (\<lambda>d. piece_at i [] (Some d) None) ds) =
      (out, ?st\<lparr>bx_pending := (bx_pending ?st)(i \<mapsto> ?pt\<lparr>bp_input := bp_input ?pt @ concat ds\<rparr>)\<rparr>)" "says out [] [] []"
    using Cons.IH [of ?st ?pt] by fastforce
  moreover have "?st\<lparr>bx_pending := (bx_pending ?st)(i \<mapsto> ?pt\<lparr>bp_input := bp_input ?pt @ concat ds\<rparr>)\<rparr> =
      st\<lparr>bx_pending := (bx_pending st)(i \<mapsto> pt\<lparr>bp_input := bp_input pt @ concat (d # ds)\<rparr>)\<rparr>"
    by simp
  moreover have "b_delta st \<lparr>bdl_index = i, bdl_text = [], bdl_tool = Some d, bdl_reasoning = None\<rparr> =
      ((if d \<noteq> [] then [delta_event \<lparr>tcd_index = int (bp_index pt), tcd_id = [], tcd_name = [], tcd_arguments = d\<rparr>] else []), ?st)"
    using Cons.prems by (simp add: b_delta_def)
  ultimately show ?case
    using says_append [OF says_event(3) \<open>says out [] [] []\<close>] by (auto simp: piece_at_def fun_upd_def)
qed

lemma run_b_block:
  assumes "pending_calls n st calls"
  shows "\<exists>out st'. b_run st (b_block_events (int n) b) = (out, st') \<and> pending_calls (Suc n) st' (calls @ block_calls b) \<and>
    says out (block_text b) (block_thinking b) []"
proof (cases b)
  case (TextBlock ds)
  obtain out where "b_run st (map (\<lambda>d. piece_at (int n) d None None) ds) = (out, st)" "says out (concat ds) [] []"
    using run_b_text by blast
  then show ?thesis using TextBlock assms by (auto simp: b_run_append pending_calls_def list_all_iff)
next
  case (ThinkBlock ds)
  obtain out where "b_run st (map (\<lambda>d. piece_at (int n) [] None (Some d)) ds) = (out, st)" "says out [] (concat ds) []"
    using run_b_thinking by blast
  then show ?thesis using ThinkBlock assms by (auto simp: b_run_append pending_calls_def list_all_iff)
next
  case (ToolBlock t name ds)
  let ?pt = "\<lparr>bp_id = t, bp_name = name, bp_index = length (bx_order st), bp_input = []\<rparr>"
  let ?st = "st\<lparr>bx_pending := (bx_pending st)(int n \<mapsto> ?pt), bx_order := bx_order st @ [int n]\<rparr>"
  let ?fin = "st\<lparr>bx_pending := (bx_pending st)(int n \<mapsto> ?pt\<lparr>bp_input := concat ds\<rparr>), bx_order := bx_order st @ [int n]\<rparr>"
  obtain out where out: "b_run ?st (map (\<lambda>d. piece_at (int n) [] (Some d) None) ds) = (out, ?fin)" "says out [] [] []"
    using run_b_input [of ?st "int n" ?pt ds] by auto
  have "b_flush ?fin = b_flush st @ [tool_call_event \<lparr>tc_id = t, tc_name = name, tc_arguments = concat ds, tc_metadata = []\<rparr>]"
    using b_flush_add [of n st "?pt\<lparr>bp_input := concat ds\<rparr>"] assms by (simp add: pending_calls_def)
  then have "pending_calls (Suc n) ?fin (calls @ block_calls b)"
    using ToolBlock assms by (auto simp: pending_calls_def list_all_iff)
  then show ?thesis
    using ToolBlock out says_append [OF says_event(3) out(2)] by (auto simp: b_run_append b_start_def Let_def)
next
  case (OtherEvent t)
  then show ?thesis using assms says_Nil by (auto simp: pending_calls_def list_all_iff)
qed

lemma run_b_blocks:
  assumes "pending_calls n st calls"
  shows "\<exists>out st' m. b_run st (blocks_from n bs) = (out, st') \<and> pending_calls m st' (calls @ concat (map block_calls bs)) \<and>
    says out (concat (map block_text bs)) (concat (map block_thinking bs)) []"
  using assms
proof (induction bs arbitrary: n st calls)
  case Nil
  then show ?case by (auto simp: says_Nil)
next
  case (Cons b bs)
  obtain o1 st1 where 1: "b_run st (b_block_events (int n) b) = (o1, st1)" "pending_calls (Suc n) st1 (calls @ block_calls b)"
    "says o1 (block_text b) (block_thinking b) []"
    using run_b_block [OF Cons.prems] by blast
  obtain o2 st2 m where "b_run st1 (blocks_from (Suc n) bs) = (o2, st2)"
    "pending_calls m st2 ((calls @ block_calls b) @ concat (map block_calls bs))"
    "says o2 (concat (map block_text bs)) (concat (map block_thinking bs)) []"
    using Cons.IH [OF 1(2)] by blast
  then show ?case using 1 says_append [OF 1(3)] by (fastforce simp: b_run_append)
qed

section \<open>The stream\<close>

lemma run_metadata: "b_run st (map SMeta us) = (map (\<lambda>u. usage_event (b_toUsage u)) us, st)"
  by (induction us) simp_all

lemma says_metadata: "says (map (\<lambda>u. usage_event (b_toUsage u)) us) [] [] (map b_toUsage us)"
  by (induction us) (use says_append [OF says_event(4)] in \<open>auto simp: says_Nil\<close>)

lemma run_b_message:
  "\<exists>pre post st. b_run \<lparr>bx_pending = Map.empty, bx_order = []\<rparr> (b_message_events bs us) =
      (pre @ map tool_call_event (concat (map block_calls bs)) @ post, st) \<and>
    says pre (concat (map block_text bs)) (concat (map block_thinking bs)) [] \<and> says post [] [] (map b_toUsage us)"
proof -
  have p: "pending_calls 0 \<lparr>bx_pending = Map.empty, bx_order = []\<rparr> []"
    by (simp add: pending_calls_def b_flush_def)
  obtain out st m where "b_run \<lparr>bx_pending = Map.empty, bx_order = []\<rparr> (blocks_from 0 bs) = (out, st)"
    "pending_calls m st (concat (map block_calls bs))"
    "says out (concat (map block_text bs)) (concat (map block_thinking bs)) []"
    using run_b_blocks [OF p, of bs] by auto
  then show ?thesis
    using says_metadata [of us]
    by (fastforce simp: b_message_events_def b_run_append run_metadata pending_calls_def)
qed

text \<open>
  C30. A streamed Converse message is reassembled exactly: its text and reasoning, its tool calls
  with the pieces of their arguments joined, and its last usage report, when the body ends
  between frames. A body cut inside a later frame is an error, never a shorter answer.
\<close>

theorem bedrock_stream_reassembles:
  assumes "list_all frame_ok fs" "list_all2 (denotes cd) (map frame_view fs) (b_message_events bs us)"
    and "frame_ok f" "k < length (frame_wire f)"
  shows "case CollectStream (b_readStream cd (\<lambda>_. False)
      (bytes_reader (concat (map frame_wire fs) @ take k (frame_wire f)))) of
    Inr resp \<Rightarrow> k = 0 \<and> resp =
      \<lparr>resp_content = concat (map block_text bs), resp_thinking = concat (map block_thinking bs),
       resp_tool_calls = concat (map block_calls bs), resp_citations = [],
       resp_usage = (if us = [] then zero_usage else b_toUsage (last us)),
       resp_finish = (if concat (map block_calls bs) = [] then ''stop'' else ''tool_calls''), resp_model = []\<rparr>
  | Inl e \<Rightarrow> 0 < k \<and> (\<exists>cause. e = Errorf ''bedrock: stream read error: %w'' [FWrap cause])"
proof -
  let ?calls = "map tool_call_event (concat (map block_calls bs))"
  obtain pre post st where run: "b_run \<lparr>bx_pending = Map.empty, bx_order = []\<rparr> (b_message_events bs us) = (pre @ ?calls @ post, st)"
    "says pre (concat (map block_text bs)) (concat (map block_thinking bs)) []" "says post [] [] (map b_toUsage us)"
    using run_b_message by blast
  define tail where "tail = b_read_loop cd (\<lambda>_. False) (length fs) st (bytes_reader (take k (frame_wire f)))"
  have stream: "b_readStream cd (\<lambda>_. False) (bytes_reader (concat (map frame_wire fs) @ take k (frame_wire f))) =
      pre @ ?calls @ post @ tail"
    using b_read_loop_run [OF assms(1,2), of 0 _ "take k (frame_wire f)"] run(1)
    by (simp add: b_readStream_def tail_def)
  show ?thesis
  proof (cases "k = 0")
    case True
    then have "tail = [done_event]"
      by (simp add: tail_def b_read_loop.simps dec_Next_def ReadFull_short)
    then show ?thesis
      using True run(2,3) unfolding stream
      by (simp add: CollectStream_eq first_error_def assembled_def last_usage_def says_def tool_call_parts done_parts last_map)
  next
    case False
    then obtain e where "fst (dec_Next (bytes_reader (take k (frame_wire f)))) = Inl e" "e \<noteq> ErrEOF"
      using dec_Next_cut [OF assms(3,4)] by blast
    then have "tail = [error_event (Errorf ''bedrock: stream read error: %w'' [FWrap e])]"
      by (cases "dec_Next (bytes_reader (take k (frame_wire f)))") (simp add: tail_def b_read_loop.simps)
    then show ?thesis
      using False run(2,3) unfolding stream
      by (simp add: CollectStream_eq first_error_def says_def tool_call_parts)
  qed
qed

definition event_frame :: "string \<Rightarrow> es_frame" where
  "event_frame t = \<lparr>ef_headers = [StrHeader '':event-type'' t, StrHeader '':message-type'' ''event''],
     ef_payload = [], ef_prelude_crc = 0, ef_crc = 0\<rparr>"

definition hello_codec :: bedrock_codec where
  "hello_codec = \<lparr>bj_response = (\<lambda>s. Inl (Opaque s)), bj_error = (\<lambda>_. None), bj_start = (\<lambda>_. None),
     bj_delta = (\<lambda>_. Some \<lparr>bdl_index = 0, bdl_text = ''Hi'', bdl_tool = None, bdl_reasoning = None\<rparr>),
     bj_metadata = (\<lambda>_. None), bj_exception = (\<lambda>_. [])\<rparr>"

theorem bedrock_stream_reassembles_witness:
  "case CollectStream (b_readStream hello_codec (\<lambda>_. False)
      (bytes_reader (concat (map frame_wire (map event_frame [''messageStart'', ''contentBlockDelta'', ''contentBlockStop'', ''messageStop''])) @
        take 0 (frame_wire (event_frame ''metadata''))))) of
    Inr resp \<Rightarrow> resp_content resp = ''Hi'' | Inl e \<Rightarrow> False"
proof -
  let ?fs = "map event_frame [''messageStart'', ''contentBlockDelta'', ''contentBlockStop'', ''messageStop'']"
  have ok: "frame_ok (event_frame t)" "frame_view (event_frame t) =
      \<lparr>es_headers = [ '':event-type'' \<mapsto> t, '':message-type'' \<mapsto> ''event''], es_payload = []\<rparr>" if "length t < 100" for t
    using that by (simp_all add: event_frame_def frame_ok_def frame_size_def headers_wire_def frame_view_def)
  have "list_all frame_ok ?fs" "frame_ok (event_frame ''metadata'')" "0 < length (frame_wire (event_frame ''metadata''))"
    by (simp_all add: ok frame_wire_parts frame_size_def)
  moreover have "list_all2 (denotes hello_codec) (map frame_view ?fs) (b_message_events [TextBlock [''Hi'']] [])"
    by (simp add: ok b_message_events_def denotes_def MessageType_def EventType_def header_value_def piece_at_def hello_codec_def)
  ultimately show ?thesis
    using bedrock_stream_reassembles [of ?fs hello_codec "[TextBlock [''Hi'']]" "[]" "event_frame ''metadata''" 0]
    by (auto split: sum.splits)
qed

end
