(* ===== verification/Gemini_Provider.thy ===== *)
theory Gemini_Provider
  imports Transport Media_Parts Wire_Framing
begin

text \<open>
  The provider for Google's Gemini API and for Vertex AI (\<open>llm/gemini/gemini.go\<close>,
  \<open>types.go\<close>): its endpoints, the request it builds (history with thought signatures, generation
  and thinking settings), the responses it parses and the stream it reads.

  Parameters: \<open>gj_object\<close> decodes JSON text into a map (\<open>None\<close> for anything but an object) and
  \<open>gj_show\<close> prints one, \<open>gj_response\<close> decodes a body or a stream chunk, \<open>gj_error\<close> finds the
  message of an error body; a token source acts on the world.
\<close>

section \<open>Wire types\<close>

record g_part =
  gp_text :: string
  gp_thought :: bool
  gp_inline :: "(string \<times> string) option"
  gp_file :: "(string \<times> string) option"
  gp_call :: "(string \<times> json option) option"
  gp_result :: "(string \<times> json) option"
  gp_signature :: string

definition zero_g_part :: g_part where
  "zero_g_part = \<lparr>gp_text = [], gp_thought = False, gp_inline = None, gp_file = None, gp_call = None,
     gp_result = None, gp_signature = []\<rparr>"

record g_content =
  gc_role :: string
  gc_parts :: "g_part list"

record g_thinking =
  gt_budget :: "int option"
  gt_level :: "string option"
  gt_include :: bool

record g_config =
  gg_temperature :: "rat option"
  gg_max_tokens :: "int option"
  gg_top_p :: "rat option"
  gg_top_k :: "int option"
  gg_stop :: "string list"
  gg_mime_type :: string
  gg_schema :: "raw_json option"
  gg_thinking :: "g_thinking option"

definition zero_g_config :: g_config where
  "zero_g_config = \<lparr>gg_temperature = None, gg_max_tokens = None, gg_top_p = None, gg_top_k = None, gg_stop = [],
     gg_mime_type = [], gg_schema = None, gg_thinking = None\<rparr>"

datatype g_tool = GFunctions "tool_definition list" | GSearch

record g_request =
  gq_contents :: "g_content list"
  gq_system :: "g_content option"
  gq_config :: "g_config option"
  gq_tools :: "g_tool list"
  gq_tool_config :: "(string \<times> string list) option"

record g_usage =
  gu_prompt :: int
  gu_candidates :: int
  gu_total :: int
  gu_thoughts :: int
  gu_cached :: int

record g_candidate =
  gn_content :: g_content
  gn_finish :: string
  gn_grounding :: "(string \<times> string) option list"

record g_response =
  gr_candidates :: "g_candidate list"
  gr_usage :: "g_usage option"

record gemini_codec =
  gj_object :: "string \<Rightarrow> json option"
  gj_show :: "json option \<Rightarrow> string"
  gj_response :: "string \<Rightarrow> go_error + g_response"
  gj_error :: "string \<Rightarrow> string option"

section \<open>Endpoints\<close>

record 'w gemini =
  ge_key :: string
  ge_base :: string
  ge_project :: string
  ge_region :: string
  ge_token :: "('w \<Rightarrow> (go_error + string) \<times> 'w) option"

definition defaultBaseURL :: string where
  "defaultBaseURL = ''https://generativelanguage.googleapis.com/v1beta/models''"

definition New_gemini :: "string \<Rightarrow> ('w gemini \<Rightarrow> 'w gemini) list \<Rightarrow> 'w gemini" where
  "New_gemini apiKey opts = foldl (\<lambda>p opt. opt p)
     \<lparr>ge_key = apiKey, ge_base = defaultBaseURL, ge_project = [], ge_region = [], ge_token = None\<rparr> opts"

definition WithBaseURL :: "string \<Rightarrow> 'w gemini \<Rightarrow> 'w gemini" where
  "WithBaseURL url p = p\<lparr>ge_base := url\<rparr>"

definition WithVertex :: "string \<Rightarrow> string \<Rightarrow> ('w \<Rightarrow> (go_error + string) \<times> 'w) option \<Rightarrow> 'w gemini \<Rightarrow> 'w gemini" where
  "WithVertex project region ts p = p\<lparr>ge_project := project, ge_region := region, ge_token := ts\<rparr>"

definition isVertex :: "'w gemini \<Rightarrow> bool" where
  "isVertex p \<longleftrightarrow> ge_project p \<noteq> [] \<and> ge_token p \<noteq> None"

definition providerName :: "'w gemini \<Rightarrow> string" where
  "providerName p = (if isVertex p then ''vertex'' else ''gemini'')"

definition buildURL :: "'w gemini \<Rightarrow> string \<Rightarrow> string \<Rightarrow> bool \<Rightarrow> string" where
  "buildURL p model meth stream =
     (if isVertex p then
        (let base = (if ge_base p = [] \<or> ge_base p = defaultBaseURL
               then ''https://'' @ ge_region p @ ''-aiplatform.googleapis.com/v1'' else ge_base p)
         in base @ ''/projects/'' @ ge_project p @ ''/locations/'' @ ge_region p @ ''/publishers/google/models/'' @ model @
            '':'' @ meth @ (if stream then ''?alt=sse'' else []))
      else if stream then ge_base p @ ''/'' @ model @ '':'' @ meth @ ''?alt=sse&key='' @ ge_key p
      else ge_base p @ ''/'' @ model @ '':'' @ meth @ ''?key='' @ ge_key p)"

section \<open>History\<close>

definition g_signature :: "tool_call \<Rightarrow> string option" where
  "g_signature tc = map_of (tc_metadata tc) ''thoughtSignature''"

definition turnIsSigned :: "tool_call list \<Rightarrow> bool" where
  "turnIsSigned tcs \<longleftrightarrow> list_ex (\<lambda>tc. case g_signature tc of Some (c # s) \<Rightarrow> True | _ \<Rightarrow> False) tcs"

definition toolCallKey :: "tool_call \<Rightarrow> string" where
  "toolCallKey tc = (if tc_id tc \<noteq> [] then tc_id tc else tc_name tc)"

definition unsigned_turn :: "message \<Rightarrow> bool" where
  "unsigned_turn m \<longleftrightarrow> msg_tool_calls m \<noteq> [] \<and> \<not> turnIsSigned (msg_tool_calls m)"

definition textified :: "message list \<Rightarrow> string list" where
  "textified msgs = concat (map (\<lambda>m. if unsigned_turn m then map toolCallKey (msg_tool_calls m) else []) msgs)"

definition g_text :: "string \<Rightarrow> g_part" where
  "g_text s = zero_g_part\<lparr>gp_text := s\<rparr>"

definition g_image_part :: "content_part \<Rightarrow> g_part" where
  "g_image_part p = (case ParseImageURL (cp_image_url p) of (mt, data, url, isB64) \<Rightarrow>
     if isB64 then zero_g_part\<lparr>gp_inline := Some (mt, data)\<rparr> else zero_g_part\<lparr>gp_file := Some ([], url)\<rparr>)"

definition g_convert_part :: "content_part \<Rightarrow> g_part list" where
  "g_convert_part p =
     (if cp_type p = ''image'' then [g_image_part p]
      else if cp_type p = ContentAudio \<or> cp_type p = ContentDocument then
        [if cp_data p \<noteq> [] then zero_g_part\<lparr>gp_inline := Some (cp_media_type p, cp_data p)\<rparr>
         else zero_g_part\<lparr>gp_file := Some (cp_media_type p, cp_url p)\<rparr>]
      else if cp_text p = [] then [] else [g_text (cp_text p)])"

definition g_convertContentParts :: "message \<Rightarrow> g_part list" where
  "g_convertContentParts m =
     (if msg_parts m = [] then (if msg_content m = [] then [] else [g_text (msg_content m)])
      else concat (map g_convert_part (msg_parts m)))"

definition result_text :: "message \<Rightarrow> string" where
  "result_text m = ''Result of tool '' @ [CHR 0x60] @ msg_tool_call_id m @ [CHR 0x60] @ '':'' @ [CHR 0x0A] @ msg_content m"

definition result_part :: "gemini_codec \<Rightarrow> message \<Rightarrow> g_part" where
  "result_part cd m = zero_g_part\<lparr>gp_result := Some (msg_tool_call_id m,
     case gj_object cd (msg_content m) of Some d \<Rightarrow> d | None \<Rightarrow> JObj [(''result'', JStr (msg_content m))])\<rparr>"

definition call_line :: "tool_call \<Rightarrow> string" where
  "call_line tc = ''Called tool '' @ [CHR 0x60] @ tc_name tc @ [CHR 0x60] @ '' with arguments: '' @ tc_arguments tc @ [CHR 0x0A]"

definition unsigned_text :: "message \<Rightarrow> string" where
  "unsigned_text m = TrimSpace ((if msg_content m \<noteq> [] then msg_content m @ [CHR 0x0A] else []) @
     concat (map call_line (msg_tool_calls m)))"

definition call_part :: "gemini_codec \<Rightarrow> tool_call \<Rightarrow> g_part" where
  "call_part cd tc = zero_g_part
     \<lparr>gp_call := Some (tc_name tc, gj_object cd (tc_arguments tc)),
      gp_signature := (case g_signature tc of Some s \<Rightarrow> s | None \<Rightarrow> [])\<rparr>"

definition g_convert_message :: "gemini_codec \<Rightarrow> string list \<Rightarrow> message \<Rightarrow> g_content" where
  "g_convert_message cd texts m =
     (let role = (if msg_role m = ''assistant'' then ''model'' else msg_role m) in
      if msg_role m = ''tool'' then
        \<lparr>gc_role = ''user'', gc_parts = [if msg_tool_call_id m \<in> set texts then g_text (result_text m) else result_part cd m]\<rparr>
      else \<lparr>gc_role = role, gc_parts =
        (if unsigned_turn m then (if unsigned_text m \<noteq> [] then [g_text (unsigned_text m)] else [])
         else if msg_tool_calls m \<noteq> [] then map (call_part cd) (msg_tool_calls m)
         else g_convertContentParts m)\<rparr>)"

definition g_convertMessages :: "gemini_codec \<Rightarrow> completion_request \<Rightarrow> g_content list" where
  "g_convertMessages cd req =
     filter (\<lambda>c. gc_parts c \<noteq> []) (map (g_convert_message cd (textified (req_messages req))) (req_messages req))"

section \<open>The request body\<close>

definition gemini_media :: support where
  "gemini_media = \<lparr>su_audio = True, su_audio_formats = None, su_document_data = True, su_document_url = True\<rparr>"

definition isGemini25Flash :: "string \<Rightarrow> bool" where
  "isGemini25Flash model \<longleftrightarrow> Contains (ToLower model) ''2.5'' \<and> Contains (ToLower model) ''flash''"

definition isGemini3 :: "string \<Rightarrow> bool" where
  "isGemini3 model \<longleftrightarrow> HasPrefix (ToLower model) ''gemini-3''"

definition g_convertToolChoice :: "tool_choice option \<Rightarrow> (string \<times> string list) option" where
  "g_convertToolChoice tc =
     (case tc of None \<Rightarrow> None
      | Some c \<Rightarrow>
          if tch_mode c = ToolChoiceAuto then Some (''AUTO'', [])
          else if tch_mode c = ToolChoiceNone then Some (''NONE'', [])
          else if tch_mode c = ToolChoiceRequired then Some (''ANY'', [])
          else if tch_mode c = ToolChoiceTool then Some (''ANY'', [tch_name c])
          else None)"

definition config_of :: "g_config option \<Rightarrow> g_config" where
  "config_of c = (case c of None \<Rightarrow> zero_g_config | Some c \<Rightarrow> c)"

definition base_config :: "completion_request \<Rightarrow> g_config option" where
  "base_config req =
     (if req_temperature req \<noteq> None \<or> req_max_tokens req \<noteq> None \<or> req_top_p req \<noteq> None \<or> req_top_k req \<noteq> None \<or>
         req_stop req \<noteq> [] \<or> \<not> raw_empty (req_output_schema req)
      then Some (zero_g_config\<lparr>gg_temperature := req_temperature req, gg_max_tokens := req_max_tokens req,
        gg_top_p := req_top_p req, gg_top_k := req_top_k req, gg_stop := req_stop req\<rparr>)
      else None)"

definition format_config :: "completion_request \<Rightarrow> g_config option \<Rightarrow> g_config option" where
  "format_config req c =
     (if \<not> raw_empty (req_output_schema req)
      then Some ((config_of c)\<lparr>gg_mime_type := ''application/json'', gg_schema := Some (req_output_schema req)\<rparr>)
      else if req_response_format req = ''json_object'' then Some ((config_of c)\<lparr>gg_mime_type := ''application/json''\<rparr>)
      else c)"

definition thinking_config :: "completion_request \<Rightarrow> g_thinking" where
  "thinking_config req =
     (let tc = \<lparr>gt_budget = None, gt_level = None, gt_include = True\<rparr> in
      if req_budget req = None \<and> Requested (req_effort req) \<and> isGemini3 (req_model req)
      then tc\<lparr>gt_level := Some (req_effort req)\<rparr>
      else
        let budget = (case req_budget req of Some b \<Rightarrow> b | None \<Rightarrow> BudgetTokens (req_effort req))
        in if budget > 0 then tc\<lparr>gt_budget := Some budget\<rparr> else tc)"

definition reasoning_config :: "completion_request \<Rightarrow> g_config option \<Rightarrow> g_config option" where
  "reasoning_config req c =
     (if req_budget req \<noteq> None \<or> Requested (req_effort req)
      then Some ((config_of c)\<lparr>gg_thinking := Some (thinking_config req)\<rparr>)
      else if req_tools req \<noteq> [] \<and> isGemini25Flash (req_model req)
      then Some ((config_of c)\<lparr>gg_thinking := Some \<lparr>gt_budget = Some 0, gt_level = None, gt_include = False\<rparr>\<rparr>)
      else c)"

definition g_body :: "gemini_codec \<Rightarrow> completion_request \<Rightarrow> g_request" where
  "g_body cd req =
     \<lparr>gq_contents = g_convertMessages cd req,
      gq_system = (if req_system req \<noteq> [] then Some \<lparr>gc_role = [], gc_parts = [g_text (req_system req)]\<rparr> else None),
      gq_config = reasoning_config req (format_config req (base_config req)),
      gq_tools = (if req_tools req \<noteq> [] then [GFunctions (req_tools req)] else []) @
        concat (map (\<lambda>st. if st_type st = ServerToolWebSearch then [GSearch] else []) (req_server_tools req)),
      gq_tool_config = g_convertToolChoice (req_tool_choice req)\<rparr>"

definition g_buildRequestBody :: "gemini_codec \<Rightarrow> 'w gemini \<Rightarrow> completion_request \<Rightarrow> go_error + g_request" where
  "g_buildRequestBody cd p req =
     (case CheckParts (providerName p) req gemini_media of Some e \<Rightarrow> Inl e | None \<Rightarrow> Inr (g_body cd req))"

section \<open>The exchange\<close>

text \<open>A request as sent: the URL, the \<open>Authorization\<close> header and the body.\<close>

type_synonym 'w gemini_transport = "(string \<times> string option \<times> g_request, 'w) transport"

definition g_doRequest :: "gemini_codec \<Rightarrow> 'w gemini \<Rightarrow> 'w gemini_transport \<Rightarrow> string \<Rightarrow> g_request \<Rightarrow> 'w
    \<Rightarrow> (go_error + http_reply) \<times> 'w" where
  "g_doRequest cd p post url body w =
     (case (if isVertex p then ge_token p else None) of
        None \<Rightarrow> send_request (providerName p) (gj_error cd) post (url, None, body) w
      | Some token \<Rightarrow>
          (case token w of
             (Inl err, w1) \<Rightarrow> (Inl (Errorf ''vertex: obtain access token: %w'' [FWrap err]), w1)
           | (Inr tok, w1) \<Rightarrow> send_request (providerName p) (gj_error cd) post (url, Some (''Bearer '' @ tok), body) w1))"

section \<open>Responses\<close>

definition g_toUsage :: "g_usage \<Rightarrow> token_usage" where
  "g_toUsage u = zero_usage\<lparr>prompt_tokens := gu_prompt u, completion_tokens := gu_candidates u,
     total_tokens := gu_total u, reasoning_tokens := gu_thoughts u, cached_tokens := gu_cached u\<rparr>"

definition groundingCitations :: "(string \<times> string) option list \<Rightarrow> citation list" where
  "groundingCitations chunks = concat (map (\<lambda>c. case c of None \<Rightarrow> []
     | Some (uri, title) \<Rightarrow> [\<lparr>cit_url = uri, cit_title = title, cit_snippet = [], cit_start = 0, cit_end = 0\<rparr>]) chunks)"

definition g_tool_call :: "gemini_codec \<Rightarrow> g_part \<Rightarrow> string \<times> json option \<Rightarrow> tool_call" where
  "g_tool_call cd p fc = \<lparr>tc_id = fst fc, tc_name = fst fc, tc_arguments = gj_show cd (snd fc),
     tc_metadata = (if gp_signature p \<noteq> [] then [(''thoughtSignature'', gp_signature p)] else [])\<rparr>"

definition g_parse_part :: "gemini_codec \<Rightarrow> completion_response \<Rightarrow> g_part \<Rightarrow> completion_response" where
  "g_parse_part cd res p =
     (let res1 = (if gp_text p = [] then res
            else if gp_thought p then res\<lparr>resp_thinking := resp_thinking res @ gp_text p\<rparr>
            else res\<lparr>resp_content := resp_content res @ gp_text p\<rparr>)
      in case gp_call p of None \<Rightarrow> res1
         | Some fc \<Rightarrow> res1\<lparr>resp_tool_calls := resp_tool_calls res1 @ [g_tool_call cd p fc]\<rparr>)"

definition g_parseResponse :: "gemini_codec \<Rightarrow> g_response \<Rightarrow> completion_response" where
  "g_parseResponse cd resp =
     (let res = (case gr_usage resp of None \<Rightarrow> zero_response | Some u \<Rightarrow> zero_response\<lparr>resp_usage := g_toUsage u\<rparr>) in
      case gr_candidates resp of
        [] \<Rightarrow> res
      | cand # _ \<Rightarrow> foldl (g_parse_part cd)
          (res\<lparr>resp_finish := gn_finish cand, resp_citations := groundingCitations (gn_grounding cand)\<rparr>)
          (gc_parts (gn_content cand)))"

definition gemini_Complete :: "gemini_codec \<Rightarrow> 'w gemini \<Rightarrow> 'w gemini_transport \<Rightarrow> 'w complete_fn" where
  "gemini_Complete cd p post req w =
     (case g_buildRequestBody cd p req of
        Inl e \<Rightarrow> (Inl e, w)
      | Inr body \<Rightarrow>
          (case g_doRequest cd p post (buildURL p (req_model req) ''generateContent'' False) body w of
             (Inl e, w') \<Rightarrow> (Inl e, w')
           | (Inr r, w') \<Rightarrow>
               (case hr_fail r of
                  Some e \<Rightarrow> Inl (Errorf ''gemini: failed to read response: %w'' [FWrap e])
                | None \<Rightarrow>
                    (case gj_response cd (hr_body r) of
                       Inl e \<Rightarrow> Inl (Errorf ''gemini: failed to parse response: %w'' [FWrap e])
                     | Inr resp \<Rightarrow> Inr (g_parseResponse cd resp)), w')))"

section \<open>Streams\<close>

definition part_events :: "gemini_codec \<Rightarrow> g_part \<Rightarrow> stream_event list" where
  "part_events cd p =
     (if gp_text p = [] then [] else if gp_thought p then [reasoning_event (gp_text p)] else [content_event (gp_text p)]) @
     (case gp_call p of None \<Rightarrow> [] | Some fc \<Rightarrow> [tool_call_event (g_tool_call cd p fc)])"

text \<open>The usage a chunk reports: only with the finish reason \<open>STOP\<close>, and without cached tokens.\<close>

definition chunk_usage_events :: "string \<Rightarrow> g_usage option \<Rightarrow> stream_event list" where
  "chunk_usage_events finish usage =
     (if finish = ''STOP'' then
        (case usage of None \<Rightarrow> []
         | Some u \<Rightarrow> [usage_event (zero_usage\<lparr>prompt_tokens := gu_prompt u, completion_tokens := gu_candidates u,
             total_tokens := gu_total u, reasoning_tokens := gu_thoughts u\<rparr>)])
      else [])"

definition g_chunk_events :: "gemini_codec \<Rightarrow> g_response \<Rightarrow> stream_event list" where
  "g_chunk_events cd resp =
     (case gr_candidates resp of
        [] \<Rightarrow> []
      | cand # _ \<Rightarrow> concat (map (part_events cd) (gc_parts (gn_content cand))) @
          chunk_usage_events (gn_finish cand) (gr_usage resp))"

function g_read_loop :: "gemini_codec \<Rightarrow> (nat \<Rightarrow> bool) \<Rightarrow> nat \<Rightarrow> scanner \<Rightarrow> stream_event list" where
  "g_read_loop cd stop i s =
     (if stop i then []
      else case sse_Next s of
          (None, s') \<Rightarrow>
            (case sse_Err s' of
               Some e \<Rightarrow> [error_event (Errorf ''gemini: stream read error: %w'' [FWrap e])]
             | None \<Rightarrow> [done_event])
        | (Some ev, s') \<Rightarrow>
            (case gj_response cd (se_data ev) of
               Inl e \<Rightarrow> [error_event (Errorf ''gemini: failed to parse stream chunk: %w'' [FWrap e])]
             | Inr resp \<Rightarrow> g_chunk_events cd resp @ g_read_loop cd stop (i + 1) s'))"
  by pat_completeness auto
termination
  by (relation "measure (\<lambda>(_, _, _, s). length (sc_rest s))") (auto dest: sse_Next_shrinks [OF sym])

declare g_read_loop.simps [simp del]

definition g_readStream :: "gemini_codec \<Rightarrow> (nat \<Rightarrow> bool) \<Rightarrow> http_reply \<Rightarrow> stream_event list" where
  "g_readStream cd stop r = g_read_loop cd stop 0 (NewReader (hr_body r) (hr_fail r))"

definition gemini_Stream :: "gemini_codec \<Rightarrow> (nat \<Rightarrow> bool) \<Rightarrow> 'w gemini \<Rightarrow> 'w gemini_transport \<Rightarrow> 'w stream_fn" where
  "gemini_Stream cd stop p post req w =
     (case g_buildRequestBody cd p req of
        Inl e \<Rightarrow> (Inl e, w)
      | Inr body \<Rightarrow>
          (case g_doRequest cd p post (buildURL p (req_model req) ''streamGenerateContent'' True) body w of
             (Inl e, w') \<Rightarrow> (Inl e, w')
           | (Inr r, w') \<Rightarrow> (Inr (g_readStream cd stop r), w')))"

end
