(* ===== verification/Gemini_Properties.thy ===== *)
theory Gemini_Properties
  imports Gemini_Provider Streamed_Blocks
begin

text \<open>
  What the Gemini provider promises: the history it sends is one the API accepts, and a streamed
  answer collects to what the same answer gives in one piece, up to the fields the stream loses.
\<close>

section \<open>History\<close>

text \<open>The API's rules: a part has exactly one data field, a content has parts, a turn with calls is signed.\<close>

definition data_fields :: "g_part \<Rightarrow> nat" where
  "data_fields p = (if gp_text p \<noteq> [] then 1 else 0) + (if gp_inline p \<noteq> None then 1 else 0) +
     (if gp_file p \<noteq> None then 1 else 0) + (if gp_call p \<noteq> None then 1 else 0) + (if gp_result p \<noteq> None then 1 else 0)"

definition turn_ok :: "g_part list \<Rightarrow> bool" where
  "turn_ok ps \<longleftrightarrow> ps \<noteq> [] \<and> list_all (\<lambda>p. data_fields p = 1) ps \<and>
     (list_all (\<lambda>p. gp_call p = None) ps \<or> list_ex (\<lambda>p. gp_call p \<noteq> None \<and> gp_signature p \<noteq> []) ps)"

text \<open>A result part answers none of the calls that were turned into text.\<close>

definition results_ok :: "string list \<Rightarrow> g_part list \<Rightarrow> bool" where
  "results_ok texts ps \<longleftrightarrow> list_all (\<lambda>p. case gp_result p of Some (n, d) \<Rightarrow> n \<notin> set texts | None \<Rightarrow> True) ps"

lemmas part_shapes = g_text_def result_part_def call_part_def g_image_part_def zero_g_part_def data_fields_def

definition plain_part :: "g_part \<Rightarrow> bool" where
  "plain_part p \<longleftrightarrow> data_fields p = 1 \<and> gp_call p = None \<and> gp_result p = None"

lemma plain_shapes:
  "s \<noteq> [] \<Longrightarrow> plain_part (g_text s)" "plain_part (zero_g_part\<lparr>gp_inline := Some i\<rparr>)"
  "plain_part (zero_g_part\<lparr>gp_file := Some f\<rparr>)" "plain_part (g_image_part cp)"
  by (simp_all add: plain_part_def part_shapes split: prod.split)

lemma plain_converted: "list_all plain_part (g_convert_part cp)"
  using plain_shapes by (simp add: g_convert_part_def)

lemma converted_parts: "list_all plain_part (g_convertContentParts m)"
  using plain_converted plain_shapes(1) by (auto simp: g_convertContentParts_def list_all_iff)

lemma signed_turn: "turnIsSigned tcs \<Longrightarrow> list_ex (\<lambda>p. gp_call p \<noteq> None \<and> gp_signature p \<noteq> []) (map (call_part cd) tcs)"
  unfolding turnIsSigned_def list_ex_iff by (fastforce simp: part_shapes split: option.splits list.splits)

lemma call_part_ok: "data_fields (call_part cd tc) = 1" "gp_result (call_part cd tc) = None" "gp_call (call_part cd tc) \<noteq> None"
  by (simp_all add: part_shapes)

lemma plain_turn: "list_all plain_part ps \<Longrightarrow> ps \<noteq> [] \<Longrightarrow> turn_ok ps \<and> results_ok texts ps"
  by (simp add: turn_ok_def results_ok_def list_all_iff plain_part_def)

lemma call_turn: "turnIsSigned tcs \<Longrightarrow> turn_ok (map (call_part cd) tcs) \<and> results_ok texts (map (call_part cd) tcs)"
  using signed_turn [of tcs cd] call_part_ok
  by (auto simp: turn_ok_def results_ok_def list_all_iff turnIsSigned_def)

lemma result_turn: "msg_tool_call_id m \<notin> set texts \<Longrightarrow> turn_ok [result_part cd m] \<and> results_ok texts [result_part cd m]"
  by (simp add: turn_ok_def results_ok_def part_shapes)

lemma convert_message_ok:
  assumes "gc_parts (g_convert_message cd texts m) \<noteq> []"
  shows "turn_ok (gc_parts (g_convert_message cd texts m)) \<and> results_ok texts (gc_parts (g_convert_message cd texts m))"
proof -
  have "plain_part (g_text (result_text m))"
    by (rule plain_shapes) (simp add: result_text_def)
  then have "turn_ok [g_text (result_text m)] \<and> results_ok texts [g_text (result_text m)]"
    using plain_turn [of "[g_text (result_text m)]"] by simp
  moreover have "turn_ok [g_text s] \<and> results_ok texts [g_text s]" if "s \<noteq> []" for s
    using plain_turn [of "[g_text s]"] plain_shapes(1) [OF that] by simp
  ultimately show ?thesis
    using assms result_turn [of m texts cd] call_turn [of "msg_tool_calls m" cd texts] plain_turn [OF converted_parts [of m]]
    by (simp add: g_convert_message_def unsigned_turn_def Let_def split: if_splits)
qed


text \<open>The text of a signed turn is not sent, whatever it says.\<close>

lemma signed_turn_loses_text:
  "turnIsSigned (msg_tool_calls m) \<Longrightarrow> msg_role m \<noteq> ''tool'' \<Longrightarrow>
   g_convert_message cd texts (m\<lparr>msg_content := s, msg_parts := ps\<rparr>) = g_convert_message cd texts m"
  by (auto simp: g_convert_message_def unsigned_turn_def turnIsSigned_def)

text \<open>A result of a signed call goes as text when an unsigned turn anywhere has a call of the same key.\<close>

lemma signed_result_textified:
  assumes "unsigned_turn m" "tc \<in> set (msg_tool_calls m)" "m \<in> set ms" "msg_role r = ''tool''" "msg_tool_call_id r = toolCallKey tc"
  shows "gc_parts (g_convert_message cd (textified ms) r) = [g_text (result_text r)]"
  using assms by (auto simp: g_convert_message_def textified_def)

section \<open>Streams\<close>

definition chunk_parts :: "g_response \<Rightarrow> g_part list" where
  "chunk_parts c = (case gr_candidates c of [] \<Rightarrow> [] | cand # _ \<Rightarrow> gc_parts (gn_content cand))"

definition merged :: "g_response list \<Rightarrow> g_response" where
  "merged cs = \<lparr>gr_candidates = [\<lparr>gn_content = \<lparr>gc_role = ''model'', gc_parts = concat (map chunk_parts cs)\<rparr>,
     gn_finish = [], gn_grounding = []\<rparr>], gr_usage = None\<rparr>"

text \<open>The usage reports the stream passes on: those of chunks that finish with \<open>STOP\<close>, cached tokens left out.\<close>

definition stop_usages :: "g_response \<Rightarrow> token_usage list" where
  "stop_usages c = (case (gr_candidates c, gr_usage c) of
       (cand # _, Some u) \<Rightarrow> if gn_finish cand = ''STOP'' then [(g_toUsage u)\<lparr>cached_tokens := 0\<rparr>] else []
     | _ \<Rightarrow> [])"

definition g_carries :: "gemini_codec \<Rightarrow> raw_event list \<Rightarrow> g_response list \<Rightarrow> bool" where
  "g_carries cd rs cs \<longleftrightarrow> list_all2 (\<lambda>r c. raw_event_ok r \<and> gj_response cd (se_data (raw_event_view r)) = Inr c) rs cs"

lemma g_read_loop_carries:
  assumes "g_carries cd rs cs"
  shows "g_read_loop cd (\<lambda>_. False) i (NewReader (concat (map raw_event_wire rs) @ tail) fail) =
    concat (map (g_chunk_events cd) cs) @ g_read_loop cd (\<lambda>_. False) (i + length rs) (NewReader tail fail)"
  using assms unfolding g_carries_def
proof (induction rs cs arbitrary: i rule: list_all2_induct)
  case (Cons r rs c cs)
  have "sse_Next (NewReader (concat (map raw_event_wire (r # rs)) @ tail) fail) =
      (Some (raw_event_view r), NewReader (concat (map raw_event_wire rs) @ tail) fail)"
    using Cons.hyps sse_Next_raw [of r "concat (map raw_event_wire rs) @ tail"] by simp
  then show ?case
    using Cons.hyps Cons.IH by (subst g_read_loop.simps) simp
qed simp

abbreviation part_stream :: "gemini_codec \<Rightarrow> g_part list \<Rightarrow> stream_event list" where
  "part_stream cd ps \<equiv> concat (map (part_events cd) ps)"

lemma foldl_parse:
  "foldl (g_parse_part cd) res ps = res\<lparr>resp_content := resp_content res @ text_of (part_stream cd ps),
     resp_thinking := resp_thinking res @ reasoning_of (part_stream cd ps),
     resp_tool_calls := resp_tool_calls res @ calls_of (part_stream cd ps)\<rparr>"
  by (induction ps arbitrary: res)
    (auto simp: g_parse_part_def part_events_def Let_def stream_parts_snoc record_defs split: option.split)

lemma part_stream_quiet:
  "citations_of (part_stream cd ps) = [] \<and> errors_of (part_stream cd ps) = [] \<and> usages_of (part_stream cd ps) = []"
  by (induction ps) (auto simp: part_events_def stream_parts_snoc record_defs split: option.split)

lemma chunk_events_parts:
  "text_of (g_chunk_events cd c) = text_of (part_stream cd (chunk_parts c)) \<and>
   reasoning_of (g_chunk_events cd c) = reasoning_of (part_stream cd (chunk_parts c)) \<and>
   calls_of (g_chunk_events cd c) = calls_of (part_stream cd (chunk_parts c)) \<and>
   citations_of (g_chunk_events cd c) = [] \<and> errors_of (g_chunk_events cd c) = [] \<and>
   usages_of (g_chunk_events cd c) = stop_usages c"
  by (auto simp: g_chunk_events_def chunk_parts_def chunk_usage_events_def stop_usages_def part_stream_quiet g_toUsage_def
      stream_parts_snoc record_defs split: list.split option.split)

lemma stream_events_parts:
  "text_of (concat (map (g_chunk_events cd) cs)) = text_of (part_stream cd (concat (map chunk_parts cs))) \<and>
   reasoning_of (concat (map (g_chunk_events cd) cs)) = reasoning_of (part_stream cd (concat (map chunk_parts cs))) \<and>
   calls_of (concat (map (g_chunk_events cd) cs)) = calls_of (part_stream cd (concat (map chunk_parts cs))) \<and>
   citations_of (concat (map (g_chunk_events cd) cs)) = [] \<and> errors_of (concat (map (g_chunk_events cd) cs)) = [] \<and>
   usages_of (concat (map (g_chunk_events cd) cs)) = concat (map stop_usages cs)"
  by (induction cs) (simp_all add: chunk_events_parts)

text \<open>
  A streamed Gemini answer collects to what \<open>parseResponse\<close> makes of the same parts sent in
  one response, with the last usage a \<open>STOP\<close> chunk reported. What the stream leaves out is what
  the statement names: the citations of the grounding metadata, the cached tokens, the provider's
  finish reason, and the usage of an answer that finishes for another reason.
\<close>

theorem gemini_stream_agrees:
  assumes "g_carries cd rs cs" "hr_body r = concat (map raw_event_wire rs)" "hr_fail r = None"
  shows "CollectStream (g_readStream cd (\<lambda>_. False) r) =
    Inr (let whole = g_parseResponse cd (merged cs); us = concat (map stop_usages cs) in
      whole\<lparr>resp_usage := (if us = [] then zero_usage else last us),
            resp_finish := (if resp_tool_calls whole = [] then ''stop'' else ''tool_calls'')\<rparr>)"
proof -
  let ?evs = "concat (map (g_chunk_events cd) cs)"
  have "g_readStream cd (\<lambda>_. False) r = ?evs @ [done_event]"
    using g_read_loop_carries [OF assms(1), of 0 "[]" None] assms(2,3)
    by (simp add: g_readStream_def) (simp add: g_read_loop.simps sse_Next_end sse_Err_def)
  then have "CollectStream (g_readStream cd (\<lambda>_. False) r) = Inr (assembled (?evs @ [done_event]))"
    by (simp add: CollectStream_eq first_error_def stream_events_parts)
  then show ?thesis
    by (simp add: assembled_def last_usage_def stream_events_parts done_parts Let_def)
      (simp add: g_parseResponse_def merged_def foldl_parse groundingCitations_def zero_response_def)
qed

text \<open>A chunk with text, a signed call, cached tokens and a citation, carried by one event.\<close>

definition sample_chunk :: g_response where
  "sample_chunk = \<lparr>gr_candidates = [\<lparr>gn_content = \<lparr>gc_role = ''model'',
       gc_parts = [g_text ''Hi'', zero_g_part\<lparr>gp_call := Some (''f'', None), gp_signature := ''s''\<rparr>]\<rparr>,
     gn_finish = ''STOP'', gn_grounding = [Some (''u'', ''t'')]\<rparr>],
     gr_usage = Some \<lparr>gu_prompt = 3, gu_candidates = 2, gu_total = 5, gu_thoughts = 0, gu_cached = 1\<rparr>\<rparr>"

definition sample_codec :: gemini_codec where
  "sample_codec = \<lparr>gj_object = (\<lambda>_. None), gj_show = (\<lambda>_. ''null''), gj_response = (\<lambda>_. Inr sample_chunk), gj_error = (\<lambda>_. None)\<rparr>"

definition sample_event :: raw_event where
  "sample_event = \<lparr>re_crlf = False, re_comment = [], re_type = [], re_lines = [''x'']\<rparr>"

theorem gemini_stream_agrees_witness:
  "CollectStream (g_readStream sample_codec (\<lambda>_. False)
     \<lparr>hr_status = 200, hr_body = raw_event_wire sample_event, hr_fail = None, hr_retry_after = 0\<rparr>) =
   Inr (zero_response\<lparr>resp_content := ''Hi'', resp_finish := ''tool_calls'',
     resp_tool_calls := [\<lparr>tc_id = ''f'', tc_name = ''f'', tc_arguments = ''null'', tc_metadata = [(''thoughtSignature'', ''s'')]\<rparr>],
     resp_usage := zero_usage\<lparr>prompt_tokens := 3, completion_tokens := 2, total_tokens := 5\<rparr>\<rparr>)"
proof -
  have "raw_event_ok sample_event"
    by (auto simp: sample_event_def raw_event_ok_def raw_event_lines_def data_field_def line_ok_def max_token_def TrimSpace_def)
  then have "g_carries sample_codec [sample_event] [sample_chunk]"
    by (simp add: g_carries_def sample_codec_def)
  from gemini_stream_agrees [OF this, of "\<lparr>hr_status = 200, hr_body = raw_event_wire sample_event, hr_fail = None, hr_retry_after = 0\<rparr>"]
  show ?thesis
    by (simp add: merged_def chunk_parts_def sample_chunk_def g_parseResponse_def g_parse_part_def g_tool_call_def
        sample_codec_def stop_usages_def g_toUsage_def groundingCitations_def g_text_def zero_g_part_def record_defs Let_def
        stream_parts_snoc)
qed

text \<open>The same answer in one piece: with its citation and its cached tokens.\<close>

lemma gemini_stream_omits:
  "resp_citations (g_parseResponse cd sample_chunk) = [\<lparr>cit_url = ''u'', cit_title = ''t'', cit_snippet = [], cit_start = 0, cit_end = 0\<rparr>]"
  "cached_tokens (resp_usage (g_parseResponse cd sample_chunk)) = 1"
  "citations_of (g_chunk_events cd sample_chunk) = []"
  "map cached_tokens (usages_of (g_chunk_events cd sample_chunk)) = [0]"
  by (simp_all add: chunk_events_parts)
    (simp_all add: sample_chunk_def g_parseResponse_def g_parse_part_def g_text_def zero_g_part_def record_defs Let_def
      groundingCitations_def g_toUsage_def stop_usages_def)

end
