(* ===== verification/OpenAI_Responses.thy ===== *)
theory OpenAI_Responses
  imports Compat_Provider
begin

text \<open>
  The client of OpenAI's Responses API (\<open>llm/openai/responses.go\<close>): the input items a
  conversation becomes, the output items a response is made of, and the stream of both. A
  reasoning model's encrypted reasoning items travel in the metadata of a response's first tool
  call (\<open>attachReasoning\<close>) and are replayed verbatim on the next request (\<open>toInput\<close>).

  Parameters: a raw JSON item is its text; \<open>rj_item\<close> decodes one into the fields \<open>rOutputItem\<close>
  names, \<open>rj_show_list\<close> and \<open>rj_list\<close> print and decode a list of them, \<open>rj_response\<close>, \<open>rj_event\<close>
  and \<open>rj_error\<close> decode bodies and stream events.
\<close>

section \<open>Wire types\<close>

record r_part =
  rp_type :: string
  rp_text :: string
  rp_image_url :: string
  rp_file_data :: string
  rp_file_url :: string
  rp_filename :: string

definition zero_r_part :: r_part where
  "zero_r_part = \<lparr>rp_type = [], rp_text = [], rp_image_url = [], rp_file_data = [], rp_file_url = [], rp_filename = []\<rparr>"

record r_item =
  ri_type :: string
  ri_role :: string
  ri_content :: "r_part list"
  ri_call_id :: string
  ri_name :: string
  ri_arguments :: string
  ri_output :: string
  ri_raw :: "string option"

definition zero_item :: r_item where
  "zero_item = \<lparr>ri_type = [], ri_role = [], ri_content = [], ri_call_id = [], ri_name = [], ri_arguments = [],
     ri_output = [], ri_raw = None\<rparr>"

record r_tool =
  rt_type :: string
  rt_name :: string
  rt_description :: string
  rt_parameters :: raw_json
  rt_domains :: "string list"
  rt_country :: "string option"

datatype r_choice = RMode string | RFunction string

record r_reasoning =
  rr_effort :: string
  rr_summary :: string

record r_request =
  rq_model :: string
  rq_instructions :: string
  rq_input :: "r_item list"
  rq_tools :: "r_tool list"
  rq_choice :: "r_choice option"
  rq_temperature :: "rat option"
  rq_top_p :: "rat option"
  rq_max_tokens :: "int option"
  rq_reasoning :: "r_reasoning option"
  rq_format :: "wire_format option"
  rq_include :: "string list"
  rq_store :: bool
  rq_stream :: bool

record r_annotation =
  ra_type :: string
  ra_url :: string
  ra_title :: string
  ra_start :: int
  ra_finish :: int

record r_content =
  rc_text :: string
  rc_refusal :: string
  rc_annotations :: "r_annotation list"

record r_output =
  ro_type :: string
  ro_call_id :: string
  ro_name :: string
  ro_arguments :: string
  ro_content :: "r_content list"
  ro_summary :: "string list"

record r_usage =
  ru_input :: int
  ru_output :: int
  ru_total :: int
  ru_cached :: int
  ru_reasoning :: int

record r_response =
  rs_model :: string
  rs_status :: string
  rs_incomplete :: "string option"
  rs_output :: "string list"
  rs_usage :: "r_usage option"
  rs_error :: "string option"

record r_event =
  re_kind :: string
  re_delta :: string
  re_index :: int
  re_item :: string
  re_annotation :: "r_annotation option"
  re_response :: "r_response option"
  re_message :: string

record responses_codec =
  rj_list :: "string \<Rightarrow> go_error + string list"
  rj_show_list :: "string list \<Rightarrow> go_error + string"
  rj_item :: "string \<Rightarrow> go_error + r_output"
  rj_response :: "string \<Rightarrow> go_error + r_response"
  rj_event :: "string \<Rightarrow> r_event option"
  rj_error :: "string \<Rightarrow> string option"

definition reasoningKey :: string where "reasoningKey = ''openai_reasoning''"

section \<open>Input\<close>

definition responses_media :: support where
  "responses_media = \<lparr>su_audio = False, su_audio_formats = None, su_document_data = True, su_document_url = True\<rparr>"

definition call_item :: "tool_call \<Rightarrow> r_item" where
  "call_item tc = zero_item\<lparr>ri_type := ''function_call'', ri_call_id := tc_id tc, ri_name := tc_name tc,
     ri_arguments := tc_arguments tc\<rparr>"

definition text_items :: "string \<Rightarrow> r_item list" where
  "text_items s = (if s = [] then [] else
     [zero_item\<lparr>ri_type := ''message'', ri_role := ''assistant'',
        ri_content := [zero_r_part\<lparr>rp_type := ''output_text'', rp_text := s\<rparr>]\<rparr>])"

text \<open>The reasoning kept with the calls of a turn: the items, or the error of metadata that is not a list.\<close>

definition kept_reasoning :: "responses_codec \<Rightarrow> tool_call list \<Rightarrow> go_error + string list" where
  "kept_reasoning cd tcs =
     (case tcs of [] \<Rightarrow> Inr []
      | tc # _ \<Rightarrow>
          (case map_of (tc_metadata tc) reasoningKey of
             None \<Rightarrow> Inr []
           | Some raw \<Rightarrow> if raw = [] then Inr []
               else case rj_list cd raw of
                   Inl e \<Rightarrow> Inl (Errorf ''openai: invalid %s metadata: %w'' [FStr reasoningKey, FWrap e])
                 | Inr rs \<Rightarrow> Inr rs))"

definition assistant_items :: "responses_codec \<Rightarrow> message \<Rightarrow> go_error + r_item list" where
  "assistant_items cd m =
     (case kept_reasoning cd (msg_tool_calls m) of
        Inl e \<Rightarrow> Inl e
      | Inr rs \<Rightarrow> Inr (map (\<lambda>ri. zero_item\<lparr>ri_raw := Some ri\<rparr>) rs @ text_items (msg_content m) @
          map call_item (msg_tool_calls m)))"

definition r_convert_part :: "nat \<times> content_part \<Rightarrow> r_part list" where
  "r_convert_part = (\<lambda>(i, p).
     if cp_type p = ContentText then [zero_r_part\<lparr>rp_type := ''input_text'', rp_text := cp_text p\<rparr>]
     else if cp_type p = ContentImage then [zero_r_part\<lparr>rp_type := ''input_image'', rp_image_url := cp_image_url p\<rparr>]
     else if cp_type p = ContentDocument then
       [if cp_data p \<noteq> []
        then zero_r_part\<lparr>rp_type := ''input_file'', rp_filename := Filename (cp_filename p) (i + 1),
               rp_file_data := DataURI (cp_media_type p) (cp_data p)\<rparr>
        else zero_r_part\<lparr>rp_type := ''input_file'', rp_file_url := cp_url p\<rparr>]
     else [])"

definition message_item :: "message \<Rightarrow> r_item" where
  "message_item m = zero_item
     \<lparr>ri_type := ''message'', ri_role := (if msg_role m = RoleSystem then ''developer'' else msg_role m),
      ri_content := (if msg_parts m = [] then [zero_r_part\<lparr>rp_type := ''input_text'', rp_text := msg_content m\<rparr>]
        else concat (map r_convert_part (List.enumerate 0 (msg_parts m))))\<rparr>"

definition message_items :: "responses_codec \<Rightarrow> message \<Rightarrow> go_error + r_item list" where
  "message_items cd m =
     (if msg_role m = RoleTool then
        Inr [zero_item\<lparr>ri_type := ''function_call_output'', ri_call_id := msg_tool_call_id m, ri_output := msg_content m\<rparr>]
      else if msg_role m = RoleAssistant then assistant_items cd m
      else Inr [message_item m])"

fun toInput :: "responses_codec \<Rightarrow> message list \<Rightarrow> go_error + r_item list" where
  "toInput cd [] = Inr []"
| "toInput cd (m # ms) =
     (case message_items cd m of
        Inl e \<Rightarrow> Inl e
      | Inr its \<Rightarrow> (case toInput cd ms of Inl e \<Rightarrow> Inl e | Inr rest \<Rightarrow> Inr (its @ rest)))"

section \<open>The request\<close>

definition r_effort :: "completion_request \<Rightarrow> string" where
  "r_effort req =
     (if req_effort req \<noteq> [] then req_effort req
      else case req_budget req of
          None \<Rightarrow> []
        | Some b \<Rightarrow> if b \<le> 1024 then ''low'' else if b \<ge> 16384 then ''high'' else ''medium'')"

definition zero_r_tool :: r_tool where
  "zero_r_tool = \<lparr>rt_type = [], rt_name = [], rt_description = [], rt_parameters = RawNil, rt_domains = [], rt_country = None\<rparr>"

definition function_tool :: "tool_definition \<Rightarrow> r_tool" where
  "function_tool t = zero_r_tool\<lparr>rt_type := ''function'', rt_name := td_name t, rt_description := td_description t,
     rt_parameters := td_parameters t\<rparr>"

definition search_tool :: "server_tool \<Rightarrow> r_tool list" where
  "search_tool st =
     (if st_type st \<noteq> ServerToolWebSearch then []
      else [case st_web_search st of
          None \<Rightarrow> zero_r_tool\<lparr>rt_type := ''web_search''\<rparr>
        | Some ws \<Rightarrow> zero_r_tool\<lparr>rt_type := ''web_search'', rt_domains := ws_allowed ws,
            rt_country := (if ws_location ws \<noteq> [] then Some (ws_location ws) else None)\<rparr>])"

definition r_tool_choice :: "tool_choice option \<Rightarrow> r_choice option" where
  "r_tool_choice tc =
     (case tc of None \<Rightarrow> None
      | Some c \<Rightarrow>
          if tch_mode c = ToolChoiceAuto \<or> tch_mode c = ToolChoiceNone \<or> tch_mode c = ToolChoiceRequired
          then Some (RMode (tch_mode c))
          else if tch_mode c = ToolChoiceTool then Some (RFunction (tch_name c)) else None)"

definition r_body :: "completion_request \<Rightarrow> bool \<Rightarrow> r_item list \<Rightarrow> r_request" where
  "r_body req stream input =
     (let effort = r_effort req in
      \<lparr>rq_model = req_model req, rq_instructions = req_system req, rq_input = input,
       rq_tools = map function_tool (req_tools req) @ concat (map search_tool (req_server_tools req)),
       rq_choice = r_tool_choice (req_tool_choice req),
       rq_temperature = req_temperature req, rq_top_p = req_top_p req, rq_max_tokens = req_max_tokens req,
       rq_reasoning = (if effort = [] then None
         else Some \<lparr>rr_effort = effort, rr_summary = (if effort \<noteq> ''none'' then ''auto'' else [])\<rparr>),
       rq_format =
         (if \<not> raw_empty (req_output_schema req) then Some (FormatSchema (enforceStrictSchema (req_output_schema req)))
          else if req_response_format req = ''json_object'' then Some FormatObject else None),
       rq_include = (if effort \<noteq> [] \<and> effort \<noteq> ''none'' then [''reasoning.encrypted_content''] else []),
       rq_store = False, rq_stream = stream\<rparr>)"

definition buildRequest :: "responses_codec \<Rightarrow> completion_request \<Rightarrow> bool \<Rightarrow> go_error + r_request" where
  "buildRequest cd req stream =
     (case CheckParts ''openai'' req responses_media of
        Some e \<Rightarrow> Inl e
      | None \<Rightarrow> (case toInput cd (req_messages req) of
            Inl e \<Rightarrow> Inl e
          | Inr input \<Rightarrow> Inr (r_body req stream input)))"

section \<open>Output\<close>

definition r_toUsage :: "r_usage option \<Rightarrow> token_usage" where
  "r_toUsage u = (case u of None \<Rightarrow> zero_usage
     | Some u \<Rightarrow> zero_usage\<lparr>prompt_tokens := ru_input u, completion_tokens := ru_output u, total_tokens := ru_total u,
         cached_tokens := ru_cached u, reasoning_tokens := ru_reasoning u\<rparr>)"

definition toAnnotation :: "r_annotation \<Rightarrow> citation option" where
  "toAnnotation a = (if ra_type a \<noteq> ''url_citation'' then None
     else Some \<lparr>cit_url = ra_url a, cit_title = ra_title a, cit_snippet = [], cit_start = ra_start a, cit_end = ra_finish a\<rparr>)"

definition attachReasoning :: "responses_codec \<Rightarrow> tool_call list \<Rightarrow> string list \<Rightarrow> go_error + tool_call list" where
  "attachReasoning cd calls reasoning =
     (case calls of [] \<Rightarrow> Inr []
      | tc # tcs \<Rightarrow>
          if reasoning = [] then Inr calls
          else case rj_show_list cd reasoning of
              Inl e \<Rightarrow> Inl e
            | Inr b \<Rightarrow> Inr (tc\<lparr>tc_metadata := AList.update reasoningKey b (tc_metadata tc)\<rparr> # tcs))"

definition finishReason :: "r_response \<Rightarrow> bool \<Rightarrow> string" where
  "finishReason r toolCalls =
     (if toolCalls then ''tool_calls''
      else if rs_status r = ''incomplete'' \<and> rs_incomplete r = Some ''max_output_tokens'' then ''length''
      else if rs_status r = ''incomplete'' \<and> rs_incomplete r = Some ''content_filter'' then ''content_filter''
      else ''stop'')"

definition output_call :: "r_output \<Rightarrow> tool_call" where
  "output_call it = zero_call\<lparr>tc_id := ro_call_id it, tc_name := ro_name it, tc_arguments := ro_arguments it\<rparr>"

definition content_citations :: "r_content \<Rightarrow> citation list" where
  "content_citations c = List.map_filter toAnnotation (rc_annotations c)"

text \<open>The loop over the output items: the response so far, and the reasoning items.\<close>

definition output_item :: "completion_response \<times> string list \<Rightarrow> string \<Rightarrow> r_output \<Rightarrow> completion_response \<times> string list" where
  "output_item st raw it = (case st of (out, reasoning) \<Rightarrow>
     if ro_type it = ''reasoning'' then
       (out\<lparr>resp_thinking := resp_thinking out @ concat (ro_summary it)\<rparr>, reasoning @ [raw])
     else if ro_type it = ''message'' then
       (out\<lparr>resp_content := resp_content out @ concat (map (\<lambda>c. rc_text c @ rc_refusal c) (ro_content it)),
            resp_citations := resp_citations out @ concat (map content_citations (ro_content it))\<rparr>, reasoning)
     else if ro_type it = ''function_call'' then
       (out\<lparr>resp_tool_calls := resp_tool_calls out @ [output_call it]\<rparr>, reasoning)
     else st)"

fun output_loop :: "responses_codec \<Rightarrow> completion_response \<times> string list \<Rightarrow> string list
    \<Rightarrow> go_error + completion_response \<times> string list" where
  "output_loop cd st [] = Inr st"
| "output_loop cd st (raw # raws) =
     (case rj_item cd raw of
        Inl e \<Rightarrow> Inl (Errorf ''openai: failed to parse output item: %w'' [FWrap e])
      | Inr it \<Rightarrow> output_loop cd (output_item st raw it) raws)"

definition parseOutput :: "responses_codec \<Rightarrow> r_response \<Rightarrow> go_error + completion_response" where
  "parseOutput cd r =
     (case output_loop cd (zero_response\<lparr>resp_model := rs_model r, resp_usage := r_toUsage (rs_usage r)\<rparr>, []) (rs_output r) of
        Inl e \<Rightarrow> Inl e
      | Inr (out, reasoning) \<Rightarrow>
          (case attachReasoning cd (resp_tool_calls out) reasoning of
             Inl e \<Rightarrow> Inl e
           | Inr calls \<Rightarrow> Inr (out\<lparr>resp_tool_calls := calls, resp_finish := finishReason r (calls \<noteq> [])\<rparr>)))"

section \<open>The exchange\<close>

record responses_client =
  rl_url :: string
  rl_key :: string
  rl_headers :: "(string \<times> string) list"

text \<open>A request as sent: the URL, the headers (under their canonical names) and the body.\<close>

type_synonym 'w r_transport = "(string \<times> (string \<times> string) list \<times> r_request, 'w) transport"

definition r_do :: "responses_codec \<Rightarrow> responses_client \<Rightarrow> 'w r_transport \<Rightarrow> r_request \<Rightarrow> 'w
    \<Rightarrow> (go_error + http_reply) \<times> 'w" where
  "r_do cd c post body w = send_request ''openai'' (rj_error cd) post
     (rl_url c, foldl (\<lambda>hs (k, v). AList.update k v hs)
        [(''Content-Type'', ''application/json''), (''Authorization'', ''Bearer '' @ rl_key c)] (rl_headers c), body) w"

definition responses_Complete :: "responses_codec \<Rightarrow> responses_client \<Rightarrow> 'w r_transport \<Rightarrow> 'w complete_fn" where
  "responses_Complete cd c post req w =
     (case buildRequest cd req False of
        Inl e \<Rightarrow> (Inl e, w)
      | Inr body \<Rightarrow>
          (case r_do cd c post body w of
             (Inl e, w') \<Rightarrow> (Inl e, w')
           | (Inr rep, w') \<Rightarrow>
               (case hr_fail rep of
                  Some e \<Rightarrow> Inl (Errorf ''openai: failed to read response: %w'' [FWrap e])
                | None \<Rightarrow>
                    (case rj_response cd (hr_body rep) of
                       Inl e \<Rightarrow> Inl (Errorf ''openai: failed to parse response: %w'' [FWrap e])
                     | Inr r \<Rightarrow>
                         (case (rs_status r = ''failed'', rs_error r) of
                            (True, Some msg) \<Rightarrow> Inl (Errorf ''openai: response failed: %s'' [FStr msg])
                          | _ \<Rightarrow> parseOutput cd r)), w')))"

section \<open>Streams\<close>

text \<open>
  The state of \<open>readStream\<close>: \<open>callIndex\<close>, the finished calls and the reasoning items. A step
  sends events and either goes on or returns (\<open>None\<close>).
\<close>

type_synonym r_state = "(int \<times> int) list \<times> tool_call list \<times> string list"

definition r_completed :: "responses_codec \<Rightarrow> r_state \<Rightarrow> r_response option \<Rightarrow> stream_event list" where
  "r_completed cd st resp = (case st of (ci, calls, reasoning) \<Rightarrow>
     (case attachReasoning cd calls reasoning of
        Inl e \<Rightarrow> [error_event e]
      | Inr calls' \<Rightarrow> map tool_call_event calls' @
          [done_event\<lparr>ev_usage := (case resp of None \<Rightarrow> None
             | Some r \<Rightarrow> map_option (\<lambda>u. r_toUsage (Some u)) (rs_usage r))\<rparr>]))"

definition r_added :: "r_state \<Rightarrow> int \<Rightarrow> r_output \<Rightarrow> stream_event list \<times> r_state" where
  "r_added st k it = (case st of (ci, rest) \<Rightarrow>
     if ro_type it = ''function_call''
     then ([delta_event \<lparr>tcd_index = int (length ci), tcd_id = ro_call_id it, tcd_name = ro_name it,
              tcd_arguments = ro_arguments it\<rparr>], (AList.update k (int (length ci)) ci, rest))
     else ([], st))"

definition r_done :: "r_state \<Rightarrow> string \<Rightarrow> r_output \<Rightarrow> r_state" where
  "r_done st raw it = (case st of (ci, calls, reasoning) \<Rightarrow>
     if ro_type it = ''function_call'' then (ci, calls @ [output_call it], reasoning)
     else if ro_type it = ''reasoning'' then (ci, calls, reasoning @ [raw])
     else st)"

definition citation_event :: "citation \<Rightarrow> stream_event" where
  "citation_event c = zero_event\<lparr>ev_type := EventCitation, ev_citation := Some c\<rparr>"

definition r_step :: "responses_codec \<Rightarrow> r_state \<Rightarrow> r_event \<Rightarrow> stream_event list \<times> r_state option" where
  "r_step cd st se =
     (let k = re_kind se in
      if k = ''response.output_text.delta'' \<or> k = ''response.refusal.delta'' then
        (if re_delta se \<noteq> [] then [content_event (re_delta se)] else [], Some st)
      else if k = ''response.reasoning_summary_text.delta'' then
        (if re_delta se \<noteq> [] then [reasoning_event (re_delta se)] else [], Some st)
      else if k = ''response.output_text.annotation.added'' then
        (case re_annotation se of None \<Rightarrow> []
           | Some a \<Rightarrow> (case toAnnotation a of None \<Rightarrow> [] | Some c \<Rightarrow> [citation_event c]), Some st)
      else if k = ''response.output_item.added'' then
        (case rj_item cd (re_item se) of
           Inl e \<Rightarrow> ([], Some st)
         | Inr it \<Rightarrow> (case r_added st (re_index se) it of (evs, st') \<Rightarrow> (evs, Some st')))
      else if k = ''response.function_call_arguments.delta'' then
        (case map_of (fst st) (re_index se) of
           None \<Rightarrow> []
         | Some idx \<Rightarrow> if re_delta se = [] then []
             else [delta_event \<lparr>tcd_index = idx, tcd_id = [], tcd_name = [], tcd_arguments = re_delta se\<rparr>], Some st)
      else if k = ''response.output_item.done'' then
        ([], Some (case rj_item cd (re_item se) of Inl e \<Rightarrow> st | Inr it \<Rightarrow> r_done st (re_item se) it))
      else if k = ''response.completed'' \<or> k = ''response.incomplete'' then (r_completed cd st (re_response se), None)
      else if k = ''response.failed'' then
        ([error_event (Errorf ''openai: %s'' [FStr (case re_response se of None \<Rightarrow> ''response failed''
            | Some r \<Rightarrow> (case rs_error r of None \<Rightarrow> ''response failed'' | Some msg \<Rightarrow> msg))])], None)
      else if k = ''error'' then ([error_event (Errorf ''openai: %s'' [FStr (re_message se)])], None)
      else ([], Some st))"

function r_read_loop :: "responses_codec \<Rightarrow> r_state \<Rightarrow> scanner \<Rightarrow> stream_event list" where
  "r_read_loop cd st s =
     (case sse_Next s of
        (None, s') \<Rightarrow>
          (case sse_Err s' of
             Some e \<Rightarrow> [error_event (Errorf ''openai: stream read error: %w'' [FWrap e])]
           | None \<Rightarrow> [error_event (Errorf ''openai: stream ended before the response completed'' [])])
      | (Some ev, s') \<Rightarrow>
          (case rj_event cd (se_data ev) of
             None \<Rightarrow> r_read_loop cd st s'
           | Some se \<Rightarrow>
               (case r_step cd st se of
                  (evs, None) \<Rightarrow> evs
                | (evs, Some st') \<Rightarrow> evs @ r_read_loop cd st' s')))"
  by pat_completeness auto
termination
  by (relation "measure (\<lambda>(_, _, s). length (sc_rest s))") (auto dest: sse_Next_shrinks [OF sym])

declare r_read_loop.simps [simp del]

text \<open>
  Every event goes through \<open>send\<close>, which gives up when the context is done, and every failed
  send returns from \<open>readStream\<close>: the events sent are those before the first one given up.
\<close>

definition cut_at :: "(nat \<Rightarrow> bool) \<Rightarrow> stream_event list \<Rightarrow> stream_event list" where
  "cut_at quit evs = map snd (takeWhile (\<lambda>(i, _). \<not> quit i) (List.enumerate 0 evs))"

definition r_readStream :: "responses_codec \<Rightarrow> (nat \<Rightarrow> bool) \<Rightarrow> http_reply \<Rightarrow> stream_event list" where
  "r_readStream cd quit r = cut_at quit (r_read_loop cd ([], [], []) (NewReader (hr_body r) (hr_fail r)))"

definition responses_Stream :: "responses_codec \<Rightarrow> (nat \<Rightarrow> bool) \<Rightarrow> responses_client \<Rightarrow> 'w r_transport \<Rightarrow> 'w stream_fn" where
  "responses_Stream cd quit c post req w =
     (case buildRequest cd req True of
        Inl e \<Rightarrow> (Inl e, w)
      | Inr body \<Rightarrow>
          (case r_do cd c post body w of
             (Inl e, w') \<Rightarrow> (Inl e, w')
           | (Inr rep, w') \<Rightarrow> (Inr (r_readStream cd quit rep), w')))"

end
