(* ===== verification/Responses_Properties.thy ===== *)
theory Responses_Properties
  imports OpenAI_Responses Streamed_Blocks
begin

text \<open>
  What the Responses client promises: a turn of a reasoning model is replayed with its reasoning
  items, and a streamed response collects to what the same response gives in one piece.
\<close>

section \<open>Replay\<close>

definition typed_raws :: "string \<Rightarrow> (string \<times> r_output) list \<Rightarrow> string list" where
  "typed_raws t its = map fst (filter (\<lambda>(raw, it). ro_type it = t) its)"

definition typed_items :: "string \<Rightarrow> (string \<times> r_output) list \<Rightarrow> r_output list" where
  "typed_items t its = map snd (filter (\<lambda>(raw, it). ro_type it = t) its)"

definition message_text :: "(string \<times> r_output) list \<Rightarrow> string" where
  "message_text its = concat (map (\<lambda>it. concat (map (\<lambda>c. rc_text c @ rc_refusal c) (ro_content it))) (typed_items ''message'' its))"

definition decodes :: "responses_codec \<Rightarrow> (string \<times> r_output) list \<Rightarrow> bool" where
  "decodes cd its \<longleftrightarrow> list_all (\<lambda>(raw, it). rj_item cd raw = Inr it) its"

lemmas typed_defs = typed_raws_def typed_items_def message_text_def

lemma output_loop_eq:
  assumes "decodes cd its"
  shows "output_loop cd (out, rs) (map fst its) = Inr
    (out\<lparr>resp_thinking := resp_thinking out @ concat (map (\<lambda>it. concat (ro_summary it)) (typed_items ''reasoning'' its)),
         resp_content := resp_content out @ message_text its,
         resp_citations := resp_citations out @ concat (map (\<lambda>it. concat (map content_citations (ro_content it))) (typed_items ''message'' its)),
         resp_tool_calls := resp_tool_calls out @ map output_call (typed_items ''function_call'' its)\<rparr>,
     rs @ typed_raws ''reasoning'' its)"
  using assms
  by (induction its arbitrary: out rs) (auto simp: decodes_def typed_defs output_item_def)

lemma parseOutput_eq:
  assumes "decodes cd its" "rs_output r = map fst its"
  shows "parseOutput cd r =
    (case attachReasoning cd (map output_call (typed_items ''function_call'' its)) (typed_raws ''reasoning'' its) of
       Inl e \<Rightarrow> Inl e
     | Inr calls \<Rightarrow> Inr
         \<lparr>resp_content = message_text its,
          resp_thinking = concat (map (\<lambda>it. concat (ro_summary it)) (typed_items ''reasoning'' its)),
          resp_tool_calls = calls,
          resp_citations = concat (map (\<lambda>it. concat (map content_citations (ro_content it))) (typed_items ''message'' its)),
          resp_usage = r_toUsage (rs_usage r), resp_finish = finishReason r (calls \<noteq> []), resp_model = rs_model r\<rparr>)"
  using output_loop_eq [OF assms(1)] assms(2)
  by (simp add: parseOutput_def zero_response_def split: sum.split)

text \<open>A printed list of raw items is decoded to items of the same meaning.\<close>

definition lists_round_trip :: "responses_codec \<Rightarrow> (string \<Rightarrow> json option) \<Rightarrow> string list \<Rightarrow> bool" where
  "lists_round_trip cd meaning rs \<longleftrightarrow> (case rj_show_list cd rs of Inl e \<Rightarrow> True
     | Inr b \<Rightarrow> b \<noteq> [] \<and> (case rj_list cd b of Inl e \<Rightarrow> False | Inr ys \<Rightarrow> map meaning ys = map meaning rs))"

definition result_item :: "string \<times> string \<Rightarrow> r_item" where
  "result_item = (\<lambda>(id, out). zero_item\<lparr>ri_type := ''function_call_output'', ri_call_id := id, ri_output := out\<rparr>)"

lemma toInput_append:
  "toInput cd (xs @ ys) = (case toInput cd xs of Inl e \<Rightarrow> Inl e
     | Inr a \<Rightarrow> (case toInput cd ys of Inl e \<Rightarrow> Inl e | Inr b \<Rightarrow> Inr (a @ b)))"
  by (induction xs) (auto split: sum.split)

lemma toInput_results: "toInput cd (map (\<lambda>(id, out). tool_msg out id) results) = Inr (map result_item results)"
  by (induction results) (auto simp: message_items_def tool_msg_def zero_msg_def result_item_def)

lemma kept_attached:
  assumes "attachReasoning cd (map output_call its) rs = Inr calls" "its \<noteq> []" "lists_round_trip cd meaning rs"
  obtains ys where "kept_reasoning cd calls = Inr ys" "map meaning ys = map meaning rs"
    "map call_item calls = map (call_item \<circ> output_call) its"
proof (cases its)
  case (Cons it more)
  show ?thesis
    using assms Cons that
    by (auto simp: attachReasoning_def kept_reasoning_def lists_round_trip_def output_call_def zero_call_def call_item_def
        split: if_splits sum.splits)
qed (use assms in simp)

text \<open>
  C32. The turn of a response with tool calls is replayed whole: all its reasoning items, with the
  meaning they had, then its text, then its calls with their ids, names and arguments, and the
  results under the ids of their calls. The reasoning survives any conversation that keeps the
  turn's messages, although no field of a message holds it.
\<close>

theorem responses_replay_reasoning:
  assumes "decodes cd its" "rs_output r = map fst its" "parseOutput cd r = Inr resp"
    and "typed_items ''function_call'' its \<noteq> []" "lists_round_trip cd meaning (typed_raws ''reasoning'' its)"
  shows "\<exists>ys. toInput cd (assistant_turn resp # map (\<lambda>(id, out). tool_msg out id) results) =
      Inr (map (\<lambda>ri. zero_item\<lparr>ri_raw := Some ri\<rparr>) ys @ text_items (message_text its) @
        map (call_item \<circ> output_call) (typed_items ''function_call'' its) @ map result_item results) \<and>
    map meaning ys = map meaning (typed_raws ''reasoning'' its)"
proof -
  obtain calls where calls: "attachReasoning cd (map output_call (typed_items ''function_call'' its)) (typed_raws ''reasoning'' its) = Inr calls"
    "resp_tool_calls resp = calls" "resp_content resp = message_text its"
    using assms(3) by (auto simp: parseOutput_eq [OF assms(1,2)] split: sum.splits)
  obtain ys where ys: "kept_reasoning cd calls = Inr ys" "map meaning ys = map meaning (typed_raws ''reasoning'' its)"
    "map call_item calls = map (call_item \<circ> output_call) (typed_items ''function_call'' its)"
    using kept_attached [OF calls(1) assms(4,5)] by blast
  show ?thesis
    using ys calls(2,3) toInput_results [of cd results]
    by (auto simp: message_items_def assistant_items_def assistant_turn_def zero_msg_def)
qed

section \<open>Streamed responses\<close>

text \<open>The output items of a response with the pieces they are streamed in: the raw item when it starts and when it is done.\<close>

datatype o_item =
    OReasoning string string "string list"
  | OMessage string string "(string list \<times> string list \<times> r_annotation list) list"
  | OCall string string string string "string list"

definition zero_r_event :: r_event where
  "zero_r_event = \<lparr>re_kind = [], re_delta = [], re_index = 0, re_item = [], re_annotation = None, re_response = None,
     re_message = []\<rparr>"

definition delta_of :: "string \<Rightarrow> int \<Rightarrow> string \<Rightarrow> r_event" where
  "delta_of kind k d = zero_r_event\<lparr>re_kind := kind, re_index := k, re_delta := d\<rparr>"

definition item_event :: "string \<Rightarrow> int \<Rightarrow> string \<Rightarrow> r_event" where
  "item_event kind k raw = zero_r_event\<lparr>re_kind := kind, re_index := k, re_item := raw\<rparr>"

definition annotation_event :: "int \<Rightarrow> r_annotation \<Rightarrow> r_event" where
  "annotation_event k a = zero_r_event\<lparr>re_kind := ''response.output_text.annotation.added'', re_index := k, re_annotation := Some a\<rparr>"

definition content_pieces :: "int \<Rightarrow> string list \<times> string list \<times> r_annotation list \<Rightarrow> r_event list" where
  "content_pieces k = (\<lambda>(ts, rs, as). map (delta_of ''response.output_text.delta'' k) ts @
     map (delta_of ''response.refusal.delta'' k) rs @ map (annotation_event k) as)"

fun item_pieces :: "int \<Rightarrow> o_item \<Rightarrow> r_event list" where
  "item_pieces k (OReasoning raw0 raw ds) = map (delta_of ''response.reasoning_summary_text.delta'' k) ds"
| "item_pieces k (OMessage raw0 raw cs) = concat (map (content_pieces k) cs)"
| "item_pieces k (OCall raw0 raw i n ds) = map (delta_of ''response.function_call_arguments.delta'' k) ds"

fun raw_start :: "o_item \<Rightarrow> string" where
  "raw_start (OReasoning raw0 raw ds) = raw0" | "raw_start (OMessage raw0 raw cs) = raw0" | "raw_start (OCall raw0 raw i n ds) = raw0"

fun raw_done :: "o_item \<Rightarrow> string" where
  "raw_done (OReasoning raw0 raw ds) = raw" | "raw_done (OMessage raw0 raw cs) = raw" | "raw_done (OCall raw0 raw i n ds) = raw"

fun item_view :: "o_item \<Rightarrow> r_output" where
  "item_view (OReasoning raw0 raw ds) = \<lparr>ro_type = ''reasoning'', ro_call_id = [], ro_name = [], ro_arguments = [],
     ro_content = [], ro_summary = ds\<rparr>"
| "item_view (OMessage raw0 raw cs) = \<lparr>ro_type = ''message'', ro_call_id = [], ro_name = [], ro_arguments = [],
     ro_content = map (\<lambda>(ts, rs, as). \<lparr>rc_text = concat ts, rc_refusal = concat rs, rc_annotations = as\<rparr>) cs, ro_summary = []\<rparr>"
| "item_view (OCall raw0 raw i n ds) = \<lparr>ro_type = ''function_call'', ro_call_id = i, ro_name = n, ro_arguments = concat ds,
     ro_content = [], ro_summary = []\<rparr>"

definition item_events :: "nat \<times> o_item \<Rightarrow> r_event list" where
  "item_events = (\<lambda>(k, o'). item_event ''response.output_item.added'' (int k) (raw_start o') # item_pieces (int k) o' @
     [item_event ''response.output_item.done'' (int k) (raw_done o')])"

definition response_events :: "o_item list \<Rightarrow> r_event \<Rightarrow> r_event list" where
  "response_events os final = concat (map item_events (List.enumerate 0 os)) @ [final]"

definition items_decode :: "responses_codec \<Rightarrow> o_item list \<Rightarrow> bool" where
  "items_decode cd os \<longleftrightarrow> list_all (\<lambda>o'. rj_item cd (raw_done o') = Inr (item_view o')) os"

section \<open>The reading loop on a list of events\<close>

fun r_run :: "responses_codec \<Rightarrow> r_state \<Rightarrow> r_event list \<Rightarrow> stream_event list \<times> r_state option" where
  "r_run cd st [] = ([], Some st)"
| "r_run cd st (e # es) =
     (case r_step cd st e of
        (out, None) \<Rightarrow> (out, None)
      | (out, Some st') \<Rightarrow> (case r_run cd st' es of (out', r) \<Rightarrow> (out @ out', r)))"

lemma r_run_append:
  "r_run cd st (xs @ ys) = (case r_run cd st xs of
     (out, None) \<Rightarrow> (out, None)
   | (out, Some st') \<Rightarrow> (case r_run cd st' ys of (out', r) \<Rightarrow> (out @ out', r)))"
  by (induction xs arbitrary: st) (auto split: prod.split option.split)

definition r_carries :: "responses_codec \<Rightarrow> raw_event list \<Rightarrow> r_event list \<Rightarrow> bool" where
  "r_carries cd rs evs \<longleftrightarrow> list_all2 (\<lambda>r ev. raw_event_ok r \<and> rj_event cd (se_data (raw_event_view r)) = Some ev) rs evs"

lemma r_read_loop_carries:
  assumes "r_carries cd rs evs"
  shows "r_read_loop cd st (NewReader (concat (map raw_event_wire rs) @ tail) fail) =
    (case r_run cd st evs of (out, None) \<Rightarrow> out | (out, Some st') \<Rightarrow> out @ r_read_loop cd st' (NewReader tail fail))"
  using assms unfolding r_carries_def
proof (induction rs evs arbitrary: st rule: list_all2_induct)
  case (Cons r rs ev evs)
  have "sse_Next (NewReader (concat (map raw_event_wire (r # rs)) @ tail) fail) =
      (Some (raw_event_view r), NewReader (concat (map raw_event_wire rs) @ tail) fail)"
    using Cons.hyps sse_Next_raw [of r "concat (map raw_event_wire rs) @ tail"] by simp
  then show ?case
    using Cons.hyps Cons.IH by (subst r_read_loop.simps) (auto split: prod.split option.split)
qed simp

text \<open>What a list of events sent says: text, reasoning and citations, and no calls, errors or usage.\<close>

definition tells :: "stream_event list \<Rightarrow> string \<Rightarrow> string \<Rightarrow> citation list \<Rightarrow> bool" where
  "tells out text thinking cits \<longleftrightarrow> text_of out = text \<and> reasoning_of out = thinking \<and> citations_of out = cits \<and>
     calls_of out = [] \<and> errors_of out = [] \<and> usages_of out = []"

lemma tells_Nil: "tells [] [] [] []"
  by (simp add: tells_def)

lemma tells_append: "tells xs t1 r1 c1 \<Longrightarrow> tells ys t2 r2 c2 \<Longrightarrow> tells (xs @ ys) (t1 @ t2) (r1 @ r2) (c1 @ c2)"
  by (simp add: tells_def)

lemma tells_event:
  "tells [content_event s] s [] []" "tells [reasoning_event s] [] s []" "tells [citation_event c] [] [] [c]"
  "tells [delta_event d] [] [] []"
  by (simp_all add: tells_def stream_parts_snoc citation_event_def record_defs)

text \<open>The pieces of an item leave the state alone.\<close>

definition quiet_run :: "responses_codec \<Rightarrow> r_event list \<Rightarrow> string \<Rightarrow> string \<Rightarrow> citation list \<Rightarrow> bool" where
  "quiet_run cd es t r c \<longleftrightarrow> (\<forall>st. \<exists>out. r_run cd st es = (out, Some st) \<and> tells out t r c)"

lemma quiet_Nil: "quiet_run cd [] [] [] []"
  by (simp add: quiet_run_def tells_Nil)

lemma quiet_append:
  assumes "quiet_run cd xs t1 r1 c1" "quiet_run cd ys t2 r2 c2"
  shows "quiet_run cd (xs @ ys) (t1 @ t2) (r1 @ r2) (c1 @ c2)"
  unfolding quiet_run_def
proof
  fix st
  obtain o1 o2 where "r_run cd st xs = (o1, Some st)" "tells o1 t1 r1 c1" "r_run cd st ys = (o2, Some st)" "tells o2 t2 r2 c2"
    using assms unfolding quiet_run_def by meson
  then show "\<exists>out. r_run cd st (xs @ ys) = (out, Some st) \<and> tells out (t1 @ t2) (r1 @ r2) (c1 @ c2)"
    using tells_append by (auto simp: r_run_append)
qed

lemma quiet_one: "(\<And>st. r_step cd st e = (out, Some st)) \<Longrightarrow> tells out t r c \<Longrightarrow> quiet_run cd [e] t r c"
  by (simp add: quiet_run_def)

lemma quiet_map:
  "(\<And>x. x \<in> set xs \<Longrightarrow> quiet_run cd (f x) (t x) (r x) (c x)) \<Longrightarrow>
   quiet_run cd (concat (map f xs)) (concat (map t xs)) (concat (map r xs)) (concat (map c xs))"
  by (induction xs) (simp_all add: quiet_Nil quiet_append)

lemmas event_steps = r_step_def delta_of_def annotation_event_def item_event_def zero_r_event_def

lemma quiet_text: "k = ''response.output_text.delta'' \<or> k = ''response.refusal.delta'' \<Longrightarrow> quiet_run cd [delta_of k i d] d [] []"
  by (rule quiet_one [where out = "if d = [] then [] else [content_event d]"])
    (auto simp: event_steps tells_event tells_Nil)

lemma quiet_summary: "quiet_run cd [delta_of ''response.reasoning_summary_text.delta'' i d] [] d []"
  by (rule quiet_one [where out = "if d = [] then [] else [reasoning_event d]"])
    (auto simp: event_steps tells_event tells_Nil)

lemma quiet_annotation: "quiet_run cd [annotation_event i a] [] [] (List.map_filter toAnnotation [a])"
  by (rule quiet_one [where out = "case toAnnotation a of None \<Rightarrow> [] | Some c \<Rightarrow> [citation_event c]"])
    (auto simp: event_steps tells_event tells_Nil List.map_filter_def split: option.split)

lemma quiet_arguments: "quiet_run cd [delta_of ''response.function_call_arguments.delta'' i d] [] [] []"
  unfolding quiet_run_def by (auto simp: event_steps Let_def tells_event tells_Nil split: option.split)

lemma concat_singletons: "concat (map (\<lambda>x. [f x]) xs) = map f xs"
  by (induction xs) simp_all

lemma concat_empties: "concat (map (\<lambda>x. []) xs) = []"
  by (induction xs) simp_all

lemmas map_singletons = concat_singletons concat_empties

lemma filter_as_concat: "concat (map (\<lambda>a. List.map_filter f [a]) xs) = List.map_filter f xs"
  by (induction xs) (simp_all add: List.map_filter_def)

lemma quiet_content:
  "quiet_run cd (content_pieces k (ts, rs, as)) (concat ts @ concat rs) [] (List.map_filter toAnnotation as)"
proof -
  have "quiet_run cd (map (delta_of ''response.output_text.delta'' k) ts) (concat ts) [] []"
    using quiet_map [of ts cd "\<lambda>d. [delta_of ''response.output_text.delta'' k d]" "\<lambda>d. d" "\<lambda>d. []" "\<lambda>d. []"] quiet_text
    by (simp add: map_singletons)
  moreover have "quiet_run cd (map (delta_of ''response.refusal.delta'' k) rs) (concat rs) [] []"
    using quiet_map [of rs cd "\<lambda>d. [delta_of ''response.refusal.delta'' k d]" "\<lambda>d. d" "\<lambda>d. []" "\<lambda>d. []"] quiet_text
    by (simp add: map_singletons)
  moreover have "quiet_run cd (map (annotation_event k) as) [] [] (List.map_filter toAnnotation as)"
    using quiet_map [of as cd "\<lambda>a. [annotation_event k a]" "\<lambda>a. []" "\<lambda>a. []" "\<lambda>a. List.map_filter toAnnotation [a]"] quiet_annotation
    by (simp only: map_singletons filter_as_concat)
  ultimately have "quiet_run cd (content_pieces k (ts, rs, as)) (concat ts @ concat rs @ []) ([] @ [] @ []) ([] @ [] @ List.map_filter toAnnotation as)"
    unfolding content_pieces_def split by (intro quiet_append)
  then show ?thesis by simp
qed

text \<open>What an output item says, and what it leaves in the state.\<close>

abbreviation decoded :: "o_item list \<Rightarrow> (string \<times> r_output) list" where
  "decoded os \<equiv> map (\<lambda>o'. (raw_done o', item_view o')) os"

definition message_citations :: "(string \<times> r_output) list \<Rightarrow> citation list" where
  "message_citations its = concat (map (\<lambda>it. concat (map content_citations (ro_content it))) (typed_items ''message'' its))"

definition summaries :: "(string \<times> r_output) list \<Rightarrow> string" where
  "summaries its = concat (map (\<lambda>it. concat (ro_summary it)) (typed_items ''reasoning'' its))"

lemmas decoded_defs = typed_defs message_citations_def summaries_def content_citations_def

lemma quiet_pieces:
  "quiet_run cd (item_pieces k o') (message_text (decoded [o'])) (summaries (decoded [o'])) (message_citations (decoded [o']))"
proof (cases o')
  case (OReasoning raw0 raw ds)
  then show ?thesis
    using quiet_map [of ds cd "\<lambda>d. [delta_of ''response.reasoning_summary_text.delta'' k d]" "\<lambda>d. []" "\<lambda>d. d" "\<lambda>d. []"] quiet_summary
    by (simp add: map_singletons decoded_defs)
next
  case (OMessage raw0 raw cs)
  have t: "message_text (decoded [o']) = concat (map (\<lambda>(ts, rs, as). concat ts @ concat rs) cs)"
    and c: "message_citations (decoded [o']) = concat (map (\<lambda>(ts, rs, as). List.map_filter toAnnotation as) cs)"
    and s: "summaries (decoded [o']) = concat (map (\<lambda>c. []) cs)"
    using OMessage by (simp_all add: decoded_defs comp_def split_def concat_empties)
  show ?thesis
    unfolding t c s unfolding OMessage item_pieces.simps by (rule quiet_map) (use quiet_content in fastforce)
next
  case (OCall raw0 raw i n ds)
  then show ?thesis
    using quiet_map [of ds cd "\<lambda>d. [delta_of ''response.function_call_arguments.delta'' k d]" "\<lambda>d. []" "\<lambda>d. []" "\<lambda>d. []"] quiet_arguments
    by (simp add: map_singletons decoded_defs)
qed

lemma added_step: "\<exists>out ci'. r_step cd (ci, rest) (item_event ''response.output_item.added'' k raw) = (out, Some (ci', rest)) \<and> tells out [] [] []"
  by (auto simp: event_steps Let_def r_added_def tells_Nil tells_event split: sum.split)

lemma done_step:
  "rj_item cd raw = Inr it \<Longrightarrow>
   r_step cd (ci, calls, rs) (item_event ''response.output_item.done'' k raw) =
     ([], Some (ci, calls @ map output_call (typed_items ''function_call'' [(raw, it)]), rs @ typed_raws ''reasoning'' [(raw, it)]))"
  by (simp add: event_steps Let_def r_done_def typed_defs)

lemma item_run:
  assumes "rj_item cd (raw_done o') = Inr (item_view o')"
  shows "\<exists>out ci'. r_run cd (ci, calls, rs) (item_events (k, o')) = (out, Some (ci',
      calls @ map output_call (typed_items ''function_call'' (decoded [o'])), rs @ typed_raws ''reasoning'' (decoded [o']))) \<and>
    tells out (message_text (decoded [o'])) (summaries (decoded [o'])) (message_citations (decoded [o']))"
proof -
  obtain o1 ci1 where 1: "r_step cd (ci, calls, rs) (item_event ''response.output_item.added'' (int k) (raw_start o')) = (o1, Some (ci1, calls, rs))"
    "tells o1 [] [] []"
    using added_step by blast
  obtain o2 where 2: "r_run cd (ci1, calls, rs) (item_pieces (int k) o') = (o2, Some (ci1, calls, rs))"
    "tells o2 (message_text (decoded [o'])) (summaries (decoded [o'])) (message_citations (decoded [o']))"
    using quiet_pieces unfolding quiet_run_def by meson
  show ?thesis
    using tells_append [OF 1(2) 2(2)] 1(1) 2(1) done_step [OF assms]
    by (simp add: item_events_def r_run_append)
qed

lemma decoded_Cons:
  "message_text (decoded (o' # os)) = message_text (decoded [o']) @ message_text (decoded os)"
  "summaries (decoded (o' # os)) = summaries (decoded [o']) @ summaries (decoded os)"
  "message_citations (decoded (o' # os)) = message_citations (decoded [o']) @ message_citations (decoded os)"
  "typed_items t (decoded (o' # os)) = typed_items t (decoded [o']) @ typed_items t (decoded os)"
  "typed_raws t (decoded (o' # os)) = typed_raws t (decoded [o']) @ typed_raws t (decoded os)"
  by (simp_all add: decoded_defs)

lemma items_run:
  assumes "items_decode cd os"
  shows "\<exists>out ci'. r_run cd (ci, calls, rs) (concat (map item_events (List.enumerate k os))) = (out, Some (ci',
      calls @ map output_call (typed_items ''function_call'' (decoded os)), rs @ typed_raws ''reasoning'' (decoded os))) \<and>
    tells out (message_text (decoded os)) (summaries (decoded os)) (message_citations (decoded os))"
  using assms
proof (induction os arbitrary: ci calls rs k)
  case Nil
  then show ?case by (simp add: tells_Nil decoded_defs)
next
  case (Cons o' os)
  have d: "rj_item cd (raw_done o') = Inr (item_view o')" "items_decode cd os"
    using Cons.prems by (simp_all add: items_decode_def)
  obtain o1 ci1 where 1: "r_run cd (ci, calls, rs) (item_events (k, o')) = (o1, Some (ci1,
      calls @ map output_call (typed_items ''function_call'' (decoded [o'])), rs @ typed_raws ''reasoning'' (decoded [o'])))"
    "tells o1 (message_text (decoded [o'])) (summaries (decoded [o'])) (message_citations (decoded [o']))"
    using item_run [OF d(1)] by blast
  obtain o2 ci2 where "r_run cd (ci1, calls @ map output_call (typed_items ''function_call'' (decoded [o'])), rs @ typed_raws ''reasoning'' (decoded [o']))
      (concat (map item_events (List.enumerate (Suc k) os))) = (o2, Some (ci2,
      (calls @ map output_call (typed_items ''function_call'' (decoded [o']))) @ map output_call (typed_items ''function_call'' (decoded os)),
      (rs @ typed_raws ''reasoning'' (decoded [o'])) @ typed_raws ''reasoning'' (decoded os)))"
    "tells o2 (message_text (decoded os)) (summaries (decoded os)) (message_citations (decoded os))"
    using Cons.IH [OF d(2)] by blast
  then show ?case
    unfolding decoded_Cons [where o' = o' and os = os] using 1(1) tells_append [OF 1(2)] by (auto simp: r_run_append)
qed

section \<open>Collecting a streamed response\<close>

definition final_event :: "string \<Rightarrow> r_response \<Rightarrow> r_event" where
  "final_event kind resp = zero_r_event\<lparr>re_kind := kind, re_response := Some resp\<rparr>"

lemma final_step:
  "kind = ''response.completed'' \<or> kind = ''response.incomplete'' \<Longrightarrow>
   r_step cd st (final_event kind resp) = (r_completed cd st (Some resp), None)"
  by (auto simp: r_step_def final_event_def zero_r_event_def Let_def)

lemma cut_at_never: "cut_at (\<lambda>_. False) evs = evs"
proof -
  have "takeWhile (\<lambda>(i, _). \<not> False) (List.enumerate 0 evs) = List.enumerate 0 evs"
    by (rule takeWhile_eq_all_conv [THEN iffD2]) auto
  then show ?thesis unfolding cut_at_def by (simp only: map_snd_enumerate)
qed

lemma collect_told:
  assumes "tells out text thinking cits"
  shows "CollectStream (out @ r_completed cd (ci, calls, rs) (Some resp)) =
    (case attachReasoning cd calls rs of
       Inl e \<Rightarrow> Inl e
     | Inr calls' \<Rightarrow> Inr \<lparr>resp_content = text, resp_thinking = thinking, resp_tool_calls = calls', resp_citations = cits,
         resp_usage = r_toUsage (rs_usage resp), resp_finish = (if calls' = [] then ''stop'' else ''tool_calls''), resp_model = []\<rparr>)"
proof (cases "attachReasoning cd calls rs")
  case (Inl e)
  then show ?thesis using assms by (simp add: r_completed_def CollectStream_eq first_error_def tells_def)
next
  case (Inr calls')
  have "text_of [done_event\<lparr>ev_usage := u\<rparr>] = [] \<and> reasoning_of [done_event\<lparr>ev_usage := u\<rparr>] = [] \<and> calls_of [done_event\<lparr>ev_usage := u\<rparr>] = [] \<and>
      citations_of [done_event\<lparr>ev_usage := u\<rparr>] = [] \<and> errors_of [done_event\<lparr>ev_usage := u\<rparr>] = [] \<and>
      usages_of [done_event\<lparr>ev_usage := u\<rparr>] = (case u of None \<Rightarrow> [] | Some u \<Rightarrow> [u])" for u
    by (simp add: stream_parts_snoc record_defs)
  then show ?thesis
    using assms Inr
    by (simp add: r_completed_def CollectStream_eq first_error_def assembled_def last_usage_def tells_def tool_call_parts r_toUsage_def
        split: option.split)
qed

text \<open>
  A streamed response collects to what \<open>parseOutput\<close> makes of the finished response, however
  its texts, summaries and arguments are cut: the text with its citations, the thinking, the calls
  with the reasoning attached to the first, and the usage, or the same error. Only the model name
  is missing, and the finish reason does not tell a response the token limit or a filter cut short.
\<close>

theorem responses_stream_agrees:
  assumes "r_carries cd rs (response_events os (final_event kind resp))" "hr_body r = concat (map raw_event_wire rs) @ rest"
    and "items_decode cd os" "rs_output resp = map raw_done os"
    and "kind = ''response.completed'' \<or> kind = ''response.incomplete''"
  shows "CollectStream (r_readStream cd (\<lambda>_. False) r) =
    (case parseOutput cd resp of
       Inl e \<Rightarrow> Inl e
     | Inr c \<Rightarrow> Inr (c\<lparr>resp_model := [], resp_finish := (if resp_tool_calls c = [] then ''stop'' else ''tool_calls'')\<rparr>))"
proof -
  let ?calls = "map output_call (typed_items ''function_call'' (decoded os))"
  obtain out ci where run: "r_run cd ([], [], []) (concat (map item_events (List.enumerate 0 os))) =
      (out, Some (ci, ?calls, typed_raws ''reasoning'' (decoded os)))"
    "tells out (message_text (decoded os)) (summaries (decoded os)) (message_citations (decoded os))"
    using items_run [OF assms(3), of "[]" "[]" "[]" 0] by auto
  have "r_readStream cd (\<lambda>_. False) r = out @ r_completed cd (ci, ?calls, typed_raws ''reasoning'' (decoded os)) (Some resp)"
    using r_read_loop_carries [OF assms(1), of "([], [], [])" rest "hr_fail r"] run(1) final_step [OF assms(5)] assms(2)
    by (simp add: r_readStream_def cut_at_never response_events_def r_run_append)
  moreover have "decodes cd (decoded os)" "rs_output resp = map fst (decoded os)"
    using assms(3,4) by (simp_all add: decodes_def items_decode_def list_all_iff comp_def)
  ultimately show ?thesis
    by (cases "attachReasoning cd ?calls (typed_raws ''reasoning'' (decoded os))")
      (simp_all add: collect_told [OF run(2)] parseOutput_eq message_citations_def summaries_def)
qed

text \<open>A response of a reasoning item and a call, cut into pieces.\<close>

definition sample_items :: "o_item list" where
  "sample_items = [OReasoning ''a'' ''a'' [''Th'', ''ink''], OCall ''b'' ''c'' ''id'' ''f'' [''{'', ''}'']]"

definition sample_response :: r_response where
  "sample_response = \<lparr>rs_model = ''m'', rs_status = ''completed'', rs_incomplete = None, rs_output = [''a'', ''c''], rs_usage = None,
     rs_error = None\<rparr>"

text \<open>Events are written as their position in the stream, in unary; lists of raw items as their concatenation.\<close>

definition unary_codec :: "r_event list \<Rightarrow> responses_codec" where
  "unary_codec evs = \<lparr>rj_list = (\<lambda>s. Inr (map (\<lambda>c. [c]) s)), rj_show_list = (\<lambda>rs. Inr (concat rs)),
     rj_item = (\<lambda>raw. if raw = ''a'' then Inr (item_view (sample_items ! 0)) else if raw = ''c'' then Inr (item_view (sample_items ! 1))
       else Inl (Opaque raw)),
     rj_response = (\<lambda>s. Inl (Opaque s)),
     rj_event = (\<lambda>s. if length s - 1 < length evs then Some (evs ! (length s - 1)) else None), rj_error = (\<lambda>_. None)\<rparr>"

lemma r_unary_carries: "length evs < 1000 \<Longrightarrow> r_carries (unary_codec evs) (map unary_event [0..<length evs]) evs"
proof -
  assume l: "length evs < 1000"
  have "rj_event (unary_codec evs) (se_data (raw_event_view (unary_event n))) = Some (evs ! n)" if "n < length evs" for n
    using that by (simp add: unary_codec_def unary_event_def raw_event_view_def)
  then show ?thesis
    using l unary_event_ok by (auto simp: r_carries_def list_all2_conv_all_nth)
qed

lemma sample_decodes:
  "items_decode (unary_codec evs) sample_items" "rs_output sample_response = map raw_done sample_items"
  "decodes (unary_codec evs) (decoded sample_items)" "rs_output sample_response = map fst (decoded sample_items)"
  by (simp_all add: items_decode_def decodes_def unary_codec_def sample_items_def sample_response_def)

definition sample_call :: tool_call where
  "sample_call = \<lparr>tc_id = ''id'', tc_name = ''f'', tc_arguments = ''{}'', tc_metadata = [(reasoningKey, ''a'')]\<rparr>"

lemma sample_parse: "parseOutput (unary_codec evs) sample_response =
  Inr (zero_response\<lparr>resp_thinking := ''Think'', resp_tool_calls := [sample_call], resp_finish := ''tool_calls'', resp_model := ''m''\<rparr>)"
  unfolding parseOutput_eq [OF sample_decodes(3,4)]
  by (simp add: sample_items_def typed_defs attachReasoning_def output_call_def zero_call_def unary_codec_def sample_call_def
      sample_response_def r_toUsage_def finishReason_def zero_response_def)

theorem responses_stream_agrees_witness:
  "let evs = response_events sample_items (final_event ''response.completed'' sample_response) in
   CollectStream (r_readStream (unary_codec evs) (\<lambda>_. False)
     \<lparr>hr_status = 200, hr_body = concat (map raw_event_wire (map unary_event [0..<9])), hr_fail = None, hr_retry_after = 0\<rparr>) =
   Inr (zero_response\<lparr>resp_thinking := ''Think'', resp_tool_calls := [sample_call], resp_finish := ''tool_calls''\<rparr>)"
proof -
  let ?evs = "response_events sample_items (final_event ''response.completed'' sample_response)"
  let ?r = "\<lparr>hr_status = 200, hr_body = concat (map raw_event_wire (map unary_event [0..<9])), hr_fail = None, hr_retry_after = 0\<rparr>"
  have "length ?evs = 9"
    by (simp add: response_events_def sample_items_def item_events_def)
  then have c: "r_carries (unary_codec ?evs) (map unary_event [0..<9]) ?evs"
    using r_unary_carries [of ?evs] by simp
  have b: "hr_body ?r = concat (map raw_event_wire (map unary_event [0..<9])) @ []"
    by simp
  show ?thesis
    using responses_stream_agrees [OF c b sample_decodes(1,2)] by (simp add: sample_parse zero_response_def)
qed

theorem responses_replay_reasoning_witness:
  "\<exists>ys. toInput (unary_codec []) (assistant_turn (zero_response\<lparr>resp_thinking := ''Think'', resp_tool_calls := [sample_call],
        resp_finish := ''tool_calls'', resp_model := ''m''\<rparr>) # map (\<lambda>(id, out). tool_msg out id) [(''id'', ''7'')]) =
      Inr (map (\<lambda>ri. zero_item\<lparr>ri_raw := Some ri\<rparr>) ys @
        [zero_item\<lparr>ri_type := ''function_call'', ri_call_id := ''id'', ri_name := ''f'', ri_arguments := ''{}''\<rparr>, result_item (''id'', ''7'')]) \<and>
    map (\<lambda>s. Some (JStr s)) ys = [Some (JStr ''a'')]"
proof -
  let ?cd = "unary_codec []"
  have calls: "typed_items ''function_call'' (decoded sample_items) \<noteq> []"
    by (simp add: sample_items_def typed_defs)
  have "lists_round_trip ?cd (\<lambda>s. Some (JStr s)) (typed_raws ''reasoning'' (decoded sample_items))"
    by (simp add: sample_items_def typed_defs lists_round_trip_def unary_codec_def)
  from responses_replay_reasoning [OF sample_decodes(3,4) sample_parse calls this, of "[(''id'', ''7'')]"] show ?thesis
    by (simp add: sample_items_def typed_defs text_items_def call_item_def output_call_def zero_call_def)
qed

text \<open>
  Reasoning items come first on replay even when the model produced them between its calls: the
  order of a turn with interleaved thinking is not the one the model produced.
\<close>

lemma replay_reorders:
  assumes "decodes cd [(''r1'', rv), (''c1'', cv), (''r2'', rv), (''c2'', cv)]" "ro_type rv = ''reasoning''" "ro_type cv = ''function_call''"
    and "rs_output r = [''r1'', ''c1'', ''r2'', ''c2'']" "rj_show_list cd [''r1'', ''r2''] = Inr ''b''" "rj_list cd ''b'' = Inr [''r1'', ''r2'']"
  shows "\<exists>resp. parseOutput cd r = Inr resp \<and> toInput cd [assistant_turn resp] =
    Inr ([zero_item\<lparr>ri_raw := Some ''r1''\<rparr>, zero_item\<lparr>ri_raw := Some ''r2''\<rparr>] @ replicate 2 (call_item (output_call cv)))"
  using assms(2-) parseOutput_eq [OF assms(1), of r]
  by (simp add: typed_defs attachReasoning_def message_items_def assistant_items_def assistant_turn_def zero_msg_def kept_reasoning_def
      text_items_def call_item_def output_call_def zero_call_def numeral_2_eq_2)

end
