(* ===== verification/Retry_After.thy ===== *)
theory Retry_After
  imports Resilience Transport
begin

text \<open>
  How long a response asks the client to wait (\<open>RetryAfterFromHeader\<close> of \<open>errors.go\<close>), and what
  \<open>RetryProvider\<close> makes of it. The reading of numbers and dates in a header is a parameter, as is
  the conversion of a \<open>float64\<close> outside the range of \<open>int64\<close>, which Go leaves to the platform;
  finite numbers are rationals.
\<close>

section \<open>Headers\<close>

datatype go_float = Finite rat | PosInf | NegInf | NaN

text \<open>\<open>strconv.ParseFloat\<close>, \<open>http.ParseTime\<close> (nanoseconds) and the conversion outside the range.\<close>

record header_readers =
  hh_float :: "string \<Rightarrow> go_float option"
  hh_time :: "string \<Rightarrow> int option"
  hh_convert :: "go_float \<Rightarrow> int"

definition positive :: "go_float \<Rightarrow> bool" where
  "positive x = (case x of Finite q \<Rightarrow> q > 0 | PosInf \<Rightarrow> True | _ \<Rightarrow> False)"

definition not_positive :: "go_float \<Rightarrow> bool" where
  "not_positive x = (case x of Finite q \<Rightarrow> q \<le> 0 | NegInf \<Rightarrow> True | _ \<Rightarrow> False)"

text \<open>\<open>time.Duration(n * float64(unit))\<close>, for a positive \<open>n\<close>.\<close>

definition duration :: "header_readers \<Rightarrow> go_float \<Rightarrow> int \<Rightarrow> int" where
  "duration h x unit =
     (case x of
        Finite q \<Rightarrow> (let d = \<lfloor>q * of_int unit\<rfloor> in if d < 2 ^ 63 then d else hh_convert h (Finite (q * of_int unit)))
      | f \<Rightarrow> hh_convert h f)"

text \<open>\<open>time.Until\<close> saturates.\<close>

definition until :: "int \<Rightarrow> int \<Rightarrow> int" where
  "until now t = max (- (2 ^ 63)) (min (2 ^ 63 - 1) (t - now))"

definition millisecond :: int where "millisecond = 1000000"

text \<open>The second part: \<open>Retry-After\<close> in seconds, or as a date.\<close>

definition retry_after_date :: "header_readers \<Rightarrow> int \<Rightarrow> string \<Rightarrow> int" where
  "retry_after_date h now v =
     (case hh_time h v of None \<Rightarrow> 0 | Some t \<Rightarrow> if until now t > 0 then until now t else 0)"

definition retry_after_plain :: "header_readers \<Rightarrow> int \<Rightarrow> string \<Rightarrow> int" where
  "retry_after_plain h now v =
     (if v = [] then 0
      else case hh_float h v of
          Some n \<Rightarrow> if not_positive n then 0 else duration h n second
        | None \<Rightarrow> retry_after_date h now v)"

definition RetryAfterFromHeader :: "header_readers \<Rightarrow> int \<Rightarrow> (string \<Rightarrow> string) \<Rightarrow> int" where
  "RetryAfterFromHeader h now get =
     (let ms = TrimSpace (get ''retry-after-ms'');
          plain = retry_after_plain h now (TrimSpace (get ''Retry-After''))
      in if ms = [] then plain
         else case hh_float h ms of
             Some n \<Rightarrow> if positive n then duration h n millisecond else plain
           | None \<Rightarrow> plain)"

section \<open>What a header means\<close>

lemma no_header: "TrimSpace (get ''retry-after-ms'') = [] \<Longrightarrow> TrimSpace (get ''Retry-After'') = [] \<Longrightarrow> RetryAfterFromHeader h now get = 0"
  by (simp add: RetryAfterFromHeader_def retry_after_plain_def)

lemma milliseconds_first:
  assumes "TrimSpace (get ''retry-after-ms'') \<noteq> []" "hh_float h (TrimSpace (get ''retry-after-ms'')) = Some (Finite q)"
    and "0 < q" "q < 9223372036854"
  shows "RetryAfterFromHeader h now get = \<lfloor>q * 1000000\<rfloor>"
proof -
  have "q * 1000000 < of_int (2 ^ 63)" using assms(4) by simp
  then have "\<lfloor>q * 1000000\<rfloor> < 2 ^ 63" by (simp add: floor_less_iff)
  with assms show ?thesis by (simp add: RetryAfterFromHeader_def Let_def positive_def duration_def millisecond_def)
qed

lemma duration_nonneg: "positive (Finite q) \<Longrightarrow> 0 \<le> unit \<Longrightarrow> \<lfloor>q * of_int unit\<rfloor> < 2 ^ 63 \<Longrightarrow> 0 \<le> duration h (Finite q) unit"
  by (simp add: duration_def positive_def Let_def)

section \<open>What the retry makes of it\<close>

text \<open>The wait a failed attempt is followed by: \<open>None\<close> where the retrying ends instead.\<close>

definition chosen_wait :: "'w retry_provider \<Rightarrow> int \<Rightarrow> int \<Rightarrow> int option" where
  "chosen_wait r delay asked = (if asked > 0 then if asked > rt_max_delay r then None else Some asked else Some delay)"

lemma retry_wait_chosen:
  assumes "as_api err = Some a" "backoff ops r attempt w = (delay, w1)"
  shows "retry_wait ops r attempt err w =
    (case chosen_wait r delay (ae_retry_after a) of None \<Rightarrow> (False, w1) | Some d \<Rightarrow> ctx_wait ops d w1)"
  using assms by (simp add: retry_wait_def chosen_wait_def)

text \<open>
  A wait a response asks for is kept to the nanosecond when it is within the cap, and ends the
  retrying when it is beyond. A number no duration can hold does one of the two, or is
  ignored, depending on the platform: never is the wait longer than the cap.
\<close>

theorem retry_after_honoured:
  assumes "as_api err = Some a" "ae_retry_after a = RetryAfterFromHeader h now get" "backoff ops r attempt w = (delay, w1)"
    and "TrimSpace (get ''retry-after-ms'') = []" "TrimSpace (get ''Retry-After'') \<noteq> []"
    and "hh_float h (TrimSpace (get ''Retry-After'')) = Some n"
  shows "retry_wait ops r attempt err w =
    (case n of
       Finite q \<Rightarrow>
         if \<lfloor>q * 1000000000\<rfloor> \<le> 0 then ctx_wait ops delay w1
         else if \<lfloor>q * 1000000000\<rfloor> \<ge> 2 ^ 63 then
           (case chosen_wait r delay (hh_convert h (Finite (q * 1000000000))) of None \<Rightarrow> (False, w1) | Some d \<Rightarrow> ctx_wait ops d w1)
         else if \<lfloor>q * 1000000000\<rfloor> > rt_max_delay r then (False, w1)
         else ctx_wait ops \<lfloor>q * 1000000000\<rfloor> w1
     | NegInf \<Rightarrow> ctx_wait ops delay w1
     | f \<Rightarrow> (case chosen_wait r delay (hh_convert h f) of None \<Rightarrow> (False, w1) | Some d \<Rightarrow> ctx_wait ops d w1))"
proof -
  have "ae_retry_after a = (if not_positive n then 0 else duration h n second)"
    using assms(2,4-6) by (simp add: RetryAfterFromHeader_def retry_after_plain_def Let_def)
  moreover have "\<lfloor>q * 1000000000\<rfloor> \<le> 0" if "q \<le> 0" for q :: rat
    using that by (simp add: floor_le_iff)
  ultimately show ?thesis using retry_wait_chosen [OF assms(1,3)]
    by (cases n) (auto simp: chosen_wait_def duration_def not_positive_def second_def Let_def)
qed

lemma chosen_wait_capped: "chosen_wait r delay asked = Some d \<Longrightarrow> delay \<le> rt_max_delay r \<Longrightarrow> d \<le> rt_max_delay r"
  by (auto simp: chosen_wait_def split: if_splits)

text \<open>A date in the past asks for nothing.\<close>

lemma past_date_ignored: "hh_time h v = Some t \<Longrightarrow> t \<le> now \<Longrightarrow> retry_after_date h now v = 0"
  by (simp add: retry_after_date_def until_def)

end
