(* ===== verification/Provider_Selection.thy ===== *)
theory Provider_Selection
  imports OpenAI_Responses Gemini_Provider Anthropic_Provider Bedrock_Provider
begin

text \<open>
  Choosing a provider: the constructors of every provider package (\<open>llm/*/*.go\<close>), the registry
  by name (\<open>llm/registry.go\<close>) and model strings (\<open>llm/fromstring.go\<close>). A constructed provider is
  its configuration; the HTTP client of an option is the transport parameter of the provider's
  operations. The environment is a function from variable names to values, empty when unset.
\<close>

section \<open>Configurations\<close>

record compat_settings = compat_config +
  cs_url :: string
  cs_key :: string
  cs_headers :: "(string \<times> string) list"

definition apply_options :: "('p \<Rightarrow> 'p) list \<Rightarrow> 'p \<Rightarrow> 'p" where
  "apply_options opts p = foldl (\<lambda>p opt. opt p) p opts"

definition compat_WithBaseURL :: "string \<Rightarrow> compat_settings \<Rightarrow> compat_settings" where
  "compat_WithBaseURL url c = c\<lparr>cs_url := url\<rparr>"

definition WithSiteInfo :: "string \<Rightarrow> string \<Rightarrow> compat_settings \<Rightarrow> compat_settings" where
  "WithSiteInfo referer title c =
     c\<lparr>cs_headers := AList.update ''X-Title'' title (AList.update ''HTTP-Referer'' referer (cs_headers c))\<rparr>"

section \<open>Providers with an OpenAI-compatible endpoint\<close>

definition cerebras_New :: "string \<Rightarrow> (compat_settings \<Rightarrow> compat_settings) list \<Rightarrow> compat_settings" where
  "cerebras_New apiKey opts = apply_options opts
     \<lparr>cc_name = ''cerebras'', cc_style = ReasoningStyleObject, cs_url = ''https://api.cerebras.ai/v1/chat/completions'', cs_key = apiKey, cs_headers = []\<rparr>"

definition chutes_New :: "string \<Rightarrow> (compat_settings \<Rightarrow> compat_settings) list \<Rightarrow> compat_settings" where
  "chutes_New apiKey opts = apply_options opts
     \<lparr>cc_name = ''chutes'', cc_style = ReasoningStyleObject, cs_url = ''https://llm.chutes.ai/v1/chat/completions'', cs_key = apiKey, cs_headers = []\<rparr>"

definition cohere_New :: "string \<Rightarrow> (compat_settings \<Rightarrow> compat_settings) list \<Rightarrow> compat_settings" where
  "cohere_New apiKey opts = apply_options opts
     \<lparr>cc_name = ''cohere'', cc_style = ReasoningStyleObject, cs_url = ''https://api.cohere.com/compatibility/v1/chat/completions'', cs_key = apiKey, cs_headers = []\<rparr>"

definition dashscope_New :: "string \<Rightarrow> (compat_settings \<Rightarrow> compat_settings) list \<Rightarrow> compat_settings" where
  "dashscope_New apiKey opts = apply_options opts
     \<lparr>cc_name = ''dashscope'', cc_style = ReasoningStyleObject, cs_url = ''https://dashscope-intl.aliyuncs.com/compatible-mode/v1/chat/completions'', cs_key = apiKey, cs_headers = []\<rparr>"

definition deepinfra_New :: "string \<Rightarrow> (compat_settings \<Rightarrow> compat_settings) list \<Rightarrow> compat_settings" where
  "deepinfra_New apiKey opts = apply_options opts
     \<lparr>cc_name = ''deepinfra'', cc_style = ReasoningStyleObject, cs_url = ''https://api.deepinfra.com/v1/openai/chat/completions'', cs_key = apiKey, cs_headers = []\<rparr>"

definition deepseek_New :: "string \<Rightarrow> (compat_settings \<Rightarrow> compat_settings) list \<Rightarrow> compat_settings" where
  "deepseek_New apiKey opts = apply_options opts
     \<lparr>cc_name = ''deepseek'', cc_style = ReasoningStyleObject, cs_url = ''https://api.deepseek.com/v1/chat/completions'', cs_key = apiKey, cs_headers = []\<rparr>"

definition fireworks_New :: "string \<Rightarrow> (compat_settings \<Rightarrow> compat_settings) list \<Rightarrow> compat_settings" where
  "fireworks_New apiKey opts = apply_options opts
     \<lparr>cc_name = ''fireworks'', cc_style = ReasoningStyleObject, cs_url = ''https://api.fireworks.ai/inference/v1/chat/completions'', cs_key = apiKey, cs_headers = []\<rparr>"

definition friendli_New :: "string \<Rightarrow> (compat_settings \<Rightarrow> compat_settings) list \<Rightarrow> compat_settings" where
  "friendli_New apiKey opts = apply_options opts
     \<lparr>cc_name = ''friendli'', cc_style = ReasoningStyleObject, cs_url = ''https://api.friendli.ai/serverless/v1/chat/completions'', cs_key = apiKey, cs_headers = []\<rparr>"

definition groq_New :: "string \<Rightarrow> (compat_settings \<Rightarrow> compat_settings) list \<Rightarrow> compat_settings" where
  "groq_New apiKey opts = apply_options opts
     \<lparr>cc_name = ''groq'', cc_style = ReasoningStyleObject, cs_url = ''https://api.groq.com/openai/v1/chat/completions'', cs_key = apiKey, cs_headers = []\<rparr>"

definition huggingface_New :: "string \<Rightarrow> (compat_settings \<Rightarrow> compat_settings) list \<Rightarrow> compat_settings" where
  "huggingface_New apiKey opts = apply_options opts
     \<lparr>cc_name = ''huggingface'', cc_style = ReasoningStyleObject, cs_url = ''https://router.huggingface.co/v1/chat/completions'', cs_key = apiKey, cs_headers = []\<rparr>"

definition hyperbolic_New :: "string \<Rightarrow> (compat_settings \<Rightarrow> compat_settings) list \<Rightarrow> compat_settings" where
  "hyperbolic_New apiKey opts = apply_options opts
     \<lparr>cc_name = ''hyperbolic'', cc_style = ReasoningStyleObject, cs_url = ''https://api.hyperbolic.xyz/v1/chat/completions'', cs_key = apiKey, cs_headers = []\<rparr>"

definition mistral_New :: "string \<Rightarrow> (compat_settings \<Rightarrow> compat_settings) list \<Rightarrow> compat_settings" where
  "mistral_New apiKey opts = apply_options opts
     \<lparr>cc_name = ''mistral'', cc_style = ReasoningStyleObject, cs_url = ''https://api.mistral.ai/v1/chat/completions'', cs_key = apiKey, cs_headers = []\<rparr>"

definition moonshot_New :: "string \<Rightarrow> (compat_settings \<Rightarrow> compat_settings) list \<Rightarrow> compat_settings" where
  "moonshot_New apiKey opts = apply_options opts
     \<lparr>cc_name = ''moonshot'', cc_style = ReasoningStyleObject, cs_url = ''https://api.moonshot.ai/v1/chat/completions'', cs_key = apiKey, cs_headers = []\<rparr>"

definition novita_New :: "string \<Rightarrow> (compat_settings \<Rightarrow> compat_settings) list \<Rightarrow> compat_settings" where
  "novita_New apiKey opts = apply_options opts
     \<lparr>cc_name = ''novita'', cc_style = ReasoningStyleObject, cs_url = ''https://api.novita.ai/openai/chat/completions'', cs_key = apiKey, cs_headers = []\<rparr>"

definition ollama_New :: "(compat_settings \<Rightarrow> compat_settings) list \<Rightarrow> compat_settings" where
  "ollama_New opts = apply_options opts
     \<lparr>cc_name = ''ollama'', cc_style = ReasoningStyleObject, cs_url = ''http://localhost:11434/v1/chat/completions'', cs_key = ''ollama'', cs_headers = []\<rparr>"

definition openrouter_New :: "string \<Rightarrow> (compat_settings \<Rightarrow> compat_settings) list \<Rightarrow> compat_settings" where
  "openrouter_New apiKey opts = apply_options opts
     \<lparr>cc_name = ''openrouter'', cc_style = ReasoningStyleObject, cs_url = ''https://openrouter.ai/api/v1/chat/completions'', cs_key = apiKey, cs_headers = []\<rparr>"

definition sambanova_New :: "string \<Rightarrow> (compat_settings \<Rightarrow> compat_settings) list \<Rightarrow> compat_settings" where
  "sambanova_New apiKey opts = apply_options opts
     \<lparr>cc_name = ''sambanova'', cc_style = ReasoningStyleObject, cs_url = ''https://api.sambanova.ai/v1/chat/completions'', cs_key = apiKey, cs_headers = []\<rparr>"

definition together_New :: "string \<Rightarrow> (compat_settings \<Rightarrow> compat_settings) list \<Rightarrow> compat_settings" where
  "together_New apiKey opts = apply_options opts
     \<lparr>cc_name = ''together'', cc_style = ReasoningStyleObject, cs_url = ''https://api.together.xyz/v1/chat/completions'', cs_key = apiKey, cs_headers = []\<rparr>"

definition xai_New :: "string \<Rightarrow> (compat_settings \<Rightarrow> compat_settings) list \<Rightarrow> compat_settings" where
  "xai_New apiKey opts = apply_options opts
     \<lparr>cc_name = ''xai'', cc_style = ReasoningStyleObject, cs_url = ''https://api.x.ai/v1/chat/completions'', cs_key = apiKey, cs_headers = []\<rparr>"

definition zai_New :: "string \<Rightarrow> (compat_settings \<Rightarrow> compat_settings) list \<Rightarrow> compat_settings" where
  "zai_New apiKey opts = apply_options opts
     \<lparr>cc_name = ''zai'', cc_style = ReasoningStyleObject, cs_url = ''https://api.z.ai/api/paas/v4/chat/completions'', cs_key = apiKey, cs_headers = []\<rparr>"

section \<open>OpenAI\<close>

definition openai_url :: string where
  "openai_url = ''https://api.openai.com/v1/chat/completions''"

definition chatPath :: string where "chatPath = ''/chat/completions''"
definition responsesPath :: string where "responsesPath = ''/responses''"

definition WithResponsesAPI :: "compat_settings \<Rightarrow> compat_settings" where
  "WithResponsesAPI c = (if HasSuffix (cs_url c) chatPath then c\<lparr>cs_url := TrimSuffix (cs_url c) chatPath @ responsesPath\<rparr> else c)"

definition newResponsesClient :: "compat_settings \<Rightarrow> responses_client" where
  "newResponsesClient cfg = \<lparr>rl_url = cs_url cfg, rl_key = cs_key cfg, rl_headers = cs_headers cfg\<rparr>"

datatype openai_provider = Inner compat_settings | Responses responses_client

definition openai_New :: "string \<Rightarrow> (compat_settings \<Rightarrow> compat_settings) list \<Rightarrow> openai_provider" where
  "openai_New apiKey opts =
     (let cfg = apply_options opts \<lparr>cc_name = ''openai'', cc_style = ReasoningStyleEffortField, cs_url = openai_url,
        cs_key = apiKey, cs_headers = []\<rparr>
      in if HasSuffix (cs_url cfg) responsesPath then Responses (newResponsesClient cfg) else Inner cfg)"

text \<open>The services the two clients talk to, at a URL, with a key and extra headers.\<close>

record 'w openai_services =
  os_chat :: "string \<Rightarrow> string \<Rightarrow> (string \<times> string) list \<Rightarrow> (wire_request, 'w) transport"
  os_responses :: "'w r_transport"

definition openai_Complete :: "compat_codec \<Rightarrow> responses_codec \<Rightarrow> 'w openai_services \<Rightarrow> openai_provider \<Rightarrow> 'w complete_fn" where
  "openai_Complete cd rcd sv p =
     (case p of
        Responses c \<Rightarrow> responses_Complete rcd c (os_responses sv)
      | Inner cfg \<Rightarrow> compat_Complete (compat_config.truncate cfg) cd (os_chat sv (cs_url cfg) (cs_key cfg) (cs_headers cfg)))"

definition openai_Stream :: "compat_codec \<Rightarrow> responses_codec \<Rightarrow> (nat \<Rightarrow> bool) \<Rightarrow> 'w openai_services \<Rightarrow> openai_provider \<Rightarrow> 'w stream_fn" where
  "openai_Stream cd rcd quit sv p =
     (case p of
        Responses c \<Rightarrow> responses_Stream rcd quit c (os_responses sv)
      | Inner cfg \<Rightarrow> compat_Stream (compat_config.truncate cfg) cd quit (os_chat sv (cs_url cfg) (cs_key cfg) (cs_headers cfg)))"

section \<open>Anthropic and Bedrock\<close>

record anthropic =
  an_key :: string
  an_url :: string

definition anthropic_New :: "string \<Rightarrow> (anthropic \<Rightarrow> anthropic) list \<Rightarrow> anthropic" where
  "anthropic_New apiKey opts = apply_options opts \<lparr>an_key = apiKey, an_url = ''https://api.anthropic.com/v1/messages''\<rparr>"

record bedrock =
  br_region :: string
  br_access_key :: string
  br_secret_key :: string
  br_session :: string
  br_url :: string

definition WithRegion :: "string \<Rightarrow> bedrock \<Rightarrow> bedrock" where
  "WithRegion region p = p\<lparr>br_region := region\<rparr>"

definition WithStaticCredentials :: "string \<Rightarrow> string \<Rightarrow> string \<Rightarrow> bedrock \<Rightarrow> bedrock" where
  "WithStaticCredentials accessKeyID secretAccessKey sessionToken p =
     p\<lparr>br_access_key := accessKeyID, br_secret_key := secretAccessKey, br_session := sessionToken\<rparr>"

definition bedrock_WithBaseURL :: "string \<Rightarrow> bedrock \<Rightarrow> bedrock" where
  "bedrock_WithBaseURL rawURL p = p\<lparr>br_url := rev (dropWhile (\<lambda>c. c = CHR ''/'') (rev rawURL))\<rparr>"

fun firstNonEmpty :: "string list \<Rightarrow> string" where
  "firstNonEmpty [] = []"
| "firstNonEmpty (v # vs) = (if v \<noteq> [] then v else firstNonEmpty vs)"

definition bedrock_New :: "(string \<Rightarrow> string) \<Rightarrow> (bedrock \<Rightarrow> bedrock) list \<Rightarrow> bedrock" where
  "bedrock_New env opts =
     (let p = apply_options opts \<lparr>br_region = firstNonEmpty [env ''AWS_REGION'', env ''AWS_DEFAULT_REGION''],
            br_access_key = env ''AWS_ACCESS_KEY_ID'', br_secret_key = env ''AWS_SECRET_ACCESS_KEY'',
            br_session = env ''AWS_SESSION_TOKEN'', br_url = []\<rparr>;
          p1 = (if br_region p = [] then p\<lparr>br_region := ''us-east-1''\<rparr> else p)
      in if br_url p1 = [] then p1\<lparr>br_url := ''https://bedrock-runtime.'' @ br_region p1 @ ''.amazonaws.com''\<rparr> else p1)"

section \<open>The registry\<close>

datatype 'w built =
    OpenAI openai_provider
  | Anthropic anthropic
  | Gemini "'w gemini"
  | Compat compat_settings
  | Bedrock bedrock

definition AllProviders :: "string list" where
  "AllProviders = [''openai'', ''anthropic'', ''gemini'', ''deepseek'', ''groq'', ''fireworks'', ''xai'', ''openrouter'', ''together'', ''mistral'', ''cohere'', ''ollama'', ''chutes'', ''zai'', ''moonshot'', ''novita'', ''deepinfra'', ''friendli'', ''cerebras'', ''sambanova'', ''hyperbolic'', ''dashscope'', ''huggingface'', ''bedrock'']"

definition New_provider :: "(string \<Rightarrow> string) \<Rightarrow> string \<Rightarrow> string \<Rightarrow> go_error + 'w built" where
  "New_provider env name apiKey =
     (if name = ''openai'' then Inr (OpenAI (openai_New apiKey []))
      else if name = ''anthropic'' then Inr (Anthropic (anthropic_New apiKey []))
      else if name = ''gemini'' then Inr (Gemini (New_gemini apiKey []))
      else if name = ''deepseek'' then Inr (Compat (deepseek_New apiKey []))
      else if name = ''groq'' then Inr (Compat (groq_New apiKey []))
      else if name = ''fireworks'' then Inr (Compat (fireworks_New apiKey []))
      else if name = ''xai'' then Inr (Compat (xai_New apiKey []))
      else if name = ''openrouter'' then Inr (Compat (openrouter_New apiKey []))
      else if name = ''together'' then Inr (Compat (together_New apiKey []))
      else if name = ''mistral'' then Inr (Compat (mistral_New apiKey []))
      else if name = ''cohere'' then Inr (Compat (cohere_New apiKey []))
      else if name = ''ollama'' then Inr (Compat (ollama_New []))
      else if name = ''chutes'' then Inr (Compat (chutes_New apiKey []))
      else if name = ''zai'' then Inr (Compat (zai_New apiKey []))
      else if name = ''moonshot'' then Inr (Compat (moonshot_New apiKey []))
      else if name = ''novita'' then Inr (Compat (novita_New apiKey []))
      else if name = ''deepinfra'' then Inr (Compat (deepinfra_New apiKey []))
      else if name = ''friendli'' then Inr (Compat (friendli_New apiKey []))
      else if name = ''cerebras'' then Inr (Compat (cerebras_New apiKey []))
      else if name = ''sambanova'' then Inr (Compat (sambanova_New apiKey []))
      else if name = ''hyperbolic'' then Inr (Compat (hyperbolic_New apiKey []))
      else if name = ''dashscope'' then Inr (Compat (dashscope_New apiKey []))
      else if name = ''huggingface'' then Inr (Compat (huggingface_New apiKey []))
      else if name = ''bedrock'' then Inr (Bedrock (bedrock_New env []))
      else Inl (Errorf ''langrails: unknown provider %q'' [FStr name]))"

section \<open>Model strings\<close>

definition apiKeyEnv :: "(string \<times> string list) list" where
  "apiKeyEnv =
    [(''openai'', [''OPENAI_API_KEY'']),
     (''anthropic'', [''ANTHROPIC_API_KEY'']),
     (''gemini'', [''GEMINI_API_KEY'', ''GOOGLE_API_KEY'']),
     (''deepseek'', [''DEEPSEEK_API_KEY'']),
     (''groq'', [''GROQ_API_KEY'']),
     (''fireworks'', [''FIREWORKS_API_KEY'']),
     (''xai'', [''XAI_API_KEY'']),
     (''openrouter'', [''OPENROUTER_API_KEY'']),
     (''together'', [''TOGETHER_API_KEY'']),
     (''mistral'', [''MISTRAL_API_KEY'']),
     (''cohere'', [''COHERE_API_KEY'', ''CO_API_KEY'']),
     (''chutes'', [''CHUTES_API_KEY'']),
     (''zai'', [''ZAI_API_KEY'']),
     (''moonshot'', [''MOONSHOT_API_KEY'']),
     (''novita'', [''NOVITA_API_KEY'']),
     (''deepinfra'', [''DEEPINFRA_API_KEY'', ''DEEPINFRA_TOKEN'']),
     (''friendli'', [''FRIENDLI_TOKEN'']),
     (''cerebras'', [''CEREBRAS_API_KEY'']),
     (''sambanova'', [''SAMBANOVA_API_KEY'']),
     (''hyperbolic'', [''HYPERBOLIC_API_KEY'']),
     (''dashscope'', [''DASHSCOPE_API_KEY'']),
     (''huggingface'', [''HF_TOKEN'', ''HUGGINGFACE_API_KEY''])]"

definition env_names :: "string \<Rightarrow> string list" where
  "env_names name = (case map_of apiKeyEnv name of None \<Rightarrow> [] | Some es \<Rightarrow> es)"

definition envAPIKey :: "(string \<Rightarrow> string) \<Rightarrow> string \<Rightarrow> string" where
  "envAPIKey env name = firstNonEmpty (map env (env_names name))"

definition ParseModel :: "string \<Rightarrow> go_error + string \<times> string" where
  "ParseModel spec =
     (case Cut spec (CHR '':'') of (prov, model, ok) \<Rightarrow>
        if \<not> ok \<or> prov = [] \<or> model = [] then Inl (Errorf ''langrails: model %q is not in provider:model form'' [FStr spec])
        else
          (let name = ToLower (TrimSpace prov) in
           if name \<in> set AllProviders then Inr (name, TrimSpace model)
           else Inl (Errorf ''langrails: unknown provider %q in %q'' [FStr prov, FStr spec])))"

definition FromString :: "(string \<Rightarrow> string) \<Rightarrow> string \<Rightarrow> string \<Rightarrow> go_error + 'w built \<times> string" where
  "FromString env spec apiKey =
     (case ParseModel spec of
        Inl e \<Rightarrow> Inl e
      | Inr (name, model) \<Rightarrow>
          (let key = (if apiKey = [] then envAPIKey env name else apiKey) in
           if key = [] \<and> env_names name \<noteq> [] then
             Inl (Errorf ''langrails: no API key for %s: pass one or set %s'' [FStr name, FStr (Join (env_names name) '' or '')])
           else case New_provider env name key of
               Inl e \<Rightarrow> Inl e
             | Inr p \<Rightarrow> Inr (p, model)))"

section \<open>What a name selects\<close>

definition built_name :: "'w built \<Rightarrow> string" where
  "built_name p = (case p of OpenAI (Inner c) \<Rightarrow> cc_name c | OpenAI (Responses c) \<Rightarrow> ''openai'' | Anthropic a \<Rightarrow> ''anthropic''
     | Gemini g \<Rightarrow> providerName g | Compat c \<Rightarrow> cc_name c | Bedrock b \<Rightarrow> ''bedrock'')"

definition built_key :: "'w built \<Rightarrow> string option" where
  "built_key p = (case p of OpenAI (Inner c) \<Rightarrow> Some (cs_key c) | OpenAI (Responses c) \<Rightarrow> Some (rl_key c) | Anthropic a \<Rightarrow> Some (an_key a)
     | Gemini g \<Rightarrow> Some (ge_key g) | Compat c \<Rightarrow> Some (cs_key c) | Bedrock b \<Rightarrow> None)"

lemmas thin_defs = cerebras_New_def chutes_New_def cohere_New_def dashscope_New_def deepinfra_New_def deepseek_New_def
  fireworks_New_def friendli_New_def groq_New_def huggingface_New_def hyperbolic_New_def mistral_New_def moonshot_New_def
  novita_New_def ollama_New_def openrouter_New_def sambanova_New_def together_New_def xai_New_def zai_New_def

lemmas built_defs = built_name_def built_key_def apply_options_def openai_url_def
  anthropic_New_def New_gemini_def providerName_def isVertex_def

lemma openai_default: "openai_New key [] = Inner \<lparr>cc_name = ''openai'', cc_style = ReasoningStyleEffortField, cs_url = openai_url,
    cs_key = key, cs_headers = []\<rparr>"
  by (simp add: openai_New_def apply_options_def openai_url_def responsesPath_def HasSuffix_def suffix_def)

lemma ollama_keyless: "env_names ''ollama'' = []" "env_names ''bedrock'' = []"
  by (simp_all add: env_names_def apiKeyEnv_def)

lemma New_provider_cases:
  "case (New_provider env name key :: go_error + 'w built) of
      Inr p \<Rightarrow> name \<in> set AllProviders \<and> built_name p = name \<and> (env_names name = [] \<or> built_key p = Some key)
    | Inl e \<Rightarrow> name \<notin> set AllProviders \<and> e = Errorf ''langrails: unknown provider %q'' [FStr name]"
  by (simp add: New_provider_def AllProviders_def built_defs thin_defs openai_default ollama_keyless)

text \<open>
  The registry is complete and exact: every listed name builds a provider of that name that
  uses the key it is given (if it takes keys from the environment at all), and any other name is
  an error. The list has no name twice.
\<close>

theorem registry_builds_by_name:
  "distinct AllProviders \<and>
   (case (New_provider env name key :: go_error + 'w built) of
      Inr p \<Rightarrow> name \<in> set AllProviders \<and> built_name p = name \<and> (env_names name = [] \<or> built_key p = Some key)
    | Inl e \<Rightarrow> name \<notin> set AllProviders \<and> e = Errorf ''langrails: unknown provider %q'' [FStr name])"
  using New_provider_cases [where env = env and name = name and key = key] by (simp add: AllProviders_def)

section \<open>Model strings\<close>

definition name_char :: "char \<Rightarrow> bool" where
  "name_char c \<longleftrightarrow> \<not> is_space c \<and> c \<noteq> CHR '':''"

lemma provider_names: "n \<in> set AllProviders \<Longrightarrow> n \<noteq> [] \<and> list_all name_char n"
  by (auto simp: AllProviders_def name_char_def is_space_def)

lemma lower_name_char: "name_char (ascii_lower c) \<Longrightarrow> name_char c"
  by (cases "of_char c \<in> {65..90::nat}") (auto simp: name_char_def is_space_def ascii_lower_def)

lemma name_char_no_colon: "name_char c \<Longrightarrow> c \<noteq> CHR '':''"
  by (simp add: name_char_def)

lemma space_no_colon: "is_space c \<Longrightarrow> c \<noteq> CHR '':''"
  by (auto simp: is_space_def)

lemma ParseModel_padded:
  assumes "ToLower prov \<in> set AllProviders" "list_all is_space u" "list_all is_space v" "model \<noteq> []"
  shows "ParseModel (u @ prov @ v @ '':'' @ model) = Inr (ToLower prov, TrimSpace model)"
proof -
  have n: "prov \<noteq> []" "list_all name_char prov"
    using provider_names [OF assms(1)] lower_name_char by (auto simp: ToLower_def list_all_iff)
  have "list_all (\<lambda>c. c \<noteq> CHR '':'') (u @ prov @ v)"
    using n(2) assms(2,3) unfolding list_all_append
    by (auto elim!: list.pred_mono_strong dest: name_char_no_colon space_no_colon)
  then have "Cut ((u @ prov @ v) @ '':'' @ model) (CHR '':'') = (u @ prov @ v, model, True)"
    by (auto simp: Cut_def list_all_iff takeWhile_append dropWhile_append)
  moreover have "TrimSpace (u @ prov @ v) = prov"
    using n assms(2,3) by (intro trim_padded) (auto simp: list_all_iff name_char_def)
  ultimately show ?thesis using assms(1,4) n(1) by (simp add: ParseModel_def)
qed

definition chosen_key :: "(string \<Rightarrow> string) \<Rightarrow> string \<Rightarrow> string \<Rightarrow> string" where
  "chosen_key env name key = (if key = [] then envAPIKey env name else key)"



text \<open>A blank model is accepted: only an empty one is refused.\<close>

lemma blank_model_accepted: "ParseModel ''ollama: '' = Inr (''ollama'', [])"
  using ParseModel_padded [of "''ollama''" "[]" "[]" "'' ''"]
  by (simp add: AllProviders_def ToLower_def ascii_lower_def TrimSpace_def is_space_def)

end
