(* ===== verification/Http_Requests.thy ===== *)
theory Http_Requests
  imports Provider_Selection Retry_After
begin

text \<open>
  \<open>doRequest\<close> of \<open>llm/compat\<close> and \<open>llm/anthropic\<close> down to the HTTP request and the headers of its
  answer: the transport of the provider models is one that sets the headers, sends, and reads
  \<open>Retry-After\<close> from what comes back. The URL check of \<open>http.NewRequest\<close> and the network are parameters.
\<close>

section \<open>Requests and answers\<close>

record 'q http_request =
  ht_url :: string
  ht_headers :: "(string \<times> string) list"
  ht_body :: 'q

record http_answer =
  ha_status :: int
  ha_headers :: "string \<Rightarrow> string"
  ha_body :: string
  ha_fail :: "go_error option"

record ('q, 'w) http_client =
  hc_check :: "string \<Rightarrow> go_error option"
  hc_do :: "'q http_request \<Rightarrow> 'w \<Rightarrow> (go_error + http_answer) \<times> 'w"
  hc_now :: "'w \<Rightarrow> int"
  hc_readers :: header_readers

text \<open>\<open>Header.Set\<close>: names are canonical, a letter upper case at the start and after a hyphen.\<close>

fun canonical_from :: "bool \<Rightarrow> string \<Rightarrow> string" where
  "canonical_from up [] = []"
| "canonical_from up (c # cs) =
     (let n = of_char c :: nat in
      (if up \<and> 97 \<le> n \<and> n \<le> 122 then char_of (n - 32) else if \<not> up \<and> 65 \<le> n \<and> n \<le> 90 then char_of (n + 32) else c)
        # canonical_from (c = CHR ''-'') cs)"

definition Header_Set :: "string \<Rightarrow> string \<Rightarrow> (string \<times> string) list \<Rightarrow> (string \<times> string) list" where
  "Header_Set k v hs = AList.update (canonical_from True k) v hs"

definition put_headers :: "(string \<times> string) list \<Rightarrow> (string \<times> string) list \<Rightarrow> (string \<times> string) list" where
  "put_headers kvs hs = foldl (\<lambda>hs (k, v). Header_Set k v hs) hs kvs"

definition answer_reply :: "header_readers \<Rightarrow> int \<Rightarrow> http_answer \<Rightarrow> http_reply" where
  "answer_reply h now a = \<lparr>hr_status = ha_status a, hr_body = ha_body a, hr_fail = ha_fail a,
     hr_retry_after = RetryAfterFromHeader h now (ha_headers a)\<rparr>"

definition exchange :: "('q, 'w) http_client \<Rightarrow> string \<Rightarrow> (string \<times> string) list \<Rightarrow> ('q, 'w) transport" where
  "exchange c url headers body w =
     (case hc_do c \<lparr>ht_url = url, ht_headers = headers, ht_body = body\<rparr> w of
        (Inl e, w') \<Rightarrow> (Inl e, w')
      | (Inr a, w') \<Rightarrow> (Inr (answer_reply (hc_readers c) (hc_now c w') a), w'))"

definition post_json :: "('q, 'w) http_client \<Rightarrow> string \<Rightarrow> (string \<Rightarrow> string option) \<Rightarrow> string \<Rightarrow> (string \<times> string) list \<Rightarrow> 'q \<Rightarrow> 'w
    \<Rightarrow> (go_error + http_reply) \<times> 'w" where
  "post_json c name decode url headers body w =
     (case hc_check c url of
        Some e \<Rightarrow> (Inl (Errorf ''%s: failed to create request: %w'' [FStr name, FWrap e]), w)
      | None \<Rightarrow> send_request name decode (exchange c url headers) body w)"

section \<open>The providers\<close>

definition compat_headers :: "compat_settings \<Rightarrow> (string \<times> string) list" where
  "compat_headers cfg = put_headers (cs_headers cfg)
     (put_headers [(''Content-Type'', ''application/json''), (''Authorization'', ''Bearer '' @ cs_key cfg)] [])"

definition compat_doRequest :: "(wire_request, 'w) http_client \<Rightarrow> compat_codec \<Rightarrow> compat_settings \<Rightarrow> wire_request \<Rightarrow> 'w
    \<Rightarrow> (go_error + http_reply) \<times> 'w" where
  "compat_doRequest c cd cfg body w = post_json c (cc_name cfg) (cd_error cd) (cs_url cfg) (compat_headers cfg) body w"

definition anthropic_WithBaseURL :: "string \<Rightarrow> anthropic \<Rightarrow> anthropic" where
  "anthropic_WithBaseURL url p = p\<lparr>an_url := url\<rparr>"

definition anthropic_headers :: "anthropic \<Rightarrow> (string \<times> string) list" where
  "anthropic_headers p = put_headers [(''Content-Type'', ''application/json''), (''x-api-key'', an_key p), (''anthropic-version'', ''2023-06-01'')] []"

definition anthropic_doRequest :: "(a_request, 'w) http_client \<Rightarrow> anthropic_codec \<Rightarrow> anthropic \<Rightarrow> a_request \<Rightarrow> 'w
    \<Rightarrow> (go_error + http_reply) \<times> 'w" where
  "anthropic_doRequest c cd p body w = post_json c ''anthropic'' (aj_error cd) (an_url p) (anthropic_headers p) body w"

section \<open>Over the transport of the provider models\<close>

lemma compat_doRequest_transport:
  assumes "hc_check c (cs_url cfg) = None"
  shows "compat_doRequest c cd cfg body w =
    doRequest (compat_config.truncate cfg) cd (exchange c (cs_url cfg) (compat_headers cfg)) body w"
  using assms by (simp add: compat_doRequest_def post_json_def doRequest_def compat_config.truncate_def)

lemma Header_Set_get: "map_of (Header_Set k v hs) n = (if n = canonical_from True k then Some v else map_of hs n)"
  by (simp add: Header_Set_def update_conv')

lemma put_headers_last: "map_of (put_headers (kvs @ [(k, v)]) hs) (canonical_from True k) = Some v"
  by (simp add: put_headers_def Header_Set_get)

lemma canonical_common [simp]:
  "canonical_from True ''Content-Type'' = ''Content-Type''" "canonical_from True ''Authorization'' = ''Authorization''"
  by simp_all

lemma canonical_key [simp]: "canonical_from True ''x-api-key'' = ''X-Api-Key''"
  by code_simp

lemma canonical_version [simp]: "canonical_from True ''anthropic-version'' = ''Anthropic-Version''"
  by code_simp

declare canonical_from.simps [simp del]

text \<open>Without extra headers the key is the bearer token; an extra header of that name, in any case, takes its place.\<close>

lemma compat_bearer: "cs_headers cfg = [] \<Longrightarrow> map_of (compat_headers cfg) ''Authorization'' = Some (''Bearer '' @ cs_key cfg)"
  by (simp add: compat_headers_def put_headers_def Header_Set_get)

lemma compat_bearer_replaced:
  assumes "cs_headers cfg = hs @ [(k, v)]" "canonical_from True k = ''Authorization''"
  shows "map_of (compat_headers cfg) ''Authorization'' = Some v"
  using put_headers_last [of hs k v] assms by (simp add: compat_headers_def)

lemma anthropic_key: "map_of (anthropic_headers p) ''X-Api-Key'' = Some (an_key p)" "map_of (anthropic_headers p) ''Authorization'' = None"
  by (simp_all add: anthropic_headers_def put_headers_def Header_Set_get)

section \<open>From the header to the wait\<close>


definition busy_client :: "(unit, nat) http_client" where
  "busy_client = \<lparr>hc_check = (\<lambda>_. None),
     hc_do = (\<lambda>q n. (Inr \<lparr>ha_status = 429, ha_headers = (\<lambda>k. if k = ''Retry-After'' then ''7'' else []), ha_body = [], ha_fail = None\<rparr>, Suc n)),
     hc_now = int, hc_readers = \<lparr>hh_float = (\<lambda>s. if s = ''7'' then Some (Finite 7) else None), hh_time = (\<lambda>_. None), hh_convert = (\<lambda>_. 0)\<rparr>\<rparr>"


end
