(* ===== verification/Compat_Documents.thy ===== *)
theory Compat_Documents
  imports Compat_Provider Json_Documents
begin

text \<open>
  The JSON documents of the OpenAI-compatible providers (\<open>llm/compat/types.go\<close>): the request as
  \<open>json.Marshal\<close> writes it, and the responses, errors and chunks as \<open>json.Unmarshal\<close> reads them. With them
  the codec of \<open>Compat_Provider\<close> is one of the code's own types over the reading of JSON text.

  A Go map is its list of entries in the order of its keys, which is the order it is written in.
\<close>

section \<open>Requests\<close>

definition enc_wpart :: "wire_part \<Rightarrow> json" where
  "enc_wpart p = JObj ([(''type'', JStr (wp_type p))] @ omit_str ''text'' (wp_text p) @
     (case wp_image_url p of None \<Rightarrow> [] | Some u \<Rightarrow> [(''image_url'', JObj [(''url'', JStr u)])]) @
     (case wp_input_audio p of None \<Rightarrow> [] | Some (d, f) \<Rightarrow> [(''input_audio'', JObj [(''data'', JStr d), (''format'', JStr f)])]) @
     (case wp_file p of None \<Rightarrow> [] | Some (n, d) \<Rightarrow> [(''file'', JObj (omit_str ''filename'' n @ [(''file_data'', JStr d)]))]))"

fun enc_wcontent :: "wire_content \<Rightarrow> json" where
  "enc_wcontent (WText s) = JStr s"
| "enc_wcontent (WParts ps) = JArr (map enc_wpart ps)"

definition enc_function :: "string \<Rightarrow> string \<Rightarrow> json" where
  "enc_function name args = JObj [(''name'', JStr name), (''arguments'', JStr args)]"

definition enc_wcall :: "wire_call \<Rightarrow> json" where
  "enc_wcall c = JObj ([(''id'', JStr (wc_id c)), (''type'', JStr (wc_type c)), (''function'', enc_function (wc_name c) (wc_arguments c))] @
     omit ''metadata'' (wc_metadata c = []) (enc_strmap (wc_metadata c)))"

definition enc_wmessage :: "wire_message \<Rightarrow> json" where
  "enc_wmessage m = JObj ([(''role'', JStr (wm_role m)), (''content'', enc_wcontent (wm_content m))] @
     omit_str ''tool_call_id'' (wm_tool_call_id m) @ omit ''tool_calls'' (wm_tool_calls m = []) (JArr (map enc_wcall (wm_tool_calls m))))"

definition enc_function_def :: "tool_definition \<Rightarrow> json option" where
  "enc_function_def t = map_option (\<lambda>p. JObj [(''name'', JStr (td_name t)), (''description'', JStr (td_description t)), (''parameters'', p)])
     (enc_raw (td_parameters t))"

text \<open>An entry of \<open>tools\<close>, as \<open>convertTools\<close> makes it.\<close>

definition enc_tool :: "tool_definition \<Rightarrow> json option" where
  "enc_tool t = map_option (\<lambda>f. JObj [(''type'', JStr ''function''), (''function'', f)]) (enc_function_def t)"

fun enc_tool_choice :: "wire_choice_mode \<Rightarrow> json" where
  "enc_tool_choice (ChoiceMode s) = JStr s"
| "enc_tool_choice (ChoiceFunction n) = JObj [(''type'', JStr ''function''), (''function'', JObj [(''name'', JStr n)])]"

fun enc_format :: "wire_format \<Rightarrow> json option" where
  "enc_format FormatObject = Some (JObj [(''type'', JStr ''json_object'')])"
| "enc_format (FormatSchema raw) = map_option (\<lambda>s. JObj [(''type'', JStr ''json_schema''),
     (''json_schema'', JObj [(''name'', JStr ''response''), (''schema'', s), (''strict'', JBool True)])]) (enc_raw raw)"

definition opt_field :: "string \<Rightarrow> ('a \<Rightarrow> json) \<Rightarrow> 'a option \<Rightarrow> (string \<times> json) list" where
  "opt_field k f x = (case x of None \<Rightarrow> [] | Some v \<Rightarrow> [(k, f v)])"

definition wire_fields :: "wire_request \<Rightarrow> json list \<Rightarrow> json option \<Rightarrow> (string \<times> json) list" where
  "wire_fields r tools fmt =
     [(''model'', JStr (wq_model r)), (''messages'', JArr (map enc_wmessage (wq_messages r)))] @
     opt_field ''temperature'' JNum (wq_temperature r) @ opt_field ''max_tokens'' enc_int (wq_max_tokens r) @
     opt_field ''top_p'' JNum (wq_top_p r) @ opt_field ''frequency_penalty'' JNum (wq_freq_penalty r) @
     opt_field ''presence_penalty'' JNum (wq_pres_penalty r) @ omit ''stop'' (wq_stop r = []) (enc_strs (wq_stop r)) @
     opt_field ''seed'' enc_int (wq_seed r) @ [(''stream'', JBool (wq_stream r))] @ omit ''tools'' (tools = []) (JArr tools) @
     opt_field ''tool_choice'' enc_tool_choice (wq_tool_choice r) @ opt_field ''response_format'' (\<lambda>j. j) fmt @
     opt_field ''reasoning'' (\<lambda>e. JObj [(''effort'', JStr e)]) (wq_reasoning r) @ omit_str ''reasoning_effort'' (wq_reasoning_effort r) @
     (if wq_web_search r then [(''web_search_options'', JObj [])] else [])"

text \<open>\<open>json.Marshal\<close> fails on raw JSON that is none.\<close>

definition enc_wire :: "wire_request \<Rightarrow> json option" where
  "enc_wire r = do {
     tools \<leftarrow> dec_all enc_tool (wq_tools r);
     fmt \<leftarrow> (case wq_format r of None \<Rightarrow> Some None | Some f \<Rightarrow> map_option Some (enc_format f));
     Some (JObj (wire_fields r tools fmt)) }"

section \<open>Responses\<close>

definition dec_entry :: "string \<times> json \<Rightarrow> (string \<times> string) option" where
  "dec_entry kv = map_option (Pair (fst kv)) (dec_str (snd kv))"

fun dec_strmap :: "json \<Rightarrow> (string \<times> string) list option" where
  "dec_strmap JNull = Some []"
| "dec_strmap (JObj kvs) = dec_all dec_entry kvs"
| "dec_strmap _ = None"

definition dec_function :: "json \<Rightarrow> (string \<times> string) option" where
  "dec_function = dec_obj (\<lambda>kv. do { n \<leftarrow> dec_str (member ''name'' kv); a \<leftarrow> dec_str (member ''arguments'' kv); Some (n, a) })"

definition dec_wcall :: "json \<Rightarrow> wire_call option" where
  "dec_wcall = dec_obj (\<lambda>kv. do { i \<leftarrow> dec_str (member ''id'' kv); t \<leftarrow> dec_str (member ''type'' kv);
     f \<leftarrow> dec_function (member ''function'' kv); m \<leftarrow> dec_strmap (member ''metadata'' kv);
     Some \<lparr>wc_id = i, wc_type = t, wc_name = fst f, wc_arguments = snd f, wc_metadata = m\<rparr> })"

definition dec_url_citation :: "json \<Rightarrow> (string \<times> string \<times> int \<times> int) option" where
  "dec_url_citation = dec_obj (\<lambda>kv. do { u \<leftarrow> dec_str (member ''url'' kv); t \<leftarrow> dec_str (member ''title'' kv);
     s \<leftarrow> dec_int (member ''start_index'' kv); e \<leftarrow> dec_int (member ''end_index'' kv); Some (u, t, s, e) })"

definition dec_annotation :: "json \<Rightarrow> wire_annotation option" where
  "dec_annotation = dec_obj (\<lambda>kv. do { t \<leftarrow> dec_str (member ''type'' kv); c \<leftarrow> dec_ptr dec_url_citation (member ''url_citation'' kv);
     Some \<lparr>wa_type = t, wa_url_citation = c\<rparr> })"

definition dec_count :: "string \<Rightarrow> json \<Rightarrow> int option" where
  "dec_count k = dec_obj (\<lambda>kv. dec_int (member k kv))"

definition dec_wusage :: "json \<Rightarrow> wire_usage option" where
  "dec_wusage = dec_obj (\<lambda>kv. do { p \<leftarrow> dec_int (member ''prompt_tokens'' kv); c \<leftarrow> dec_int (member ''completion_tokens'' kv);
     t \<leftarrow> dec_int (member ''total_tokens'' kv); pd \<leftarrow> dec_ptr (dec_count ''cached_tokens'') (member ''prompt_tokens_details'' kv);
     cd \<leftarrow> dec_ptr (dec_count ''reasoning_tokens'') (member ''completion_tokens_details'' kv);
     Some \<lparr>wu_prompt = p, wu_completion = c, wu_total = t, wu_cached = pd, wu_reasoning = cd\<rparr> })"

text \<open>A choice: its message and its finish reason. The role is read, and must be text, but not used.\<close>

definition dec_choice_message :: "json \<Rightarrow> wire_choice option" where
  "dec_choice_message = dec_obj (\<lambda>kv. do { r \<leftarrow> dec_str (member ''role'' kv); c \<leftarrow> dec_str (member ''content'' kv);
     ts \<leftarrow> dec_list dec_wcall (member ''tool_calls'' kv); rc \<leftarrow> dec_str (member ''reasoning_content'' kv);
     re \<leftarrow> dec_str (member ''reasoning'' kv); as \<leftarrow> dec_list dec_annotation (member ''annotations'' kv);
     Some \<lparr>ch_content = c, ch_tool_calls = ts, ch_reasoning_content = rc, ch_reasoning = re, ch_annotations = as, ch_finish = []\<rparr> })"

definition dec_choice :: "json \<Rightarrow> wire_choice option" where
  "dec_choice = dec_obj (\<lambda>kv. do { m \<leftarrow> dec_choice_message (member ''message'' kv); f \<leftarrow> dec_str (member ''finish_reason'' kv);
     Some (m\<lparr>ch_finish := f\<rparr>) })"

definition dec_wire_response :: "json \<Rightarrow> wire_response option" where
  "dec_wire_response = dec_obj (\<lambda>kv. do { i \<leftarrow> dec_str (member ''id'' kv); m \<leftarrow> dec_str (member ''model'' kv);
     cs \<leftarrow> dec_list dec_choice (member ''choices'' kv); u \<leftarrow> dec_wusage (member ''usage'' kv);
     ci \<leftarrow> dec_list dec_str (member ''citations'' kv);
     Some \<lparr>wr_model = m, wr_choices = cs, wr_usage = u, wr_citations = ci\<rparr> })"

definition dec_error :: "json \<Rightarrow> string option" where
  "dec_error = dec_obj (\<lambda>kv. dec_obj (\<lambda>e. do { m \<leftarrow> dec_str (member ''message'' e); t \<leftarrow> dec_str (member ''type'' e);
     c \<leftarrow> dec_str (member ''code'' e); Some m }) (member ''error'' kv))"

section \<open>Chunks\<close>

definition dec_stream_call :: "json \<Rightarrow> stream_call option" where
  "dec_stream_call = dec_obj (\<lambda>kv. do { n \<leftarrow> dec_int (member ''index'' kv); i \<leftarrow> dec_str (member ''id'' kv);
     f \<leftarrow> dec_function (member ''function'' kv); m \<leftarrow> dec_strmap (member ''metadata'' kv);
     Some \<lparr>sc_index = n, sc_id = i, sc_name = fst f, sc_arguments = snd f, sc_metadata = m\<rparr> })"

definition dec_delta :: "json \<Rightarrow> stream_choice option" where
  "dec_delta = dec_obj (\<lambda>kv. do { c \<leftarrow> dec_str (member ''content'' kv); ts \<leftarrow> dec_list dec_stream_call (member ''tool_calls'' kv);
     rc \<leftarrow> dec_str (member ''reasoning_content'' kv); re \<leftarrow> dec_str (member ''reasoning'' kv);
     Some \<lparr>sd_content = c, sd_tool_calls = ts, sd_reasoning_content = rc, sd_reasoning = re, sd_finish = []\<rparr> })"

definition dec_stream_choice :: "json \<Rightarrow> stream_choice option" where
  "dec_stream_choice = dec_obj (\<lambda>kv. do { d \<leftarrow> dec_delta (member ''delta'' kv); f \<leftarrow> dec_str (member ''finish_reason'' kv);
     Some (d\<lparr>sd_finish := f\<rparr>) })"

definition dec_chunk :: "json \<Rightarrow> stream_chunk option" where
  "dec_chunk = dec_obj (\<lambda>kv. do { cs \<leftarrow> dec_list dec_stream_choice (member ''choices'' kv); u \<leftarrow> dec_ptr dec_wusage (member ''usage'' kv);
     Some \<lparr>sk_choices = cs, sk_usage = u\<rparr> })"

text \<open>The codec of the provider over the reading of JSON text.\<close>

definition wire_codec :: "(string \<Rightarrow> go_error + json) \<Rightarrow> compat_codec" where
  "wire_codec parse = \<lparr>cd_response = read_body parse dec_wire_response, cd_chunk = read_body parse dec_chunk,
     cd_error = (\<lambda>s. case read_body parse dec_error s of Inl _ \<Rightarrow> None | Inr m \<Rightarrow> Some m)\<rparr>"

section \<open>The other end\<close>

text \<open>How a server reads a request document and writes a response document, field by field as the types have them.\<close>

definition read_image :: "json \<Rightarrow> string option" where
  "read_image = dec_obj (\<lambda>kv. dec_str (member ''url'' kv))"

definition read_two :: "string \<Rightarrow> string \<Rightarrow> json \<Rightarrow> (string \<times> string) option" where
  "read_two k l = dec_obj (\<lambda>kv. do { a \<leftarrow> dec_str (member k kv); b \<leftarrow> dec_str (member l kv); Some (a, b) })"

definition read_part :: "json \<Rightarrow> wire_part option" where
  "read_part = dec_obj (\<lambda>kv. do { t \<leftarrow> dec_str (member ''type'' kv); x \<leftarrow> dec_str (member ''text'' kv);
     i \<leftarrow> dec_ptr read_image (member ''image_url'' kv); a \<leftarrow> dec_ptr (read_two ''data'' ''format'') (member ''input_audio'' kv);
     f \<leftarrow> dec_ptr (read_two ''filename'' ''file_data'') (member ''file'' kv);
     Some \<lparr>wp_type = t, wp_text = x, wp_image_url = i, wp_input_audio = a, wp_file = f\<rparr> })"

fun read_content :: "json \<Rightarrow> wire_content option" where
  "read_content (JStr s) = Some (WText s)"
| "read_content (JArr js) = map_option WParts (dec_all read_part js)"
| "read_content _ = None"

definition read_message :: "json \<Rightarrow> wire_message option" where
  "read_message = dec_obj (\<lambda>kv. do { r \<leftarrow> dec_str (member ''role'' kv); c \<leftarrow> read_content (member ''content'' kv);
     i \<leftarrow> dec_str (member ''tool_call_id'' kv); ts \<leftarrow> dec_list dec_wcall (member ''tool_calls'' kv);
     Some \<lparr>wm_role = r, wm_content = c, wm_tool_call_id = i, wm_tool_calls = ts\<rparr> })"

definition read_tool :: "json \<Rightarrow> tool_definition option" where
  "read_tool = dec_obj (\<lambda>kv. dec_obj (\<lambda>f. do { n \<leftarrow> dec_str (member ''name'' f); d \<leftarrow> dec_str (member ''description'' f);
     Some \<lparr>td_name = n, td_description = d, td_parameters = RawJson (member ''parameters'' f)\<rparr> }) (member ''function'' kv))"

fun read_tool_choice :: "json \<Rightarrow> wire_choice_mode option" where
  "read_tool_choice (JStr s) = Some (ChoiceMode s)"
| "read_tool_choice (JObj kv) = dec_obj (\<lambda>f. map_option ChoiceFunction (dec_str (member ''name'' f))) (member ''function'' kv)"
| "read_tool_choice _ = None"

definition read_format :: "json \<Rightarrow> wire_format option" where
  "read_format = dec_obj (\<lambda>kv. do { t \<leftarrow> dec_str (member ''type'' kv);
     if t = ''json_schema'' then dec_obj (\<lambda>s. Some (FormatSchema (RawJson (member ''schema'' s)))) (member ''json_schema'' kv)
     else Some FormatObject })"

fun read_num :: "json \<Rightarrow> rat option" where
  "read_num (JNum r) = Some r"
| "read_num _ = None"

definition read_effort :: "json \<Rightarrow> string option" where
  "read_effort = dec_obj (\<lambda>kv. dec_str (member ''effort'' kv))"

definition read_request :: "json \<Rightarrow> wire_request option" where
  "read_request = dec_obj (\<lambda>kv. do {
     mo \<leftarrow> dec_str (member ''model'' kv); ms \<leftarrow> dec_list read_message (member ''messages'' kv);
     te \<leftarrow> dec_ptr read_num (member ''temperature'' kv); mt \<leftarrow> dec_ptr dec_int (member ''max_tokens'' kv);
     tp \<leftarrow> dec_ptr read_num (member ''top_p'' kv); fp \<leftarrow> dec_ptr read_num (member ''frequency_penalty'' kv);
     pp \<leftarrow> dec_ptr read_num (member ''presence_penalty'' kv); st \<leftarrow> dec_list dec_str (member ''stop'' kv);
     se \<leftarrow> dec_ptr dec_int (member ''seed'' kv); sm \<leftarrow> dec_bool (member ''stream'' kv);
     ts \<leftarrow> dec_list read_tool (member ''tools'' kv); tc \<leftarrow> dec_ptr read_tool_choice (member ''tool_choice'' kv);
     fo \<leftarrow> dec_ptr read_format (member ''response_format'' kv); re \<leftarrow> dec_ptr read_effort (member ''reasoning'' kv);
     ef \<leftarrow> dec_str (member ''reasoning_effort'' kv);
     Some \<lparr>wq_model = mo, wq_messages = ms, wq_temperature = te, wq_max_tokens = mt, wq_top_p = tp, wq_freq_penalty = fp,
       wq_pres_penalty = pp, wq_stop = st, wq_seed = se, wq_stream = sm, wq_tools = ts, wq_tool_choice = tc, wq_format = fo,
       wq_reasoning = re, wq_reasoning_effort = ef, wq_web_search = (member ''web_search_options'' kv \<noteq> JNull)\<rparr> })"

definition write_usage :: "wire_usage \<Rightarrow> json" where
  "write_usage u = JObj ([(''prompt_tokens'', enc_int (wu_prompt u)), (''completion_tokens'', enc_int (wu_completion u)),
     (''total_tokens'', enc_int (wu_total u))] @
     opt_field ''prompt_tokens_details'' (\<lambda>n. JObj [(''cached_tokens'', enc_int n)]) (wu_cached u) @
     opt_field ''completion_tokens_details'' (\<lambda>n. JObj [(''reasoning_tokens'', enc_int n)]) (wu_reasoning u))"

definition write_annotation :: "wire_annotation \<Rightarrow> json" where
  "write_annotation a = JObj ([(''type'', JStr (wa_type a))] @
     opt_field ''url_citation'' (\<lambda>(u, t, s, e). JObj [(''url'', JStr u), (''title'', JStr t), (''start_index'', enc_int s), (''end_index'', enc_int e)])
       (wa_url_citation a))"

definition write_choice :: "wire_choice \<Rightarrow> json" where
  "write_choice c = JObj [(''message'', JObj ([(''role'', JStr ''assistant''), (''content'', JStr (ch_content c))] @
       omit ''tool_calls'' (ch_tool_calls c = []) (JArr (map enc_wcall (ch_tool_calls c))) @
       omit_str ''reasoning_content'' (ch_reasoning_content c) @ omit_str ''reasoning'' (ch_reasoning c) @
       omit ''annotations'' (ch_annotations c = []) (JArr (map write_annotation (ch_annotations c))))),
     (''finish_reason'', JStr (ch_finish c))]"

definition write_response :: "wire_response \<Rightarrow> json" where
  "write_response r = JObj ([(''id'', JStr ''r''), (''model'', JStr (wr_model r)), (''choices'', JArr (map write_choice (wr_choices r))),
     (''usage'', write_usage (wr_usage r))] @ omit ''citations'' (wr_citations r = []) (enc_strs (wr_citations r)))"

section \<open>What is written is read\<close>

lemma compat_names [simp]:
  "ToLower ''annotations'' = ''annotations''" "ToLower ''arguments'' = ''arguments''" "ToLower ''cached_tokens'' = ''cached_tokens''"
  "ToLower ''choices'' = ''choices''" "ToLower ''citations'' = ''citations''" "ToLower ''code'' = ''code''"
  "ToLower ''completion_tokens'' = ''completion_tokens''" "ToLower ''completion_tokens_details'' = ''completion_tokens_details''"
  "ToLower ''content'' = ''content''" "ToLower ''data'' = ''data''" "ToLower ''delta'' = ''delta''"
  "ToLower ''description'' = ''description''" "ToLower ''effort'' = ''effort''" "ToLower ''end_index'' = ''end_index''"
  "ToLower ''error'' = ''error''" "ToLower ''file'' = ''file''" "ToLower ''file_data'' = ''file_data''"
  "ToLower ''filename'' = ''filename''" "ToLower ''finish_reason'' = ''finish_reason''" "ToLower ''format'' = ''format''"
  "ToLower ''frequency_penalty'' = ''frequency_penalty''" "ToLower ''function'' = ''function''" "ToLower ''id'' = ''id''"
  "ToLower ''image_url'' = ''image_url''" "ToLower ''index'' = ''index''" "ToLower ''input_audio'' = ''input_audio''"
  "ToLower ''json_schema'' = ''json_schema''" "ToLower ''max_tokens'' = ''max_tokens''" "ToLower ''message'' = ''message''"
  "ToLower ''messages'' = ''messages''" "ToLower ''metadata'' = ''metadata''" "ToLower ''model'' = ''model''"
  "ToLower ''name'' = ''name''" "ToLower ''parameters'' = ''parameters''" "ToLower ''presence_penalty'' = ''presence_penalty''"
  "ToLower ''prompt_tokens'' = ''prompt_tokens''" "ToLower ''prompt_tokens_details'' = ''prompt_tokens_details''"
  "ToLower ''reasoning'' = ''reasoning''" "ToLower ''reasoning_content'' = ''reasoning_content''"
  "ToLower ''reasoning_effort'' = ''reasoning_effort''" "ToLower ''reasoning_tokens'' = ''reasoning_tokens''"
  "ToLower ''response_format'' = ''response_format''" "ToLower ''role'' = ''role''" "ToLower ''schema'' = ''schema''"
  "ToLower ''seed'' = ''seed''" "ToLower ''start_index'' = ''start_index''" "ToLower ''stop'' = ''stop''" "ToLower ''stream'' = ''stream''"
  "ToLower ''strict'' = ''strict''" "ToLower ''temperature'' = ''temperature''" "ToLower ''text'' = ''text''" "ToLower ''title'' = ''title''"
  "ToLower ''tool_call_id'' = ''tool_call_id''" "ToLower ''tool_calls'' = ''tool_calls''" "ToLower ''tool_choice'' = ''tool_choice''"
  "ToLower ''tools'' = ''tools''" "ToLower ''top_p'' = ''top_p''" "ToLower ''total_tokens'' = ''total_tokens''" "ToLower ''type'' = ''type''"
  "ToLower ''url'' = ''url''" "ToLower ''url_citation'' = ''url_citation''" "ToLower ''usage'' = ''usage''"
  "ToLower ''web_search_options'' = ''web_search_options''"
  by (simp_all add: ToLower_def ascii_lower_def)

lemma member_opt_field [simp]:
  "member k (opt_field x f v) = (if ToLower x = ToLower k then case v of None \<Rightarrow> JNull | Some a \<Rightarrow> f a else JNull)"
  by (auto simp: opt_field_def member_Cons split: option.split)

lemma read_tool_choice_enc: "read_tool_choice (enc_tool_choice c) = Some c" "enc_tool_choice c \<noteq> JNull"
  by (cases c; simp add: documents)+

lemma function_round_trip: "dec_function (enc_function n a) = Some (n, a)" "enc_function n a \<noteq> JNull"
  by (simp_all add: dec_function_def enc_function_def documents)

lemma strmap_round_trip: "sorted (map fst m) \<Longrightarrow> dec_strmap (enc_strmap m) = Some m"
  by (simp add: enc_strmap_def sort_key_id_if_sorted) (rule dec_all_map [where g = "\<lambda>(k, v). (k, JStr v)"], auto simp: dec_entry_def)

definition call_ordered :: "wire_call \<Rightarrow> bool" where
  "call_ordered c \<longleftrightarrow> sorted (map fst (wc_metadata c))"

lemma wcall_round_trip: "call_ordered c \<Longrightarrow> dec_wcall (enc_wcall c) = Some c"
  by (simp add: dec_wcall_def enc_wcall_def documents function_round_trip strmap_round_trip call_ordered_def)

lemma part_read: "read_part (enc_wpart p) = Some p"
  by (cases "wp_image_url p"; cases "wp_input_audio p"; cases "wp_file p")
    (auto simp: read_part_def enc_wpart_def documents read_image_def read_two_def)

lemma content_read: "read_content (enc_wcontent c) = Some c" "enc_wcontent c \<noteq> JNull"
  by (cases c; simp add: dec_all_map part_read)+

lemma message_read: "list_all call_ordered (wm_tool_calls m) \<Longrightarrow> read_message (enc_wmessage m) = Some m"
  by (simp add: read_message_def enc_wmessage_def documents content_read dec_all_map wcall_round_trip list_all_iff)

fun is_json :: "raw_json \<Rightarrow> bool" where
  "is_json (RawJson j) = True"
| "is_json _ = False"

lemma tool_read: "is_json (td_parameters t) \<Longrightarrow> \<exists>j. enc_tool t = Some j \<and> read_tool j = Some t"
  by (cases "td_parameters t") (simp_all add: enc_tool_def enc_function_def_def read_tool_def documents)

lemma tools_read:
  "list_all (\<lambda>t. is_json (td_parameters t)) ts \<Longrightarrow> \<exists>js. dec_all enc_tool ts = Some js \<and> dec_all read_tool js = Some ts \<and> (js = [] \<longleftrightarrow> ts = [])"
proof (induction ts)
  case (Cons t ts)
  then obtain j js where "enc_tool t = Some j" "read_tool j = Some t" "dec_all enc_tool ts = Some js" "dec_all read_tool js = Some ts"
    using tool_read [of t] by auto
  then show ?case by (intro exI [of _ "j # js"]) simp
qed simp

fun format_ok :: "wire_format \<Rightarrow> bool" where
  "format_ok FormatObject = True"
| "format_ok (FormatSchema raw) = is_json raw"

lemma format_read: "format_ok f \<Longrightarrow> \<exists>j. enc_format f = Some j \<and> read_format j = Some f \<and> j \<noteq> JNull"
  by (cases f rule: format_ok.cases; simp)
    (auto simp: read_format_def documents elim!: is_json.elims)

text \<open>Raw JSON is JSON, and the metadata of a call is in the order of its keys.\<close>

definition wire_ok :: "wire_request \<Rightarrow> bool" where
  "wire_ok r \<longleftrightarrow> list_all (\<lambda>m. list_all call_ordered (wm_tool_calls m)) (wq_messages r) \<and>
     list_all (\<lambda>t. is_json (td_parameters t)) (wq_tools r) \<and> (case wq_format r of None \<Rightarrow> True | Some f \<Rightarrow> format_ok f)"

lemma fields_read:
  assumes "list_all (\<lambda>m. list_all call_ordered (wm_tool_calls m)) (wq_messages r)"
    and "dec_all read_tool js = Some (wq_tools r)" "js = [] \<longleftrightarrow> wq_tools r = []"
    and "case wq_format r of None \<Rightarrow> fmt = None | Some f \<Rightarrow> \<exists>j. fmt = Some j \<and> read_format j = Some f \<and> j \<noteq> JNull"
  shows "read_request (JObj (wire_fields r js fmt)) = Some r"
proof -
  have ms: "dec_all read_message (map enc_wmessage (wq_messages r)) = Some (wq_messages r)"
    using assms(1) by (intro dec_all_map) (simp add: message_read list_all_iff)
  have st: "dec_all dec_str (map JStr (wq_stop r)) = Some (wq_stop r)" by (intro dec_all_map) simp
  have tools: "dec_list read_tool (if js \<noteq> [] then JArr js else JNull) = Some (wq_tools r)" using assms(2,3) by simp
  have ef: "dec_ptr read_effort (case wq_reasoning r of None \<Rightarrow> JNull | Some e \<Rightarrow> JObj [(''effort'', JStr e)]) = Some (wq_reasoning r)"
    by (cases "wq_reasoning r") (simp_all add: dec_ptr_def read_effort_def documents)
  have fo: "dec_ptr read_format (case fmt of None \<Rightarrow> JNull | Some j \<Rightarrow> j) = Some (wq_format r)"
    using assms(4) by (cases "wq_format r") (auto simp: dec_ptr_def)
  have tc: "dec_ptr read_tool_choice (case wq_tool_choice r of None \<Rightarrow> JNull | Some c \<Rightarrow> enc_tool_choice c) = Some (wq_tool_choice r)"
    by (cases "wq_tool_choice r") (simp_all add: dec_ptr_def read_tool_choice_enc)
  have num: "dec_ptr read_num (case x of None \<Rightarrow> JNull | Some a \<Rightarrow> JNum a) = Some x" for x
    by (cases x) (simp_all add: dec_ptr_def)
  have int: "dec_ptr dec_int (case x of None \<Rightarrow> JNull | Some a \<Rightarrow> enc_int a) = Some x" for x
    by (cases x) (simp_all add: dec_ptr_def)
  show ?thesis
    unfolding read_request_def wire_fields_def
    by (simp add: member_append member_Cons enc_strs_def ms st tools ef fo tc num int)
qed

lemma request_read:
  assumes "wire_ok r"
  shows "\<exists>j. enc_wire r = Some j \<and> read_request j = Some r"
proof -
  from assms obtain js where js: "dec_all enc_tool (wq_tools r) = Some js" "dec_all read_tool js = Some (wq_tools r)" "js = [] \<longleftrightarrow> wq_tools r = []"
    using tools_read [of "wq_tools r"] by (auto simp: wire_ok_def)
  have "\<exists>fmt. (case wq_format r of None \<Rightarrow> Some None | Some f \<Rightarrow> map_option Some (enc_format f)) = Some fmt \<and>
      (case wq_format r of None \<Rightarrow> fmt = None | Some f \<Rightarrow> \<exists>j. fmt = Some j \<and> read_format j = Some f \<and> j \<noteq> JNull)"
    using assms format_read by (cases "wq_format r") (fastforce simp: wire_ok_def)+
  then obtain fmt where "(case wq_format r of None \<Rightarrow> Some None | Some f \<Rightarrow> map_option Some (enc_format f)) = Some fmt"
    and f: "case wq_format r of None \<Rightarrow> fmt = None | Some f \<Rightarrow> \<exists>j. fmt = Some j \<and> read_format j = Some f \<and> j \<noteq> JNull"
    by blast
  moreover have "read_request (JObj (wire_fields r js fmt)) = Some r"
    using assms by (intro fields_read js(2,3) f) (simp add: wire_ok_def)
  ultimately show ?thesis using js(1) by (simp add: enc_wire_def)
qed

lemma usage_read: "dec_wusage (write_usage u) = Some u" "write_usage u \<noteq> JNull"
  by (cases "wu_cached u"; cases "wu_reasoning u"; simp add: dec_wusage_def write_usage_def dec_count_def documents)+

lemma annotation_read: "dec_annotation (write_annotation a) = Some a"
  by (cases "wa_url_citation a") (auto simp: dec_annotation_def write_annotation_def dec_url_citation_def documents)

lemma choice_read: "list_all call_ordered (ch_tool_calls c) \<Longrightarrow> dec_choice (write_choice c) = Some c"
  by (simp add: dec_choice_def write_choice_def dec_choice_message_def documents dec_all_map wcall_round_trip annotation_read list_all_iff)

definition response_ok :: "wire_response \<Rightarrow> bool" where
  "response_ok r \<longleftrightarrow> list_all (\<lambda>c. list_all call_ordered (ch_tool_calls c)) (wr_choices r)"

lemma response_read: "response_ok r \<Longrightarrow> dec_wire_response (write_response r) = Some r"
  by (simp add: dec_wire_response_def write_response_def documents dec_all_map choice_read usage_read list_all_iff response_ok_def)

section \<open>A call over JSON\<close>

text \<open>The service as seen by the provider: the body is marshalled, sent, and answered by text.\<close>

definition wire_post :: "(json \<Rightarrow> string) \<Rightarrow> (string \<Rightarrow> 'w \<Rightarrow> (go_error + http_reply) \<times> 'w) \<Rightarrow> (wire_request, 'w) transport" where
  "wire_post write serve r w =
     (case enc_wire r of
        None \<Rightarrow> (Inl (Opaque ''json: error calling MarshalJSON''), w)
      | Some j \<Rightarrow> serve (write j) w)"

text \<open>What a server answers: a response, or a failure with a status, a message and a kind.\<close>

type_synonym 'w compat_server = "wire_request \<Rightarrow> 'w \<Rightarrow> (int \<times> string \<times> string + wire_response) \<times> 'w"

definition write_error :: "string \<Rightarrow> string \<Rightarrow> json" where
  "write_error msg kind = JObj [(''error'', JObj [(''message'', JStr msg), (''type'', JStr kind)])]"

definition answer_json :: "int \<times> string \<times> string + wire_response \<Rightarrow> json" where
  "answer_json a = (case a of Inl (status, msg, kind) \<Rightarrow> write_error msg kind | Inr r \<Rightarrow> write_response r)"

definition answer_status :: "int \<times> string \<times> string + wire_response \<Rightarrow> int" where
  "answer_status a = (case a of Inl (status, msg, kind) \<Rightarrow> status | Inr r \<Rightarrow> 200)"

definition compat_serve :: "(string \<Rightarrow> go_error + json) \<Rightarrow> (json \<Rightarrow> string) \<Rightarrow> 'w compat_server \<Rightarrow> string \<Rightarrow> 'w
    \<Rightarrow> (go_error + http_reply) \<times> 'w" where
  "compat_serve parse write h body w =
     (case (case parse body of Inl _ \<Rightarrow> None | Inr j \<Rightarrow> read_request j) of
        None \<Rightarrow> (Inr \<lparr>hr_status = 400, hr_body = [], hr_fail = None, hr_retry_after = 0\<rparr>, w)
      | Some r \<Rightarrow>
          (case h r w of (a, w') \<Rightarrow>
             (Inr \<lparr>hr_status = answer_status a, hr_body = write (answer_json a), hr_fail = None, hr_retry_after = 0\<rparr>, w')))"

text \<open>Requests whose raw JSON is JSON and whose metadata is in the order of its keys, and answers that are.\<close>

definition request_ok :: "completion_request \<Rightarrow> bool" where
  "request_ok req \<longleftrightarrow> list_all (\<lambda>m. list_all (\<lambda>c. sorted (map fst (tc_metadata c))) (msg_tool_calls m)) (req_messages req) \<and>
     list_all (\<lambda>t. is_json (td_parameters t)) (req_tools req) \<and> (raw_empty (req_output_schema req) \<or> is_json (req_output_schema req))"

definition answer_ok :: "int \<times> string \<times> string + wire_response \<Rightarrow> bool" where
  "answer_ok a = (case a of Inl (status, msg, kind) \<Rightarrow> status \<noteq> 200 \<and> msg \<noteq> [] | Inr r \<Rightarrow> response_ok r)"

lemma enforceStrictSchema_json: "is_json raw \<Longrightarrow> is_json (enforceStrictSchema raw)"
  by (cases raw rule: enforceStrictSchema.cases) simp_all

lemma built_wire_ok:
  assumes "request_ok req" "buildRequestBody cfg req stream = Inr body"
  shows "wire_ok body"
proof -
  have "list_all (\<lambda>m. list_all call_ordered (wm_tool_calls m)) (convertMessages req)"
    using assms(1) by (auto simp: request_ok_def convertMessages_def convert_message_def convert_call_def call_ordered_def list_all_iff)
  then show ?thesis using assms enforceStrictSchema_json [of "req_output_schema req"]
    by (auto simp: buildRequestBody_def Let_def wire_ok_def request_ok_def split: option.splits if_splits)
qed

lemma error_read: "dec_error (write_error msg kind) = Some msg"
  by (simp add: dec_error_def write_error_def documents)

text \<open>
  C7. A completion over an OpenAI-compatible service that speaks the documents of the code's types is
  the server's own answer to the request that was built: what the provider marshals the server
  reads back whole, a response arrives with its text, reasoning, tool calls, citations and
  usage, and a failure as an \<open>APIError\<close> with its status and message.
\<close>

theorem compat_call_transparent:
  assumes "request_ok req" "\<And>b v. answer_ok (fst (h b v))"
    and "\<And>b j. buildRequestBody cfg req False = Inr b \<Longrightarrow> enc_wire b = Some j \<Longrightarrow> parse (write j) = Inr j"
    and "\<And>b v. parse (write (answer_json (fst (h b v)))) = Inr (answer_json (fst (h b v)))"
  shows "compat_Complete cfg (wire_codec parse) (wire_post write (compat_serve parse write h)) req w =
    (case buildRequestBody cfg req False of
       Inl e \<Rightarrow> (Inl e, w)
     | Inr body \<Rightarrow>
         (case h body w of
            (Inr r, w') \<Rightarrow> (Inr (parseResponse r), w')
          | (Inl (status, msg, kind), w') \<Rightarrow>
              (Inl (APIErr \<lparr>ae_status = status, ae_message = msg, ae_provider = cc_name cfg, ae_retry_after = 0\<rparr>), w')))"
proof (cases "buildRequestBody cfg req False")
  case (Inr body)
  obtain j where j: "enc_wire body = Some j" "read_request j = Some body"
    using request_read [OF built_wire_ok [OF assms(1) Inr]] by blast
  have parsed: "parse (write j) = Inr j" by (rule assms(3) [OF Inr j(1)])
  obtain a w' where h: "h body w = (a, w')" by (cases "h body w")
  have ok: "answer_ok a" and answered: "parse (write (answer_json a)) = Inr (answer_json a)"
    using assms(2,4) [of body w] h by simp_all
  show ?thesis
  proof (cases a)
    case (Inl f)
    obtain status msg kind where f: "f = (status, msg, kind)" by (cases f)
    obtain c m where m: "msg = c # m" using ok Inl f by (cases msg) (simp_all add: answer_ok_def)
    show ?thesis using Inr h j parsed answered Inl f m ok
      by (simp add: compat_Complete_def doRequest_def send_request_def wire_post_def compat_serve_def api_failure_def answer_ok_def
          answer_status_def answer_json_def wire_codec_def read_body_def error_read)
  next
    case (Inr r)
    show ?thesis using \<open>buildRequestBody cfg req False = Inr body\<close> h j parsed answered Inr ok
      by (simp add: compat_Complete_def doRequest_def send_request_def wire_post_def compat_serve_def answer_ok_def
          answer_status_def answer_json_def wire_codec_def read_body_def response_read)
  qed
qed (simp add: compat_Complete_def)

text \<open>
  The type of an error document asks for text as its \<open>code\<close>. A service that sends a number there (as some do)
  has its message dropped: the whole document fails to be read and the status takes its place.
\<close>

lemma numeric_code_hides_message:
  assumes "parse body = Inr (JObj [(''error'', JObj [(''message'', JStr msg), (''code'', JNum 429)])])"
  shows "cd_error (wire_codec parse) body = None"
  using assms by (simp add: wire_codec_def read_body_def dec_error_def documents)

section \<open>A call\<close>

definition ask :: completion_request where
  "ask = zero_request\<lparr>req_model := ''m'', req_system := ''be brief''\<rparr>"

definition asked_json :: json where
  "asked_json = (case buildRequestBody \<lparr>cc_name = ''groq'', cc_style = ReasoningStyleObject\<rparr> ask False of
     Inl _ \<Rightarrow> JNull | Inr b \<Rightarrow> (case enc_wire b of None \<Rightarrow> JNull | Some j \<Rightarrow> j))"

definition reply :: wire_response where
  "reply = \<lparr>wr_model = ''m'', wr_choices = [\<lparr>ch_content = ''hi'', ch_tool_calls = [\<lparr>wc_id = ''1'', wc_type = ''function'', wc_name = ''f'',
       wc_arguments = ''{}'', wc_metadata = [(''a'', ''x''), (''b'', ''y'')]\<rparr>], ch_reasoning_content = [], ch_reasoning = [],
       ch_annotations = [\<lparr>wa_type = ''url_citation'', wa_url_citation = Some (''u'', ''t'', 0, 2)\<rparr>], ch_finish = ''stop''\<rparr>],
     wr_usage = \<lparr>wu_prompt = 3, wu_completion = 1, wu_total = 4, wu_cached = Some 2, wu_reasoning = None\<rparr>, wr_citations = []\<rparr>"

definition write_two :: "json \<Rightarrow> string" where
  "write_two j = (if j = write_response reply then ''a'' else ''q'')"

definition parse_two :: "string \<Rightarrow> go_error + json" where
  "parse_two s = Inr (if s = ''a'' then write_response reply else asked_json)"

lemma asked_other: "asked_json \<noteq> write_response reply"
  by (simp add: asked_json_def write_response_def buildRequestBody_def CheckParts_def positions_def ask_def zero_request_def enc_wire_def wire_fields_def
      Let_def split: option.splits)

theorem compat_call_transparent_witness:
  "compat_Complete \<lparr>cc_name = ''groq'', cc_style = ReasoningStyleObject\<rparr> (wire_codec parse_two)
     (wire_post write_two (compat_serve parse_two write_two (\<lambda>b n. (Inr reply, Suc n)))) ask 0 = (Inr (parseResponse reply), 1)"
proof -
  let ?cfg = "\<lparr>cc_name = ''groq'', cc_style = ReasoningStyleObject\<rparr>"
  have built: "\<exists>b. buildRequestBody ?cfg ask False = Inr b"
    by (simp add: buildRequestBody_def CheckParts_def positions_def ask_def zero_request_def Let_def)
  have "request_ok ask" by (simp add: request_ok_def ask_def zero_request_def)
  moreover have "answer_ok (Inr reply)" by (simp add: answer_ok_def response_ok_def reply_def call_ordered_def)
  moreover have "parse_two (write_two j) = Inr j" if "buildRequestBody ?cfg ask False = Inr b" "enc_wire b = Some j" for b j
  proof -
    from that have "j = asked_json" by (simp add: asked_json_def)
    then show ?thesis using asked_other by (simp add: write_two_def parse_two_def)
  qed
  moreover have "parse_two (write_two (answer_json (Inr reply))) = Inr (answer_json (Inr reply))"
    by (simp add: answer_json_def write_two_def parse_two_def)
  ultimately show ?thesis using built compat_call_transparent [of ask "\<lambda>b n. (Inr reply, Suc n)" ?cfg parse_two write_two 0] by auto
qed

end
