(* ===== verification/Bedrock_Documents.thy ===== *)
theory Bedrock_Documents
  imports Bedrock_Provider Json_Documents
begin

text \<open>
  The JSON documents of the Bedrock provider (\<open>llm/bedrock/types.go\<close>): a request as \<open>json.Marshal\<close> writes it,
  and responses, errors and stream payloads as \<open>json.Unmarshal\<close> reads them, which makes the codec of
  \<open>Bedrock_Provider\<close> one of the code's own types over the reading of JSON text.

  The arguments of a tool call are text on one side and raw JSON on the other. Sent, they must be JSON
  (\<open>parse\<close>), or the request is not written. Received, they are the text as the body spells
  it: \<open>texts body i\<close>, of the input of the \<open>i\<close>-th content block, and empty where there is none.
\<close>

section \<open>Requests\<close>

definition cache_point :: "string \<times> json" where
  "cache_point = (''cachePoint'', JObj [(''type'', JStr ''default'')])"

definition source_bytes :: "string \<Rightarrow> string \<times> json" where
  "source_bytes d = (''source'', JObj [(''bytes'', JStr d)])"

fun enc_b_block :: "(string \<Rightarrow> go_error + json) \<Rightarrow> b_block \<Rightarrow> (string \<times> json) list option" where
  "enc_b_block parse (BText s) = Some (omit_str ''text'' s)"
| "enc_b_block parse (BImage f d) = Some [(''image'', JObj [(''format'', JStr f), source_bytes d])]"
| "enc_b_block parse (BDocument f n d) = Some [(''document'', JObj [(''format'', JStr f), (''name'', JStr n), source_bytes d])]"
| "enc_b_block parse (BToolUse i n args) =
     (case parse args of
        Inl _ \<Rightarrow> None
      | Inr j \<Rightarrow> Some [(''toolUse'', JObj [(''toolUseId'', JStr i), (''name'', JStr n), (''input'', j)])])"
| "enc_b_block parse (BToolResult i c) = Some [(''toolResult'', JObj [(''toolUseId'', JStr i),
     (''content'', JArr [JObj (omit_str ''text'' c)]), (''status'', JStr ''success'')])]"
| "enc_b_block parse BCachePoint = Some [cache_point]"

definition enc_b_message :: "(string \<Rightarrow> go_error + json) \<Rightarrow> b_message \<Rightarrow> json option" where
  "enc_b_message parse m = map_option (\<lambda>bs. JObj [(''role'', JStr (bm_role m)), (''content'', null_list (map JObj bs))])
     (dec_all (enc_b_block parse) (bm_content m))"

fun enc_b_system :: "b_system \<Rightarrow> json" where
  "enc_b_system (BSystem s) = JObj (omit_str ''text'' s)"
| "enc_b_system BSystemCache = JObj [cache_point]"

definition enc_inference :: "b_request \<Rightarrow> json" where
  "enc_inference r = JObj ([(''maxTokens'', enc_int (bq_max_tokens r))] @
     (case bq_temperature r of None \<Rightarrow> [] | Some t \<Rightarrow> [(''temperature'', JNum t)]) @
     (case bq_top_p r of None \<Rightarrow> [] | Some t \<Rightarrow> [(''topP'', JNum t)]) @ omit ''stopSequences'' (bq_stop r = []) (enc_strs (bq_stop r)))"

fun enc_b_tool :: "b_tool_entry \<Rightarrow> json option" where
  "enc_b_tool (BToolSpec n d raw) = map_option (\<lambda>j. JObj [(''toolSpec'',
     JObj ([(''name'', JStr n)] @ omit_str ''description'' d @ [(''inputSchema'', JObj [(''json'', j)])]))]) (enc_raw raw)"
| "enc_b_tool BToolCache = Some (JObj [cache_point])"

fun enc_b_choice :: "b_tool_choice \<Rightarrow> json" where
  "enc_b_choice BAny = JObj [(''any'', JObj [])]"
| "enc_b_choice (BTool n) = JObj [(''tool'', JObj [(''name'', JStr n)])]"

definition enc_tool_config :: "b_tool_entry list \<times> b_tool_choice option \<Rightarrow> json option" where
  "enc_tool_config tc = map_option (\<lambda>ts. JObj ([(''tools'', null_list ts)] @
     (case snd tc of None \<Rightarrow> [] | Some c \<Rightarrow> [(''toolChoice'', enc_b_choice c)]))) (dec_all enc_b_tool (fst tc))"

definition enc_thinking :: "int \<Rightarrow> json" where
  "enc_thinking n = JObj [(''thinking'', JObj [(''type'', JStr ''enabled''), (''budget_tokens'', enc_int n)])]"

definition b_fields :: "b_request \<Rightarrow> json list \<Rightarrow> json option \<Rightarrow> (string \<times> json) list" where
  "b_fields r msgs tc = [(''messages'', null_list msgs)] @
     omit ''system'' (bq_system r = []) (JArr (map enc_b_system (bq_system r))) @ [(''inferenceConfig'', enc_inference r)] @
     (case tc of None \<Rightarrow> [] | Some j \<Rightarrow> [(''toolConfig'', j)]) @
     (case bq_thinking r of None \<Rightarrow> [] | Some n \<Rightarrow> [(''additionalModelRequestFields'', enc_thinking n)])"

definition enc_b_request :: "(string \<Rightarrow> go_error + json) \<Rightarrow> b_request \<Rightarrow> json option" where
  "enc_b_request parse r = do {
     msgs \<leftarrow> dec_all (enc_b_message parse) (bq_messages r);
     tc \<leftarrow> (case bq_tools r of None \<Rightarrow> Some None | Some t \<Rightarrow> map_option Some (enc_tool_config t));
     Some (JObj (b_fields r msgs tc)) }"

section \<open>Responses and stream payloads\<close>

definition dec_b_usage :: "json \<Rightarrow> b_usage option" where
  "dec_b_usage = dec_obj (\<lambda>kv. do { i \<leftarrow> dec_int (member ''inputTokens'' kv); out \<leftarrow> dec_int (member ''outputTokens'' kv);
     t \<leftarrow> dec_int (member ''totalTokens'' kv); r \<leftarrow> dec_int (member ''cacheReadInputTokens'' kv);
     w \<leftarrow> dec_int (member ''cacheWriteInputTokens'' kv);
     Some \<lparr>bu_input = i, bu_output = out, bu_total = t, bu_cache_read = r, bu_cache_write = w\<rparr> })"

definition dec_tool_use :: "json \<Rightarrow> (string \<times> string) option" where
  "dec_tool_use = dec_obj (\<lambda>kv. do { i \<leftarrow> dec_str (member ''toolUseId'' kv); n \<leftarrow> dec_str (member ''name'' kv); Some (i, n) })"

definition dec_reasoning_text :: "json \<Rightarrow> string option" where
  "dec_reasoning_text = dec_obj (\<lambda>kv. do { t \<leftarrow> dec_str (member ''text'' kv); s \<leftarrow> dec_str (member ''signature'' kv); Some t })"

text \<open>A block: its text, the identifier and name of its tool use, and its reasoning, which may be there without text.\<close>

definition dec_b_block :: "string \<Rightarrow> json \<Rightarrow> b_reply_block option" where
  "dec_b_block input = dec_obj (\<lambda>kv. do { t \<leftarrow> dec_str (member ''text'' kv); u \<leftarrow> dec_ptr dec_tool_use (member ''toolUse'' kv);
     r \<leftarrow> dec_ptr (dec_obj (\<lambda>kv. dec_ptr dec_reasoning_text (member ''reasoningText'' kv))) (member ''reasoningContent'' kv);
     Some \<lparr>rb_text = t, rb_tool_use = map_option (\<lambda>(i, n). (i, n, input)) u, rb_reasoning = (case r of None \<Rightarrow> None | Some x \<Rightarrow> x)\<rparr> })"

definition dec_b_message :: "(nat \<Rightarrow> string) \<Rightarrow> json \<Rightarrow> b_reply_block list option" where
  "dec_b_message texts = dec_obj (\<lambda>kv. do { r \<leftarrow> dec_str (member ''role'' kv);
     js \<leftarrow> dec_list Some (member ''content'' kv); dec_all (\<lambda>(i, j). dec_b_block (texts i) j) (enumerate 0 js) })"

definition dec_b_response :: "(nat \<Rightarrow> string) \<Rightarrow> json \<Rightarrow> b_response option" where
  "dec_b_response texts = dec_obj (\<lambda>kv. do {
     bs \<leftarrow> dec_obj (\<lambda>kv. dec_b_message texts (member ''message'' kv)) (member ''output'' kv);
     s \<leftarrow> dec_str (member ''stopReason'' kv); u \<leftarrow> dec_b_usage (member ''usage'' kv);
     Some \<lparr>bs_content = bs, bs_stop_reason = s, bs_usage = u\<rparr> })"

text \<open>The two spellings of an error's message are two fields; other spellings count for the first.\<close>

definition dec_b_error :: "json \<Rightarrow> string option" where
  "dec_b_error = dec_obj (\<lambda>kv. do { m \<leftarrow> dec_str (member ''message'' (filter (\<lambda>(k, v). k \<noteq> ''Message'') kv));
     g \<leftarrow> dec_str (member ''Message'' (filter (\<lambda>(k, v). k = ''Message'') kv)); Some (if m \<noteq> [] then m else g) })"

definition dec_b_start :: "json \<Rightarrow> b_block_start option" where
  "dec_b_start = dec_obj (\<lambda>kv. do { u \<leftarrow> dec_obj (\<lambda>kv. dec_ptr dec_tool_use (member ''toolUse'' kv)) (member ''start'' kv);
     i \<leftarrow> dec_int (member ''contentBlockIndex'' kv); Some \<lparr>bst_index = i, bst_tool = u\<rparr> })"

definition dec_field :: "string \<Rightarrow> json \<Rightarrow> string option" where
  "dec_field k = dec_obj (\<lambda>kv. dec_str (member k kv))"

definition dec_b_delta :: "json \<Rightarrow> b_block_delta option" where
  "dec_b_delta = dec_obj (\<lambda>kv. do {
     (t, u, r) \<leftarrow> dec_obj (\<lambda>kv. do { t \<leftarrow> dec_str (member ''text'' kv); u \<leftarrow> dec_ptr (dec_field ''input'') (member ''toolUse'' kv);
       r \<leftarrow> dec_ptr (dec_field ''text'') (member ''reasoningContent'' kv); Some (t, u, r) }) (member ''delta'' kv);
     i \<leftarrow> dec_int (member ''contentBlockIndex'' kv); Some \<lparr>bdl_index = i, bdl_text = t, bdl_tool = u, bdl_reasoning = r\<rparr> })"

definition dec_metadata :: "json \<Rightarrow> b_usage option" where
  "dec_metadata = dec_obj (\<lambda>kv. dec_b_usage (member ''usage'' kv))"

definition payload_read :: "(string \<Rightarrow> go_error + json) \<Rightarrow> (json \<Rightarrow> 'a option) \<Rightarrow> byte list \<Rightarrow> 'a option" where
  "payload_read parse dec bs = (case read_body parse dec (byte_str bs) of Inl _ \<Rightarrow> None | Inr x \<Rightarrow> Some x)"

definition converse_codec :: "(string \<Rightarrow> go_error + json) \<Rightarrow> (string \<Rightarrow> nat \<Rightarrow> string) \<Rightarrow> bedrock_codec" where
  "converse_codec parse texts =
     \<lparr>bj_response = (\<lambda>s. read_body parse (dec_b_response (texts s)) s),
      bj_error = (\<lambda>s. case read_body parse dec_b_error s of Inl _ \<Rightarrow> None | Inr m \<Rightarrow> if m = [] then None else Some m),
      bj_start = payload_read parse dec_b_start, bj_delta = payload_read parse dec_b_delta,
      bj_metadata = payload_read parse dec_metadata,
      bj_exception = (\<lambda>bs. case payload_read parse (dec_field ''message'') bs of None \<Rightarrow> [] | Some m \<Rightarrow> m)\<rparr>"

section \<open>What is sent\<close>

text \<open>
  Converse takes blocks with exactly one field. Every block the provider writes is one, but for
  empty text: a message or a part without any is written as a block without fields, and an assistant turn
  with neither text nor calls as a message whose content is \<open>null\<close>.
\<close>

lemma b_block_one_field: "enc_b_block parse b = Some kvs \<Longrightarrow> length kvs = 1 \<longleftrightarrow> b \<noteq> BText []"
  by (cases b) (auto simp: omit_str_def omit_def split: sum.splits)

lemma empty_message_no_field:
  "map (enc_b_message parse) (b_convert_message (zero_msg\<lparr>msg_role := ''user''\<rparr>)) =
     [Some (JObj [(''role'', JStr ''user''), (''content'', JArr [JObj []])])]"
  by (simp add: b_convert_message_def b_convertContentParts_def zero_msg_def enc_b_message_def null_list_def omit_str_def omit_def)

lemma empty_turn_null_content:
  "map (enc_b_message parse) (b_convert_message (zero_msg\<lparr>msg_role := ''assistant''\<rparr>)) =
     [Some (JObj [(''role'', JStr ''assistant''), (''content'', JNull)])]"
  by (simp add: b_convert_message_def zero_msg_def enc_b_message_def null_list_def)

lemma dec_all_None: "dec_all f xs = None \<longleftrightarrow> (\<exists>x\<in>set xs. f x = None)"
  by (induction xs) (auto split: option.splits)

text \<open>A turn whose calls have arguments that are not JSON, cut off by a token limit say, cannot be sent again.\<close>

lemma bad_arguments_not_written:
  assumes "m \<in> set (bq_messages r)" "BToolUse i n args \<in> set (bm_content m)" "parse args = Inl e"
  shows "enc_b_request parse r = None"
proof -
  have "enc_b_block parse (BToolUse i n args) = None" using assms(3) by simp
  then have "enc_b_message parse m = None" using assms(2) by (simp add: enc_b_message_def dec_all_None del: enc_b_block.simps) blast
  then have "dec_all (enc_b_message parse) (bq_messages r) = None" using assms(1) by (auto simp: dec_all_None)
  then show ?thesis by (simp add: enc_b_request_def)
qed

section \<open>The other end\<close>

definition write_b_usage :: "b_usage \<Rightarrow> json" where
  "write_b_usage u = JObj ([(''inputTokens'', enc_int (bu_input u)), (''outputTokens'', enc_int (bu_output u)), (''totalTokens'', enc_int (bu_total u))] @
     omit ''cacheReadInputTokens'' (bu_cache_read u = 0) (enc_int (bu_cache_read u)) @
     omit ''cacheWriteInputTokens'' (bu_cache_write u = 0) (enc_int (bu_cache_write u)))"

definition write_b_block :: "(string \<Rightarrow> json) \<Rightarrow> b_reply_block \<Rightarrow> json" where
  "write_b_block input b = JObj (omit_str ''text'' (rb_text b) @
     (case rb_tool_use b of None \<Rightarrow> [] | Some (i, n, args) \<Rightarrow>
        [(''toolUse'', JObj [(''toolUseId'', JStr i), (''name'', JStr n), (''input'', input args)])]) @
     (case rb_reasoning b of None \<Rightarrow> [] | Some t \<Rightarrow> [(''reasoningContent'', JObj [(''reasoningText'', JObj [(''text'', JStr t)])])]))"

definition write_b_response :: "(string \<Rightarrow> json) \<Rightarrow> b_response \<Rightarrow> json" where
  "write_b_response input r = JObj [(''output'', JObj [(''message'', JObj [(''role'', JStr ''assistant''),
       (''content'', JArr (map (write_b_block input) (bs_content r)))])]),
     (''stopReason'', JStr (bs_stop_reason r)), (''usage'', write_b_usage (bs_usage r))]"

definition input_text :: "b_reply_block \<Rightarrow> string" where
  "input_text b = (case rb_tool_use b of None \<Rightarrow> [] | Some (i, n, args) \<Rightarrow> args)"

lemma converse_names [simp]:
  "ToLower ''Message'' = ''message''"
  "ToLower ''cacheReadInputTokens'' = ''cachereadinputtokens''"
  "ToLower ''cacheWriteInputTokens'' = ''cachewriteinputtokens''"
  "ToLower ''content'' = ''content''"
  "ToLower ''contentBlockIndex'' = ''contentblockindex''"
  "ToLower ''delta'' = ''delta''"
  "ToLower ''input'' = ''input''"
  "ToLower ''inputTokens'' = ''inputtokens''"
  "ToLower ''message'' = ''message''"
  "ToLower ''name'' = ''name''"
  "ToLower ''output'' = ''output''"
  "ToLower ''outputTokens'' = ''outputtokens''"
  "ToLower ''reasoningContent'' = ''reasoningcontent''"
  "ToLower ''reasoningText'' = ''reasoningtext''"
  "ToLower ''role'' = ''role''"
  "ToLower ''signature'' = ''signature''"
  "ToLower ''start'' = ''start''"
  "ToLower ''stopReason'' = ''stopreason''"
  "ToLower ''text'' = ''text''"
  "ToLower ''toolUse'' = ''tooluse''"
  "ToLower ''toolUseId'' = ''tooluseid''"
  "ToLower ''totalTokens'' = ''totaltokens''"
  "ToLower ''usage'' = ''usage''"
  by (simp_all add: ToLower_def ascii_lower_def) (simp_all add: char_of_def bit_Suc_0_iff)

lemma b_usage_read: "dec_b_usage (write_b_usage u) = Some u"
  by (simp add: dec_b_usage_def write_b_usage_def documents enc_int_def)

lemma b_block_read: "dec_b_block (input_text b) (write_b_block input b) = Some b"
  by (cases "rb_tool_use b"; cases "rb_reasoning b")
    (auto simp: dec_b_block_def write_b_block_def documents dec_tool_use_def dec_reasoning_text_def input_text_def)

lemma b_blocks_read:
  "(\<And>i. i < length bs \<Longrightarrow> texts (k + i) = input_text (bs ! i)) \<Longrightarrow>
   dec_all (\<lambda>(i, j). dec_b_block (texts i) j) (enumerate k (map (write_b_block input) bs)) = Some bs"
proof (induction bs arbitrary: k)
  case (Cons b bs)
  have "texts k = input_text b" using Cons.prems [of 0] by simp
  moreover have "dec_all (\<lambda>(i, j). dec_b_block (texts i) j) (enumerate (Suc k) (map (write_b_block input) bs)) = Some bs"
  proof (rule Cons.IH)
    show "texts (Suc k + i) = input_text (bs ! i)" if "i < length bs" for i using Cons.prems [of "Suc i"] that by simp
  qed
  ultimately show ?case by (simp add: b_block_read)
qed simp

lemma b_response_read:
  assumes "\<And>i. i < length (bs_content r) \<Longrightarrow> texts i = input_text (bs_content r ! i)"
  shows "dec_b_response texts (write_b_response input r) = Some r"
proof -
  have "dec_all Some js = Some js" for js :: "json list" by (induction js) simp_all
  moreover have "dec_all (\<lambda>(i, j). dec_b_block (texts i) j) (enumerate 0 (map (write_b_block input) (bs_content r))) = Some (bs_content r)"
    using assms by (intro b_blocks_read) simp
  ultimately show ?thesis by (simp add: dec_b_response_def dec_b_message_def write_b_response_def documents b_usage_read)
qed

text \<open>The payloads of a stream.\<close>

definition write_b_start :: "b_block_start \<Rightarrow> json" where
  "write_b_start e = JObj [(''start'', JObj (case bst_tool e of None \<Rightarrow> [] | Some (i, n) \<Rightarrow>
     [(''toolUse'', JObj [(''toolUseId'', JStr i), (''name'', JStr n)])])), (''contentBlockIndex'', enc_int (bst_index e))]"

definition write_b_delta :: "b_block_delta \<Rightarrow> json" where
  "write_b_delta e = JObj [(''delta'', JObj (omit_str ''text'' (bdl_text e) @
       (case bdl_tool e of None \<Rightarrow> [] | Some t \<Rightarrow> [(''toolUse'', JObj [(''input'', JStr t)])]) @
       (case bdl_reasoning e of None \<Rightarrow> [] | Some t \<Rightarrow> [(''reasoningContent'', JObj [(''text'', JStr t)])]))),
     (''contentBlockIndex'', enc_int (bdl_index e))]"

lemma b_start_read: "dec_b_start (write_b_start e) = Some e"
  by (cases "bst_tool e") (auto simp: dec_b_start_def write_b_start_def documents dec_tool_use_def enc_int_def)

lemma b_delta_read: "dec_b_delta (write_b_delta e) = Some e"
  by (cases "bdl_tool e"; cases "bdl_reasoning e")
    (simp_all add: dec_b_delta_def write_b_delta_def documents dec_field_def enc_int_def)

lemma b_error_read: "dec_b_error (JObj [(''message'', JStr m)]) = Some m" "dec_b_error (JObj [(''Message'', JStr m)]) = Some m"
  by (simp_all add: dec_b_error_def documents)

section \<open>A call over JSON\<close>

text \<open>What \<open>buildRequestBody\<close> returns: the text of the document, or the error of \<open>json.Marshal\<close> as it is.\<close>

definition converse_body :: "(string \<Rightarrow> go_error + json) \<Rightarrow> completion_request \<Rightarrow> go_error + json" where
  "converse_body parse req =
     (case b_buildRequestBody req of
        Inl e \<Rightarrow> Inl e
      | Inr r \<Rightarrow> (case enc_b_request parse r of
            None \<Rightarrow> Inl (Opaque ''json: error calling MarshalJSON for type json.RawMessage'') | Some j \<Rightarrow> Inr j))"

definition converse_Complete :: "(string \<Rightarrow> go_error + json) \<Rightarrow> (json \<Rightarrow> string) \<Rightarrow> (string \<Rightarrow> nat \<Rightarrow> string)
    \<Rightarrow> (string \<times> string \<times> string, 'w) transport \<Rightarrow> 'w complete_fn" where
  "converse_Complete parse write texts post req w =
     (case converse_body parse req of
        Inl e \<Rightarrow> (Inl e, w)
      | Inr j \<Rightarrow> bedrock_Complete (converse_codec parse texts) (\<lambda>(model, action, body). post (model, action, write j)) req w)"

text \<open>A service that answers the document of a request with a response, or a failure and its message.\<close>

type_synonym 'w converse_server = "string \<Rightarrow> json \<Rightarrow> 'w \<Rightarrow> (int \<times> string + b_response) \<times> 'w"

definition converse_json :: "(string \<Rightarrow> json) \<Rightarrow> int \<times> string + b_response \<Rightarrow> json" where
  "converse_json input a = (case a of Inl (status, msg) \<Rightarrow> JObj [(''message'', JStr msg)] | Inr r \<Rightarrow> write_b_response input r)"

definition converse_serve :: "(string \<Rightarrow> go_error + json) \<Rightarrow> (json \<Rightarrow> string) \<Rightarrow> (string \<Rightarrow> json) \<Rightarrow> 'w converse_server
    \<Rightarrow> (string \<times> string \<times> string, 'w) transport" where
  "converse_serve parse write input h = (\<lambda>(model, action, body) w.
     (case parse body of
        Inl e \<Rightarrow> (Inr \<lparr>hr_status = 400, hr_body = [], hr_fail = None, hr_retry_after = 0\<rparr>, w)
      | Inr j \<Rightarrow>
          (case h model j w of (a, w') \<Rightarrow>
             (Inr \<lparr>hr_status = (case a of Inl (status, msg) \<Rightarrow> status | Inr r \<Rightarrow> 200), hr_body = write (converse_json input a),
                hr_fail = None, hr_retry_after = 0\<rparr>, w'))))"

definition spells :: "(json \<Rightarrow> string) \<Rightarrow> (string \<Rightarrow> nat \<Rightarrow> string) \<Rightarrow> (string \<Rightarrow> json) \<Rightarrow> int \<times> string + b_response \<Rightarrow> bool" where
  "spells write texts input a = (case a of
     Inl (status, msg) \<Rightarrow> status \<noteq> 200 \<and> msg \<noteq> []
   | Inr r \<Rightarrow> \<forall>i<length (bs_content r). texts (write (converse_json input a)) i = input_text (bs_content r ! i))"

text \<open>
  A completion over a service that speaks the documents of the code's types is the service's own answer
  to the request document: text, thinking, tool calls and usage of a response, the arguments of its
  calls spelled as the service spelled them, and a failure as an \<open>APIError\<close> with its status and message.
\<close>

theorem converse_call_transparent:
  assumes model: "req_model req \<noteq> []" and ok: "\<And>j v. spells write texts input (fst (h (req_model req) j v))"
    and sent: "\<And>j. converse_body parse req = Inr j \<Longrightarrow> parse (write j) = Inr j"
    and read: "\<And>j v. parse (write (converse_json input (fst (h (req_model req) j v)))) = Inr (converse_json input (fst (h (req_model req) j v)))"
  shows "converse_Complete parse write texts (converse_serve parse write input h) req w =
    (case converse_body parse req of
       Inl e \<Rightarrow> (Inl e, w)
     | Inr j \<Rightarrow>
         (case h (req_model req) j w of
            (Inr r, w') \<Rightarrow> (Inr (b_parseResponse r), w')
          | (Inl (status, msg), w') \<Rightarrow>
              (Inl (APIErr \<lparr>ae_status = status, ae_message = msg, ae_provider = ''bedrock'', ae_retry_after = 0\<rparr>), w')))"
proof (cases "converse_body parse req")
  case (Inr j)
  then obtain body where body: "b_buildRequestBody req = Inr body" by (auto simp: converse_body_def split: sum.splits)
  obtain a w' where h: "h (req_model req) j w = (a, w')" by fastforce
  have a: "spells write texts input a" "parse (write (converse_json input a)) = Inr (converse_json input a)"
    using ok [of j w] read [of j w] h by simp_all
  note exchange = converse_Complete_def bedrock_Complete_def b_send_def send_request_def converse_serve_def converse_codec_def
    api_failure_def read_body_def
  show ?thesis
  proof (cases a)
    case (Inl f)
    obtain status msg where f: "f = (status, msg)" by (cases f)
    obtain c m where m: "msg = c # m" using a(1) Inl f by (cases msg) (simp_all add: spells_def)
    show ?thesis using \<open>converse_body parse req = Inr j\<close> body h model sent [OF Inr] a Inl f m
      by (simp add: exchange spells_def converse_json_def b_error_read)
  next
    case (Inr r)
    have "dec_b_response (texts (write (converse_json input a))) (write_b_response input r) = Some r"
      using a(1) Inr by (intro b_response_read) (simp add: spells_def)
    then show ?thesis using \<open>converse_body parse req = Inr j\<close> body h model sent [OF \<open>converse_body parse req = Inr j\<close>] a Inr
      by (simp add: exchange converse_json_def)
  qed
qed (simp add: converse_Complete_def)

end
