(* ===== verification/Anthropic_Documents.thy ===== *)
theory Anthropic_Documents
  imports Anthropic_Provider Json_Documents
begin

text \<open>
  The JSON documents of the Anthropic provider (\<open>llm/anthropic/types.go\<close>): a request as \<open>json.Marshal\<close> writes
  it, and responses, errors and events as \<open>json.Unmarshal\<close> reads them. With them the codec of
  \<open>Anthropic_Provider\<close> is one of the code's own types, over the reading and writing of JSON text and base64.
  One struct, \<open>contentBlock\<close>, serves for every kind of block in both directions, which has consequences
  for the blocks of a response whose fields are of another type, or that it has no field for.
\<close>

section \<open>Requests\<close>

definition enc_cache_control :: "bool \<Rightarrow> (string \<times> json) list" where
  "enc_cache_control c = omit ''cache_control'' (\<not> c) (JObj [(''type'', JStr ''ephemeral'')])"

definition enc_a_source :: "a_source \<Rightarrow> json" where
  "enc_a_source s = JObj ([(''type'', JStr (as_type s))] @ omit_str ''media_type'' (as_media_type s) @
     omit_str ''data'' (as_data s) @ omit_str ''url'' (as_url s))"

definition enc_a_citation :: "a_citation \<Rightarrow> json" where
  "enc_a_citation c = JObj ([(''type'', JStr ''web_search_result_location'')] @ omit_str ''url'' (ac_url c) @
     omit_str ''title'' (ac_title c) @ omit_str ''cited_text'' (ac_cited_text c))"

text \<open>A request's blocks have no citations; those of a response, as the service writes it, have all of the fields.\<close>

definition a_block_fields :: "a_block \<Rightarrow> (string \<times> json) list \<Rightarrow> (string \<times> json) list" where
  "a_block_fields b input =
     [(''type'', JStr (ab_type b))] @ omit_str ''text'' (ab_text b) @ omit_str ''id'' (ab_id b) @ omit_str ''name'' (ab_name b) @ input @
     omit_str ''tool_use_id'' (ab_tool_use_id b) @ omit_str ''content'' (ab_content b) @
     (case ab_source b of None \<Rightarrow> [] | Some s \<Rightarrow> [(''source'', enc_a_source s)]) @ omit_str ''title'' (ab_title b) @
     omit ''citations'' (ab_citations b = []) (JArr (map enc_a_citation (ab_citations b))) @ enc_cache_control (ab_cache b)"

definition enc_a_block :: "a_block \<Rightarrow> json option" where
  "enc_a_block b = map_option (\<lambda>input. JObj (a_block_fields b input)) (enc_raw_field ''input'' (ab_input b))"

definition enc_a_message :: "a_message \<Rightarrow> json option" where
  "enc_a_message m = map_option (\<lambda>bs. JObj [(''role'', JStr (am_role m)), (''content'', null_list bs)]) (dec_all enc_a_block (am_content m))"

definition enc_location :: "string \<Rightarrow> json" where
  "enc_location c = JObj ([(''type'', JStr ''approximate'')] @ omit_str ''country'' c)"

definition enc_a_tool :: "a_tool \<Rightarrow> json option" where
  "enc_a_tool t = map_option (\<lambda>schema. JObj (omit_str ''type'' (at_type t) @ [(''name'', JStr (at_name t))] @
       omit_str ''description'' (at_description t) @ schema @ omit ''max_uses'' (at_max_uses t = 0) (enc_int (at_max_uses t)) @
       omit ''allowed_domains'' (at_allowed t = []) (enc_strs (at_allowed t)) @
       omit ''blocked_domains'' (at_blocked t = []) (enc_strs (at_blocked t)) @
       (case at_location t of None \<Rightarrow> [] | Some c \<Rightarrow> [(''user_location'', enc_location c)]) @
       enc_cache_control (at_cache t)))
     (enc_raw_field ''input_schema'' (at_schema t))"

fun enc_a_system :: "a_system \<Rightarrow> (string \<times> json) list" where
  "enc_a_system SysNone = []"
| "enc_a_system (SysText s) = [(''system'', JStr s)]"
| "enc_a_system (SysBlock s) = [(''system'', JArr [JObj ([(''type'', JStr ''text''), (''text'', JStr s)] @ enc_cache_control True)])]"

definition a_fields :: "a_request \<Rightarrow> json list \<Rightarrow> json list \<Rightarrow> (string \<times> json) list" where
  "a_fields r msgs tools =
     [(''model'', JStr (aq_model r)), (''messages'', null_list msgs)] @ enc_a_system (aq_system r) @
     [(''max_tokens'', enc_int (aq_max_tokens r))] @
     (case aq_temperature r of None \<Rightarrow> [] | Some t \<Rightarrow> [(''temperature'', JNum t)]) @
     (case aq_top_p r of None \<Rightarrow> [] | Some t \<Rightarrow> [(''top_p'', JNum t)]) @
     (case aq_top_k r of None \<Rightarrow> [] | Some k \<Rightarrow> [(''top_k'', enc_int k)]) @
     omit ''stop_sequences'' (aq_stop r = []) (enc_strs (aq_stop r)) @ [(''stream'', JBool (aq_stream r))] @
     omit ''tools'' (tools = []) (JArr tools) @
     (case aq_tool_choice r of None \<Rightarrow> [] | Some (t, n) \<Rightarrow> [(''tool_choice'', JObj ([(''type'', JStr t)] @ omit_str ''name'' n))]) @
     (case aq_thinking r of None \<Rightarrow> [] | Some n \<Rightarrow>
        [(''thinking'', JObj [(''type'', JStr ''enabled''), (''budget_tokens'', enc_int n)])])"

definition enc_a_request :: "a_request \<Rightarrow> json option" where
  "enc_a_request r = do {
     msgs \<leftarrow> dec_all enc_a_message (aq_messages r);
     tools \<leftarrow> dec_all enc_a_tool (aq_tools r);
     Some (JObj (a_fields r msgs tools)) }"

section \<open>Responses and events\<close>

definition dec_a_source :: "json \<Rightarrow> a_source option" where
  "dec_a_source = dec_obj (\<lambda>kv. do { t \<leftarrow> dec_str (member ''type'' kv); m \<leftarrow> dec_str (member ''media_type'' kv);
     d \<leftarrow> dec_str (member ''data'' kv); u \<leftarrow> dec_str (member ''url'' kv);
     Some \<lparr>as_type = t, as_media_type = m, as_data = d, as_url = u\<rparr> })"

definition dec_a_citation :: "json \<Rightarrow> a_citation option" where
  "dec_a_citation = dec_obj (\<lambda>kv. do { y \<leftarrow> dec_str (member ''type'' kv); u \<leftarrow> dec_str (member ''url'' kv);
     t \<leftarrow> dec_str (member ''title'' kv); c \<leftarrow> dec_str (member ''cited_text'' kv);
     Some \<lparr>ac_url = u, ac_title = t, ac_cited_text = c\<rparr> })"

definition dec_cache_control :: "json \<Rightarrow> string option" where
  "dec_cache_control = dec_obj (\<lambda>kv. dec_str (member ''type'' kv))"

definition dec_a_block :: "json \<Rightarrow> a_block option" where
  "dec_a_block = dec_obj (\<lambda>kv. do { y \<leftarrow> dec_str (member ''type'' kv); t \<leftarrow> dec_str (member ''text'' kv);
     i \<leftarrow> dec_str (member ''id'' kv); n \<leftarrow> dec_str (member ''name'' kv); u \<leftarrow> dec_str (member ''tool_use_id'' kv);
     c \<leftarrow> dec_str (member ''content'' kv); s \<leftarrow> dec_ptr dec_a_source (member ''source'' kv); tt \<leftarrow> dec_str (member ''title'' kv);
     cs \<leftarrow> dec_list dec_a_citation (member ''citations'' kv); cc \<leftarrow> dec_ptr dec_cache_control (member ''cache_control'' kv);
     Some \<lparr>ab_type = y, ab_text = t, ab_id = i, ab_name = n,
       ab_input = (case raw_member ''input'' kv of None \<Rightarrow> RawNil | Some j \<Rightarrow> RawJson j), ab_tool_use_id = u, ab_content = c,
       ab_source = s, ab_title = tt, ab_citations = cs, ab_cache = (cc \<noteq> None)\<rparr> })"

definition dec_a_usage :: "json \<Rightarrow> a_usage option" where
  "dec_a_usage = dec_obj (\<lambda>kv. do { i \<leftarrow> dec_int (member ''input_tokens'' kv); out \<leftarrow> dec_int (member ''output_tokens'' kv);
     r \<leftarrow> dec_int (member ''cache_read_input_tokens'' kv); c \<leftarrow> dec_int (member ''cache_creation_input_tokens'' kv);
     Some \<lparr>au_input = i, au_output = out, au_cache_read = r, au_cache_creation = c\<rparr> })"

definition dec_a_response :: "json \<Rightarrow> a_response option" where
  "dec_a_response = dec_obj (\<lambda>kv. do { i \<leftarrow> dec_str (member ''id'' kv); m \<leftarrow> dec_str (member ''model'' kv);
     bs \<leftarrow> dec_list dec_a_block (member ''content'' kv); s \<leftarrow> dec_str (member ''stop_reason'' kv);
     u \<leftarrow> dec_a_usage (member ''usage'' kv); Some \<lparr>ar_model = m, ar_content = bs, ar_stop_reason = s, ar_usage = u\<rparr> })"

definition dec_a_error :: "json \<Rightarrow> string option" where
  "dec_a_error = dec_obj (\<lambda>kv. dec_obj (\<lambda>e. do { t \<leftarrow> dec_str (member ''type'' e); m \<leftarrow> dec_str (member ''message'' e); Some m }) (member ''error'' kv))"

definition dec_a_delta :: "json \<Rightarrow> a_delta option" where
  "dec_a_delta = dec_obj (\<lambda>kv. do { y \<leftarrow> dec_str (member ''type'' kv); t \<leftarrow> dec_str (member ''text'' kv);
     k \<leftarrow> dec_str (member ''thinking'' kv); p \<leftarrow> dec_str (member ''partial_json'' kv); s \<leftarrow> dec_str (member ''stop_reason'' kv);
     Some \<lparr>ad_type = y, ad_text = t, ad_thinking = k, ad_partial_json = p\<rparr> })"

definition dec_stream_message :: "json \<Rightarrow> a_usage option option" where
  "dec_stream_message = dec_obj (\<lambda>kv. dec_ptr dec_a_usage (member ''usage'' kv))"

definition dec_a_event :: "json \<Rightarrow> a_event option" where
  "dec_a_event = dec_obj (\<lambda>kv. do { y \<leftarrow> dec_str (member ''type'' kv); i \<leftarrow> dec_int (member ''index'' kv);
     b \<leftarrow> dec_ptr dec_a_block (member ''content_block'' kv); d \<leftarrow> dec_ptr dec_a_delta (member ''delta'' kv);
     m \<leftarrow> dec_ptr dec_stream_message (member ''message'' kv);
     u \<leftarrow> dec_ptr dec_a_usage (member ''usage'' kv);
     Some \<lparr>av_type = y, av_block = b, av_delta = d, av_usage = u\<rparr> })"

text \<open>Arguments go through \<open>json.Unmarshal\<close> on their way out, and through \<open>json.Marshal\<close> on their way in.\<close>

definition messages_codec :: "(string \<Rightarrow> go_error + json) \<Rightarrow> (json \<Rightarrow> string) \<Rightarrow> (string \<Rightarrow> string option) \<Rightarrow> anthropic_codec" where
  "messages_codec parse write b64 =
     \<lparr>aj_parse = (\<lambda>s. case parse s of Inl _ \<Rightarrow> None | Inr j \<Rightarrow> Some j),
      aj_show = (\<lambda>raw. case enc_raw raw of None \<Rightarrow> [] | Some j \<Rightarrow> write j), aj_b64 = b64,
      aj_response = read_body parse dec_a_response,
      aj_event = (\<lambda>s. case read_body parse dec_a_event s of Inl _ \<Rightarrow> None | Inr e \<Rightarrow> Some e),
      aj_error = (\<lambda>s. case read_body parse dec_a_error s of Inl _ \<Rightarrow> None | Inr m \<Rightarrow> Some m)\<rparr>"

section \<open>The other end\<close>

lemma messages_names [simp]:
  "ToLower ''cache_control'' = ''cache_control''"
  "ToLower ''cache_creation_input_tokens'' = ''cache_creation_input_tokens''"
  "ToLower ''cache_read_input_tokens'' = ''cache_read_input_tokens''" "ToLower ''citations'' = ''citations''"
  "ToLower ''cited_text'' = ''cited_text''" "ToLower ''content'' = ''content''"
  "ToLower ''content_block'' = ''content_block''" "ToLower ''data'' = ''data''" "ToLower ''delta'' = ''delta''"
  "ToLower ''error'' = ''error''" "ToLower ''id'' = ''id''" "ToLower ''index'' = ''index''" "ToLower ''input'' = ''input''"
  "ToLower ''input_tokens'' = ''input_tokens''" "ToLower ''media_type'' = ''media_type''"
  "ToLower ''message'' = ''message''" "ToLower ''model'' = ''model''" "ToLower ''name'' = ''name''"
  "ToLower ''output_tokens'' = ''output_tokens''" "ToLower ''partial_json'' = ''partial_json''"
  "ToLower ''source'' = ''source''" "ToLower ''stop_reason'' = ''stop_reason''" "ToLower ''text'' = ''text''"
  "ToLower ''thinking'' = ''thinking''" "ToLower ''title'' = ''title''" "ToLower ''tool_use_id'' = ''tool_use_id''"
  "ToLower ''type'' = ''type''" "ToLower ''url'' = ''url''" "ToLower ''usage'' = ''usage''"
  "ToLower ''signature'' = ''signature''"
  by (simp_all add: ToLower_def ascii_lower_def)

definition a_input :: "a_block \<Rightarrow> (string \<times> json) list" where
  "a_input b = (case ab_input b of RawJson j \<Rightarrow> [(''input'', j)] | _ \<Rightarrow> [])"

definition write_a_block :: "a_block \<Rightarrow> json" where
  "write_a_block b = JObj (a_block_fields b (a_input b))"

definition write_a_usage :: "a_usage \<Rightarrow> json" where
  "write_a_usage u = JObj ([(''input_tokens'', enc_int (au_input u)), (''output_tokens'', enc_int (au_output u))] @
     omit ''cache_read_input_tokens'' (au_cache_read u = 0) (enc_int (au_cache_read u)) @
     omit ''cache_creation_input_tokens'' (au_cache_creation u = 0) (enc_int (au_cache_creation u)))"

definition write_a_response :: "a_response \<Rightarrow> json" where
  "write_a_response r = JObj [(''id'', JStr ''msg''), (''type'', JStr ''message''), (''model'', JStr (ar_model r)),
     (''content'', JArr (map write_a_block (ar_content r))), (''stop_reason'', JStr (ar_stop_reason r)), (''usage'', write_a_usage (ar_usage r))]"

fun raw_known :: "raw_json \<Rightarrow> bool" where
  "raw_known (RawInvalid s) = False"
| "raw_known _ = True"

lemma raw_member_omit [simp]:
  "raw_member k (omit x z v) = (if \<not> z \<and> ToLower x = ToLower k then Some v else None)"
  "raw_member k (omit_str x s) = (if s \<noteq> [] \<and> ToLower x = ToLower k then Some (JStr s) else None)"
  by (simp_all add: omit_def omit_str_def raw_member_Cons)

lemma a_source_read: "dec_a_source (enc_a_source s) = Some s" "enc_a_source s \<noteq> JNull"
  by (simp_all add: dec_a_source_def enc_a_source_def documents)

lemma a_citation_read: "dec_a_citation (enc_a_citation c) = Some c"
  by (simp add: dec_a_citation_def enc_a_citation_def documents)

lemma a_citations_read: "dec_list dec_a_citation (if cs \<noteq> [] then JArr (map enc_a_citation cs) else JNull) = Some cs"
  by (simp add: dec_all_map a_citation_read)

lemma a_source_ptr: "dec_ptr dec_a_source (case x of None \<Rightarrow> JNull | Some s \<Rightarrow> enc_a_source s) = Some x"
  by (cases x) (simp_all add: dec_ptr_def a_source_read)

lemma cache_control_ptr: "dec_ptr dec_cache_control (if c then JObj [(''type'', JStr ''ephemeral'')] else JNull) = Some (if c then Some ''ephemeral'' else None)"
  by (simp add: dec_ptr_def dec_cache_control_def documents)

lemma a_block_input: "raw_known (ab_input b) \<Longrightarrow>
    (case raw_member ''input'' (a_block_fields b (a_input b)) of None \<Rightarrow> RawNil | Some j \<Rightarrow> RawJson j) = ab_input b"
  by (cases "ab_input b"; cases "ab_source b")
    (simp_all add: a_block_fields_def a_input_def enc_cache_control_def raw_member_append raw_member_Cons split del: if_split)

lemma a_block_members:
  "member ''type'' (a_block_fields b (a_input b)) = JStr (ab_type b)"
  "member ''text'' (a_block_fields b (a_input b)) = (if ab_text b \<noteq> [] then JStr (ab_text b) else JNull)"
  "member ''id'' (a_block_fields b (a_input b)) = (if ab_id b \<noteq> [] then JStr (ab_id b) else JNull)"
  "member ''name'' (a_block_fields b (a_input b)) = (if ab_name b \<noteq> [] then JStr (ab_name b) else JNull)"
  "member ''tool_use_id'' (a_block_fields b (a_input b)) = (if ab_tool_use_id b \<noteq> [] then JStr (ab_tool_use_id b) else JNull)"
  "member ''content'' (a_block_fields b (a_input b)) = (if ab_content b \<noteq> [] then JStr (ab_content b) else JNull)"
  "member ''source'' (a_block_fields b (a_input b)) = (case ab_source b of None \<Rightarrow> JNull | Some s \<Rightarrow> enc_a_source s)"
  "member ''title'' (a_block_fields b (a_input b)) = (if ab_title b \<noteq> [] then JStr (ab_title b) else JNull)"
  "member ''citations'' (a_block_fields b (a_input b)) = (if ab_citations b \<noteq> [] then JArr (map enc_a_citation (ab_citations b)) else JNull)"
  "member ''cache_control'' (a_block_fields b (a_input b)) = (if ab_cache b then JObj [(''type'', JStr ''ephemeral'')] else JNull)"
  by (cases "ab_source b"; cases "ab_input b";
      simp add: a_block_fields_def a_input_def enc_cache_control_def documents; simp add: a_source_read or_else_def)+

lemma dec_str_if [simp]: "dec_str (if s \<noteq> [] then JStr s else JNull) = Some s"
  by simp

lemma a_block_read: "raw_known (ab_input b) \<Longrightarrow> dec_a_block (write_a_block b) = Some b"
  unfolding dec_a_block_def write_a_block_def
  by (simp only: dec_obj.simps a_block_members dec_str.simps dec_str_if a_citations_read a_source_ptr cache_control_ptr Option.bind.simps a_block_input)
    (cases "ab_cache b"; simp)

lemma a_usage_read: "dec_a_usage (write_a_usage u) = Some u" "write_a_usage u \<noteq> JNull"
  by (simp_all add: dec_a_usage_def write_a_usage_def documents)

definition a_response_ok :: "a_response \<Rightarrow> bool" where
  "a_response_ok r \<longleftrightarrow> list_all (\<lambda>b. raw_known (ab_input b)) (ar_content r)"

lemma a_response_read: "a_response_ok r \<Longrightarrow> dec_a_response (write_a_response r) = Some r"
  by (simp add: dec_a_response_def write_a_response_def documents dec_all_map a_block_read a_usage_read list_all_iff a_response_ok_def)

definition write_a_error :: "string \<Rightarrow> string \<Rightarrow> json" where
  "write_a_error kind msg = JObj [(''type'', JStr ''error''), (''error'', JObj [(''type'', JStr kind), (''message'', JStr msg)])]"

lemma a_error_read: "dec_a_error (write_a_error kind msg) = Some msg"
  by (simp add: dec_a_error_def write_a_error_def documents)

section \<open>What the one struct does not hold\<close>

text \<open>
  The result block of a web search has a list as its \<open>content\<close>. The struct has text there, so that
  the whole response is refused: \<open>Complete\<close> fails for every request in which the service searched.
\<close>

lemma dec_all_Some_mem: "dec_all f xs = Some ys \<Longrightarrow> x \<in> set xs \<Longrightarrow> f x \<noteq> None"
  by (induction xs arbitrary: ys) (auto split: option.splits)

lemma list_content_refused: "member ''content'' kv = JArr js \<Longrightarrow> dec_a_block (JObj kv) = None"
  by (auto simp: dec_a_block_def split: bind_splits)

lemma search_result_refused:
  assumes "parse body = Inr (JObj kv)" "member ''content'' kv = JArr blocks" "JObj b \<in> set blocks" "member ''content'' b = JArr results"
  shows "\<exists>e. aj_response (messages_codec parse write b64) body = Inl e"
proof -
  have "dec_list dec_a_block (member ''content'' kv) = None"
    using dec_all_Some_mem [of dec_a_block blocks _ "JObj b"] list_content_refused [OF assms(4)] assms(2,3)
    by (cases "dec_all dec_a_block blocks") auto
  then have "dec_a_response (JObj kv) = None" by (auto simp: dec_a_response_def split: bind_splits)
  then show ?thesis using assms(1) by (simp add: messages_codec_def read_body_def)
qed

text \<open>A thinking block has its text under \<open>thinking\<close>, for which there is no field: it is read as one without text.\<close>

lemma thinking_block_lost:
  "dec_a_block (JObj [(''type'', JStr ''thinking''), (''thinking'', JStr t), (''signature'', JStr s)]) = Some (zero_block\<lparr>ab_type := ''thinking''\<rparr>)"
  "a_parse_block cd res (zero_block\<lparr>ab_type := ''thinking''\<rparr>) = res"
  by (simp_all add: dec_a_block_def documents raw_member_Cons zero_block_def a_parse_block_def)

text \<open>Text without text is a block without the field, which the API requires.\<close>

lemma empty_text_without_field:
  "enc_a_block (zero_block\<lparr>ab_type := ''text''\<rparr>) = Some (JObj [(''type'', JStr ''text'')])"
  by (simp add: enc_a_block_def enc_raw_field_def a_block_fields_def zero_block_def omit_str_def omit_def enc_cache_control_def)

section \<open>A call over JSON\<close>

definition messages_body :: "(string \<Rightarrow> go_error + json) \<Rightarrow> (json \<Rightarrow> string) \<Rightarrow> (string \<Rightarrow> string option) \<Rightarrow> completion_request \<Rightarrow> bool
    \<Rightarrow> go_error + json" where
  "messages_body parse write b64 req stream =
     (case a_buildRequestBody (messages_codec parse write b64) req stream of
        Inl e \<Rightarrow> Inl e
      | Inr r \<Rightarrow> (case enc_a_request r of
            None \<Rightarrow> Inl (Opaque ''json: error calling MarshalJSON for type json.RawMessage'') | Some j \<Rightarrow> Inr j))"

definition marshalled :: "(json \<Rightarrow> string) \<Rightarrow> (string, 'w) transport \<Rightarrow> (a_request, 'w) transport" where
  "marshalled write post r = post (case enc_a_request r of None \<Rightarrow> [] | Some j \<Rightarrow> write j)"

definition messages_Complete :: "(string \<Rightarrow> go_error + json) \<Rightarrow> (json \<Rightarrow> string) \<Rightarrow> (string \<Rightarrow> string option)
    \<Rightarrow> (string, 'w) transport \<Rightarrow> 'w complete_fn" where
  "messages_Complete parse write b64 post req w =
     (case messages_body parse write b64 req False of
        Inl e \<Rightarrow> (Inl e, w)
      | Inr j \<Rightarrow> anthropic_Complete (messages_codec parse write b64) (marshalled write post) req w)"

text \<open>A service that answers the document of a request with a response, or with a failure, its kind and its message.\<close>

type_synonym 'w messages_server = "json \<Rightarrow> 'w \<Rightarrow> (int \<times> string \<times> string + a_response) \<times> 'w"

definition messages_json :: "int \<times> string \<times> string + a_response \<Rightarrow> json" where
  "messages_json a = (case a of Inl (status, kind, msg) \<Rightarrow> write_a_error kind msg | Inr r \<Rightarrow> write_a_response r)"

definition messages_ok :: "int \<times> string \<times> string + a_response \<Rightarrow> bool" where
  "messages_ok a = (case a of Inl (status, kind, msg) \<Rightarrow> status \<noteq> 200 \<and> msg \<noteq> [] | Inr r \<Rightarrow> a_response_ok r)"

definition messages_serve :: "(string \<Rightarrow> go_error + json) \<Rightarrow> (json \<Rightarrow> string) \<Rightarrow> 'w messages_server \<Rightarrow> (string, 'w) transport" where
  "messages_serve parse write h body w =
     (case parse body of
        Inl e \<Rightarrow> (Inr \<lparr>hr_status = 400, hr_body = [], hr_fail = None, hr_retry_after = 0\<rparr>, w)
      | Inr j \<Rightarrow>
          (case h j w of (a, w') \<Rightarrow>
             (Inr \<lparr>hr_status = (case a of Inl (status, _) \<Rightarrow> status | Inr r \<Rightarrow> 200), hr_body = write (messages_json a),
                hr_fail = None, hr_retry_after = 0\<rparr>, w')))"

text \<open>
  A completion over a service that speaks the documents of the code's types is the service's own answer to
  the request document, and a failure is an \<open>APIError\<close> with its status and message.
\<close>

theorem messages_call_transparent:
  assumes ok: "\<And>j v. messages_ok (fst (h j v))"
    and sent: "\<And>j. messages_body parse write b64 req False = Inr j \<Longrightarrow> parse (write j) = Inr j"
    and read: "\<And>j v. parse (write (messages_json (fst (h j v)))) = Inr (messages_json (fst (h j v)))"
  shows "messages_Complete parse write b64 (messages_serve parse write h) req w =
    (case messages_body parse write b64 req False of
       Inl e \<Rightarrow> (Inl e, w)
     | Inr j \<Rightarrow>
         (case h j w of
            (Inr r, w') \<Rightarrow> (Inr (a_parseResponse (messages_codec parse write b64) r), w')
          | (Inl (status, kind, msg), w') \<Rightarrow>
              (Inl (APIErr \<lparr>ae_status = status, ae_message = msg, ae_provider = ''anthropic'', ae_retry_after = 0\<rparr>), w')))"
proof (cases "messages_body parse write b64 req False")
  case (Inr j)
  let ?cd = "messages_codec parse write b64"
  obtain body where body: "a_buildRequestBody ?cd req False = Inr body" "enc_a_request body = Some j"
    using Inr by (auto simp: messages_body_def split: sum.splits option.splits)
  obtain a w' where h: "h j w = (a, w')" by fastforce
  have a: "messages_ok a" "parse (write (messages_json a)) = Inr (messages_json a)" using ok [of j w] read [of j w] h by simp_all
  have codec: "aj_error ?cd s = (case read_body parse dec_a_error s of Inl _ \<Rightarrow> None | Inr m \<Rightarrow> Some m)"
    "aj_response ?cd s = read_body parse dec_a_response s" for s by (simp_all add: messages_codec_def)
  note exchange = messages_Complete_def anthropic_Complete_def send_request_def messages_serve_def marshalled_def
    api_failure_def read_body_def codec
  show ?thesis
  proof (cases a)
    case (Inl f)
    obtain status kind msg where f: "f = (status, kind, msg)" by (cases f)
    obtain c m where m: "msg = c # m" using a(1) Inl f by (cases msg) (simp_all add: messages_ok_def)
    show ?thesis using \<open>messages_body parse write b64 req False = Inr j\<close> body h sent [OF Inr] a Inl f m
      by (simp add: exchange messages_ok_def messages_json_def a_error_read)
  next
    case (Inr r)
    then show ?thesis using \<open>messages_body parse write b64 req False = Inr j\<close> body h sent [OF \<open>messages_body parse write b64 req False = Inr j\<close>] a
      by (simp add: exchange messages_ok_def messages_json_def a_response_read)
  qed
qed (simp add: messages_Complete_def)

text \<open>With a result block in the answer the call fails, although it was answered, and billed, with status 200.\<close>

lemma search_answer_fails:
  assumes "a_buildRequestBody (messages_codec parse write b64) req False = Inr body" "post body w = (Inr r, w')" "hr_status r = 200" "hr_fail r = None"
    and "parse (hr_body r) = Inr (JObj kv)" "member ''content'' kv = JArr blocks" "JObj b \<in> set blocks" "member ''content'' b = JArr results"
  shows "\<exists>e. anthropic_Complete (messages_codec parse write b64) post req w = (Inl (Errorf ''anthropic: failed to parse response: %w'' [FWrap e]), w')"
proof -
  obtain e where "aj_response (messages_codec parse write b64) (hr_body r) = Inl e" using search_result_refused assms(5-8) by blast
  then show ?thesis using assms(1-4) by (simp add: anthropic_Complete_def send_request_def)
qed

end
