(* ===== verification/Gemini_Documents.thy ===== *)
theory Gemini_Documents
  imports Gemini_Provider Json_Documents
begin

text \<open>
  The JSON documents of the Gemini provider (\<open>llm/gemini/types.go\<close>): a request as \<open>json.Marshal\<close> writes it, and
  responses, chunks and errors as \<open>json.Unmarshal\<close> reads them, which makes the codec of \<open>Gemini_Provider\<close>
  one of the code's own types. The arguments and results of tools are Go maps on this wire: text is
  decoded into one (\<open>parse\<close>), and one is written as text by \<open>show\<close>, its members in the order of their names.
  Numbers are exact here; in a Go map they are \<open>float64\<close>.
\<close>

section \<open>Requests\<close>

definition enc_blob :: "string \<times> string \<Rightarrow> json" where
  "enc_blob b = JObj [(''mimeType'', JStr (fst b)), (''data'', JStr (snd b))]"

definition enc_g_file :: "string \<times> string \<Rightarrow> json" where
  "enc_g_file f = JObj (omit_str ''mimeType'' (fst f) @ [(''fileUri'', JStr (snd f))])"

text \<open>A nil map is \<open>null\<close>.\<close>

definition enc_g_call :: "string \<times> json option \<Rightarrow> json" where
  "enc_g_call c = JObj [(''name'', JStr (fst c)), (''args'', case snd c of None \<Rightarrow> JNull | Some j \<Rightarrow> j)]"

definition enc_g_result :: "string \<times> json \<Rightarrow> json" where
  "enc_g_result r = JObj [(''name'', JStr (fst r)), (''response'', snd r)]"

definition g_part_fields :: "g_part \<Rightarrow> (string \<times> json) list" where
  "g_part_fields p =
     omit_str ''text'' (gp_text p) @ omit ''thought'' (\<not> gp_thought p) (JBool True) @
     (case gp_inline p of None \<Rightarrow> [] | Some b \<Rightarrow> [(''inlineData'', enc_blob b)]) @
     (case gp_file p of None \<Rightarrow> [] | Some f \<Rightarrow> [(''fileData'', enc_g_file f)]) @
     (case gp_call p of None \<Rightarrow> [] | Some c \<Rightarrow> [(''functionCall'', enc_g_call c)]) @
     (case gp_result p of None \<Rightarrow> [] | Some r \<Rightarrow> [(''functionResponse'', enc_g_result r)]) @
     omit_str ''thoughtSignature'' (gp_signature p)"

definition enc_g_content :: "g_content \<Rightarrow> json" where
  "enc_g_content c = JObj [(''role'', JStr (gc_role c)), (''parts'', null_list (map (\<lambda>p. JObj (g_part_fields p)) (gc_parts c)))]"

definition enc_g_thinking :: "g_thinking \<Rightarrow> json" where
  "enc_g_thinking t = JObj ((case gt_budget t of None \<Rightarrow> [] | Some n \<Rightarrow> [(''thinkingBudget'', enc_int n)]) @
     (case gt_level t of None \<Rightarrow> [] | Some l \<Rightarrow> [(''thinkingLevel'', JStr l)]) @ omit ''includeThoughts'' (\<not> gt_include t) (JBool True))"

definition g_config_fields :: "g_config \<Rightarrow> (string \<times> json) list \<Rightarrow> (string \<times> json) list" where
  "g_config_fields c schema =
     (case gg_temperature c of None \<Rightarrow> [] | Some t \<Rightarrow> [(''temperature'', JNum t)]) @
     (case gg_max_tokens c of None \<Rightarrow> [] | Some n \<Rightarrow> [(''maxOutputTokens'', enc_int n)]) @
     (case gg_top_p c of None \<Rightarrow> [] | Some t \<Rightarrow> [(''topP'', JNum t)]) @
     (case gg_top_k c of None \<Rightarrow> [] | Some n \<Rightarrow> [(''topK'', enc_int n)]) @
     omit ''stopSequences'' (gg_stop c = []) (enc_strs (gg_stop c)) @ omit_str ''responseMimeType'' (gg_mime_type c) @ schema @
     (case gg_thinking c of None \<Rightarrow> [] | Some t \<Rightarrow> [(''thinkingConfig'', enc_g_thinking t)])"

definition enc_g_config :: "g_config \<Rightarrow> json option" where
  "enc_g_config c = map_option (\<lambda>schema. JObj (g_config_fields c schema))
     (case gg_schema c of None \<Rightarrow> Some [] | Some raw \<Rightarrow> map_option (\<lambda>j. [(''responseJsonSchema'', j)]) (enc_raw raw))"

definition enc_declaration :: "tool_definition \<Rightarrow> json option" where
  "enc_declaration t = map_option (\<lambda>p. JObj [(''name'', JStr (td_name t)), (''description'', JStr (td_description t)), (''parameters'', p)])
     (enc_raw (td_parameters t))"

fun enc_g_tool :: "g_tool \<Rightarrow> json option" where
  "enc_g_tool (GFunctions ts) = map_option (\<lambda>ds. JObj (omit ''functionDeclarations'' (ds = []) (JArr ds))) (dec_all enc_declaration ts)"
| "enc_g_tool GSearch = Some (JObj [(''googleSearch'', JObj [])])"

definition enc_g_tool_config :: "string \<times> string list \<Rightarrow> json" where
  "enc_g_tool_config c = JObj [(''functionCallingConfig'', JObj ([(''mode'', JStr (fst c))] @
     omit ''allowedFunctionNames'' (snd c = []) (enc_strs (snd c))))]"

definition enc_g_request :: "g_request \<Rightarrow> json option" where
  "enc_g_request r = do {
     config \<leftarrow> (case gq_config r of None \<Rightarrow> Some [] | Some c \<Rightarrow> map_option (\<lambda>j. [(''generationConfig'', j)]) (enc_g_config c));
     tools \<leftarrow> dec_all enc_g_tool (gq_tools r);
     Some (JObj ([(''contents'', null_list (map enc_g_content (gq_contents r)))] @
       (case gq_system r of None \<Rightarrow> [] | Some c \<Rightarrow> [(''systemInstruction'', enc_g_content c)]) @ config @
       omit ''tools'' (tools = []) (JArr tools) @
       (case gq_tool_config r of None \<Rightarrow> [] | Some c \<Rightarrow> [(''toolConfig'', enc_g_tool_config c)]))) }"

section \<open>Responses\<close>

fun dec_object :: "json \<Rightarrow> json option option" where
  "dec_object JNull = Some None"
| "dec_object (JObj kvs) = Some (Some (JObj kvs))"
| "dec_object _ = None"

definition dec_blob :: "json \<Rightarrow> (string \<times> string) option" where
  "dec_blob = dec_obj (\<lambda>kv. do { m \<leftarrow> dec_str (member ''mimeType'' kv); d \<leftarrow> dec_str (member ''data'' kv); Some (m, d) })"

definition dec_g_file :: "json \<Rightarrow> (string \<times> string) option" where
  "dec_g_file = dec_obj (\<lambda>kv. do { m \<leftarrow> dec_str (member ''mimeType'' kv); u \<leftarrow> dec_str (member ''fileUri'' kv); Some (m, u) })"

definition dec_g_call :: "json \<Rightarrow> (string \<times> json option) option" where
  "dec_g_call = dec_obj (\<lambda>kv. do { n \<leftarrow> dec_str (member ''name'' kv); a \<leftarrow> dec_object (member ''args'' kv); Some (n, a) })"

text \<open>No response has results of functions; a nil map of one is \<open>null\<close>.\<close>

definition dec_g_result :: "json \<Rightarrow> (string \<times> json) option" where
  "dec_g_result = dec_obj (\<lambda>kv. do { n \<leftarrow> dec_str (member ''name'' kv); r \<leftarrow> dec_object (member ''response'' kv);
     Some (n, case r of None \<Rightarrow> JNull | Some j \<Rightarrow> j) })"

definition dec_g_part :: "json \<Rightarrow> g_part option" where
  "dec_g_part = dec_obj (\<lambda>kv. do { t \<leftarrow> dec_str (member ''text'' kv); th \<leftarrow> dec_bool (member ''thought'' kv);
     b \<leftarrow> dec_ptr dec_blob (member ''inlineData'' kv); f \<leftarrow> dec_ptr dec_g_file (member ''fileData'' kv);
     c \<leftarrow> dec_ptr dec_g_call (member ''functionCall'' kv); r \<leftarrow> dec_ptr dec_g_result (member ''functionResponse'' kv);
     s \<leftarrow> dec_str (member ''thoughtSignature'' kv);
     Some \<lparr>gp_text = t, gp_thought = th, gp_inline = b, gp_file = f, gp_call = c, gp_result = r, gp_signature = s\<rparr> })"

definition dec_g_content :: "json \<Rightarrow> g_content option" where
  "dec_g_content = dec_obj (\<lambda>kv. do { r \<leftarrow> dec_str (member ''role'' kv); ps \<leftarrow> dec_list dec_g_part (member ''parts'' kv);
     Some \<lparr>gc_role = r, gc_parts = ps\<rparr> })"

definition dec_web :: "json \<Rightarrow> (string \<times> string) option" where
  "dec_web = dec_obj (\<lambda>kv. do { u \<leftarrow> dec_str (member ''uri'' kv); t \<leftarrow> dec_str (member ''title'' kv); Some (u, t) })"

definition dec_grounding :: "json \<Rightarrow> (string \<times> string) option list option" where
  "dec_grounding = dec_obj (\<lambda>kv. dec_list (dec_obj (\<lambda>kv. dec_ptr dec_web (member ''web'' kv))) (member ''groundingChunks'' kv))"

definition dec_candidate :: "json \<Rightarrow> g_candidate option" where
  "dec_candidate = dec_obj (\<lambda>kv. do { c \<leftarrow> dec_g_content (member ''content'' kv); f \<leftarrow> dec_str (member ''finishReason'' kv);
     g \<leftarrow> dec_ptr dec_grounding (member ''groundingMetadata'' kv);
     Some \<lparr>gn_content = c, gn_finish = f, gn_grounding = (case g of None \<Rightarrow> [] | Some ws \<Rightarrow> ws)\<rparr> })"

definition dec_g_usage :: "json \<Rightarrow> g_usage option" where
  "dec_g_usage = dec_obj (\<lambda>kv. do { p \<leftarrow> dec_int (member ''promptTokenCount'' kv); c \<leftarrow> dec_int (member ''candidatesTokenCount'' kv);
     t \<leftarrow> dec_int (member ''totalTokenCount'' kv); th \<leftarrow> dec_int (member ''thoughtsTokenCount'' kv);
     ca \<leftarrow> dec_int (member ''cachedContentTokenCount'' kv);
     Some \<lparr>gu_prompt = p, gu_candidates = c, gu_total = t, gu_thoughts = th, gu_cached = ca\<rparr> })"

definition dec_g_response :: "json \<Rightarrow> g_response option" where
  "dec_g_response = dec_obj (\<lambda>kv. do { cs \<leftarrow> dec_list dec_candidate (member ''candidates'' kv);
     u \<leftarrow> dec_ptr dec_g_usage (member ''usageMetadata'' kv); Some \<lparr>gr_candidates = cs, gr_usage = u\<rparr> })"

definition dec_g_error :: "json \<Rightarrow> string option" where
  "dec_g_error = dec_obj (\<lambda>kv. dec_obj (\<lambda>e. do { m \<leftarrow> dec_str (member ''message'' e); s \<leftarrow> dec_str (member ''status'' e);
     c \<leftarrow> dec_int (member ''code'' e); Some m }) (member ''error'' kv))"

definition generate_codec :: "(string \<Rightarrow> go_error + json) \<Rightarrow> (json \<Rightarrow> string) \<Rightarrow> gemini_codec" where
  "generate_codec parse show' =
     \<lparr>gj_object = (\<lambda>s. case parse s of Inr (JObj kvs) \<Rightarrow> Some (JObj kvs) | _ \<Rightarrow> None),
      gj_show = (\<lambda>a. case a of None \<Rightarrow> ''null'' | Some j \<Rightarrow> show' j),
      gj_response = read_body parse dec_g_response,
      gj_error = (\<lambda>s. case read_body parse dec_g_error s of Inl _ \<Rightarrow> None | Inr m \<Rightarrow> Some m)\<rparr>"

section \<open>The other end\<close>

lemma generate_names [simp]:
  "ToLower ''args'' = ''args''" "ToLower ''cachedContentTokenCount'' = ''cachedcontenttokencount''"
  "ToLower ''candidates'' = ''candidates''" "ToLower ''candidatesTokenCount'' = ''candidatestokencount''"
  "ToLower ''code'' = ''code''" "ToLower ''content'' = ''content''" "ToLower ''data'' = ''data''"
  "ToLower ''error'' = ''error''" "ToLower ''fileData'' = ''filedata''" "ToLower ''fileUri'' = ''fileuri''"
  "ToLower ''finishReason'' = ''finishreason''" "ToLower ''functionCall'' = ''functioncall''"
  "ToLower ''functionResponse'' = ''functionresponse''" "ToLower ''groundingChunks'' = ''groundingchunks''"
  "ToLower ''groundingMetadata'' = ''groundingmetadata''" "ToLower ''inlineData'' = ''inlinedata''"
  "ToLower ''message'' = ''message''" "ToLower ''mimeType'' = ''mimetype''" "ToLower ''name'' = ''name''"
  "ToLower ''parts'' = ''parts''" "ToLower ''promptTokenCount'' = ''prompttokencount''"
  "ToLower ''response'' = ''response''" "ToLower ''role'' = ''role''" "ToLower ''status'' = ''status''"
  "ToLower ''text'' = ''text''" "ToLower ''thought'' = ''thought''" "ToLower ''thoughtSignature'' = ''thoughtsignature''"
  "ToLower ''thoughtsTokenCount'' = ''thoughtstokencount''" "ToLower ''title'' = ''title''"
  "ToLower ''totalTokenCount'' = ''totaltokencount''" "ToLower ''uri'' = ''uri''"
  "ToLower ''usageMetadata'' = ''usagemetadata''" "ToLower ''web'' = ''web''"
  by (simp_all add: ToLower_def ascii_lower_def) (simp_all add: char_of_def bit_Suc_0_iff)

definition write_g_usage :: "g_usage \<Rightarrow> json" where
  "write_g_usage u = JObj ([(''promptTokenCount'', enc_int (gu_prompt u)), (''candidatesTokenCount'', enc_int (gu_candidates u)),
     (''totalTokenCount'', enc_int (gu_total u))] @ omit ''thoughtsTokenCount'' (gu_thoughts u = 0) (enc_int (gu_thoughts u)) @
     omit ''cachedContentTokenCount'' (gu_cached u = 0) (enc_int (gu_cached u)))"

definition write_web :: "(string \<times> string) option \<Rightarrow> json" where
  "write_web w = JObj (case w of None \<Rightarrow> [] | Some (u, t) \<Rightarrow> [(''web'', JObj [(''uri'', JStr u), (''title'', JStr t)])])"

definition write_candidate :: "g_candidate \<Rightarrow> json" where
  "write_candidate c = JObj ([(''content'', enc_g_content (gn_content c)), (''finishReason'', JStr (gn_finish c))] @
     omit ''groundingMetadata'' (gn_grounding c = []) (JObj [(''groundingChunks'', JArr (map write_web (gn_grounding c)))]))"

definition write_g_response :: "g_response \<Rightarrow> json" where
  "write_g_response r = JObj ([(''candidates'', null_list (map write_candidate (gr_candidates r)))] @
     (case gr_usage r of None \<Rightarrow> [] | Some u \<Rightarrow> [(''usageMetadata'', write_g_usage u)]))"

text \<open>The maps of a part are objects.\<close>

definition g_part_ok :: "g_part \<Rightarrow> bool" where
  "g_part_ok p \<longleftrightarrow> (case gp_call p of Some (n, Some j) \<Rightarrow> dec_object j = Some (Some j) | _ \<Rightarrow> True) \<and>
     (case gp_result p of Some (n, j) \<Rightarrow> dec_object j = Some (Some j) | None \<Rightarrow> True)"

lemma dec_object_SomeD: "dec_object j = Some (Some j) \<Longrightarrow> j \<noteq> JNull"
  by auto

lemma blob_read: "dec_blob (enc_blob b) = Some b" "enc_blob b \<noteq> JNull"
  by (simp_all add: dec_blob_def enc_blob_def documents)

lemma g_file_read: "dec_g_file (enc_g_file f) = Some f" "enc_g_file f \<noteq> JNull"
  by (simp_all add: dec_g_file_def enc_g_file_def documents prod_eq_iff)

lemma g_call_read: "(case c of (n, Some j) \<Rightarrow> dec_object j = Some (Some j) | _ \<Rightarrow> True) \<Longrightarrow> dec_g_call (enc_g_call c) = Some c" "enc_g_call c \<noteq> JNull"
  by (auto simp: dec_g_call_def enc_g_call_def documents or_else_def split: prod.splits option.splits dest: dec_object_SomeD)

lemma g_result_read: "dec_object (snd r) = Some (Some (snd r)) \<Longrightarrow> dec_g_result (enc_g_result r) = Some r" "enc_g_result r \<noteq> JNull"
  by (auto simp: dec_g_result_def enc_g_result_def documents or_else_def dest: dec_object_SomeD)

lemma g_part_members:
  "member ''text'' (g_part_fields p) = (if gp_text p \<noteq> [] then JStr (gp_text p) else JNull)"
  "member ''thought'' (g_part_fields p) = (if gp_thought p then JBool True else JNull)"
  "member ''inlineData'' (g_part_fields p) = (case gp_inline p of None \<Rightarrow> JNull | Some b \<Rightarrow> enc_blob b)"
  "member ''fileData'' (g_part_fields p) = (case gp_file p of None \<Rightarrow> JNull | Some f \<Rightarrow> enc_g_file f)"
  "member ''functionCall'' (g_part_fields p) = (case gp_call p of None \<Rightarrow> JNull | Some c \<Rightarrow> enc_g_call c)"
  "member ''functionResponse'' (g_part_fields p) = (case gp_result p of None \<Rightarrow> JNull | Some r \<Rightarrow> enc_g_result r)"
  "member ''thoughtSignature'' (g_part_fields p) = (if gp_signature p \<noteq> [] then JStr (gp_signature p) else JNull)"
  by (cases "gp_inline p"; cases "gp_file p"; cases "gp_call p"; cases "gp_result p"; simp add: g_part_fields_def documents)+

lemma dec_ptr_case: "(\<And>a. x = Some a \<Longrightarrow> f (g a) = Some a \<and> g a \<noteq> JNull) \<Longrightarrow> dec_ptr f (case x of None \<Rightarrow> JNull | Some a \<Rightarrow> g a) = Some x"
  by (cases x) (simp_all add: dec_ptr_def)

lemma g_part_read:
  assumes "g_part_ok p"
  shows "dec_g_part (JObj (g_part_fields p)) = Some p"
proof -
  have "dec_ptr dec_blob (case gp_inline p of None \<Rightarrow> JNull | Some b \<Rightarrow> enc_blob b) = Some (gp_inline p)"
    by (rule dec_ptr_case) (simp add: blob_read)
  moreover have "dec_ptr dec_g_file (case gp_file p of None \<Rightarrow> JNull | Some f \<Rightarrow> enc_g_file f) = Some (gp_file p)"
    by (rule dec_ptr_case) (simp add: g_file_read)
  moreover have "dec_ptr dec_g_call (case gp_call p of None \<Rightarrow> JNull | Some c \<Rightarrow> enc_g_call c) = Some (gp_call p)"
    using assms by (intro dec_ptr_case conjI g_call_read) (auto simp: g_part_ok_def split: prod.splits option.splits)
  moreover have "dec_ptr dec_g_result (case gp_result p of None \<Rightarrow> JNull | Some r \<Rightarrow> enc_g_result r) = Some (gp_result p)"
    using assms by (intro dec_ptr_case conjI g_result_read) (auto simp: g_part_ok_def)
  ultimately show ?thesis by (simp add: dec_g_part_def g_part_members)
qed

definition g_response_ok :: "g_response \<Rightarrow> bool" where
  "g_response_ok r \<longleftrightarrow> list_all (\<lambda>c. list_all g_part_ok (gc_parts (gn_content c))) (gr_candidates r)"

lemma dec_null_list: "(\<And>x. x \<in> set xs \<Longrightarrow> f (g x) = Some x) \<Longrightarrow> dec_list f (null_list (map g xs)) = Some xs"
  by (simp add: null_list_def dec_all_map)

lemma null_list_ptr [simp]: "or_else JNull (null_list js) = null_list js"
  by simp

lemma g_content_read: "list_all g_part_ok (gc_parts c) \<Longrightarrow> dec_g_content (enc_g_content c) = Some c"
proof -
  assume ok: "list_all g_part_ok (gc_parts c)"
  have "dec_list dec_g_part (null_list (map (\<lambda>p. JObj (g_part_fields p)) (gc_parts c))) = Some (gc_parts c)"
    using ok by (intro dec_null_list) (simp add: g_part_read list_all_iff)
  then show ?thesis by (simp add: dec_g_content_def enc_g_content_def documents)
qed

lemma g_usage_read: "dec_g_usage (write_g_usage u) = Some u" "write_g_usage u \<noteq> JNull"
  by (simp_all add: dec_g_usage_def write_g_usage_def documents)

lemma web_read: "dec_obj (\<lambda>kv. dec_ptr dec_web (member ''web'' kv)) (write_web w) = Some w"
  by (cases w) (auto simp: write_web_def documents dec_web_def)

lemma grounding_read: "dec_grounding (JObj [(''groundingChunks'', JArr (map write_web ws))]) = Some ws"
proof -
  have "dec_all (dec_obj (\<lambda>kv. dec_ptr dec_web (member ''web'' kv))) (map write_web ws) = Some ws"
    by (rule dec_all_map) (rule web_read)
  then show ?thesis by (simp add: dec_grounding_def documents)
qed

lemma candidate_read:
  assumes "list_all g_part_ok (gc_parts (gn_content c))"
  shows "dec_candidate (write_candidate c) = Some c"
proof -
  have "member ''content'' [(''content'', enc_g_content (gn_content c))] = enc_g_content (gn_content c)" by (simp add: documents)
  moreover have "member ''groundingMetadata'' (omit ''groundingMetadata'' (gn_grounding c = []) j) = (if gn_grounding c \<noteq> [] then j else JNull)" for j by simp
  ultimately show ?thesis using g_content_read [OF assms] grounding_read [of "gn_grounding c"]
    by (cases "gn_grounding c = []") (simp_all add: dec_candidate_def write_candidate_def documents)
qed

lemma g_response_read: "g_response_ok r \<Longrightarrow> dec_g_response (write_g_response r) = Some r"
proof -
  assume ok: "g_response_ok r"
  have "dec_list dec_candidate (null_list (map write_candidate (gr_candidates r))) = Some (gr_candidates r)"
    using ok by (intro dec_null_list candidate_read) (simp add: g_response_ok_def list_all_iff)
  then show ?thesis by (cases "gr_usage r") (simp_all add: dec_g_response_def write_g_response_def documents g_usage_read)
qed

definition write_g_error :: "string \<Rightarrow> string \<Rightarrow> int \<Rightarrow> json" where
  "write_g_error msg status code = JObj [(''error'', JObj [(''code'', enc_int code), (''message'', JStr msg), (''status'', JStr status)])]"

lemma g_error_read: "dec_g_error (write_g_error msg status code) = Some msg"
  by (simp add: dec_g_error_def write_g_error_def documents)

text \<open>
  A call that comes without arguments is passed on with \<open>null\<close> for them, and goes back with \<open>null\<close> in the
  place of an object.
\<close>

lemma call_without_args:
  assumes "parse ''null'' = Inr JNull"
  shows "dec_g_part (JObj [(''functionCall'', JObj [(''name'', JStr n)])]) = Some (zero_g_part\<lparr>gp_call := Some (n, None)\<rparr>)"
    and "tc_arguments (g_tool_call (generate_codec parse show') p (n, None)) = ''null''"
    and "g_part_fields (call_part (generate_codec parse show') (zero_call\<lparr>tc_name := n, tc_arguments := ''null''\<rparr>)) =
      [(''functionCall'', JObj [(''name'', JStr n), (''args'', JNull)])]"
  using assms
  by (simp_all add: dec_g_part_def dec_g_call_def documents zero_g_part_def g_tool_call_def generate_codec_def g_part_fields_def call_part_def
      zero_call_def g_signature_def enc_g_call_def omit_str_def omit_def)

section \<open>A call over JSON\<close>

definition generate_body :: "(string \<Rightarrow> go_error + json) \<Rightarrow> (json \<Rightarrow> string) \<Rightarrow> 'w gemini \<Rightarrow> completion_request \<Rightarrow> go_error + json" where
  "generate_body parse show' p req =
     (case g_buildRequestBody (generate_codec parse show') p req of
        Inl e \<Rightarrow> Inl e
      | Inr r \<Rightarrow> (case enc_g_request r of
            None \<Rightarrow> Inl (Opaque ''json: error calling MarshalJSON for type json.RawMessage'') | Some j \<Rightarrow> Inr j))"

definition generate_post :: "(json \<Rightarrow> string) \<Rightarrow> (string \<times> string option \<times> string, 'w) transport \<Rightarrow> 'w gemini_transport" where
  "generate_post write post = (\<lambda>(url, auth, r). post (url, auth, case enc_g_request r of None \<Rightarrow> [] | Some j \<Rightarrow> write j))"

definition generate_Complete :: "(string \<Rightarrow> go_error + json) \<Rightarrow> (json \<Rightarrow> string) \<Rightarrow> (json \<Rightarrow> string) \<Rightarrow> 'w gemini
    \<Rightarrow> (string \<times> string option \<times> string, 'w) transport \<Rightarrow> 'w complete_fn" where
  "generate_Complete parse write show' p post req w =
     (case generate_body parse show' p req of
        Inl e \<Rightarrow> (Inl e, w)
      | Inr j \<Rightarrow> gemini_Complete (generate_codec parse show') p (generate_post write post) req w)"

text \<open>A service that answers the document of a request with a response, or with a failure: its status, its message and the name of the status.\<close>

type_synonym 'w generate_server = "string \<Rightarrow> json \<Rightarrow> 'w \<Rightarrow> (int \<times> string \<times> string + g_response) \<times> 'w"

definition generate_json :: "int \<times> string \<times> string + g_response \<Rightarrow> json" where
  "generate_json a = (case a of Inl (code, msg, status) \<Rightarrow> write_g_error msg status code | Inr r \<Rightarrow> write_g_response r)"

definition generate_ok :: "int \<times> string \<times> string + g_response \<Rightarrow> bool" where
  "generate_ok a = (case a of Inl (code, msg, status) \<Rightarrow> code \<noteq> 200 \<and> msg \<noteq> [] | Inr r \<Rightarrow> g_response_ok r)"

definition generate_serve :: "(string \<Rightarrow> go_error + json) \<Rightarrow> (json \<Rightarrow> string) \<Rightarrow> 'w generate_server
    \<Rightarrow> (string \<times> string option \<times> string, 'w) transport" where
  "generate_serve parse write h = (\<lambda>(url, auth, body) w.
     (case parse body of
        Inl e \<Rightarrow> (Inr \<lparr>hr_status = 400, hr_body = [], hr_fail = None, hr_retry_after = 0\<rparr>, w)
      | Inr j \<Rightarrow>
          (case h url j w of (a, w') \<Rightarrow>
             (Inr \<lparr>hr_status = (case a of Inl (code, _) \<Rightarrow> code | Inr r \<Rightarrow> 200), hr_body = write (generate_json a),
                hr_fail = None, hr_retry_after = 0\<rparr>, w'))))"

text \<open>
  A completion with an API key over a service that speaks the documents of the code's types is the
  service's own answer to the request document, with its thoughts, calls, signatures and
  citations, and a failure is an \<open>APIError\<close> with its status and message.
\<close>

theorem generate_call_transparent:
  assumes key: "\<not> isVertex p" and ok: "\<And>url j v. generate_ok (fst (h url j v))"
    and sent: "\<And>j. generate_body parse show' p req = Inr j \<Longrightarrow> parse (write j) = Inr j"
    and read: "\<And>url j v. parse (write (generate_json (fst (h url j v)))) = Inr (generate_json (fst (h url j v)))"
  shows "generate_Complete parse write show' p (generate_serve parse write h) req w =
    (case generate_body parse show' p req of
       Inl e \<Rightarrow> (Inl e, w)
     | Inr j \<Rightarrow>
         (case h (buildURL p (req_model req) ''generateContent'' False) j w of
            (Inr r, w') \<Rightarrow> (Inr (g_parseResponse (generate_codec parse show') r), w')
          | (Inl (code, msg, status), w') \<Rightarrow>
              (Inl (APIErr \<lparr>ae_status = code, ae_message = msg, ae_provider = ''gemini'', ae_retry_after = 0\<rparr>), w')))"
proof (cases "generate_body parse show' p req")
  case (Inr j)
  let ?cd = "generate_codec parse show'" and ?url = "buildURL p (req_model req) ''generateContent'' False"
  obtain body where body: "g_buildRequestBody ?cd p req = Inr body" "enc_g_request body = Some j"
    using Inr by (auto simp: generate_body_def split: sum.splits option.splits)
  obtain a w' where h: "h ?url j w = (a, w')" by fastforce
  have a: "generate_ok a" "parse (write (generate_json a)) = Inr (generate_json a)" using ok [of ?url j w] read [of ?url j w] h by simp_all
  have codec: "gj_error ?cd s = (case read_body parse dec_g_error s of Inl _ \<Rightarrow> None | Inr m \<Rightarrow> Some m)"
    "gj_response ?cd s = read_body parse dec_g_response s" for s by (simp_all add: generate_codec_def)
  note exchange = generate_Complete_def gemini_Complete_def g_doRequest_def send_request_def generate_serve_def generate_post_def
    api_failure_def read_body_def codec providerName_def
  show ?thesis
  proof (cases a)
    case (Inl f)
    obtain code msg status where f: "f = (code, msg, status)" by (cases f)
    obtain c m where m: "msg = c # m" using a(1) Inl f by (cases msg) (simp_all add: generate_ok_def)
    show ?thesis using \<open>generate_body parse show' p req = Inr j\<close> body h key sent [OF Inr] a Inl f m
      by (simp add: exchange generate_ok_def generate_json_def g_error_read)
  next
    case (Inr r)
    then show ?thesis using \<open>generate_body parse show' p req = Inr j\<close> body h key sent [OF \<open>generate_body parse show' p req = Inr j\<close>] a
      by (simp add: exchange generate_ok_def generate_json_def g_response_read)
  qed
qed (simp add: generate_Complete_def)

end
