(* ===== verification/Responses_Documents.thy ===== *)
theory Responses_Documents
  imports Responses_Properties Json_Documents
begin

text \<open>
  The JSON documents of the Responses API (\<open>llm/openai/responses.go\<close>): a request as \<open>json.Marshal\<close> writes it,
  with the items it replays, and responses, items and events as \<open>json.Unmarshal\<close> reads them. A \<open>json.RawMessage\<close> is the
  text of a value within a larger one, and keeps its spelling; \<open>spelling\<close> tells it: of the elements of a list, of
  the output items of a body, and of the item of an event.
\<close>

record spelling =
  sp_element :: "string \<Rightarrow> nat \<Rightarrow> string"
  sp_output :: "string \<Rightarrow> nat \<Rightarrow> string"
  sp_item :: "string \<Rightarrow> string"

section \<open>Requests\<close>

definition enc_r_part :: "r_part \<Rightarrow> json" where
  "enc_r_part p = JObj ([(''type'', JStr (rp_type p))] @ omit_str ''text'' (rp_text p) @ omit_str ''image_url'' (rp_image_url p) @
     omit_str ''file_data'' (rp_file_data p) @ omit_str ''file_url'' (rp_file_url p) @ omit_str ''filename'' (rp_filename p))"

text \<open>\<open>MarshalJSON\<close> of an item: the raw one as it is, which must be JSON, or its fields.\<close>

definition enc_r_item :: "(string \<Rightarrow> go_error + json) \<Rightarrow> r_item \<Rightarrow> json option" where
  "enc_r_item parse it =
     (case ri_raw it of
        Some raw \<Rightarrow> (case parse raw of Inl _ \<Rightarrow> None | Inr j \<Rightarrow> Some j)
      | None \<Rightarrow> Some (JObj (omit_str ''type'' (ri_type it) @ omit_str ''role'' (ri_role it) @
          omit ''content'' (ri_content it = []) (JArr (map enc_r_part (ri_content it))) @ omit_str ''call_id'' (ri_call_id it) @
          omit_str ''name'' (ri_name it) @ omit_str ''arguments'' (ri_arguments it) @ omit_str ''output'' (ri_output it))))"

definition enc_filters :: "string list \<Rightarrow> json" where
  "enc_filters ds = JObj (omit ''allowed_domains'' (ds = []) (enc_strs ds))"

definition enc_r_location :: "string \<Rightarrow> json" where
  "enc_r_location c = JObj ([(''type'', JStr ''approximate'')] @ omit_str ''country'' c)"

definition enc_r_tool :: "r_tool \<Rightarrow> json option" where
  "enc_r_tool t = map_option (\<lambda>ps. JObj ([(''type'', JStr (rt_type t))] @ omit_str ''name'' (rt_name t) @
       omit_str ''description'' (rt_description t) @ ps @ omit ''filters'' (rt_domains t = []) (enc_filters (rt_domains t)) @
       (case rt_country t of None \<Rightarrow> [] | Some c \<Rightarrow> [(''user_location'', enc_r_location c)])))
     (enc_raw_field ''parameters'' (rt_parameters t))"

text \<open>The choice of a function is a Go map, written in the order of its keys.\<close>

fun enc_r_choice :: "r_choice \<Rightarrow> json" where
  "enc_r_choice (RMode s) = JStr s"
| "enc_r_choice (RFunction n) = JObj [(''name'', JStr n), (''type'', JStr ''function'')]"

definition enc_r_reasoning :: "r_reasoning \<Rightarrow> json" where
  "enc_r_reasoning r = JObj (omit_str ''effort'' (rr_effort r) @ omit_str ''summary'' (rr_summary r))"

fun enc_r_format :: "wire_format \<Rightarrow> json option" where
  "enc_r_format FormatObject = Some (JObj [(''type'', JStr ''json_object'')])"
| "enc_r_format (FormatSchema raw) = map_option (\<lambda>schema. JObj ([(''type'', JStr ''json_schema''), (''name'', JStr ''response'')] @ schema @
     [(''strict'', JBool True)])) (enc_raw_field ''schema'' raw)"

definition r_fields :: "r_request \<Rightarrow> json list \<Rightarrow> json list \<Rightarrow> json option \<Rightarrow> (string \<times> json) list" where
  "r_fields r items tools fmt =
     [(''model'', JStr (rq_model r))] @ omit_str ''instructions'' (rq_instructions r) @ [(''input'', null_list items)] @
     omit ''tools'' (tools = []) (JArr tools) @ (case rq_choice r of None \<Rightarrow> [] | Some c \<Rightarrow> [(''tool_choice'', enc_r_choice c)]) @
     (case rq_temperature r of None \<Rightarrow> [] | Some t \<Rightarrow> [(''temperature'', JNum t)]) @
     (case rq_top_p r of None \<Rightarrow> [] | Some t \<Rightarrow> [(''top_p'', JNum t)]) @
     (case rq_max_tokens r of None \<Rightarrow> [] | Some n \<Rightarrow> [(''max_output_tokens'', enc_int n)]) @
     (case rq_reasoning r of None \<Rightarrow> [] | Some e \<Rightarrow> [(''reasoning'', enc_r_reasoning e)]) @
     (case fmt of None \<Rightarrow> [] | Some j \<Rightarrow> [(''text'', JObj [(''format'', j)])]) @
     omit ''include'' (rq_include r = []) (enc_strs (rq_include r)) @ [(''store'', JBool (rq_store r))] @
     omit ''stream'' (\<not> rq_stream r) (JBool True)"

definition enc_r_request :: "(string \<Rightarrow> go_error + json) \<Rightarrow> r_request \<Rightarrow> json option" where
  "enc_r_request parse r = do {
     items \<leftarrow> dec_all (enc_r_item parse) (rq_input r);
     tools \<leftarrow> dec_all enc_r_tool (rq_tools r);
     fmt \<leftarrow> (case rq_format r of None \<Rightarrow> Some None | Some f \<Rightarrow> map_option Some (enc_r_format f));
     Some (JObj (r_fields r items tools fmt)) }"

section \<open>Responses, items and events\<close>

definition dec_r_annotation :: "json \<Rightarrow> r_annotation option" where
  "dec_r_annotation = dec_obj (\<lambda>kv. do { y \<leftarrow> dec_str (member ''type'' kv); u \<leftarrow> dec_str (member ''url'' kv); t \<leftarrow> dec_str (member ''title'' kv);
     s \<leftarrow> dec_int (member ''start_index'' kv); e \<leftarrow> dec_int (member ''end_index'' kv);
     Some \<lparr>ra_type = y, ra_url = u, ra_title = t, ra_start = s, ra_finish = e\<rparr> })"

definition dec_r_content :: "json \<Rightarrow> r_content option" where
  "dec_r_content = dec_obj (\<lambda>kv. do { y \<leftarrow> dec_str (member ''type'' kv); t \<leftarrow> dec_str (member ''text'' kv); r \<leftarrow> dec_str (member ''refusal'' kv);
     as \<leftarrow> dec_list dec_r_annotation (member ''annotations'' kv); Some \<lparr>rc_text = t, rc_refusal = r, rc_annotations = as\<rparr> })"

definition dec_one :: "string \<Rightarrow> json \<Rightarrow> string option" where
  "dec_one k = dec_obj (\<lambda>kv. dec_str (member k kv))"

definition dec_r_output :: "json \<Rightarrow> r_output option" where
  "dec_r_output = dec_obj (\<lambda>kv. do { y \<leftarrow> dec_str (member ''type'' kv); c \<leftarrow> dec_str (member ''call_id'' kv); n \<leftarrow> dec_str (member ''name'' kv);
     a \<leftarrow> dec_str (member ''arguments'' kv); cs \<leftarrow> dec_list dec_r_content (member ''content'' kv);
     ss \<leftarrow> dec_list (dec_one ''text'') (member ''summary'' kv);
     Some \<lparr>ro_type = y, ro_call_id = c, ro_name = n, ro_arguments = a, ro_content = cs, ro_summary = ss\<rparr> })"

definition dec_details :: "string \<Rightarrow> json \<Rightarrow> int option" where
  "dec_details k = dec_obj (\<lambda>kv. dec_int (member k kv))"

definition dec_r_usage :: "json \<Rightarrow> r_usage option" where
  "dec_r_usage = dec_obj (\<lambda>kv. do { i \<leftarrow> dec_int (member ''input_tokens'' kv); out \<leftarrow> dec_int (member ''output_tokens'' kv);
     t \<leftarrow> dec_int (member ''total_tokens'' kv); c \<leftarrow> dec_details ''cached_tokens'' (member ''input_tokens_details'' kv);
     r \<leftarrow> dec_details ''reasoning_tokens'' (member ''output_tokens_details'' kv);
     Some \<lparr>ru_input = i, ru_output = out, ru_total = t, ru_cached = c, ru_reasoning = r\<rparr> })"

definition dec_r_response :: "(nat \<Rightarrow> string) \<Rightarrow> json \<Rightarrow> r_response option" where
  "dec_r_response texts = dec_obj (\<lambda>kv. do { m \<leftarrow> dec_str (member ''model'' kv); s \<leftarrow> dec_str (member ''status'' kv);
     i \<leftarrow> dec_ptr (dec_one ''reason'') (member ''incomplete_details'' kv); js \<leftarrow> dec_list Some (member ''output'' kv);
     u \<leftarrow> dec_ptr dec_r_usage (member ''usage'' kv); e \<leftarrow> dec_ptr (dec_one ''message'') (member ''error'' kv);
     Some \<lparr>rs_model = m, rs_status = s, rs_incomplete = i, rs_output = map texts [0..<length js], rs_usage = u, rs_error = e\<rparr> })"

definition dec_r_event :: "(nat \<Rightarrow> string) \<Rightarrow> string \<Rightarrow> json \<Rightarrow> r_event option" where
  "dec_r_event texts item = dec_obj (\<lambda>kv. do { y \<leftarrow> dec_str (member ''type'' kv); d \<leftarrow> dec_str (member ''delta'' kv);
     i \<leftarrow> dec_int (member ''output_index'' kv); a \<leftarrow> dec_ptr dec_r_annotation (member ''annotation'' kv);
     r \<leftarrow> dec_ptr (dec_r_response texts) (member ''response'' kv); m \<leftarrow> dec_str (member ''message'' kv);
     Some \<lparr>re_kind = y, re_delta = d, re_index = i, re_item = item, re_annotation = a, re_response = r, re_message = m\<rparr> })"

definition dec_r_error :: "json \<Rightarrow> string option" where
  "dec_r_error = dec_obj (\<lambda>kv. dec_one ''message'' (member ''error'' kv))"

text \<open>A list of raw messages: read as the texts of its elements, and written when each of them is JSON.\<close>

definition raw_list :: "(string \<Rightarrow> go_error + json) \<Rightarrow> spelling \<Rightarrow> string \<Rightarrow> go_error + string list" where
  "raw_list parse sp s = map_sum (\<lambda>e. e) (\<lambda>js. map (sp_element sp s) [0..<length js]) (read_body parse (dec_list Some) s)"

definition show_raw_list :: "(string \<Rightarrow> go_error + json) \<Rightarrow> (json \<Rightarrow> string) \<Rightarrow> string list \<Rightarrow> go_error + string" where
  "show_raw_list parse write raws =
     (case dec_all (\<lambda>raw. case parse raw of Inl _ \<Rightarrow> None | Inr j \<Rightarrow> Some j) raws of
        None \<Rightarrow> Inl (Opaque ''json: error calling MarshalJSON for type json.RawMessage'') | Some js \<Rightarrow> Inr (write (JArr js)))"

definition json_codec_of :: "(string \<Rightarrow> go_error + json) \<Rightarrow> (json \<Rightarrow> string) \<Rightarrow> spelling \<Rightarrow> responses_codec" where
  "json_codec_of parse write sp =
     \<lparr>rj_list = raw_list parse sp, rj_show_list = show_raw_list parse write, rj_item = read_body parse dec_r_output,
      rj_response = (\<lambda>s. read_body parse (dec_r_response (sp_output sp s)) s),
      rj_event = (\<lambda>s. case read_body parse (dec_r_event (sp_output sp s) (sp_item sp s)) s of Inl _ \<Rightarrow> None | Inr e \<Rightarrow> Some e),
      rj_error = (\<lambda>s. case read_body parse dec_r_error s of Inl _ \<Rightarrow> None | Inr m \<Rightarrow> Some m)\<rparr>"

section \<open>The other end\<close>

lemma responses_names [simp]:
  "ToLower ''annotation'' = ''annotation''" "ToLower ''annotations'' = ''annotations''"
  "ToLower ''arguments'' = ''arguments''" "ToLower ''cached_tokens'' = ''cached_tokens''"
  "ToLower ''call_id'' = ''call_id''" "ToLower ''content'' = ''content''" "ToLower ''delta'' = ''delta''"
  "ToLower ''end_index'' = ''end_index''" "ToLower ''error'' = ''error''"
  "ToLower ''incomplete_details'' = ''incomplete_details''" "ToLower ''input_tokens'' = ''input_tokens''"
  "ToLower ''input_tokens_details'' = ''input_tokens_details''" "ToLower ''item'' = ''item''"
  "ToLower ''message'' = ''message''" "ToLower ''model'' = ''model''" "ToLower ''name'' = ''name''"
  "ToLower ''output'' = ''output''" "ToLower ''output_index'' = ''output_index''"
  "ToLower ''output_tokens'' = ''output_tokens''" "ToLower ''output_tokens_details'' = ''output_tokens_details''"
  "ToLower ''reason'' = ''reason''" "ToLower ''reasoning_tokens'' = ''reasoning_tokens''"
  "ToLower ''refusal'' = ''refusal''" "ToLower ''response'' = ''response''" "ToLower ''start_index'' = ''start_index''"
  "ToLower ''status'' = ''status''" "ToLower ''summary'' = ''summary''" "ToLower ''text'' = ''text''"
  "ToLower ''title'' = ''title''" "ToLower ''total_tokens'' = ''total_tokens''" "ToLower ''type'' = ''type''"
  "ToLower ''url'' = ''url''" "ToLower ''usage'' = ''usage''"
  by (simp_all add: ToLower_def ascii_lower_def)

definition write_annotation_r :: "r_annotation \<Rightarrow> json" where
  "write_annotation_r a = JObj [(''type'', JStr (ra_type a)), (''url'', JStr (ra_url a)), (''title'', JStr (ra_title a)),
     (''start_index'', enc_int (ra_start a)), (''end_index'', enc_int (ra_finish a))]"

definition write_content :: "r_content \<Rightarrow> json" where
  "write_content c = JObj ([(''type'', JStr (if rc_refusal c = [] then ''output_text'' else ''refusal''))] @ omit_str ''text'' (rc_text c) @
     omit_str ''refusal'' (rc_refusal c) @ [(''annotations'', JArr (map write_annotation_r (rc_annotations c)))])"

definition write_output :: "r_output \<Rightarrow> json" where
  "write_output it = JObj ([(''type'', JStr (ro_type it))] @ omit_str ''call_id'' (ro_call_id it) @ omit_str ''name'' (ro_name it) @
     omit_str ''arguments'' (ro_arguments it) @ omit ''content'' (ro_content it = []) (JArr (map write_content (ro_content it))) @
     omit ''summary'' (ro_summary it = []) (JArr (map (\<lambda>t. JObj [(''type'', JStr ''summary_text''), (''text'', JStr t)]) (ro_summary it))))"

definition write_r_usage :: "r_usage \<Rightarrow> json" where
  "write_r_usage u = JObj [(''input_tokens'', enc_int (ru_input u)), (''output_tokens'', enc_int (ru_output u)), (''total_tokens'', enc_int (ru_total u)),
     (''input_tokens_details'', JObj [(''cached_tokens'', enc_int (ru_cached u))]),
     (''output_tokens_details'', JObj [(''reasoning_tokens'', enc_int (ru_reasoning u))])]"

text \<open>A body with its output items; \<open>rs_output\<close> is how they are spelled in it.\<close>

definition write_r_response :: "r_response \<Rightarrow> json list \<Rightarrow> json" where
  "write_r_response r items = JObj [(''model'', JStr (rs_model r)), (''status'', JStr (rs_status r)),
     (''incomplete_details'', case rs_incomplete r of None \<Rightarrow> JNull | Some m \<Rightarrow> JObj [(''reason'', JStr m)]),
     (''output'', JArr items), (''usage'', case rs_usage r of None \<Rightarrow> JNull | Some u \<Rightarrow> write_r_usage u),
     (''error'', case rs_error r of None \<Rightarrow> JNull | Some m \<Rightarrow> JObj [(''message'', JStr m)])]"

lemma annotation_r_read: "dec_r_annotation (write_annotation_r a) = Some a"
  by (simp add: dec_r_annotation_def write_annotation_r_def documents)

lemma content_read_r: "dec_r_content (write_content c) = Some c"
  by (simp add: dec_r_content_def write_content_def documents dec_all_map annotation_r_read)

lemma output_read: "dec_r_output (write_output it) = Some it"
proof -
  have "dec_all (dec_one ''text'') (map (\<lambda>t. JObj [(''type'', JStr ''summary_text''), (''text'', JStr t)]) ss) = Some ss" for ss
    by (rule dec_all_map) (simp add: dec_one_def documents)
  then show ?thesis by (simp add: dec_r_output_def write_output_def documents dec_all_map content_read_r)
qed

lemma r_usage_read: "dec_r_usage (write_r_usage u) = Some u" "write_r_usage u \<noteq> JNull"
  by (simp_all add: dec_r_usage_def write_r_usage_def dec_details_def documents)

lemma dec_all_Some [simp]: "dec_all Some js = Some js"
  by (induction js) simp_all

lemma r_response_read:
  assumes "length items = length (rs_output r)" "\<And>i. i < length (rs_output r) \<Longrightarrow> texts i = rs_output r ! i"
  shows "dec_r_response texts (write_r_response r items) = Some r"
proof -
  have "map texts [0..<length items] = rs_output r" using assms by (intro nth_equalityI) simp_all
  then show ?thesis
    by (cases "rs_incomplete r"; cases "rs_usage r"; cases "rs_error r")
      (simp_all add: dec_r_response_def write_r_response_def documents dec_one_def r_usage_read)
qed

section \<open>Replayed items\<close>

definition meaning :: "(string \<Rightarrow> go_error + json) \<Rightarrow> string \<Rightarrow> json option" where
  "meaning parse raw = (case parse raw of Inl _ \<Rightarrow> None | Inr j \<Rightarrow> Some j)"

text \<open>
  The list of reasoning items that is kept with a call is read back as items of the same meaning, and the
  next request carries each of them as the document it was.
\<close>

lemma kept_list_round_trip:
  assumes "\<And>js. parse (write (JArr js)) = Inr (JArr js) \<and> write (JArr js) \<noteq> []"
    and "\<And>js i. i < length js \<Longrightarrow> parse (sp_element sp (write (JArr js)) i) = Inr (js ! i)"
  shows "lists_round_trip (json_codec_of parse write sp) (meaning parse) rs"
proof (cases "dec_all (meaning parse) rs")
  case None
  then show ?thesis by (simp add: lists_round_trip_def json_codec_of_def show_raw_list_def meaning_def [abs_def])
next
  case (Some js)
  have ms: "map (meaning parse) rs = map Some js" using Some
    by (induction rs arbitrary: js) (auto split: option.splits)
  have "map (\<lambda>i. meaning parse (sp_element sp (write (JArr js)) i)) [0..<length js] = map Some js"
    using assms(2) by (intro nth_equalityI) (simp_all add: meaning_def)
  then show ?thesis using Some assms(1) [of js] ms
    by (simp add: lists_round_trip_def json_codec_of_def show_raw_list_def raw_list_def read_body_def meaning_def [abs_def] comp_def)
qed

lemma replayed_as_it_was: "enc_r_item parse (zero_item\<lparr>ri_raw := Some raw\<rparr>) = meaning parse raw"
  by (simp add: enc_r_item_def meaning_def)

text \<open>
  An item with an empty field is written without it. A call's output is not optional, so that the result of
  a tool that returns nothing is refused by the service; nor are the arguments of a call.
\<close>

lemma empty_result_without_output:
  "enc_r_item parse (result_item (i, [])) = Some (JObj ([(''type'', JStr ''function_call_output'')] @ omit_str ''call_id'' i))"
  by (simp add: enc_r_item_def result_item_def zero_item_def omit_str_def omit_def)

lemma empty_call_without_arguments:
  "tc_arguments tc = [] \<Longrightarrow> enc_r_item parse (call_item tc) =
     Some (JObj ([(''type'', JStr ''function_call'')] @ omit_str ''call_id'' (tc_id tc) @ omit_str ''name'' (tc_name tc)))"
  by (simp add: enc_r_item_def call_item_def zero_item_def omit_str_def omit_def)

section \<open>A call over JSON\<close>

definition responses_body :: "(string \<Rightarrow> go_error + json) \<Rightarrow> (json \<Rightarrow> string) \<Rightarrow> spelling \<Rightarrow> completion_request \<Rightarrow> bool \<Rightarrow> go_error + json" where
  "responses_body parse write sp req stream =
     (case buildRequest (json_codec_of parse write sp) req stream of
        Inl e \<Rightarrow> Inl e
      | Inr r \<Rightarrow> (case enc_r_request parse r of
            None \<Rightarrow> Inl (Opaque ''json: error calling MarshalJSON for type json.RawMessage'') | Some j \<Rightarrow> Inr j))"

definition responses_post :: "(string \<Rightarrow> go_error + json) \<Rightarrow> (json \<Rightarrow> string) \<Rightarrow> (string \<times> (string \<times> string) list \<times> string, 'w) transport
    \<Rightarrow> 'w r_transport" where
  "responses_post parse write post = (\<lambda>(url, hs, r). post (url, hs, case enc_r_request parse r of None \<Rightarrow> [] | Some j \<Rightarrow> write j))"

definition json_Complete :: "(string \<Rightarrow> go_error + json) \<Rightarrow> (json \<Rightarrow> string) \<Rightarrow> spelling \<Rightarrow> responses_client
    \<Rightarrow> (string \<times> (string \<times> string) list \<times> string, 'w) transport \<Rightarrow> 'w complete_fn" where
  "json_Complete parse write sp c post req w =
     (case responses_body parse write sp req False of
        Inl e \<Rightarrow> (Inl e, w)
      | Inr j \<Rightarrow> responses_Complete (json_codec_of parse write sp) c (responses_post parse write post) req w)"

text \<open>A service that answers the document of a request with a response and its items, or with a failure.\<close>

type_synonym r_answer = "int \<times> string + r_response \<times> json list"

definition r_answer_json :: "r_answer \<Rightarrow> json" where
  "r_answer_json a = (case a of Inl (status, msg) \<Rightarrow> JObj [(''error'', JObj [(''message'', JStr msg)])] | Inr (r, items) \<Rightarrow> write_r_response r items)"

definition r_answer_ok :: "(json \<Rightarrow> string) \<Rightarrow> spelling \<Rightarrow> r_answer \<Rightarrow> bool" where
  "r_answer_ok write sp a = (case a of
     Inl (status, msg) \<Rightarrow> status \<noteq> 200 \<and> msg \<noteq> []
   | Inr (r, items) \<Rightarrow> length items = length (rs_output r) \<and>
       (\<forall>i<length (rs_output r). sp_output sp (write (r_answer_json a)) i = rs_output r ! i))"

definition responses_serve :: "(string \<Rightarrow> go_error + json) \<Rightarrow> (json \<Rightarrow> string) \<Rightarrow> (json \<Rightarrow> 'w \<Rightarrow> r_answer \<times> 'w)
    \<Rightarrow> (string \<times> (string \<times> string) list \<times> string, 'w) transport" where
  "responses_serve parse write h = (\<lambda>(url, hs, body) w.
     (case parse body of
        Inl e \<Rightarrow> (Inr \<lparr>hr_status = 400, hr_body = [], hr_fail = None, hr_retry_after = 0\<rparr>, w)
      | Inr j \<Rightarrow>
          (case h j w of (a, w') \<Rightarrow>
             (Inr \<lparr>hr_status = (case a of Inl (status, _) \<Rightarrow> status | Inr r \<Rightarrow> 200), hr_body = write (r_answer_json a),
                hr_fail = None, hr_retry_after = 0\<rparr>, w'))))"

definition responses_result :: "responses_codec \<Rightarrow> r_response \<Rightarrow> go_error + completion_response" where
  "responses_result cd r = (case (rs_status r = ''failed'', rs_error r) of
     (True, Some msg) \<Rightarrow> Inl (Errorf ''openai: response failed: %s'' [FStr msg]) | _ \<Rightarrow> parseOutput cd r)"

theorem responses_call_transparent:
  assumes ok: "\<And>j v. r_answer_ok write sp (fst (h j v))"
    and sent: "\<And>j. responses_body parse write sp req False = Inr j \<Longrightarrow> parse (write j) = Inr j"
    and read: "\<And>j v. parse (write (r_answer_json (fst (h j v)))) = Inr (r_answer_json (fst (h j v)))"
  shows "json_Complete parse write sp c (responses_serve parse write h) req w =
    (case responses_body parse write sp req False of
       Inl e \<Rightarrow> (Inl e, w)
     | Inr j \<Rightarrow>
         (case h j w of
            (Inr (r, items), w') \<Rightarrow> (responses_result (json_codec_of parse write sp) r, w')
          | (Inl (status, msg), w') \<Rightarrow>
              (Inl (APIErr \<lparr>ae_status = status, ae_message = msg, ae_provider = ''openai'', ae_retry_after = 0\<rparr>), w')))"
proof (cases "responses_body parse write sp req False")
  case (Inr j)
  let ?cd = "json_codec_of parse write sp"
  obtain body where body: "buildRequest ?cd req False = Inr body" "enc_r_request parse body = Some j"
    using Inr by (auto simp: responses_body_def split: sum.splits option.splits)
  obtain a w' where h: "h j w = (a, w')" by fastforce
  have a: "r_answer_ok write sp a" "parse (write (r_answer_json a)) = Inr (r_answer_json a)" using ok [of j w] read [of j w] h by simp_all
  have codec: "rj_error ?cd s = (case read_body parse dec_r_error s of Inl _ \<Rightarrow> None | Inr m \<Rightarrow> Some m)"
    "rj_response ?cd s = read_body parse (dec_r_response (sp_output sp s)) s" for s by (simp_all add: json_codec_of_def)
  note exchange = json_Complete_def responses_Complete_def r_do_def send_request_def responses_serve_def responses_post_def
    api_failure_def read_body_def codec
  show ?thesis
  proof (cases a)
    case (Inl f)
    obtain status msg where f: "f = (status, msg)" by (cases f)
    obtain x m where m: "msg = x # m" using a(1) Inl f by (cases msg) (simp_all add: r_answer_ok_def)
    have "dec_r_error (JObj [(''error'', JObj [(''message'', JStr msg)])]) = Some msg" by (simp add: dec_r_error_def dec_one_def documents)
    then show ?thesis using \<open>responses_body parse write sp req False = Inr j\<close> body h sent [OF Inr] a Inl f m
      by (simp add: exchange r_answer_ok_def r_answer_json_def)
  next
    case (Inr ri)
    obtain r items where ri: "ri = (r, items)" by (cases ri)
    have "dec_r_response (sp_output sp (write (r_answer_json a))) (write_r_response r items) = Some r"
      using a(1) Inr ri by (intro r_response_read) (simp_all add: r_answer_ok_def)
    then show ?thesis using \<open>responses_body parse write sp req False = Inr j\<close> body h sent [OF \<open>responses_body parse write sp req False = Inr j\<close>] a Inr ri
      by (simp add: exchange r_answer_json_def responses_result_def)
  qed
qed (simp add: json_Complete_def)

end
