(* ===== verification/Request_Signing.thy ===== *)
theory Request_Signing
  imports Url_Encodings Transport
begin

text \<open>
  Signing and tokens for the cloud providers: AWS Signature Version 4 (\<open>internal/awssig/sigv4.go\<close>) and
  the service-account token source of Vertex AI (\<open>llm/gemini/oauth.go\<close>).

  The hash, the keyed hash and the RSA signature are parameters; so are the clock, the network and
  the reading of keys and JSON text. Strings are strings of bytes.
\<close>

section \<open>AWS Signature Version 4\<close>

record crypto =
  cr_sha256 :: "string \<Rightarrow> string"
  cr_hmac :: "string \<Rightarrow> string \<Rightarrow> string"

record Credentials =
  cd_access_key :: string
  cd_secret_key :: string
  cd_session :: string

record Signer =
  sg_credentials :: Credentials
  sg_region :: string
  sg_service :: string

text \<open>A UTC time, in whole seconds.\<close>

record utc_time =
  ut_year :: nat
  ut_month :: nat
  ut_day :: nat
  ut_hour :: nat
  ut_minute :: nat
  ut_second :: nat

record aws_request =
  wq_method :: string
  wq_host :: string
  wq_url_host :: string
  wq_path :: string
  wq_query :: "(string \<times> string) list"
  wq_headers :: "(string \<times> string) list"

definition shortDate :: "utc_time \<Rightarrow> string" where
  "shortDate t = pad 4 (ut_year t) @ pad 2 (ut_month t) @ pad 2 (ut_day t)"

definition amzDate :: "utc_time \<Rightarrow> string" where
  "amzDate t = shortDate t @ ''T'' @ pad 2 (ut_hour t) @ pad 2 (ut_minute t) @ pad 2 (ut_second t) @ ''Z''"

definition hexSHA256 :: "crypto \<Rightarrow> string \<Rightarrow> string" where
  "hexSHA256 cr data = EncodeToString (cr_sha256 cr data)"

definition header_get :: "aws_request \<Rightarrow> string \<Rightarrow> string" where
  "header_get req k = (case map_of (wq_headers req) k of None \<Rightarrow> [] | Some v \<Rightarrow> v)"

definition header_set :: "string \<Rightarrow> string \<Rightarrow> aws_request \<Rightarrow> aws_request" where
  "header_set k v req = req\<lparr>wq_headers := AList.update k v (wq_headers req)\<rparr>"

text \<open>The signed headers, in the order of their names.\<close>

definition signed_pairs :: "aws_request \<Rightarrow> (string \<times> string) list" where
  "signed_pairs req =
     [(''host'', wq_host req), (''x-amz-content-sha256'', header_get req ''X-Amz-Content-Sha256''),
      (''x-amz-date'', header_get req ''X-Amz-Date'')] @
     (let tok = header_get req ''X-Amz-Security-Token'' in if tok = [] then [] else [(''x-amz-security-token'', tok)])"

definition canonicalHeaders :: "aws_request \<Rightarrow> string \<times> string" where
  "canonicalHeaders req =
     (concat (map (\<lambda>(n, v). n @ '':'' @ TrimSpace v @ [CHR 0x0A]) (signed_pairs req)), Join (map fst (signed_pairs req)) '';'')"

definition canonicalURI :: "aws_request \<Rightarrow> string" where
  "canonicalURI req = (if wq_path req = [] then ''/'' else wq_path req)"

definition canonicalQuery :: "aws_request \<Rightarrow> string" where
  "canonicalQuery req = Values_Encode (wq_query req)"

definition signingKey :: "crypto \<Rightarrow> Signer \<Rightarrow> string \<Rightarrow> string" where
  "signingKey cr s date = cr_hmac cr (cr_hmac cr (cr_hmac cr (cr_hmac cr (''AWS4'' @ cd_secret_key (sg_credentials s)) date)
     (sg_region s)) (sg_service s)) ''aws4_request''"

definition dated :: "crypto \<Rightarrow> Signer \<Rightarrow> string \<Rightarrow> utc_time \<Rightarrow> aws_request \<Rightarrow> aws_request" where
  "dated cr s payload now req =
     (let req1 = (if wq_host req = [] then req\<lparr>wq_host := wq_url_host req\<rparr> else req);
          req2 = header_set ''X-Amz-Content-Sha256'' (hexSHA256 cr payload) (header_set ''X-Amz-Date'' (amzDate now) req1)
      in if cd_session (sg_credentials s) = [] then req2 else header_set ''X-Amz-Security-Token'' (cd_session (sg_credentials s)) req2)"

definition canonical_request :: "crypto \<Rightarrow> string \<Rightarrow> aws_request \<Rightarrow> string" where
  "canonical_request cr payload req =
     Join [wq_method req, canonicalURI req, canonicalQuery req, fst (canonicalHeaders req), snd (canonicalHeaders req), hexSHA256 cr payload]
       [CHR 0x0A]"

definition credential_scope :: "Signer \<Rightarrow> utc_time \<Rightarrow> string" where
  "credential_scope s now = Join [shortDate now, sg_region s, sg_service s, ''aws4_request''] ''/''"

definition string_to_sign :: "crypto \<Rightarrow> Signer \<Rightarrow> string \<Rightarrow> utc_time \<Rightarrow> aws_request \<Rightarrow> string" where
  "string_to_sign cr s payload now req =
     Join [''AWS4-HMAC-SHA256'', amzDate now, credential_scope s now, hexSHA256 cr (canonical_request cr payload req)] [CHR 0x0A]"

definition Sign :: "crypto \<Rightarrow> Signer \<Rightarrow> string \<Rightarrow> utc_time \<Rightarrow> aws_request \<Rightarrow> aws_request" where
  "Sign cr s payload now req =
     (let r = dated cr s payload now req;
          sig = EncodeToString (cr_hmac cr (signingKey cr s (shortDate now)) (string_to_sign cr s payload now r))
      in header_set ''Authorization'' (''AWS4-HMAC-SHA256 Credential='' @ cd_access_key (sg_credentials s) @ ''/'' @ credential_scope s now @
           '', SignedHeaders='' @ snd (canonicalHeaders r) @ '', Signature='' @ sig) r)"

section \<open>Service-account tokens\<close>

record sa_key =
  sk_email :: string
  sk_private :: string
  sk_token_uri :: string

record ('k, 'w) sa_env =
  se_now :: "'w \<Rightarrow> int \<times> 'w"
  se_http :: "string \<Rightarrow> string \<Rightarrow> 'w \<Rightarrow> (go_error + http_reply) \<times> 'w"
  se_request :: "string \<Rightarrow> go_error option"
  se_sha256 :: "string \<Rightarrow> string"
  se_rsa_sign :: "'k \<Rightarrow> string \<Rightarrow> 'w \<Rightarrow> (go_error + string) \<times> 'w"
  se_show :: "json \<Rightarrow> string"
  se_account :: "string \<Rightarrow> go_error + sa_key"
  se_token :: "string \<Rightarrow> go_error + string \<times> int"
  se_pem :: "string \<Rightarrow> string option"
  se_pkcs8 :: "string \<Rightarrow> 'k option option"
  se_pkcs1 :: "string \<Rightarrow> 'k option"

record 'k sa_source =
  sv_email :: string
  sv_key :: 'k
  sv_uri :: string
  sv_token :: string
  sv_expires :: int

definition parseRSAPrivateKey :: "('k, 'w) sa_env \<Rightarrow> string \<Rightarrow> go_error + 'k" where
  "parseRSAPrivateKey env s =
     (case se_pem env s of
        None \<Rightarrow> Inl (Sentinel ''no PEM block found in private key'')
      | Some b \<Rightarrow>
          (case se_pkcs8 env b of
             Some (Some k) \<Rightarrow> Inr k
           | Some None \<Rightarrow> Inl (Sentinel ''private key is not RSA'')
           | None \<Rightarrow>
               (case se_pkcs1 env b of
                  Some k \<Rightarrow> Inr k
                | None \<Rightarrow> Inl (Sentinel ''unsupported private key format (want PKCS#8 or PKCS#1 RSA)''))))"

definition NewServiceAccountTokenSource :: "('k, 'w) sa_env \<Rightarrow> string \<Rightarrow> go_error + 'k sa_source" where
  "NewServiceAccountTokenSource env saJSON =
     (case se_account env saJSON of
        Inl e \<Rightarrow> Inl (Errorf ''vertex: parse service account JSON: %w'' [FWrap e])
      | Inr sa \<Rightarrow>
          if sk_email sa = [] \<or> sk_private sa = [] then Inl (Sentinel ''vertex: service account JSON missing client_email or private_key'')
          else (case parseRSAPrivateKey env (sk_private sa) of
              Inl e \<Rightarrow> Inl (Errorf ''vertex: %w'' [FWrap e])
            | Inr k \<Rightarrow> Inr \<lparr>sv_email = sk_email sa, sv_key = k,
                sv_uri = (if sk_token_uri sa = [] then ''https://oauth2.googleapis.com/token'' else sk_token_uri sa),
                sv_token = [], sv_expires = 0\<rparr>))"

definition signRS256JWT :: "('k, 'w) sa_env \<Rightarrow> json \<Rightarrow> 'k \<Rightarrow> 'w \<Rightarrow> (go_error + string) \<times> 'w" where
  "signRS256JWT env claims key w =
     (let input = RawURLEncoding (se_show env (JObj [(''alg'', JStr ''RS256''), (''typ'', JStr ''JWT'')])) @ ''.'' @
            RawURLEncoding (se_show env claims)
      in case se_rsa_sign env key (se_sha256 env input) w of
          (Inl e, w') \<Rightarrow> (Inl (Errorf ''sign jwt: %w'' [FWrap e]), w')
        | (Inr sig, w') \<Rightarrow> (Inr (input @ ''.'' @ RawURLEncoding sig), w'))"

text \<open>Nanoseconds.\<close>

definition minute_ns :: int where "minute_ns = 60 * 10 ^ 9"
definition hour_ns :: int where "hour_ns = 3600 * 10 ^ 9"

definition jwt_claims :: "'k sa_source \<Rightarrow> int \<Rightarrow> json" where
  "jwt_claims t now = JObj
     [(''aud'', JStr (sv_uri t)), (''exp'', JNum (of_int ((now + hour_ns) div 10 ^ 9))), (''iat'', JNum (of_int (now div 10 ^ 9))),
      (''iss'', JStr (sv_email t)), (''scope'', JStr ''https://www.googleapis.com/auth/cloud-platform'')]"

definition mint :: "('k, 'w) sa_env \<Rightarrow> 'k sa_source \<Rightarrow> 'w \<Rightarrow> (go_error + string \<times> int) \<times> 'w" where
  "mint env t w =
     (case se_now env w of
        (now, w1) \<Rightarrow>
          (case signRS256JWT env (jwt_claims t now) (sv_key t) w1 of
             (Inl e, w2) \<Rightarrow> (Inl e, w2)
           | (Inr assertion, w2) \<Rightarrow>
               (case se_request env (sv_uri t) of
                  Some e \<Rightarrow> (Inl e, w2)
                | None \<Rightarrow>
                    (case se_http env (sv_uri t) (Values_Encode [(''grant_type'', ''urn:ietf:params:oauth:grant-type:jwt-bearer''),
                          (''assertion'', assertion)]) w2 of
                       (Inl e, w3) \<Rightarrow> (Inl (Errorf ''vertex: token request failed: %w'' [FWrap e]), w3)
                     | (Inr r, w3) \<Rightarrow>
                         ((if hr_status r \<noteq> 200 then
                             Inl (Errorf ''vertex: token endpoint status %d: %s'' [FInt (hr_status r), FStr (TrimSpace (hr_body r))])
                           else case se_token env (hr_body r) of
                               Inl e \<Rightarrow> Inl (Errorf ''vertex: parse token response: %w'' [FWrap e])
                             | Inr (access, expires_in) \<Rightarrow>
                                 if access = [] then Inl (Sentinel ''vertex: token response carried no access_token'')
                                 else (let ttl = wrap64 (expires_in * 10 ^ 9) in Inr (access, if ttl \<le> 0 then hour_ns else ttl))), w3)))))"

definition sa_Token :: "('k, 'w) sa_env \<Rightarrow> 'k sa_source \<Rightarrow> 'w \<Rightarrow> (go_error + string) \<times> 'k sa_source \<times> 'w" where
  "sa_Token env t w =
     (let (fresh, w1) = (if sv_token t = [] then (False, w) else (case se_now env w of (now, w1) \<Rightarrow> (now < sv_expires t, w1)))
      in if fresh then (Inr (sv_token t), t, w1)
         else case mint env t w1 of
             (Inl e, w2) \<Rightarrow> (Inl e, t, w2)
           | (Inr (tok, ttl), w2) \<Rightarrow>
               (case se_now env w2 of (now, w3) \<Rightarrow>
                  (Inr tok, t\<lparr>sv_token := tok, sv_expires := now + wrap64 (ttl - minute_ns)\<rparr>, w3)))"

section \<open>A signed request is one its receiver accepts\<close>

text \<open>
  The receiving side as Signature Version 4 documents it: it knows the secret, reads the date and the payload's
  hash in the headers of the request as it arrived, rebuilds the canonical request and compares
  the whole \<open>Authorization\<close> header. The canonical URI is the path it received with every byte
  percent-encoded that is neither unreserved nor a slash (for all services but S3, and for a path
  that was encoded before once more).
\<close>

definition aws_uri :: "string \<Rightarrow> string" where
  "aws_uri path = (if path = [] then ''/'' else concat (map (\<lambda>c. if unreserved c \<or> c = CHR ''/'' then [c]
     else (let n = of_char c :: nat in [CHR ''%'', hex_digits ! (n div 16), hex_digits ! (n mod 16)])) path))"

definition received_string :: "crypto \<Rightarrow> Signer \<Rightarrow> aws_request \<Rightarrow> string" where
  "received_string cr s r =
     (let date = header_get r ''X-Amz-Date'';
          canonical = Join [wq_method r, aws_uri (wq_path r), canonicalQuery r, fst (canonicalHeaders r), snd (canonicalHeaders r),
            header_get r ''X-Amz-Content-Sha256''] [CHR 0x0A]
      in Join [''AWS4-HMAC-SHA256'', date, Join [take 8 date, sg_region s, sg_service s, ''aws4_request''] ''/'', hexSHA256 cr canonical]
           [CHR 0x0A])"

definition aws_accepts :: "crypto \<Rightarrow> Signer \<Rightarrow> string \<Rightarrow> aws_request \<Rightarrow> bool" where
  "aws_accepts cr s body r \<longleftrightarrow>
     header_get r ''X-Amz-Content-Sha256'' = hexSHA256 cr body \<and>
     header_get r ''Authorization'' = ''AWS4-HMAC-SHA256 Credential='' @ cd_access_key (sg_credentials s) @ ''/'' @
       Join [take 8 (header_get r ''X-Amz-Date''), sg_region s, sg_service s, ''aws4_request''] ''/'' @
       '', SignedHeaders='' @ snd (canonicalHeaders r) @ '', Signature='' @
       EncodeToString (cr_hmac cr (signingKey cr s (take 8 (header_get r ''X-Amz-Date''))) (received_string cr s r))"

text \<open>A path the second encoding leaves alone.\<close>

definition plain_path :: "string \<Rightarrow> bool" where
  "plain_path path \<longleftrightarrow> list_all (\<lambda>c. unreserved c \<or> c = CHR ''/'') path"

lemma aws_uri_plain: "aws_uri path = (if path = [] then ''/'' else path) \<longleftrightarrow> plain_path path"
proof -
  let ?f = "\<lambda>c. if unreserved c \<or> c = CHR ''/'' then [c]
     else (let n = of_char c :: nat in [CHR ''%'', hex_digits ! (n div 16), hex_digits ! (n mod 16)])"
  have long: "length path \<le> length (concat (map ?f path))" by (induction path) (auto simp: Let_def)
  have "concat (map ?f path) = path \<longleftrightarrow> plain_path path"
  proof
    show "concat (map ?f path) = path" if "plain_path path"
      using that by (induction path) (simp_all add: plain_path_def)
    have "length path < length (concat (map ?f path))" if "\<not> plain_path path"
      using that
    proof (induction path)
      case (Cons c path)
      have "length path \<le> length (concat (map ?f path))" by (induction path) (auto simp: Let_def)
      with Cons show ?case by (auto simp: plain_path_def Let_def)
    qed (simp add: plain_path_def)
    then show "plain_path path" if "concat (map ?f path) = path" using that by fastforce
  qed
  then show ?thesis by (simp add: aws_uri_def plain_path_def)
qed

lemma header_get_set:
  "header_get (header_set k v r) k' = (if k' = k then v else header_get r k')"
  by (simp add: header_get_def header_set_def update_conv')

lemma header_set_select [simp]:
  "wq_method (header_set k v r) = wq_method r" "wq_host (header_set k v r) = wq_host r"
  "wq_path (header_set k v r) = wq_path r" "wq_query (header_set k v r) = wq_query r"
  by (simp_all add: header_set_def)

lemma authorization_unsigned:
  "canonicalHeaders (header_set ''Authorization'' v r) = canonicalHeaders r"
  "canonicalURI (header_set ''Authorization'' v r) = canonicalURI r"
  "canonicalQuery (header_set ''Authorization'' v r) = canonicalQuery r"
  by (simp_all add: canonicalHeaders_def signed_pairs_def header_get_set canonicalURI_def canonicalQuery_def)

lemma dated_headers:
  "header_get (dated cr s body now req) ''X-Amz-Date'' = amzDate now"
  "header_get (dated cr s body now req) ''X-Amz-Content-Sha256'' = hexSHA256 cr body"
  by (simp_all add: dated_def Let_def header_get_set)

lemma length_shortDate:
  assumes "ut_year t < 10000" "ut_month t < 100" "ut_day t < 100"
  shows "length (shortDate t) = 8"
proof -
  have "length (pad 4 (ut_year t)) = 4" using length_pad [of "ut_year t" 3] assms by simp
  moreover have "length (pad 2 (ut_month t)) = 2" using length_pad [of "ut_month t" 1] assms by (simp add: numeral_2_eq_2)
  moreover have "length (pad 2 (ut_day t)) = 2" using length_pad [of "ut_day t" 1] assms by (simp add: numeral_2_eq_2)
  ultimately show ?thesis by (simp add: shortDate_def)
qed

text \<open>
  What the receiver rebuilds is what \<open>Sign\<close> signed, but for the path: the date and the payload's
  hash it announces are those that were signed, and adding the \<open>Authorization\<close> header does not change what it covers.
\<close>

lemma dated_path [simp]: "wq_path (dated cr s body now req) = wq_path req"
  by (simp add: dated_def Let_def)

definition rebuilt :: "crypto \<Rightarrow> string \<Rightarrow> aws_request \<Rightarrow> string" where
  "rebuilt cr body r = Join [wq_method r, aws_uri (wq_path r), canonicalQuery r, fst (canonicalHeaders r), snd (canonicalHeaders r), hexSHA256 cr body]
     [CHR 0x0A]"

lemma accepts_iff:
  assumes "ut_year now < 10000" "ut_month now < 100" "ut_day now < 100"
  shows "aws_accepts cr s body (Sign cr s body now req) \<longleftrightarrow>
    (let r = dated cr s body now req; key = signingKey cr s (shortDate now);
         text = (\<lambda>canonical. Join [''AWS4-HMAC-SHA256'', amzDate now, credential_scope s now, hexSHA256 cr canonical] [CHR 0x0A])
     in EncodeToString (cr_hmac cr key (text (canonical_request cr body r))) = EncodeToString (cr_hmac cr key (text (rebuilt cr body r))))"
proof -
  let ?r = "dated cr s body now req"
  have date: "take 8 (amzDate now) = shortDate now"
    using length_shortDate [OF assms] by (simp add: amzDate_def)
  have "received_string cr s (header_set ''Authorization'' v ?r) =
      Join [''AWS4-HMAC-SHA256'', amzDate now, credential_scope s now, hexSHA256 cr (rebuilt cr body ?r)] [CHR 0x0A]" for v
    by (simp add: received_string_def Let_def rebuilt_def credential_scope_def authorization_unsigned header_get_set dated_headers date)
  then show ?thesis
    by (simp add: aws_accepts_def Sign_def Let_def header_get_set dated_headers authorization_unsigned date credential_scope_def
        string_to_sign_def)
qed

lemma signed_request_accepted:
  assumes "ut_year now < 10000" "ut_month now < 100" "ut_day now < 100" "plain_path (wq_path req)"
  shows "aws_accepts cr s body (Sign cr s body now req)"
  using assms(4) aws_uri_plain [of "wq_path req"]
  by (simp add: accepts_iff [OF assms(1-3)] Let_def rebuilt_def canonical_request_def canonicalURI_def)

text \<open>
  With a hash and a keyed hash free of collisions, no other request is accepted: \<open>Sign\<close> takes the
  path as it is, so a path with any other character, a colon or a percent sign, is signed differently.
\<close>

lemma signed_request_refused:
  assumes "ut_year now < 10000" "ut_month now < 100" "ut_day now < 100" "\<not> plain_path (wq_path req)"
    and "inj (cr_sha256 cr)" "\<And>k. inj (cr_hmac cr k)"
  shows "\<not> aws_accepts cr s body (Sign cr s body now req)"
proof
  let ?r = "dated cr s body now req"
  assume "aws_accepts cr s body (Sign cr s body now req)"
  then have "canonical_request cr body ?r = rebuilt cr body ?r"
    unfolding accepts_iff [OF assms(1-3)] Let_def
    by (auto dest!: EncodeToString_inj injD [OF assms(6)] injD [OF assms(5)] simp: hexSHA256_def)
  then have "canonicalURI ?r = aws_uri (wq_path req)"
    by (simp add: canonical_request_def rebuilt_def)
  with aws_uri_plain [of "wq_path req"] assms(4) show False by (simp add: canonicalURI_def split: if_splits)
qed

text \<open>A temporary credential's token is covered too, so a receiver never reads an unsigned one.\<close>

lemma session_token_signed:
  assumes "cd_session (sg_credentials s) \<noteq> []"
  shows "(''x-amz-security-token'', cd_session (sg_credentials s)) \<in> set (signed_pairs (Sign cr s body now req))"
  using assms by (simp add: signed_pairs_def Sign_def Let_def header_get_set dated_def)

section \<open>A minted token is used again, and never in its last minute\<close>

lemma minted_token: "mint env t w = (Inr (tok, ttl), w') \<Longrightarrow> tok \<noteq> [] \<and> 0 < ttl"
  by (auto simp: mint_def hour_ns_def Let_def split: prod.splits sum.splits option.splits if_splits)

lemma failed_mint_keeps_source:
  assumes "sa_Token env t w = (Inl e, t', w')"
  shows "t' = t"
  using assms by (auto simp: sa_Token_def Let_def split: prod.splits sum.splits if_splits)

text \<open>
  What a source holds after a call: nothing has changed, or the token was minted in this call and it
  is to be used until one minute before its announced end.
\<close>

lemma token_call_cases:
  assumes "sa_Token env t w = (Inr tok, t', w')"
  shows "t' = t \<and> tok = sv_token t \<and> fst (se_now env w) < sv_expires t \<or>
    (\<exists>w1 ttl w2. mint env t w1 = (Inr (tok, ttl), w2) \<and>
       t' = t\<lparr>sv_token := tok, sv_expires := fst (se_now env w2) + wrap64 (ttl - minute_ns)\<rparr>)"
proof (cases "sv_token t \<noteq> [] \<and> fst (se_now env w) < sv_expires t")
  case True
  with assms show ?thesis by (auto simp: sa_Token_def Let_def split: prod.splits)
next
  case False
  let ?w1 = "if sv_token t = [] then w else snd (se_now env w)"
  have "sa_Token env t w = (case mint env t ?w1 of
      (Inl e, w2) \<Rightarrow> (Inl e, t, w2)
    | (Inr (tok, ttl), w2) \<Rightarrow> (case se_now env w2 of (now, w3) \<Rightarrow>
        (Inr tok, t\<lparr>sv_token := tok, sv_expires := now + wrap64 (ttl - minute_ns)\<rparr>, w3)))"
    using False by (auto simp: sa_Token_def Let_def split: prod.splits)
  with assms obtain ttl w2 where "mint env t ?w1 = (Inr (tok, ttl), w2)"
    "t' = t\<lparr>sv_token := tok, sv_expires := fst (se_now env w2) + wrap64 (ttl - minute_ns)\<rparr>"
    by (auto split: prod.splits sum.splits)
  then show ?thesis by blast
qed

text \<open>The next call asks nobody, and changes nothing, as long as the time of use has not come to its end.\<close>

lemma fresh_token_reused:
  assumes "sv_token t \<noteq> []" "fst (se_now env w) < sv_expires t"
  shows "sa_Token env t w = (Inr (sv_token t), t, snd (se_now env w))"
  using assms by (cases "se_now env w") (simp add: sa_Token_def)

text \<open>With the token's life at least a minute and no overflow, that end is one minute before the token's own.\<close>

lemma refresh_margin:
  assumes "sa_Token env t w = (Inr tok, t', w')" "t' \<noteq> t"
  obtains w1 ttl w2 where "mint env t w1 = (Inr (tok, ttl), w2)" "0 < ttl"
    "ttl < 2 ^ 63 \<longrightarrow> sv_expires t' = fst (se_now env w2) + ttl - minute_ns"
proof -
  from token_call_cases [OF assms(1)] assms(2) obtain w1 ttl w2 where m: "mint env t w1 = (Inr (tok, ttl), w2)"
    and t': "t' = t\<lparr>sv_token := tok, sv_expires := fst (se_now env w2) + wrap64 (ttl - minute_ns)\<rparr>" by blast
  have pos: "0 < ttl" using minted_token [OF m] by simp
  have "ttl < 2 ^ 63 \<longrightarrow> wrap64 (ttl - minute_ns) = ttl - minute_ns"
    using pos by (simp add: wrap64_def minute_ns_def signed_take_bit_int_eq_self_iff)
  with m pos t' show ?thesis by (intro that) auto
qed

end
