(* ===== verification/Cloud_Requests.thy ===== *)
theory Cloud_Requests
  imports Provider_Selection Request_Signing
begin

text \<open>
  The requests of the cloud providers down to the HTTP exchange: \<open>doRequest\<close> of
  \<open>llm/bedrock/bedrock.go\<close>, which signs every request with the signer of \<open>internal/awssig\<close>, and the
  Vertex mode of \<open>llm/gemini\<close>, whose bearer tokens come from the service-account source of \<open>oauth.go\<close>.

  The parsing of URLs, the writing of JSON, the clock and the service are parameters. A transport of
  \<open>Bedrock_Provider\<close> (the service below the provider) is made of them by \<open>signed_transport\<close>.
\<close>

section \<open>Bedrock\<close>

text \<open>
  \<open>url.Parse\<close>, for what the signer reads: the host, \<open>EscapedPath\<close> and \<open>Query\<close>. The service answers
  the request together with the bytes of its body.
\<close>

record 'w aws_env =
  wx_crypto :: crypto
  wx_clock :: "'w \<Rightarrow> utc_time \<times> 'w"
  wx_parse :: "string \<Rightarrow> go_error + string \<times> string \<times> (string \<times> string) list"
  wx_body :: "b_request \<Rightarrow> string"
  wx_do :: "aws_request \<Rightarrow> string \<Rightarrow> 'w \<Rightarrow> (go_error + http_reply) \<times> 'w"

text \<open>\<open>url.PathEscape\<close> leaves, beside the unreserved characters, those a path segment may hold.\<close>

definition PathEscape :: "string \<Rightarrow> string" where
  "PathEscape s = concat (map (\<lambda>c. if unreserved c \<or> c \<in> set ''$&+=:@'' then [c]
     else (let n = of_char c :: nat in [CHR ''%'', hex_digits ! (n div 16), hex_digits ! (n mod 16)])) s)"

definition bedrock_endpoint :: "bedrock \<Rightarrow> string \<Rightarrow> string \<Rightarrow> string" where
  "bedrock_endpoint p model action = br_url p @ ''/model/'' @ PathEscape model @ ''/'' @ action"

definition bedrock_signer :: "bedrock \<Rightarrow> Signer" where
  "bedrock_signer p = \<lparr>sg_credentials = \<lparr>cd_access_key = br_access_key p, cd_secret_key = br_secret_key p, cd_session = br_session p\<rparr>,
     sg_region = br_region p, sg_service = ''bedrock''\<rparr>"

definition bedrock_http :: "string \<times> string \<times> (string \<times> string) list \<Rightarrow> aws_request" where
  "bedrock_http u = (case u of (host, path, query) \<Rightarrow>
     \<lparr>wq_method = ''POST'', wq_host = host, wq_url_host = host, wq_path = path, wq_query = query,
      wq_headers = [(''Content-Type'', ''application/json''), (''Accept'', ''application/json'')]\<rparr>)"

definition signed_exchange :: "'w aws_env \<Rightarrow> bedrock \<Rightarrow> string \<times> string \<times> (string \<times> string) list \<Rightarrow> (b_request, 'w) transport" where
  "signed_exchange env p u body w =
     (case wx_clock env w of (now, w1) \<Rightarrow>
        wx_do env (Sign (wx_crypto env) (bedrock_signer p) (wx_body env body) now (bedrock_http u)) (wx_body env body) w1)"

definition bedrock_doRequest :: "'w aws_env \<Rightarrow> bedrock_codec \<Rightarrow> bedrock \<Rightarrow> string \<Rightarrow> string \<Rightarrow> b_request \<Rightarrow> 'w
    \<Rightarrow> (go_error + http_reply) \<times> 'w" where
  "bedrock_doRequest env cd p model action body w =
     (if model = [] then (Inl (Errorf ''bedrock: model is required'' []), w)
      else (case wx_parse env (bedrock_endpoint p model action) of
         Inl e \<Rightarrow> (Inl (Errorf ''bedrock: failed to create request: %w'' [FWrap e]), w)
       | Inr u \<Rightarrow> send_request ''bedrock'' (bj_error cd) (signed_exchange env p u) body w))"

text \<open>The transport the provider of \<open>Bedrock_Provider\<close> is over.\<close>

definition signed_transport :: "'w aws_env \<Rightarrow> bedrock \<Rightarrow> (string \<times> string \<times> b_request, 'w) transport" where
  "signed_transport env p q w =
     (case q of (model, action, body) \<Rightarrow>
        (case wx_parse env (bedrock_endpoint p model action) of
           Inl e \<Rightarrow> (Inl e, w)
         | Inr u \<Rightarrow> signed_exchange env p u body w))"

text \<open>A \<open>doRequest\<close> whose URL parses is the \<open>b_send\<close> of the provider's model over that transport.\<close>

lemma bedrock_doRequest_send:
  assumes "wx_parse env (bedrock_endpoint p model action) = Inr u"
  shows "bedrock_doRequest env cd p model action body w = b_send cd (signed_transport env p) model action body w"
  using assms by (simp add: bedrock_doRequest_def b_send_def send_request_def signed_transport_def)

lemma bedrock_doRequest_bad_url:
  assumes "wx_parse env (bedrock_endpoint p model action) = Inl e" "model \<noteq> []"
  shows "bedrock_doRequest env cd p model action body w = (Inl (Errorf ''bedrock: failed to create request: %w'' [FWrap e]), w)"
  using assms by (simp add: bedrock_doRequest_def)

section \<open>A service that checks signatures\<close>

definition verifying :: "crypto \<Rightarrow> Signer \<Rightarrow> (aws_request \<Rightarrow> string \<Rightarrow> 'w \<Rightarrow> (go_error + http_reply) \<times> 'w)
    \<Rightarrow> aws_request \<Rightarrow> string \<Rightarrow> 'w \<Rightarrow> (go_error + http_reply) \<times> 'w" where
  "verifying cr s do r body w =
     (if aws_accepts cr s body r then do r body w
      else (Inr \<lparr>hr_status = 403, hr_body = ''{\"message\":\"The request signature does not match\"}'', hr_fail = None, hr_retry_after = 0\<rparr>, w))"

definition civil :: "utc_time \<Rightarrow> bool" where
  "civil t \<longleftrightarrow> ut_year t < 10000 \<and> ut_month t < 100 \<and> ut_day t < 100"

abbreviation checked :: "'w aws_env \<Rightarrow> bedrock \<Rightarrow> 'w aws_env" where
  "checked env p \<equiv> env\<lparr>wx_do := verifying (wx_crypto env) (bedrock_signer p) (wx_do env)\<rparr>"

text \<open>The path of a request has nothing in it but unreserved characters and slashes.\<close>

definition plain_endpoint :: "'w aws_env \<Rightarrow> bedrock \<Rightarrow> string \<Rightarrow> string \<Rightarrow> bool" where
  "plain_endpoint env p model action =
     (case wx_parse env (bedrock_endpoint p model action) of Inl _ \<Rightarrow> True | Inr (_, path, _) \<Rightarrow> plain_path path)"

lemma bedrock_http_path [simp]: "wq_path (bedrock_http (host, path, query)) = path"
  by (simp add: bedrock_http_def)

lemma checked_exchange:
  assumes "civil (fst (wx_clock env w))" "plain_path path"
  shows "signed_exchange (checked env p) p (host, path, query) body w = signed_exchange env p (host, path, query) body w"
proof -
  obtain now w1 where now: "wx_clock env w = (now, w1)" by fastforce
  with assms(1) have "ut_year now < 10000" "ut_month now < 100" "ut_day now < 100" by (simp_all add: civil_def)
  then have "aws_accepts (wx_crypto env) (bedrock_signer p) (wx_body env body)
      (Sign (wx_crypto env) (bedrock_signer p) (wx_body env body) now (bedrock_http (host, path, query)))"
    using assms(2) by (intro signed_request_accepted) simp_all
  with now show ?thesis by (simp add: signed_exchange_def verifying_def)
qed

lemma checked_transport:
  assumes "civil (fst (wx_clock env w))" "plain_endpoint env p model action"
  shows "signed_transport (checked env p) p (model, action, body) w = signed_transport env p (model, action, body) w"
  using assms(2) checked_exchange [OF assms(1)]
  by (auto simp: signed_transport_def plain_endpoint_def split: sum.splits)

lemma b_send_cong: "post (model, action, body) w = post' (model, action, body) w \<Longrightarrow> b_send cd post model action body w = b_send cd post' model action body w"
  by (simp add: b_send_def send_request_def)


text \<open>
  Identifiers with a colon, which most of Bedrock's have, are outside of that: \<open>url.PathEscape\<close> leaves a
  colon as it is, the signer takes the path as sent, and the service encodes it. Unless two different
  strings collide under the hash or the keyed hash, every such request is answered by 403.
\<close>

lemma PathEscape_plain: "list_all unreserved model \<Longrightarrow> PathEscape model = model"
  by (induction model) (simp_all add: PathEscape_def)

lemma PathEscape_colon: "CHR '':'' \<in> set model \<Longrightarrow> CHR '':'' \<in> set (PathEscape model)"
  by (auto simp: PathEscape_def)

lemma colon_not_plain: "CHR '':'' \<in> set path \<Longrightarrow> \<not> plain_path path"
  by (auto simp: plain_path_def list_all_iff unreserved_def Let_def intro!: bexI [of _ "CHR '':''"])

lemma colon_model_forbidden:
  assumes "civil (fst (wx_clock env w))" "model \<noteq> []" "CHR '':'' \<in> set model"
    and "wx_parse env (bedrock_endpoint p model action) = Inr (host, ''/model/'' @ PathEscape model @ ''/'' @ action, query)"
    and "inj (cr_sha256 (wx_crypto env))" "\<And>k. inj (cr_hmac (wx_crypto env) k)"
  shows "\<exists>a. fst (bedrock_doRequest (checked env p) cd p model action body w) = Inl (APIErr a) \<and> ae_status a = 403"
proof -
  obtain now w1 where now: "wx_clock env w = (now, w1)" by fastforce
  with assms(1) have c: "ut_year now < 10000" "ut_month now < 100" "ut_day now < 100" by (simp_all add: civil_def)
  let ?u = "(host, ''/model/'' @ PathEscape model @ ''/'' @ action, query)"
  have "\<not> plain_path (wq_path (bedrock_http ?u))" using PathEscape_colon [OF assms(3)] by (intro colon_not_plain) simp
  from signed_request_refused [OF c this assms(5,6), of "bedrock_signer p" "wx_body env body"]
  show ?thesis using assms(2,4) now
    by (simp add: bedrock_doRequest_def signed_exchange_def verifying_def send_request_def api_failure_def)
qed

section \<open>Vertex\<close>

text \<open>The token source in the world of the provider: its state is the first component.\<close>

definition service_account :: "('k, 'w) sa_env \<Rightarrow> 'k sa_source \<times> 'w \<Rightarrow> (go_error + string) \<times> 'k sa_source \<times> 'w" where
  "service_account env s = (case s of (t, w) \<Rightarrow> sa_Token env t w)"

definition vertex :: "('k, 'w) sa_env \<Rightarrow> string \<Rightarrow> string \<Rightarrow> ('k sa_source \<times> 'w) gemini" where
  "vertex env project region = New_gemini [] [WithVertex project region (Some (service_account env))]"

text \<open>
  A Vertex request while the last token is still to be used carries that token and makes no token
  request: the world before the exchange is that of one reading of the clock.
\<close>

lemma vertex_request_fresh:
  assumes "project \<noteq> []" "sv_token t \<noteq> []" "fst (se_now env w) < sv_expires t"
  shows "g_doRequest cd (vertex env project region) post url body (t, w) =
    send_request ''vertex'' (gj_error cd) post (url, Some (''Bearer '' @ sv_token t), body) (t, snd (se_now env w))"
  using assms fresh_token_reused [OF assms(2,3)]
  by (simp add: g_doRequest_def vertex_def New_gemini_def apply_options_def WithVertex_def isVertex_def providerName_def service_account_def)

text \<open>A token that cannot be had is the error of the request, and nothing is sent to the model.\<close>

lemma vertex_token_error:
  assumes "project \<noteq> []" "sa_Token env t w = (Inl e, t', w')"
  shows "g_doRequest cd (vertex env project region) post url body (t, w) =
    (Inl (Errorf ''vertex: obtain access token: %w'' [FWrap e]), (t, w'))"
  using assms failed_mint_keeps_source [OF assms(2)]
  by (simp add: g_doRequest_def vertex_def New_gemini_def apply_options_def WithVertex_def isVertex_def service_account_def)

section \<open>A signed request, checked\<close>

definition toy_crypto :: crypto where
  "toy_crypto = \<lparr>cr_sha256 = (\<lambda>m. take 2 (rev m)), cr_hmac = (\<lambda>k m. take 2 (rev m) @ take 2 k)\<rparr>"

definition leap_day :: utc_time where
  "leap_day = \<lparr>ut_year = 2024, ut_month = 2, ut_day = 29, ut_hour = 23, ut_minute = 5, ut_second = 9\<rparr>"

definition local_aws :: "nat aws_env" where
  "local_aws = \<lparr>wx_crypto = toy_crypto, wx_clock = (\<lambda>n. (leap_day, Suc n)), wx_parse = (\<lambda>u. Inr (''h'', drop 9 u, [])), wx_body = (\<lambda>_. ''{}''),
     wx_do = (\<lambda>r body n. (Inr \<lparr>hr_status = 200, hr_body = body, hr_fail = None, hr_retry_after = 0\<rparr>, n + 10))\<rparr>"

definition dev_bedrock :: bedrock where
  "dev_bedrock = \<lparr>br_region = ''eu-west-1'', br_access_key = ''AKID'', br_secret_key = ''s3'', br_session = ''tmp'', br_url = ''https://h''\<rparr>"

definition empty_codec :: bedrock_codec where
  "empty_codec = \<lparr>bj_response = (\<lambda>s. Inl (Opaque s)), bj_error = (\<lambda>_. None), bj_start = (\<lambda>_. None), bj_delta = (\<lambda>_. None),
     bj_metadata = (\<lambda>_. None), bj_exception = (\<lambda>_. [])\<rparr>"


end
