(* ===== verification/MCP_Client.thy ===== *)
theory MCP_Client
  imports Graph_Engine Transport Wire_Framing
begin

text \<open>
  The client of the Model Context Protocol: the client and its operations (\<open>mcp/client.go\<close>,
  \<open>tools.go\<close>, \<open>resources.go\<close>), elicitation (\<open>elicitation.go\<close>) and the streamable-HTTP transport
  (\<open>transport_http.go\<close>).

  The state \<open>'w mcp\<close> of a client is the world and the fields that change: the slots of elicitation
  errors, the request counter, the session and the tools. A transport is a record of its two
  operations on that state; \<open>'c\<close> is the caller's context, to which \<open>begin\<close> adds the slot of the
  call. Parameters: \<open>mcp_codec\<close> decodes JSON text, an \<open>http_service\<close> answers a POST, a
  \<open>token_source\<close> acts on the world. Headers are kept under their canonical names.
\<close>

section \<open>JSON-RPC messages and MCP types\<close>

type_synonym rpc_error = "int \<times> string"

datatype rpc_message =
    RpcRequest int string "json option"
  | RpcNotification string "json option"
  | RpcReply string "rpc_error + json"

record incoming =
  in_id :: string
  in_method :: string
  in_params :: string
  in_result :: string
  in_error :: "rpc_error option"

record tool_annotations =
  an_title :: string
  an_read_only :: "bool option"
  an_destructive :: "bool option"
  an_idempotent :: "bool option"
  an_open_world :: "bool option"

record mcp_tool =
  mt_name :: string
  mt_description :: string
  mt_schema :: "json option"
  mt_annotations :: tool_annotations

record mcp_resource =
  rsc_uri :: string
  rsc_name :: string
  rsc_description :: string
  rsc_mime :: string

record resource_content =
  rct_uri :: string
  rct_mime :: string
  rct_text :: string
  rct_blob :: string

record prompt_argument =
  pa_name :: string
  pa_description :: string
  pa_required :: bool

record mcp_prompt =
  pr_name :: string
  pr_description :: string
  pr_arguments :: "prompt_argument list"

record prompt_content =
  pc_type :: string
  pc_text :: string
  pc_data :: string
  pc_mime :: string
  pc_resource :: "resource_content option"

record mcp_codec =
  mk_incoming :: "string \<Rightarrow> incoming option"
  mk_id :: "string \<Rightarrow> int option"
  mk_response :: "string \<Rightarrow> go_error + string \<times> rpc_error option"
  mk_elicit :: "string \<Rightarrow> elicit_request option"
  mk_args :: "string \<Rightarrow> json option"
  mk_call_result :: "string \<Rightarrow> ((string \<times> string) list \<times> bool) option"
  mk_tools :: "string \<Rightarrow> go_error + mcp_tool list \<times> string"
  mk_resources :: "string \<Rightarrow> go_error + mcp_resource list \<times> string"
  mk_contents :: "string \<Rightarrow> go_error + resource_content list"
  mk_prompts :: "string \<Rightarrow> go_error + mcp_prompt list \<times> string"
  mk_messages :: "string \<Rightarrow> go_error + (string \<times> prompt_content) list"

section \<open>State, contexts, transports\<close>

record elicit_errs =
  es_slots :: "nat \<Rightarrow> go_error option"
  es_inflight :: "nat list"
  es_next :: nat

record 'w mcp =
  mw :: 'w
  ms_errs :: elicit_errs
  ms_next :: int
  ms_session :: string
  ms_tools :: "mcp_tool list"

record 'c mcp_ctx =
  mc_user :: 'c
  mc_slot :: "nat option"

type_synonym ('c, 'w) request_handler = "'c mcp_ctx \<Rightarrow> string \<Rightarrow> string \<Rightarrow> 'w mcp \<Rightarrow> (rpc_error + json) \<times> 'w mcp"

record ('c, 'w) mcp_transport =
  tr_call :: "'c mcp_ctx \<Rightarrow> string \<Rightarrow> json option \<Rightarrow> 'w mcp \<Rightarrow> (go_error + string) \<times> 'w mcp"
  tr_notify :: "'c mcp_ctx \<Rightarrow> string \<Rightarrow> json option \<Rightarrow> 'w mcp \<Rightarrow> (go_error + unit) \<times> 'w mcp"

definition on_world :: "('w \<Rightarrow> 'r \<times> 'w) \<Rightarrow> 'w mcp \<Rightarrow> 'r \<times> 'w mcp" where
  "on_world f s = (case f (mw s) of (r, w') \<Rightarrow> (r, s\<lparr>mw := w'\<rparr>))"

section \<open>Elicitation\<close>

definition ElicitAccept :: string where "ElicitAccept = ''accept''"
definition ElicitDecline :: string where "ElicitDecline = ''decline''"
definition ElicitCancel :: string where "ElicitCancel = ''cancel''"

definition AcceptElicitation :: "json option \<Rightarrow> elicit_result" where
  "AcceptElicitation content = \<lparr>el_action = ElicitAccept, el_content = content\<rparr>"

definition elicit_begin :: "elicit_errs \<Rightarrow> nat \<times> elicit_errs" where
  "elicit_begin e = (es_next e, e\<lparr>es_slots := (es_slots e)(es_next e := None), es_inflight := es_inflight e @ [es_next e],
     es_next := es_next e + 1\<rparr>)"

definition elicit_end :: "nat \<Rightarrow> elicit_errs \<Rightarrow> elicit_errs" where
  "elicit_end s e = e\<lparr>es_inflight := filter (\<lambda>x. x \<noteq> s) (es_inflight e)\<rparr>"

definition elicit_record :: "nat option \<Rightarrow> go_error \<Rightarrow> elicit_errs \<Rightarrow> elicit_errs" where
  "elicit_record slot err e =
     (let s = (case slot of Some s \<Rightarrow> Some s
         | None \<Rightarrow> (case es_inflight e of [only] \<Rightarrow> Some only | _ \<Rightarrow> None))
      in case s of None \<Rightarrow> e
         | Some s \<Rightarrow> if es_slots e s = None then e\<lparr>es_slots := (es_slots e)(s \<mapsto> err)\<rparr> else e)"

text \<open>An \<open>ElicitResult\<close> as sent: \<open>content\<close> is left out when empty.\<close>

definition elicit_json :: "elicit_result \<Rightarrow> json" where
  "elicit_json r = JObj ([(''action'', JStr (el_action r))] @
     (case el_content r of None \<Rightarrow> [] | Some (JObj []) \<Rightarrow> [] | Some c \<Rightarrow> [(''content'', c)]))"

type_synonym ('c, 'w) elicit_handler = "'c \<Rightarrow> elicit_request \<Rightarrow> 'w \<Rightarrow> (go_error + elicit_result) \<times> 'w"

definition handleElicit :: "mcp_codec \<Rightarrow> ('c, 'w) elicit_handler \<Rightarrow> 'c mcp_ctx \<Rightarrow> string \<Rightarrow> 'w mcp \<Rightarrow> (rpc_error + json) \<times> 'w mcp" where
  "handleElicit cd elicit c params s =
     (case mk_elicit cd params of
        None \<Rightarrow> (Inl (-32602, ''invalid elicitation request''), s)
      | Some req \<Rightarrow>
          (case on_world (elicit (mc_user c) req) s of
             (Inl err, s') \<Rightarrow>
               (Inr (elicit_json \<lparr>el_action = ElicitCancel, el_content = None\<rparr>),
                s'\<lparr>ms_errs := elicit_record (mc_slot c) err (ms_errs s')\<rparr>)
           | (Inr res, s') \<Rightarrow> (Inr (elicit_json (if el_action res = [] then res\<lparr>el_action := ElicitCancel\<rparr> else res)), s')))"

definition With_elicitation :: "elicitations \<Rightarrow> pending_elicitation \<Rightarrow> elicit_result \<Rightarrow> elicitations" where
  "With_elicitation e p r = e(pe_key p \<mapsto> r)"

fun sel_elicitations :: "dyn \<Rightarrow> elicitations option" where
  "sel_elicitations (DElicitations e) = Some e"
| "sel_elicitations _ = None"

definition elicit_key :: "elicit_request \<Rightarrow> string" where
  "elicit_key req = er_message req @ [CHR 0x00] @ er_schema req"

definition AwaitElicitation :: "(gctx, 'w gworld) elicit_handler" where
  "AwaitElicitation c req w =
     (let answered = (case ResumeValue sel_elicitations c w of None \<Rightarrow> Map.empty | Some e \<Rightarrow> e)
      in case answered (elicit_key req) of
           Some r \<Rightarrow> (Inr r, w)
         | None \<Rightarrow> (Inl (InterruptErr (DElicitation \<lparr>pe_key = elicit_key req, pe_request = req, pe_answered = answered\<rparr>)), w))"

definition elicitationError :: "string \<Rightarrow> go_error \<Rightarrow> go_error" where
  "elicitationError name err = Errorf ''mcp: tool %q: elicitation: %w'' [FStr name, FWrap err]"

section \<open>The client\<close>

record 'w token_source =
  tk_token :: "'w \<Rightarrow> (go_error + string) \<times> 'w"
  tk_invalidate :: "('w \<Rightarrow> 'w) option"

record ('c, 'w) mcp_options =
  mo_headers :: "(string \<times> string) list"
  mo_tokens :: "'w token_source option"
  mo_elicit :: "('c, 'w) elicit_handler option"

definition WithBearerToken :: "string \<Rightarrow> ('c, 'w) mcp_options \<Rightarrow> ('c, 'w) mcp_options" where
  "WithBearerToken token c = c\<lparr>mo_headers := AList.update ''Authorization'' (''Bearer '' @ token) (mo_headers c)\<rparr>"

definition WithTokenSource :: "'w token_source \<Rightarrow> ('c, 'w) mcp_options \<Rightarrow> ('c, 'w) mcp_options" where
  "WithTokenSource ts c = c\<lparr>mo_tokens := Some ts\<rparr>"

definition WithAPIKey :: "string \<Rightarrow> ('c, 'w) mcp_options \<Rightarrow> ('c, 'w) mcp_options" where
  "WithAPIKey key c = c\<lparr>mo_headers := AList.update ''X-API-Key'' key (mo_headers c)\<rparr>"

definition WithHeader :: "string \<Rightarrow> string \<Rightarrow> ('c, 'w) mcp_options \<Rightarrow> ('c, 'w) mcp_options" where
  "WithHeader key v c = c\<lparr>mo_headers := AList.update key v (mo_headers c)\<rparr>"

definition WithElicitation :: "('c, 'w) elicit_handler \<Rightarrow> ('c, 'w) mcp_options \<Rightarrow> ('c, 'w) mcp_options" where
  "WithElicitation h c = c\<lparr>mo_elicit := Some h\<rparr>"

definition newClient :: "(('c, 'w) mcp_options \<Rightarrow> ('c, 'w) mcp_options) list \<Rightarrow> ('c, 'w) mcp_options" where
  "newClient opts = foldl (\<lambda>c opt. opt c)
     \<lparr>mo_headers = [(''Content-Type'', ''application/json'')], mo_tokens = None, mo_elicit = None\<rparr> opts"

definition handleRequest :: "mcp_codec \<Rightarrow> ('c, 'w) mcp_options \<Rightarrow> ('c, 'w) request_handler" where
  "handleRequest cd o' c meth params s =
     (if meth = ''ping'' then (Inr (JObj []), s)
      else case (meth = ''elicitation/create'', mo_elicit o') of
          (True, Some h) \<Rightarrow> handleElicit cd h c params s
        | _ \<Rightarrow> (Inl (-32601, ''method not found''), s))"

section \<open>The HTTP transport\<close>

record mcp_post =
  po_url :: string
  po_headers :: "(string \<times> string) list"
  po_body :: rpc_message

record mcp_reply = http_reply +
  mr_stream :: bool
  mr_session :: string

type_synonym 'w http_service = "mcp_post \<Rightarrow> 'w \<Rightarrow> (go_error + mcp_reply) \<times> 'w"

definition sessionHeader :: string where "sessionHeader = ''Mcp-Session-Id''"

definition post_headers :: "('c, 'w) mcp_options \<Rightarrow> string option \<Rightarrow> string \<Rightarrow> (string \<times> string) list" where
  "post_headers o' token session =
     (let hs = foldl (\<lambda>hs (k, v). AList.update k v hs) [(''Accept'', ''application/json, text/event-stream'')] (mo_headers o');
          hs1 = (case token of None \<Rightarrow> hs | Some t \<Rightarrow> AList.update ''Authorization'' (''Bearer '' @ t) hs)
      in if session = [] then hs1 else AList.update sessionHeader session hs1)"

definition postOnce :: "('c, 'w) mcp_options \<Rightarrow> 'w http_service \<Rightarrow> string \<Rightarrow> rpc_message \<Rightarrow> 'w mcp
    \<Rightarrow> (go_error + mcp_reply) \<times> 'w mcp" where
  "postOnce o' http url body s =
     (case (case mo_tokens o' of None \<Rightarrow> (Inr None, s)
        | Some ts \<Rightarrow> (case on_world (tk_token ts) s of
            (Inl e, s1) \<Rightarrow> (Inl (Errorf ''get token: %w'' [FWrap e]), s1)
          | (Inr t, s1) \<Rightarrow> (Inr (Some t), s1))) of
        (Inl e, s1) \<Rightarrow> (Inl e, s1)
      | (Inr token, s1) \<Rightarrow>
          (case on_world (http \<lparr>po_url = url, po_headers = post_headers o' token (ms_session s1), po_body = body\<rparr>) s1 of
             (Inl e, s2) \<Rightarrow> (Inl (Errorf ''request failed: %w'' [FWrap e]), s2)
           | (Inr r, s2) \<Rightarrow> (Inr r, s2)))"

definition mcp_post_twice :: "('c, 'w) mcp_options \<Rightarrow> 'w http_service \<Rightarrow> string \<Rightarrow> rpc_message \<Rightarrow> 'w mcp
    \<Rightarrow> (go_error + mcp_reply) \<times> 'w mcp" where
  "mcp_post_twice o' http url body s =
     (case postOnce o' http url body s of
        (Inl e, s1) \<Rightarrow> (Inl e, s1)
      | (Inr r, s1) \<Rightarrow>
          (if hr_status r \<noteq> 401 then (Inr r, s1)
           else case mo_tokens o' of
               None \<Rightarrow> (Inr r, s1)
             | Some ts \<Rightarrow>
                 (case tk_invalidate ts of
                    None \<Rightarrow> (Inr r, s1)
                  | Some invalidate \<Rightarrow> postOnce o' http url body (s1\<lparr>mw := invalidate (mw s1)\<rparr>))))"

definition mcp_send :: "('c, 'w) mcp_options \<Rightarrow> 'w http_service \<Rightarrow> string \<Rightarrow> rpc_message \<Rightarrow> 'w mcp
    \<Rightarrow> (go_error + unit) \<times> 'w mcp" where
  "mcp_send o' http url msg s =
     (case mcp_post_twice o' http url msg s of
        (Inl e, s') \<Rightarrow> (Inl e, s')
      | (Inr r, s') \<Rightarrow>
          (if hr_status r \<ge> 300 then Inl (Errorf ''server returned status %d'' [FInt (hr_status r)]) else Inr (), s'))"

definition errNoResponse :: go_error where
  "errNoResponse = Sentinel ''stream ended without a response''"

text \<open>The loop of \<open>readStream\<close> for the request numbered \<open>rid\<close>; \<open>handle\<close> and \<open>send\<close> are those of the transport.\<close>

function http_read_loop :: "mcp_codec \<Rightarrow> (string \<Rightarrow> string \<Rightarrow> 'w mcp \<Rightarrow> (rpc_error + json) \<times> 'w mcp)
    \<Rightarrow> (rpc_message \<Rightarrow> 'w mcp \<Rightarrow> (go_error + unit) \<times> 'w mcp) \<Rightarrow> int \<Rightarrow> scanner \<Rightarrow> 'w mcp
    \<Rightarrow> (go_error + string \<times> rpc_error option) \<times> 'w mcp" where
  "http_read_loop cd handle send rid sc s =
     (case sse_Next sc of
        (None, sc') \<Rightarrow>
          (case sse_Err sc' of
             Some e \<Rightarrow> (Inl (Errorf ''failed to read event stream: %w'' [FWrap e]), s)
           | None \<Rightarrow> (Inl errNoResponse, s))
      | (Some ev, sc') \<Rightarrow>
          (case mk_incoming cd (se_data ev) of
             None \<Rightarrow> http_read_loop cd handle send rid sc' s
           | Some msg \<Rightarrow>
               if in_method msg \<noteq> [] \<and> in_id msg \<noteq> [] then
                 (case handle (in_method msg) (in_params msg) s of
                    (res, s1) \<Rightarrow>
                      (case send (RpcReply (in_id msg) res) s1 of
                         (Inl e, s2) \<Rightarrow> (Inl (Errorf ''failed to answer %s: %w'' [FStr (in_method msg), FWrap e]), s2)
                       | (Inr _, s2) \<Rightarrow> http_read_loop cd handle send rid sc' s2))
               else if in_method msg \<noteq> [] then http_read_loop cd handle send rid sc' s
               else if mk_id cd (in_id msg) = Some rid then (Inr (in_result msg, in_error msg), s)
               else http_read_loop cd handle send rid sc' s))"
  by pat_completeness auto
termination
  by (relation "measure (\<lambda>(_, _, _, _, sc, _). length (sc_rest sc))") (auto dest: sse_Next_shrinks [OF sym])

declare http_read_loop.simps [simp del]

definition http_response :: "mcp_codec \<Rightarrow> ('c, 'w) mcp_options \<Rightarrow> 'w http_service \<Rightarrow> string \<Rightarrow> 'c mcp_ctx \<Rightarrow> int \<Rightarrow> mcp_reply
    \<Rightarrow> 'w mcp \<Rightarrow> (go_error + string \<times> rpc_error option) \<times> 'w mcp" where
  "http_response cd o' http url c rid r s =
     (if mr_stream r then
        http_read_loop cd (handleRequest cd o' c) (mcp_send o' http url) rid (NewReader (hr_body r) (hr_fail r)) s
      else (case hr_fail r of
          Some e \<Rightarrow> Inl (Errorf ''failed to read response: %w'' [FWrap e])
        | None \<Rightarrow> (case mk_response cd (hr_body r) of
              Inl e \<Rightarrow> Inl (Errorf ''failed to parse JSON-RPC response: %w'' [FWrap e])
            | Inr rpc \<Rightarrow> Inr rpc), s))"

definition http_call :: "mcp_codec \<Rightarrow> ('c, 'w) mcp_options \<Rightarrow> 'w http_service \<Rightarrow> string \<Rightarrow> 'c mcp_ctx \<Rightarrow> string \<Rightarrow> json option
    \<Rightarrow> 'w mcp \<Rightarrow> (go_error + string) \<times> 'w mcp" where
  "http_call cd o' http url c meth params s =
     (let rid = ms_next s + 1 in
      case mcp_post_twice o' http url (RpcRequest rid meth params) (s\<lparr>ms_next := rid\<rparr>) of
        (Inl e, s1) \<Rightarrow> (Inl e, s1)
      | (Inr r, s1) \<Rightarrow>
          (let s2 = (if mr_session r \<noteq> [] then s1\<lparr>ms_session := mr_session r\<rparr> else s1) in
           if hr_status r \<noteq> 200 then
             (Inl (Errorf ''server returned status %d: %s'' [FInt (hr_status r), FStr (hr_body r)]), s2)
           else case http_response cd o' http url c rid r s2 of
               (Inl e, s3) \<Rightarrow> (Inl e, s3)
             | (Inr (result, Some (code, msg)), s3) \<Rightarrow> (Inl (Errorf ''RPC error %d: %s'' [FInt code, FStr msg]), s3)
             | (Inr (result, None), s3) \<Rightarrow> (Inr result, s3)))"

definition httpTransport :: "mcp_codec \<Rightarrow> ('c, 'w) mcp_options \<Rightarrow> 'w http_service \<Rightarrow> string \<Rightarrow> ('c, 'w) mcp_transport" where
  "httpTransport cd o' http url = \<lparr>tr_call = http_call cd o' http url,
     tr_notify = (\<lambda>c meth params. mcp_send o' http url (RpcNotification meth params))\<rparr>"

end
