(* ===== verification/MCP_Stdio.thy ===== *)
theory MCP_Stdio
  imports MCP_Client
begin

text \<open>
  The stdio transport of the Model Context Protocol (\<open>mcp/transport_stdio.go\<close>): calls and
  the reader of the server's output as threads that share the map of pending requests.

  An action is one atomic section of a thread: what it does under a mutex, one operation on a
  channel, one write. \<open>stdio_step\<close> is its effect, \<open>None\<close> where the thread waits. Actions that carry an
  error are answered by the operating system (a write that fails, a read that ends) or by the
  caller (\<open>CtxDone\<close>: its context ended); a caller is numbered by the order of entry. The request
  handler runs as one action. Starting and stopping the process are in \<open>MCP_Process\<close>.
\<close>

section \<open>State\<close>

datatype call_phase =
    Numbered
  | Registered
  | Waiting
  | Returned "go_error + string"

type_synonym rpc_response = "string \<times> rpc_error option"

record stdio_call =
  ca_id :: int
  ca_request :: rpc_message
  ca_phase :: call_phase
  ca_ctx :: "go_error option"
  ca_buffer :: "rpc_response option"
  ca_closed :: bool

datatype reader_phase = Reading | Sending nat rpc_response | Stopped

record 'w stdioTransport =
  so_client :: "'w mcp"
  so_calls :: "stdio_call list"
  so_pending :: "int \<Rightarrow> nat option"
  so_err :: "go_error option"
  so_reader :: reader_phase
  so_requests :: "(string \<times> string \<times> string) list"
  so_stdin :: "rpc_message list"

definition errServerExited :: go_error where
  "errServerExited = Sentinel ''mcp server process exited''"

definition startStdio :: "'w mcp \<Rightarrow> 'w stdioTransport" where
  "startStdio s = \<lparr>so_client = s, so_calls = [], so_pending = Map.empty, so_err = None, so_reader = Reading,
     so_requests = [], so_stdin = []\<rparr>"

datatype action =
    Call string "json option"
  | Register nat
  | Write nat "go_error option"
  | Receive nat
  | CtxDone nat go_error
  | Abandon nat "go_error option"
  | ReadLine string
  | Deliver
  | ReadEnd "go_error option"
  | Answer nat "go_error option"
  | Notify string "json option" "go_error option"

section \<open>The atomic sections\<close>

definition with_call :: "nat \<Rightarrow> (stdio_call \<Rightarrow> stdio_call) \<Rightarrow> 'w stdioTransport \<Rightarrow> 'w stdioTransport" where
  "with_call k f t = t\<lparr>so_calls := (so_calls t)[k := f (so_calls t ! k)]\<rparr>"

definition stdin_write :: "rpc_message \<Rightarrow> go_error option \<Rightarrow> 'w stdioTransport \<Rightarrow> 'w stdioTransport" where
  "stdin_write m e t = (if e = None then t\<lparr>so_stdin := so_stdin t @ [m]\<rparr> else t)"

definition forget :: "int \<Rightarrow> 'w stdioTransport \<Rightarrow> 'w stdioTransport" where
  "forget i t = t\<lparr>so_pending := (so_pending t)(i := None)\<rparr>"

definition call_number :: "string \<Rightarrow> json option \<Rightarrow> 'w stdioTransport \<Rightarrow> 'w stdioTransport" where
  "call_number meth params t =
     (let i = ms_next (so_client t) + 1 in
      t\<lparr>so_client := (so_client t)\<lparr>ms_next := i\<rparr>,
        so_calls := so_calls t @ [\<lparr>ca_id = i, ca_request = RpcRequest i meth params, ca_phase = Numbered, ca_ctx = None,
          ca_buffer = None, ca_closed = False\<rparr>]\<rparr>)"

definition return_call :: "nat \<Rightarrow> go_error + string \<Rightarrow> 'w stdioTransport \<Rightarrow> 'w stdioTransport" where
  "return_call k r t = with_call k (\<lambda>c. c\<lparr>ca_phase := Returned r\<rparr>) t"

definition call_register :: "nat \<Rightarrow> 'w stdioTransport \<Rightarrow> 'w stdioTransport" where
  "call_register k t =
     (case so_err t of
        Some e \<Rightarrow> return_call k (Inl e) t
      | None \<Rightarrow> with_call k (\<lambda>c. c\<lparr>ca_phase := Registered\<rparr>)
          (t\<lparr>so_pending := (so_pending t)(ca_id (so_calls t ! k) \<mapsto> k)\<rparr>))"

definition call_write :: "nat \<Rightarrow> go_error option \<Rightarrow> 'w stdioTransport \<Rightarrow> 'w stdioTransport" where
  "call_write k e t =
     (case e of
        None \<Rightarrow> with_call k (\<lambda>c. c\<lparr>ca_phase := Waiting\<rparr>) (stdin_write (ca_request (so_calls t ! k)) None t)
      | Some err \<Rightarrow> return_call k (Inl (Errorf ''write request: %w'' [FWrap err])) (forget (ca_id (so_calls t ! k)) t))"

definition rpc_result :: "rpc_response \<Rightarrow> go_error + string" where
  "rpc_result r = (case r of
     (_, Some (code, msg)) \<Rightarrow> Inl (Errorf ''RPC error %d: %s'' [FInt code, FStr msg])
   | (result, None) \<Rightarrow> Inr result)"

definition call_receive :: "nat \<Rightarrow> 'w stdioTransport \<Rightarrow> 'w stdioTransport option" where
  "call_receive k t =
     (let c = so_calls t ! k in
      case ca_buffer c of
        Some r \<Rightarrow> Some (with_call k (\<lambda>c. c\<lparr>ca_phase := Returned (rpc_result r), ca_buffer := None\<rparr>) t)
      | None \<Rightarrow>
          (if ca_closed c then
             Some (return_call k (case so_err t of None \<Rightarrow> Inr [] | Some e \<Rightarrow> Inl e) t)
           else None))"

definition call_abandon :: "nat \<Rightarrow> go_error option \<Rightarrow> 'w stdioTransport \<Rightarrow> 'w stdioTransport option" where
  "call_abandon k we t =
     (let c = so_calls t ! k in
      case ca_ctx c of
        None \<Rightarrow> None
      | Some e \<Rightarrow> Some (return_call k (Inl e) (stdin_write
          (RpcNotification ''notifications/cancelled'' (Some (JObj [(''requestId'', JNum (of_int (ca_id c)))]))) we
          (forget (ca_id c) t))))"

definition dispatch :: "mcp_codec \<Rightarrow> string \<Rightarrow> 'w stdioTransport \<Rightarrow> 'w stdioTransport" where
  "dispatch cd line t =
     (case mk_incoming cd line of
        None \<Rightarrow> t
      | Some msg \<Rightarrow>
          if in_method msg \<noteq> [] \<and> in_id msg \<noteq> [] then
            t\<lparr>so_requests := so_requests t @ [(in_id msg, in_method msg, in_params msg)]\<rparr>
          else if in_method msg \<noteq> [] then t
          else case mk_id cd (in_id msg) of
              None \<Rightarrow> t
            | Some i \<Rightarrow>
                (case so_pending t i of
                   None \<Rightarrow> t
                 | Some k \<Rightarrow> t\<lparr>so_pending := (so_pending t)(i := None), so_reader := Sending k (in_result msg, in_error msg)\<rparr>))"

definition deliver :: "nat \<Rightarrow> rpc_response \<Rightarrow> 'w stdioTransport \<Rightarrow> 'w stdioTransport option" where
  "deliver k r t =
     (if ca_buffer (so_calls t ! k) \<noteq> None \<or> ca_closed (so_calls t ! k) then None
      else Some ((with_call k (\<lambda>c. c\<lparr>ca_buffer := Some r\<rparr>) t)\<lparr>so_reader := Reading\<rparr>))"

text \<open>The end of \<open>read\<close>; \<open>None\<close> is \<open>io.EOF\<close>.\<close>

definition read_end :: "go_error option \<Rightarrow> 'w stdioTransport \<Rightarrow> 'w stdioTransport" where
  "read_end e t = t\<lparr>
     so_err := Some (case e of None \<Rightarrow> errServerExited | Some err \<Rightarrow> Errorf ''%w: %v'' [FWrap errServerExited, FShow err]),
     so_calls := map (\<lambda>(k, c). if k \<in> ran (so_pending t) then c\<lparr>ca_closed := True\<rparr> else c) (enumerate 0 (so_calls t)),
     so_pending := Map.empty, so_reader := Stopped\<rparr>"

definition stdio_answer :: "mcp_codec \<Rightarrow> ('c, 'w) mcp_options \<Rightarrow> 'c \<Rightarrow> nat \<Rightarrow> go_error option \<Rightarrow> 'w stdioTransport
    \<Rightarrow> 'w stdioTransport option" where
  "stdio_answer cd o' bg j e t =
     (if j < length (so_requests t) then
        (case so_requests t ! j of (i, meth, params) \<Rightarrow>
          (case handleRequest cd o' \<lparr>mc_user = bg, mc_slot = None\<rparr> meth params (so_client t) of
             (res, s') \<Rightarrow> Some (stdin_write (RpcReply i res) e
                (t\<lparr>so_requests := take j (so_requests t) @ drop (j + 1) (so_requests t), so_client := s'\<rparr>))))
      else None)"

definition stdio_notify :: "string \<Rightarrow> json option \<Rightarrow> go_error option \<Rightarrow> 'w stdioTransport \<Rightarrow> 'w stdioTransport" where
  "stdio_notify meth params e t = stdin_write (RpcNotification meth params) e t"

definition in_phase :: "call_phase \<Rightarrow> nat \<Rightarrow> 'w stdioTransport \<Rightarrow> bool" where
  "in_phase p k t \<longleftrightarrow> k < length (so_calls t) \<and> ca_phase (so_calls t ! k) = p"

fun stdio_step :: "mcp_codec \<Rightarrow> ('c, 'w) mcp_options \<Rightarrow> 'c \<Rightarrow> action \<Rightarrow> 'w stdioTransport \<Rightarrow> 'w stdioTransport option" where
  "stdio_step cd o' bg (Call meth params) t = Some (call_number meth params t)"
| "stdio_step cd o' bg (Register k) t = (if in_phase Numbered k t then Some (call_register k t) else None)"
| "stdio_step cd o' bg (Write k e) t = (if in_phase Registered k t then Some (call_write k e t) else None)"
| "stdio_step cd o' bg (Receive k) t = (if in_phase Waiting k t then call_receive k t else None)"
| "stdio_step cd o' bg (CtxDone k e) t = (if k < length (so_calls t) \<and> ca_ctx (so_calls t ! k) = None
     then Some (with_call k (\<lambda>c. c\<lparr>ca_ctx := Some e\<rparr>) t) else None)"
| "stdio_step cd o' bg (Abandon k we) t = (if in_phase Waiting k t then call_abandon k we t else None)"
| "stdio_step cd o' bg (ReadLine line) t = (if so_reader t = Reading then Some (dispatch cd line t) else None)"
| "stdio_step cd o' bg Deliver t = (case so_reader t of Sending k r \<Rightarrow> deliver k r t | _ \<Rightarrow> None)"
| "stdio_step cd o' bg (ReadEnd e) t = (if so_reader t = Reading then Some (read_end e t) else None)"
| "stdio_step cd o' bg (Answer j e) t = stdio_answer cd o' bg j e t"
| "stdio_step cd o' bg (Notify meth params e) t = Some (stdio_notify meth params e t)"

inductive stdio_run :: "mcp_codec \<Rightarrow> ('c, 'w) mcp_options \<Rightarrow> 'c \<Rightarrow> 'w mcp \<Rightarrow> action list \<Rightarrow> 'w stdioTransport \<Rightarrow> bool"
  for cd o' bg s where
  start: "stdio_run cd o' bg s [] (startStdio s)"
| act: "stdio_run cd o' bg s as t \<Longrightarrow> stdio_step cd o' bg a t = Some t' \<Longrightarrow> stdio_run cd o' bg s (as @ [a]) t'"

section \<open>The state of every call\<close>

definition waits :: "stdio_call \<Rightarrow> bool" where
  "waits c \<longleftrightarrow> ca_phase c = Registered \<or> ca_phase c = Waiting"

definition empty_channel :: "stdio_call \<Rightarrow> bool" where
  "empty_channel c \<longleftrightarrow> ca_buffer c = None \<and> \<not> ca_closed c"

text \<open>
  The state of one call, given whether it is pending, whether the reader is sending it a response
  and whether the reader has stopped: a pending call waits on an empty channel, a response is sent
  once, and a call that waits is pending, or its response is on the way, or its channel is ready.
\<close>

definition call_ok :: "bool \<Rightarrow> bool \<Rightarrow> bool \<Rightarrow> stdio_call \<Rightarrow> bool" where
  "call_ok pend send stopped c \<longleftrightarrow>
     (pend \<longrightarrow> waits c \<and> empty_channel c \<and> \<not> send) \<and> (send \<longrightarrow> ca_phase c \<noteq> Numbered \<and> empty_channel c) \<and>
     (ca_phase c = Numbered \<longrightarrow> empty_channel c) \<and> (waits c \<longrightarrow> pend \<or> send \<or> \<not> empty_channel c) \<and>
     (ca_closed c \<longrightarrow> stopped)"

definition sending :: "reader_phase \<Rightarrow> nat \<Rightarrow> bool" where
  "sending rd k = (case rd of Sending j r \<Rightarrow> j = k | _ \<Rightarrow> False)"

definition call_state :: "int \<Rightarrow> 'w stdioTransport \<Rightarrow> nat \<Rightarrow> stdio_call \<Rightarrow> bool" where
  "call_state n t k c \<longleftrightarrow> ca_id c = n + 1 + int k \<and>
     call_ok (so_pending t (n + 1 + int k) = Some k) (sending (so_reader t) k) (so_reader t = Stopped) c"

text \<open>\<open>n\<close> is the last request number used before.\<close>

definition table_ok :: "int \<Rightarrow> 'w stdioTransport \<Rightarrow> bool" where
  "table_ok n t \<longleftrightarrow>
     ms_next (so_client t) = n + int (length (so_calls t)) \<and>
     (\<forall>i k. so_pending t i = Some k \<longrightarrow> i = n + 1 + int k \<and> k < length (so_calls t)) \<and>
     (\<forall>k. sending (so_reader t) k \<longrightarrow> k < length (so_calls t)) \<and>
     (so_reader t = Stopped \<longleftrightarrow> so_err t \<noteq> None) \<and> (so_reader t = Stopped \<longrightarrow> so_pending t = Map.empty)"

definition stdio_ok :: "int \<Rightarrow> 'w stdioTransport \<Rightarrow> bool" where
  "stdio_ok n t \<longleftrightarrow> table_ok n t \<and> (\<forall>k<length (so_calls t). call_state n t k (so_calls t ! k))"

lemma stdio_ok_start: "stdio_ok (ms_next s) (startStdio s)"
  by (simp add: stdio_ok_def table_ok_def sending_def startStdio_def)

lemma stdin_write_sel [simp]:
  "so_client (stdin_write m e t) = so_client t" "so_calls (stdin_write m e t) = so_calls t"
  "so_pending (stdin_write m e t) = so_pending t" "so_err (stdin_write m e t) = so_err t"
  "so_reader (stdin_write m e t) = so_reader t" "so_requests (stdin_write m e t) = so_requests t"
  by (simp_all add: stdin_write_def)

lemma stdio_ok_cong:
  assumes "stdio_ok n t" "ms_next (so_client t') = ms_next (so_client t)" "so_calls t' = so_calls t" "so_pending t' = so_pending t"
    "so_err t' = so_err t" "so_reader t' = so_reader t"
  shows "stdio_ok n t'"
  using assms(1) unfolding stdio_ok_def table_ok_def call_state_def assms(2-) .

text \<open>An action that changes one call, its entry of the table and the reader.\<close>

lemma stdio_ok_update:
  assumes ok: "stdio_ok n t" and k: "k < length (so_calls t)"
    and t': "ms_next (so_client t') = ms_next (so_client t)" "so_calls t' = (so_calls t)[k := c]" "so_err t' = so_err t"
      "so_pending t' = (so_pending t)(ca_id (so_calls t ! k) := p)" "ca_id c = ca_id (so_calls t ! k)"
      "so_reader t' = Stopped \<longleftrightarrow> so_reader t = Stopped" "\<And>j. j \<noteq> k \<Longrightarrow> sending (so_reader t') j = sending (so_reader t) j"
    and p: "p = None \<or> p = Some k \<and> so_reader t \<noteq> Stopped"
    and c: "call_ok (p = Some k) (sending (so_reader t') k) (so_reader t = Stopped) c"
  shows "stdio_ok n t'"
proof -
  have i: "ca_id (so_calls t ! k) = n + 1 + int k" using ok k by (simp add: stdio_ok_def call_state_def)
  have tab: "table_ok n t" using ok by (simp add: stdio_ok_def)
  have st: "so_reader t' = Stopped \<longleftrightarrow> so_err t' \<noteq> None" using tab t'(3,6) by (simp add: table_ok_def)
  have pend: "so_pending t' = Map.empty" if "so_reader t' = Stopped"
    using tab t'(4,6) p that by (auto simp: table_ok_def)
  have entry: "i = n + 1 + int j \<and> j < length (so_calls t')" if "so_pending t' i = Some j" for i j
    using tab t'(2,4) p k i that by (auto simp: table_ok_def split: if_splits)
  have "sending (so_reader t') j \<Longrightarrow> j < length (so_calls t')" for j
    using tab t'(2,7) k by (cases "j = k") (auto simp: table_ok_def)
  then have "table_ok n t'" using tab t'(1,2) st pend entry by (simp add: table_ok_def)
  moreover have "call_state n t' j (so_calls t' ! j)" if "j < length (so_calls t')" for j
  proof (cases "j = k")
    case True
    then show ?thesis using k t' c i by (simp add: call_state_def)
  next
    case False
    then have "call_state n t j (so_calls t ! j)" using ok that t'(2) by (simp add: stdio_ok_def)
    then show ?thesis using False t' i by (simp add: call_state_def)
  qed
  ultimately show ?thesis by (simp add: stdio_ok_def)
qed

lemma handle_next: "ms_next (snd (handleRequest cd o' c meth ps s)) = ms_next s"
  by (auto simp: handleRequest_def handleElicit_def on_world_def split: bool.split option.split prod.split sum.split)

lemma stdio_ok_answer:
  assumes "stdio_ok n t" "stdio_answer cd o' bg j e t = Some t'"
  shows "stdio_ok n t'"
proof -
  obtain i meth ps res s' where r: "so_requests t ! j = (i, meth, ps)"
    and h: "handleRequest cd o' \<lparr>mc_user = bg, mc_slot = None\<rparr> meth ps (so_client t) = (res, s')"
    by (metis prod.exhaust)
  have "ms_next s' = ms_next (so_client t)" using handle_next [of cd o' "\<lparr>mc_user = bg, mc_slot = None\<rparr>" meth ps "so_client t"] h by simp
  moreover have "t' = stdin_write (RpcReply i res) e (t\<lparr>so_requests := take j (so_requests t) @ drop (j + 1) (so_requests t), so_client := s'\<rparr>)"
    using assms(2) r h by (simp add: stdio_answer_def split: if_splits)
  ultimately show ?thesis by (intro stdio_ok_cong [OF assms(1)]) simp_all
qed

lemma stdio_ok_number:
  assumes ok: "stdio_ok n t"
  shows "stdio_ok n (call_number meth ps t)"
proof -
  let ?t = "call_number meth ps t"
  have tab: "table_ok n t" using ok by (simp add: stdio_ok_def)
  have old: "i = n + 1 + int j \<and> j < Suc (length (so_calls t))" if "so_pending t i = Some j" for i j
    using tab that by (auto simp: table_ok_def intro: less_SucI)
  have "sending (so_reader t) j \<Longrightarrow> j < Suc (length (so_calls t))" for j
    using tab by (auto simp: table_ok_def intro: less_SucI)
  then have "table_ok n ?t" using tab old by (simp add: table_ok_def call_number_def Let_def)
  moreover have "call_state n ?t j (so_calls ?t ! j)" if "j < length (so_calls ?t)" for j
  proof (cases "j = length (so_calls t)")
    case True
    then have "so_pending t (n + 1 + int j) \<noteq> Some j" "\<not> sending (so_reader t) j" "ms_next (so_client t) = n + int j"
      using tab unfolding table_ok_def by blast+
    then show ?thesis using True
      by (simp add: call_state_def call_number_def Let_def call_ok_def waits_def empty_channel_def)
  next
    case False
    then show ?thesis using that ok by (simp add: stdio_ok_def call_state_def call_number_def Let_def nth_append)
  qed
  ultimately show ?thesis by (simp add: stdio_ok_def)
qed

lemma pending_own:
  assumes "table_ok n t"
  shows "so_pending t (n + 1 + int k) = None \<or> so_pending t (n + 1 + int k) = Some k"
proof (cases "so_pending t (n + 1 + int k)")
  case (Some a)
  then have "n + 1 + int k = n + 1 + int a" using assms unfolding table_ok_def by blast
  then show ?thesis using Some by simp
qed simp

lemma call_okD:
  assumes "stdio_ok n t" "k < length (so_calls t)"
  shows "call_ok (so_pending t (ca_id (so_calls t ! k)) = Some k) (sending (so_reader t) k) (so_reader t = Stopped) (so_calls t ! k)"
    and "so_pending t (ca_id (so_calls t ! k)) = None \<or> so_pending t (ca_id (so_calls t ! k)) = Some k"
    and "ca_id (so_calls t ! k) = n + 1 + int k"
proof -
  have c: "call_state n t k (so_calls t ! k)" and tab: "table_ok n t" using assms by (simp_all add: stdio_ok_def)
  then show i: "ca_id (so_calls t ! k) = n + 1 + int k" by (simp add: call_state_def)
  show "call_ok (so_pending t (ca_id (so_calls t ! k)) = Some k) (sending (so_reader t) k) (so_reader t = Stopped) (so_calls t ! k)"
    using c unfolding call_state_def i by blast
  show "so_pending t (ca_id (so_calls t ! k)) = None \<or> so_pending t (ca_id (so_calls t ! k)) = Some k"
    unfolding i by (rule pending_own [OF tab])
qed

lemma stopped_iff: "stdio_ok n t \<Longrightarrow> so_reader t = Stopped \<longleftrightarrow> so_err t \<noteq> None"
  unfolding stdio_ok_def table_ok_def by blast

lemmas one_call = call_register_def return_call_def with_call_def call_write_def forget_def call_receive_def call_abandon_def deliver_def
  Let_def

lemmas call_states = call_ok_def waits_def empty_channel_def sending_def

lemma entry_cases:
  assumes ok: "stdio_ok n t" and k: "k < length (so_calls t)"
  shows "so_pending t (ca_id (so_calls t ! k)) = None \<or>
    so_pending t (ca_id (so_calls t ! k)) = Some k \<and> so_reader t \<noteq> Stopped"
proof (cases "so_reader t = Stopped")
  case True
  then have "so_pending t = Map.empty" using ok unfolding stdio_ok_def table_ok_def by blast
  then show ?thesis by simp
next
  case False
  then show ?thesis using call_okD(2) [OF ok k] by simp
qed

lemma not_pending:
  assumes "stdio_ok n t" "k < length (so_calls t)" "\<not> waits (so_calls t ! k)"
  shows "so_pending t (ca_id (so_calls t ! k)) = None"
  using call_okD(1,2) [OF assms(1,2)] assms(3) by (auto simp: call_ok_def)

lemma stdio_ok_register:
  assumes ok: "stdio_ok n t" and ph: "in_phase Numbered k t"
  shows "stdio_ok n (call_register k t)"
proof -
  have k: "k < length (so_calls t)" and n: "ca_phase (so_calls t ! k) = Numbered" using ph by (simp_all add: in_phase_def)
  then have np: "so_pending t (ca_id (so_calls t ! k)) = None" by (intro not_pending [OF ok]) (simp_all add: waits_def)
  note C = call_okD(1) [OF ok k]
  show ?thesis
  proof (cases "so_err t")
    case None
    then have "so_reader t \<noteq> Stopped" using stopped_iff [OF ok] by simp
    then show ?thesis using None C n np
      by (intro stdio_ok_update [OF ok k, where c = "(so_calls t ! k)\<lparr>ca_phase := Registered\<rparr>" and p = "Some k"])
        (simp_all add: one_call call_ok_def waits_def empty_channel_def)
  next
    case (Some e)
    then show ?thesis using C n np
      by (intro stdio_ok_update [OF ok k, where c = "(so_calls t ! k)\<lparr>ca_phase := Returned (Inl e)\<rparr>" and p = None])
        (simp_all add: one_call call_ok_def waits_def empty_channel_def fun_upd_idem)
  qed
qed

lemma stdio_ok_return:
  assumes ok: "stdio_ok n t" and k: "k < length (so_calls t)" and w: "waits (so_calls t ! k)"
    and t': "ms_next (so_client t') = ms_next (so_client t)" "so_err t' = so_err t" "so_reader t' = so_reader t"
      "so_calls t' = (so_calls t)[k := c]" "so_pending t' = (so_pending t)(ca_id (so_calls t ! k) := None)"
    and c: "ca_id c = ca_id (so_calls t ! k)" "\<exists>r. ca_phase c = Returned r" "ca_closed c = ca_closed (so_calls t ! k)"
      "ca_buffer c = None \<or> ca_buffer c = ca_buffer (so_calls t ! k)"
  shows "stdio_ok n t'"
proof (rule stdio_ok_update [OF ok k t'(1,4,2,5) c(1)])
  show "so_reader t' = Stopped \<longleftrightarrow> so_reader t = Stopped" "sending (so_reader t') j = sending (so_reader t) j" for j
    by (simp_all add: t'(3))
  have "call_ok p q s (so_calls t ! k) \<Longrightarrow> call_ok False q s c" for p q s
    using w c(2-4) unfolding call_ok_def waits_def empty_channel_def by auto
  then show "call_ok (None = Some k) (sending (so_reader t') k) (so_reader t = Stopped) c"
    using call_okD(1) [OF ok k] unfolding t'(3) by simp
qed simp

lemma stdio_ok_call_write:
  assumes ok: "stdio_ok n t" and ph: "in_phase Registered k t"
  shows "stdio_ok n (call_write k e t)"
proof -
  have k: "k < length (so_calls t)" and n: "ca_phase (so_calls t ! k) = Registered" using ph by (simp_all add: in_phase_def)
  show ?thesis
  proof (cases e)
    case None
    let ?p = "so_pending t (ca_id (so_calls t ! k))"
    have "?p = None \<or> ?p = Some k \<and> so_reader t \<noteq> Stopped"
      by (rule entry_cases [OF ok k])
    then show ?thesis using None call_okD(1) [OF ok k] n
      by (intro stdio_ok_update [OF ok k, where c = "(so_calls t ! k)\<lparr>ca_phase := Waiting\<rparr>" and p = ?p])
        (simp_all add: one_call call_ok_def waits_def empty_channel_def)
  next
    case (Some err)
    then show ?thesis using n
      by (intro stdio_ok_return [OF ok k, where c = "so_calls (call_write k e t) ! k"]) (simp_all add: one_call waits_def k)
  qed
qed

lemma stdio_ok_receive:
  assumes ok: "stdio_ok n t" and ph: "in_phase Waiting k t" and r: "call_receive k t = Some t'"
  shows "stdio_ok n t'"
proof -
  have k: "k < length (so_calls t)" and n: "waits (so_calls t ! k)" using ph by (simp_all add: in_phase_def waits_def)
  have "\<not> empty_channel (so_calls t ! k)" using r by (auto simp: one_call empty_channel_def split: option.splits if_splits)
  then have "so_pending t (ca_id (so_calls t ! k)) = None" using call_okD(1,2) [OF ok k] by (auto simp: call_ok_def)
  then show ?thesis using r n
    by (intro stdio_ok_return [OF ok k, where c = "so_calls t' ! k"])
      (auto simp: one_call fun_upd_idem k split: option.splits if_splits)
qed

lemma stdio_ok_abandon:
  assumes ok: "stdio_ok n t" and ph: "in_phase Waiting k t" and r: "call_abandon k e t = Some t'"
  shows "stdio_ok n t'"
proof -
  have k: "k < length (so_calls t)" and n: "waits (so_calls t ! k)" using ph by (simp_all add: in_phase_def waits_def)
  then show ?thesis using r
    by (intro stdio_ok_return [OF ok k, where c = "so_calls t' ! k"]) (auto simp: one_call split: option.splits)
qed

lemma stdio_ok_ctx:
  assumes ok: "stdio_ok n t" and k: "k < length (so_calls t)"
  shows "stdio_ok n (with_call k (\<lambda>c. c\<lparr>ca_ctx := e\<rparr>) t)"
proof -
  let ?c = "(so_calls t ! k)\<lparr>ca_ctx := e\<rparr>" and ?p = "so_pending t (ca_id (so_calls t ! k))"
  have "call_ok p q s ?c = call_ok p q s (so_calls t ! k)" for p q s by (simp add: call_ok_def waits_def empty_channel_def)
  then show ?thesis using call_okD(1) [OF ok k] entry_cases [OF ok k]
    by (intro stdio_ok_update [OF ok k, where c = ?c and p = ?p]) (simp_all add: with_call_def)
qed

lemma stdio_ok_dispatch:
  assumes ok: "stdio_ok n t" and rd: "so_reader t = Reading"
  shows "stdio_ok n (dispatch cd line t)"
proof -
  have take: "stdio_ok n (t\<lparr>so_pending := (so_pending t)(i := None), so_reader := Sending k r\<rparr>)" if "so_pending t i = Some k" for i k r
  proof -
    have k: "k < length (so_calls t)" and i: "i = n + 1 + int k" using that ok unfolding stdio_ok_def table_ok_def by blast+
    have i: "i = ca_id (so_calls t ! k)" using call_okD(3) [OF ok k] i by simp
    show ?thesis using call_okD(1) [OF ok k] that rd
      by (intro stdio_ok_update [OF ok k, where c = "so_calls t ! k" and p = None])
        (auto simp: i call_ok_def waits_def sending_def)
  qed
  have "stdio_ok n (t\<lparr>so_requests := rs\<rparr>)" for rs by (rule stdio_ok_cong [OF ok]) simp_all
  then show ?thesis using ok take unfolding dispatch_def by (auto split: option.split)
qed

lemma stdio_ok_deliver:
  assumes ok: "stdio_ok n t" and rd: "so_reader t = Sending k r" and d: "deliver k r t = Some t'"
  shows "stdio_ok n t'"
proof -
  have k: "k < length (so_calls t)" using ok rd by (auto simp: stdio_ok_def table_ok_def sending_def)
  have np: "so_pending t (ca_id (so_calls t ! k)) = None" using call_okD(1,2) [OF ok k] rd by (auto simp: call_ok_def sending_def)
  show ?thesis using call_okD(1) [OF ok k] rd d np
    by (intro stdio_ok_update [OF ok k, where c = "(so_calls t ! k)\<lparr>ca_buffer := Some r\<rparr>" and p = None])
      (auto simp: one_call call_ok_def waits_def empty_channel_def sending_def fun_upd_idem split: if_splits)
qed

lemma read_end_calls:
  "length (so_calls (read_end e t)) = length (so_calls t)"
  "k < length (so_calls t) \<Longrightarrow> so_calls (read_end e t) ! k =
     (if k \<in> ran (so_pending t) then (so_calls t ! k)\<lparr>ca_closed := True\<rparr> else so_calls t ! k)"
  by (simp_all add: read_end_def nth_enumerate_eq)

lemma stdio_ok_end:
  assumes ok: "stdio_ok n t" and rd: "so_reader t = Reading"
  shows "stdio_ok n (read_end e t)"
proof -
  have "table_ok n (read_end e t)" using ok by (simp add: stdio_ok_def table_ok_def read_end_def sending_def)
  moreover have "call_state n (read_end e t) k (so_calls (read_end e t) ! k)" if "k < length (so_calls (read_end e t))" for k
  proof -
    have k: "k < length (so_calls t)" using that by (simp add: read_end_calls)
    have "k \<in> ran (so_pending t) \<longleftrightarrow> so_pending t (ca_id (so_calls t ! k)) = Some k"
      using ok call_okD(3) [OF ok k] unfolding ran_def stdio_ok_def table_ok_def by auto
    then have c: "so_calls (read_end e t) ! k =
        (if so_pending t (ca_id (so_calls t ! k)) = Some k then (so_calls t ! k)\<lparr>ca_closed := True\<rparr> else so_calls t ! k)"
      using k by (simp add: read_end_calls(2))
    have "call_ok p q s c \<Longrightarrow> call_ok False False True (if p then c\<lparr>ca_closed := True\<rparr> else c)" if "\<not> q" for p q s c
      using that by (auto simp: call_ok_def waits_def empty_channel_def)
    from this [OF _ call_okD(1) [OF ok k]] rd
    have "call_ok False False True (so_calls (read_end e t) ! k)" unfolding c by (simp add: sending_def)
    moreover have "ca_id (so_calls (read_end e t) ! k) = n + 1 + int k" using call_okD(3) [OF ok k] by (simp add: c)
    ultimately show ?thesis by (simp add: call_state_def read_end_def sending_def)
  qed
  ultimately show ?thesis by (simp add: stdio_ok_def)
qed

lemma stdio_ok_step:
  assumes ok: "stdio_ok n t" and s: "stdio_step cd o' bg a t = Some t'"
  shows "stdio_ok n t'"
proof (cases a)
  case (Notify meth ps e)
  then show ?thesis using s by (auto simp: stdio_notify_def intro: stdio_ok_cong [OF ok])
next
  case Deliver
  then show ?thesis using s stdio_ok_deliver [OF ok] by (auto split: reader_phase.splits)
next
  case (Call meth ps)
  then show ?thesis using s stdio_ok_number [OF ok] by (auto split: if_splits)
next
  case (Register k)
  then show ?thesis using s stdio_ok_register [OF ok] by (auto split: if_splits)
next
  case (Write k e)
  then show ?thesis using s stdio_ok_call_write [OF ok] by (auto split: if_splits)
next
  case (Receive k)
  then show ?thesis using s stdio_ok_receive [OF ok] by (auto split: if_splits)
next
  case (CtxDone k e)
  then show ?thesis using s stdio_ok_ctx [OF ok] by (auto split: if_splits)
next
  case (Abandon k e)
  then show ?thesis using s stdio_ok_abandon [OF ok] by (auto split: if_splits)
next
  case (ReadLine line)
  then show ?thesis using s stdio_ok_dispatch [OF ok] by (auto split: if_splits)
next
  case (ReadEnd e)
  then show ?thesis using s stdio_ok_end [OF ok] by (auto split: if_splits)
next
  case (Answer j e)
  then show ?thesis using s stdio_ok_answer [OF ok] by (auto split: if_splits)
qed

lemma stdio_run_ok: "stdio_run cd o' bg s as t \<Longrightarrow> stdio_ok (ms_next s) t"
  by (induction rule: stdio_run.induct) (auto intro: stdio_ok_start stdio_ok_step)

lemma deliver_never_blocks:
  assumes "stdio_ok n t" "so_reader t = Sending k r"
  shows "\<exists>t'. stdio_step cd o' bg Deliver t = Some t'"
proof -
  have "k < length (so_calls t)" using assms by (auto simp: stdio_ok_def table_ok_def sending_def)
  from call_okD(1) [OF assms(1) this] show ?thesis using assms(2)
    by (simp add: call_ok_def empty_channel_def deliver_def sending_def)
qed

section \<open>What a call returns\<close>

definition answered :: "mcp_codec \<Rightarrow> action list \<Rightarrow> int \<Rightarrow> rpc_response \<Rightarrow> bool" where
  "answered cd as i r \<longleftrightarrow> (\<exists>line msg. ReadLine line \<in> set as \<and> mk_incoming cd line = Some msg \<and> in_method msg = [] \<and>
     mk_id cd (in_id msg) = Some i \<and> r = (in_result msg, in_error msg))"

definition outcome :: "mcp_codec \<Rightarrow> action list \<Rightarrow> go_error option \<Rightarrow> nat \<Rightarrow> int \<Rightarrow> go_error + string \<Rightarrow> bool" where
  "outcome cd as err k i r \<longleftrightarrow> (\<exists>a. answered cd as i a \<and> r = rpc_result a) \<or> (\<exists>e. CtxDone k e \<in> set as \<and> r = Inl e) \<or>
     (\<exists>e. Write k (Some e) \<in> set as \<and> r = Inl (Errorf ''write request: %w'' [FWrap e])) \<or> (\<exists>e. err = Some e \<and> r = Inl e)"

definition call_log :: "mcp_codec \<Rightarrow> action list \<Rightarrow> go_error option \<Rightarrow> reader_phase \<Rightarrow> nat \<Rightarrow> stdio_call \<Rightarrow> bool" where
  "call_log cd as err rd k c \<longleftrightarrow> (\<forall>a. ca_buffer c = Some a \<longrightarrow> answered cd as (ca_id c) a) \<and>
     (\<forall>a. rd = Sending k a \<longrightarrow> answered cd as (ca_id c) a) \<and> (\<forall>e. ca_ctx c = Some e \<longrightarrow> CtxDone k e \<in> set as) \<and>
     (\<forall>r. ca_phase c = Returned r \<longrightarrow> outcome cd as err k (ca_id c) r)"

lemma answered_more: "answered cd as i r \<Longrightarrow> answered cd (as @ bs) i r"
  by (auto simp: answered_def)

lemma outcome_more: "outcome cd as err k i r \<Longrightarrow> err = None \<or> err' = err \<Longrightarrow> outcome cd (as @ bs) err' k i r"
  unfolding outcome_def using answered_more [of cd as i _ bs] by (elim disjE exE conjE) fastforce+

lemma call_log_more:
  assumes "call_log cd as err rd k c" "err = None \<or> err' = err" "\<And>a. rd' = Sending k a \<Longrightarrow> rd = Sending k a \<or> answered cd (as @ bs) (ca_id c) a"
  shows "call_log cd (as @ bs) err' rd' k c"
  using assms(1) answered_more [of cd as "ca_id c" _ bs] outcome_more [OF _ assms(2)] assms(3) unfolding call_log_def by fastforce

text \<open>The calls after a step: one call changed at most, or one more, or channels closed.\<close>

lemma same_calls [simp]:
  "so_calls (dispatch cd line t) = so_calls t" "so_calls (stdio_notify meth ps e t) = so_calls t"
  by (auto simp: dispatch_def stdio_notify_def split: option.split)

lemma answer_calls: "stdio_answer cd o' bg j e t = Some t' \<Longrightarrow> so_calls t' = so_calls t \<and> so_reader t' = so_reader t \<and> so_err t' = so_err t"
  by (auto simp: stdio_answer_def split: if_splits prod.splits)

fun touches :: "action \<Rightarrow> 'w stdioTransport \<Rightarrow> nat \<Rightarrow> bool" where
  "touches (Register j) t k = (j = k)"
| "touches (Write j we) t k = (j = k)"
| "touches (Receive j) t k = (j = k)"
| "touches (CtxDone j e) t k = (j = k)"
| "touches (Abandon j we) t k = (j = k)"
| "touches Deliver t k = sending (so_reader t) k"
| "touches (ReadEnd e) t k = True"
| "touches _ t k = False"

lemma nth_other: "so_calls t' = (so_calls t)[j := c] \<Longrightarrow> j \<noteq> k \<Longrightarrow> so_calls t' ! k = so_calls t ! k"
  by simp

lemma touched_only:
  assumes s: "stdio_step cd o' bg a t = Some t'" and k: "k < length (so_calls t)"
  shows "k < length (so_calls t') \<and> (\<not> touches a t k \<longrightarrow> so_calls t' ! k = so_calls t ! k)"
proof (cases a)
  case (Call meth ps)
  then show ?thesis using s k by (auto simp: call_number_def Let_def nth_append)
next
  case (Register j)
  then show ?thesis using s k by (auto simp: one_call split: if_splits option.splits)
next
  case (Write j e)
  then show ?thesis using s k by (auto simp: one_call split: if_splits option.splits)
next
  case (Receive j)
  then show ?thesis using s k by (auto simp: one_call split: if_splits option.splits)
next
  case (CtxDone j e)
  then show ?thesis using s k by (auto simp: one_call split: if_splits)
next
  case (Abandon j e)
  then show ?thesis using s k by (auto simp: one_call split: if_splits option.splits)
next
  case Deliver
  then show ?thesis using s k by (auto simp: one_call sending_def split: if_splits reader_phase.splits)
next
  case (ReadEnd e)
  then show ?thesis using s k by (auto simp: read_end_calls split: if_splits)
next
  case (ReadLine line)
  then show ?thesis using s k by (auto split: if_splits)
next
  case (Answer j e)
  then show ?thesis using s k answer_calls [of cd o' bg j e t t'] by simp
next
  case (Notify meth ps e)
  then show ?thesis using s k by auto
qed

lemma err_stays: "stdio_ok n t \<Longrightarrow> stdio_step cd o' bg a t = Some t' \<Longrightarrow> so_err t = None \<or> so_err t' = so_err t"
  using stopped_iff [of n t]
  by (cases a) (auto simp: one_call call_number_def dispatch_def stdio_notify_def read_end_def dest: answer_calls
      split: if_splits option.splits reader_phase.splits)

lemma sending_step:
  assumes ok: "stdio_ok n t" and s: "stdio_step cd o' bg a t = Some t'" and r: "so_reader t' = Sending k r"
  shows "so_reader t = Sending k r \<or> answered cd (as @ [a]) (ca_id (so_calls t ! k)) r"
proof (cases a)
  case (ReadLine line)
  have own: "i = ca_id (so_calls t ! k)" if "so_pending t i = Some k" for i
  proof -
    have "i = n + 1 + int k" "k < length (so_calls t)" using ok that unfolding stdio_ok_def table_ok_def by blast+
    then show ?thesis using call_okD(3) [OF ok] by simp
  qed
  show ?thesis using s r ReadLine unfolding answered_def
    by (auto simp: dispatch_def split: if_splits option.splits) (metis own)
qed (use s r in \<open>auto simp: one_call call_number_def stdio_notify_def read_end_def dest: answer_calls
    split: if_splits option.splits reader_phase.splits\<close>)

lemma call_log_step:
  assumes ok: "stdio_ok n t" and s: "stdio_step cd o' bg a t = Some t'" and k: "k < length (so_calls t)"
    and L: "call_log cd as (so_err t) (so_reader t) k (so_calls t ! k)"
  shows "call_log cd (as @ [a]) (so_err t') (so_reader t') k (so_calls t' ! k)"
proof -
  have M: "call_log cd (as @ [a]) (so_err t') (so_reader t') k (so_calls t ! k)"
    by (rule call_log_more [OF L err_stays [OF ok s]]) (rule sending_step [OF ok s])
  show ?thesis
  proof (cases "touches a t k")
    case False
    then show ?thesis using M touched_only [OF s k] by simp
  next
    case True
    then show ?thesis
    proof (cases a)
      case (Register j)
      then show ?thesis using True M s k by (auto simp: one_call call_log_def outcome_def in_phase_def split: option.splits if_splits)
    next
      case (Write j e)
      then show ?thesis using True M s k by (auto simp: one_call call_log_def outcome_def in_phase_def split: option.splits if_splits)
    next
      case (Receive j)
      have "\<exists>e. so_err t = Some e" if "ca_closed (so_calls t ! k)"
        using call_okD(1) [OF ok k] that stopped_iff [OF ok] by (auto simp: call_ok_def)
      moreover have "outcome cd as' err k i (rpc_result r)" if "answered cd as' i r" for as' err i r
        using that unfolding outcome_def by blast
      moreover have "outcome cd as' (Some e) k i (Inl e)" for as' e i unfolding outcome_def by blast
      ultimately show ?thesis using Receive True M s k
        by (auto simp: one_call call_log_def in_phase_def split: option.splits if_splits)
    next
      case (CtxDone j e)
      then show ?thesis using True M s k by (auto simp: one_call call_log_def split: if_splits)
    next
      case (Abandon j we)
      then show ?thesis using True M s k by (auto simp: one_call call_log_def outcome_def in_phase_def split: option.splits if_splits)
    next
      case Deliver
      then obtain r where r: "so_reader t = Sending k r" using True by (auto simp: sending_def split: reader_phase.splits)
      then have "answered cd (as @ [a]) (ca_id (so_calls t ! k)) r"
        using L answered_more [of cd as _ r "[a]"] by (simp add: call_log_def)
      then show ?thesis using Deliver r M s k by (auto simp: one_call call_log_def split: if_splits)
    next
      case (ReadEnd e)
      then show ?thesis using M s k by (auto simp: call_log_def read_end_calls split: if_splits)
    qed (use True in simp_all)
  qed
qed

lemma run_log:
  assumes "stdio_run cd o' bg s as t"
  shows "\<forall>k<length (so_calls t). call_log cd as (so_err t) (so_reader t) k (so_calls t ! k)"
  using assms
proof (induction rule: stdio_run.induct)
  case (act as t a t')
  note ok = stdio_run_ok [OF act.hyps(1)]
  show ?case
  proof (intro allI impI)
    fix k assume k: "k < length (so_calls t')"
    show "call_log cd (as @ [a]) (so_err t') (so_reader t') k (so_calls t' ! k)"
    proof (cases "k < length (so_calls t)")
      case True
      then show ?thesis using call_log_step [OF ok act.hyps(2) True] act.IH by blast
    next
      case False
      then have c: "\<exists>meth ps. a = Call meth ps"
        using k act.hyps(2) by (cases a) (auto simp: one_call read_end_calls dest: answer_calls split: if_splits option.splits reader_phase.splits)
      have "so_reader t \<noteq> Sending k r" for r
        using ok False by (auto simp: stdio_ok_def table_ok_def sending_def)
      then show ?thesis using c False k act.hyps(2) by (auto simp: call_number_def Let_def nth_append call_log_def split: if_splits)
    qed
  qed
qed (simp add: startStdio_def)

text \<open>
  C9. A call over stdio returns what belongs to it: the answer the server sent to its own request
  number, which no other call has, the end of its own context, the failure of its own write, or the
  error that says why the server's output ended.
\<close>

theorem stdio_call_outcomes:
  assumes "stdio_run cd o' bg s as t" "in_phase (Returned r) k t"
  shows "outcome cd as (so_err t) k (ca_id (so_calls t ! k)) r \<and>
    (\<forall>j<length (so_calls t). ca_id (so_calls t ! j) = ca_id (so_calls t ! k) \<longleftrightarrow> j = k)"
proof -
  have k: "k < length (so_calls t)" "ca_phase (so_calls t ! k) = Returned r" using assms(2) by (simp_all add: in_phase_def)
  moreover have "ca_id (so_calls t ! j) = ca_id (so_calls t ! k) \<longleftrightarrow> j = k" if "j < length (so_calls t)" for j
    using call_okD(3) [OF stdio_run_ok [OF assms(1)]] that k by simp
  ultimately show ?thesis using run_log [OF assms(1)] by (auto simp: call_log_def)
qed

section \<open>Progress under weak fairness\<close>

text \<open>
  An execution takes a step or waits at every instant; it is fair to a thread when the thread is
  not enabled for ever without a step.
\<close>

definition execution :: "('a \<Rightarrow> 's \<Rightarrow> 's option) \<Rightarrow> (nat \<Rightarrow> 'a option) \<Rightarrow> (nat \<Rightarrow> 's) \<Rightarrow> bool" where
  "execution step \<alpha> \<sigma> \<longleftrightarrow> (\<forall>n. case \<alpha> n of None \<Rightarrow> \<sigma> (Suc n) = \<sigma> n | Some a \<Rightarrow> step a (\<sigma> n) = Some (\<sigma> (Suc n)))"

definition weakly_fair :: "('a \<Rightarrow> 's \<Rightarrow> 's option) \<Rightarrow> ('a \<Rightarrow> bool) \<Rightarrow> (nat \<Rightarrow> 'a option) \<Rightarrow> (nat \<Rightarrow> 's) \<Rightarrow> bool" where
  "weakly_fair step own \<alpha> \<sigma> \<longleftrightarrow> (\<forall>n. \<exists>m\<ge>n. (\<exists>a. \<alpha> m = Some a \<and> own a) \<or> (\<forall>a. own a \<longrightarrow> step a (\<sigma> m) = None))"

lemma execution_at:
  assumes "execution step \<alpha> \<sigma>"
  shows "case \<alpha> n of None \<Rightarrow> \<sigma> (Suc n) = \<sigma> n | Some a \<Rightarrow> step a (\<sigma> n) = Some (\<sigma> (Suc n))"
  using assms unfolding execution_def by (rule spec)

lemma execution_invariant:
  assumes "execution step \<alpha> \<sigma>" "P (\<sigma> 0)" "\<And>a s s'. P s \<Longrightarrow> step a s = Some s' \<Longrightarrow> P s'"
  shows "P (\<sigma> n)"
proof (induction n)
  case (Suc n)
  then show ?case using execution_at [OF assms(1), of n] assms(3) by (cases "\<alpha> n") simp_all
qed (rule assms(2))

locale thread_progress =
  fixes step :: "'a \<Rightarrow> 's \<Rightarrow> 's option"
    and own :: "'a \<Rightarrow> bool"
    and good :: "'s \<Rightarrow> bool"
    and left :: "'s \<Rightarrow> nat"
  assumes good_step: "good s \<Longrightarrow> step a s = Some s' \<Longrightarrow> good s'"
    and other_step: "good s \<Longrightarrow> \<not> own a \<Longrightarrow> step a s = Some s' \<Longrightarrow> left s' \<le> left s"
    and own_step: "good s \<Longrightarrow> own a \<Longrightarrow> step a s = Some s' \<Longrightarrow> left s' < left s"
    and enabled: "good s \<Longrightarrow> left s > 0 \<Longrightarrow> \<exists>a s'. own a \<and> step a s = Some s'"
begin

lemma next_good:
  assumes "execution step \<alpha> \<sigma>" "good (\<sigma> n)"
  shows "good (\<sigma> (Suc n)) \<and> left (\<sigma> (Suc n)) \<le> left (\<sigma> n)"
proof (cases "\<alpha> n")
  case None
  then have "\<sigma> (Suc n) = \<sigma> n" using assms(1) unfolding execution_def by (metis option.simps(4))
  then show ?thesis using assms(2) by simp
next
  case (Some a)
  then have s: "step a (\<sigma> n) = Some (\<sigma> (Suc n))" using assms(1) unfolding execution_def by (metis option.simps(5))
  then have "left (\<sigma> (Suc n)) \<le> left (\<sigma> n)"
    using other_step [OF assms(2) _ s] own_step [OF assms(2) _ s] by (cases "own a") simp_all
  then show ?thesis using good_step [OF assms(2) s] by simp
qed

lemma later_good:
  assumes "execution step \<alpha> \<sigma>" "good (\<sigma> n)"
  shows "good (\<sigma> (n + d)) \<and> left (\<sigma> (n + d)) \<le> left (\<sigma> n)"
proof (induction d)
  case (Suc d)
  then show ?case using next_good [OF assms(1), of "n + d"] by fastforce
qed (use assms in simp)

lemma eventually_done:
  assumes ex: "execution step \<alpha> \<sigma>" and fair: "weakly_fair step own \<alpha> \<sigma>" and g: "good (\<sigma> n)"
  shows "\<exists>m\<ge>n. left (\<sigma> m) = 0"
  using g
proof (induction "left (\<sigma> n)" arbitrary: n rule: less_induct)
  case less
  show ?case
  proof (cases "left (\<sigma> n) = 0")
    case False
    obtain m where m: "m \<ge> n" and f: "(\<exists>a. \<alpha> m = Some a \<and> own a) \<or> (\<forall>a. own a \<longrightarrow> step a (\<sigma> m) = None)"
      using fair unfolding weakly_fair_def by blast
    have gm: "good (\<sigma> m)" "left (\<sigma> m) \<le> left (\<sigma> n)" using later_good [OF ex less.prems, of "m - n"] m by simp_all
    show ?thesis
    proof (cases "left (\<sigma> m) = 0")
      case False
      then have "\<exists>a s'. own a \<and> step a (\<sigma> m) = Some s'" using enabled gm(1) by blast
      then obtain a where a: "\<alpha> m = Some a" "own a" using f by fastforce
      then have "step a (\<sigma> m) = Some (\<sigma> (Suc m))" using ex unfolding execution_def by (metis option.simps(5))
      then have "left (\<sigma> (Suc m)) < left (\<sigma> n)" "good (\<sigma> (Suc m))"
        using own_step [OF gm(1) a(2)] good_step [OF gm(1)] gm(2) by fastforce+
      then obtain j where "j \<ge> Suc m" "left (\<sigma> j) = 0" using less.hyps by blast
      then show ?thesis using m by (intro exI [of _ j]) simp
    qed (use m in blast)
  qed (use less.prems in blast)
qed

end

section \<open>No call waits for ever\<close>

fun own_call :: "nat \<Rightarrow> action \<Rightarrow> bool" where
  "own_call k (Register j) = (j = k)"
| "own_call k (Write j we) = (j = k)"
| "own_call k (Receive j) = (j = k)"
| "own_call k (Abandon j we) = (j = k)"
| "own_call k _ = False"

fun to_go :: "call_phase \<Rightarrow> nat" where
  "to_go Numbered = 3"
| "to_go Registered = 2"
| "to_go Waiting = 1"
| "to_go (Returned r) = 0"

text \<open>A call that can go on: the reader has stopped, its context ended, its channel is ready, or it returned.\<close>

definition promised :: "nat \<Rightarrow> 'w stdioTransport \<Rightarrow> bool" where
  "promised k t \<longleftrightarrow> k < length (so_calls t) \<and> (so_reader t = Stopped \<or> ca_ctx (so_calls t ! k) \<noteq> None \<or>
     \<not> empty_channel (so_calls t ! k) \<or> to_go (ca_phase (so_calls t ! k)) = 0)"

lemma stopped_stays: "stdio_step cd o' bg a t = Some t' \<Longrightarrow> so_reader t = Stopped \<Longrightarrow> so_reader t' = Stopped"
  by (cases a) (auto simp: one_call call_number_def stdio_notify_def dest: answer_calls split: if_splits option.splits)

lemma phase_step:
  assumes "stdio_step cd o' bg a t = Some t'" "k < length (so_calls t)"
  shows "\<not> own_call k a \<Longrightarrow> ca_phase (so_calls t' ! k) = ca_phase (so_calls t ! k)"
    and "own_call k a \<Longrightarrow> to_go (ca_phase (so_calls t' ! k)) < to_go (ca_phase (so_calls t ! k))"
proof -
  show "ca_phase (so_calls t' ! k) = ca_phase (so_calls t ! k)" if own: "\<not> own_call k a"
  proof (cases "touches a t k")
    case True
    then show ?thesis using own assms
      by (cases a) (auto simp: one_call sending_def read_end_calls split: if_splits reader_phase.splits)
  qed (use touched_only [OF assms] in simp)
  show "to_go (ca_phase (so_calls t' ! k)) < to_go (ca_phase (so_calls t ! k))" if own: "own_call k a"
    using own assms by (cases a) (auto simp: one_call in_phase_def split: if_splits option.splits)
qed

lemma promised_step:
  assumes "promised k t" "stdio_step cd o' bg a t = Some t'"
  shows "promised k t'"
proof -
  have k: "k < length (so_calls t)" using assms(1) by (simp add: promised_def)
  have k': "k < length (so_calls t')" using touched_only [OF assms(2) k] by simp
  show ?thesis
  proof (cases "own_call k a \<or> so_reader t = Stopped \<or> to_go (ca_phase (so_calls t ! k)) = 0")
    case True
    then show ?thesis
    proof (elim disjE)
      assume own: "own_call k a"
      then show ?thesis using assms k k' phase_step(2) [OF assms(2) k own]
        by (cases a) (auto simp: promised_def one_call empty_channel_def in_phase_def split: if_splits option.splits)
    next
      assume "so_reader t = Stopped"
      then show ?thesis using stopped_stays [OF assms(2)] k' by (simp add: promised_def)
    next
      assume "to_go (ca_phase (so_calls t ! k)) = 0"
      then show ?thesis using phase_step [OF assms(2) k] k' by (cases "own_call k a") (simp_all add: promised_def)
    qed
  next
    case False
    then have c: "ca_ctx (so_calls t ! k) \<noteq> None \<or> \<not> empty_channel (so_calls t ! k)" using assms(1) by (auto simp: promised_def)
    have "ca_ctx (so_calls t' ! k) \<noteq> None \<or> \<not> empty_channel (so_calls t' ! k)"
    proof (cases "touches a t k")
      case True
      then show ?thesis using c False assms(2) k
        by (cases a) (auto simp: one_call sending_def read_end_calls empty_channel_def split: if_splits reader_phase.splits)
    qed (use c touched_only [OF assms(2) k] in simp)
    then show ?thesis using k' by (auto simp: promised_def)
  qed
qed

lemma promised_enabled:
  assumes ok: "stdio_ok n t" and p: "promised k t" and g: "to_go (ca_phase (so_calls t ! k)) > 0"
  shows "\<exists>a t'. own_call k a \<and> stdio_step cd o' bg a t = Some t'"
proof -
  have k: "k < length (so_calls t)" using p by (simp add: promised_def)
  show ?thesis
  proof (cases "ca_phase (so_calls t ! k)")
    case Numbered
    then show ?thesis using k by (intro exI [of _ "Register k"]) (simp add: in_phase_def)
  next
    case Registered
    then show ?thesis using k by (intro exI [of _ "Write k None"]) (simp add: in_phase_def)
  next
    case Waiting
    show ?thesis
    proof (cases "ca_ctx (so_calls t ! k)")
      case None
      have "\<not> empty_channel (so_calls t ! k)"
        using p None Waiting call_okD(1) [OF ok k] entry_cases [OF ok k]
        by (auto simp: promised_def call_ok_def waits_def sending_def)
      then show ?thesis using k Waiting
        by (intro exI [of _ "Receive k"]) (auto simp: in_phase_def call_receive_def Let_def empty_channel_def split: option.split)
    next
      case (Some e)
      then show ?thesis using k Waiting
        by (intro exI [of _ "Abandon k None"]) (simp add: in_phase_def call_abandon_def Let_def)
    qed
  qed (use g in simp)
qed

interpretation caller: thread_progress "stdio_step cd o' bg" "own_call k" "\<lambda>t. stdio_ok n t \<and> promised k t"
    "\<lambda>t. to_go (ca_phase (so_calls t ! k))" for cd and o' :: "('c, 'w) mcp_options" and bg k n
proof
  fix t t' :: "'w stdioTransport" and a
  assume g: "stdio_ok n t \<and> promised k t"
  then have k: "k < length (so_calls t)" by (simp add: promised_def)
  show "\<exists>a t'. own_call k a \<and> stdio_step cd o' bg a t = Some t'" if "0 < to_go (ca_phase (so_calls t ! k))"
    using g that by (intro promised_enabled [of n]) simp_all
  assume s: "stdio_step cd o' bg a t = Some t'"
  show "stdio_ok n t' \<and> promised k t'" using stdio_ok_step [OF conjunct1 [OF g] s] promised_step [OF conjunct2 [OF g] s] by simp
  show "to_go (ca_phase (so_calls t' ! k)) \<le> to_go (ca_phase (so_calls t ! k))" if "\<not> own_call k a"
    using phase_step(1) [OF s k that] by simp
  show "to_go (ca_phase (so_calls t' ! k)) < to_go (ca_phase (so_calls t ! k))" if "own_call k a"
    by (rule phase_step(2) [OF s k that])
qed


text \<open>
  Over stdio a handler has no call to report its error to; with two calls in flight the error is dropped.
\<close>

lemma concurrent_elicitation_error_lost:
  assumes "mo_elicit o' = Some h" "mk_elicit cd params = Some req" "h bg req (mw s) = (Inl err, w')"
    and "length (es_inflight (ms_errs s)) \<ge> 2"
  shows "ms_errs (snd (handleRequest cd o' \<lparr>mc_user = bg, mc_slot = None\<rparr> ''elicitation/create'' params s)) = ms_errs s"
  using assms
  by (auto simp: handleRequest_def handleElicit_def on_world_def elicit_record_def split: list.split)

section \<open>Concrete executions\<close>

definition stdio_after :: "mcp_codec \<Rightarrow> ('c, 'w) mcp_options \<Rightarrow> 'c \<Rightarrow> 'w mcp \<Rightarrow> action list \<Rightarrow> 'w stdioTransport option" where
  "stdio_after cd o' bg s as =
     foldl (\<lambda>t a. case t of None \<Rightarrow> None | Some t \<Rightarrow> stdio_step cd o' bg a t) (Some (startStdio s)) as"

lemma stdio_after_run: "stdio_after cd o' bg s as = Some t \<Longrightarrow> stdio_run cd o' bg s as t"
proof (induction as arbitrary: t rule: rev_induct)
  case (snoc a as)
  then show ?case by (auto simp: stdio_after_def split: option.splits intro: stdio_run.act)
qed (simp add: stdio_after_def stdio_run.start)

definition silent_codec :: mcp_codec where
  "silent_codec = \<lparr>mk_incoming = (\<lambda>_. None), mk_id = (\<lambda>_. None), mk_response = (\<lambda>_. Inl errNoResponse), mk_elicit = (\<lambda>_. None),
     mk_args = (\<lambda>_. None), mk_call_result = (\<lambda>_. None), mk_tools = (\<lambda>_. Inl errNoResponse), mk_resources = (\<lambda>_. Inl errNoResponse),
     mk_contents = (\<lambda>_. Inl errNoResponse), mk_prompts = (\<lambda>_. Inl errNoResponse), mk_messages = (\<lambda>_. Inl errNoResponse)\<rparr>"

definition echo_codec :: mcp_codec where
  "echo_codec = silent_codec\<lparr>mk_incoming := (\<lambda>line. Some \<lparr>in_id = ''1'', in_method = [], in_params = [], in_result = line, in_error = None\<rparr>),
     mk_id := (\<lambda>_. Some 1)\<rparr>"

definition idle_client :: "unit mcp" where
  "idle_client = \<lparr>mw = (), ms_errs = \<lparr>es_slots = (\<lambda>_. None), es_inflight = [], es_next = 0\<rparr>, ms_next = 0, ms_session = [], ms_tools = []\<rparr>"

definition plain_options :: "(unit, unit) mcp_options" where
  "plain_options = newClient []"

lemmas stdio_eval = stdio_after_def startStdio_def in_phase_def call_number_def one_call stdin_write_def dispatch_def read_end_def
  rpc_result_def echo_codec_def idle_client_def Let_def

theorem stdio_call_outcomes_witness:
  "\<exists>t. stdio_after echo_codec plain_options () idle_client
      [Call ''m'' None, Register 0, Write 0 None, ReadLine ''ok'', Deliver, Receive 0] = Some t \<and>
    in_phase (Returned (Inr ''ok'')) 0 t \<and>
    outcome echo_codec [Call ''m'' None, Register 0, Write 0 None, ReadLine ''ok'', Deliver, Receive 0] None 0 1 (Inr ''ok'')"
proof -
  let ?as = "[Call ''m'' None, Register 0, Write 0 None, ReadLine ''ok'', Deliver, Receive 0]"
  obtain t where t: "stdio_after echo_codec plain_options () idle_client ?as = Some t" "in_phase (Returned (Inr ''ok'')) 0 t"
    "so_err t = None" "ca_id (so_calls t ! 0) = 1"
    by (simp add: stdio_eval)
  from stdio_call_outcomes [OF stdio_after_run [OF t(1)] t(2)] t show ?thesis by auto
qed

definition exit_run :: "action list" where
  "exit_run = [Call ''m'' None, Register 0, Write 0 None, ReadEnd None, Receive 0]"

definition exit_state :: "nat \<Rightarrow> unit stdioTransport" where
  "exit_state n = the (stdio_after echo_codec plain_options () idle_client (take n exit_run))"


end
