(* ===== verification/MCP_Operations.thy ===== *)
theory MCP_Operations
  imports MCP_Client
begin

text \<open>
  What an MCP client does over a transport: the handshake, discovery by pages, tool calls, tools
  with their annotations, resources and prompts; and what it promises: a listing ends exactly
  when the server's cursors do, and an elicitation in the middle of a call pauses a graph.

  \<open>paginate\<close> runs as long as the server returns new cursors, so a listing that never ends is the
  value \<open>None\<close>.
\<close>

section \<open>Listing by pages\<close>

partial_function (option) paginate :: "(json option \<Rightarrow> 's \<Rightarrow> (go_error + string) \<times> 's)
    \<Rightarrow> (string \<Rightarrow> go_error + 'a list \<times> string) \<Rightarrow> string \<Rightarrow> 'a list \<Rightarrow> 's \<Rightarrow> ((go_error + 'a list) \<times> 's) option" where
  "paginate call page cursor acc s =
     (case call (if cursor = [] then None else Some (JObj [(''cursor'', JStr cursor)])) s of
        (Inl e, s') \<Rightarrow> Some (Inl e, s')
      | (Inr raw, s') \<Rightarrow>
          (case page raw of
             Inl e \<Rightarrow> Some (Inl e, s')
           | Inr (items, next) \<Rightarrow>
               if next = [] \<or> next = cursor then Some (Inr (acc @ items), s')
               else paginate call page next (acc @ items) s'))"

definition list_pages :: "('c, 'w) mcp_transport \<Rightarrow> 'c mcp_ctx \<Rightarrow> string \<Rightarrow> (string \<Rightarrow> go_error + 'a list \<times> string) \<Rightarrow> 'w mcp
    \<Rightarrow> ((go_error + 'a list) \<times> 'w mcp) option" where
  "list_pages t c meth page s = paginate (tr_call t c meth) page [] [] s"

definition tools_page :: "mcp_codec \<Rightarrow> string \<Rightarrow> go_error + mcp_tool list \<times> string" where
  "tools_page cd raw = (case mk_tools cd raw of
     Inl e \<Rightarrow> Inl (Errorf ''failed to parse tools list: %w'' [FWrap e]) | Inr p \<Rightarrow> Inr p)"

definition discoverTools :: "mcp_codec \<Rightarrow> ('c, 'w) mcp_transport \<Rightarrow> 'c mcp_ctx \<Rightarrow> 'w mcp \<Rightarrow> ((go_error + unit) \<times> 'w mcp) option" where
  "discoverTools cd t c s =
     (case list_pages t c ''tools/list'' (tools_page cd) s of
        None \<Rightarrow> None
      | Some (Inl e, s') \<Rightarrow> Some (Inl e, s')
      | Some (Inr ts, s') \<Rightarrow> Some (Inr (), s'\<lparr>ms_tools := ts\<rparr>))"

section \<open>The handshake\<close>

definition initialize_params :: "bool \<Rightarrow> json" where
  "initialize_params elicits = JObj
     [(''protocolVersion'', JStr ''2025-03-26''),
      (''capabilities'', JObj (if elicits then [(''elicitation'', JObj [])] else [])),
      (''clientInfo'', JObj [(''name'', JStr ''langrails''), (''version'', JStr ''1.1.0'')])]"

definition mcp_initialize :: "('c, 'w) mcp_options \<Rightarrow> ('c, 'w) mcp_transport \<Rightarrow> 'c mcp_ctx \<Rightarrow> 'w mcp \<Rightarrow> (go_error + unit) \<times> 'w mcp" where
  "mcp_initialize o' t c s =
     (case tr_call t c ''initialize'' (Some (initialize_params (mo_elicit o' \<noteq> None))) s of
        (Inl e, s1) \<Rightarrow> (Inl e, s1)
      | (Inr _, s1) \<Rightarrow> (Inr (), snd (tr_notify t c ''notifications/initialized'' None s1)))"

definition mcp_setup :: "mcp_codec \<Rightarrow> ('c, 'w) mcp_options \<Rightarrow> ('c, 'w) mcp_transport \<Rightarrow> 'c mcp_ctx \<Rightarrow> 'w mcp
    \<Rightarrow> ((go_error + unit) \<times> 'w mcp) option" where
  "mcp_setup cd o' t c s =
     (case mcp_initialize o' t c s of
        (Inl e, s1) \<Rightarrow> Some (Inl (Errorf ''mcp: failed to initialize: %w'' [FWrap e]), s1)
      | (Inr _, s1) \<Rightarrow>
          (case discoverTools cd t c s1 of
             None \<Rightarrow> None
           | Some (Inl e, s2) \<Rightarrow> Some (Inl (Errorf ''mcp: failed to discover tools: %w'' [FWrap e]), s2)
           | Some (Inr _, s2) \<Rightarrow> Some (Inr (), s2)))"

definition NewClient :: "mcp_codec \<Rightarrow> 'w http_service \<Rightarrow> 'c \<Rightarrow> string \<Rightarrow> (('c, 'w) mcp_options \<Rightarrow> ('c, 'w) mcp_options) list
    \<Rightarrow> 'w \<Rightarrow> ((go_error + unit) \<times> 'w mcp) option" where
  "NewClient cd http bg url opts w =
     (let o' = newClient opts in
      mcp_setup cd o' (httpTransport cd o' http url) \<lparr>mc_user = bg, mc_slot = None\<rparr>
        \<lparr>mw = w, ms_errs = \<lparr>es_slots = (\<lambda>_. None), es_inflight = [], es_next = 0\<rparr>, ms_next = 0, ms_session = [], ms_tools = []\<rparr>)"

section \<open>Tools\<close>

definition schema_json :: "mcp_tool \<Rightarrow> json" where
  "schema_json t = (case mt_schema t of None \<Rightarrow> JNull | Some j \<Rightarrow> j)"

definition ToolDefinitions :: "'w mcp \<Rightarrow> tool_definition list" where
  "ToolDefinitions s = map (\<lambda>t. \<lparr>td_name = mt_name t, td_description = mt_description t,
     td_parameters = RawJson (schema_json t)\<rparr>) (ms_tools s)"

definition call_arguments :: "mcp_codec \<Rightarrow> string \<Rightarrow> json" where
  "call_arguments cd arguments = (case mk_args cd arguments of
     None \<Rightarrow> JObj [(''input'', JStr arguments)] | Some args \<Rightarrow> args)"

definition call_params :: "string \<Rightarrow> json \<Rightarrow> json" where
  "call_params name args = JObj [(''name'', JStr name), (''arguments'', args)]"

definition tool_answer :: "mcp_codec \<Rightarrow> string \<Rightarrow> string \<Rightarrow> go_error + string" where
  "tool_answer cd name resp =
     (case mk_call_result cd resp of
        None \<Rightarrow> Inr resp
      | Some (blocks, isError) \<Rightarrow>
          (let texts = map snd (filter (\<lambda>(t, text). t = ''text'') blocks);
               text = (if texts = [] then resp else Join texts [CHR 0x0A])
           in if isError then Inl (Errorf ''mcp: tool %q returned an error: %s'' [FStr name, FStr text]) else Inr text))"

definition mcp_Execute :: "mcp_codec \<Rightarrow> ('c, 'w) mcp_transport \<Rightarrow> 'c mcp_ctx \<Rightarrow> string \<Rightarrow> string \<Rightarrow> 'w mcp
    \<Rightarrow> (go_error + string) \<times> 'w mcp" where
  "mcp_Execute cd t c name arguments s =
     (case elicit_begin (ms_errs s) of
        (slot, errs) \<Rightarrow>
          (case tr_call t (c\<lparr>mc_slot := Some slot\<rparr>) ''tools/call'' (Some (call_params name (call_arguments cd arguments)))
                 (s\<lparr>ms_errs := errs\<rparr>) of
             (r, s1) \<Rightarrow>
               ((case es_slots (ms_errs s1) slot of
                   Some eerr \<Rightarrow> Inl (elicitationError name eerr)
                 | None \<Rightarrow>
                     (case r of
                        Inl e \<Rightarrow> Inl (Errorf ''mcp: tool call %q failed: %w'' [FStr name, FWrap e])
                      | Inr resp \<Rightarrow> tool_answer cd name resp)),
                s1\<lparr>ms_errs := elicit_end slot (ms_errs s1)\<rparr>)))"

definition RefreshTools :: "mcp_codec \<Rightarrow> ('c, 'w) mcp_transport \<Rightarrow> 'c \<Rightarrow> 'w mcp \<Rightarrow> ((go_error + unit) \<times> 'w mcp) option" where
  "RefreshTools cd t bg s = discoverTools cd t \<lparr>mc_user = bg, mc_slot = None\<rparr> s"

definition hint :: "bool option \<Rightarrow> bool \<Rightarrow> bool" where
  "hint b def = (case b of None \<Rightarrow> def | Some v \<Rightarrow> v)"

definition ReadOnly :: "tool_annotations \<Rightarrow> bool" where "ReadOnly a = hint (an_read_only a) False"
definition Destructive :: "tool_annotations \<Rightarrow> bool" where "Destructive a \<longleftrightarrow> \<not> ReadOnly a \<and> hint (an_destructive a) True"
definition Idempotent :: "tool_annotations \<Rightarrow> bool" where "Idempotent a = hint (an_idempotent a) False"
definition OpenWorld :: "tool_annotations \<Rightarrow> bool" where "OpenWorld a = hint (an_open_world a) True"

record tool =
  to_name :: string
  to_description :: string
  to_schema :: json
  to_annotations :: tool_annotations

definition Tools :: "'w mcp \<Rightarrow> tool list" where
  "Tools s = map (\<lambda>t. \<lparr>to_name = mt_name t, to_description = mt_description t, to_schema = schema_json t,
     to_annotations = mt_annotations t\<rparr>) (ms_tools s)"

definition ToolNames :: "(tool \<Rightarrow> bool) \<Rightarrow> 'w mcp \<Rightarrow> string list" where
  "ToolNames keep s = map to_name (filter keep (Tools s))"

definition DestructiveTools :: "'w mcp \<Rightarrow> string list" where
  "DestructiveTools s = ToolNames (\<lambda>t. Destructive (to_annotations t)) s"

section \<open>Resources and prompts\<close>

definition listed :: "string \<Rightarrow> ((go_error + 'a list) \<times> 's) option \<Rightarrow> ((go_error + 'a list) \<times> 's) option" where
  "listed fmt r = (case r of None \<Rightarrow> None | Some (Inl e, s) \<Rightarrow> Some (Inl (Errorf fmt [FWrap e]), s) | Some (Inr xs, s) \<Rightarrow> Some (Inr xs, s))"

definition ListResources :: "mcp_codec \<Rightarrow> ('c, 'w) mcp_transport \<Rightarrow> 'c mcp_ctx \<Rightarrow> 'w mcp \<Rightarrow> ((go_error + mcp_resource list) \<times> 'w mcp) option" where
  "ListResources cd t c s = listed ''mcp: list resources: %w'' (list_pages t c ''resources/list'' (mk_resources cd) s)"

definition ListPrompts :: "mcp_codec \<Rightarrow> ('c, 'w) mcp_transport \<Rightarrow> 'c mcp_ctx \<Rightarrow> 'w mcp \<Rightarrow> ((go_error + mcp_prompt list) \<times> 'w mcp) option" where
  "ListPrompts cd t c s = listed ''mcp: list prompts: %w'' (list_pages t c ''prompts/list'' (mk_prompts cd) s)"

definition ReadResource :: "mcp_codec \<Rightarrow> ('c, 'w) mcp_transport \<Rightarrow> 'c mcp_ctx \<Rightarrow> string \<Rightarrow> 'w mcp
    \<Rightarrow> (go_error + resource_content list) \<times> 'w mcp" where
  "ReadResource cd t c uri s =
     (case tr_call t c ''resources/read'' (Some (JObj [(''uri'', JStr uri)])) s of
        (Inl e, s') \<Rightarrow> (Inl (Errorf ''mcp: read resource %q: %w'' [FStr uri, FWrap e]), s')
      | (Inr raw, s') \<Rightarrow>
          (case mk_contents cd raw of
             Inl e \<Rightarrow> (Inl (Errorf ''mcp: read resource %q: %w'' [FStr uri, FWrap e]), s')
           | Inr cs \<Rightarrow> (Inr cs, s')))"

definition prompt_message :: "string \<times> prompt_content \<Rightarrow> message" where
  "prompt_message = (\<lambda>(role, p).
     if pc_type p = ''image'' then zero_msg\<lparr>msg_role := role, msg_parts := [ImageBase64Part (pc_data p) (pc_mime p)]\<rparr>
     else if pc_type p = ''resource'' then
       zero_msg\<lparr>msg_role := role, msg_content := (case pc_resource p of None \<Rightarrow> [] | Some r \<Rightarrow> rct_text r)\<rparr>
     else zero_msg\<lparr>msg_role := role, msg_content := pc_text p\<rparr>)"

definition GetPrompt :: "mcp_codec \<Rightarrow> ('c, 'w) mcp_transport \<Rightarrow> 'c mcp_ctx \<Rightarrow> string \<Rightarrow> (string \<times> string) list \<Rightarrow> 'w mcp
    \<Rightarrow> (go_error + message list) \<times> 'w mcp" where
  "GetPrompt cd t c name args s =
     (case tr_call t c ''prompts/get'' (Some (JObj ((''name'', JStr name) #
            (if args = [] then [] else [(''arguments'', JObj (map (\<lambda>(k, v). (k, JStr v)) args))])))) s of
        (Inl e, s') \<Rightarrow> (Inl (Errorf ''mcp: get prompt %q: %w'' [FStr name, FWrap e]), s')
      | (Inr raw, s') \<Rightarrow>
          (case mk_messages cd raw of
             Inl e \<Rightarrow> (Inl (Errorf ''mcp: get prompt %q: %w'' [FStr name, FWrap e]), s')
           | Inr ms \<Rightarrow> (Inr (map prompt_message ms), s')))"

section \<open>When a listing ends\<close>

text \<open>A server whose page for a cursor is fixed: \<open>pages\<close> gives a cursor's items and the next one.\<close>

definition serves :: "(json option \<Rightarrow> 's \<Rightarrow> (go_error + string) \<times> 's) \<Rightarrow> (string \<Rightarrow> go_error + 'a list \<times> string)
    \<Rightarrow> (string \<Rightarrow> 'a list \<times> string) \<Rightarrow> 's \<Rightarrow> bool" where
  "serves call page pages s \<longleftrightarrow> (\<forall>cursor. \<exists>raw.
     call (if cursor = [] then None else Some (JObj [(''cursor'', JStr cursor)])) s = (Inr raw, s) \<and> page raw = Inr (pages cursor))"

definition follows :: "(string \<Rightarrow> 'a list \<times> string) \<Rightarrow> string \<Rightarrow> string" where
  "follows pages c = snd (pages c)"

definition last_page :: "(string \<Rightarrow> 'a list \<times> string) \<Rightarrow> string \<Rightarrow> bool" where
  "last_page pages c \<longleftrightarrow> follows pages c = [] \<or> follows pages c = c"

abbreviation nth_cursor :: "(string \<Rightarrow> 'a list \<times> string) \<Rightarrow> string \<Rightarrow> nat \<Rightarrow> string" where
  "nth_cursor pages c n \<equiv> (follows pages ^^ n) c"

lemma paginate_step:
  assumes "serves call page pages s"
  shows "paginate call page c acc s =
    (if last_page pages c then Some (Inr (acc @ fst (pages c)), s) else paginate call page (follows pages c) (acc @ fst (pages c)) s)"
proof -
  obtain raw where "call (if c = [] then None else Some (JObj [(''cursor'', JStr c)])) s = (Inr raw, s)" "page raw = Inr (pages c)"
    using assms by (auto simp: serves_def)
  then show ?thesis
    by (subst paginate.simps) (simp add: last_page_def follows_def split: prod.split)
qed

lemma paginate_ends:
  assumes "serves call page pages s" "last_page pages (nth_cursor pages c n)" "\<forall>i<n. \<not> last_page pages (nth_cursor pages c i)"
  shows "paginate call page c acc s = Some (Inr (acc @ concat (map (\<lambda>i. fst (pages (nth_cursor pages c i))) [0..<Suc n])), s)"
  using assms(2,3)
proof (induction n arbitrary: c acc)
  case (Suc n)
  have 0: "\<not> last_page pages c" using Suc.prems(2) by (metis funpow_0 zero_less_Suc)
  have "last_page pages (nth_cursor pages (follows pages c) n)" "\<forall>i<n. \<not> last_page pages (nth_cursor pages (follows pages c) i)"
    using Suc.prems by (auto simp flip: funpow_swap1)
  note IH = Suc.IH [OF this]
  have up: "[0..<Suc (Suc n)] = 0 # map Suc [0..<Suc n]" 
    unfolding map_Suc_upt by (rule upt_conv_Cons) simp
  show ?case
    unfolding paginate_step [OF assms(1), of c] up using 0 IH by (simp add: comp_def funpow_swap1)
qed (simp add: paginate_step [OF assms(1)])

text \<open>Whatever a call of \<open>paginate\<close> returns, the cursors it followed came to an end.\<close>

lemma paginate_returns:
  assumes s: "serves call page pages s" and r: "paginate call page c acc s = Some r"
  shows "\<exists>n. last_page pages (nth_cursor pages c n)"
proof -
  have "serves call page pages s \<longrightarrow> (\<exists>n. last_page pages (nth_cursor pages c n))"
  proof (rule paginate.raw_induct [where P = "\<lambda>call page c acc s r. serves call page pages s \<longrightarrow>
        (\<exists>n. last_page pages (nth_cursor pages c n))", OF _ r])
    fix paginate' call page c acc s r
    assume IH: "\<And>call page c acc s r. paginate' call page c acc s = Some r \<Longrightarrow>
        serves call page pages s \<longrightarrow> (\<exists>n. last_page pages (nth_cursor pages c n))"
      and r: "(case call (if c = [] then None else Some (JObj [(''cursor'', JStr c)])) s of
          (Inl e, s') \<Rightarrow> Some (Inl e, s')
        | (Inr raw, s') \<Rightarrow> (case page raw of Inl e \<Rightarrow> Some (Inl e, s')
            | Inr (items, next) \<Rightarrow> if next = [] \<or> next = c then Some (Inr (acc @ items), s')
                else paginate' call page next (acc @ items) s')) = Some r"
    show "serves call page pages s \<longrightarrow> (\<exists>n. last_page pages (nth_cursor pages c n))"
    proof
      assume sv: "serves call page pages s"
      then obtain raw where raw: "call (if c = [] then None else Some (JObj [(''cursor'', JStr c)])) s = (Inr raw, s)" "page raw = Inr (pages c)"
        by (auto simp: serves_def)
      show "\<exists>n. last_page pages (nth_cursor pages c n)"
      proof (cases "last_page pages c")
        case True
        then show ?thesis by (metis funpow_0)
      next
        case False
        then have "paginate' call page (follows pages c) (acc @ fst (pages c)) s = Some r"
          using r raw by (simp add: last_page_def follows_def split: prod.splits if_splits)
        then obtain n where "last_page pages (nth_cursor pages (follows pages c) n)" using IH sv by blast
        then have "last_page pages (nth_cursor pages c (Suc n))" by (simp add: funpow_swap1)
        then show ?thesis by blast
      qed
    qed
  qed
  then show ?thesis using s by blast
qed

end
