(* ===== verification/MCP_Process.thy ===== *)
theory MCP_Process
  imports MCP_Stdio MCP_Operations
begin

text \<open>
  The server process behind the stdio transport (\<open>mcp/transport_stdio.go\<close>, \<open>mcp/client.go\<close>): how it
  is started, and how \<open>close\<close> stops it. The transport of \<open>MCP_Stdio\<close> is one part of the state; the
  process, the lines it wrote that nobody has read, and the closing goroutine are the others.

  The operating system answers the start of the process (a parameter) and its exit (an action).
\<close>

section \<open>Starting the process\<close>

record process_options =
  pr_env :: "string list"
  pr_dir :: string
  pr_stderr :: bool

datatype ('c, 'w) client_option =
    ClientOption "('c, 'w) mcp_options \<Rightarrow> ('c, 'w) mcp_options"
  | ProcessOption "process_options \<Rightarrow> process_options"

definition WithEnv :: "string list \<Rightarrow> ('c, 'w) client_option" where
  "WithEnv env = ProcessOption (\<lambda>c. c\<lparr>pr_env := pr_env c @ env\<rparr>)"

definition WithDir :: "string \<Rightarrow> ('c, 'w) client_option" where
  "WithDir dir = ProcessOption (\<lambda>c. c\<lparr>pr_dir := dir\<rparr>)"

definition WithStderr :: "('c, 'w) client_option" where
  "WithStderr = ProcessOption (\<lambda>c. c\<lparr>pr_stderr := True\<rparr>)"

definition client_options :: "('c, 'w) client_option list \<Rightarrow> (('c, 'w) mcp_options \<Rightarrow> ('c, 'w) mcp_options) list" where
  "client_options opts = concat (map (\<lambda>x. case x of ClientOption f \<Rightarrow> [f] | ProcessOption _ \<Rightarrow> []) opts)"

definition process_settings :: "('c, 'w) client_option list \<Rightarrow> process_options" where
  "process_settings opts = foldl (\<lambda>c x. case x of ClientOption _ \<Rightarrow> c | ProcessOption f \<Rightarrow> f c)
     \<lparr>pr_env = [], pr_dir = [], pr_stderr = False\<rparr> opts"

text \<open>The command as run; \<open>cm_env\<close> is \<open>None\<close> where the process inherits the environment.\<close>

record command_line =
  cm_command :: string
  cm_args :: "string list"
  cm_env :: "string list option"
  cm_dir :: string
  cm_stderr :: bool

definition server_command :: "string list \<Rightarrow> string \<Rightarrow> string list \<Rightarrow> process_options \<Rightarrow> command_line" where
  "server_command environ command args c =
     \<lparr>cm_command = command, cm_args = args, cm_env = (if pr_env c = [] then None else Some (environ @ pr_env c)),
      cm_dir = pr_dir c, cm_stderr = pr_stderr c\<rparr>"

text \<open>The system's answers to the two pipes and the start.\<close>

record 'w system =
  sy_stdin :: "'w \<Rightarrow> go_error option \<times> 'w"
  sy_stdout :: "'w \<Rightarrow> go_error option \<times> 'w"
  sy_start :: "command_line \<Rightarrow> 'w \<Rightarrow> go_error option \<times> 'w"

definition start_server :: "'w system \<Rightarrow> command_line \<Rightarrow> 'w \<Rightarrow> (go_error + unit) \<times> 'w" where
  "start_server sy c w =
     (case sy_stdin sy w of
        (Some e, w1) \<Rightarrow> (Inl e, w1)
      | (None, w1) \<Rightarrow>
          (case sy_stdout sy w1 of
             (Some e, w2) \<Rightarrow> (Inl e, w2)
           | (None, w2) \<Rightarrow>
               (case sy_start sy c w2 of
                  (Some e, w3) \<Rightarrow> (Inl (Errorf ''start %s: %w'' [FStr (cm_command c), FWrap e]), w3)
                | (None, w3) \<Rightarrow> (Inr (), w3))))"

text \<open>
  The client over a started process: \<open>transport\<close> is the transport over it, which the step relation
  below describes, and \<open>close\<close> its end.
\<close>

definition NewStdioClient :: "mcp_codec \<Rightarrow> 'w system \<Rightarrow> (('c, 'w) mcp_options \<Rightarrow> ('c, 'w) mcp_transport) \<Rightarrow> ('w mcp \<Rightarrow> 'w mcp)
    \<Rightarrow> 'c \<Rightarrow> string list \<Rightarrow> string \<Rightarrow> string list \<Rightarrow> ('c, 'w) client_option list \<Rightarrow> 'w \<Rightarrow> ((go_error + unit) \<times> 'w mcp) option" where
  "NewStdioClient cd sy transport close bg environ command args opts w =
     (let o' = newClient (client_options opts);
          fresh = (\<lambda>w'. \<lparr>mw = w', ms_errs = \<lparr>es_slots = (\<lambda>_. None), es_inflight = [], es_next = 0\<rparr>, ms_next = 0, ms_session = [], ms_tools = []\<rparr>)
      in case start_server sy (server_command environ command args (process_settings opts)) w of
          (Inl e, w1) \<Rightarrow> Some (Inl (Errorf ''mcp: %w'' [FWrap e]), fresh w1)
        | (Inr _, w1) \<Rightarrow>
            (case mcp_setup cd o' (transport o') \<lparr>mc_user = bg, mc_slot = None\<rparr> (fresh w1) of
               None \<Rightarrow> None
             | Some (Inl e, s) \<Rightarrow> Some (Inl e, close s)
             | Some (Inr _, s) \<Rightarrow> Some (Inr (), s)))"

text \<open>A client that cannot be set up leaves no process behind: the one that was started is closed.\<close>

lemma failed_setup_closes:
  assumes "NewStdioClient cd sy transport close bg environ command args opts w = Some (Inl e, s)"
  shows "(\<exists>s'. s = close s') \<or> (\<exists>e'. fst (start_server sy (server_command environ command args (process_settings opts)) w) = Inl e')"
  using assms by (auto simp: NewStdioClient_def Let_def split: prod.splits sum.splits option.splits)

text \<open>Options that concern one transport do not touch the other.\<close>

lemma process_options_ignored:
  "newClient (client_options (WithEnv env # opts)) = newClient (client_options opts)"
  "newClient (client_options (WithDir dir # opts)) = newClient (client_options opts)"
  "newClient (client_options (WithStderr # opts)) = newClient (client_options opts)"
  by (simp_all add: client_options_def WithEnv_def WithDir_def WithStderr_def)

section \<open>The process and its end\<close>

datatype closer = Running | AwaitExit | AwaitKilled | AwaitReader | Closed

record 'w server =
  sv_io :: "'w stdioTransport"
  sv_closer :: closer
  sv_stdin :: bool
  sv_exited :: bool
  sv_unread :: "string list"

text \<open>
  Beside the actions of the transport: the server writes a line or exits; \<open>close\<close> begins (it closes the
  standard input), its grace period ends (it kills the process), it sees the exit, it sees that the
  reader has stopped. \<open>cmd.Wait\<close>, which sees the exit, also closes the pipe the reader reads from:
  of the lines not yet read only those the reader has in its buffer are left.
\<close>

datatype server_action =
    Io action
  | ServerWrites string
  | ServerExits
  | CloseStarts
  | GraceEnds
  | SeesExit nat
  | SeesReader

text \<open>Writes to a standard input that is closed fail.\<close>

fun needs_stdin :: "action \<Rightarrow> bool" where
  "needs_stdin (Write k e) = (e = None)"
| "needs_stdin (Abandon k e) = (e = None)"
| "needs_stdin (Answer j e) = (e = None)"
| "needs_stdin (Notify meth params e) = (e = None)"
| "needs_stdin _ = False"

definition io_step :: "mcp_codec \<Rightarrow> ('c, 'w) mcp_options \<Rightarrow> 'c \<Rightarrow> action \<Rightarrow> 'w server \<Rightarrow> 'w server option" where
  "io_step cd o' bg a s =
     (if needs_stdin a \<and> \<not> sv_stdin s then None
      else case stdio_step cd o' bg a (sv_io s) of
          None \<Rightarrow> None
        | Some t \<Rightarrow>
            (case a of
               ReadLine line \<Rightarrow>
                 (case sv_unread s of
                    [] \<Rightarrow> None
                  | l # rest \<Rightarrow> if line = l then Some (s\<lparr>sv_io := t, sv_unread := rest\<rparr>) else None)
             | ReadEnd e \<Rightarrow> if sv_unread s = [] then Some (s\<lparr>sv_io := t\<rparr>) else None
             | _ \<Rightarrow> Some (s\<lparr>sv_io := t\<rparr>)))"

fun server_step :: "mcp_codec \<Rightarrow> ('c, 'w) mcp_options \<Rightarrow> 'c \<Rightarrow> server_action \<Rightarrow> 'w server \<Rightarrow> 'w server option" where
  "server_step cd o' bg (Io a) s = io_step cd o' bg a s"
| "server_step cd o' bg (ServerWrites line) s =
     (if sv_exited s then None else Some (s\<lparr>sv_unread := sv_unread s @ [line]\<rparr>))"
| "server_step cd o' bg ServerExits s = (if sv_exited s then None else Some (s\<lparr>sv_exited := True\<rparr>))"
| "server_step cd o' bg CloseStarts s =
     (if sv_closer s = Running then Some (s\<lparr>sv_closer := AwaitExit, sv_stdin := False\<rparr>) else None)"
| "server_step cd o' bg GraceEnds s = (if sv_closer s = AwaitExit then Some (s\<lparr>sv_closer := AwaitKilled\<rparr>) else None)"
| "server_step cd o' bg (SeesExit n) s =
     (if (sv_closer s = AwaitExit \<or> sv_closer s = AwaitKilled) \<and> sv_exited s
      then Some (s\<lparr>sv_closer := AwaitReader, sv_unread := take n (sv_unread s)\<rparr>) else None)"
| "server_step cd o' bg SeesReader s =
     (if sv_closer s = AwaitReader \<and> so_reader (sv_io s) = Stopped then Some (s\<lparr>sv_closer := Closed\<rparr>) else None)"

definition started :: "'w mcp \<Rightarrow> 'w server" where
  "started s = \<lparr>sv_io = startStdio s, sv_closer = Running, sv_stdin = True, sv_exited = False, sv_unread = []\<rparr>"

inductive server_run :: "mcp_codec \<Rightarrow> ('c, 'w) mcp_options \<Rightarrow> 'c \<Rightarrow> 'w mcp \<Rightarrow> server_action list \<Rightarrow> 'w server \<Rightarrow> bool"
  for cd o' bg m where
  start: "server_run cd o' bg m [] (started m)"
| act: "server_run cd o' bg m as s \<Longrightarrow> server_step cd o' bg a s = Some s' \<Longrightarrow> server_run cd o' bg m (as @ [a]) s'"

section \<open>What holds in every state\<close>

definition server_ok :: "int \<Rightarrow> 'w server \<Rightarrow> bool" where
  "server_ok n s \<longleftrightarrow> stdio_ok n (sv_io s) \<and>
     (sv_stdin s \<longleftrightarrow> sv_closer s = Running) \<and>
     (sv_closer s = AwaitReader \<or> sv_closer s = Closed \<longrightarrow> sv_exited s) \<and>
     (sv_closer s = Closed \<longrightarrow> so_reader (sv_io s) = Stopped)"

text \<open>A step of the transport is one of \<open>MCP_Stdio\<close> and leaves process and closer as they are.\<close>

lemma io_stepD:
  assumes "io_step cd o' bg a s = Some s'"
  shows "stdio_step cd o' bg a (sv_io s) = Some (sv_io s')" "sv_closer s' = sv_closer s" "sv_stdin s' = sv_stdin s"
    "sv_exited s' = sv_exited s"
    "sv_unread s' = (case a of ReadLine line \<Rightarrow> tl (sv_unread s) | _ \<Rightarrow> sv_unread s)"
    "(\<exists>line. a = ReadLine line) \<longrightarrow> sv_unread s \<noteq> []"
  using assms by (cases a; auto simp: io_step_def split: if_splits option.splits list.splits)+

lemma server_ok_step:
  assumes ok: "server_ok n s" and s: "server_step cd o' bg a s = Some s'"
  shows "server_ok n s'"
proof (cases a)
  case (Io b)
  then have i: "io_step cd o' bg b s = Some s'" using s by simp
  note D = io_stepD [OF i]
  have "stdio_ok n (sv_io s')" using stdio_ok_step [OF _ D(1)] ok by (simp add: server_ok_def)
  moreover have "so_reader (sv_io s) = Stopped \<longrightarrow> so_reader (sv_io s') = Stopped" using stopped_stays [OF D(1)] by simp
  ultimately show ?thesis using ok D(2-4) by (simp add: server_ok_def)
qed (use assms in \<open>auto simp: server_ok_def split: if_splits\<close>)

lemma server_run_ok: "server_run cd o' bg m as s \<Longrightarrow> server_ok (ms_next m) s"
proof (induction rule: server_run.induct)
  case start
  show ?case by (simp add: server_ok_def started_def stdio_ok_start)
next
  case (act as s a s')
  show ?case by (rule server_ok_step [OF act.IH act.hyps(2)])
qed

section \<open>Closing comes to an end\<close>

text \<open>First the exit is seen: by itself, or after the kill.\<close>

fun exit_actions :: "server_action \<Rightarrow> bool" where
  "exit_actions ServerExits = True"
| "exit_actions GraceEnds = True"
| "exit_actions (SeesExit n) = True"
| "exit_actions _ = False"

definition exit_to_go :: "'w server \<Rightarrow> nat" where
  "exit_to_go s = (case sv_closer s of AwaitExit \<Rightarrow> 2 | AwaitKilled \<Rightarrow> 1 | _ \<Rightarrow> 0) +
     (if (sv_closer s = AwaitExit \<or> sv_closer s = AwaitKilled) \<and> \<not> sv_exited s then 1 else 0)"

text \<open>Then the reader ends: it reads what is left, sends what it holds, and stops.\<close>

fun reader_actions :: "server_action \<Rightarrow> bool" where
  "reader_actions (Io (ReadLine line)) = True"
| "reader_actions (Io Deliver) = True"
| "reader_actions (Io (ReadEnd e)) = True"
| "reader_actions SeesReader = True"
| "reader_actions _ = False"

definition reader_work :: "reader_phase \<Rightarrow> nat \<Rightarrow> nat" where
  "reader_work rd n = (case rd of Reading \<Rightarrow> 2 * n + 1 | Sending k r \<Rightarrow> 2 * n + 2 | Stopped \<Rightarrow> 0)"

definition reader_to_go :: "'w server \<Rightarrow> nat" where
  "reader_to_go s = (if sv_closer s = Closed then 0 else 1 + reader_work (so_reader (sv_io s)) (length (sv_unread s)))"

lemma dispatch_reader: "so_reader t = Reading \<Longrightarrow> so_reader (dispatch cd line t) = Reading \<or> (\<exists>k r. so_reader (dispatch cd line t) = Sending k r)"
  by (simp add: dispatch_def split: option.splits)

text \<open>The reader moves by its own actions only, and each of them leaves it less to do.\<close>

lemma reader_kept:
  assumes "stdio_step cd o' bg a t = Some t'" "\<not> reader_actions (Io a)"
  shows "so_reader t' = so_reader t"
  using assms by (cases a) (auto simp: one_call call_number_def stdio_notify_def dest: answer_calls split: if_splits option.splits)

lemma reader_works:
  assumes "io_step cd o' bg a s = Some s'" "reader_actions (Io a)"
  shows "reader_work (so_reader (sv_io s')) (length (sv_unread s')) < reader_work (so_reader (sv_io s)) (length (sv_unread s))"
proof -
  note D = io_stepD [OF assms(1)]
  show ?thesis
  proof (cases a)
    case (ReadLine line)
    with D(1) have r: "so_reader (sv_io s) = Reading" "sv_io s' = dispatch cd line (sv_io s)" by (auto split: if_splits)
    obtain l rest where u: "sv_unread s = l # rest" using D(6) ReadLine by (cases "sv_unread s") auto
    then have "sv_unread s' = rest" using D(5) ReadLine by simp
    then show ?thesis using dispatch_reader [OF r(1), of cd line] r u by (auto simp: reader_work_def)
  next
    case Deliver
    with D(1) obtain k r where r: "so_reader (sv_io s) = Sending k r" "deliver k r (sv_io s) = Some (sv_io s')"
      by (cases "so_reader (sv_io s)") simp_all
    then have "so_reader (sv_io s') = Reading" by (auto simp: deliver_def dest!: sym [of _ "sv_io s'"] split: if_splits)
    with r show ?thesis using D(5) Deliver by (simp add: reader_work_def)
  next
    case (ReadEnd e)
    with D(1) have "so_reader (sv_io s) = Reading" "sv_io s' = read_end e (sv_io s)" by (auto split: if_splits)
    then have "so_reader (sv_io s) = Reading" "so_reader (sv_io s') = Stopped" by (simp_all add: read_end_def)
    then show ?thesis by (simp add: reader_work_def)
  qed (use assms(2) in simp_all)
qed

interpretation exits: thread_progress "server_step cd o' bg" exit_actions "\<lambda>s. server_ok n s \<and> sv_closer s \<noteq> Running" exit_to_go
  for cd and o' :: "('c, 'w) mcp_options" and bg n
proof
  fix s s' :: "'w server" and a
  assume g: "server_ok n s \<and> sv_closer s \<noteq> Running"
  show "\<exists>a s'. exit_actions a \<and> server_step cd o' bg a s = Some s'" if "0 < exit_to_go s"
  proof (cases "sv_exited s")
    case True
    with that show ?thesis by (intro exI [of _ "SeesExit 0"]) (auto simp: exit_to_go_def split: closer.splits)
  next
    case False
    then show ?thesis by (intro exI [of _ ServerExits]) simp
  qed
  assume s: "server_step cd o' bg a s = Some s'"
  have c: "sv_closer s' \<noteq> Running" using g s by (cases a) (auto dest: io_stepD(2) split: if_splits)
  show "server_ok n s' \<and> sv_closer s' \<noteq> Running" using server_ok_step [OF conjunct1 [OF g] s] c by simp
  show "exit_to_go s' \<le> exit_to_go s" if "\<not> exit_actions a"
    using g s that by (cases a) (auto simp: exit_to_go_def dest: io_stepD(2,4) split: if_splits)
  show "exit_to_go s' < exit_to_go s" if "exit_actions a"
    using g s that by (cases a; cases "sv_closer s") (auto simp: exit_to_go_def server_ok_def split: if_splits)
qed

interpretation reader: thread_progress "server_step cd o' bg" reader_actions
    "\<lambda>s. server_ok n s \<and> (sv_closer s = AwaitReader \<or> sv_closer s = Closed)" reader_to_go
  for cd and o' :: "('c, 'w) mcp_options" and bg n
proof
  fix s s' :: "'w server" and a
  assume g: "server_ok n s \<and> (sv_closer s = AwaitReader \<or> sv_closer s = Closed)"
  show "\<exists>a s'. reader_actions a \<and> server_step cd o' bg a s = Some s'" if "0 < reader_to_go s"
  proof (cases "so_reader (sv_io s)")
    case Reading
    show ?thesis
    proof (cases "sv_unread s")
      case Nil
      with Reading show ?thesis by (intro exI [of _ "Io (ReadEnd None)"]) (simp add: io_step_def)
    next
      case (Cons l rest)
      with Reading show ?thesis by (intro exI [of _ "Io (ReadLine l)"]) (simp add: io_step_def)
    qed
  next
    case (Sending k r)
    have "stdio_ok n (sv_io s)" using g by (simp add: server_ok_def)
    from deliver_never_blocks [OF this Sending, of cd o' bg]
    obtain t where "stdio_step cd o' bg Deliver (sv_io s) = Some t" by blast
    then show ?thesis by (intro exI [of _ "Io Deliver"]) (simp add: io_step_def)
  next
    case Stopped
    have "sv_closer s = AwaitReader" using g that by (auto simp: reader_to_go_def split: if_splits)
    with Stopped show ?thesis by (intro exI [of _ SeesReader]) simp
  qed
  assume s: "server_step cd o' bg a s = Some s'"
  have c: "sv_closer s' = AwaitReader \<or> sv_closer s' = Closed" using g s by (cases a) (auto dest: io_stepD(2) split: if_splits)
  show "server_ok n s' \<and> (sv_closer s' = AwaitReader \<or> sv_closer s' = Closed)"
    using server_ok_step [OF conjunct1 [OF g] s] c by simp
  show "reader_to_go s' \<le> reader_to_go s" if own: "\<not> reader_actions a"
  proof (cases a)
    case (Io b)
    with s have i: "io_step cd o' bg b s = Some s'" by simp
    have "sv_unread s' = sv_unread s" using io_stepD(5) [OF i] own Io by (cases b) simp_all
    with reader_kept [OF io_stepD(1) [OF i]] io_stepD(2) [OF i] own Io show ?thesis by (simp add: reader_to_go_def)
  qed (use g s own in \<open>auto simp: reader_to_go_def server_ok_def split: if_splits\<close>)
  show "reader_to_go s' < reader_to_go s" if own: "reader_actions a"
  proof (cases a)
    case (Io b)
    with s have i: "io_step cd o' bg b s = Some s'" by simp
    have w: "reader_work (so_reader (sv_io s')) (length (sv_unread s')) < reader_work (so_reader (sv_io s)) (length (sv_unread s))"
      using reader_works [OF i] own Io by simp
    then have "so_reader (sv_io s) \<noteq> Stopped" by (auto simp: reader_work_def)
    then have "sv_closer s \<noteq> Closed" using g by (auto simp: server_ok_def)
    with w io_stepD(2) [OF i] show ?thesis by (simp add: reader_to_go_def)
  qed (use s own in \<open>auto simp: reader_to_go_def split: if_splits\<close>)
qed


section \<open>A client that is closed with a call in flight\<close>

definition closing_run :: "server_action list" where
  "closing_run = [Io (Call ''m'' None), Io (Register 0), Io (Write 0 None), ServerWrites ''noise'', CloseStarts, GraceEnds, ServerExits,
     SeesExit 1, Io (ReadLine ''noise''), Io (ReadEnd None), SeesReader]"

definition closing_state :: "nat \<Rightarrow> unit server" where
  "closing_state n = the (foldl (\<lambda>s a. Option.bind s (server_step silent_codec plain_options () a)) (Some (started idle_client)) (take n closing_run))"

lemmas closing_eval = closing_state_def closing_run_def started_def io_step_def stdio_eval silent_codec_def

lemma closing_step:
  assumes "n < 11"
  shows "server_step silent_codec plain_options () (closing_run ! n) (closing_state n) = Some (closing_state (Suc n))"
proof -
  from assms have "n \<in> {0, 1, 2, 3, 4, 5, 6, 7, 8, 9, 10}" unfolding insert_iff empty_iff by presburger
  then show ?thesis by (elim insertE emptyE) (simp_all add: closing_eval)
qed

lemma closing_end: "n \<ge> 11 \<Longrightarrow> closing_state n = closing_state 11"
  by (simp add: closing_state_def closing_run_def)


end
