(* ===== verification/MCP_OAuth.thy ===== *)
theory MCP_OAuth
  imports MCP_Client Url_Encodings
begin

text \<open>
  OAuth for MCP clients: the token source of \<open>mcp/oauth/oauth.go\<close>, its discovery of the
  authorization server (\<open>discovery.go\<close>) and the check of a redirect (\<open>loopback.go\<close>).

  The state \<open>'w token_source_state\<close> is the world and the two fields of a \<open>TokenSource\<close> that change.
  The environment \<open>'w oauth_env\<close> is what the code gets from outside: the clock, an HTTP client,
  random bytes, a hash, URL parsing and JSON decoding. A decoder of \<open>getJSON\<close> gets the value it
  decodes into, because the code reuses one variable for several documents. Times are
  nanoseconds, an expiry \<open>None\<close> is the zero time.
\<close>

section \<open>Tokens, sessions, configuration\<close>

record oauth_token =
  ot_access :: string
  ot_type :: string
  ot_refresh :: string
  ot_expiry :: "int option"

record oauth_session =
  os_client_id :: string
  os_client_secret :: string
  os_token :: "oauth_token option"

record serverMetadata =
  sm_authorization :: string
  sm_token :: string
  sm_registration :: string

record 'w oauth_config =
  oc_client_id :: string
  oc_client_secret :: string
  oc_client_name :: string
  oc_redirect :: string
  oc_scopes :: "string list"
  oc_authorize :: "(string \<Rightarrow> 'w \<Rightarrow> (go_error + string) \<times> 'w) option"
  oc_load :: "'w \<Rightarrow> (go_error + oauth_session option) \<times> 'w"
  oc_save :: "oauth_session \<Rightarrow> 'w \<Rightarrow> (go_error + unit) \<times> 'w"

datatype oauth_body = NoBody | FormBody string | JsonBody json

record oauth_request =
  oq_url :: string
  oq_headers :: "(string \<times> string) list"
  oq_basic :: "(string \<times> string) option"
  oq_body :: oauth_body

record parsed_url =
  pu_scheme :: string
  pu_host :: string
  pu_path :: string

record 'w oauth_env =
  oe_now :: "'w \<Rightarrow> int \<times> 'w"
  oe_http :: "oauth_request \<Rightarrow> 'w \<Rightarrow> (go_error + http_reply) \<times> 'w"
  oe_random :: "nat \<Rightarrow> 'w \<Rightarrow> (go_error + string) \<times> 'w"
  oe_sha256 :: "string \<Rightarrow> string"
  oe_url :: "string \<Rightarrow> parsed_url option"
  oe_request :: "string \<Rightarrow> go_error option"
  oe_meta :: "string \<Rightarrow> go_error option \<Rightarrow> serverMetadata \<Rightarrow> serverMetadata \<times> go_error option"
  oe_servers :: "string \<Rightarrow> go_error option \<Rightarrow> string list \<Rightarrow> string list \<times> go_error option"
  oe_grant :: "string \<Rightarrow> go_error + (string \<times> string \<times> string \<times> int)"
  oe_registration :: "string \<Rightarrow> go_error + (string \<times> string)"
  oe_error :: "string \<Rightarrow> (string \<times> string) option"

record 'w token_source_state =
  tw :: 'w
  ts_session :: "oauth_session option"
  ts_meta :: "serverMetadata option"

definition ErrAuthorizationRequired :: go_error where
  "ErrAuthorizationRequired = Sentinel ''oauth: authorization required''"

definition second :: int where "second = 10 ^ 9"

definition expiryMargin :: int where "expiryMargin = 30 * second"

definition valid_at :: "int \<Rightarrow> oauth_token \<Rightarrow> bool" where
  "valid_at now t \<longleftrightarrow> ot_access t \<noteq> [] \<and> (case ot_expiry t of None \<Rightarrow> True | Some e \<Rightarrow> now + expiryMargin < e)"

text \<open>\<open>Valid\<close> reads the clock only for a token that is set and expires.\<close>

definition Valid :: "'w oauth_env \<Rightarrow> oauth_token option \<Rightarrow> 'w \<Rightarrow> bool \<times> 'w" where
  "Valid env t w =
     (case t of
        None \<Rightarrow> (False, w)
      | Some t \<Rightarrow> if ot_access t = [] then (False, w)
          else if ot_expiry t = None then (True, w)
          else (case oe_now env w of (now, w') \<Rightarrow> (valid_at now t, w')))"

definition empty_session :: oauth_session where
  "empty_session = \<lparr>os_client_id = [], os_client_secret = [], os_token = None\<rparr>"

definition New :: "'w \<Rightarrow> 'w token_source_state" where
  "New w = \<lparr>tw = w, ts_session = None, ts_meta = None\<rparr>"

definition session_of :: "'w token_source_state \<Rightarrow> oauth_session" where
  "session_of s = (case ts_session s of None \<Rightarrow> empty_session | Some x \<Rightarrow> x)"

definition meta_of :: "'w token_source_state \<Rightarrow> serverMetadata" where
  "meta_of s = (case ts_meta s of None \<Rightarrow> \<lparr>sm_authorization = [], sm_token = [], sm_registration = []\<rparr> | Some m \<Rightarrow> m)"

definition in_world :: "('w \<Rightarrow> 'r \<times> 'w) \<Rightarrow> 'w token_source_state \<Rightarrow> 'r \<times> 'w token_source_state" where
  "in_world f s = (case f (tw s) of (r, w') \<Rightarrow> (r, s\<lparr>tw := w'\<rparr>))"

text \<open>\<open>MemoryStore\<close>, kept in the world.\<close>

record 'w stored_world =
  mm_session :: "oauth_session option"
  mm_rest :: 'w

definition MemoryStore_Load :: "'w stored_world \<Rightarrow> (go_error + oauth_session option) \<times> 'w stored_world" where
  "MemoryStore_Load w = (Inr (mm_session w), w)"

definition MemoryStore_Save :: "oauth_session \<Rightarrow> 'w stored_world \<Rightarrow> (go_error + unit) \<times> 'w stored_world" where
  "MemoryStore_Save s w = (Inr (), w\<lparr>mm_session := Some s\<rparr>)"

text \<open>\<open>New\<close> without a store: the environment beside a \<open>MemoryStore\<close>, and the configuration completed.\<close>

definition beside_store :: "('w \<Rightarrow> 'r \<times> 'w) \<Rightarrow> 'w stored_world \<Rightarrow> 'r \<times> 'w stored_world" where
  "beside_store f w = (case f (mm_rest w) of (r, w') \<Rightarrow> (r, w\<lparr>mm_rest := w'\<rparr>))"

definition memory_env :: "'w oauth_env \<Rightarrow> 'w stored_world oauth_env" where
  "memory_env env = \<lparr>oe_now = beside_store (oe_now env), oe_http = (\<lambda>req. beside_store (oe_http env req)),
     oe_random = (\<lambda>n. beside_store (oe_random env n)), oe_sha256 = oe_sha256 env, oe_url = oe_url env, oe_request = oe_request env,
     oe_meta = oe_meta env, oe_servers = oe_servers env, oe_grant = oe_grant env, oe_registration = oe_registration env,
     oe_error = oe_error env\<rparr>"

definition New_config :: "'w oauth_config \<Rightarrow> 'w stored_world oauth_config" where
  "New_config cfg = \<lparr>oc_client_id = oc_client_id cfg, oc_client_secret = oc_client_secret cfg,
     oc_client_name = (if oc_client_name cfg = [] then ''langrails'' else oc_client_name cfg),
     oc_redirect = oc_redirect cfg, oc_scopes = oc_scopes cfg,
     oc_authorize = map_option (\<lambda>a u. beside_store (a u)) (oc_authorize cfg),
     oc_load = MemoryStore_Load, oc_save = MemoryStore_Save\<rparr>"

section \<open>Random strings\<close>

definition randomString :: "'w oauth_env \<Rightarrow> nat \<Rightarrow> 'w token_source_state \<Rightarrow> (go_error + string) \<times> 'w token_source_state" where
  "randomString env n s =
     (case in_world (oe_random env n) s of (Inl e, s') \<Rightarrow> (Inl e, s') | (Inr b, s') \<Rightarrow> (Inr (RawURLEncoding b), s'))"

section \<open>Requests\<close>

text \<open>What \<open>io.LimitReader(body, 1<<20)\<close> yields: the bytes and the error reading them ended with.\<close>

definition limited :: "http_reply \<Rightarrow> string \<times> go_error option" where
  "limited r = (if length (hr_body r) \<ge> 2 ^ 20 then (take (2 ^ 20) (hr_body r), None) else (hr_body r, hr_fail r))"

definition oauth_do :: "'w oauth_env \<Rightarrow> oauth_request \<Rightarrow> 'w token_source_state \<Rightarrow> (go_error + string) \<times> 'w token_source_state" where
  "oauth_do env req s =
     (case in_world (oe_http env req) s of
        (Inl e, s') \<Rightarrow> (Inl e, s')
      | (Inr r, s') \<Rightarrow>
          (case limited r of
             (_, Some e) \<Rightarrow> (Inl e, s')
           | (raw, None) \<Rightarrow>
               (if hr_status r < 200 \<or> hr_status r > 299 then
                  Inl (case oe_error env raw of
                      Some (e, d) \<Rightarrow>
                        if e \<noteq> [] then (if d \<noteq> [] then Errorf ''%s: %s'' [FStr e, FStr d] else Sentinel e)
                        else Errorf ''status %d'' [FInt (hr_status r)]
                    | None \<Rightarrow> Errorf ''status %d'' [FInt (hr_status r)])
                else Inr raw, s')))"

definition getJSON :: "'w oauth_env \<Rightarrow> string \<Rightarrow> (string \<Rightarrow> go_error option \<Rightarrow> 'a \<Rightarrow> 'a \<times> go_error option) \<Rightarrow> 'a
    \<Rightarrow> 'w token_source_state \<Rightarrow> 'a \<times> go_error option \<times> 'w token_source_state" where
  "getJSON env u decode out s =
     (case oe_request env u of
        Some e \<Rightarrow> (out, Some e, s)
      | None \<Rightarrow>
          (case in_world (oe_http env \<lparr>oq_url = u, oq_headers = [(''Accept'', ''application/json'')], oq_basic = None, oq_body = NoBody\<rparr>) s of
             (Inl e, s') \<Rightarrow> (out, Some e, s')
           | (Inr r, s') \<Rightarrow>
               (if hr_status r \<noteq> 200 then (out, Some (Errorf ''status %d'' [FInt (hr_status r)]), s')
                else case decode (fst (limited r)) (snd (limited r)) out of (out', e) \<Rightarrow> (out', e, s'))))"

section \<open>Discovery\<close>

definition wellKnown :: "parsed_url \<Rightarrow> string \<Rightarrow> string list" where
  "wellKnown u suff =
     (let origin = pu_scheme u @ ''://'' @ pu_host u; path = TrimSuffix (pu_path u) ''/''
      in (origin @ ''/.well-known/'' @ suff @ path) # (if path \<noteq> [] then [origin @ ''/.well-known/'' @ suff] else []))"

fun find_issuer :: "'w oauth_env \<Rightarrow> string list \<Rightarrow> string list \<Rightarrow> string \<Rightarrow> 'w token_source_state \<Rightarrow> string \<times> 'w token_source_state" where
  "find_issuer env [] prm issuer s = (issuer, s)"
| "find_issuer env (u # us) prm issuer s =
     (case getJSON env u (oe_servers env) prm s of
        (prm', e, s') \<Rightarrow>
          if e = None \<and> prm' \<noteq> [] then (hd prm', s') else find_issuer env us prm' issuer s')"

fun find_meta :: "'w oauth_env \<Rightarrow> string list \<Rightarrow> serverMetadata \<Rightarrow> 'w token_source_state \<Rightarrow> serverMetadata option \<times> 'w token_source_state" where
  "find_meta env [] meta s = (None, s)"
| "find_meta env (u # us) meta s =
     (case getJSON env u (oe_meta env) meta s of
        (meta', e, s') \<Rightarrow>
          if e = None \<and> sm_token meta' \<noteq> [] then (Some meta', s') else find_meta env us meta' s')"

definition no_metadata :: serverMetadata where
  "no_metadata = \<lparr>sm_authorization = [], sm_token = [], sm_registration = []\<rparr>"

definition discover :: "'w oauth_env \<Rightarrow> string \<Rightarrow> 'w token_source_state \<Rightarrow> (go_error + unit) \<times> 'w token_source_state" where
  "discover env resource s =
     (if ts_meta s \<noteq> None then (Inr (), s)
      else case oe_url env resource of
          None \<Rightarrow> (Inl (Errorf ''oauth: invalid server URL %q'' [FStr resource]), s)
        | Some res \<Rightarrow>
            if pu_scheme res = [] \<or> pu_host res = [] then (Inl (Errorf ''oauth: invalid server URL %q'' [FStr resource]), s)
            else
              (case find_issuer env (wellKnown res ''oauth-protected-resource'') [] (pu_scheme res @ ''://'' @ pu_host res) s of
                 (issuer, s1) \<Rightarrow>
                   (case oe_url env issuer of
                      None \<Rightarrow> (Inl (Errorf ''oauth: invalid authorization server %q'' [FStr issuer]), s1)
                    | Some iss \<Rightarrow>
                        if pu_host iss = [] then (Inl (Errorf ''oauth: invalid authorization server %q'' [FStr issuer]), s1)
                        else
                          (case find_meta env (wellKnown iss ''oauth-authorization-server'' @ wellKnown iss ''openid-configuration'' @
                               [TrimSuffix issuer ''/'' @ ''/.well-known/openid-configuration'']) no_metadata s1 of
                             (Some m, s2) \<Rightarrow> (Inr (), s2\<lparr>ts_meta := Some m\<rparr>)
                           | (None, s2) \<Rightarrow>
                               (let origin = pu_scheme iss @ ''://'' @ pu_host iss in
                                (Inr (), s2\<lparr>ts_meta := Some \<lparr>sm_authorization = origin @ ''/authorize'', sm_token = origin @ ''/token'',
                                   sm_registration = origin @ ''/register''\<rparr>\<rparr>))))))"

section \<open>Grants\<close>

definition clientID :: "'w oauth_config \<Rightarrow> oauth_session \<Rightarrow> string" where
  "clientID cfg x = (if oc_client_id cfg \<noteq> [] then oc_client_id cfg else os_client_id x)"

definition clientSecret :: "'w oauth_config \<Rightarrow> oauth_session \<Rightarrow> string" where
  "clientSecret cfg x = (if oc_client_id cfg \<noteq> [] then oc_client_secret cfg else os_client_secret x)"

text \<open>The headers, the credentials and the form of a token request; \<open>form\<close> has distinct keys.\<close>

definition token_http_request :: "'w oauth_config \<Rightarrow> string \<Rightarrow> (string \<times> string) list \<Rightarrow> 'w token_source_state \<Rightarrow> oauth_request" where
  "token_http_request cfg resource form s =
     (let x = session_of s; secret = clientSecret cfg x;
          form1 = AList.update ''resource'' resource form;
          form2 = (if secret = [] then AList.update ''client_id'' (clientID cfg x) form1 else form1)
      in \<lparr>oq_url = sm_token (meta_of s),
          oq_headers = [(''Content-Type'', ''application/x-www-form-urlencoded''), (''Accept'', ''application/json'')],
          oq_basic = (if secret \<noteq> [] then Some (QueryEscape (clientID cfg x), QueryEscape secret) else None),
          oq_body = FormBody (Values_Encode form2)\<rparr>)"

definition form_get :: "(string \<times> string) list \<Rightarrow> string \<Rightarrow> string" where
  "form_get form k = (case map_of form k of None \<Rightarrow> [] | Some v \<Rightarrow> v)"

definition tokenRequest :: "'w oauth_env \<Rightarrow> 'w oauth_config \<Rightarrow> string \<Rightarrow> (string \<times> string) list \<Rightarrow> 'w token_source_state
    \<Rightarrow> (go_error + oauth_token) \<times> 'w token_source_state" where
  "tokenRequest env cfg resource form s =
     (case oe_request env (sm_token (meta_of s)) of
        Some e \<Rightarrow> (Inl e, s)
      | None \<Rightarrow>
          (case oauth_do env (token_http_request cfg resource form s) s of
             (Inl e, s1) \<Rightarrow> (Inl (Errorf ''oauth: %s grant: %w'' [FStr (form_get form ''grant_type''), FWrap e]), s1)
           | (Inr raw, s1) \<Rightarrow>
               (case oe_grant env raw of
                  Inl e \<Rightarrow> (Inl (Errorf ''oauth: %s grant: %w'' [FStr (form_get form ''grant_type''), FWrap e]), s1)
                | Inr (access, ty, refresh, expires_in) \<Rightarrow>
                    if access = [] then
                      (Inl (Errorf ''oauth: %s grant: no access token in response'' [FStr (form_get form ''grant_type'')]), s1)
                    else if expires_in > 0 then
                      (case in_world (oe_now env) s1 of
                         (now, s2) \<Rightarrow> (Inr \<lparr>ot_access = access, ot_type = ty, ot_refresh = refresh,
                            ot_expiry = Some (now + wrap64 (expires_in * second))\<rparr>, s2))
                    else (Inr \<lparr>ot_access = access, ot_type = ty, ot_refresh = refresh, ot_expiry = None\<rparr>, s1))))"

definition oauth_refresh :: "'w oauth_env \<Rightarrow> 'w oauth_config \<Rightarrow> string \<Rightarrow> string \<Rightarrow> 'w token_source_state
    \<Rightarrow> (go_error + oauth_token) \<times> 'w token_source_state" where
  "oauth_refresh env cfg resource token =
     tokenRequest env cfg resource [(''grant_type'', ''refresh_token''), (''refresh_token'', token)]"

definition clientCredentials :: "'w oauth_env \<Rightarrow> 'w oauth_config \<Rightarrow> string \<Rightarrow> 'w token_source_state
    \<Rightarrow> (go_error + oauth_token) \<times> 'w token_source_state" where
  "clientCredentials env cfg resource =
     tokenRequest env cfg resource ((''grant_type'', ''client_credentials'') #
       (if oc_scopes cfg = [] then [] else [(''scope'', Join (oc_scopes cfg) '' '')]))"

definition registration_body :: "'w oauth_config \<Rightarrow> string list \<Rightarrow> json" where
  "registration_body cfg grants = JObj
     ([(''client_name'', JStr (oc_client_name cfg)), (''grant_types'', JArr (map JStr grants))] @
      (if oc_redirect cfg = [] then [] else [(''redirect_uris'', JArr [JStr (oc_redirect cfg)])]) @
      [(''response_types'', JArr [JStr ''code''])] @
      (if oc_scopes cfg = [] then [] else [(''scope'', JStr (Join (oc_scopes cfg) '' ''))]) @
      [(''token_endpoint_auth_method'', JStr ''none'')])"

definition register :: "'w oauth_env \<Rightarrow> 'w oauth_config \<Rightarrow> string list \<Rightarrow> 'w token_source_state
    \<Rightarrow> (go_error + unit) \<times> 'w token_source_state" where
  "register env cfg grants s =
     (if clientID cfg (session_of s) \<noteq> [] then (Inr (), s)
      else if sm_registration (meta_of s) = [] then
        (Inl (Sentinel ''oauth: the server does not support dynamic client registration; set Config.ClientID''), s)
      else case oe_request env (sm_registration (meta_of s)) of
          Some e \<Rightarrow> (Inl e, s)
        | None \<Rightarrow>
            (case oauth_do env \<lparr>oq_url = sm_registration (meta_of s),
                oq_headers = [(''Content-Type'', ''application/json''), (''Accept'', ''application/json'')], oq_basic = None,
                oq_body = JsonBody (registration_body cfg grants)\<rparr> s of
               (Inl e, s1) \<Rightarrow> (Inl (Errorf ''oauth: client registration: %w'' [FWrap e]), s1)
             | (Inr raw, s1) \<Rightarrow>
                 (case oe_registration env raw of
                    Inl e \<Rightarrow> (Inl (Errorf ''oauth: client registration: %w'' [FWrap e]), s1)
                  | Inr (cid, secret) \<Rightarrow>
                      if cid = [] then (Inl (Sentinel ''oauth: client registration: no client_id in response''), s1)
                      else
                        (let x = (session_of s1)\<lparr>os_client_id := cid, os_client_secret := secret\<rparr>; s2 = s1\<lparr>ts_session := Some x\<rparr>
                         in case in_world (oc_save cfg x) s2 of
                             (Inl e, s3) \<Rightarrow> (Inl (Errorf ''oauth: save session: %w'' [FWrap e]), s3)
                           | (Inr _, s3) \<Rightarrow> (Inr (), s3)))))"

definition authorization_url :: "'w oauth_env \<Rightarrow> 'w oauth_config \<Rightarrow> string \<Rightarrow> string \<Rightarrow> string \<Rightarrow> 'w token_source_state \<Rightarrow> string" where
  "authorization_url env cfg resource verifier state s =
     (let q = [(''response_type'', ''code''), (''client_id'', clientID cfg (session_of s)), (''redirect_uri'', oc_redirect cfg),
            (''state'', state), (''code_challenge'', RawURLEncoding (oe_sha256 env verifier)), (''code_challenge_method'', ''S256''),
            (''resource'', resource)] @
            (if oc_scopes cfg = [] then [] else [(''scope'', Join (oc_scopes cfg) '' '')]);
          u = sm_authorization (meta_of s)
      in u @ (if Contains u ''?'' then ''&'' else ''?'') @ Values_Encode q)"

definition authorizationCode :: "'w oauth_env \<Rightarrow> 'w oauth_config \<Rightarrow> string \<Rightarrow> (string \<Rightarrow> 'w \<Rightarrow> (go_error + string) \<times> 'w)
    \<Rightarrow> 'w token_source_state \<Rightarrow> (go_error + oauth_token) \<times> 'w token_source_state" where
  "authorizationCode env cfg resource authorize s =
     (if oc_redirect cfg = [] then (Inl (Sentinel ''oauth: RedirectURL is required for the authorization code flow''), s)
      else case register env cfg [''authorization_code'', ''refresh_token''] s of
          (Inl e, s1) \<Rightarrow> (Inl e, s1)
        | (Inr _, s1) \<Rightarrow>
            (case randomString env 32 s1 of
               (Inl e, s2) \<Rightarrow> (Inl e, s2)
             | (Inr verifier, s2) \<Rightarrow>
                 (case randomString env 16 s2 of
                    (Inl e, s3) \<Rightarrow> (Inl e, s3)
                  | (Inr state, s3) \<Rightarrow>
                      (case in_world (authorize (authorization_url env cfg resource verifier state s3)) s3 of
                         (Inl e, s4) \<Rightarrow> (Inl (Errorf ''oauth: authorize: %w'' [FWrap e]), s4)
                       | (Inr code, s4) \<Rightarrow>
                           tokenRequest env cfg resource [(''grant_type'', ''authorization_code''), (''code'', code),
                             (''redirect_uri'', oc_redirect cfg), (''code_verifier'', verifier)] s4))))"

section \<open>The token source\<close>

definition oauth_store :: "'w oauth_config \<Rightarrow> oauth_token \<Rightarrow> 'w token_source_state \<Rightarrow> (go_error + string) \<times> 'w token_source_state" where
  "oauth_store cfg tok s =
     (let x = session_of s;
          tok1 = (if ot_refresh tok = [] then (case os_token x of None \<Rightarrow> tok | Some old \<Rightarrow> tok\<lparr>ot_refresh := ot_refresh old\<rparr>) else tok);
          x1 = x\<lparr>os_token := Some tok1\<rparr>
      in case in_world (oc_save cfg x1) (s\<lparr>ts_session := Some x1\<rparr>) of
          (Inl e, s') \<Rightarrow> (Inl (Errorf ''oauth: save session: %w'' [FWrap e]), s')
        | (Inr _, s') \<Rightarrow> (Inr (ot_access tok1), s'))"

definition new_grant :: "'w oauth_env \<Rightarrow> 'w oauth_config \<Rightarrow> string \<Rightarrow> 'w token_source_state \<Rightarrow> (go_error + string) \<times> 'w token_source_state" where
  "new_grant env cfg resource s =
     (case (case oc_authorize cfg of
          Some authorize \<Rightarrow> authorizationCode env cfg resource authorize s
        | None \<Rightarrow>
            if clientSecret cfg (session_of s) \<noteq> [] then clientCredentials env cfg resource s
            else (Inl ErrAuthorizationRequired, s)) of
        (Inl e, s') \<Rightarrow> (Inl e, s')
      | (Inr tok, s') \<Rightarrow> oauth_store cfg tok s')"

definition load_session :: "'w oauth_config \<Rightarrow> 'w token_source_state \<Rightarrow> (go_error + unit) \<times> 'w token_source_state" where
  "load_session cfg s =
     (if ts_session s \<noteq> None then (Inr (), s)
      else case in_world (oc_load cfg) s of
          (Inl e, s') \<Rightarrow> (Inl (Errorf ''oauth: load session: %w'' [FWrap e]), s')
        | (Inr x, s') \<Rightarrow> (Inr (), s'\<lparr>ts_session := Some (case x of None \<Rightarrow> empty_session | Some x \<Rightarrow> x)\<rparr>))"

definition renew :: "'w oauth_env \<Rightarrow> 'w oauth_config \<Rightarrow> string \<Rightarrow> 'w token_source_state \<Rightarrow> (go_error + string) \<times> 'w token_source_state" where
  "renew env cfg resource s =
     (case discover env resource s of
        (Inl e, s1) \<Rightarrow> (Inl e, s1)
      | (Inr _, s1) \<Rightarrow>
          (case os_token (session_of s1) of
             None \<Rightarrow> new_grant env cfg resource s1
           | Some t \<Rightarrow>
               if ot_refresh t = [] then new_grant env cfg resource s1
               else (case oauth_refresh env cfg resource (ot_refresh t) s1 of
                   (Inr tok, s2) \<Rightarrow> oauth_store cfg tok s2
                 | (Inl _, s2) \<Rightarrow> new_grant env cfg resource s2)))"

definition Token :: "'w oauth_env \<Rightarrow> 'w oauth_config \<Rightarrow> string \<Rightarrow> 'w token_source_state \<Rightarrow> (go_error + string) \<times> 'w token_source_state" where
  "Token env cfg resource s =
     (case load_session cfg s of
        (Inl e, s1) \<Rightarrow> (Inl e, s1)
      | (Inr _, s1) \<Rightarrow>
          (case in_world (Valid env (os_token (session_of s1))) s1 of
             (True, s2) \<Rightarrow> (Inr (case os_token (session_of s2) of None \<Rightarrow> [] | Some t \<Rightarrow> ot_access t), s2)
           | (False, s2) \<Rightarrow> renew env cfg resource s2))"

definition InvalidateToken :: "'w token_source_state \<Rightarrow> 'w token_source_state" where
  "InvalidateToken s =
     (case ts_session s of
        None \<Rightarrow> s
      | Some x \<Rightarrow>
          (case os_token x of
             None \<Rightarrow> s
           | Some t \<Rightarrow> s\<lparr>ts_session := Some (x\<lparr>os_token := Some (t\<lparr>ot_access := []\<rparr>)\<rparr>)\<rparr>))"

text \<open>The token source an MCP client uses with \<open>WithTokenSource\<close>.\<close>

definition oauth_token_source :: "'w oauth_env \<Rightarrow> 'w oauth_config \<Rightarrow> string \<Rightarrow> 'w token_source_state token_source" where
  "oauth_token_source env cfg resource = \<lparr>tk_token = Token env cfg resource, tk_invalidate = Some InvalidateToken\<rparr>"

section \<open>The redirect\<close>

text \<open>The result of the redirect a \<open>Loopback\<close> authorizer waits for; \<open>q\<close> gives the query parameters.\<close>

definition redirect_result :: "string \<Rightarrow> (string \<Rightarrow> string) \<Rightarrow> go_error + string" where
  "redirect_result state q =
     (if q ''state'' \<noteq> state then Inl (Sentinel ''state mismatch in redirect'')
      else if q ''error'' \<noteq> [] then Inl (Errorf ''%s: %s'' [FStr (q ''error''), FStr (q ''error_description'')])
      else if q ''code'' = [] then Inl (Sentinel ''no code in redirect'')
      else Inr (q ''code''))"

end
