(* ===== verification/Loopback_Login.thy ===== *)
theory Loopback_Login
  imports MCP_OAuth
begin

text \<open>
  The authorizer of desktop programs (\<open>mcp/oauth/loopback.go\<close>): it listens on a loopback address,
  opens the authorization URL and waits for the redirect. The handler of the listener runs beside
  it, so the wait is a step relation: requests may come at any time from anywhere, in any number,
  before and after the browser was opened.

  \<open>url.Parse\<close>, the listener and the opening of the URL are parameters or actions.
\<close>

section \<open>Before the wait\<close>

record url_parts =
  up_scheme :: string
  up_hostname :: string
  up_host :: string
  up_path :: string
  up_query :: "string \<Rightarrow> string"

text \<open>What the wait is for: the state that was sent, and the pattern the handler is registered for.\<close>

record awaited =
  aw_state :: string
  aw_pattern :: string

definition loopback_listen :: "(string \<Rightarrow> go_error + url_parts) \<Rightarrow> (string \<Rightarrow> go_error option) \<Rightarrow> string \<Rightarrow> string \<Rightarrow> go_error + awaited" where
  "loopback_listen parse listen redirectURL authURL =
     (case parse redirectURL of
        Inl e \<Rightarrow> Inl (Errorf ''redirect URL: %w'' [FWrap e])
      | Inr redirect \<Rightarrow>
          if up_scheme redirect \<noteq> ''http'' \<or> (up_hostname redirect \<noteq> ''127.0.0.1'' \<and> up_hostname redirect \<noteq> ''localhost'')
          then Inl (Errorf ''redirect URL %q is not a loopback address'' [FStr redirectURL])
          else (case parse authURL of
             Inl e \<Rightarrow> Inl e
           | Inr auth \<Rightarrow>
               (case listen (up_host redirect) of
                  Some e \<Rightarrow> Inl e
                | None \<Rightarrow> Inr \<lparr>aw_state = up_query auth ''state'', aw_pattern = (if up_path redirect = [] then ''/'' else up_path redirect)\<rparr>)))"

section \<open>The wait\<close>

datatype phase = Opening | Waiting | Finished "go_error + string"

record login =
  lg_done :: "(go_error + string) option"
  lg_phase :: phase
  lg_ctx :: "go_error option"
  lg_replies :: "int list"

text \<open>
  A request for a path and with a query; the end of \<open>open\<close>; the end of the context; and the two
  cases of the last \<open>select\<close>.
\<close>

datatype login_action =
    Request string "string \<Rightarrow> string"
  | Opened "go_error option"
  | Cancel go_error
  | TakeResult
  | TakeCancel

text \<open>The patterns of \<open>ServeMux\<close> without wildcards: a pattern that ends in a slash stands for its subtree.\<close>

definition mux_matches :: "string \<Rightarrow> string \<Rightarrow> bool" where
  "mux_matches pattern path \<longleftrightarrow> path = pattern \<or> HasSuffix pattern ''/'' \<and> HasPrefix path pattern"

definition handle_redirect :: "string \<Rightarrow> (string \<Rightarrow> string) \<Rightarrow> login \<Rightarrow> login" where
  "handle_redirect state q t =
     (let res = redirect_result state q in
      t\<lparr>lg_replies := lg_replies t @ [case res of Inl _ \<Rightarrow> 400 | Inr _ \<Rightarrow> 200],
        lg_done := (case lg_done t of None \<Rightarrow> Some res | Some r \<Rightarrow> Some r)\<rparr>)"

fun login_step :: "awaited \<Rightarrow> login_action \<Rightarrow> login \<Rightarrow> login option" where
  "login_step a (Request path q) t =
     Some (if mux_matches (aw_pattern a) path then handle_redirect (aw_state a) q t else t\<lparr>lg_replies := lg_replies t @ [404]\<rparr>)"
| "login_step a (Opened e) t =
     (if lg_phase t = Opening then Some (t\<lparr>lg_phase := (case e of None \<Rightarrow> Waiting | Some err \<Rightarrow> Finished (Inl err))\<rparr>) else None)"
| "login_step a (Cancel e) t = Some (if lg_ctx t = None then t\<lparr>lg_ctx := Some e\<rparr> else t)"
| "login_step a TakeResult t =
     (case (lg_phase t, lg_done t) of
        (Waiting, Some r) \<Rightarrow> Some (t\<lparr>lg_done := None, lg_phase := Finished r\<rparr>)
      | _ \<Rightarrow> None)"
| "login_step a TakeCancel t =
     (case (lg_phase t, lg_ctx t) of
        (Waiting, Some e) \<Rightarrow> Some (t\<lparr>lg_phase := Finished (Inl e)\<rparr>)
      | _ \<Rightarrow> None)"

definition idle_login :: login where
  "idle_login = \<lparr>lg_done = None, lg_phase = Opening, lg_ctx = None, lg_replies = []\<rparr>"

inductive login_run :: "awaited \<Rightarrow> login_action list \<Rightarrow> login \<Rightarrow> bool" for a where
  start: "login_run a [] idle_login"
| act: "login_run a as t \<Longrightarrow> login_step a x t = Some t' \<Longrightarrow> login_run a (as @ [x]) t'"

section \<open>The first redirect decides\<close>

definition redirects :: "awaited \<Rightarrow> login_action list \<Rightarrow> (string \<Rightarrow> string) list" where
  "redirects a as = concat (map (\<lambda>x. case x of Request path q \<Rightarrow> if mux_matches (aw_pattern a) path then [q] else [] | _ \<Rightarrow> []) as)"

lemma redirects_simps [simp]:
  "redirects a [] = []"
  "redirects a (as @ [x]) = redirects a as @
    (case x of Request path q \<Rightarrow> if mux_matches (aw_pattern a) path then [q] else [] | _ \<Rightarrow> [])"
  by (simp_all add: redirects_def)

definition first_result :: "awaited \<Rightarrow> login_action list \<Rightarrow> (go_error + string) option" where
  "first_result a as = (case redirects a as of [] \<Rightarrow> None | q # _ \<Rightarrow> Some (redirect_result (aw_state a) q))"

text \<open>Until the login has ended its channel holds the result of the first redirect; what it ends with is that, an error of \<open>open\<close> or of the context.\<close>

definition login_ok :: "awaited \<Rightarrow> login_action list \<Rightarrow> login \<Rightarrow> bool" where
  "login_ok a as t \<longleftrightarrow>
     (case lg_phase t of
        Finished r \<Rightarrow> first_result a as = Some r \<or> (\<exists>e. r = Inl e \<and> (Opened (Some e) \<in> set as \<or> Cancel e \<in> set as))
      | _ \<Rightarrow> lg_done t = first_result a as) \<and>
     (\<forall>e. lg_ctx t = Some e \<longrightarrow> Cancel e \<in> set as)"

lemma first_result_snoc:
  "first_result a (as @ [x]) = (case (first_result a as, x) of
      (None, Request path q) \<Rightarrow> if mux_matches (aw_pattern a) path then Some (redirect_result (aw_state a) q) else None
    | (r, _) \<Rightarrow> r)"
  by (cases "redirects a as"; cases x) (simp_all add: first_result_def)

lemma handle_redirect_fields [simp]:
  "lg_phase (handle_redirect s q t) = lg_phase t" "lg_ctx (handle_redirect s q t) = lg_ctx t"
  "lg_done (handle_redirect s q t) = (case lg_done t of None \<Rightarrow> Some (redirect_result s q) | Some r \<Rightarrow> Some r)"
  by (simp_all add: handle_redirect_def Let_def)

lemma login_ok_step:
  assumes ok: "login_ok a as t" and step: "login_step a x t = Some t'"
  shows "login_ok a (as @ [x]) t'"
proof (cases x)
  case (Request path q)
  show ?thesis
  proof (cases "mux_matches (aw_pattern a) path")
    case True
    with step Request have t': "t' = handle_redirect (aw_state a) q t" by simp
    show ?thesis using ok True Request unfolding t'
      by (cases "lg_phase t"; cases "first_result a as") (auto simp: login_ok_def first_result_snoc)
  next
    case False
    with step Request have t': "t' = t\<lparr>lg_replies := lg_replies t @ [404]\<rparr>" by simp
    show ?thesis using ok False Request unfolding t'
      by (cases "lg_phase t"; cases "first_result a as") (auto simp: login_ok_def first_result_snoc)
  qed
next
  case (Opened e)
  with step have t': "lg_phase t = Opening" "t' = t\<lparr>lg_phase := (case e of None \<Rightarrow> Waiting | Some err \<Rightarrow> Finished (Inl err))\<rparr>"
    by (auto split: if_splits)
  show ?thesis using ok Opened t'(1) unfolding t'(2)
    by (cases e; cases "first_result a as") (auto simp: login_ok_def first_result_snoc)
next
  case (Cancel e)
  with step have t': "t' = (if lg_ctx t = None then t\<lparr>lg_ctx := Some e\<rparr> else t)" by simp
  show ?thesis using ok Cancel unfolding t'
    by (cases "lg_phase t"; cases "first_result a as") (auto simp: login_ok_def first_result_snoc)
next
  case TakeResult
  with step obtain r where t': "lg_phase t = Waiting" "lg_done t = Some r" "t' = t\<lparr>lg_done := None, lg_phase := Finished r\<rparr>"
    by (auto split: phase.splits option.splits)
  show ?thesis using ok TakeResult t'(1,2) unfolding t'(3)
    by (cases "first_result a as") (auto simp: login_ok_def first_result_snoc)
next
  case TakeCancel
  with step obtain e where t': "lg_phase t = Waiting" "lg_ctx t = Some e" "t' = t\<lparr>lg_phase := Finished (Inl e)\<rparr>"
    by (auto split: phase.splits option.splits)
  show ?thesis using ok TakeCancel t'(1,2) unfolding t'(3)
    by (cases "first_result a as") (auto simp: login_ok_def first_result_snoc)
qed

lemma login_run_ok: "login_run a as t \<Longrightarrow> login_ok a as t"
proof (induction rule: login_run.induct)
  case start
  show ?case by (simp add: login_ok_def idle_login_def first_result_def)
next
  case (act as t x t')
  then show ?case using login_ok_step by blast
qed

text \<open>
  C23. A login returns a code only when the first request for the redirect's path, out of everything
  that reached the listener in any order, carries the state of the authorization URL, no error and
  that code. Whatever else the login ends with is the error of that first request, of opening the URL
  or of the context.
\<close>

theorem login_code_genuine:
  assumes "login_run a as t" "lg_phase t = Finished r"
  shows "case r of
      Inr code \<Rightarrow> \<exists>q qs. redirects a as = q # qs \<and> q ''state'' = aw_state a \<and> q ''error'' = [] \<and> q ''code'' = code \<and> code \<noteq> []
    | Inl e \<Rightarrow> (\<exists>q qs. redirects a as = q # qs \<and> redirect_result (aw_state a) q = Inl e) \<or> Opened (Some e) \<in> set as \<or> Cancel e \<in> set as"
  using login_run_ok [OF assms(1)] assms(2)
  by (auto simp: login_ok_def first_result_def redirect_result_def split: sum.splits list.splits if_splits)

text \<open>The wait ends once a redirect arrived or the context is done.\<close>

lemma login_can_finish:
  assumes "lg_phase t = Waiting" "lg_done t \<noteq> None \<or> lg_ctx t \<noteq> None"
  shows "\<exists>x r t'. login_step a x t = Some t' \<and> lg_phase t' = Finished r"
  using assms
  by (auto intro: exI [of _ TakeResult] exI [of _ TakeCancel])

text \<open>
  One stray request is enough to fail a login: any request to the listener without the state, when it is the
  first, ends it. With a redirect URL that has no path the handler answers every path, so a browser's
  request for an icon is such a request too.
\<close>

lemma stray_request_fails_login:
  assumes "login_run a as t" "redirects a as = q # qs" "q ''state'' \<noteq> aw_state a" "lg_phase t = Finished r"
  shows "\<exists>e. r = Inl e"
  using login_run_ok [OF assms(1)] assms(2-4)
  by (cases r) (auto simp: login_ok_def first_result_def redirect_result_def)

lemma root_pattern_matches: "HasPrefix path ''/'' \<Longrightarrow> mux_matches ''/'' path"
  by (simp add: mux_matches_def HasSuffix_def)

section \<open>A login\<close>

definition good_query :: "string \<Rightarrow> string" where
  "good_query k = (if k = ''state'' then ''s1'' else if k = ''code'' then ''c1'' else [])"

lemma login_run_steps:
  "login_run a as t \<Longrightarrow> foldl (\<lambda>s x. Option.bind s (login_step a x)) (Some t) bs = Some t' \<Longrightarrow> login_run a (as @ bs) t'"
proof (induction bs arbitrary: as t)
  case Nil
  then show ?case by simp
next
  case (Cons b bs)
  have none: "foldl (\<lambda>s x. Option.bind s (login_step a x)) None bs = None" by (induction bs) simp_all
  obtain u where u: "login_step a b t = Some u" using Cons.prems(2) none by (cases "login_step a b t") auto
  with Cons.IH [OF login_run.act [OF Cons.prems(1) u]] Cons.prems(2) show ?case by simp
qed

theorem login_code_genuine_witness:
  "\<exists>t. login_run \<lparr>aw_state = ''s1'', aw_pattern = ''/cb''\<rparr>
      [Request ''/favicon.ico'' (\<lambda>_. []), Opened None, Request ''/cb'' good_query, Request ''/cb'' (\<lambda>_. []), TakeResult] t \<and>
    lg_phase t = Finished (Inr ''c1'') \<and> good_query ''state'' = ''s1'' \<and> good_query ''error'' = []"
proof -
  let ?a = "\<lparr>aw_state = ''s1'', aw_pattern = ''/cb''\<rparr>"
  let ?as = "[Request ''/favicon.ico'' (\<lambda>_. []), Opened None, Request ''/cb'' good_query, Request ''/cb'' (\<lambda>_. []), TakeResult]"
  let ?t = "\<lparr>lg_done = None, lg_phase = Finished (Inr ''c1''), lg_ctx = None, lg_replies = [404, 200, 400]\<rparr>"
  have "foldl (\<lambda>s x. Option.bind s (login_step ?a x)) (Some idle_login) ?as = Some ?t"
    by (simp add: idle_login_def handle_redirect_def mux_matches_def HasSuffix_def HasPrefix_def suffix_def redirect_result_def good_query_def)
  from login_run_steps [OF login_run.start this] have run: "login_run ?a ?as ?t" by simp
  from login_code_genuine [OF this, of "Inr ''c1''"]
  have "good_query ''state'' = ''s1'' \<and> good_query ''error'' = []"
    by (simp add: redirects_def mux_matches_def HasSuffix_def HasPrefix_def suffix_def)
  with run show ?thesis by (intro exI [of _ ?t]) simp
qed

end
