(* ===== verification/MCP_Properties.thy ===== *)
theory MCP_Properties
  imports MCP_Operations
begin

text \<open>
  What an MCP client promises about elicitation: the error of a handler reaches the caller of the
  call it belongs to, so that \<open>AwaitElicitation\<close> pauses a graph in the middle of a tool call, and
  a resumed run gives the server the stored answer.
\<close>

section \<open>A listing\<close>


definition two_pages :: "string \<Rightarrow> string list \<times> string" where
  "two_pages c = (if c = [] then ([''a''], ''next'') else ([''b''], []))"

definition page_transport :: "(unit, unit) mcp_transport" where
  "page_transport = \<lparr>tr_call = (\<lambda>c meth params s. (Inr (case params of Some (JObj [(k, JStr cursor)]) \<Rightarrow> cursor | _ \<Rightarrow> []), s)),
     tr_notify = (\<lambda>c meth params s. (Inr (), s))\<rparr>"


text \<open>Two cursors that point at each other: the listing never ends.\<close>

definition cursor_cycle :: "string \<Rightarrow> string list \<times> string" where
  "cursor_cycle c = (if c = ''x'' then ([], ''y'') else ([], ''x''))"

lemma cyclic_listing_hangs: "list_pages page_transport c meth (\<lambda>raw. Inr (cursor_cycle raw)) s = None"
proof -
  have "serves (tr_call page_transport c meth) (\<lambda>raw. Inr (cursor_cycle raw)) cursor_cycle s"
    by (auto simp: serves_def page_transport_def)
  moreover have "\<not> last_page cursor_cycle (nth_cursor cursor_cycle [] n)" for n
    by (auto simp: last_page_def follows_def cursor_cycle_def)
  ultimately show ?thesis
    using paginate_returns [of "tr_call page_transport c meth" "\<lambda>raw. Inr (cursor_cycle raw)" cursor_cycle s "[]" "[]"]
    by (cases "list_pages page_transport c meth (\<lambda>raw. Inr (cursor_cycle raw)) s") (auto simp: list_pages_def)
qed

section \<open>Errors of elicitation handlers\<close>

text \<open>The first error recorded for a call stays.\<close>

definition errs_keep :: "nat \<Rightarrow> go_error \<Rightarrow> 'w mcp \<Rightarrow> bool" where
  "errs_keep slot err s \<longleftrightarrow> es_slots (ms_errs s) slot = Some err"

lemma record_keeps: "es_slots e slot = Some err \<Longrightarrow> es_slots (elicit_record s err' e) slot = Some err"
  by (auto simp: elicit_record_def Let_def split: option.splits list.splits)

lemma on_world_errs: "ms_errs (snd (on_world f s)) = ms_errs s"
  by (simp add: on_world_def split: prod.split)

lemma on_world_errsD: "on_world f s = (r, s') \<Longrightarrow> ms_errs s' = ms_errs s"
  using on_world_errs [of f s] by simp

lemma postOnce_errs: "ms_errs (snd (postOnce o' http url body s)) = ms_errs s"
  by (auto simp: postOnce_def dest!: on_world_errsD split: option.split prod.split sum.split)

lemma post_twice_errs: "ms_errs (snd (mcp_post_twice o' http url body s)) = ms_errs s"
  using postOnce_errs [of o' http url body]
  by (auto simp: mcp_post_twice_def split: prod.split sum.split option.split dest!: arg_cong [of _ _ snd] intro: trans)

lemma post_twice_errsD: "mcp_post_twice o' http url body s = (r, s') \<Longrightarrow> ms_errs s' = ms_errs s"
  using post_twice_errs [of o' http url body s] by simp

lemma send_errs: "ms_errs (snd (mcp_send o' http url msg s)) = ms_errs s"
  using post_twice_errs [of o' http url msg s] by (auto simp: mcp_send_def split: prod.split sum.split)

lemma handle_keeps:
  assumes "errs_keep slot err s"
  shows "errs_keep slot err (snd (handleRequest cd o' c meth params s))"
  using assms
  by (auto simp: handleRequest_def handleElicit_def errs_keep_def record_keeps split: bool.split option.split prod.split sum.split
      dest!: on_world_errsD)

lemma read_loop_keeps:
  assumes "errs_keep slot err s"
    and "\<And>m ps s. errs_keep slot err s \<Longrightarrow> errs_keep slot err (snd (handle m ps s))"
    and "\<And>msg s. errs_keep slot err s \<Longrightarrow> errs_keep slot err (snd (send msg s))"
  shows "errs_keep slot err (snd (http_read_loop cd handle send rid sc s))"
  using assms
proof (induction cd handle send rid sc s rule: http_read_loop.induct)
  case (1 cd handle send rid sc s)
  show ?case
  proof (cases "sse_Next sc")
    case (Pair ev sc')
    show ?thesis
    proof (cases ev)
      case None
      then show ?thesis using Pair "1.prems"(1) by (subst http_read_loop.simps) (simp split: option.split)
    next
      case (Some e)
      note N = Pair [unfolded Some]
      show ?thesis
      proof (cases "mk_incoming cd (se_data e)")
        case None
        then show ?thesis using "1.IH"(1) [OF N [symmetric] refl None "1.prems"] N by (subst http_read_loop.simps) simp
      next
        case (Some msg)
        obtain res s1 where h: "handle (in_method msg) (in_params msg) s = (res, s1)" by fastforce
        obtain a s2 where a: "send (RpcReply (in_id msg) res) s1 = (a, s2)" by fastforce
        have k: "errs_keep slot err s2" using "1.prems"(2) [OF "1.prems"(1)] "1.prems"(3) h a by (metis snd_conv)
        then show ?thesis
          using "1.IH" "1.prems" N Some h a by (subst http_read_loop.simps) (simp split: sum.split)
      qed
    qed
  qed
qed

section \<open>A call that is asked something\<close>

definition answers_of :: "gctx \<Rightarrow> 'w gworld \<Rightarrow> elicitations" where
  "answers_of c w = (case ResumeValue sel_elicitations c w of None \<Rightarrow> Map.empty | Some a \<Rightarrow> a)"

lemma AwaitElicitation_eq:
  "AwaitElicitation c req w = (case answers_of c w (elicit_key req) of Some r \<Rightarrow> (Inr r, w)
     | None \<Rightarrow> (Inl (InterruptErr (DElicitation \<lparr>pe_key = elicit_key req, pe_request = req, pe_answered = answers_of c w\<rparr>)), w))"
  unfolding AwaitElicitation_def answers_of_def Let_def ..

definition resumed :: "elicitations \<Rightarrow> bool \<Rightarrow> gctx \<Rightarrow> 'w gworld \<Rightarrow> gctx \<times> 'w gworld" where
  "resumed answers used c w = (c\<lparr>gc_slot := Some (length (gw_slots w))\<rparr>,
     w\<lparr>gw_slots := gw_slots w @ [\<lparr>sl_value = DElicitations answers, sl_used = used\<rparr>]\<rparr>)"

lemma answers_resumed: "answers_of (fst (resumed a u c w)) (snd (resumed a u c w)) = a"
  by (simp add: answers_of_def ResumeValue_def resumed_def)

lemma elicit_first:
  assumes "mo_elicit o' = Some AwaitElicitation" "mk_elicit cd params = Some req" "answers_of (mc_user c) (mw s) (elicit_key req) = None"
    and "mc_slot c = Some slot" "es_slots (ms_errs s) slot = None"
  shows "errs_keep slot (InterruptErr (DElicitation \<lparr>pe_key = elicit_key req, pe_request = req, pe_answered = answers_of (mc_user c) (mw s)\<rparr>))
    (snd (handleRequest cd o' c ''elicitation/create'' params s))"
  using assms
  by (simp add: handleRequest_def handleElicit_def on_world_def AwaitElicitation_eq errs_keep_def elicit_record_def)

text \<open>The error of a call is that of its slot, whatever the server answers afterwards.\<close>

lemma call_reports_slot:
  assumes "mcp_post_twice o' http url (RpcRequest (ms_next s + 1) meth params) (s\<lparr>ms_next := ms_next s + 1\<rparr>) = (Inr r, s1)"
    and "hr_status r = 200" "mr_stream r" "hr_body r = raw_event_wire ev @ rest" "raw_event_ok ev"
    and "mk_incoming cd (se_data (raw_event_view ev)) = Some msg" "in_method msg \<noteq> []" "in_id msg \<noteq> []"
    and "\<And>s2. mw s2 = mw s1 \<Longrightarrow> ms_errs s2 = ms_errs s1 \<Longrightarrow>
      errs_keep slot err (snd (handleRequest cd o' c (in_method msg) (in_params msg) s2))"
  shows "errs_keep slot err (snd (http_call cd o' http url c meth params s))"
proof -
  define s2 where "s2 = (if mr_session r \<noteq> [] then s1\<lparr>ms_session := mr_session r\<rparr> else s1)"
  obtain res s3 where h: "handleRequest cd o' c (in_method msg) (in_params msg) s2 = (res, s3)" by fastforce
  obtain a s4 where a: "mcp_send o' http url (RpcReply (in_id msg) res) s3 = (a, s4)" by fastforce
  have k: "errs_keep slot err s3" using assms(9) [of s2] h by (simp add: s2_def)
  then have k4: "errs_keep slot err s4" using send_errs [of o' http url "RpcReply (in_id msg) res" s3] a by (simp add: errs_keep_def)
  have loop: "errs_keep slot err (snd (http_read_loop cd (handleRequest cd o' c) (mcp_send o' http url) rid sc s4))" for rid sc
  proof (rule read_loop_keeps [OF k4])
    show "errs_keep slot err (snd (mcp_send o' http url m s))" if "errs_keep slot err s" for m s
      using that by (simp add: errs_keep_def send_errs)
  qed (rule handle_keeps)
  have "errs_keep slot err (snd (http_response cd o' http url c (ms_next s + 1) r s2))"
    using assms(3-8) h a k4 loop sse_Next_raw [OF assms(5)]
    by (simp add: http_response_def) (subst http_read_loop.simps, simp split: sum.split)
  then show ?thesis
    using assms(1,2) by (auto simp: http_call_def s2_def [symmetric] Let_def split: prod.splits sum.splits option.splits)
qed


definition age_question :: elicit_request where
  "age_question = \<lparr>er_message = ''age?'', er_schema = ''{}''\<rparr>"

definition asking_codec :: mcp_codec where
  "asking_codec = \<lparr>mk_incoming = (\<lambda>_. Some \<lparr>in_id = ''7'', in_method = ''elicitation/create'', in_params = [], in_result = [], in_error = None\<rparr>),
     mk_id = (\<lambda>_. None), mk_response = (\<lambda>_. Inl errNoResponse), mk_elicit = (\<lambda>_. Some age_question), mk_args = (\<lambda>_. None),
     mk_call_result = (\<lambda>_. None), mk_tools = (\<lambda>_. Inl errNoResponse), mk_resources = (\<lambda>_. Inl errNoResponse),
     mk_contents = (\<lambda>_. Inl errNoResponse), mk_prompts = (\<lambda>_. Inl errNoResponse), mk_messages = (\<lambda>_. Inl errNoResponse)\<rparr>"

definition asking_reply :: mcp_reply where
  "asking_reply = \<lparr>hr_status = 200, hr_body = raw_event_wire (unary_event 1), hr_fail = None, hr_retry_after = 0,
     mr_stream = True, mr_session = []\<rparr>"

definition plain_ctx :: "gctx mcp_ctx" where
  "plain_ctx = \<lparr>mc_user = \<lparr>gc_cancelled = False, gc_slot = None\<rparr>, mc_slot = None\<rparr>"


end
