(* ===== verification/MCP_OAuth_Properties.thy ===== *)
theory MCP_OAuth_Properties
  imports MCP_OAuth
begin

text \<open>
  What a token source promises: a refresh token is never lost, a session kept in a store survives a
  restart, how long a token is used, and what two metadata documents can be mixed into.
\<close>

section \<open>What the operations change\<close>

definition held_token :: "'w token_source_state \<Rightarrow> oauth_token option" where
  "held_token s = os_token (session_of s)"

text \<open>\<open>same_session s s'\<close>: only the world and the metadata may differ.\<close>

definition same_session :: "'w token_source_state \<Rightarrow> 'w token_source_state \<Rightarrow> bool" where
  "same_session s s' \<longleftrightarrow> ts_session s' = ts_session s"

lemma same_session_refl [simp]: "same_session s s"
  by (simp add: same_session_def)

lemma same_session_trans: "same_session s s1 \<Longrightarrow> same_session s1 s2 \<Longrightarrow> same_session s s2"
  by (simp add: same_session_def)

lemma in_world_session: "in_world f s = (r, s') \<Longrightarrow> same_session s s'"
  by (auto simp: in_world_def same_session_def split: prod.splits)

lemma do_session: "oauth_do env req s = (r, s') \<Longrightarrow> same_session s s'"
  by (auto simp: oauth_do_def dest!: in_world_session split: prod.splits sum.splits option.splits)

lemma getJSON_session: "getJSON env u dc out s = (x, e, s') \<Longrightarrow> same_session s s'"
  by (auto simp: getJSON_def dest!: in_world_session split: prod.splits sum.splits option.splits if_splits)

lemma find_issuer_session: "find_issuer env us prm issuer s = (r, s') \<Longrightarrow> same_session s s'"
  by (induction us arbitrary: prm s) (auto dest!: getJSON_session intro: same_session_trans split: prod.splits if_splits)

lemma find_meta_session: "find_meta env us m s = (r, s') \<Longrightarrow> same_session s s'"
  by (induction us arbitrary: m s) (auto dest!: getJSON_session intro: same_session_trans split: prod.splits if_splits)

lemma discover_session: "discover env resource s = (r, s') \<Longrightarrow> same_session s s'"
  by (auto simp: discover_def Let_def dest!: find_issuer_session find_meta_session simp: same_session_def
      split: prod.splits option.splits if_splits)

lemma random_session: "randomString env n s = (r, s') \<Longrightarrow> same_session s s'"
  by (auto simp: randomString_def dest!: in_world_session split: prod.splits sum.splits)

lemma tokenRequest_session: "tokenRequest env cfg resource form s = (r, s') \<Longrightarrow> same_session s s'"
  by (auto simp: tokenRequest_def dest!: do_session in_world_session intro: same_session_trans
      split: prod.splits sum.splits option.splits if_splits)

lemma same_held: "same_session s s' \<Longrightarrow> held_token s' = held_token s"
  by (simp add: same_session_def held_token_def session_of_def)

lemma register_held: "register env cfg grants s = (r, s') \<Longrightarrow> held_token s' = held_token s"
  by (auto simp: register_def Let_def dest!: do_session in_world_session dest: same_held split: prod.splits sum.splits option.splits if_splits)
    (auto simp: held_token_def session_of_def same_session_def split: option.splits)

lemma authorizationCode_held: "authorizationCode env cfg resource a s = (r, s') \<Longrightarrow> held_token s' = held_token s"
  by (auto simp: authorizationCode_def dest!: register_held random_session in_world_session tokenRequest_session dest: same_held
      split: prod.splits sum.splits option.splits if_splits)
    (simp_all add: same_session_def held_token_def session_of_def)

lemma store_held:
  assumes "oauth_store cfg tok s = (r, s')" "held_token s = Some old" "ot_refresh old \<noteq> []"
  shows "\<exists>t. held_token s' = Some t \<and> ot_refresh t \<noteq> []"
  using assms
  by (auto simp: oauth_store_def Let_def held_token_def session_of_def in_world_def split: prod.splits sum.splits option.splits if_splits)

section \<open>The refresh token\<close>

definition can_refresh :: "'w token_source_state \<Rightarrow> bool" where
  "can_refresh s \<longleftrightarrow> (\<exists>t. held_token s = Some t \<and> ot_refresh t \<noteq> [])"

lemma can_refresh_same: "held_token s' = held_token s \<Longrightarrow> can_refresh s' = can_refresh s"
  by (simp add: can_refresh_def)

lemma store_keeps: "oauth_store cfg tok s = (r, s') \<Longrightarrow> can_refresh s \<Longrightarrow> can_refresh s'"
  using store_held unfolding can_refresh_def by blast

lemma clientCredentials_held: "clientCredentials env cfg resource s = (r, s') \<Longrightarrow> held_token s' = held_token s"
  unfolding clientCredentials_def by (rule same_held [OF tokenRequest_session])

lemma new_grant_keeps:
  assumes "new_grant env cfg resource s = (r, s')" "can_refresh s"
  shows "can_refresh s'"
proof -
  obtain g s1 where g: "(case oc_authorize cfg of
          Some authorize \<Rightarrow> authorizationCode env cfg resource authorize s
        | None \<Rightarrow> if clientSecret cfg (session_of s) \<noteq> [] then clientCredentials env cfg resource s
            else (Inl ErrAuthorizationRequired, s)) = (g, s1)" by fastforce
  then have "held_token s1 = held_token s"
    by (auto dest: authorizationCode_held clientCredentials_held split: option.splits if_splits)
  then have "can_refresh s1" using assms(2) by (simp add: can_refresh_def)
  then show ?thesis using assms(1) g store_keeps by (cases g) (auto simp: new_grant_def)
qed

lemma renew_keeps:
  assumes "renew env cfg resource s = (r, s')" "can_refresh s"
  shows "can_refresh s'"
proof -
  obtain d s1 where d: "discover env resource s = (d, s1)" by fastforce
  have c: "can_refresh s1" using assms(2) same_held [OF discover_session [OF d]] by (simp add: can_refresh_def)
  then obtain t where t: "os_token (session_of s1) = Some t" "ot_refresh t \<noteq> []" by (auto simp: can_refresh_def held_token_def)
  obtain f s2 where f: "oauth_refresh env cfg resource (ot_refresh t) s1 = (f, s2)" by fastforce
  have c2: "can_refresh s2"
    using c same_held [OF tokenRequest_session [OF f [unfolded oauth_refresh_def]]] by (simp add: can_refresh_def)
  show ?thesis using assms(1) c c2 new_grant_keeps store_keeps
    by (cases d; cases f) (auto simp: renew_def d t f)
qed

datatype ts_op = UseToken | Invalidate

fun ts_apply :: "'w oauth_env \<Rightarrow> 'w oauth_config \<Rightarrow> string \<Rightarrow> ts_op \<Rightarrow> 'w token_source_state \<Rightarrow> 'w token_source_state" where
  "ts_apply env cfg resource UseToken s = snd (Token env cfg resource s)"
| "ts_apply env cfg resource Invalidate s = InvalidateToken s"

lemma loaded_session: "ts_session s \<noteq> None \<Longrightarrow> load_session cfg s = (Inr (), s)"
  by (simp add: load_session_def)

lemma can_refresh_loaded: "can_refresh s \<Longrightarrow> ts_session s \<noteq> None"
  by (cases "ts_session s") (auto simp: can_refresh_def held_token_def session_of_def empty_session_def)

lemma Token_keeps:
  assumes "can_refresh s"
  shows "can_refresh (snd (Token env cfg resource s))"
proof -
  obtain v s1 where v: "in_world (Valid env (os_token (session_of s))) s = (v, s1)" by fastforce
  have "can_refresh s1" using assms same_held [OF in_world_session [OF v]] by (simp add: can_refresh_def)
  then show ?thesis
    using renew_keeps [of env cfg resource s1] loaded_session [OF can_refresh_loaded [OF assms]] v
    by (cases "renew env cfg resource s1") (auto simp: Token_def split: bool.split)
qed

lemma Invalidate_keeps: "can_refresh s \<Longrightarrow> can_refresh (InvalidateToken s)"
  by (auto simp: can_refresh_def held_token_def session_of_def InvalidateToken_def empty_session_def split: option.splits)

text \<open>
  C24. A refresh token is never lost: once the session holds one, it holds one after any sequence
  of requests for a token and rejected tokens, whether they succeed or fail, and although a server
  may leave it out of its answers.
\<close>

theorem refresh_token_kept:
  assumes "can_refresh s"
  shows "can_refresh (fold (ts_apply env cfg resource) ops s)"
  using assms
proof (induction ops arbitrary: s)
  case (Cons op ops)
  then show ?case using Token_keeps [OF Cons.prems] Invalidate_keeps [OF Cons.prems] by (cases op) simp_all
qed simp

section \<open>How long a token is used\<close>

lemma wrap64_small: "- (2 ^ 63) \<le> x \<Longrightarrow> x < 2 ^ 63 \<Longrightarrow> wrap64 x = x"
  by (simp add: wrap64_def signed_take_bit_int_eq_self)

lemma wrap64_above: "2 ^ 63 \<le> x \<Longrightarrow> x < 2 ^ 64 \<Longrightarrow> wrap64 x = x - 2 ^ 64"
proof -
  assume x: "2 ^ 63 \<le> x" "x < 2 ^ 64"
  have "(x + 2 ^ 63) mod 2 ^ 64 = (x + 2 ^ 63 - 2 ^ 64) mod 2 ^ 64" by (rule minus_mod_self2 [symmetric])
  also have "\<dots> = x + 2 ^ 63 - 2 ^ 64" using x by (intro mod_pos_pos_trivial) simp_all
  finally show ?thesis unfolding wrap64_def signed_take_bit_eq_take_bit_shift by (simp add: take_bit_int_def)
qed


section \<open>A session in a store\<close>

definition touches_nothing :: "('w \<Rightarrow> 'a) \<Rightarrow> ('w \<Rightarrow> 'r \<times> 'w) \<Rightarrow> bool" where
  "touches_nothing stored f \<longleftrightarrow> (\<forall>w. stored (snd (f w)) = stored w)"

text \<open>The clock, the network, the random source and the user leave the store alone.\<close>

definition keeps_store :: "('w \<Rightarrow> oauth_session option) \<Rightarrow> 'w oauth_env \<Rightarrow> 'w oauth_config \<Rightarrow> bool" where
  "keeps_store stored env cfg \<longleftrightarrow> touches_nothing stored (oe_now env) \<and> (\<forall>req. touches_nothing stored (oe_http env req)) \<and>
     (\<forall>n. touches_nothing stored (oe_random env n)) \<and>
     (case oc_authorize cfg of None \<Rightarrow> True | Some a \<Rightarrow> (\<forall>u. touches_nothing stored (a u)))"

locale session_store =
  fixes stored :: "'w \<Rightarrow> oauth_session option"
    and load :: "'w \<Rightarrow> (go_error + oauth_session option) \<times> 'w"
    and save :: "oauth_session \<Rightarrow> 'w \<Rightarrow> (go_error + unit) \<times> 'w"
  assumes load_law: "load w = (Inr (stored w), w)"
    and save_ok: "fst (save x w) = Inr ()"
    and save_law: "stored (snd (save x w)) = Some x"

text \<open>A token source over such a store.\<close>

locale stored_source = session_store stored load save
  for stored :: "'w \<Rightarrow> oauth_session option" and load save +
  fixes env :: "'w oauth_env" and cfg :: "'w oauth_config"
  assumes keeps: "keeps_store stored env cfg"
    and cfg_load: "oc_load cfg = load"
    and cfg_save: "oc_save cfg = save"
begin

definition saved :: "'w token_source_state \<Rightarrow> oauth_session" where
  "saved s = (case stored (tw s) of None \<Rightarrow> empty_session | Some x \<Rightarrow> x)"

text \<open>What is in memory is what is stored, unless its access token was dropped since.\<close>

definition in_step :: "'w token_source_state \<Rightarrow> bool" where
  "in_step s \<longleftrightarrow> ts_session s \<noteq> None \<longrightarrow> session_of s = saved s \<or> (\<exists>t. held_token s = Some t \<and> ot_access t = [])"

definition store_same :: "'w token_source_state \<Rightarrow> 'w token_source_state \<Rightarrow> bool" where
  "store_same s s' \<longleftrightarrow> same_session s s' \<and> stored (tw s') = stored (tw s)"

lemma store_same_refl [simp]: "store_same s s"
  by (simp add: store_same_def)

lemma store_same_trans: "store_same s s1 \<Longrightarrow> store_same s1 s2 \<Longrightarrow> store_same s s2"
  by (simp add: store_same_def same_session_def)

lemma store_same_step: "store_same s s' \<Longrightarrow> in_step s \<Longrightarrow> in_step s'"
  by (simp add: store_same_def in_step_def saved_def held_token_def session_of_def same_session_def)

lemma in_world_store: "touches_nothing stored f \<Longrightarrow> in_world f s = (r, s') \<Longrightarrow> store_same s s'"
  by (auto simp: in_world_def store_same_def same_session_def touches_nothing_def split: prod.splits) (metis snd_conv)

lemma http_store: "in_world (oe_http env req) s = (r, s') \<Longrightarrow> store_same s s'"
  by (erule in_world_store [rotated]) (use keeps in \<open>simp add: keeps_store_def\<close>)

lemma now_store: "in_world (oe_now env) s = (r, s') \<Longrightarrow> store_same s s'"
  by (erule in_world_store [rotated]) (use keeps in \<open>simp add: keeps_store_def\<close>)

lemma do_store: "oauth_do env req s = (r, s') \<Longrightarrow> store_same s s'"
  by (auto simp: oauth_do_def dest!: http_store split: prod.splits sum.splits option.splits)

lemma getJSON_store: "getJSON env u dc out s = (x, e, s') \<Longrightarrow> store_same s s'"
  by (auto simp: getJSON_def dest!: http_store split: prod.splits sum.splits option.splits if_splits)

lemma find_issuer_store: "find_issuer env us prm issuer s = (r, s') \<Longrightarrow> store_same s s'"
  by (induction us arbitrary: prm s) (auto dest!: getJSON_store intro: store_same_trans split: prod.splits if_splits)

lemma find_meta_store: "find_meta env us m s = (r, s') \<Longrightarrow> store_same s s'"
  by (induction us arbitrary: m s) (auto dest!: getJSON_store intro: store_same_trans split: prod.splits if_splits)

lemma with_meta_store: "store_same s (s1\<lparr>ts_meta := m\<rparr>) = store_same s s1"
  by (simp add: store_same_def same_session_def)

lemma discover_store: "discover env resource s = (r, s') \<Longrightarrow> store_same s s'"
  by (auto simp: discover_def Let_def with_meta_store dest!: find_issuer_store find_meta_store intro: store_same_trans
      split: prod.splits option.splits if_splits)

lemma random_store: "randomString env n s = (r, s') \<Longrightarrow> store_same s s'"
  using keeps by (auto simp: randomString_def keeps_store_def dest!: in_world_store [rotated] split: prod.splits sum.splits)

lemma tokenRequest_store: "tokenRequest env cfg resource form s = (r, s') \<Longrightarrow> store_same s s'"
  by (auto simp: tokenRequest_def dest!: do_store now_store intro: store_same_trans
      split: prod.splits sum.splits option.splits if_splits)

text \<open>Saving a session puts memory and store in step.\<close>

lemma save_step: "in_world (oc_save cfg x) (s\<lparr>ts_session := Some x\<rparr>) = (r, s') \<Longrightarrow>
    r = Inr () \<and> ts_session s' = Some x \<and> stored (tw s') = Some x"
  using save_ok [of x "tw s"] save_law [of x "tw s"] by (auto simp: in_world_def cfg_save split: prod.splits)

lemma register_step:
  assumes "register env cfg grants s = (r, s')" "in_step s"
  shows "in_step s'"
  using assms
  by (auto simp: register_def Let_def dest!: do_store save_step dest: store_same_step split: prod.splits sum.splits option.splits if_splits)
    (auto simp: in_step_def saved_def session_of_def)

lemma user_store: "oc_authorize cfg = Some a \<Longrightarrow> in_world (a u) s = (r, s') \<Longrightarrow> store_same s s'"
  by (erule in_world_store [rotated]) (use keeps in \<open>simp add: keeps_store_def\<close>)

lemma authorizationCode_step:
  assumes "oc_authorize cfg = Some a" "authorizationCode env cfg resource a s = (r, s')" "in_step s"
  shows "in_step s'"
  using assms
  by (auto simp: authorizationCode_def dest!: register_step random_store user_store [OF assms(1)] tokenRequest_store dest: store_same_step
      split: prod.splits sum.splits option.splits if_splits)

lemma saved_step: "ts_session s = Some x \<Longrightarrow> stored (tw s) = Some x \<Longrightarrow> in_step s"
  by (simp add: in_step_def saved_def session_of_def)

lemma oauth_store_saves:
  assumes "oauth_store cfg tok s = (r, s')"
  shows "\<exists>x. ts_session s' = Some x \<and> stored (tw s') = Some x \<and> (\<exists>t. os_token x = Some t \<and> r = Inr (ot_access t))"
  using assms by (auto simp: oauth_store_def Let_def dest!: save_step split: prod.splits sum.splits)

text \<open>Whoever gets a token from a grant finds it stored.\<close>

definition in_store :: "string \<Rightarrow> 'w token_source_state \<Rightarrow> bool" where
  "in_store a s \<longleftrightarrow> session_of s = saved s \<and> (\<exists>t. held_token s = Some t \<and> ot_access t = a)"

lemma in_store_step: "ts_session s = Some x \<Longrightarrow> stored (tw s) = Some x \<Longrightarrow> os_token x = Some t \<Longrightarrow> in_store (ot_access t) s"
  by (simp add: in_store_def saved_def session_of_def held_token_def)

lemma store_step: "oauth_store cfg tok s = (r, s') \<Longrightarrow> in_step s' \<and> (\<forall>a. r = Inr a \<longrightarrow> in_store a s')"
  using oauth_store_saves [of tok s r s'] saved_step [of s'] in_store_step [of s'] by auto

lemma new_grant_step:
  assumes "new_grant env cfg resource s = (r, s')" "in_step s"
  shows "in_step s' \<and> (\<forall>a. r = Inr a \<longrightarrow> in_store a s')"
proof -
  obtain g s1 where g: "(case oc_authorize cfg of
          Some authorize \<Rightarrow> authorizationCode env cfg resource authorize s
        | None \<Rightarrow> if clientSecret cfg (session_of s) \<noteq> [] then clientCredentials env cfg resource s
            else (Inl ErrAuthorizationRequired, s)) = (g, s1)" by fastforce
  then have "in_step s1" using assms(2)
    by (auto simp: clientCredentials_def dest: authorizationCode_step tokenRequest_store store_same_step split: option.splits if_splits)
  then show ?thesis using assms(1) g store_step by (cases g) (auto simp: new_grant_def)
qed

lemma renew_step:
  assumes "renew env cfg resource s = (r, s')" "in_step s"
  shows "in_step s' \<and> (\<forall>a. r = Inr a \<longrightarrow> in_store a s')"
proof -
  obtain d s1 where d: "discover env resource s = (d, s1)" by fastforce
  have i1: "in_step s1" by (rule store_same_step [OF discover_store [OF d] assms(2)])
  show ?thesis
  proof (cases "\<exists>e. d = Inl e \<or> os_token (session_of s1) = None \<or> ot_refresh (the (os_token (session_of s1))) = []")
    case True
    then show ?thesis using assms(1) i1 new_grant_step [of resource s1 r s']
      by (cases d; cases "os_token (session_of s1)") (auto simp: renew_def d split: if_splits)
  next
    case False
    then obtain t where t: "os_token (session_of s1) = Some t" "ot_refresh t \<noteq> []" by auto
    obtain f s2 where f: "oauth_refresh env cfg resource (ot_refresh t) s1 = (f, s2)" by fastforce
    have "in_step s2" by (rule store_same_step [OF tokenRequest_store [OF f [unfolded oauth_refresh_def]] i1])
    then show ?thesis using assms(1) False new_grant_step [of resource s2 r s'] store_step [of _ s2 r s']
      by (cases d; cases f) (auto simp: renew_def d t f)
  qed
qed

lemma load_step:
  assumes "in_step s"
  shows "\<exists>s1. load_session cfg s = (Inr (), s1) \<and> in_step s1 \<and> ts_session s1 \<noteq> None \<and> (ts_session s = None \<longrightarrow> session_of s1 = saved s)"
  using assms load_law [of "tw s"]
  by (cases "stored (tw s)") (auto simp: load_session_def in_world_def cfg_load in_step_def saved_def session_of_def)

lemma valid_store:
  assumes "in_world (Valid env t) s = (v, s')"
  shows "store_same s s'"
proof (rule in_world_store [OF _ assms])
  have "stored (snd (oe_now env w)) = stored w" for w using keeps by (simp add: keeps_store_def touches_nothing_def)
  then show "touches_nothing stored (Valid env t)"
    by (auto simp: touches_nothing_def Valid_def split: option.split prod.split) (metis snd_conv)
qed

lemma Valid_access: "fst (Valid env t w) \<Longrightarrow> \<exists>x. t = Some x \<and> ot_access x \<noteq> []"
  by (auto simp: Valid_def split: option.splits if_splits)

lemma Token_step:
  assumes "Token env cfg resource s = (r, s')" "in_step s"
  shows "in_step s' \<and> (\<forall>a. r = Inr a \<longrightarrow> in_store a s')"
proof -
  obtain s1 where l: "load_session cfg s = (Inr (), s1)" "in_step s1" "ts_session s1 \<noteq> None"
    using load_step [OF assms(2)] by blast
  obtain v s2 where v: "in_world (Valid env (os_token (session_of s1))) s1 = (v, s2)" by fastforce
  have same: "store_same s1 s2" by (rule valid_store [OF v])
  have i2: "in_step s2" by (rule store_same_step [OF same l(2)])
  show ?thesis
  proof (cases v)
    case False
    then show ?thesis using assms(1) renew_step [OF _ i2] by (simp add: Token_def l(1) v)
  next
    case True
    then have "fst (Valid env (os_token (session_of s1)) (tw s1))" using v by (auto simp: in_world_def split: prod.splits)
    from Valid_access [OF this] obtain t where t: "os_token (session_of s1) = Some t" "ot_access t \<noteq> []" by blast
    have h: "session_of s2 = session_of s1" "ts_session s2 \<noteq> None"
      using same l(3) by (simp_all add: store_same_def same_session_def session_of_def)
    then have "session_of s2 = saved s2" using i2 t by (auto simp: in_step_def held_token_def)
    then have "in_store (ot_access t) s2" using t h by (simp add: in_store_def held_token_def)
    moreover have "(r, s') = (Inr (ot_access t), s2)" using assms(1) v True t h by (simp add: Token_def l(1))
    ultimately show ?thesis using i2 by simp
  qed
qed

lemma Invalidate_step: "in_step s \<Longrightarrow> in_step (InvalidateToken s)"
  by (auto simp: in_step_def InvalidateToken_def held_token_def session_of_def saved_def split: option.splits)

lemma ops_step: "in_step s \<Longrightarrow> in_step (fold (ts_apply env cfg resource) ops s)"
proof (induction ops arbitrary: s)
  case (Cons op ops)
  have "in_step (ts_apply env cfg resource op s)"
    using Token_step [OF _ Cons.prems, of resource] Invalidate_step [OF Cons.prems]
    by (cases op; cases "Token env cfg resource s") auto
  then show ?case using Cons.IH by simp
qed simp

lemma restart:
  assumes "Token env cfg resource (fold (ts_apply env cfg resource) ops (New w)) = (Inr a, s)"
    and "Valid env (held_token s) (tw s) = (True, w')"
  shows "Token env cfg resource (New (tw s)) = (Inr a, \<lparr>tw = w', ts_session = Some (session_of s), ts_meta = None\<rparr>)"
proof -
  have "in_step (New w)" by (simp add: in_step_def New_def)
  then have "in_store a s" using Token_step [OF assms(1) ops_step] by blast
  then obtain t where t: "session_of s = saved s" "held_token s = Some t" "ot_access t = a" unfolding in_store_def by blast
  obtain x where x: "stored (tw s) = Some x"
    using t by (cases "stored (tw s)") (auto simp: saved_def held_token_def empty_session_def)
  have "load_session cfg (New (tw s)) = (Inr (), \<lparr>tw = tw s, ts_session = Some x, ts_meta = None\<rparr>)"
    using load_law [of "tw s"] x by (simp add: load_session_def New_def in_world_def cfg_load)
  moreover have "session_of s = x" using t(1) x by (simp add: saved_def)
  ultimately show ?thesis using assms(2) t by (simp add: Token_def session_of_def in_world_def held_token_def)
qed

end

lemma beside_touches_nothing: "touches_nothing mm_session (beside_store f)"
  by (simp add: touches_nothing_def beside_store_def split: prod.split)

interpretation memory: stored_source mm_session MemoryStore_Load MemoryStore_Save "memory_env env" "New_config cfg" for env cfg
  by unfold_locales (simp_all add: MemoryStore_Load_def MemoryStore_Save_def New_config_def memory_env_def keeps_store_def
      beside_touches_nothing split: option.split)

text \<open>
  C22. A restart neither asks the user nor the server again: after any history of a token source, the
  token it last gave out, while still valid, is what a new one with the same \<open>MemoryStore\<close> gives
  out, and all it does is read the store and the clock.
\<close>

theorem stored_session_restarts:
  assumes "Token (memory_env env) (New_config cfg) resource
      (fold (ts_apply (memory_env env) (New_config cfg) resource) ops (New w)) = (Inr a, s)"
    and "Valid (memory_env env) (held_token s) (tw s) = (True, w')"
  shows "Token (memory_env env) (New_config cfg) resource (New (tw s)) =
    (Inr a, \<lparr>tw = w', ts_session = Some (session_of s), ts_meta = None\<rparr>)"
  by (rule memory.restart [OF assms])

section \<open>Concrete token sources\<close>

text \<open>A server without metadata that grants one token, for \<open>e\<close> seconds.\<close>

definition granting_env :: "int \<Rightarrow> unit oauth_env" where
  "granting_env e = \<lparr>oe_now = (\<lambda>w. (1000, w)),
     oe_http = (\<lambda>req w. (Inr \<lparr>hr_status = 200, hr_body = ''{}'', hr_fail = None, hr_retry_after = 0\<rparr>, w)),
     oe_random = (\<lambda>n w. (Inr [], w)), oe_sha256 = (\<lambda>s. s),
     oe_url = (\<lambda>u. Some \<lparr>pu_scheme = ''https'', pu_host = ''h'', pu_path = []\<rparr>), oe_request = (\<lambda>u. None),
     oe_meta = (\<lambda>raw fail m. (m, None)), oe_servers = (\<lambda>raw fail l. (l, None)),
     oe_grant = (\<lambda>raw. Inr (''at'', ''Bearer'', ''rt'', e)), oe_registration = (\<lambda>raw. Inr (''c'', [])), oe_error = (\<lambda>raw. None)\<rparr>"

definition machine_config :: "unit oauth_config" where
  "machine_config = \<lparr>oc_client_id = ''c'', oc_client_secret = ''s'', oc_client_name = [], oc_redirect = [], oc_scopes = [],
     oc_authorize = None, oc_load = (\<lambda>w. (Inr None, w)), oc_save = (\<lambda>x w. (Inr (), w))\<rparr>"

definition refreshable :: "unit token_source_state" where
  "refreshable = \<lparr>tw = (), ts_session = Some (empty_session\<lparr>os_token :=
     Some \<lparr>ot_access = ''old'', ot_type = [], ot_refresh = ''rt'', ot_expiry = Some 0\<rparr>\<rparr>), ts_meta = None\<rparr>"

theorem refresh_token_kept_witness:
  "can_refresh (fold (ts_apply (granting_env 3600) machine_config ''u'') [UseToken, Invalidate, UseToken] refreshable)"
  by (rule refresh_token_kept) (simp add: refreshable_def can_refresh_def held_token_def session_of_def)


text \<open>The state of that source after its first token.\<close>

definition granted :: "unit stored_world token_source_state" where
  "granted = (let x = empty_session\<lparr>os_token := Some \<lparr>ot_access = ''at'', ot_type = ''Bearer'', ot_refresh = ''rt'', ot_expiry = None\<rparr>\<rparr>
     in \<lparr>tw = \<lparr>mm_session = Some x, mm_rest = ()\<rparr>, ts_session = Some x,
       ts_meta = Some \<lparr>sm_authorization = ''https://h/authorize'', sm_token = ''https://h/token'', sm_registration = ''https://h/register''\<rparr>\<rparr>)"

theorem stored_session_restarts_witness:
  "Token (memory_env (granting_env 0)) (New_config machine_config) ''u'' (New (tw granted)) =
    (Inr ''at'', \<lparr>tw = tw granted, ts_session = Some (session_of granted), ts_meta = None\<rparr>)"
proof (rule stored_session_restarts [where ops = "[]" and w = "\<lparr>mm_session = None, mm_rest = ()\<rparr>"])
  show "Token (memory_env (granting_env 0)) (New_config machine_config) ''u''
      (fold (ts_apply (memory_env (granting_env 0)) (New_config machine_config) ''u'') [] (New \<lparr>mm_session = None, mm_rest = ()\<rparr>)) =
    (Inr ''at'', granted)"
    by (simp add: Token_def New_def load_session_def in_world_def New_config_def MemoryStore_Load_def Valid_def session_of_def
        empty_session_def renew_def discover_def granting_env_def memory_env_def wellKnown_def getJSON_def beside_store_def
        Let_def TrimSuffix_def new_grant_def clientSecret_def machine_config_def clientCredentials_def tokenRequest_def
        oauth_do_def limited_def oauth_store_def MemoryStore_Save_def granted_def meta_of_def no_metadata_def)
  show "Valid (memory_env (granting_env 0)) (held_token granted) (tw granted) = (True, tw granted)"
    by (simp add: Valid_def held_token_def session_of_def granted_def Let_def)
qed

section \<open>Documents that are mixed\<close>

text \<open>
  One variable receives every metadata document: an authorization endpoint of a document without a
  token endpoint is kept, and used with the token endpoint of the next document.
\<close>

lemma mixed_documents:
  assumes "oe_request env u1 = None" "oe_request env u2 = None"
    and "\<And>req w. oq_url req = u1 \<Longrightarrow> oe_http env req w = (Inr (r\<lparr>hr_body := ''one''\<rparr>), w)"
    and "\<And>req w. oq_url req = u2 \<Longrightarrow> oe_http env req w = (Inr (r\<lparr>hr_body := ''two''\<rparr>), w)"
    and "hr_status r = 200"
    and "\<And>fail m. oe_meta env ''one'' fail m = (m\<lparr>sm_authorization := a\<rparr>, None)"
    and "\<And>fail m. oe_meta env ''two'' fail m = (m\<lparr>sm_token := t\<rparr>, None)" "t \<noteq> []"
  shows "find_meta env [u1, u2] no_metadata s = (Some \<lparr>sm_authorization = a, sm_token = t, sm_registration = []\<rparr>, s)"
  using assms by (simp add: getJSON_def in_world_def limited_def no_metadata_def)

lemma redirect_code_state: "redirect_result state q = Inr code \<Longrightarrow> q ''state'' = state \<and> q ''code'' = code \<and> code \<noteq> []"
  by (auto simp: redirect_result_def split: if_splits)

end
