(* ===== verification/A2A_Types.thy ===== *)
theory A2A_Types
  imports Json_Documents
begin

text \<open>
  The types of the A2A protocol (\<open>a2a/types.go\<close>, \<open>errors.go\<close>) and what \<open>encoding/json\<close> makes of them:
  \<open>enc_\<close> functions give the document of a value, fields with \<open>omitempty\<close> left out when empty, and
  \<open>dec_\<close> functions read one, \<open>None\<close> for a document of the wrong shape.
\<close>

section \<open>Types\<close>

record a2a_file =
  fc_name :: string
  fc_uri :: string
  fc_media :: string
  fc_bytes :: string

record a2a_part =
  ap_type :: string
  ap_text :: string
  ap_data :: gomap
  ap_mime :: string
  ap_file :: "a2a_file option"

record a2a_message =
  am_role :: string
  am_parts :: "a2a_part list"
  am_created :: string
  am_refs :: "string list"

record task_status =
  ks_state :: string
  ks_message :: string
  ks_timestamp :: string

record artifact =
  af_id :: string
  af_parts :: "a2a_part list"
  af_metadata :: gomap
  af_created :: string

record task =
  tk_id :: string
  tk_context :: string
  tk_status :: task_status
  tk_messages :: "a2a_message list"
  tk_artifacts :: "artifact list"
  tk_metadata :: gomap
  tk_created :: string
  tk_updated :: string

record status_update =
  su_task :: string
  su_context :: string
  su_status :: task_status

record artifact_update =
  au_task :: string
  au_artifact :: artifact

record send_configuration =
  cf_modes :: "string list"
  cf_history :: "int option"
  cf_blocking :: "bool option"

record send_request =
  sr_message :: a2a_message
  sr_configuration :: "send_configuration option"
  sr_metadata :: gomap

record agent_provider =
  pv_organization :: string
  pv_url :: string

record agent_skill =
  ak_id :: string
  ak_name :: string
  ak_description :: string
  ak_tags :: "string list"
  ak_inputs :: "string list"
  ak_outputs :: "string list"

record agent_card =
  ad_name :: string
  ad_description :: string
  ad_url :: string
  ad_provider :: "agent_provider option"
  ad_version :: string
  ad_streaming :: bool
  ad_push :: bool
  ad_skills :: "agent_skill list"
  ad_schemes :: gomap
  ad_security :: "gomap list"
  ad_inputs :: "string list"
  ad_outputs :: "string list"

definition IsTerminal :: "string \<Rightarrow> bool" where
  "IsTerminal s \<longleftrightarrow> s \<in> {''completed'', ''failed'', ''canceled'', ''rejected''}"

definition NewTextPart :: "string \<Rightarrow> a2a_part" where
  "NewTextPart text = \<lparr>ap_type = ''text'', ap_text = text, ap_data = [], ap_mime = [], ap_file = None\<rparr>"

definition NewDataPart :: "gomap \<Rightarrow> a2a_part" where
  "NewDataPart data = \<lparr>ap_type = ''data'', ap_text = [], ap_data = data, ap_mime = [], ap_file = None\<rparr>"

section \<open>Encoding\<close>

definition enc_file :: "a2a_file \<Rightarrow> json" where
  "enc_file f = JObj (omit_str ''name'' (fc_name f) @ omit_str ''uri'' (fc_uri f) @ omit_str ''media_type'' (fc_media f) @
     omit_str ''bytes'' (fc_bytes f))"

definition enc_part :: "a2a_part \<Rightarrow> json" where
  "enc_part p = JObj ([(''type'', JStr (ap_type p))] @ omit_str ''text'' (ap_text p) @
     omit ''data'' (ap_data p = []) (JObj (ap_data p)) @ omit_str ''mime_type'' (ap_mime p) @
     (case ap_file p of None \<Rightarrow> [] | Some f \<Rightarrow> [(''file'', enc_file f)]))"

definition enc_message :: "a2a_message \<Rightarrow> json" where
  "enc_message m = JObj ([(''role'', JStr (am_role m)), (''parts'', JArr (map enc_part (am_parts m)))] @
     omit_str ''created_at'' (am_created m) @ omit ''reference_task_ids'' (am_refs m = []) (enc_strs (am_refs m)))"

definition enc_status :: "task_status \<Rightarrow> json" where
  "enc_status s = JObj ([(''state'', JStr (ks_state s))] @ omit_str ''message'' (ks_message s) @ omit_str ''timestamp'' (ks_timestamp s))"

definition enc_artifact :: "artifact \<Rightarrow> json" where
  "enc_artifact a = JObj (omit_str ''id'' (af_id a) @ [(''parts'', JArr (map enc_part (af_parts a)))] @
     omit ''metadata'' (af_metadata a = []) (JObj (af_metadata a)) @ omit_str ''created_at'' (af_created a))"

definition enc_task :: "task \<Rightarrow> json" where
  "enc_task t = JObj ([(''id'', JStr (tk_id t))] @ omit_str ''context_id'' (tk_context t) @ [(''status'', enc_status (tk_status t))] @
     omit ''messages'' (tk_messages t = []) (JArr (map enc_message (tk_messages t))) @
     omit ''artifacts'' (tk_artifacts t = []) (JArr (map enc_artifact (tk_artifacts t))) @
     omit ''metadata'' (tk_metadata t = []) (JObj (tk_metadata t)) @
     omit_str ''created_at'' (tk_created t) @ omit_str ''updated_at'' (tk_updated t))"

definition enc_status_update :: "status_update \<Rightarrow> json" where
  "enc_status_update u = JObj ([(''task_id'', JStr (su_task u))] @ omit_str ''context_id'' (su_context u) @
     [(''status'', enc_status (su_status u))])"

definition enc_artifact_update :: "artifact_update \<Rightarrow> json" where
  "enc_artifact_update u = JObj [(''task_id'', JStr (au_task u)), (''artifact'', enc_artifact (au_artifact u))]"

definition enc_configuration :: "send_configuration \<Rightarrow> json" where
  "enc_configuration c = JObj (omit ''acceptedOutputModes'' (cf_modes c = []) (enc_strs (cf_modes c)) @
     (case cf_history c of None \<Rightarrow> [] | Some n \<Rightarrow> [(''historyLength'', JNum (of_int n))]) @
     (case cf_blocking c of None \<Rightarrow> [] | Some b \<Rightarrow> [(''blocking'', JBool b)]))"

definition enc_send :: "send_request \<Rightarrow> json" where
  "enc_send r = JObj ([(''message'', enc_message (sr_message r))] @
     (case sr_configuration r of None \<Rightarrow> [] | Some c \<Rightarrow> [(''configuration'', enc_configuration c)]) @
     omit ''metadata'' (sr_metadata r = []) (JObj (sr_metadata r)))"

definition enc_provider :: "agent_provider \<Rightarrow> json" where
  "enc_provider p = JObj ([(''organization'', JStr (pv_organization p))] @ omit_str ''url'' (pv_url p))"

definition enc_skill :: "agent_skill \<Rightarrow> json" where
  "enc_skill k = JObj ([(''id'', JStr (ak_id k)), (''name'', JStr (ak_name k))] @ omit_str ''description'' (ak_description k) @
     omit ''tags'' (ak_tags k = []) (enc_strs (ak_tags k)) @ omit ''inputModes'' (ak_inputs k = []) (enc_strs (ak_inputs k)) @
     omit ''outputModes'' (ak_outputs k = []) (enc_strs (ak_outputs k)))"

definition enc_card :: "agent_card \<Rightarrow> json" where
  "enc_card c = JObj ([(''name'', JStr (ad_name c)), (''description'', JStr (ad_description c)), (''url'', JStr (ad_url c))] @
     (case ad_provider c of None \<Rightarrow> [] | Some p \<Rightarrow> [(''provider'', enc_provider p)]) @
     [(''version'', JStr (ad_version c)),
      (''capabilities'', JObj [(''streaming'', JBool (ad_streaming c)), (''pushNotifications'', JBool (ad_push c))])] @
     omit ''skills'' (ad_skills c = []) (JArr (map enc_skill (ad_skills c))) @
     omit ''securitySchemes'' (ad_schemes c = []) (JObj (ad_schemes c)) @
     omit ''security'' (ad_security c = []) (JArr (map JObj (ad_security c))) @
     omit ''defaultInputModes'' (ad_inputs c = []) (enc_strs (ad_inputs c)) @
     omit ''defaultOutputModes'' (ad_outputs c = []) (enc_strs (ad_outputs c)))"

section \<open>Decoding\<close>

definition dec_file :: "json \<Rightarrow> a2a_file option" where
  "dec_file = dec_obj (\<lambda>kv. do { n \<leftarrow> dec_str (member ''name'' kv); u \<leftarrow> dec_str (member ''uri'' kv);
     m \<leftarrow> dec_str (member ''media_type'' kv); b \<leftarrow> dec_str (member ''bytes'' kv);
     Some \<lparr>fc_name = n, fc_uri = u, fc_media = m, fc_bytes = b\<rparr> })"

definition dec_part :: "json \<Rightarrow> a2a_part option" where
  "dec_part = dec_obj (\<lambda>kv. do { ty \<leftarrow> dec_str (member ''type'' kv); x \<leftarrow> dec_str (member ''text'' kv);
     d \<leftarrow> dec_map (member ''data'' kv); m \<leftarrow> dec_str (member ''mime_type'' kv); f \<leftarrow> dec_ptr dec_file (member ''file'' kv);
     Some \<lparr>ap_type = ty, ap_text = x, ap_data = d, ap_mime = m, ap_file = f\<rparr> })"

definition dec_message :: "json \<Rightarrow> a2a_message option" where
  "dec_message = dec_obj (\<lambda>kv. do { r \<leftarrow> dec_str (member ''role'' kv); ps \<leftarrow> dec_list dec_part (member ''parts'' kv);
     c \<leftarrow> dec_str (member ''created_at'' kv); rs \<leftarrow> dec_list dec_str (member ''reference_task_ids'' kv);
     Some \<lparr>am_role = r, am_parts = ps, am_created = c, am_refs = rs\<rparr> })"

definition dec_status :: "json \<Rightarrow> task_status option" where
  "dec_status = dec_obj (\<lambda>kv. do { s \<leftarrow> dec_str (member ''state'' kv); m \<leftarrow> dec_str (member ''message'' kv);
     t \<leftarrow> dec_str (member ''timestamp'' kv); Some \<lparr>ks_state = s, ks_message = m, ks_timestamp = t\<rparr> })"

definition dec_artifact :: "json \<Rightarrow> artifact option" where
  "dec_artifact = dec_obj (\<lambda>kv. do { i \<leftarrow> dec_str (member ''id'' kv); ps \<leftarrow> dec_list dec_part (member ''parts'' kv);
     m \<leftarrow> dec_map (member ''metadata'' kv); c \<leftarrow> dec_str (member ''created_at'' kv);
     Some \<lparr>af_id = i, af_parts = ps, af_metadata = m, af_created = c\<rparr> })"

definition dec_task :: "json \<Rightarrow> task option" where
  "dec_task = dec_obj (\<lambda>kv. do { i \<leftarrow> dec_str (member ''id'' kv); x \<leftarrow> dec_str (member ''context_id'' kv);
     s \<leftarrow> dec_status (member ''status'' kv); ms \<leftarrow> dec_list dec_message (member ''messages'' kv);
     as \<leftarrow> dec_list dec_artifact (member ''artifacts'' kv); m \<leftarrow> dec_map (member ''metadata'' kv);
     c \<leftarrow> dec_str (member ''created_at'' kv); u \<leftarrow> dec_str (member ''updated_at'' kv);
     Some \<lparr>tk_id = i, tk_context = x, tk_status = s, tk_messages = ms, tk_artifacts = as, tk_metadata = m,
       tk_created = c, tk_updated = u\<rparr> })"

definition dec_status_update :: "json \<Rightarrow> status_update option" where
  "dec_status_update = dec_obj (\<lambda>kv. do { i \<leftarrow> dec_str (member ''task_id'' kv); x \<leftarrow> dec_str (member ''context_id'' kv);
     s \<leftarrow> dec_status (member ''status'' kv); Some \<lparr>su_task = i, su_context = x, su_status = s\<rparr> })"

definition dec_artifact_update :: "json \<Rightarrow> artifact_update option" where
  "dec_artifact_update = dec_obj (\<lambda>kv. do { i \<leftarrow> dec_str (member ''task_id'' kv); a \<leftarrow> dec_artifact (member ''artifact'' kv);
     Some \<lparr>au_task = i, au_artifact = a\<rparr> })"

definition dec_configuration :: "json \<Rightarrow> send_configuration option" where
  "dec_configuration = dec_obj (\<lambda>kv. do { ms \<leftarrow> dec_list dec_str (member ''acceptedOutputModes'' kv);
     h \<leftarrow> dec_ptr dec_int (member ''historyLength'' kv); b \<leftarrow> dec_ptr dec_bool (member ''blocking'' kv);
     Some \<lparr>cf_modes = ms, cf_history = h, cf_blocking = b\<rparr> })"

definition dec_send :: "json \<Rightarrow> send_request option" where
  "dec_send = dec_obj (\<lambda>kv. do { m \<leftarrow> dec_message (member ''message'' kv); c \<leftarrow> dec_ptr dec_configuration (member ''configuration'' kv);
     md \<leftarrow> dec_map (member ''metadata'' kv); Some \<lparr>sr_message = m, sr_configuration = c, sr_metadata = md\<rparr> })"

definition dec_provider :: "json \<Rightarrow> agent_provider option" where
  "dec_provider = dec_obj (\<lambda>kv. do { n \<leftarrow> dec_str (member ''organization'' kv); u \<leftarrow> dec_str (member ''url'' kv);
     Some \<lparr>pv_organization = n, pv_url = u\<rparr> })"

definition dec_skill :: "json \<Rightarrow> agent_skill option" where
  "dec_skill = dec_obj (\<lambda>kv. do { i \<leftarrow> dec_str (member ''id'' kv); n \<leftarrow> dec_str (member ''name'' kv);
     d \<leftarrow> dec_str (member ''description'' kv); ts \<leftarrow> dec_list dec_str (member ''tags'' kv);
     is \<leftarrow> dec_list dec_str (member ''inputModes'' kv); os \<leftarrow> dec_list dec_str (member ''outputModes'' kv);
     Some \<lparr>ak_id = i, ak_name = n, ak_description = d, ak_tags = ts, ak_inputs = is, ak_outputs = os\<rparr> })"

definition dec_capabilities :: "json \<Rightarrow> (bool \<times> bool) option" where
  "dec_capabilities = dec_obj (\<lambda>kv. do { s \<leftarrow> dec_bool (member ''streaming'' kv); p \<leftarrow> dec_bool (member ''pushNotifications'' kv); Some (s, p) })"

definition dec_card :: "json \<Rightarrow> agent_card option" where
  "dec_card = dec_obj (\<lambda>kv. do { n \<leftarrow> dec_str (member ''name'' kv); d \<leftarrow> dec_str (member ''description'' kv);
     u \<leftarrow> dec_str (member ''url'' kv); p \<leftarrow> dec_ptr dec_provider (member ''provider'' kv);
     v \<leftarrow> dec_str (member ''version'' kv); c \<leftarrow> dec_capabilities (member ''capabilities'' kv);
     ks \<leftarrow> dec_list dec_skill (member ''skills'' kv); ss \<leftarrow> dec_map (member ''securitySchemes'' kv);
     se \<leftarrow> dec_list dec_map (member ''security'' kv); is \<leftarrow> dec_list dec_str (member ''defaultInputModes'' kv);
     os \<leftarrow> dec_list dec_str (member ''defaultOutputModes'' kv);
     Some \<lparr>ad_name = n, ad_description = d, ad_url = u, ad_provider = p, ad_version = v, ad_streaming = fst c, ad_push = snd c,
       ad_skills = ks, ad_schemes = ss, ad_security = se, ad_inputs = is, ad_outputs = os\<rparr> })"

section \<open>What is encoded is decoded\<close>

lemma ToLower_names [simp]:
  "ToLower ''acceptedOutputModes'' = ''acceptedoutputmodes''"
  "ToLower ''artifact'' = ''artifact''"
  "ToLower ''artifacts'' = ''artifacts''"
  "ToLower ''blocking'' = ''blocking''"
  "ToLower ''bytes'' = ''bytes''"
  "ToLower ''capabilities'' = ''capabilities''"
  "ToLower ''configuration'' = ''configuration''"
  "ToLower ''context_id'' = ''context_id''"
  "ToLower ''created_at'' = ''created_at''"
  "ToLower ''data'' = ''data''"
  "ToLower ''defaultInputModes'' = ''defaultinputmodes''"
  "ToLower ''defaultOutputModes'' = ''defaultoutputmodes''"
  "ToLower ''description'' = ''description''"
  "ToLower ''file'' = ''file''"
  "ToLower ''historyLength'' = ''historylength''"
  "ToLower ''id'' = ''id''"
  "ToLower ''inputModes'' = ''inputmodes''"
  "ToLower ''media_type'' = ''media_type''"
  "ToLower ''message'' = ''message''"
  "ToLower ''messages'' = ''messages''"
  "ToLower ''metadata'' = ''metadata''"
  "ToLower ''mime_type'' = ''mime_type''"
  "ToLower ''name'' = ''name''"
  "ToLower ''organization'' = ''organization''"
  "ToLower ''outputModes'' = ''outputmodes''"
  "ToLower ''parts'' = ''parts''"
  "ToLower ''provider'' = ''provider''"
  "ToLower ''pushNotifications'' = ''pushnotifications''"
  "ToLower ''reference_task_ids'' = ''reference_task_ids''"
  "ToLower ''role'' = ''role''"
  "ToLower ''security'' = ''security''"
  "ToLower ''securitySchemes'' = ''securityschemes''"
  "ToLower ''skills'' = ''skills''"
  "ToLower ''state'' = ''state''"
  "ToLower ''status'' = ''status''"
  "ToLower ''streaming'' = ''streaming''"
  "ToLower ''tags'' = ''tags''"
  "ToLower ''task_id'' = ''task_id''"
  "ToLower ''text'' = ''text''"
  "ToLower ''timestamp'' = ''timestamp''"
  "ToLower ''type'' = ''type''"
  "ToLower ''updated_at'' = ''updated_at''"
  "ToLower ''uri'' = ''uri''"
  "ToLower ''url'' = ''url''"
  "ToLower ''version'' = ''version''"
  by (simp_all add: ToLower_def ascii_lower_def) (simp_all add: char_of_def bit_Suc_0_iff)

lemma file_round_trip: "dec_file (enc_file f) = Some f"
  by (simp add: dec_file_def enc_file_def documents)

lemma enc_not_null [simp]: "enc_file f \<noteq> JNull" "enc_part p \<noteq> JNull" "enc_message m \<noteq> JNull" "enc_status s \<noteq> JNull"
  "enc_artifact a \<noteq> JNull" "enc_task t \<noteq> JNull" "enc_configuration c \<noteq> JNull"
  by (simp_all add: enc_file_def enc_part_def enc_message_def enc_status_def enc_artifact_def enc_task_def enc_configuration_def)

lemma part_round_trip: "dec_part (enc_part p) = Some p"
  by (simp add: dec_part_def enc_part_def documents file_round_trip split: option.split)

lemma message_round_trip: "dec_message (enc_message m) = Some m"
  by (simp add: dec_message_def enc_message_def documents dec_all_map part_round_trip)

lemma status_round_trip: "dec_status (enc_status s) = Some s"
  by (simp add: dec_status_def enc_status_def documents)

lemma artifact_round_trip: "dec_artifact (enc_artifact a) = Some a"
  by (simp add: dec_artifact_def enc_artifact_def documents dec_all_map part_round_trip)

lemma task_round_trip: "dec_task (enc_task t) = Some t"
  by (simp add: dec_task_def enc_task_def documents dec_all_map message_round_trip artifact_round_trip status_round_trip)

lemma status_update_round_trip: "dec_status_update (enc_status_update u) = Some u"
  by (simp add: dec_status_update_def enc_status_update_def documents status_round_trip)

lemma artifact_update_round_trip: "dec_artifact_update (enc_artifact_update u) = Some u"
  by (simp add: dec_artifact_update_def enc_artifact_update_def documents artifact_round_trip)

lemma configuration_round_trip: "dec_configuration (enc_configuration c) = Some c"
  by (simp add: dec_configuration_def enc_configuration_def documents dec_all_map split: option.split)

lemma send_round_trip: "dec_send (enc_send r) = Some r"
  by (simp add: dec_send_def enc_send_def documents message_round_trip configuration_round_trip split: option.split)

lemma provider_round_trip: "dec_provider (enc_provider p) = Some p"
  by (simp add: dec_provider_def enc_provider_def documents)

lemma skill_round_trip: "dec_skill (enc_skill k) = Some k"
  by (simp add: dec_skill_def enc_skill_def documents dec_all_map)

lemma enc_provider_not_null [simp]: "enc_provider p \<noteq> JNull"
  by (simp add: enc_provider_def)

lemma card_round_trip: "dec_card (enc_card c) = Some c"
  by (cases "ad_provider c")
    (simp_all add: dec_card_def enc_card_def documents dec_capabilities_def dec_all_map skill_round_trip provider_round_trip)

end
