(* ===== verification/A2A.thy ===== *)
theory A2A
  imports A2A_Types Wire_Framing Transport
begin

text \<open>
  The A2A server (\<open>a2a/server.go\<close>) and client (\<open>a2a/client.go\<close>).

  The handler of an application is a parameter: its operations act on the world and answer with a
  task or an error; the events of a stream are the list it sends before it closes the channel. A
  client's network is \<open>ae_http\<close>; JSON text is read and written by \<open>ae_parse\<close> and \<open>ae_show\<close>, and
  \<open>ae_mismatch\<close> is the error of a document of the wrong shape.
\<close>

section \<open>Errors\<close>

datatype a2a_error = A2AErr int string | OtherErr go_error

definition ErrCodeParseError :: int where "ErrCodeParseError = -32700"
definition ErrCodeInvalidRequest :: int where "ErrCodeInvalidRequest = -32600"
definition ErrCodeMethodNotFound :: int where "ErrCodeMethodNotFound = -32601"
definition ErrCodeInvalidParams :: int where "ErrCodeInvalidParams = -32602"
definition ErrCodeInternalError :: int where "ErrCodeInternalError = -32603"

fun a2a_error_text :: "a2a_error \<Rightarrow> string" where
  "a2a_error_text (A2AErr code msg) = ''a2a error '' @ int_dec code @ '': '' @ msg"
| "a2a_error_text (OtherErr e) = error_text e"

section \<open>Requests and responses\<close>

record rpc_request =
  rq_version :: string
  rq_method :: string
  rq_params :: "json option"
  rq_id :: json

record a2a_response =
  ar_result :: json
  ar_error :: "(int \<times> string) option"
  ar_id :: json

definition enc_request :: "rpc_request \<Rightarrow> json" where
  "enc_request r = JObj ([(''jsonrpc'', JStr (rq_version r)), (''method'', JStr (rq_method r))] @
     (case rq_params r of None \<Rightarrow> [] | Some p \<Rightarrow> [(''params'', p)]) @ [(''id'', rq_id r)])"

definition dec_request :: "json \<Rightarrow> rpc_request option" where
  "dec_request = dec_obj (\<lambda>kv. do { v \<leftarrow> dec_str (member ''jsonrpc'' kv); m \<leftarrow> dec_str (member ''method'' kv);
     Some \<lparr>rq_version = v, rq_method = m, rq_params = raw_member ''params'' kv, rq_id = member ''id'' kv\<rparr> })"

definition enc_rpc_error :: "int \<times> string \<Rightarrow> json" where
  "enc_rpc_error e = JObj [(''code'', JNum (of_int (fst e))), (''message'', JStr (snd e))]"

definition dec_rpc_error :: "json \<Rightarrow> (int \<times> string) option" where
  "dec_rpc_error = dec_obj (\<lambda>kv. do { c \<leftarrow> dec_int (member ''code'' kv); m \<leftarrow> dec_str (member ''message'' kv); Some (c, m) })"

definition enc_response :: "a2a_response \<Rightarrow> json" where
  "enc_response r = JObj ([(''jsonrpc'', JStr ''2.0'')] @ omit ''result'' (ar_result r = JNull) (ar_result r) @
     (case ar_error r of None \<Rightarrow> [] | Some e \<Rightarrow> [(''error'', enc_rpc_error e)]) @ [(''id'', ar_id r)])"

definition dec_response :: "json \<Rightarrow> a2a_response option" where
  "dec_response = dec_obj (\<lambda>kv. do { _ \<leftarrow> dec_str (member ''jsonrpc'' kv); e \<leftarrow> dec_ptr dec_rpc_error (member ''error'' kv);
     Some \<lparr>ar_result = member ''result'' kv, ar_error = e, ar_id = member ''id'' kv\<rparr> })"

definition enc_get :: "string \<Rightarrow> json" where
  "enc_get i = JObj [(''id'', JStr i)]"

text \<open>The parameters of \<open>tasks/get\<close> and \<open>tasks/cancel\<close>; a history length is checked and dropped.\<close>

definition dec_get :: "json \<Rightarrow> string option" where
  "dec_get = dec_obj (\<lambda>kv. do { i \<leftarrow> dec_str (member ''id'' kv); _ \<leftarrow> dec_ptr dec_int (member ''historyLength'' kv); Some i })"

definition dec_cancel :: "json \<Rightarrow> string option" where
  "dec_cancel = dec_obj (\<lambda>kv. dec_str (member ''id'' kv))"

section \<open>The server\<close>

datatype a2a_event =
    StatusEvent status_update
  | ArtifactEvent artifact_update
  | TaskEvent task
  | ErrorEvent a2a_error
  | UnknownEvent

record 'w task_handler =
  th_message :: "send_request \<Rightarrow> 'w \<Rightarrow> (a2a_error + task) \<times> 'w"
  th_stream :: "send_request \<Rightarrow> 'w \<Rightarrow> a2a_event list \<times> 'w"
  th_get :: "string \<Rightarrow> 'w \<Rightarrow> (a2a_error + task) \<times> 'w"
  th_cancel :: "string \<Rightarrow> 'w \<Rightarrow> (a2a_error + task) \<times> 'w"

record a2a_http_request =
  hq_method :: string
  hq_path :: string
  hq_headers :: "(string \<times> string) list"
  hq_body :: string
  hq_fail :: "go_error option"

record a2a_codec =
  ae_parse :: "string \<Rightarrow> go_error + json"
  ae_show :: "json \<Rightarrow> string"
  ae_mismatch :: "json \<Rightarrow> go_error"

definition ok_reply :: "string \<Rightarrow> http_reply" where
  "ok_reply body = \<lparr>hr_status = 200, hr_body = body, hr_fail = None, hr_retry_after = 0\<rparr>"

text \<open>An encoder ends each document with a newline.\<close>

definition writeJSONRPCResult :: "a2a_codec \<Rightarrow> json \<Rightarrow> json \<Rightarrow> http_reply" where
  "writeJSONRPCResult cd i result = ok_reply (ae_show cd (enc_response \<lparr>ar_result = result, ar_error = None, ar_id = i\<rparr>) @ [CHR 0x0A])"

definition writeJSONRPCError :: "a2a_codec \<Rightarrow> json \<Rightarrow> int \<Rightarrow> string \<Rightarrow> http_reply" where
  "writeJSONRPCError cd i code msg =
     ok_reply (ae_show cd (enc_response \<lparr>ar_result = JNull, ar_error = Some (code, msg), ar_id = i\<rparr>) @ [CHR 0x0A])"

definition writeError :: "a2a_codec \<Rightarrow> json \<Rightarrow> a2a_error \<Rightarrow> http_reply" where
  "writeError cd i e = (case e of A2AErr code msg \<Rightarrow> writeJSONRPCError cd i code msg
     | OtherErr err \<Rightarrow> writeJSONRPCError cd i ErrCodeInternalError (error_text err))"

definition unmarshal_params :: "(json \<Rightarrow> 'a option) \<Rightarrow> rpc_request \<Rightarrow> 'a option" where
  "unmarshal_params dec req = (case rq_params req of None \<Rightarrow> None | Some p \<Rightarrow> dec p)"

definition write_task :: "a2a_codec \<Rightarrow> json \<Rightarrow> a2a_error + task \<Rightarrow> http_reply" where
  "write_task cd i r = (case r of Inl e \<Rightarrow> writeError cd i e | Inr t \<Rightarrow> writeJSONRPCResult cd i (enc_task t))"

definition handleSendMessage :: "a2a_codec \<Rightarrow> 'w task_handler \<Rightarrow> rpc_request \<Rightarrow> 'w \<Rightarrow> http_reply \<times> 'w" where
  "handleSendMessage cd h req w =
     (case unmarshal_params dec_send req of
        None \<Rightarrow> (writeJSONRPCError cd (rq_id req) ErrCodeInvalidParams ''invalid params'', w)
      | Some p \<Rightarrow> (case th_message h p w of (r, w') \<Rightarrow> (write_task cd (rq_id req) r, w')))"

definition sse_frame :: "string \<Rightarrow> string" where
  "sse_frame data = ''data: '' @ data @ [CHR 0x0A, CHR 0x0A]"

definition event_response :: "json \<Rightarrow> a2a_event \<Rightarrow> a2a_response" where
  "event_response i ev =
     (case ev of
        StatusEvent u \<Rightarrow> \<lparr>ar_result = enc_status_update u, ar_error = None, ar_id = i\<rparr>
      | ArtifactEvent u \<Rightarrow> \<lparr>ar_result = enc_artifact_update u, ar_error = None, ar_id = i\<rparr>
      | TaskEvent t \<Rightarrow> \<lparr>ar_result = enc_task t, ar_error = None, ar_id = i\<rparr>
      | ErrorEvent e \<Rightarrow> \<lparr>ar_result = JNull, ar_error = Some (ErrCodeInternalError, a2a_error_text e), ar_id = i\<rparr>
      | UnknownEvent \<Rightarrow> \<lparr>ar_result = JNull, ar_error = None, ar_id = i\<rparr>)"

definition stream_body :: "a2a_codec \<Rightarrow> json \<Rightarrow> a2a_event list \<Rightarrow> string" where
  "stream_body cd i evs = concat (map (\<lambda>ev. sse_frame (ae_show cd (enc_response (event_response i ev)))) evs) @ sse_frame ''[DONE]''"

text \<open>The writer of \<open>net/http\<close> can flush.\<close>

definition handleStreamMessage :: "a2a_codec \<Rightarrow> 'w task_handler \<Rightarrow> rpc_request \<Rightarrow> 'w \<Rightarrow> http_reply \<times> 'w" where
  "handleStreamMessage cd h req w =
     (case unmarshal_params dec_send req of
        None \<Rightarrow> (writeJSONRPCError cd (rq_id req) ErrCodeInvalidParams ''invalid params'', w)
      | Some p \<Rightarrow> (case th_stream h p w of (evs, w') \<Rightarrow> (ok_reply (stream_body cd (rq_id req) evs), w')))"

definition handleGetTask :: "a2a_codec \<Rightarrow> 'w task_handler \<Rightarrow> rpc_request \<Rightarrow> 'w \<Rightarrow> http_reply \<times> 'w" where
  "handleGetTask cd h req w =
     (case unmarshal_params dec_get req of
        None \<Rightarrow> (writeJSONRPCError cd (rq_id req) ErrCodeInvalidParams ''invalid params'', w)
      | Some i \<Rightarrow> (case th_get h i w of (r, w') \<Rightarrow> (write_task cd (rq_id req) r, w')))"

definition handleCancelTask :: "a2a_codec \<Rightarrow> 'w task_handler \<Rightarrow> rpc_request \<Rightarrow> 'w \<Rightarrow> http_reply \<times> 'w" where
  "handleCancelTask cd h req w =
     (case unmarshal_params dec_cancel req of
        None \<Rightarrow> (writeJSONRPCError cd (rq_id req) ErrCodeInvalidParams ''invalid params'', w)
      | Some i \<Rightarrow> (case th_cancel h i w of (r, w') \<Rightarrow> (write_task cd (rq_id req) r, w')))"

definition a2a_dispatch :: "a2a_codec \<Rightarrow> 'w task_handler \<Rightarrow> a2a_http_request \<Rightarrow> 'w \<Rightarrow> http_reply \<times> 'w" where
  "a2a_dispatch cd h r w =
     (if hq_fail r \<noteq> None then (writeJSONRPCError cd JNull ErrCodeParseError ''failed to read request'', w)
      else case ae_parse cd (hq_body r) of
          Inl _ \<Rightarrow> (writeJSONRPCError cd JNull ErrCodeParseError ''invalid JSON'', w)
        | Inr j \<Rightarrow>
            (case dec_request j of
               None \<Rightarrow> (writeJSONRPCError cd JNull ErrCodeParseError ''invalid JSON'', w)
             | Some req \<Rightarrow>
                 if rq_version req \<noteq> ''2.0'' then (writeJSONRPCError cd (rq_id req) ErrCodeInvalidRequest ''jsonrpc must be 2.0'', w)
                 else if rq_method req = ''message/send'' then handleSendMessage cd h req w
                 else if rq_method req = ''message/stream'' then handleStreamMessage cd h req w
                 else if rq_method req = ''tasks/get'' then handleGetTask cd h req w
                 else if rq_method req = ''tasks/cancel'' then handleCancelTask cd h req w
                 else (writeJSONRPCError cd (rq_id req) ErrCodeMethodNotFound (''unknown method: '' @ rq_method req), w)))"

definition isAgentCardPath :: "string \<Rightarrow> bool" where
  "isAgentCardPath path \<longleftrightarrow> path = ''/agent-card.json'' \<or> length path > 16 \<and> drop (length path - 16) path = ''/agent-card.json''"

definition ServeHTTP :: "a2a_codec \<Rightarrow> agent_card \<Rightarrow> 'w task_handler \<Rightarrow> a2a_http_request \<Rightarrow> 'w \<Rightarrow> http_reply \<times> 'w" where
  "ServeHTTP cd acard h r w =
     (if hq_method r = ''GET'' \<and> isAgentCardPath (hq_path r) then (ok_reply (ae_show cd (enc_card acard) @ [CHR 0x0A]), w)
      else if hq_method r = ''POST'' then a2a_dispatch cd h r w
      else (\<lparr>hr_status = 405, hr_body = ''method not allowed'' @ [CHR 0x0A], hr_fail = None, hr_retry_after = 0\<rparr>, w))"

section \<open>The client\<close>

record 'w a2a_client =
  cl_url :: string
  cl_headers :: "(string \<times> string) list"
  cl_codec :: a2a_codec
  cl_request :: "string \<Rightarrow> go_error option"
  cl_http :: "a2a_http_request \<Rightarrow> 'w \<Rightarrow> (go_error + http_reply) \<times> 'w"

definition a2a_WithBearerToken :: "string \<Rightarrow> 'w a2a_client \<Rightarrow> 'w a2a_client" where
  "a2a_WithBearerToken token c = c\<lparr>cl_headers := AList.update ''Authorization'' (''Bearer '' @ token) (cl_headers c)\<rparr>"

definition a2a_WithAPIKey :: "string \<Rightarrow> 'w a2a_client \<Rightarrow> 'w a2a_client" where
  "a2a_WithAPIKey key c = c\<lparr>cl_headers := AList.update ''X-API-Key'' key (cl_headers c)\<rparr>"

definition a2a_NewClient :: "a2a_codec \<Rightarrow> (string \<Rightarrow> go_error option) \<Rightarrow> (a2a_http_request \<Rightarrow> 'w \<Rightarrow> (go_error + http_reply) \<times> 'w)
    \<Rightarrow> string \<Rightarrow> ('w a2a_client \<Rightarrow> 'w a2a_client) list \<Rightarrow> 'w a2a_client" where
  "a2a_NewClient cd request http baseURL opts = foldl (\<lambda>c opt. opt c)
     \<lparr>cl_url = rev (dropWhile (\<lambda>x. x = CHR ''/'') (rev baseURL)), cl_headers = [(''Content-Type'', ''application/json'')],
      cl_codec = cd, cl_request = request, cl_http = http\<rparr> opts"

definition rpc_body :: "a2a_codec \<Rightarrow> string \<Rightarrow> json \<Rightarrow> string" where
  "rpc_body cd meth params = ae_show cd (enc_request \<lparr>rq_version = ''2.0'', rq_method = meth, rq_params = Some params, rq_id = JNum 1\<rparr>)"

definition client_post :: "'w a2a_client \<Rightarrow> (string \<times> string) list \<Rightarrow> string \<Rightarrow> string \<Rightarrow> 'w \<Rightarrow> (go_error + http_reply) \<times> 'w" where
  "client_post c headers body failure w =
     (case cl_request c (cl_url c) of
        Some e \<Rightarrow> (Inl (Errorf ''a2a: failed to create request: %w'' [FWrap e]), w)
      | None \<Rightarrow>
          (case cl_http c \<lparr>hq_method = ''POST'', hq_path = cl_url c, hq_headers = headers, hq_body = body, hq_fail = None\<rparr> w of
             (Inl e, w') \<Rightarrow> (Inl (Errorf failure [FWrap e]), w')
           | (Inr r, w') \<Rightarrow> (Inr r, w')))"

definition unmarshal :: "a2a_codec \<Rightarrow> (json \<Rightarrow> 'a option) \<Rightarrow> string \<Rightarrow> go_error + 'a" where
  "unmarshal cd dec s = (case ae_parse cd s of Inl e \<Rightarrow> Inl e
     | Inr j \<Rightarrow> (case dec j of None \<Rightarrow> Inl (ae_mismatch cd j) | Some x \<Rightarrow> Inr x))"

definition client_call :: "'w a2a_client \<Rightarrow> string \<Rightarrow> json \<Rightarrow> 'w \<Rightarrow> (a2a_error + json) \<times> 'w" where
  "client_call c meth params w =
     (case client_post c (cl_headers c) (rpc_body (cl_codec c) meth params) ''a2a: request failed: %w'' w of
        (Inl e, w') \<Rightarrow> (Inl (OtherErr e), w')
      | (Inr r, w') \<Rightarrow>
          ((case hr_fail r of
              Some e \<Rightarrow> Inl (OtherErr (Errorf ''a2a: failed to read response: %w'' [FWrap e]))
            | None \<Rightarrow>
                if hr_status r \<noteq> 200 then
                  Inl (OtherErr (Errorf ''a2a: server returned status %d: %s'' [FInt (hr_status r), FStr (hr_body r)]))
                else (case unmarshal (cl_codec c) dec_response (hr_body r) of
                    Inl e \<Rightarrow> Inl (OtherErr (Errorf ''a2a: failed to parse response: %w'' [FWrap e]))
                  | Inr resp \<Rightarrow>
                      (case ar_error resp of
                         Some (code, msg) \<Rightarrow> Inl (A2AErr code msg)
                       | None \<Rightarrow> Inr (ar_result resp)))), w'))"

definition task_of :: "a2a_codec \<Rightarrow> (a2a_error + json) \<times> 'w \<Rightarrow> (a2a_error + task) \<times> 'w" where
  "task_of cd r = (case r of
     (Inl e, w) \<Rightarrow> (Inl e, w)
   | (Inr j, w) \<Rightarrow> ((case dec_task j of
         None \<Rightarrow> Inl (OtherErr (Errorf ''a2a: failed to parse task: %w'' [FWrap (ae_mismatch cd j)]))
       | Some t \<Rightarrow> Inr t), w))"

definition SendMessage :: "'w a2a_client \<Rightarrow> send_request \<Rightarrow> 'w \<Rightarrow> (a2a_error + task) \<times> 'w" where
  "SendMessage c req w = task_of (cl_codec c) (client_call c ''message/send'' (enc_send req) w)"

definition GetTask :: "'w a2a_client \<Rightarrow> string \<Rightarrow> 'w \<Rightarrow> (a2a_error + task) \<times> 'w" where
  "GetTask c i w = task_of (cl_codec c) (client_call c ''tasks/get'' (enc_get i) w)"

definition CancelTask :: "'w a2a_client \<Rightarrow> string \<Rightarrow> 'w \<Rightarrow> (a2a_error + task) \<times> 'w" where
  "CancelTask c i w = task_of (cl_codec c) (client_call c ''tasks/cancel'' (enc_get i) w)"

text \<open>The decoder of \<open>GetAgentCard\<close> reads the first document of the body.\<close>

definition GetAgentCard :: "'w a2a_client \<Rightarrow> 'w \<Rightarrow> (go_error + agent_card) \<times> 'w" where
  "GetAgentCard c w =
     (case cl_request c (cl_url c @ ''/agent-card.json'') of
        Some e \<Rightarrow> (Inl (Errorf ''a2a: failed to create request: %w'' [FWrap e]), w)
      | None \<Rightarrow>
          (case cl_http c \<lparr>hq_method = ''GET'', hq_path = cl_url c @ ''/agent-card.json'', hq_headers = cl_headers c, hq_body = [], hq_fail = None\<rparr> w of
             (Inl e, w') \<Rightarrow> (Inl (Errorf ''a2a: agent card request failed: %w'' [FWrap e]), w')
           | (Inr r, w') \<Rightarrow>
               ((if hr_status r \<noteq> 200 then Inl (Errorf ''a2a: agent card returned status %d'' [FInt (hr_status r)])
                 else case unmarshal (cl_codec c) dec_card (hr_body r) of
                     Inl e \<Rightarrow> Inl (Errorf ''a2a: failed to parse agent card: %w'' [FWrap e])
                   | Inr a \<Rightarrow> Inr a), w')))"

text \<open>The event a result stands for; a result that is no object, or of no known kind, is skipped.\<close>

definition probe_event :: "json \<Rightarrow> a2a_event list" where
  "probe_event j =
     (let has = (\<lambda>k. case j of JObj kvs \<Rightarrow> map_of kvs k \<noteq> None | _ \<Rightarrow> False) in
      if has ''artifact'' then (case dec_artifact_update j of Some u \<Rightarrow> [ArtifactEvent u] | None \<Rightarrow> [])
      else if has ''status'' then
        (if has ''messages'' then (case dec_task j of Some t \<Rightarrow> [TaskEvent t] | None \<Rightarrow> [])
         else (case dec_status_update j of Some u \<Rightarrow> [StatusEvent u] | None \<Rightarrow> []))
      else [])"

text \<open>The events \<open>readStream\<close> sends; the channel is closed at the end.\<close>

function a2a_readStream :: "a2a_codec \<Rightarrow> scanner \<Rightarrow> a2a_event list" where
  "a2a_readStream cd sc =
     (case sse_Next sc of
        (None, sc') \<Rightarrow> []
      | (Some ev, sc') \<Rightarrow>
          if se_data ev = ''[DONE]'' then []
          else case unmarshal cd dec_response (se_data ev) of
              Inl e \<Rightarrow> [ErrorEvent (OtherErr (Errorf ''a2a: failed to parse stream event: %w'' [FWrap e]))]
            | Inr resp \<Rightarrow>
                (case ar_error resp of
                   Some (code, msg) \<Rightarrow> [ErrorEvent (A2AErr code msg)]
                 | None \<Rightarrow> probe_event (ar_result resp) @ a2a_readStream cd sc'))"
  by pat_completeness auto
termination
  by (relation "measure (\<lambda>(_, sc). length (sc_rest sc))") (auto dest: sse_Next_shrinks [OF sym])

declare a2a_readStream.simps [simp del]

definition StreamMessage :: "'w a2a_client \<Rightarrow> send_request \<Rightarrow> 'w \<Rightarrow> (go_error + a2a_event list) \<times> 'w" where
  "StreamMessage c req w =
     (case client_post c (AList.update ''Accept'' ''text/event-stream'' (cl_headers c))
         (rpc_body (cl_codec c) ''message/stream'' (enc_send req)) ''a2a: stream request failed: %w'' w of
        (Inl e, w') \<Rightarrow> (Inl e, w')
      | (Inr r, w') \<Rightarrow>
          (if hr_status r \<noteq> 200 then Inl (Errorf ''a2a: stream returned status %d'' [FInt (hr_status r)])
           else Inr (a2a_readStream (cl_codec c) (NewReader (hr_body r) (hr_fail r))), w'))"

end
