(* ===== verification/A2A_Properties.thy ===== *)
theory A2A_Properties
  imports A2A
begin

text \<open>
  Client and server together: a call over the wire is the handler's own answer, and a stream is
  delivered event by event, up to what the wire format loses.
\<close>

section \<open>Documents on the wire\<close>

text \<open>The JSON text of a document is read back, also with the newline an encoder adds.\<close>

definition reads_back :: "a2a_codec \<Rightarrow> json \<Rightarrow> bool" where
  "reads_back cd j \<longleftrightarrow> ae_parse cd (ae_show cd j) = Inr j \<and> ae_parse cd (ae_show cd j @ [CHR 0x0A]) = Inr j"

lemma ToLower_wire [simp]:
  "ToLower ''jsonrpc'' = ''jsonrpc''" "ToLower ''method'' = ''method''" "ToLower ''params'' = ''params''" "ToLower ''result'' = ''result''"
  "ToLower ''error'' = ''error''" "ToLower ''code'' = ''code''" "ToLower ''message'' = ''message''"
  by (simp_all add: ToLower_def ascii_lower_def)

lemma rpc_error_round_trip: "dec_rpc_error (enc_rpc_error e) = Some e"
  by (simp add: dec_rpc_error_def enc_rpc_error_def documents)

lemma enc_rpc_error_not_null [simp]: "enc_rpc_error e \<noteq> JNull"
  by (simp add: enc_rpc_error_def)

lemma response_round_trip: "dec_response (enc_response r) = Some r"
  by (cases "ar_error r") (simp_all add: dec_response_def enc_response_def documents rpc_error_round_trip)

lemma request_round_trip: "dec_request (enc_request r) = Some r"
  by (cases "rq_params r") (simp_all add: dec_request_def enc_request_def documents raw_member_Cons raw_member_append)

lemma get_round_trip: "dec_get (enc_get i) = Some i" "dec_cancel (enc_get i) = Some i"
  by (simp_all add: dec_get_def dec_cancel_def enc_get_def documents)

section \<open>A call\<close>

text \<open>What a client sees of a handler's answer.\<close>

fun remote :: "a2a_error + task \<Rightarrow> a2a_error + task" where
  "remote (Inr t) = Inr t"
| "remote (Inl (A2AErr code msg)) = Inl (A2AErr code msg)"
| "remote (Inl (OtherErr e)) = Inl (A2AErr ErrCodeInternalError (error_text e))"

definition answer_document :: "a2a_error + task \<Rightarrow> json" where
  "answer_document r = enc_response (case r of
     Inr t \<Rightarrow> \<lparr>ar_result = enc_task t, ar_error = None, ar_id = JNum 1\<rparr>
   | Inl (A2AErr code msg) \<Rightarrow> \<lparr>ar_result = JNull, ar_error = Some (code, msg), ar_id = JNum 1\<rparr>
   | Inl (OtherErr e) \<Rightarrow> \<lparr>ar_result = JNull, ar_error = Some (ErrCodeInternalError, error_text e), ar_id = JNum 1\<rparr>)"

lemma write_task_body: "write_task cd (JNum 1) r = ok_reply (ae_show cd (answer_document r) @ [CHR 0x0A])"
  by (cases r) (auto simp: write_task_def writeJSONRPCResult_def writeError_def writeJSONRPCError_def answer_document_def split: a2a_error.split)

text \<open>A client whose network is the server.\<close>

definition connected :: "'w a2a_client \<Rightarrow> agent_card \<Rightarrow> 'w task_handler \<Rightarrow> bool" where
  "connected c acard h \<longleftrightarrow> cl_request c (cl_url c) = None \<and>
     cl_http c = (\<lambda>r w. case ServeHTTP (cl_codec c) acard h r w of (reply, w') \<Rightarrow> (Inr reply, w'))"

definition request_document :: "string \<Rightarrow> json \<Rightarrow> json" where
  "request_document meth params = enc_request \<lparr>rq_version = ''2.0'', rq_method = meth, rq_params = Some params, rq_id = JNum 1\<rparr>"

lemma served:
  assumes "connected c acard h" "reads_back (cl_codec c) (request_document meth params)"
    and "meth \<in> {''message/send'', ''message/stream'', ''tasks/get'', ''tasks/cancel''}"
  shows "client_post c hs (rpc_body (cl_codec c) meth params) f w =
    (let req = \<lparr>rq_version = ''2.0'', rq_method = meth, rq_params = Some params, rq_id = JNum 1\<rparr>;
         handle = (if meth = ''message/send'' then handleSendMessage else if meth = ''message/stream'' then handleStreamMessage
           else if meth = ''tasks/get'' then handleGetTask else handleCancelTask)
     in case handle (cl_codec c) h req w of (reply, w') \<Rightarrow> (Inr reply, w'))"
  using assms
  by (auto simp: client_post_def connected_def ServeHTTP_def a2a_dispatch_def rpc_body_def reads_back_def request_document_def
      request_round_trip Let_def split: prod.split)

lemma call_answer:
  assumes "reads_back cd (answer_document r)"
  shows "(case unmarshal cd dec_response (ae_show cd (answer_document r) @ [CHR 0x0A]) of
       Inl e \<Rightarrow> Inl (OtherErr (Errorf ''a2a: failed to parse response: %w'' [FWrap e]))
     | Inr resp \<Rightarrow> (case ar_error resp of Some (code, msg) \<Rightarrow> Inl (A2AErr code msg) | None \<Rightarrow> Inr (ar_result resp))) =
    (case remote r of Inl e \<Rightarrow> Inl e | Inr t \<Rightarrow> Inr (enc_task t))"
  using assms unfolding unmarshal_def reads_back_def
  by (cases r rule: remote.cases) (simp_all add: answer_document_def response_round_trip)

lemma call_over_wire:
  assumes "client_post c (cl_headers c) (rpc_body (cl_codec c) meth params) ''a2a: request failed: %w'' w =
      (Inr (write_task (cl_codec c) (JNum 1) r), w')"
    and "reads_back (cl_codec c) (answer_document r)"
  shows "task_of (cl_codec c) (client_call c meth params w) = (remote r, w')"
  using call_answer [OF assms(2)] assms(1)
  by (cases r rule: remote.cases) (simp_all add: client_call_def write_task_body ok_reply_def task_of_def task_round_trip)

text \<open>
  C11. A call to a remote agent is a call of its handler: the client gets the very task, or the very
  protocol error, the handler returned, and any other error as an internal error with its text;
  the handler runs once, on the request the client was given.
\<close>

theorem a2a_call_transparent:
  assumes "connected c acard h" "reads_back (cl_codec c) (request_document ''message/send'' (enc_send req))"
    and "th_message h req w = (r, w')" "reads_back (cl_codec c) (answer_document r)"
  shows "SendMessage c req w = (remote r, w')"
  unfolding SendMessage_def
  by (rule call_over_wire [OF _ assms(4)])
    (simp add: served [OF assms(1,2)] handleSendMessage_def unmarshal_params_def send_round_trip assms(3))

lemma a2a_get_transparent:
  assumes "connected c acard h" "reads_back (cl_codec c) (request_document ''tasks/get'' (enc_get i))"
    and "th_get h i w = (r, w')" "reads_back (cl_codec c) (answer_document r)"
  shows "GetTask c i w = (remote r, w')"
  unfolding GetTask_def
  by (rule call_over_wire [OF _ assms(4)])
    (simp add: served [OF assms(1,2)] handleGetTask_def unmarshal_params_def get_round_trip assms(3))

lemma a2a_cancel_transparent:
  assumes "connected c acard h" "reads_back (cl_codec c) (request_document ''tasks/cancel'' (enc_get i))"
    and "th_cancel h i w = (r, w')" "reads_back (cl_codec c) (answer_document r)"
  shows "CancelTask c i w = (remote r, w')"
  unfolding CancelTask_def
  by (rule call_over_wire [OF _ assms(4)])
    (simp add: served [OF assms(1,2)] handleCancelTask_def unmarshal_params_def get_round_trip assms(3))

lemma agent_card_path: "isAgentCardPath (u @ ''/agent-card.json'')"
  by (cases "u = []") (simp_all add: isAgentCardPath_def)

lemma a2a_card_transparent:
  assumes "cl_http c = (\<lambda>r w. case ServeHTTP (cl_codec c) acard h r w of (reply, w') \<Rightarrow> (Inr reply, w'))"
    and "cl_request c (cl_url c @ ''/agent-card.json'') = None" "reads_back (cl_codec c) (enc_card acard)"
  shows "GetAgentCard c w = (Inr acard, w)"
  using assms(2,3) by (simp add: GetAgentCard_def assms(1) ServeHTTP_def agent_card_path ok_reply_def unmarshal_def reads_back_def card_round_trip)

section \<open>A stream\<close>

text \<open>
  What arrives of the events a handler sends. A task without messages has no \<open>messages\<close> field, is
  taken for a status update and loses its number; the first error ends the stream for the client.
\<close>

fun delivered :: "a2a_event list \<Rightarrow> a2a_event list" where
  "delivered [] = []"
| "delivered (StatusEvent u # evs) = StatusEvent u # delivered evs"
| "delivered (ArtifactEvent u # evs) = ArtifactEvent u # delivered evs"
| "delivered (TaskEvent t # evs) =
     (if tk_messages t = [] then StatusEvent \<lparr>su_task = [], su_context = tk_context t, su_status = tk_status t\<rparr> else TaskEvent t) # delivered evs"
| "delivered (ErrorEvent e # evs) = [ErrorEvent (A2AErr ErrCodeInternalError (a2a_error_text e))]"
| "delivered (UnknownEvent # evs) = delivered evs"

definition event_document :: "json \<Rightarrow> a2a_event \<Rightarrow> json" where
  "event_document i ev = enc_response (event_response i ev)"

text \<open>The text of an event fits on one line of the stream and is not its end mark.\<close>

definition streams :: "a2a_codec \<Rightarrow> json \<Rightarrow> a2a_event \<Rightarrow> bool" where
  "streams cd i ev \<longleftrightarrow> reads_back cd (event_document i ev) \<and> line_ok (data_field (ae_show cd (event_document i ev))) \<and>
     ae_show cd (event_document i ev) \<noteq> ''[DONE]''"

definition data_event :: "string \<Rightarrow> raw_event" where
  "data_event d = \<lparr>re_crlf = False, re_comment = [], re_type = [], re_lines = [d]\<rparr>"

lemma sse_frame_wire: "sse_frame d = raw_event_wire (data_event d)"
  by (simp add: sse_frame_def raw_event_wire_def data_event_def raw_event_lines_def data_field_def eol_def)

lemma data_event_view: "se_data (raw_event_view (data_event d)) = d"
  by (simp add: raw_event_view_def data_event_def)

lemma data_event_ok: "line_ok (data_field d) \<Longrightarrow> raw_event_ok (data_event d)"
  by (simp add: raw_event_ok_def data_event_def raw_event_lines_def TrimSpace_def line_ok_def max_token_def)

lemma next_frame:
  assumes "line_ok (data_field d)"
  shows "sse_Next (NewReader (sse_frame d @ rest) fail) = (Some (raw_event_view (data_event d)), NewReader rest fail)"
  unfolding sse_frame_wire by (rule sse_Next_raw [OF data_event_ok [OF assms]])

lemma probe_status: "probe_event (enc_status_update u) = [StatusEvent u]"
  using status_update_round_trip [of u] by (auto simp: probe_event_def enc_status_update_def omit_str_def omit_def)

lemma probe_artifact: "probe_event (enc_artifact_update u) = [ArtifactEvent u]"
  using artifact_update_round_trip [of u] by (auto simp: probe_event_def enc_artifact_update_def)

lemma task_as_status: "dec_status_update (enc_task t) = Some \<lparr>su_task = [], su_context = tk_context t, su_status = tk_status t\<rparr>"
  by (simp add: dec_status_update_def enc_task_def documents status_round_trip)

lemma probe_task: "probe_event (enc_task t) = delivered [TaskEvent t]"
proof -
  obtain kvs where k: "enc_task t = JObj kvs" "map_of kvs ''artifact'' = None" "map_of kvs ''status'' \<noteq> None"
    "map_of kvs ''messages'' \<noteq> None \<longleftrightarrow> tk_messages t \<noteq> []"
    by (auto simp: enc_task_def omit_str_def omit_def)
  show ?thesis using task_round_trip [of t] task_as_status [of t] k by (auto simp: probe_event_def)
qed

lemma frame_read:
  assumes "streams cd i ev"
  shows "a2a_readStream cd (NewReader (sse_frame (ae_show cd (event_document i ev)) @ rest) fail) =
    (case ev of ErrorEvent e \<Rightarrow> delivered [ev] | _ \<Rightarrow> delivered [ev] @ a2a_readStream cd (NewReader rest fail))"
proof -
  have l: "line_ok (data_field (ae_show cd (event_document i ev)))" and d: "ae_show cd (event_document i ev) \<noteq> ''[DONE]''"
    and r: "unmarshal cd dec_response (ae_show cd (event_document i ev)) = Inr (event_response i ev)"
    using assms by (simp_all add: streams_def reads_back_def unmarshal_def event_document_def response_round_trip)
  have "a2a_readStream cd (NewReader (sse_frame (ae_show cd (event_document i ev)) @ rest) fail) =
    (case ar_error (event_response i ev) of
       Some (code, msg) \<Rightarrow> [ErrorEvent (A2AErr code msg)]
     | None \<Rightarrow> probe_event (ar_result (event_response i ev)) @ a2a_readStream cd (NewReader rest fail))"
    unfolding a2a_readStream.simps [of cd "NewReader (sse_frame (ae_show cd (event_document i ev)) @ rest) fail"] next_frame [OF l]
    by (simp add: data_event_view d r)
  then show ?thesis
    by (cases ev) (simp_all add: event_response_def probe_status probe_artifact probe_task, simp add: probe_event_def)
qed

definition stream_ends :: "string \<Rightarrow> bool" where
  "stream_ends rest \<longleftrightarrow> rest = [] \<or> (\<exists>more. rest = sse_frame ''[DONE]'' @ more)"

lemma read_end_of_stream:
  assumes "stream_ends rest"
  shows "a2a_readStream cd (NewReader rest fail) = []"
proof (cases "rest = []")
  case True
  then show ?thesis
    by (subst a2a_readStream.simps) (simp add: sse_Next_def next_event.simps Scan_end)
next
  case False
  then obtain more where m: "rest = sse_frame ''[DONE]'' @ more" using assms by (auto simp: stream_ends_def)
  have "line_ok (data_field ''[DONE]'')" by (simp add: line_ok_def data_field_def max_token_def)
  from next_frame [OF this] show ?thesis by (subst a2a_readStream.simps) (simp add: m data_event_view)
qed

lemma stream_read:
  assumes "list_all (streams cd i) evs" "stream_ends rest"
  shows "a2a_readStream cd (NewReader (concat (map (\<lambda>ev. sse_frame (ae_show cd (event_document i ev))) evs) @ rest) fail) = delivered evs"
  using assms(1)
proof (induction evs)
  case (Cons ev evs)
  then show ?case using frame_read [of cd i ev] by (cases ev) auto
qed (simp add: read_end_of_stream [OF assms(2)])

text \<open>A stream that breaks off looks like one that ended: the client does not ask the reader why it stopped.\<close>

lemma broken_stream_looks_complete:
  assumes "list_all (streams cd i) evs"
  shows "a2a_readStream cd (NewReader (concat (map (\<lambda>ev. sse_frame (ae_show cd (event_document i ev))) (take k evs))) (Some e)) =
    delivered (take k evs)"
proof -
  have "list_all (streams cd i) (take k evs)" using assms by (simp add: list_all_iff) (meson in_set_takeD)
  from stream_read [OF this, of "[]" "Some e"] show ?thesis by (simp add: stream_ends_def)
qed

text \<open>
  C21. A stream of a remote agent delivers, in order, every status update, artifact and task its
  handler sends, up to the first error; a task without messages arrives as a status update without
  a task number.
\<close>

theorem a2a_stream_delivers:
  assumes "connected c acard h" "reads_back (cl_codec c) (request_document ''message/stream'' (enc_send req))"
    and "th_stream h req w = (evs, w')" "list_all (streams (cl_codec c) (JNum 1)) evs"
  shows "StreamMessage c req w = (Inr (delivered evs), w')"
proof -
  have "stream_ends (sse_frame ''[DONE]'')" by (auto simp: stream_ends_def)
  from stream_read [OF assms(4) this, of None]
  have "a2a_readStream (cl_codec c) (NewReader (stream_body (cl_codec c) (JNum 1) evs) None) = delivered evs"
    by (simp add: stream_body_def event_document_def)
  then show ?thesis
    by (simp add: StreamMessage_def served [OF assms(1,2)] handleStreamMessage_def unmarshal_params_def send_round_trip assms(3) ok_reply_def)
qed

section \<open>Concrete agents\<close>

definition hello_request :: send_request where
  "hello_request = \<lparr>sr_message = \<lparr>am_role = ''user'', am_parts = [NewTextPart ''hi''], am_created = [], am_refs = []\<rparr>,
     sr_configuration = None, sr_metadata = []\<rparr>"

definition done_task :: task where
  "done_task = \<lparr>tk_id = ''t1'', tk_context = [], tk_status = \<lparr>ks_state = ''completed'', ks_message = [], ks_timestamp = []\<rparr>,
     tk_messages = [], tk_artifacts = [], tk_metadata = [], tk_created = [], tk_updated = []\<rparr>"

text \<open>A codec for two documents.\<close>

definition two_codec :: "json \<Rightarrow> json \<Rightarrow> a2a_codec" where
  "two_codec a b = \<lparr>ae_parse = (\<lambda>s. if take 1 s = ''a'' then Inr a else if take 1 s = ''b'' then Inr b else Inl (Opaque ''syntax'')),
     ae_show = (\<lambda>j. if j = a then ''a'' else ''b''), ae_mismatch = (\<lambda>j. Opaque ''shape'')\<rparr>"

lemma two_codec_reads: "reads_back (two_codec a b) a" "reads_back (two_codec a b) b"
  by (simp_all add: reads_back_def two_codec_def)

lemma short_lines: "line_ok (data_field ''a'')" "line_ok (data_field ''b'')" "''a'' \<noteq> ''[DONE]''" "''b'' \<noteq> ''[DONE]''"
  by (simp_all add: line_ok_def data_field_def max_token_def)

definition done_handler :: "unit task_handler" where
  "done_handler = \<lparr>th_message = (\<lambda>req w. (Inr done_task, w)), th_stream = (\<lambda>req w. ([TaskEvent done_task], w)),
     th_get = (\<lambda>i w. (Inl (A2AErr (-32001) ''task not found''), w)), th_cancel = (\<lambda>i w. (Inr done_task, w))\<rparr>"

definition plain_card :: agent_card where
  "plain_card = \<lparr>ad_name = ''agent'', ad_description = [], ad_url = ''u'', ad_provider = None, ad_version = ''1'', ad_streaming = True,
     ad_push = False, ad_skills = [], ad_schemes = [], ad_security = [], ad_inputs = [], ad_outputs = []\<rparr>"

definition local_client :: "a2a_codec \<Rightarrow> unit a2a_client" where
  "local_client cd = a2a_NewClient cd (\<lambda>u. None) (\<lambda>r w. case ServeHTTP cd plain_card done_handler r w of (reply, w') \<Rightarrow> (Inr reply, w')) ''u/'' []"

lemma local_connected: "connected (local_client cd) plain_card done_handler" "cl_codec (local_client cd) = cd"
  by (simp_all add: connected_def local_client_def a2a_NewClient_def)

theorem a2a_call_transparent_witness:
  "SendMessage (local_client (two_codec (request_document ''message/send'' (enc_send hello_request)) (answer_document (Inr done_task))))
     hello_request () = (Inr done_task, ())"
  using a2a_call_transparent [OF local_connected(1), of "two_codec (request_document ''message/send'' (enc_send hello_request)) (answer_document (Inr done_task))"
      hello_request "()" "Inr done_task" "()"]
  by (simp add: local_connected(2) two_codec_reads done_handler_def)

theorem a2a_stream_delivers_witness:
  "StreamMessage (local_client (two_codec (request_document ''message/stream'' (enc_send hello_request)) (event_document (JNum 1) (TaskEvent done_task))))
     hello_request () = (Inr [StatusEvent \<lparr>su_task = [], su_context = [], su_status = tk_status done_task\<rparr>], ())"
proof -
  let ?cd = "two_codec (request_document ''message/stream'' (enc_send hello_request)) (event_document (JNum 1) (TaskEvent done_task))"
  have s: "streams ?cd (JNum 1) (TaskEvent done_task)"
  proof -
    have "ae_show ?cd j = ''a'' \<or> ae_show ?cd j = ''b''" for j by (simp add: two_codec_def)
    then have "line_ok (data_field (ae_show ?cd j)) \<and> ae_show ?cd j \<noteq> ''[DONE]''" for j
      by (metis (no_types) short_lines)
    then show ?thesis using two_codec_reads(2) by (simp add: streams_def)
  qed
  have "th_stream done_handler hello_request () = ([TaskEvent done_task], ())" by (simp add: done_handler_def)
  from a2a_stream_delivers [OF local_connected(1) _ this, of ?cd] s two_codec_reads(1) show ?thesis
    by (simp add: local_connected(2) done_task_def)
qed

end
