(* ===== verification/Decisions.thy ===== *)
theory Decisions
  imports Graph_Engine Go_Values Streaming
begin

text \<open>
  Package \<open>decide\<close>: closed questions with probabilities for answers (\<open>decide.go\<close>), a decider
  over a chat model (\<open>llm.go\<close>) and routing by decisions (\<open>route.go\<close>). A \<open>float64\<close> is a
  rational, so that rounding is left out. The members of a schema are in the order of the
  questions (encoding sorts them). A decider, like a provider, acts on a world.
\<close>

section \<open>Questions and answers\<close>

definition Predicate :: string where [simp]: "Predicate = ''predicate''"
definition Choice :: string where [simp]: "Choice = ''choice''"
definition Score :: string where [simp]: "Score = ''score''"
definition Yes :: string where [simp]: "Yes = ''yes''"
definition No :: string where [simp]: "No = ''no''"

definition ErrRefused :: go_error where "ErrRefused = Sentinel ''decide: model refused to answer''"

record option_item =
  oi_value :: string
  oi_description :: string

record question =
  q_name :: string
  q_kind :: string
  q_instructions :: string
  q_options :: "option_item list"
  q_levels :: "option_item list"
  q_yes_when :: string
  q_no_when :: string

definition zero_question :: question where
  "zero_question = \<lparr>q_name = [], q_kind = [], q_instructions = [], q_options = [], q_levels = [], q_yes_when = [],
     q_no_when = []\<rparr>"

definition NewPredicate :: "string \<Rightarrow> string \<Rightarrow> question" where
  "NewPredicate name instructions = zero_question\<lparr>q_name := name, q_kind := Predicate, q_instructions := instructions\<rparr>"

definition NewChoice :: "string \<Rightarrow> string \<Rightarrow> option_item list \<Rightarrow> question" where
  "NewChoice name instructions options =
     zero_question\<lparr>q_name := name, q_kind := Choice, q_instructions := instructions, q_options := options\<rparr>"

definition NewScore :: "string \<Rightarrow> string \<Rightarrow> option_item list \<Rightarrow> question" where
  "NewScore name instructions levels =
     zero_question\<lparr>q_name := name, q_kind := Score, q_instructions := instructions, q_levels := levels\<rparr>"

record decide_request =
  dr_model :: string
  dr_input :: string
  dr_parts :: "content_part list"
  dr_questions :: "question list"

type_synonym probabilities = "(string \<times> rat) list"

record answer =
  an_name :: string
  an_kind :: string
  an_refused :: bool
  an_choice :: string
  an_yes :: rat
  an_score :: rat
  an_probabilities :: probabilities
  an_confidence :: rat

definition zero_answer :: answer where
  "zero_answer = \<lparr>an_name = [], an_kind = [], an_refused = False, an_choice = [], an_yes = 0, an_score = 0,
     an_probabilities = [], an_confidence = 0\<rparr>"

definition Probability_of :: "answer \<Rightarrow> string \<Rightarrow> rat" where
  "Probability_of a value = (case find (\<lambda>p. fst p = value) (an_probabilities a) of None \<Rightarrow> 0 | Some p \<Rightarrow> snd p)"

record decide_response =
  dp_answers :: "answer list"
  dp_model :: string
  dp_usage :: token_usage

definition Answer_named :: "decide_response \<Rightarrow> string \<Rightarrow> answer option" where
  "Answer_named r name = find (\<lambda>a. an_name a = name) (dp_answers r)"

type_synonym 'w decider = "decide_request \<Rightarrow> 'w \<Rightarrow> (go_error + decide_response) \<times> 'w"

section \<open>Validation\<close>

text \<open>The items of a question, checked in order against those seen.\<close>

fun check_items :: "string \<Rightarrow> string \<Rightarrow> string set \<Rightarrow> option_item list \<Rightarrow> go_error option" where
  "check_items name what seen [] = None"
| "check_items name what seen (it # items) =
     (if oi_value it = [] \<or> oi_value it \<in> seen
      then Some (Errorf (''decide: question %q has an empty or duplicate '' @ what @ '' %q'') [FStr name, FStr (oi_value it)])
      else check_items name what (insert (oi_value it) seen) items)"

definition check_kind :: "question \<Rightarrow> go_error option" where
  "check_kind q =
     (if q_kind q = Predicate then None
      else if q_kind q = Choice then
        (if length (q_options q) < 2 \<or> length (q_options q) > 255
         then Some (Errorf ''decide: question %q needs 2 to 255 options, has %d'' [FStr (q_name q), FInt (int (length (q_options q)))])
         else check_items (q_name q) ''option'' {} (q_options q))
      else if q_kind q = Score then
        (if length (q_levels q) < 2 \<or> length (q_levels q) > 10
         then Some (Errorf ''decide: question %q needs 2 to 10 levels, has %d'' [FStr (q_name q), FInt (int (length (q_levels q)))])
         else check_items (q_name q) ''level'' {} (q_levels q))
      else Some (Errorf ''decide: question %q has unknown kind %q'' [FStr (q_name q), FStr (q_kind q)]))"

fun check_questions :: "string set \<Rightarrow> question list \<Rightarrow> go_error option" where
  "check_questions seen [] = None"
| "check_questions seen (q # qs) =
     (if q_name q = [] then Some (Sentinel ''decide: question has no name'')
      else if q_name q \<in> seen then Some (Errorf ''decide: duplicate question name %q'' [FStr (q_name q)])
      else case check_kind q of Some e \<Rightarrow> Some e | None \<Rightarrow> check_questions (insert (q_name q) seen) qs)"

fun check_decide_parts :: "content_part list \<Rightarrow> go_error option" where
  "check_decide_parts [] = None"
| "check_decide_parts (p # ps) =
     (if cp_type p \<noteq> ContentText \<and> cp_type p \<noteq> ContentImage
      then Some (Errorf ''decide: %s parts: %w'' [FStr (cp_type p), FWrap (Sentinel ''unsupported content'')])
      else check_decide_parts ps)"

definition Validate :: "decide_request \<Rightarrow> go_error option" where
  "Validate r =
     (if dr_questions r = [] then Some (Sentinel ''decide: request has no questions'')
      else case check_questions {} (dr_questions r) of
        Some e \<Rightarrow> Some e | None \<Rightarrow> check_decide_parts (dr_parts r))"

section \<open>Building answers\<close>

definition PredicateAnswer :: "string \<Rightarrow> rat \<Rightarrow> answer" where
  "PredicateAnswer name yes =
     (let a = zero_answer\<lparr>an_name := name, an_kind := Predicate, an_yes := yes,
            an_probabilities := [(Yes, yes), (No, 1 - yes)], an_choice := No, an_confidence := 1 - yes\<rparr>
      in if yes \<ge> 1 / 2 then a\<lparr>an_choice := Yes, an_confidence := yes\<rparr> else a)"

text \<open>The loop of \<open>DistributionAnswer\<close>: the best probability so far and its value; the score.\<close>

definition best_step :: "rat \<times> string \<Rightarrow> string \<times> rat \<Rightarrow> rat \<times> string" where
  "best_step st p = (if snd p > fst st then (snd p, fst p) else st)"

definition DistributionAnswer :: "string \<Rightarrow> string \<Rightarrow> probabilities \<Rightarrow> answer" where
  "DistributionAnswer name kind probs =
     (let best = foldl best_step (-1, []) probs in
      zero_answer\<lparr>an_name := name, an_kind := kind, an_probabilities := probs, an_choice := snd best,
        an_score := (if kind = Score
          then sum_list (map (\<lambda>(i, p). rat_of_nat i * snd p) (List.enumerate 0 probs)) else 0),
        an_confidence := max (fst best) 0\<rparr>)"

definition Ask :: "'w decider \<Rightarrow> string \<Rightarrow> string \<Rightarrow> question \<Rightarrow> 'w \<Rightarrow> (answer \<times> go_error option) \<times> 'w" where
  "Ask d model input q w =
     (let q' = (if q_name q = [] then q\<lparr>q_name := ''q''\<rparr> else q) in
      case d \<lparr>dr_model = model, dr_input = input, dr_parts = [], dr_questions = [q']\<rparr> w of
        (Inl err, w') \<Rightarrow> ((zero_answer, Some err), w')
      | (Inr resp, w') \<Rightarrow>
          ((case Answer_named resp (q_name q') of
              None \<Rightarrow> (zero_answer, Some (Errorf ''decide: no answer to %q'' [FStr (q_name q')]))
            | Some a \<Rightarrow> (a, if an_refused a then Some ErrRefused else None)), w'))"

section \<open>A decider over a chat model\<close>

definition question_values :: "question \<Rightarrow> string list" where
  "question_values q = map oi_value (q_options q) @ map oi_value (q_levels q)"

definition writeItem :: "option_item \<Rightarrow> string" where
  "writeItem it = ''- '' @ oi_value it @ (if oi_description it = [] then [] else '': '' @ oi_description it) @ [CHR 0x0A]"

definition question_text :: "question \<Rightarrow> string" where
  "question_text q =
     [CHR 0x0A] @ Quote (q_name q) @
     (if q_kind q = Predicate then
        '' (yes/no; give the probability of yes): '' @ q_instructions q @ [CHR 0x0A] @
        (if q_yes_when q \<noteq> [] then ''- yes: '' @ q_yes_when q @ [CHR 0x0A] else []) @
        (if q_no_when q \<noteq> [] then ''- no: '' @ q_no_when q @ [CHR 0x0A] else [])
      else if q_kind q = Choice then
        '' (pick one): '' @ q_instructions q @ [CHR 0x0A] @ concat (map writeItem (q_options q))
      else if q_kind q = Score then
        '' (rate on this scale, lowest first): '' @ q_instructions q @ [CHR 0x0A] @ concat (map writeItem (q_levels q))
      else [])"

definition llmPrompt :: "decide_request \<Rightarrow> string" where
  "llmPrompt req = ''Input:'' @ [CHR 0x0A] @ dr_input req @ [CHR 0x0A, CHR 0x0A] @ ''Questions:'' @ [CHR 0x0A] @
     concat (map question_text (dr_questions req))"

definition schema_object :: "(string \<times> json) list \<Rightarrow> string list \<Rightarrow> json" where
  "schema_object props required =
     JObj ([(''type'', JStr ''object'')] @
       (if props = [] then [] else [(''properties'', JObj props)]) @
       (if required = [] then [] else [(''required'', JArr (map JStr required))]) @
       [(''additionalProperties'', JBool False)])"

definition probability_schema :: json where
  "probability_schema = JObj [(''type'', JStr ''number''), (''minimum'', JNum 0), (''maximum'', JNum 1)]"

definition question_schema :: "question \<Rightarrow> json" where
  "question_schema q =
     (if q_kind q = Predicate then schema_object [(''yes'', probability_schema)] [''yes'']
      else schema_object [(''probabilities'',
        schema_object (map (\<lambda>v. (v, probability_schema)) (question_values q)) (question_values q))] [''probabilities''])"

definition llmSchema :: "question list \<Rightarrow> json" where
  "llmSchema qs = schema_object (map (\<lambda>q. (q_name q, question_schema q)) qs) (map q_name qs)"

definition clamp01 :: "rat \<Rightarrow> rat" where
  "clamp01 f = (if f < 0 then 0 else if f > 1 then 1 else f)"

definition weight :: "(string \<times> rat) list \<Rightarrow> string \<Rightarrow> rat" where
  "weight got v = (case map_of got v of None \<Rightarrow> 0 | Some p \<Rightarrow> if p < 0 then 0 else p)"

definition normalize :: "string list \<Rightarrow> (string \<times> rat) list \<Rightarrow> probabilities" where
  "normalize values got =
     (let s = sum_list (map (weight got) values) in
      map (\<lambda>v. (v, if s > 0 then weight got v / s else 1 / rat_of_nat (length values))) values)"

definition trimFence :: "string \<Rightarrow> string" where
  "trimFence s0 =
     (let fence = replicate 3 (CHR 0x60); s = TrimSpace s0 in
      if \<not> HasPrefix s fence then s
      else
        let t = TrimPrefix s fence;
            u = (case IndexByte t (CHR 0x0A) of Some nl \<Rightarrow> drop (nl + 1) t | None \<Rightarrow> t)
        in TrimSpace (TrimSuffix (TrimSpace u) fence))"

record raw_answer =
  rw_yes :: "rat option"
  rw_probabilities :: "(string \<times> rat) list"

text \<open>\<open>decode\<close> is \<open>json.Unmarshal\<close> into the reply's type, a map from question names.\<close>

definition llm_answer :: "(string \<rightharpoonup> raw_answer) \<Rightarrow> question \<Rightarrow> answer" where
  "llm_answer raw q =
     (case raw (q_name q) of
        None \<Rightarrow> zero_answer\<lparr>an_name := q_name q, an_kind := q_kind q, an_refused := True\<rparr>
      | Some r \<Rightarrow>
          if q_kind q = Predicate
          then PredicateAnswer (q_name q) (case rw_yes r of None \<Rightarrow> 0 | Some y \<Rightarrow> clamp01 y)
          else DistributionAnswer (q_name q) (q_kind q) (normalize (question_values q) (rw_probabilities r)))"

definition llmSystemPrompt :: string where
  "llmSystemPrompt = ''You answer closed questions about an input. For every question, give a probability between 0 and 1 for each allowed answer, reflecting how likely it is to be correct; for a question with several answers the probabilities must add up to 1. Reply with JSON only, matching the schema.''"

definition llm_completion :: "decide_request \<Rightarrow> completion_request" where
  "llm_completion req = zero_request
     \<lparr>req_model := dr_model req, req_system := llmSystemPrompt,
      req_messages := [zero_msg\<lparr>msg_role := RoleUser, msg_parts := TextPart (llmPrompt req) # dr_parts req\<rparr>],
      req_output_schema := RawJson (llmSchema (dr_questions req)), req_temperature := Some 0\<rparr>"

definition parse_error :: "go_error \<Rightarrow> go_error" where
  "parse_error e = Errorf ''langrails: parse structured output: %v'' [FWrap e]"

definition FromProvider :: "(string \<Rightarrow> go_error + (string \<rightharpoonup> raw_answer)) \<Rightarrow> 'w provider \<Rightarrow> 'w decider" where
  "FromProvider decode p req w =
     (case Validate req of
        Some e \<Rightarrow> (Inl e, w)
      | None \<Rightarrow>
          (case Complete p (llm_completion req) w of
             (Inl e, w') \<Rightarrow> (Inl e, w')
           | (Inr resp, w') \<Rightarrow>
               ((case decode (trimFence (resp_content resp)) of
                   Inl e \<Rightarrow> Inl (parse_error e)
                 | Inr raw \<Rightarrow> Inr \<lparr>dp_answers = map (llm_answer raw) (dr_questions req),
                     dp_model = resp_model resp, dp_usage = resp_usage resp\<rparr>), w')))"

section \<open>Routing\<close>

definition ErrNoRoute :: go_error where "ErrNoRoute = Sentinel ''decide: no route for answer''"

record 'w target =
  tg_provider :: "'w provider"
  tg_model :: string

text \<open>\<open>OnDecision\<close> is called with every answer; it acts on the world.\<close>

record 'w route_config =
  rg_min_confidence :: rat
  rg_fallback :: "'w target option"
  rg_fallback_node :: string
  rg_input :: "completion_request \<Rightarrow> string"
  rg_on_decision :: "(answer \<Rightarrow> 'w \<Rightarrow> 'w) option"

definition last_user_message :: "completion_request \<Rightarrow> message option" where
  "last_user_message req = find (\<lambda>m. msg_role m = RoleUser) (rev (req_messages req))"

definition decide_lastUserText :: "completion_request \<Rightarrow> string" where
  "decide_lastUserText req =
     (case last_user_message req of
        None \<Rightarrow> []
      | Some m \<Rightarrow>
          if msg_parts m = [] then msg_content m
          else Join (map cp_text (filter (\<lambda>p. cp_type p = ContentText) (msg_parts m))) [CHR 0x0A])"

definition newRouteConfig :: "('w route_config \<Rightarrow> 'w route_config) list \<Rightarrow> 'w route_config" where
  "newRouteConfig opts = fold (\<lambda>opt c. opt c) opts
     \<lparr>rg_min_confidence = 0, rg_fallback = None, rg_fallback_node = [], rg_input = decide_lastUserText, rg_on_decision = None\<rparr>"

definition WithMinConfidence :: "rat \<Rightarrow> 'w route_config \<Rightarrow> 'w route_config" where
  "WithMinConfidence c r = r\<lparr>rg_min_confidence := c\<rparr>"

definition WithFallbackTarget :: "'w target \<Rightarrow> 'w route_config \<Rightarrow> 'w route_config" where
  "WithFallbackTarget t r = r\<lparr>rg_fallback := Some t\<rparr>"

definition WithFallbackNode :: "string \<Rightarrow> 'w route_config \<Rightarrow> 'w route_config" where
  "WithFallbackNode node r = r\<lparr>rg_fallback_node := node\<rparr>"

definition WithInput :: "(completion_request \<Rightarrow> string) \<Rightarrow> 'w route_config \<Rightarrow> 'w route_config" where
  "WithInput f r = r\<lparr>rg_input := f\<rparr>"

definition WithOnDecision :: "(answer \<Rightarrow> 'w \<Rightarrow> 'w) \<Rightarrow> 'w route_config \<Rightarrow> 'w route_config" where
  "WithOnDecision f r = r\<lparr>rg_on_decision := Some f\<rparr>"

definition route_decide :: "'w route_config \<Rightarrow> 'w decider \<Rightarrow> string \<Rightarrow> string \<Rightarrow> question \<Rightarrow> 'w \<Rightarrow> (go_error + string) \<times> 'w" where
  "route_decide c d model input q w =
     (case Ask d model input q w of
        ((a, err), w1) \<Rightarrow>
          case (case err of None \<Rightarrow> None
                | Some e \<Rightarrow> if err_is ''decide: model refused to answer'' e then None else Some e) of
            Some e \<Rightarrow> (Inl e, w1)
          | None \<Rightarrow>
              (Inr (if an_refused a \<or> an_confidence a < rg_min_confidence c then [] else an_choice a),
               case rg_on_decision c of None \<Rightarrow> w1 | Some f \<Rightarrow> f a w1))"

record 'w router =
  ro_decider :: "'w decider"
  ro_model :: string
  ro_question :: question
  ro_routes :: "string \<rightharpoonup> 'w target"
  ro_cfg :: "'w route_config"

definition named_route :: "question \<Rightarrow> question" where
  "named_route q = (if q_name q = [] then q\<lparr>q_name := ''route''\<rparr> else q)"

definition Route :: "'w decider \<Rightarrow> string \<Rightarrow> question \<Rightarrow> (string \<rightharpoonup> 'w target) \<Rightarrow> ('w route_config \<Rightarrow> 'w route_config) list \<Rightarrow> 'w router" where
  "Route d model q routes opts =
     \<lparr>ro_decider = d, ro_model = model, ro_question = named_route q, ro_routes = routes, ro_cfg = newRouteConfig opts\<rparr>"

definition no_route :: "string \<Rightarrow> go_error" where
  "no_route key = Errorf ''%w %q'' [FWrap ErrNoRoute, FStr key]"

definition route_target :: "'w router \<Rightarrow> string \<Rightarrow> go_error + 'w target" where
  "route_target r key =
     (case (if key = [] then None else ro_routes r key) of
        Some t \<Rightarrow> Inr t
      | None \<Rightarrow> (case rg_fallback (ro_cfg r) of None \<Rightarrow> Inl (no_route key) | Some t \<Rightarrow> Inr t))"

definition pick :: "'w router \<Rightarrow> completion_request \<Rightarrow> 'w \<Rightarrow> (go_error + 'w target \<times> completion_request) \<times> 'w" where
  "pick r req w =
     (case route_decide (ro_cfg r) (ro_decider r) (ro_model r) (rg_input (ro_cfg r) req) (ro_question r) w of
        (Inl e, w') \<Rightarrow> (Inl e, w')
      | (Inr key, w') \<Rightarrow>
          (case route_target r key of
             Inl e \<Rightarrow> Inl e
           | Inr t \<Rightarrow> Inr (t, if tg_model t = [] \<or> tg_model t = req_model req then req else req\<lparr>req_model := tg_model t\<rparr>), w'))"

definition router_Complete :: "'w router \<Rightarrow> 'w complete_fn" where
  "router_Complete r req w =
     (case pick r req w of
        (Inl e, w') \<Rightarrow> (Inl e, w')
      | (Inr (t, routed), w') \<Rightarrow> Complete (tg_provider t) routed w')"

definition router_Stream :: "'w router \<Rightarrow> 'w stream_fn" where
  "router_Stream r req w =
     (case pick r req w of
        (Inl e, w') \<Rightarrow> (Inl e, w')
      | (Inr (t, routed), w') \<Rightarrow> Stream (tg_provider t) routed w')"

text \<open>A graph router: with no routes (\<open>None\<close>) the choice is the node.\<close>

definition GraphRouter :: "'w decider \<Rightarrow> string \<Rightarrow> question \<Rightarrow> ('s \<Rightarrow> string) \<Rightarrow> (string \<rightharpoonup> string) option
    \<Rightarrow> ('w route_config \<Rightarrow> 'w route_config) list \<Rightarrow> 's \<Rightarrow> 'w \<Rightarrow> (go_error + string) \<times> 'w" where
  "GraphRouter d model q input routes opts state w =
     (let cfg = newRouteConfig opts in
      case route_decide cfg d model (input state) (named_route q) w of
        (Inl e, w') \<Rightarrow> (Inl e, w')
      | (Inr key, w') \<Rightarrow>
          let node = (case routes of None \<Rightarrow> key | Some m \<Rightarrow> (case m key of None \<Rightarrow> [] | Some n \<Rightarrow> n)) in
          (if key = [] \<or> node = []
           then (if rg_fallback_node cfg = [] then Inl (no_route key) else Inr (rg_fallback_node cfg))
           else Inr node, w'))"


section \<open>Distributions\<close>

definition is_distribution :: "probabilities \<Rightarrow> bool" where
  "is_distribution probs \<longleftrightarrow> sum_list (map snd probs) = 1 \<and> list_all (\<lambda>p. 0 \<le> snd p \<and> snd p \<le> 1) probs"

lemma weight_nonneg [simp]: "0 \<le> weight got v"
  by (auto simp: weight_def split: option.split)

lemma weights_nonneg [simp]: "0 \<le> sum_list (map (weight got) values)"
  by (rule sum_list_nonneg) auto

lemma weight_le_sum:
  assumes "v \<in> set values"
  shows "weight got v \<le> sum_list (map (weight got) values)"
  using assms
proof (induction "values")
  case (Cons u us)
  then show ?case using weights_nonneg [of got us] weight_nonneg [of got u] by (cases "v = u") (auto simp: add_increasing)
qed simp

lemma sum_list_divide: "sum_list (map (\<lambda>v. f v / s) vs) = sum_list (map f vs) / (s :: rat)"
  by (induction vs) (auto simp: add_divide_distrib)

lemma sum_list_const: "sum_list (map (\<lambda>v. c) vs) = rat_of_nat (length vs) * c"
  by (induction vs) (auto simp: algebra_simps)

lemma normalize_values [simp]: "map fst (normalize vs got) = vs"
  by (simp add: normalize_def Let_def comp_def)

lemma normalize_distribution:
  assumes "vs \<noteq> []"
  shows "is_distribution (normalize vs got)"
proof -
  let ?s = "sum_list (map (weight got) vs)"
  consider "?s > 0" | "?s = 0" using weights_nonneg [of got vs] by linarith
  then show ?thesis
  proof cases
    case 1
    then show ?thesis
      by (auto simp: is_distribution_def normalize_def Let_def comp_def sum_list_divide list_all_iff weight_le_sum)
  next
    case 2
    then show ?thesis using assms
      by (auto simp: is_distribution_def normalize_def Let_def comp_def sum_list_const list_all_iff Suc_le_eq
          field_simps)
  qed
qed

lemma normalize_function: "\<exists>g. normalize vs got = map (\<lambda>v. (v, g v)) vs"
  unfolding normalize_def Let_def by (rule exI, rule refl)

text \<open>The loop's invariant: the best value so far carries the best probability.\<close>

lemma best_step_foldl:
  assumes "probs \<noteq> [] \<or> b = (g v, v)" and "fst b \<ge> -1" and "\<forall>u \<in> set probs. 0 \<le> g u"
    and "b = (-1, []) \<or> b = (g (snd b), snd b)"
  shows "\<exists>v. foldl best_step b (map (\<lambda>v. (v, g v)) probs) = (g v, v) \<and> (v \<in> set probs \<or> b = (g v, v)) \<and>
    fst b \<le> g v \<and> (\<forall>u \<in> set probs. g u \<le> g v)"
  using assms
proof (induction probs arbitrary: b v)
  case (Cons u us)
  let ?b = "best_step b (u, g u)"
  have b: "?b = (g (snd ?b), snd ?b) \<and> (?b = (g u, u) \<or> ?b = b) \<and> fst b \<le> fst ?b \<and> g u \<le> fst ?b"
    using Cons.prems by (auto simp: best_step_def)
  have "\<exists>v. foldl best_step ?b (map (\<lambda>v. (v, g v)) us) = (g v, v) \<and> (v \<in> set us \<or> ?b = (g v, v)) \<and>
      fst ?b \<le> g v \<and> (\<forall>u \<in> set us. g u \<le> g v)"
    using Cons.prems b by (intro Cons.IH [where v = "snd ?b"]) auto
  then obtain v' where v': "foldl best_step ?b (map (\<lambda>v. (v, g v)) us) = (g v', v')" "v' \<in> set us \<or> ?b = (g v', v')"
    "fst ?b \<le> g v'" "\<forall>u \<in> set us. g u \<le> g v'"
    by blast
  show ?case
    using v' b Cons.prems by (intro exI [of _ v']) auto
qed auto

lemma find_map_pair: "v \<in> set vs \<Longrightarrow> find (\<lambda>p. fst p = v) (map (\<lambda>v. (v, g v)) vs) = Some (v, g v)"
  by (induction vs) auto

lemma distribution_best:
  assumes "probs = map (\<lambda>v. (v, g v)) vs" and "vs \<noteq> []" and "\<forall>u \<in> set vs. 0 \<le> g u"
    and "a = DistributionAnswer name kind probs"
  shows "an_choice a \<in> set vs" and "Probability_of a (an_choice a) = an_confidence a"
    and "\<forall>v \<in> set vs. Probability_of a v \<le> an_confidence a"
proof -
  obtain v where v: "foldl best_step (-1, []) (map (\<lambda>v. (v, g v)) vs) = (g v, v)" "v \<in> set vs \<or> (-1, []) = (g v, v)"
    "-1 \<le> g v" "\<forall>u \<in> set vs. g u \<le> g v"
    using best_step_foldl [of vs "(-1, [])" g] assms by auto
  have "0 \<le> g v"
    using v(4) assms(2,3) by (meson hd_in_set order_trans)
  with v(2) have m: "v \<in> set vs" by auto
  show "an_choice a \<in> set vs" and "Probability_of a (an_choice a) = an_confidence a"
    and "\<forall>v \<in> set vs. Probability_of a v \<le> an_confidence a"
    using v m \<open>0 \<le> g v\<close> find_map_pair [of _ vs g]
    by (auto simp: assms(1,4) DistributionAnswer_def Let_def zero_answer_def Probability_of_def)
qed


lemma sum_list_map_le: "(\<forall>x \<in> set xs. f x \<le> g x) \<Longrightarrow> sum_list (map f xs) \<le> sum_list (map g xs :: rat list)"
  by (rule sum_list_mono) blast

lemma enumerate_bound: "(i, p) \<in> set (List.enumerate 0 probs) \<Longrightarrow> i < length probs \<and> p \<in> set probs"
  by (auto simp: in_set_enumerate_eq)

lemma score_bounds:
  assumes "is_distribution probs" and "probs \<noteq> []"
  shows "0 \<le> an_score (DistributionAnswer name kind probs)"
    and "an_score (DistributionAnswer name kind probs) \<le> rat_of_nat (length probs - 1)"
proof -
  let ?s = "sum_list (map (\<lambda>(i, p). rat_of_nat i * snd p) (List.enumerate 0 probs))"
  have "?s \<le> sum_list (map (\<lambda>(i, p). rat_of_nat (length probs - 1) * snd p) (List.enumerate 0 probs))"
    using assms(1)
    by (intro sum_list_map_le) (fastforce dest: enumerate_bound intro!: mult_right_mono simp: is_distribution_def list_all_iff)
  also have "\<dots> = rat_of_nat (length probs - 1) * sum_list (map (\<lambda>x. snd (snd x)) (List.enumerate 0 probs))"
    by (simp add: sum_list_const_mult [symmetric] case_prod_unfold comp_def)
  also have "map (\<lambda>x. snd (snd x)) (List.enumerate 0 probs) = map snd probs"
    by (simp add: map_map [symmetric, unfolded comp_def] comp_def del: map_map)
  finally have "?s \<le> rat_of_nat (length probs - 1)" using assms(1) by (simp add: is_distribution_def)
  moreover have "0 \<le> ?s"
    using assms(1) by (intro sum_list_nonneg) (fastforce dest: enumerate_bound simp: is_distribution_def list_all_iff)
  ultimately show "0 \<le> an_score (DistributionAnswer name kind probs)"
    and "an_score (DistributionAnswer name kind probs) \<le> rat_of_nat (length probs - 1)"
    by (auto simp: DistributionAnswer_def Let_def zero_answer_def)
qed


section \<open>Answers of a validated request\<close>

text \<open>The values an answer to a question can take, in order.\<close>

definition outcomes :: "question \<Rightarrow> string list" where
  "outcomes q = (if q_kind q = Predicate then [Yes, No] else question_values q)"

text \<open>What a decider promises of the answer to a question it did not refuse.\<close>

definition answers_question :: "question \<Rightarrow> answer \<Rightarrow> bool" where
  "answers_question q a \<longleftrightarrow>
     map fst (an_probabilities a) = outcomes q \<and> is_distribution (an_probabilities a) \<and>
     an_choice a \<in> set (outcomes q) \<and> an_confidence a = Probability_of a (an_choice a) \<and>
     list_all (\<lambda>v. Probability_of a v \<le> an_confidence a) (outcomes q) \<and>
     0 \<le> an_score a \<and> an_score a \<le> rat_of_nat (length (outcomes q) - 1)"

lemma clamp01_bounds [simp]: "0 \<le> clamp01 f" "clamp01 f \<le> 1"
  by (auto simp: clamp01_def)

lemma predicate_answers:
  assumes "q_kind q = Predicate" and "0 \<le> y" and "y \<le> 1"
  shows "answers_question q (PredicateAnswer name y)"
  using assms by (auto simp: answers_question_def outcomes_def PredicateAnswer_def is_distribution_def Let_def
      zero_answer_def Probability_of_def)

lemma distribution_answers:
  assumes "q_kind q \<noteq> Predicate" and "question_values q \<noteq> []"
  shows "answers_question q (DistributionAnswer name kind (normalize (question_values q) got))"
proof -
  let ?vs = "question_values q" and ?p = "normalize (question_values q) got"
  let ?a = "DistributionAnswer name kind ?p"
  obtain g where g: "?p = map (\<lambda>v. (v, g v)) ?vs"
    using normalize_function by blast
  have d: "is_distribution ?p"
    using assms(2) by (rule normalize_distribution)
  then have "\<forall>u \<in> set ?vs. 0 \<le> g u"
    by (auto simp: g is_distribution_def list_all_iff)
  note best = distribution_best [OF g assms(2) this refl, of name kind]
  have "an_probabilities ?a = ?p"
    by (simp add: DistributionAnswer_def Let_def zero_answer_def)
  moreover have "?p \<noteq> []" and "length ?p = length ?vs"
    using assms(2) by (auto simp: g)
  ultimately show ?thesis
    using assms(1) d best score_bounds [OF d, of name kind]
    by (simp add: answers_question_def outcomes_def list_all_iff)
qed

lemma check_questions_kinds:
  assumes "check_questions seen qs = None" and "q \<in> set qs"
  shows "check_kind q = None" and "q_name q \<noteq> []"
  using assms by (induction seen qs rule: check_questions.induct) (auto split: if_splits option.splits)

lemma check_kind_values: "check_kind q = None \<Longrightarrow> q_kind q \<noteq> Predicate \<Longrightarrow> question_values q \<noteq> []"
  by (auto simp: check_kind_def question_values_def split: if_splits)

lemma llm_answer_valid:
  assumes "check_kind q = None"
  shows "an_refused (llm_answer raw q) = (raw (q_name q) = None)"
    and "raw (q_name q) \<noteq> None \<Longrightarrow> answers_question q (llm_answer raw q)"
    and "an_name (llm_answer raw q) = q_name q" and "an_kind (llm_answer raw q) = q_kind q"
  using assms predicate_answers [of q] distribution_answers [of q] check_kind_values [of q]
  by (auto simp: llm_answer_def PredicateAnswer_def DistributionAnswer_def Let_def zero_answer_def
      split: option.splits)

lemma FromProvider_result:
  assumes "FromProvider decode p req w = (Inr resp, w')"
  shows "Validate req = None"
    and "\<exists>raw. dp_answers resp = map (llm_answer raw) (dr_questions req)"
  using assms by (auto simp: FromProvider_def split: option.splits sum.splits prod.splits)

lemma validated_questions:
  assumes "Validate req = None" and "q \<in> set (dr_questions req)"
  shows "check_kind q = None"
  using assms check_questions_kinds by (auto simp: Validate_def split: if_splits option.splits)


section \<open>Routing\<close>

definition routed_by :: "'w router \<Rightarrow> answer \<Rightarrow> 'w target \<Rightarrow> bool" where
  "routed_by r a t \<longleftrightarrow>
     (if an_refused a \<or> an_confidence a < rg_min_confidence (ro_cfg r) \<or> an_choice a = [] \<or> ro_routes r (an_choice a) = None
      then rg_fallback (ro_cfg r) = Some t else ro_routes r (an_choice a) = Some t)"

text \<open>
  Where a router sends a request is what the decision says: with a confident answer whose
  choice has a target, to that target; for a refusal, a choice without a target or an answer below
  the minimum confidence, to the fallback. The request changes in its model only, and only if the
  target names one. A router fails with the decider's own error, or with \<open>ErrNoRoute\<close> when the
  answer leads to no target and no fallback is set.
\<close>

theorem router_follows_decision:
  shows "case Ask (ro_decider r) (ro_model r) (rg_input (ro_cfg r) req) (ro_question r) w of ((a, err), w1) \<Rightarrow>
    (case fst (pick r req w) of
       Inr (t, routed) \<Rightarrow> routed_by r a t \<and>
         routed = req\<lparr>req_model := (if tg_model t = [] then req_model req else tg_model t)\<rparr>
     | Inl e \<Rightarrow> err = Some e \<or> rg_fallback (ro_cfg r) = None \<and> Not (\<exists>t. routed_by r a t) \<and> err_is ''decide: no route for answer'' e)"
proof -
  obtain a err w1 where ask: "Ask (ro_decider r) (ro_model r) (rg_input (ro_cfg r) req) (ro_question r) w = ((a, err), w1)"
    by (metis prod.exhaust)
  show ?thesis
  proof (cases "err = None \<or> (\<exists>e. err = Some e \<and> err_is ''decide: model refused to answer'' e)")
    case True
    then have "(case err of None \<Rightarrow> None
        | Some e \<Rightarrow> if err_is ''decide: model refused to answer'' e then None else Some e) = None"
      by auto
    then show ?thesis
      by (auto simp: ask pick_def route_decide_def route_target_def routed_by_def no_route_def err_is_def ErrNoRoute_def
          split: option.splits)
  next
    case False
    then show ?thesis
      by (auto simp: ask pick_def route_decide_def)
  qed
qed

text \<open>A reply to a predicate question that leaves out \<open>yes\<close> is read as a certain no.\<close>

lemma missing_yes_is_certain_no:
  "q_kind q = Predicate \<Longrightarrow> raw (q_name q) = Some \<lparr>rw_yes = None, rw_probabilities = ps\<rparr> \<Longrightarrow>
    an_choice (llm_answer raw q) = No \<and> an_confidence (llm_answer raw q) = 1 \<and> \<not> an_refused (llm_answer raw q)"
  by (simp add: llm_answer_def PredicateAnswer_def Let_def zero_answer_def)


end
