(* ===== verification/Decide_Backends.thy ===== *)
theory Decide_Backends
  imports Decisions Transport Json_Documents
begin

text \<open>
  The deciders over two services: OpenAI's Decisions API (\<open>decide/openai/openai.go\<close>) and System One
  (\<open>decide/systemone/systemone.go\<close>), with the JSON client they share (\<open>internal/httpjson\<close>).

  The service behind \<open>http.Client.Do\<close>, the decoding of its answers and the random source are
  parameters. Bodies are JSON documents; the members of a map are in the order of the questions
  (encoding sorts them). A \<open>float64\<close> is a rational.
\<close>

section \<open>JSON over HTTP\<close>

record json_post =
  jp_url :: string
  jp_headers :: "(string \<times> string) list"
  jp_body :: json

record 'w json_client =
  jc_provider :: string
  jc_headers :: "(string \<times> string) list"
  jc_error :: "string \<Rightarrow> string"
  jc_request :: "string \<Rightarrow> go_error option"
  jc_http :: "(json_post, 'w) transport"

definition set_headers :: "(string \<times> string) list \<Rightarrow> (string \<times> string) list \<Rightarrow> (string \<times> string) list" where
  "set_headers hs base = foldl (\<lambda>b (k, v). AList.update k v b) base hs"

definition json_Post :: "'w json_client \<Rightarrow> string \<Rightarrow> json \<Rightarrow> (string \<Rightarrow> go_error + 'a) \<Rightarrow> (string \<times> string) list \<Rightarrow> 'w
    \<Rightarrow> (go_error + 'a) \<times> 'w" where
  "json_Post c url body decode extra w =
     (case jc_request c url of
        Some e \<Rightarrow> (Inl (Errorf ''%s: failed to create request: %w'' [FStr (jc_provider c), FWrap e]), w)
      | None \<Rightarrow>
          (case jc_http c \<lparr>jp_url = url,
              jp_headers = set_headers extra (set_headers (jc_headers c) [(''Content-Type'', ''application/json'')]), jp_body = body\<rparr> w of
             (Inl e, w') \<Rightarrow> (Inl (Errorf ''%s: request failed: %w'' [FStr (jc_provider c), FWrap e]), w')
           | (Inr r, w') \<Rightarrow>
               ((case hr_fail r of
                   Some e \<Rightarrow> Inl (Errorf ''%s: failed to read response: %w'' [FStr (jc_provider c), FWrap e])
                 | None \<Rightarrow>
                     if hr_status r < 200 \<or> hr_status r > 299 then
                       Inl (api_failure (jc_provider c) (\<lambda>b. Some (jc_error c b)) r)
                     else (case decode (hr_body r) of
                         Inl e \<Rightarrow> Inl (Errorf ''%s: failed to parse response: %w'' [FStr (jc_provider c), FWrap e])
                       | Inr x \<Rightarrow> Inr x)), w')))"

text \<open>\<open>parse\<close> reads JSON text; \<open>raw\<close> gives the text of a member.\<close>

definition error_message :: "json \<Rightarrow> string option" where
  "error_message = dec_obj (\<lambda>kv. dec_obj (\<lambda>e. dec_str (member ''message'' e)) (member ''error'' kv))"

definition OpenAIError :: "(string \<Rightarrow> json option) \<Rightarrow> string \<Rightarrow> string" where
  "OpenAIError parse body = (case parse body of
     None \<Rightarrow> []
   | Some j \<Rightarrow> (case error_message j of None \<Rightarrow> [] | Some m \<Rightarrow> m))"

definition has_member :: "string \<Rightarrow> json \<Rightarrow> bool" where
  "has_member k j = (case j of JObj kvs \<Rightarrow> list_ex (\<lambda>(x, v). ToLower x = ToLower k) kvs | _ \<Rightarrow> False)"

definition DetailError :: "(string \<Rightarrow> json option) \<Rightarrow> (string \<Rightarrow> string) \<Rightarrow> string \<Rightarrow> string" where
  "DetailError parse raw body =
     (case parse body of
        Some (JObj kvs) \<Rightarrow>
          if \<not> has_member ''detail'' (JObj kvs) then OpenAIError parse body
          else (case dec_str (member ''detail'' kvs) of
              Some s \<Rightarrow> s
            | None \<Rightarrow>
                (case dec_list (dec_obj (\<lambda>kv. dec_str (member ''msg'' kv))) (member ''detail'' kvs) of
                   Some (m # ms) \<Rightarrow> Join (filter (\<lambda>m. m \<noteq> []) (m # ms)) ''; ''
                 | _ \<Rightarrow> raw body))
      | _ \<Rightarrow> OpenAIError parse body)"

section \<open>OpenAI\<close>

record o_probability =
  op_value :: json
  op_label :: string
  op_probability :: rat

record o_answer =
  oa_type :: string
  oa_name :: string
  oa_probability :: rat
  oa_choice :: string
  oa_score :: rat
  oa_confidence :: "rat option"
  oa_probabilities :: "o_probability list"

record o_decisions =
  od_model :: string
  od_answers :: "o_answer list"
  od_input :: int
  od_output :: int
  od_cached :: int
  od_cache_write :: int

definition o_part :: "string \<Rightarrow> string \<Rightarrow> string \<Rightarrow> json" where
  "o_part ty x url = JObj ([(''type'', JStr ty)] @ omit_str ''text'' x @ omit_str ''image_url'' url)"

definition o_input :: "decide_request \<Rightarrow> json" where
  "o_input req =
     (if dr_parts req = [] then JStr (dr_input req)
      else JArr [JObj [(''role'', JStr ''user''), (''content'', JArr (
        (if dr_input req = [] then [] else [o_part ''input_text'' (dr_input req) []]) @
        map (\<lambda>p. if cp_type p = ContentImage then o_part ''input_image'' [] (cp_image_url p)
          else o_part ''input_text'' (cp_text p) []) (dr_parts req)))]])"

definition o_instructions :: "question \<Rightarrow> string" where
  "o_instructions q = q_instructions q @
     (if q_kind q = Predicate \<and> (q_yes_when q \<noteq> [] \<or> q_no_when q \<noteq> []) then
        (if q_yes_when q \<noteq> [] then [CHR 0x0A] @ ''Answer yes when: '' @ q_yes_when q else []) @
        (if q_no_when q \<noteq> [] then [CHR 0x0A] @ ''Answer no when: '' @ q_no_when q else [])
      else [])"

definition o_items :: "string \<Rightarrow> option_item list \<Rightarrow> json" where
  "o_items key items = JArr (map (\<lambda>it. JObj ([(key, JStr (oi_value it))] @ omit_str ''description'' (oi_description it))) items)"

definition o_question :: "question \<Rightarrow> json" where
  "o_question q = JObj ([(''type'', JStr (q_kind q)), (''name'', JStr (q_name q))] @ omit_str ''instructions'' (o_instructions q) @
     omit ''choices'' (q_options q = []) (o_items ''value'' (q_options q)) @
     omit ''levels'' (q_levels q = []) (o_items ''label'' (q_levels q)))"

definition o_body :: "string \<Rightarrow> decide_request \<Rightarrow> json" where
  "o_body model req = JObj [(''model'', JStr model), (''input'', o_input req), (''questions'', JArr (map o_question (dr_questions req)))]"

text \<open>The map from values or labels to probabilities; absent keys read as 0.\<close>

fun o_got :: "question \<Rightarrow> nat \<Rightarrow> o_probability list \<Rightarrow> (string \<Rightarrow> rat) \<Rightarrow> (string \<Rightarrow> rat)" where
  "o_got q i [] got = got"
| "o_got q i (p # ps) got =
     o_got q (i + 1) ps
       (if q_kind q = Choice then (case op_value p of JStr v \<Rightarrow> got(v := op_probability p) | _ \<Rightarrow> got)
        else if q_kind q = Score then
          (let key = (if op_label p = [] \<and> i < length (q_levels q) then oi_value (q_levels q ! i) else op_label p)
           in got(key := op_probability p))
        else got)"

definition reported :: "question \<Rightarrow> probabilities \<Rightarrow> string \<Rightarrow> rat \<Rightarrow> rat option \<Rightarrow> answer" where
  "reported q probs choice score confidence =
     (let out = DistributionAnswer (q_name q) (q_kind q) probs;
          out1 = (if q_kind q = Choice \<and> choice \<noteq> [] then out\<lparr>an_choice := choice\<rparr> else out);
          out2 = (if q_kind q = Score then out1\<lparr>an_score := score\<rparr> else out1)
      in case confidence of None \<Rightarrow> out2 | Some c \<Rightarrow> out2\<lparr>an_confidence := c\<rparr>)"

definition refused :: "question \<Rightarrow> answer" where
  "refused q = zero_answer\<lparr>an_name := q_name q, an_kind := q_kind q, an_refused := True\<rparr>"

definition o_fromAnswer :: "question \<Rightarrow> o_answer \<Rightarrow> answer" where
  "o_fromAnswer q a =
     (if oa_type a = ''refusal'' then refused q
      else if q_kind q = Predicate then PredicateAnswer (q_name q) (oa_probability a)
      else
        (let got = o_got q 0 (oa_probabilities a) (\<lambda>_. 0)
         in reported q (map (\<lambda>v. (v, got v)) (question_values q)) (oa_choice a) (oa_score a) (oa_confidence a)))"

definition by_name :: "o_answer list \<Rightarrow> string \<Rightarrow> o_answer option" where
  "by_name as n = foldl (\<lambda>m a. m(oa_name a \<mapsto> a)) Map.empty as n"

fun o_answers :: "(string \<Rightarrow> o_answer option) \<Rightarrow> question list \<Rightarrow> go_error + answer list" where
  "o_answers by [] = Inr []"
| "o_answers by (q # qs) =
     (case by (q_name q) of
        None \<Rightarrow> Inl (Errorf ''openai: no answer to question %q'' [FStr (q_name q)])
      | Some a \<Rightarrow> (case o_answers by qs of Inl e \<Rightarrow> Inl e | Inr as \<Rightarrow> Inr (o_fromAnswer q a # as)))"

record 'w decide_service =
  dv_url :: string
  dv_model :: string
  dv_client :: "'w json_client"

definition o_Decide :: "'w decide_service \<Rightarrow> (string \<Rightarrow> go_error + o_decisions) \<Rightarrow> 'w decider" where
  "o_Decide d decode req w =
     (case Validate req of
        Some e \<Rightarrow> (Inl e, w)
      | None \<Rightarrow>
          (let model = (if dr_model req = [] then dv_model d else dr_model req) in
           case json_Post (dv_client d) (dv_url d) (o_body model req) decode [] w of
             (Inl e, w') \<Rightarrow> (Inl e, w')
           | (Inr resp, w') \<Rightarrow>
               ((case o_answers (by_name (od_answers resp)) (dr_questions req) of
                   Inl e \<Rightarrow> Inl e
                 | Inr as \<Rightarrow> Inr \<lparr>dp_answers = as, dp_model = (if od_model resp = [] then model else od_model resp),
                     dp_usage = zero_usage\<lparr>prompt_tokens := od_input resp, completion_tokens := od_output resp,
                       total_tokens := od_input resp + od_output resp, cached_tokens := od_cached resp,
                       cache_creation_tokens := od_cache_write resp\<rparr>\<rparr>), w')))"

definition service_options :: "('w decide_service \<Rightarrow> 'w decide_service) list \<Rightarrow> 'w decide_service \<Rightarrow> 'w decide_service" where
  "service_options opts d = foldl (\<lambda>d opt. opt d) d opts"

definition o_New :: "(string \<Rightarrow> json option) \<Rightarrow> (string \<Rightarrow> go_error option) \<Rightarrow> (json_post, 'w) transport \<Rightarrow> string
    \<Rightarrow> ('w decide_service \<Rightarrow> 'w decide_service) list \<Rightarrow> 'w decide_service" where
  "o_New parse request http apiKey opts = service_options opts
     \<lparr>dv_url = ''https://api.openai.com/v1/decisions'', dv_model = ''gpt-6-luna'',
      dv_client = \<lparr>jc_provider = ''openai'', jc_headers = [(''Authorization'', ''Bearer '' @ apiKey)],
        jc_error = OpenAIError parse, jc_request = request, jc_http = http\<rparr>\<rparr>"

definition dv_WithBaseURL :: "string \<Rightarrow> 'w decide_service \<Rightarrow> 'w decide_service" where
  "dv_WithBaseURL url d = d\<lparr>dv_url := url\<rparr>"

definition dv_WithModel :: "string \<Rightarrow> 'w decide_service \<Rightarrow> 'w decide_service" where
  "dv_WithModel model d = d\<lparr>dv_model := model\<rparr>"

section \<open>System One\<close>

record s_asset =
  sa_format :: string
  sa_data :: string

record s_answer =
  sw_noul :: rat
  sw_choice :: string
  sw_score :: rat
  sw_confidence :: "rat option"
  sw_probabilities :: "string \<Rightarrow> rat option"

record s_decisions =
  sd_model :: string
  sd_answers :: "string \<Rightarrow> s_answer option"
  sd_input :: int
  sd_output :: int

text \<open>\<open>strings.Cut\<close> at a separator of several bytes.\<close>

fun cut_at :: "string \<Rightarrow> string \<Rightarrow> (string \<times> string) option" where
  "cut_at sep [] = (if sep = [] then Some ([], []) else None)"
| "cut_at sep (c # s) =
     (if prefix sep (c # s) then Some ([], drop (length sep) (c # s))
      else map_option (\<lambda>(a, b). (c # a, b)) (cut_at sep s))"

definition unsupported :: "string \<Rightarrow> fmt_arg list \<Rightarrow> go_error" where
  "unsupported fmt args = Errorf fmt (args @ [FWrap (Sentinel ''unsupported content'')])"

definition toAsset :: "string \<Rightarrow> go_error + s_asset" where
  "toAsset uri =
     (case cut_at '';base64,'' (TrimPrefix uri ''data:'') of
        Some (mt, data) \<Rightarrow>
          if \<not> HasPrefix uri ''data:'' then Inl (unsupported ''systemone: images must be base64 data URIs: %w'' [])
          else if mt = ''image/png'' then Inr \<lparr>sa_format = ''png'', sa_data = data\<rparr>
          else if mt = ''image/jpeg'' \<or> mt = ''image/jpg'' then Inr \<lparr>sa_format = ''jpeg'', sa_data = data\<rparr>
          else Inl (unsupported ''systemone: %s images: %w'' [FStr mt])
      | None \<Rightarrow> Inl (unsupported ''systemone: images must be base64 data URIs: %w'' []))"

definition hex_byte :: "nat \<Rightarrow> string" where
  "hex_byte b = [''0123456789abcdef'' ! (b div 16), ''0123456789abcdef'' ! (b mod 16)]"

text \<open>The 16 bytes with version and variant set: \<open>b & 0x0f | 0x40\<close> and \<open>b & 0x3f | 0x80\<close>.\<close>

definition uuid_of :: "nat list \<Rightarrow> string" where
  "uuid_of b =
     (let b1 = b[6 := b ! 6 mod 16 + 64]; b2 = b1[8 := b1 ! 8 mod 64 + 128]; h = concat (map hex_byte b2)
      in take 8 h @ ''-'' @ take 4 (drop 8 h) @ ''-'' @ take 4 (drop 12 h) @ ''-'' @ take 4 (drop 16 h) @ ''-'' @ drop 20 h)"

type_synonym 'w random_source = "'w \<Rightarrow> (go_error + nat list) \<times> 'w"

definition placeholder :: "'w random_source \<Rightarrow> 'w \<Rightarrow> (go_error + string) \<times> 'w" where
  "placeholder rand w = (case rand w of (Inl e, w') \<Rightarrow> (Inl e, w') | (Inr b, w') \<Rightarrow> (Inr (uuid_of b), w'))"

text \<open>The state so far and the assets, by placeholder.\<close>

fun state_parts :: "'w random_source \<Rightarrow> content_part list \<Rightarrow> string list \<Rightarrow> (string \<times> s_asset) list \<Rightarrow> 'w
    \<Rightarrow> (go_error + string list \<times> (string \<times> s_asset) list) \<times> 'w" where
  "state_parts rand [] state assets w = (Inr (state, assets), w)"
| "state_parts rand (p # ps) state assets w =
     (if cp_type p = ContentText then state_parts rand ps (state @ [cp_text p]) assets w
      else case toAsset (cp_image_url p) of
          Inl e \<Rightarrow> (Inl e, w)
        | Inr a \<Rightarrow>
            (case placeholder rand w of
               (Inl e, w') \<Rightarrow> (Inl e, w')
             | (Inr i, w') \<Rightarrow> state_parts rand ps (state @ [i]) (AList.update i a assets) w'))"

definition buildState :: "'w random_source \<Rightarrow> decide_request \<Rightarrow> 'w \<Rightarrow> (go_error + json \<times> (string \<times> s_asset) list) \<times> 'w" where
  "buildState rand req w =
     (if dr_parts req = [] then (Inr (JStr (dr_input req), []), w)
      else case state_parts rand (dr_parts req) (if dr_input req = [] then [] else [dr_input req]) [] w of
          (Inl e, w') \<Rightarrow> (Inl e, w')
        | (Inr (state, assets), w') \<Rightarrow> (Inr (JArr (map JStr state), assets), w'))"

definition s_criteria :: "question \<Rightarrow> json option" where
  "s_criteria q =
     (if q_kind q = Predicate then
        (if q_yes_when q = [] \<and> q_no_when q = [] then None
         else Some (JObj ((if q_yes_when q = [] then [] else [(''true'', JStr (q_yes_when q))]) @
           (if q_no_when q = [] then [] else [(''false'', JStr (q_no_when q))]))))
      else if q_kind q = Choice then
        Some (JObj (map (\<lambda>it. (oi_value it, if oi_description it = [] then JNull else JStr (oi_description it))) (q_options q)))
      else if q_kind q = Score then
        Some (JArr (map (\<lambda>it. JStr (oi_value it @ (if oi_description it = [] then [] else '': '' @ oi_description it))) (q_levels q)))
      else None)"

definition s_question :: "question \<Rightarrow> json" where
  "s_question q = JObj ([(''type'', JStr (if q_kind q = Predicate then ''noul'' else if q_kind q = Choice then ''choice''
       else if q_kind q = Score then ''score'' else []))] @
     omit_str ''instructions'' (q_instructions q) @ (case s_criteria q of None \<Rightarrow> [] | Some c \<Rightarrow> [(''criteria'', c)]))"

definition s_body :: "string \<Rightarrow> json \<Rightarrow> (string \<times> s_asset) list \<Rightarrow> decide_request \<Rightarrow> json" where
  "s_body model state assets req = JObj ([(''model'', JStr model), (''state'', state),
      (''questions'', JObj (map (\<lambda>q. (q_name q, s_question q)) (dr_questions req)))] @
      omit ''assets'' (assets = []) (JObj (map (\<lambda>(i, a). (i, JObj [(''type'', JStr ''image''), (''format'', JStr (sa_format a)),
        (''data_base64'', JStr (sa_data a))])) assets)))"

definition s_fromAnswer :: "question \<Rightarrow> s_answer \<Rightarrow> answer" where
  "s_fromAnswer q a =
     (if q_kind q = Predicate then PredicateAnswer (q_name q) (sw_noul a)
      else
        (let got = (\<lambda>k. case sw_probabilities a k of None \<Rightarrow> 0 | Some p \<Rightarrow> p)
         in reported q (map (\<lambda>it. (oi_value it, got (oi_value it))) (q_options q) @
              map (\<lambda>(i, it). (oi_value it, got (nat_dec i))) (List.enumerate 0 (q_levels q)))
              (sw_choice a) (sw_score a) (sw_confidence a)))"

definition s_Decide :: "'w decide_service \<Rightarrow> 'w random_source \<Rightarrow> (string \<Rightarrow> go_error + s_decisions) \<Rightarrow> 'w decider" where
  "s_Decide d rand decode req w =
     (case Validate req of
        Some e \<Rightarrow> (Inl e, w)
      | None \<Rightarrow>
          (case buildState rand req w of
             (Inl e, w1) \<Rightarrow> (Inl e, w1)
           | (Inr (state, assets), w1) \<Rightarrow>
               (case json_Post (dv_client d) (dv_url d)
                   (s_body (if dr_model req = [] then dv_model d else dr_model req) state assets req) decode
                   (if assets = [] then [] else [(''TypeSafe-Danger-Zone-Images'', ''true'')]) w1 of
                  (Inl e, w2) \<Rightarrow> (Inl e, w2)
                | (Inr resp, w2) \<Rightarrow>
                    (Inr \<lparr>dp_answers = map (\<lambda>q. case sd_answers resp (q_name q) of None \<Rightarrow> refused q | Some a \<Rightarrow> s_fromAnswer q a)
                        (dr_questions req),
                       dp_model = sd_model resp,
                       dp_usage = zero_usage\<lparr>prompt_tokens := sd_input resp, completion_tokens := sd_output resp,
                         total_tokens := sd_input resp + sd_output resp\<rparr>\<rparr>, w2))))"

definition s_New :: "(string \<Rightarrow> json option) \<Rightarrow> (string \<Rightarrow> string) \<Rightarrow> (string \<Rightarrow> go_error option) \<Rightarrow> (json_post, 'w) transport \<Rightarrow> string
    \<Rightarrow> ('w decide_service \<Rightarrow> 'w decide_service) list \<Rightarrow> 'w decide_service" where
  "s_New parse raw request http apiKey opts = service_options opts
     \<lparr>dv_url = ''https://api.typesafe.ai/v1/systemone'', dv_model = ''jev-latest'',
      dv_client = \<lparr>jc_provider = ''systemone'', jc_headers = (if apiKey = [] then [] else [(''Authorization'', ''Bearer '' @ apiKey)]),
        jc_error = DetailError parse raw, jc_request = request, jc_http = http\<rparr>\<rparr>"

definition dv_WithHeader :: "string \<Rightarrow> string \<Rightarrow> 'w decide_service \<Rightarrow> 'w decide_service" where
  "dv_WithHeader key v d = d\<lparr>dv_client := (dv_client d)\<lparr>jc_headers := AList.update key v (jc_headers (dv_client d))\<rparr>\<rparr>"

section \<open>What the answers mean\<close>

text \<open>A service's verdict on a question, and the answer it stands for.\<close>

datatype verdict = Refuses | Says rat | Weighs "string \<Rightarrow> rat" string rat "rat option"

fun verdict_answer :: "question \<Rightarrow> verdict \<Rightarrow> answer" where
  "verdict_answer q Refuses = refused q"
| "verdict_answer q (Says p) = PredicateAnswer (q_name q) p"
| "verdict_answer q (Weighs f choice score confidence) = reported q (map (\<lambda>v. (v, f v)) (question_values q)) choice score confidence"

text \<open>
  How each API reports a verdict: OpenAI lists probabilities by value or label, in any order, and may
  leave out those that are 0; System One keys them by value or by level number, and leaves out an
  answer it refuses.
\<close>

definition one_scale :: "question \<Rightarrow> bool" where
  "one_scale q \<longleftrightarrow> q_kind q = Choice \<and> q_levels q = [] \<or> q_kind q = Score \<and> q_options q = []"

definition lists :: "question \<Rightarrow> (string \<Rightarrow> rat) \<Rightarrow> o_probability list \<Rightarrow> bool" where
  "lists q f ps \<longleftrightarrow>
     (\<exists>vs. distinct vs \<and> [] \<notin> set vs \<and> (\<forall>v \<in> set (question_values q) - set vs. f v = 0) \<and>
       list_all2 (\<lambda>v p. op_probability p = f v \<and> (if q_kind q = Choice then op_value p = JStr v else op_label p = v)) vs ps)"

fun o_reports :: "question \<Rightarrow> verdict \<Rightarrow> o_answer \<Rightarrow> bool" where
  "o_reports q Refuses a \<longleftrightarrow> oa_type a = ''refusal''"
| "o_reports q (Says p) a \<longleftrightarrow> oa_type a \<noteq> ''refusal'' \<and> q_kind q = Predicate \<and> oa_probability a = p"
| "o_reports q (Weighs f choice score confidence) a \<longleftrightarrow> oa_type a \<noteq> ''refusal'' \<and> one_scale q \<and> lists q f (oa_probabilities a) \<and>
     oa_choice a = choice \<and> oa_score a = score \<and> oa_confidence a = confidence"

fun s_reports :: "question \<Rightarrow> verdict \<Rightarrow> s_answer option \<Rightarrow> bool" where
  "s_reports q Refuses r \<longleftrightarrow> r = None"
| "s_reports q (Says p) r \<longleftrightarrow> q_kind q = Predicate \<and> (\<exists>a. r = Some a \<and> sw_noul a = p)"
| "s_reports q (Weighs f choice score confidence) r \<longleftrightarrow> one_scale q \<and> (\<exists>a. r = Some a \<and>
     (\<forall>it \<in> set (q_options q). sw_probabilities a (oi_value it) = Some (f (oi_value it))) \<and>
     (\<forall>i < length (q_levels q). sw_probabilities a (nat_dec i) = Some (f (oi_value (q_levels q ! i)))) \<and>
     sw_choice a = choice \<and> sw_score a = score \<and> sw_confidence a = confidence)"

lemma o_got_listed:
  assumes "list_all2 (\<lambda>v p. op_probability p = f v \<and> (if q_kind q = Choice then op_value p = JStr v else op_label p = v)) vs ps"
    and "distinct vs" "[] \<notin> set vs" "q_kind q = Choice \<or> q_kind q = Score"
  shows "o_got q i ps g v = (if v \<in> set vs then f v else g v)"
  using assms
proof (induction vs ps arbitrary: i g rule: list_all2_induct)
  case (Cons u vs p ps)
  have "o_got q i (p # ps) g = o_got q (i + 1) ps (g(u := f u))"
    using Cons.hyps(1) Cons.prems(2,3) by auto
  moreover have "o_got q (i + 1) ps (g(u := f u)) v = (if v \<in> set vs then f v else (g(u := f u)) v)"
    by (rule Cons.IH) (use Cons.prems in simp_all)
  ultimately show ?case by simp
qed simp

lemma o_report_answer: "o_reports q v a \<Longrightarrow> o_fromAnswer q a = verdict_answer q v"
proof (cases v)
  case (Weighs f choice score confidence)
  assume r: "o_reports q v a"
  then obtain vs where vs: "distinct vs" "[] \<notin> set vs" "\<forall>u \<in> set (question_values q) - set vs. f u = 0"
    "list_all2 (\<lambda>v p. op_probability p = f v \<and> (if q_kind q = Choice then op_value p = JStr v else op_label p = v)) vs (oa_probabilities a)"
    and k: "q_kind q = Choice \<or> q_kind q = Score" "q_kind q \<noteq> Predicate"
    by (auto simp: Weighs lists_def one_scale_def)
  have "o_got q 0 (oa_probabilities a) (\<lambda>_. 0) u = f u" if "u \<in> set (question_values q)" for u
    using o_got_listed [OF vs(4,1,2) k(1)] vs(3) that by auto
  then have "map (\<lambda>u. (u, o_got q 0 (oa_probabilities a) (\<lambda>_. 0) u)) (question_values q) = map (\<lambda>u. (u, f u)) (question_values q)"
    by simp
  then show ?thesis using r k(2) by (simp add: Weighs o_fromAnswer_def Let_def cong: map_cong)
qed (auto simp: o_fromAnswer_def)

lemma s_report_answer:
  assumes "s_reports q v r"
  shows "(case r of None \<Rightarrow> refused q | Some a \<Rightarrow> s_fromAnswer q a) = verdict_answer q v"
proof (cases v)
  case (Weighs f choice score confidence)
  then obtain a where a: "r = Some a" "one_scale q"
    "\<forall>it \<in> set (q_options q). sw_probabilities a (oi_value it) = Some (f (oi_value it))"
    "\<forall>i < length (q_levels q). sw_probabilities a (nat_dec i) = Some (f (oi_value (q_levels q ! i)))"
    "sw_choice a = choice" "sw_score a = score" "sw_confidence a = confidence" using assms by auto
  have "map (\<lambda>(i, it). (oi_value it, case sw_probabilities a (nat_dec i) of None \<Rightarrow> 0 | Some p \<Rightarrow> p)) (List.enumerate 0 (q_levels q)) =
      map (\<lambda>it. (oi_value it, f (oi_value it))) (q_levels q)"
    using a(4) by (intro nth_equalityI) (simp_all add: nth_enumerate_eq)
  moreover have "map (\<lambda>it. (oi_value it, case sw_probabilities a (oi_value it) of None \<Rightarrow> 0 | Some p \<Rightarrow> p)) (q_options q) =
      map (\<lambda>it. (oi_value it, f (oi_value it))) (q_options q)"
    using a(3) by simp
  moreover have "q_kind q \<noteq> Predicate" using a(2) by (auto simp: one_scale_def)
  ultimately show ?thesis using a(1,5,6,7) by (simp add: Weighs s_fromAnswer_def Let_def question_values_def comp_def cong: map_cong)
qed (use assms in \<open>auto simp: s_fromAnswer_def\<close>)

lemma o_answers_verdicts:
  assumes "\<forall>q \<in> set qs. \<exists>a. by (q_name q) = Some a \<and> o_reports q (v q) a"
  shows "o_answers by qs = Inr (map (\<lambda>q. verdict_answer q (v q)) qs)"
  using assms by (induction qs) (auto simp: o_report_answer)

text \<open>
  C27. The two services are interchangeable: given the same verdicts, reported the way each API does,
  both deciders answer every question of a valid request, in the request's order, with the answer the
  verdict stands for.
\<close>

theorem decide_backends_agree:
  assumes "Validate req = None"
    and "json_Post (dv_client d) (dv_url d) (o_body (if dr_model req = [] then dv_model d else dr_model req) req) o_decode [] w = (Inr oresp, w1)"
    and "\<forall>q \<in> set (dr_questions req). \<exists>a. by_name (od_answers oresp) (q_name q) = Some a \<and> o_reports q (v q) a"
    and "buildState rand req w = (Inr (state, assets), w2)"
    and "json_Post (dv_client d') (dv_url d') (s_body (if dr_model req = [] then dv_model d' else dr_model req) state assets req) s_decode
      (if assets = [] then [] else [(''TypeSafe-Danger-Zone-Images'', ''true'')]) w2 = (Inr sresp, w3)"
    and "\<forall>q \<in> set (dr_questions req). s_reports q (v q) (sd_answers sresp (q_name q))"
  shows "\<exists>r r'. o_Decide d o_decode req w = (Inr r, w1) \<and> s_Decide d' rand s_decode req w = (Inr r', w3) \<and>
    dp_answers r = map (\<lambda>q. verdict_answer q (v q)) (dr_questions req) \<and> dp_answers r' = dp_answers r"
proof -
  have "dp_answers r = map (\<lambda>q. verdict_answer q (v q)) (dr_questions req)"
    if "s_Decide d' rand s_decode req w = (Inr r, w3)" for r
    using that assms(1,4,5,6) s_report_answer by (auto simp: s_Decide_def)
  moreover have "\<exists>r. s_Decide d' rand s_decode req w = (Inr r, w3)" using assms(1,4,5) by (simp add: s_Decide_def)
  moreover have "\<exists>r. o_Decide d o_decode req w = (Inr r, w1) \<and> dp_answers r = map (\<lambda>q. verdict_answer q (v q)) (dr_questions req)"
    using assms(1,2) o_answers_verdicts [OF assms(3)] by (simp add: o_Decide_def Let_def)
  ultimately show ?thesis by fastforce
qed

text \<open>Levels without labels are taken by their place in the answer, not by the level number they carry.\<close>

lemma unlabelled_levels_by_place:
  "o_got (NewScore n i [\<lparr>oi_value = ''low'', oi_description = []\<rparr>, \<lparr>oi_value = ''high'', oi_description = []\<rparr>]) 0
     [\<lparr>op_value = JNum 1, op_label = [], op_probability = 9 / 10\<rparr>, \<lparr>op_value = JNum 0, op_label = [], op_probability = 1 / 10\<rparr>]
     (\<lambda>_. 0) ''low'' = 9 / 10"
  by (simp add: NewScore_def zero_question_def)

lemma uuid_shape:
  assumes "length b = 16"
  shows "length (uuid_of b) = 36"
proof -
  have "length (concat (map hex_byte bs)) = 2 * length bs" for bs by (induction bs) (simp_all add: hex_byte_def)
  then show ?thesis using assms by (simp add: uuid_of_def Let_def)
qed

section \<open>A concrete question\<close>

definition color_request :: decide_request where
  "color_request = \<lparr>dr_model = [], dr_input = ''sky'', dr_parts = [], dr_questions = [NewChoice ''color'' ''which?''
     [\<lparr>oi_value = ''blue'', oi_description = []\<rparr>, \<lparr>oi_value = ''red'', oi_description = []\<rparr>]]\<rparr>"

definition color_weight :: "string \<Rightarrow> rat" where
  "color_weight v = (if v = ''blue'' then 3 / 4 else if v = ''red'' then 1 / 4 else 0)"

definition color_verdict :: "question \<Rightarrow> verdict" where
  "color_verdict q = Weighs color_weight ''blue'' 0 None"

text \<open>OpenAI lists red first.\<close>

definition o_colors :: o_decisions where
  "o_colors = \<lparr>od_model = [], od_answers = [\<lparr>oa_type = ''choice'', oa_name = ''color'', oa_probability = 0, oa_choice = ''blue'', oa_score = 0,
      oa_confidence = None, oa_probabilities = [\<lparr>op_value = JStr ''red'', op_label = [], op_probability = 1 / 4\<rparr>,
        \<lparr>op_value = JStr ''blue'', op_label = [], op_probability = 3 / 4\<rparr>]\<rparr>], od_input = 5, od_output = 1, od_cached = 0, od_cache_write = 0\<rparr>"

definition s_colors :: s_decisions where
  "s_colors = \<lparr>sd_model = ''m'', sd_answers = [''color'' \<mapsto> \<lparr>sw_noul = 0, sw_choice = ''blue'', sw_score = 0, sw_confidence = None,
      sw_probabilities = (\<lambda>v. Some (color_weight v))\<rparr>], sd_input = 5, sd_output = 1\<rparr>"

definition yes_http :: "(json_post, unit) transport" where
  "yes_http = (\<lambda>q w. (Inr \<lparr>hr_status = 200, hr_body = ''{}'', hr_fail = None, hr_retry_after = 0\<rparr>, w))"

theorem decide_backends_agree_witness:
  "\<exists>r r'. o_Decide (o_New (\<lambda>_. None) (\<lambda>_. None) yes_http ''k'' []) (\<lambda>_. Inr o_colors) color_request () = (Inr r, ()) \<and>
    s_Decide (s_New (\<lambda>_. None) (\<lambda>s. s) (\<lambda>_. None) yes_http ''k'' []) (\<lambda>w. (Inr [], w)) (\<lambda>_. Inr s_colors) color_request () = (Inr r', ()) \<and>
    dp_answers r = map (\<lambda>q. verdict_answer q (color_verdict q)) (dr_questions color_request) \<and> dp_answers r' = dp_answers r"
proof (rule decide_backends_agree)
  show "Validate color_request = None"
    by (simp add: Validate_def color_request_def NewChoice_def zero_question_def check_kind_def)
  show "buildState (\<lambda>w. (Inr [], w)) color_request () = (Inr (JStr ''sky'', []), ())"
    by (simp add: buildState_def color_request_def)
  show "json_Post (dv_client (o_New (\<lambda>_. None) (\<lambda>_. None) yes_http ''k'' [])) u b (\<lambda>_. Inr o_colors) [] () = (Inr o_colors, ())" for u b
    by (simp add: json_Post_def o_New_def service_options_def yes_http_def)
  show "json_Post (dv_client (s_New (\<lambda>_. None) (\<lambda>s. s) (\<lambda>_. None) yes_http ''k'' [])) u b (\<lambda>_. Inr s_colors) x () = (Inr s_colors, ())" for u b x
    by (simp add: json_Post_def s_New_def service_options_def yes_http_def)
  show "\<forall>q \<in> set (dr_questions color_request). \<exists>a. by_name (od_answers o_colors) (q_name q) = Some a \<and> o_reports q (color_verdict q) a"
  proof
    fix q assume "q \<in> set (dr_questions color_request)"
    then have q: "q_name q = ''color''" "q_kind q = Choice" "q_levels q = []" "question_values q = [''blue'', ''red'']"
      by (simp_all add: color_request_def NewChoice_def zero_question_def question_values_def)
    have "lists q color_weight (oa_probabilities (hd (od_answers o_colors)))"
      unfolding lists_def by (rule exI [of _ "[''red'', ''blue'']"]) (simp add: q o_colors_def color_weight_def)
    then show "\<exists>a. by_name (od_answers o_colors) (q_name q) = Some a \<and> o_reports q (color_verdict q) a"
      by (intro exI [of _ "hd (od_answers o_colors)"]) (simp add: q by_name_def one_scale_def color_verdict_def o_colors_def)
  qed
  show "\<forall>q \<in> set (dr_questions color_request). s_reports q (color_verdict q) (sd_answers s_colors (q_name q))"
    by (simp add: color_request_def NewChoice_def zero_question_def color_verdict_def one_scale_def s_colors_def)
qed

end
