(* ===== verification/Call_Hooks.thy ===== *)
theory Call_Hooks
  imports Streaming
begin

text \<open>
  Observability hooks (\<open>hooks.go\<close>): a provider that reports each call. A hook acts on the world
  \<open>'w\<close>; the context \<open>'c\<close> that \<open>OnRequest\<close> returns is used for the call and handed to the other
  hooks; \<open>clock\<close> reads the time off the world, \<open>done_err\<close> is the error of a context that is done,
  and \<open>quit i\<close> says that the reader of a stream is gone when event \<open>i\<close> is sent.
\<close>

record ('c, 'w) hooks =
  OnRequest :: "('c \<Rightarrow> completion_request \<Rightarrow> 'w \<Rightarrow> 'c option \<times> 'w) option"
  OnResponse :: "('c \<Rightarrow> completion_request \<Rightarrow> completion_response \<Rightarrow> int \<Rightarrow> 'w \<Rightarrow> 'w) option"
  OnError :: "('c \<Rightarrow> completion_request \<Rightarrow> go_error \<Rightarrow> int \<Rightarrow> 'w \<Rightarrow> 'w) option"
  OnStreamEvent :: "('c \<Rightarrow> completion_request \<Rightarrow> stream_event \<Rightarrow> 'w \<Rightarrow> 'w) option"

definition hooks_start :: "('c, 'w) hooks \<Rightarrow> 'c \<Rightarrow> completion_request \<Rightarrow> 'w \<Rightarrow> 'c \<times> 'w" where
  "hooks_start h c req w = (case OnRequest h of None \<Rightarrow> (c, w)
     | Some f \<Rightarrow> (case f c req w of (None, w') \<Rightarrow> (c, w') | (Some c', w') \<Rightarrow> (c', w')))"

definition hooks_fail :: "('c, 'w) hooks \<Rightarrow> 'c \<Rightarrow> completion_request \<Rightarrow> go_error \<Rightarrow> int \<Rightarrow> 'w \<Rightarrow> 'w" where
  "hooks_fail h c req err elapsed w = (case OnError h of None \<Rightarrow> w | Some f \<Rightarrow> f c req err elapsed w)"

definition hooks_respond :: "('c, 'w) hooks \<Rightarrow> 'c \<Rightarrow> completion_request \<Rightarrow> completion_response \<Rightarrow> int \<Rightarrow> 'w \<Rightarrow> 'w" where
  "hooks_respond h c req resp elapsed w = (case OnResponse h of None \<Rightarrow> w | Some f \<Rightarrow> f c req resp elapsed w)"

definition hooks_Complete :: "('c, 'w) hooks \<Rightarrow> ('w \<Rightarrow> int) \<Rightarrow> ('c \<Rightarrow> 'w complete_fn) \<Rightarrow> 'c \<Rightarrow> 'w complete_fn" where
  "hooks_Complete h clock inner c0 req w0 =
     (case hooks_start h c0 req w0 of (c, w1) \<Rightarrow>
        (case inner c req w1 of
           (Inl err, w2) \<Rightarrow> (Inl err, hooks_fail h c req err (clock w2 - clock w1) w2)
         | (Inr resp, w2) \<Rightarrow> (Inr resp, hooks_respond h c req resp (clock w2 - clock w1) w2)))"

definition stream_error :: "go_error option \<Rightarrow> stream_event \<Rightarrow> go_error option" where
  "stream_error err ev = (if ev_type ev = EventError then (case ev_error ev of None \<Rightarrow> err | Some e \<Rightarrow> Some e) else err)"

text \<open>The forwarding goroutine: the events delivered, and the world at its end.\<close>

fun forward_events :: "('c, 'w) hooks \<Rightarrow> ('w \<Rightarrow> int) \<Rightarrow> ('c \<Rightarrow> go_error) \<Rightarrow> (nat \<Rightarrow> bool) \<Rightarrow> 'c \<Rightarrow> completion_request \<Rightarrow> int
    \<Rightarrow> nat \<Rightarrow> accumulator \<Rightarrow> go_error option \<Rightarrow> stream_event list \<Rightarrow> 'w \<Rightarrow> stream_event list \<times> 'w" where
  "forward_events h clock done_err quit c req start i acc err [] w =
     ([], case err of
         Some e \<Rightarrow> hooks_fail h c req e (clock w - start) w
       | None \<Rightarrow> hooks_respond h c req (acc_response acc) (clock w - start) w)"
| "forward_events h clock done_err quit c req start i acc err (ev # evs) w =
     (let w1 = (case OnStreamEvent h of None \<Rightarrow> w | Some f \<Rightarrow> f c req ev w) in
      if quit i then ([], hooks_fail h c req (done_err c) (clock w1 - start) w1)
      else (case forward_events h clock done_err quit c req start (i + 1) (acc_add acc ev) (stream_error err ev) evs w1 of
          (out, w2) \<Rightarrow> (ev # out, w2)))"

definition hooks_Stream :: "('c, 'w) hooks \<Rightarrow> ('w \<Rightarrow> int) \<Rightarrow> ('c \<Rightarrow> go_error) \<Rightarrow> (nat \<Rightarrow> bool) \<Rightarrow> ('c \<Rightarrow> 'w stream_fn) \<Rightarrow> 'c
    \<Rightarrow> 'w stream_fn" where
  "hooks_Stream h clock done_err quit inner c0 req w0 =
     (case hooks_start h c0 req w0 of (c, w1) \<Rightarrow>
        (case inner c req w1 of
           (Inl err, w2) \<Rightarrow> (Inl err, hooks_fail h c req err (clock w2 - clock w1) w2)
         | (Inr evs, w2) \<Rightarrow>
             (case forward_events h clock done_err quit c req (clock w1) 0 acc_zero None evs w2 of
                (out, w3) \<Rightarrow> (Inr out, w3))))"

section \<open>Reports\<close>

text \<open>Hooks that log every report, under the context it is made in.\<close>

datatype 'c report =
    Requested_call 'c completion_request
  | Responded 'c completion_request completion_response
  | Failed 'c completion_request go_error
  | Streamed 'c completion_request stream_event

definition logging_hooks :: "('c \<Rightarrow> 'c) \<Rightarrow> ('c, 'w \<times> 'c report list) hooks" where
  "logging_hooks traced =
     \<lparr>OnRequest = Some (\<lambda>c req (w, reports). (Some (traced c), (w, reports @ [Requested_call c req]))),
      OnResponse = Some (\<lambda>c req resp t (w, reports). (w, reports @ [Responded c req resp])),
      OnError = Some (\<lambda>c req err t (w, reports). (w, reports @ [Failed c req err])),
      OnStreamEvent = Some (\<lambda>c req ev (w, reports). (w, reports @ [Streamed c req ev]))\<rparr>"

text \<open>A provider that leaves the log alone.\<close>

definition silent :: "('c \<Rightarrow> completion_request \<Rightarrow> 'w \<Rightarrow> 'r \<times> 'w) \<Rightarrow> 'c \<Rightarrow> completion_request \<Rightarrow> 'w \<times> 'l \<Rightarrow> 'r \<times> 'w \<times> 'l" where
  "silent f c req = (\<lambda>(w, reports). case f c req w of (r, w') \<Rightarrow> (r, (w', reports)))"

lemma stream_error_last: "foldl stream_error err evs = (if errors_of evs = [] then err else Some (last (errors_of evs)))"
  by (induction evs rule: rev_induct) (simp_all add: stream_error_def stream_parts_snoc split: option.split)

lemma logged:
  "hooks_start (logging_hooks traced) c req (w, reports) = (traced c, (w, reports @ [Requested_call c req]))"
  "hooks_fail (logging_hooks traced) c req e t (w, reports) = (w, reports @ [Failed c req e])"
  "hooks_respond (logging_hooks traced) c req resp t (w, reports) = (w, reports @ [Responded c req resp])"
  "OnStreamEvent (logging_hooks traced) = Some (\<lambda>c req ev (w, reports). (w, reports @ [Streamed c req ev]))"
  by (simp_all add: hooks_start_def hooks_fail_def hooks_respond_def logging_hooks_def)

lemma forward_logged:
  "forward_events (logging_hooks traced) clock done_err (\<lambda>_. False) c req start i acc err evs (w, reports) =
     (evs, (w, reports @ map (Streamed c req) evs @
       [case foldl stream_error err evs of Some e \<Rightarrow> Failed c req e | None \<Rightarrow> Responded c req (acc_response (foldl acc_add acc evs))]))"
  by (induction evs arbitrary: i acc err reports)
    (simp_all add: logged Let_def split: option.split)

text \<open>
  Hooks see every call exactly once and change nothing: a call gives the outcome of the
  provider, made in the context \<open>OnRequest\<close> returned, and is reported by one \<open>OnRequest\<close> and
  then one \<open>OnResponse\<close> or \<open>OnError\<close> with the same outcome; a stream delivers the provider's
  events, reports each, and ends with the response \<open>CollectStream\<close> would return, or with an error
  exactly when it would fail.
\<close>

theorem hooks_report_once:
  "hooks_Complete (logging_hooks traced) clock (silent answering) c req (w, reports) =
     (case answering (traced c) req w of (r, w') \<Rightarrow>
        (r, (w', reports @ [Requested_call c req, case r of Inl e \<Rightarrow> Failed (traced c) req e | Inr resp \<Rightarrow> Responded (traced c) req resp])))
   \<and> hooks_Stream (logging_hooks traced) clock done_err (\<lambda>_. False) (silent streaming) c req (w, reports) =
     (case streaming (traced c) req w of
        (Inl e, w') \<Rightarrow> (Inl e, (w', reports @ [Requested_call c req, Failed (traced c) req e]))
      | (Inr evs, w') \<Rightarrow> (Inr evs, (w', reports @ Requested_call c req # map (Streamed (traced c) req) evs @
          [case CollectStream evs of
             Inr resp \<Rightarrow> Responded (traced c) req resp
           | Inl e \<Rightarrow> Failed (traced c) req (last (errors_of evs))])))"
proof
  show "hooks_Complete (logging_hooks traced) clock (silent answering) c req (w, reports) =
     (case answering (traced c) req w of (r, w') \<Rightarrow>
        (r, (w', reports @ [Requested_call c req, case r of Inl e \<Rightarrow> Failed (traced c) req e | Inr resp \<Rightarrow> Responded (traced c) req resp])))"
    by (simp add: hooks_Complete_def silent_def logged split: prod.split sum.split)
  have "(case foldl stream_error None evs of Some e \<Rightarrow> Failed (traced c) req e
      | None \<Rightarrow> Responded (traced c) req (acc_response (foldl acc_add acc_zero evs))) =
    (case CollectStream evs of Inr resp \<Rightarrow> Responded (traced c) req resp | Inl e \<Rightarrow> Failed (traced c) req (last (errors_of evs)))" for evs
    by (simp add: stream_error_last CollectStream_eq first_error_def acc_response_assembled split: list.split)
  then show "hooks_Stream (logging_hooks traced) clock done_err (\<lambda>_. False) (silent streaming) c req (w, reports) =
     (case streaming (traced c) req w of
        (Inl e, w') \<Rightarrow> (Inl e, (w', reports @ [Requested_call c req, Failed (traced c) req e]))
      | (Inr evs, w') \<Rightarrow> (Inr evs, (w', reports @ Requested_call c req # map (Streamed (traced c) req) evs @
          [case CollectStream evs of
             Inr resp \<Rightarrow> Responded (traced c) req resp
           | Inl e \<Rightarrow> Failed (traced c) req (last (errors_of evs))])))"
    by (simp add: hooks_Stream_def silent_def logged forward_logged split: prod.split sum.split)
qed

text \<open>
  A stream with two errors: the hook is told the last, the accumulator, and so every collecting
  caller, the first.
\<close>

lemma hooks_report_last_error:
  "hooks_Stream (logging_hooks (\<lambda>c. c)) (\<lambda>_. 0) (\<lambda>_. e1) (\<lambda>_. False) (silent (\<lambda>c req w. (Inr [error_event e1, error_event e2], w))) () req ((), []) =
     (Inr [error_event e1, error_event e2],
      ((), [Requested_call () req, Streamed () req (error_event e1), Streamed () req (error_event e2), Failed () req e2]))"
  "CollectStream [error_event e1, error_event e2] = Inl e1"
  by (simp_all add: hooks_Stream_def silent_def logged forward_logged)
    (simp_all add: logged stream_error_def record_defs CollectStream_eq first_error_def errors_of_def List.map_filter_def)

text \<open>A reader that goes away is reported as the error of its context.\<close>

lemma hooks_report_quit:
  assumes "streaming (traced c) req w = (Inr (ev # evs), w')"
  shows "hooks_Stream (logging_hooks traced) clock done_err (\<lambda>i. i = 0) (silent streaming) c req (w, reports) =
    (Inr [], (w', reports @ [Requested_call c req, Streamed (traced c) req ev, Failed (traced c) req (done_err (traced c))]))"
  using assms by (simp add: hooks_Stream_def silent_def logged)

end
