(* ===== verification/Prompt_Templates.thy ===== *)
theory Prompt_Templates
  imports Go_Values
begin

text \<open>
  Prompt templates (\<open>prompt/template.go\<close>): the rewriting of \<open>{{ name }}\<close> into the syntax of
  \<open>text/template\<close> (\<open>toGoTemplate\<close>, a scan for the matches of its regular expression), templates
  over a template engine given as a parameter, and the builder.
\<close>

section \<open>Rewriting variables\<close>

definition plain :: "char \<Rightarrow> bool" where
  "plain c \<longleftrightarrow> c \<noteq> CHR ''{'' \<and> c \<noteq> CHR ''}''"

text \<open>A match of \<open>simpleVarPattern\<close> at the head of a text: what the braces enclose, and the rest.\<close>

definition match_at :: "string \<Rightarrow> (string \<times> string) option" where
  "match_at s =
     (if prefix ''{{'' s then
        (let inner = takeWhile plain (drop 2 s); rest = dropWhile plain (drop 2 s) in
         if inner \<noteq> [] \<and> prefix ''}}'' rest then Some (inner, drop 2 rest) else None)
      else None)"

definition keywords_list :: "string list" where
  "keywords_list = [''if '', ''else'', ''end'', ''range '', ''with '', ''define '', ''template '', ''block '']"

definition rewrite_var :: "string \<Rightarrow> string" where
  "rewrite_var text =
     (let inner = TrimSpace text; same = ''{{'' @ text @ ''}}'' in
      if HasPrefix inner ''.'' then same
      else if list_ex (\<lambda>kw. HasPrefix inner kw \<or> inner = TrimSpace kw) keywords_list then same
      else case IndexByte inner (CHR ''|'') of
          Some (Suc i) \<Rightarrow>
            (let varName = TrimSpace (take (Suc i) inner); rest = drop (Suc i) inner in
             if \<not> HasPrefix varName ''.'' then ''{{ .'' @ varName @ '' '' @ rest @ '' }}'' else same)
        | _ \<Rightarrow> ''{{ .'' @ inner @ '' }}'')"

lemma match_at_shorter: "match_at s = Some (inner, rest) \<Longrightarrow> length rest < length s"
  using length_dropWhile_le [of plain "drop 2 s"] by (auto simp: match_at_def Let_def prefix_def split: if_splits)

function toGoTemplate :: "string \<Rightarrow> string" where
  "toGoTemplate s =
     (case match_at s of
        Some (inner, rest) \<Rightarrow> rewrite_var inner @ toGoTemplate rest
      | None \<Rightarrow> (case s of [] \<Rightarrow> [] | c # t \<Rightarrow> c # toGoTemplate t))"
  by pat_completeness auto
termination
  by (relation "measure length") (auto dest: match_at_shorter)

declare toGoTemplate.simps [simp del]

section \<open>Templates\<close>

text \<open>\<open>text/template\<close> with the functions of \<open>New\<close>: parsing under a name, and execution with variables.\<close>

record ('v, 't) template_engine =
  te_parse :: "string \<Rightarrow> string \<Rightarrow> go_error + 't"
  te_exec :: "'t \<Rightarrow> 'v \<Rightarrow> go_error + string"

record 't template =
  tm_name :: string
  tm_raw :: string
  tm_tmpl :: 't

definition New_template :: "('v, 't) template_engine \<Rightarrow> string \<Rightarrow> string \<Rightarrow> go_error + 't template" where
  "New_template te name text =
     (case te_parse te name (toGoTemplate text) of
        Inl e \<Rightarrow> Inl (Errorf ''prompt: failed to parse template %q: %w'' [FStr name, FWrap e])
      | Inr t \<Rightarrow> Inr \<lparr>tm_name = name, tm_raw = text, tm_tmpl = t\<rparr>)"

definition Execute_template :: "('v, 't) template_engine \<Rightarrow> 't template \<Rightarrow> 'v \<Rightarrow> go_error + string" where
  "Execute_template te t vars =
     (case te_exec te (tm_tmpl t) vars of
        Inl e \<Rightarrow> Inl (Errorf ''prompt: failed to execute template %q: %w'' [FStr (tm_name t), FWrap e])
      | Inr s \<Rightarrow> Inr s)"

section \<open>The builder\<close>

type_synonym builder = "string list"

definition NewBuilder :: builder where "NewBuilder = []"

definition AddLine :: "string \<Rightarrow> builder \<Rightarrow> builder" where "AddLine line b = b @ [line]"

definition AddSection :: "string \<Rightarrow> string \<Rightarrow> builder \<Rightarrow> builder" where
  "AddSection header content b = b @ [[CHR 0x0A] @ ''## '' @ header @ [CHR 0x0A] @ content]"

definition AddTemplate :: "string \<Rightarrow> builder \<Rightarrow> builder" where "AddTemplate text b = b @ [text]"

definition String_of :: "builder \<Rightarrow> string" where "String_of b = Join b [CHR 0x0A]"

definition Build :: "('v, 't) template_engine \<Rightarrow> builder \<Rightarrow> 'v \<Rightarrow> go_error + string" where
  "Build te b vars = (case New_template te ''builder'' (Join b [CHR 0x0A]) of Inl e \<Rightarrow> Inl e | Inr t \<Rightarrow> Execute_template te t vars)"

section \<open>Rewriting is idempotent\<close>

lemma toGo_Nil: "toGoTemplate [] = []"
  by (simp add: toGoTemplate.simps match_at_def)

lemma toGo_match: "match_at s = Some (inner, rest) \<Longrightarrow> toGoTemplate s = rewrite_var inner @ toGoTemplate rest"
  by (simp add: toGoTemplate.simps)

lemma toGo_skip: "match_at (c # t) = None \<Longrightarrow> toGoTemplate (c # t) = c # toGoTemplate t"
  by (simp add: toGoTemplate.simps [of "c # t"])

lemma match_braces:
  assumes "list_all plain x" "x \<noteq> []"
  shows "match_at (''{{'' @ x @ ''}}'' @ r) = Some (x, r)"
proof -
  have "takeWhile plain (x @ ''}}'' @ r) = x" "dropWhile plain (x @ ''}}'' @ r) = ''}}'' @ r"
    using assms by (auto simp: list_all_iff takeWhile_append dropWhile_append plain_def)
  then show ?thesis using assms(2) by (simp add: match_at_def prefix_def)
qed

lemma match_plain: "match_at s = Some (inner, rest) \<Longrightarrow> list_all plain inner \<and> inner \<noteq> []"
  by (auto simp: match_at_def Let_def list_all_iff dest: set_takeWhileD split: if_splits)

lemma trim_subset: "set (TrimSpace x) \<subseteq> set x"
  by (auto simp: TrimSpace_def dest!: set_dropWhileD)

lemma plain_trim: "list_all plain x \<Longrightarrow> list_all plain (TrimSpace x)"
  by (auto simp: list_all_iff TrimSpace_def dest!: set_dropWhileD)

text \<open>The rewriting of a match is a match that is left alone.\<close>

definition kept :: "string \<Rightarrow> bool" where
  "kept y \<longleftrightarrow> list_all plain y \<and> y \<noteq> [] \<and> rewrite_var y = ''{{'' @ y @ ''}}''"

lemma trim_dotted: "TrimSpace ('' .'' @ z @ '' '') = TrimSpace (''.'' @ z)"
  by (simp add: TrimSpace_def is_space_def)

lemma dotted_prefix: "HasPrefix (TrimSpace (''.'' @ z)) ''.''"
proof -
  have "TrimSpace (''.'' @ z) = CHR ''.'' # rev (dropWhile is_space (rev z)) \<or> TrimSpace (''.'' @ z) = ''.''"
    by (auto simp: TrimSpace_def is_space_def dropWhile_append)
  then show ?thesis by (auto simp: HasPrefix_def)
qed

lemma kept_dotted: "list_all plain z \<Longrightarrow> kept ('' .'' @ z @ '' '')"
  using dotted_prefix [of z] by (simp add: kept_def rewrite_var_def trim_dotted [of z, simplified] plain_def Let_def)

lemma rewrite_shape:
  assumes "list_all plain x" "x \<noteq> []"
  shows "\<exists>y. rewrite_var x = ''{{'' @ y @ ''}}'' \<and> kept y"
proof (cases "rewrite_var x = ''{{'' @ x @ ''}}''")
  case True
  then show ?thesis using assms unfolding kept_def by blast
next
  case False
  have p: "list_all plain (TrimSpace x)" using plain_trim [OF assms(1)] .
  then have "list_all plain (TrimSpace (take n (TrimSpace x)))" "list_all plain (drop n (TrimSpace x))" for n
    using assms(1) by (auto simp: list_all_iff dest!: in_set_takeD in_set_dropD trim_subset [THEN subsetD])
  then have "kept ('' .'' @ (TrimSpace (take n (TrimSpace x)) @ '' '' @ drop n (TrimSpace x)) @ '' '')" for n
    by (intro kept_dotted) (simp add: plain_def)
  moreover have "kept ('' .'' @ TrimSpace x @ '' '')" using p by (rule kept_dotted)
  ultimately show ?thesis
    using False by (auto simp: rewrite_var_def Let_def split: if_splits option.splits nat.splits)
qed

lemma toGo_head: "toGoTemplate s = [] \<longleftrightarrow> s = []" "s \<noteq> [] \<Longrightarrow> hd (toGoTemplate s) = hd s"
proof -
  have "(toGoTemplate s = [] \<longleftrightarrow> s = []) \<and> (s \<noteq> [] \<longrightarrow> hd (toGoTemplate s) = hd s)"
  proof (cases "match_at s")
    case None
    then show ?thesis using toGo_Nil toGo_skip by (cases s) auto
  next
    case (Some m)
    then obtain inner rest where m: "match_at s = Some (inner, rest)" by (cases m) auto
    then obtain y where "rewrite_var inner = ''{{'' @ y @ ''}}''" using rewrite_shape match_plain by blast
    moreover obtain t where "s = ''{{'' @ t" using m by (auto simp: match_at_def prefix_def split: if_splits)
    ultimately show ?thesis using toGo_match [OF m] by simp
  qed
  then show "toGoTemplate s = [] \<longleftrightarrow> s = []" "s \<noteq> [] \<Longrightarrow> hd (toGoTemplate s) = hd s" by auto
qed

lemma toGo_plain: "list_all plain u \<Longrightarrow> toGoTemplate (u @ b) = u @ toGoTemplate b"
proof (induction u)
  case (Cons c u)
  then have "match_at (c # u @ b) = None" by (auto simp: match_at_def plain_def)
  then show ?case using Cons by (simp add: toGo_skip)
qed simp

text \<open>Rewriting what follows a character makes no match that was not there.\<close>

lemma no_new_match:
  assumes "match_at (c # t) = None"
  shows "match_at (c # toGoTemplate t) = None"
proof (cases "\<exists>t'. c = CHR ''{'' \<and> t = CHR ''{'' # t'")
  case False
  then show ?thesis
    using toGo_head [of t] by (cases "toGoTemplate t"; cases t) (auto simp: match_at_def)
next
  case True
  then obtain t' where t: "c = CHR ''{''" "t = CHR ''{'' # t'" by blast
  show ?thesis
  proof (cases "match_at t")
    case (Some m)
    then obtain inner rest where m: "match_at t = Some (inner, rest)" by (cases m) auto
    then obtain y where "rewrite_var inner = ''{{'' @ y @ ''}}''" using rewrite_shape match_plain by blast
    then show ?thesis using toGo_match [OF m] t(1) by (simp add: match_at_def plain_def)
  next
    case None
    define u b where "u = takeWhile plain t'" and "b = dropWhile plain t'"
    have ub: "t' = u @ b" "list_all plain u" by (auto simp: u_def b_def list_all_iff dest: set_takeWhileD)
    have go: "toGoTemplate t = CHR ''{'' # u @ toGoTemplate b"
      using toGo_skip [of "CHR ''{''" t'] None t(2) toGo_plain [OF ub(2)] ub(1) by simp
    have b0: "b = [] \<or> \<not> plain (hd b)" using hd_dropWhile [of plain t'] by (auto simp: b_def)
    then have "takeWhile plain (u @ toGoTemplate b) = u" "dropWhile plain (u @ toGoTemplate b) = toGoTemplate b"
      using ub(2) toGo_head [of b] by (cases "toGoTemplate b"; auto simp: list_all_iff takeWhile_append dropWhile_append)+
    moreover have "u = [] \<or> \<not> prefix ''}}'' b"
      using assms t by (auto simp: match_at_def u_def b_def)
    moreover have "prefix ''}}'' (toGoTemplate b) \<Longrightarrow> prefix ''}}'' b"
    proof -
      assume p: "prefix ''}}'' (toGoTemplate b)"
      then obtain b1 where b1: "b = CHR ''}'' # b1" using toGo_head [of b] by (cases b) (auto simp: prefix_def)
      then have "toGoTemplate b = CHR ''}'' # toGoTemplate b1" by (intro toGo_skip [of "CHR ''}''" b1, folded b1]) (simp add: match_at_def)
      then show ?thesis using p b1 toGo_head [of b1] by (cases b1) (auto simp: prefix_def)
    qed
    ultimately show ?thesis using go t(1) by (auto simp: match_at_def Let_def)
  qed
qed

text \<open>
  Rewriting a template is idempotent: text that is already in the syntax of
  \<open>text/template\<close>, because it was written so or because it was rewritten before, is left alone.
\<close>

theorem to_go_template_idempotent:
  "toGoTemplate (toGoTemplate s) = toGoTemplate s"
proof (induction s rule: toGoTemplate.induct)
  case (1 s)
  show ?case
  proof (cases "match_at s")
    case (Some m)
    then obtain inner rest where m: "match_at s = Some (inner, rest)" by (cases m) auto
    then obtain y where y: "rewrite_var inner = ''{{'' @ y @ ''}}''" "kept y" using rewrite_shape match_plain by blast
    then have "match_at (rewrite_var inner @ toGoTemplate rest) = Some (y, toGoTemplate rest)"
      using match_braces [of y "toGoTemplate rest"] by (simp add: kept_def)
    then show ?thesis
      using toGo_match [OF m] toGo_match y "1.IH"(2) [OF m] by (simp add: kept_def)
  next
    case None
    then show ?thesis
      using "1.IH"(1) [OF None] toGo_Nil toGo_skip no_new_match by (cases s) auto
  qed
qed

section \<open>What is rewritten\<close>

text \<open>A variable whose name begins no keyword is read from the data, wherever it stands in the text.\<close>

definition variable_name :: "string \<Rightarrow> bool" where
  "variable_name x \<longleftrightarrow> x \<noteq> [] \<and> list_all plain x \<and> list_all (\<lambda>c. \<not> is_space c \<and> c \<noteq> CHR ''|'') x \<and> hd x \<noteq> CHR ''.'' \<and>
     list_all (\<lambda>kw. \<not> prefix (TrimSpace kw) x) keywords_list"

lemma keywords_trimmed: "kw \<in> set keywords_list \<Longrightarrow> prefix (TrimSpace kw) kw"
  by (auto simp: keywords_list_def TrimSpace_def is_space_def)

lemma variable_rewritten:
  assumes "variable_name x" "list_all plain pre"
  shows "toGoTemplate (pre @ ''{{ '' @ x @ '' }}'' @ post) = pre @ ''{{ .'' @ x @ '' }}'' @ toGoTemplate post"
proof -
  have t: "TrimSpace ('' '' @ x @ '' '') = x"
    using assms(1) by (intro trim_padded) (auto simp: variable_name_def list_all_iff is_space_def)
  have "\<not> prefix kw x \<and> x \<noteq> TrimSpace kw" if "kw \<in> set keywords_list" for kw
  proof -
    have n: "\<not> prefix (TrimSpace kw) x" using assms(1) that by (simp add: variable_name_def list_all_iff)
    then show ?thesis using keywords_trimmed [OF that] prefix_order.trans by blast
  qed
  then have kw: "\<not> list_ex (\<lambda>kw. HasPrefix x kw \<or> x = TrimSpace kw) keywords_list"
    by (auto simp: list_ex_iff HasPrefix_def)
  have "\<not> HasPrefix x ''.''"
    using assms(1) by (cases x) (auto simp add: variable_name_def HasPrefix_def)
  moreover have "IndexByte x (CHR ''|'') = None"
    using assms(1) unfolding variable_name_def list_all_iff by (simp add: IndexByte_def) blast
  ultimately have "rewrite_var ('' '' @ x @ '' '') = ''{{ .'' @ x @ '' }}''"
    using t kw by (simp add: rewrite_var_def Let_def)
  moreover have "match_at (''{{'' @ ('' '' @ x @ '' '') @ ''}}'' @ post) = Some ('' '' @ x @ '' '', post)"
    using assms(1) by (intro match_braces) (auto simp: variable_name_def list_all_iff plain_def)
  ultimately have "toGoTemplate (''{{ '' @ x @ '' }}'' @ post) = ''{{ .'' @ x @ '' }}'' @ toGoTemplate post"
    using toGo_match by simp
  then show ?thesis using toGo_plain [OF assms(2)] by simp
qed

text \<open>A variable whose name begins with \<open>end\<close> or \<open>else\<close> is taken for a keyword and not rewritten.\<close>

lemma endpoint_keyword: "HasPrefix (TrimSpace '' endpoint '') ''end''" "\<not> HasPrefix (TrimSpace '' endpoint '') ''.''"
  by (simp_all add: TrimSpace_def is_space_def HasPrefix_def)

lemma keyword_kept:
  "kw \<in> set keywords_list \<Longrightarrow> HasPrefix (TrimSpace x) kw \<Longrightarrow> rewrite_var x = ''{{'' @ x @ ''}}''"
  by (auto simp: rewrite_var_def Let_def list_ex_iff)

lemma endpoint_not_rewritten: "toGoTemplate ''{{ endpoint }}'' = ''{{ endpoint }}''"
proof -
  have "match_at (''{{'' @ '' endpoint '' @ ''}}'' @ []) = Some ('' endpoint '', [])"
    by (rule match_braces) (simp_all add: plain_def)
  moreover have "rewrite_var '' endpoint '' = ''{{'' @ '' endpoint '' @ ''}}''"
    by (rule keyword_kept [OF _ endpoint_keyword(1)]) (simp add: keywords_list_def)
  ultimately show ?thesis using toGo_match toGo_Nil by fastforce
qed

end
