(* ===== verification/Durable_Approval.thy ===== *)
theory Durable_Approval
  imports Graph_Properties Human_Approval
begin

text \<open>
  An agent behind an approval gate inside a graph: what the packages \<open>graph\<close> and \<open>agent\<close>
  promise together. The tool executor keeps a log in the environment, which \<open>lg\<close> reads; the
  theorem says which calls it can hold after a run, and after a run is resumed with the
  reviewer's decisions. It rests on an invariant rule for the run loop.
\<close>

section \<open>An invariant rule for graph runs\<close>

text \<open>What a run does to the world goes through these calls; \<open>slot\<close> is the resume slot of its context.\<close>

definition graph_keeps :: "('w gworld \<Rightarrow> bool) \<Rightarrow> nat option \<Rightarrow> ('w, 's) graph \<Rightarrow> bool" where
  "graph_keeps I slot g \<longleftrightarrow>
     (\<forall>n fn c s w. g_nodes g n = Some fn \<longrightarrow> gc_slot c = slot \<longrightarrow> I w \<longrightarrow> I (snd (fn c s w))) \<and>
     (\<forall>n nc h c s e w. g_configs g n = Some nc \<longrightarrow> nc_onFailure nc = Some h \<longrightarrow> gc_slot c = slot \<longrightarrow> I w \<longrightarrow> I (snd (h c s e w))) \<and>
     (\<forall>n r c s w. g_cond g n = Some r \<longrightarrow> gc_slot c = slot \<longrightarrow> I w \<longrightarrow> I (snd (r c s w))) \<and>
     (\<forall>n fo c s w. g_fan g n = Some fo \<longrightarrow> gc_slot c = slot \<longrightarrow> I w \<longrightarrow> I (snd (fo_fan fo c s w)))"

definition settings_keep :: "('w gworld \<Rightarrow> bool) \<Rightarrow> 'w runtime \<Rightarrow> ('w, 's) run_config \<Rightarrow> bool" where
  "settings_keep I rt cfg \<longleftrightarrow> on_node_start (rc_hooks cfg) = None \<and> on_node_end (rc_hooks cfg) = None \<and>
     (\<forall>d w. I w \<longrightarrow> I (w\<lparr>gw_env := snd (ctx_wait rt d (gw_env w))\<rparr>)) \<and>
     (\<forall>cp t ck w. rc_checkpointer cfg = Some cp \<longrightarrow> I w \<longrightarrow> I (w\<lparr>gw_env := snd (cp_Save cp t ck (gw_env w))\<rparr>))"

lemma callNode_plain:
  "settings_keep I rt cfg \<Longrightarrow> callNode cfg c name fn s w = fn c s w"
  by (simp add: callNode_def settings_keep_def split: prod.split)

lemma node_wrap_keeps: "I (snd (fn c s w)) \<Longrightarrow> I (snd (node_wrap rt nc name fn c s w))"
  by (auto simp: node_wrap_def split: prod.splits race.splits sum.splits option.splits)

lemma node_sleep_keeps: "settings_keep I rt cfg \<Longrightarrow> I w \<Longrightarrow> I (snd (node_sleep rt c d w))"
  by (auto simp: node_sleep_def settings_keep_def split: prod.splits) (metis snd_conv)

lemma exec_attempts_keeps:
  assumes "settings_keep I rt cfg" and fn: "\<And>w. I w \<Longrightarrow> I (snd (fn c s w))"
  shows "I w \<Longrightarrow> I (snd (exec_attempts rt cfg nc c name fn s backoff attempt w))"
proof (induction "nat (nc_retries nc - attempt)" arbitrary: backoff attempt w rule: less_induct)
  case less
  obtain r w1 where r: "node_wrap rt nc name fn c s w = (r, w1)" by (metis prod.exhaust)
  have I1: "I w1" using node_wrap_keeps [of I fn c s w rt nc name] fn [OF less.prems] r by simp
  obtain b w2 where sl: "node_sleep rt c backoff w1 = (b, w2)" by (metis prod.exhaust)
  have I2: "I w2" using node_sleep_keeps [OF assms(1) I1, of c backoff] sl by simp
  have "I (snd (exec_attempts rt cfg nc c name fn s (wrap64 (backoff * 2)) (attempt + 1) w2))"
    if "\<not> attempt \<ge> nc_retries nc"
    using that less.hyps [OF _ I2] by simp
  then show ?case
    using r I1 sl I2
    by (subst exec_attempts.simps) (auto simp: callNode_plain [OF assms(1)] split: sum.splits bool.splits)
qed

lemma execNode_keeps:
  assumes "settings_keep I rt cfg" and "graph_keeps I slot g" and "gc_slot c = slot" and "g_nodes g n \<noteq> None" and "I w"
  shows "I (snd (execNode rt g cfg c n s w))"
proof -
  obtain fn where fn: "g_nodes g n = Some fn" using assms(4) by blast
  have node: "I (snd (fn c s w))" if "I w" for w
    using assms(2,3) fn that by (auto simp: graph_keeps_def)
  show ?thesis
  proof (cases "g_configs g n")
    case None
    have "I (snd (fn c s w))" by (rule node [OF assms(5)])
    then show ?thesis
      by (auto simp: execNode_def None fn callNode_plain [OF assms(1)] Let_def split: prod.splits sum.splits)
  next
    case (Some nc)
    have at: "I (snd (exec_attempts rt cfg nc c n fn s (nc_backoff nc) 0 w))"
      by (rule exec_attempts_keeps [where fn = fn, OF assms(1) node assms(5)])
    have h: "I (snd (h c s e w))" if "nc_onFailure nc = Some h" "I w" for h e w
      using assms(2,3) Some that by (auto simp: graph_keeps_def)
    show ?thesis
      using at h by (auto simp: execNode_def Some fn Let_def split: prod.splits sum.splits option.splits)
  qed
qed

lemma run_order_keeps:
  assumes "settings_keep I rt cfg" and "graph_keeps I slot g" and "list_all (\<lambda>sd. g_nodes g (snd_node sd) \<noteq> None) sends"
  shows "gc_slot c = slot \<Longrightarrow> set is \<subseteq> {..<length sends} \<Longrightarrow> I w \<Longrightarrow> I (snd (run_order rt g cfg c sends is rs w))"
proof (induction "is" arbitrary: c rs w)
  case (Cons i js)
  obtain r w1 where r: "execNode rt g cfg c (snd_node (sends ! i)) (snd_state (sends ! i)) w = (r, w1)"
    by (metis prod.exhaust)
  have "g_nodes g (snd_node (sends ! i)) \<noteq> None"
    using assms(3) Cons.prems(2) by (simp add: list_all_length)
  then have "I w1"
    using execNode_keeps [OF assms(1,2) Cons.prems(1) _ Cons.prems(3)] r by (metis snd_conv)
  then show ?case
    using Cons.IH Cons.prems r by (auto split: sum.splits)
qed simp

lemma runBranches_keeps:
  assumes "settings_keep I rt cfg" and "graph_keeps I slot g" and "list_all (\<lambda>sd. g_nodes g (snd_node sd) \<noteq> None) sends"
    and "gc_slot c = slot" and "I w"
  shows "I (snd (runBranches rt g cfg c sends w))"
  using run_order_keeps [OF assms(1-4) _ assms(5), of "branch_order rt (length sends) w"] assms(5)
  by (auto simp: runBranches_def branch_order_set split: prod.splits) (metis snd_conv)

text \<open>The world an iteration leaves.\<close>

fun outcome_world :: "('s, 'w) outcome \<Rightarrow> 'w gworld" where
  "outcome_world (Next st w) = w"
| "outcome_world (Stop res evs w) = w"

lemma saveCheckpoint_keeps: "settings_keep I rt cfg \<Longrightarrow> I w \<Longrightarrow> I (snd (saveCheckpoint cfg step n s w))"
  by (auto simp: saveCheckpoint_def settings_keep_def split: option.splits prod.splits) (metis snd_conv)+

lemma advance_keeps: "settings_keep I rt cfg \<Longrightarrow> I w \<Longrightarrow> I (outcome_world (advance cfg st w))"
  using saveCheckpoint_keeps [of I rt cfg w "rs_step st" "rs_node st" "rs_state st"]
  by (auto simp: advance_def split: prod.splits option.splits)

lemma pause_keeps: "settings_keep I rt cfg \<Longrightarrow> I w \<Longrightarrow> I (outcome_world (pause cfg st p err w))"
  by (auto simp: pause_def settings_keep_def Let_def split: option.splits prod.splits) (metis snd_conv)+

lemma planFanOut_keeps:
  assumes "graph_keeps I slot g" and "g_fan g n = Some fo" and "gc_slot c = slot" and "I w"
  shows "I (snd (planFanOut g fo c s w))"
    and "fst (planFanOut g fo c s w) = Inr sends \<Longrightarrow> list_all (\<lambda>sd. g_nodes g (snd_node sd) \<noteq> None) sends"
proof -
  have "I (snd (fo_fan fo c s w))" using assms by (auto simp: graph_keeps_def)
  then show "I (snd (planFanOut g fo c s w))"
    by (auto simp: planFanOut_def split: prod.splits sum.splits option.splits)
  show "list_all (\<lambda>sd. g_nodes g (snd_node sd) \<noteq> None) sends" if "fst (planFanOut g fo c s w) = Inr sends"
    using that by (auto simp: planFanOut_def unknown_send_def find_None_iff list_all_iff split: prod.splits sum.splits option.splits)
qed

lemma fan_step_keeps:
  assumes "settings_keep I rt cfg" and "graph_keeps I slot g" and "g_fan g n = Some fo" and "gc_slot c = slot" and "I w"
  shows "I (outcome_world (fan_step rt g cfg c fo st w))"
proof -
  obtain r w1 where p: "planFanOut g fo c (rs_state st) w = (r, w1)" by (metis prod.exhaust)
  have I1: "I w1" using planFanOut_keeps(1) [OF assms(2-5)] p by (metis snd_conv)
  show ?thesis
  proof (cases r)
    case (Inr sends)
    obtain b w2 where b: "runBranches rt g cfg c sends w1 = (b, w2)" by (metis prod.exhaust)
    have "list_all (\<lambda>sd. g_nodes g (snd_node sd) \<noteq> None) sends"
      using planFanOut_keeps(2) [OF assms(2-5)] p Inr by (metis fst_conv)
    then have "I w2" using runBranches_keeps [OF assms(1,2) _ assms(4) I1] b by (metis snd_conv)
    then show ?thesis using p Inr b I1 advance_keeps [OF assms(1)]
      by (auto simp: fan_step_def Let_def split: sum.splits)
  qed (use p I1 in \<open>simp add: fan_step_def\<close>)
qed

lemma edge_step_keeps:
  assumes "settings_keep I rt cfg" and "graph_keeps I slot g" and "gc_slot c = slot" and "I w"
  shows "I (outcome_world (edge_step g cfg c st w))"
proof -
  have "I (snd (r c (rs_state st) w))" if "g_cond g (rs_node st) = Some r" for r
    using assms that by (auto simp: graph_keeps_def)
  then show ?thesis
    using assms(4) advance_keeps [OF assms(1)]
    by (auto simp: edge_step_def split: option.splits prod.splits sum.splits)
qed

lemma superstep_keeps:
  assumes "settings_keep I rt cfg" and "graph_keeps I slot g" and "gc_slot c = slot" and "I w"
  shows "I (outcome_world (superstep rt g cfg c st w))"
proof -
  obtain r w1 where r: "execNode rt g cfg c (rs_node st) (rs_state st) w = (r, w1)" by (metis prod.exhaust)
  have I1: "I w1" if "g_nodes g (rs_node st) \<noteq> None"
    using execNode_keeps [OF assms(1-3) that assms(4)] r by (metis snd_conv)
  show ?thesis
    using assms(4) I1 r pause_keeps [OF assms(1)] advance_keeps [OF assms(1)] fan_step_keeps [OF assms(1,2) _ assms(3)]
      edge_step_keeps [OF assms(1,2,3)]
    by (auto simp: superstep_def Let_def split: option.splits sum.splits prod.splits)
qed

lemma graph_loop_keeps:
  assumes "settings_keep I rt cfg" and "graph_keeps I slot g" and "gc_slot c = slot"
  shows "I w \<Longrightarrow> I (snd (snd (graph_loop rt g cfg c st w)))"
proof (induction "nat (rc_max cfg - rs_step st)" arbitrary: st w rule: less_induct)
  case less
  have I1: "I (outcome_world (superstep rt g cfg c st w))"
    by (rule superstep_keeps [OF assms less.prems])
  show ?case
  proof (cases "superstep rt g cfg c st w")
    case (Next st' w')
    then have "nat (rc_max cfg - rs_step st') < nat (rc_max cfg - rs_step st)"
      using superstep_Next [OF Next] by linarith
    then show ?thesis using less.hyps [of st' w'] I1 Next by (subst graph_loop.simps) simp
  next
    case (Stop res evs w')
    then show ?thesis using I1 by (subst graph_loop.simps) simp
  qed
qed


lemma graph_Run_keeps:
  assumes "settings_keep I rt cfg" and "graph_keeps I (gc_slot c) g" and "I w"
  shows "I (snd (graph_Run rt g cfg c s w))"
  using graph_loop_keeps [OF assms(1,2) refl assms(3)] assms(3)
  by (auto simp: graph_Run_def split: option.splits prod.splits) (metis snd_conv)

section \<open>The gate\<close>

text \<open>The decisions a context carries, and the reviewer they stand for.\<close>

definition decisions_in :: "gctx \<Rightarrow> resume_slot list \<Rightarrow> approvals" where
  "decisions_in c ss = (case gc_slot c of
     None \<Rightarrow> Map.empty
   | Some a \<Rightarrow> (case sel_approvals (sl_value (ss ! a)) of None \<Rightarrow> Map.empty | Some A \<Rightarrow> A))"

lemma decisions_in_world:
  "(case ResumeValue sel_approvals c w of None \<Rightarrow> Map.empty | Some a \<Rightarrow> a) = decisions_in c (gw_slots w)"
  by (simp add: decisions_in_def ResumeValue_def split: option.split)

definition verdict_of :: "approvals \<Rightarrow> tool_call \<Rightarrow> go_error + decision" where
  "verdict_of a call = (case a (approval_key call) of
     Some d \<Rightarrow> Inr d | None \<Rightarrow> Inl (InterruptErr DNil))"

text \<open>\<open>agent.NewHumanInLoop(exec, agent.AwaitApproval(defs), agent.WithToolSchemas(defs))\<close>.\<close>

definition gated :: "json_fns \<Rightarrow> tool_definition list \<Rightarrow> 'w gworld executor \<Rightarrow> gctx \<Rightarrow> 'w gworld executor" where
  "gated jf defs exec c = hitl_Execute jf (NewHumanInLoop exec (AwaitApproval defs c) [WithToolSchemas defs])"

text \<open>A node that runs an agent behind the gate on messages made from the state.\<close>

definition agent_node :: "json_fns \<Rightarrow> tool_definition list \<Rightarrow> 'w gworld executor \<Rightarrow> 'w gworld agent
    \<Rightarrow> ('s \<Rightarrow> message list) \<Rightarrow> ('s \<Rightarrow> agent_result \<Rightarrow> 's) \<Rightarrow> ('w, 's) node_fn" where
  "agent_node jf defs exec a into out c s w =
     (case RunMessages (WithTools defs (gated jf defs exec c) a) (into s) w of
        (Inl err, w') \<Rightarrow> (Inl err, w')
      | (Inr res, w') \<Rightarrow> (Inr (out s res), w'))"

text \<open>An executor that logs each call it is given, and one who leaves log and slots alone.\<close>

definition logs_calls :: "('w \<Rightarrow> (string \<times> string) list) \<Rightarrow> 'w gworld executor \<Rightarrow> bool" where
  "logs_calls lg exec \<longleftrightarrow> (\<forall>n a w. lg (gw_env (snd (exec n a w))) = lg (gw_env w) @ [(n, a)] \<and>
     gw_slots (snd (exec n a w)) = gw_slots w)"

definition stays_out :: "('w \<Rightarrow> (string \<times> string) list) \<Rightarrow> ('w gworld \<Rightarrow> 'w gworld) \<Rightarrow> bool" where
  "stays_out lg f \<longleftrightarrow> (\<forall>w. lg (gw_env (f w)) = lg (gw_env w) \<and> gw_slots (f w) = gw_slots w)"

text \<open>The log grew from \<open>l0\<close> by calls that pass \<open>ok\<close>, and the slots are \<open>ss\<close>.\<close>

definition grown :: "('w \<Rightarrow> (string \<times> string) list) \<Rightarrow> (string \<times> string) list \<Rightarrow> resume_slot list
    \<Rightarrow> (string \<times> string \<Rightarrow> bool) \<Rightarrow> 'w gworld \<Rightarrow> bool" where
  "grown lg l0 ss ok w \<longleftrightarrow> gw_slots w = ss \<and> (\<exists>new. lg (gw_env w) = l0 @ new \<and> list_all ok new)"

lemma grown_start: "grown lg (lg (gw_env w)) (gw_slots w) ok w"
  by (simp add: grown_def)

lemma grown_out: "stays_out lg f \<Longrightarrow> grown lg l0 ss ok w \<Longrightarrow> grown lg l0 ss ok (f w)"
  by (simp add: grown_def stays_out_def)

lemma grown_call: "logs_calls lg exec \<Longrightarrow> ok (n, a) \<Longrightarrow> grown lg l0 ss ok w \<Longrightarrow> grown lg l0 ss ok (snd (exec n a w))"
  unfolding grown_def logs_calls_def by (metis append.assoc list_all_append list.pred_inject)

lemma gated_grown:
  assumes "logs_calls lg exec" and "grown lg l0 ss (approved jf (schema_map defs) (verdict_of (decisions_in c ss))) w"
  shows "grown lg l0 ss (approved jf (schema_map defs) (verdict_of (decisions_in c ss))) (snd (gated jf defs exec c name args w))"
proof -
  let ?A = "decisions_in c ss"
  let ?call = "zero_call\<lparr>tc_name := name, tc_arguments := args\<rparr>" and ?ok = "approved jf (schema_map defs) (verdict_of ?A)"
  have asks: "AwaitApproval defs c ?call w = (case ?A (approval_key ?call) of
      Some d \<Rightarrow> (Inr d, w) | None \<Rightarrow> (Inl (InterruptErr (DApproval (approval_request_of defs ?A ?call))), w))"
    using assms(2) by (simp add: AwaitApproval_def Let_def decisions_in_world grown_def split: option.split)
  note gate = gated_def hitl_Execute_def NewHumanInLoop_def WithToolSchemas_def requiresApproval_def
  show ?thesis
  proof (cases "?A (approval_key ?call)")
    case None
    then show ?thesis using asks assms(2) by (simp add: gate)
  next
    case (Some d)
    let ?args = "if dec_arguments d = [] then args else dec_arguments d"
    have ok: "?ok (name, ?args)" if "dec_approve d"
      "\<forall>schema. schema_map defs name = Some schema \<longrightarrow> dec_arguments d = [] \<or> ValidateArguments jf schema ?args = None"
      using that Some by (auto simp: approved_def verdict_of_def split: option.splits intro!: exI [of _ args])
    show ?thesis
      using asks Some ok assms(2) grown_call [OF assms(1) _ assms(2), of name]
      by (auto simp: gate split: option.splits if_splits)
  qed
qed

lemma agent_node_grown:
  assumes "logs_calls lg exec" and "a_middlewares a = []"
    and "\<And>req. stays_out lg (\<lambda>w. snd (Complete (a_provider a) req w))"
    and "grown lg l0 ss (approved jf (schema_map defs) (verdict_of (decisions_in c ss))) w"
  shows "grown lg l0 ss (approved jf (schema_map defs) (verdict_of (decisions_in c ss))) (snd (agent_node jf defs exec a into out c s w))"
proof -
  let ?a = "WithTools defs (gated jf defs exec c) a" and ?G = "grown lg l0 ss (approved jf (schema_map defs) (verdict_of (decisions_in c ss)))"
  have a: "a_middlewares ?a = []" "a_executor ?a = Some (gated jf defs exec c)" "a_provider ?a = a_provider a"
    using assms(2) by (simp_all add: WithTools_def)
  have "?G (aw_env (snd (agent_rounds ?a False left i req usage v)))" if "?G (aw_env v)" for left i req usage v
  proof (rule agent_rounds_inv [where I = "\<lambda>v. ?G (aw_env v)"])
    show "?G (aw_env (snd (model_call ?a False it req v)))" if "?G (aw_env v)" for it req v
      using grown_out [OF assms(3) that, of req]
      by (auto simp: bare_calls [OF a(1)] baseCall_def a split: prod.splits)
    show "?G (aw_env (snd (toolChain ?a ex tc (count_call (tc_name tc) v))))"
      if "a_executor ?a = Some ex" "?G (aw_env v)" for ex tc v
      using gated_grown [OF assms(1) that(2), of "tc_name tc" "tc_arguments tc"] that(1)
      by (auto simp: bare_calls(2) [OF a(1)] exec_tool_def count_call_def a split: prod.splits)
  qed (use that a in auto)
  then have "?G (aw_env (snd (agent_run ?a False (into s) w)))"
    using assms(4) by (simp add: agent_run_def agent_world_def)
  then show ?thesis
    by (auto simp: agent_node_def RunMessages_def split: prod.splits sum.splits)
qed


section \<open>Graphs of gated agents\<close>

text \<open>
  Every node runs an agent behind the gate or leaves log and slots alone, as error handlers,
  routers and fan functions do; and so do the checkpointer and the timers, and there are no hooks.
\<close>

definition gated_graph :: "('w \<Rightarrow> (string \<times> string) list) \<Rightarrow> json_fns \<Rightarrow> tool_definition list \<Rightarrow> 'w gworld executor
    \<Rightarrow> ('w, 's) graph \<Rightarrow> bool" where
  "gated_graph lg jf defs exec g \<longleftrightarrow>
     (\<forall>n fn. g_nodes g n = Some fn \<longrightarrow>
        (\<exists>a into out. fn = agent_node jf defs exec a into out \<and> a_middlewares a = [] \<and>
           (\<forall>req. stays_out lg (\<lambda>w. snd (Complete (a_provider a) req w)))) \<or>
        (\<forall>c s. stays_out lg (\<lambda>w. snd (fn c s w)))) \<and>
     (\<forall>n nc h c s e. g_configs g n = Some nc \<longrightarrow> nc_onFailure nc = Some h \<longrightarrow> stays_out lg (\<lambda>w. snd (h c s e w))) \<and>
     (\<forall>n r c s. g_cond g n = Some r \<longrightarrow> stays_out lg (\<lambda>w. snd (r c s w))) \<and>
     (\<forall>n fo c s. g_fan g n = Some fo \<longrightarrow> stays_out lg (\<lambda>w. snd (fo_fan fo c s w)))"

definition settings_stay_out :: "('w \<Rightarrow> (string \<times> string) list) \<Rightarrow> 'w runtime \<Rightarrow> ('w, 's) run_config \<Rightarrow> bool" where
  "settings_stay_out lg rt cfg \<longleftrightarrow> on_node_start (rc_hooks cfg) = None \<and> on_node_end (rc_hooks cfg) = None \<and>
     (\<forall>d u. lg (snd (ctx_wait rt d u)) = lg u) \<and>
     (\<forall>cp. rc_checkpointer cfg = Some cp \<longrightarrow>
        (\<forall>t ck u. lg (snd (cp_Save cp t ck u)) = lg u) \<and> (\<forall>t u. lg (snd (cp_Load cp t u)) = lg u))"

lemma gated_graph_keeps:
  assumes "logs_calls lg exec" and "gated_graph lg jf defs exec g"
  shows "graph_keeps (grown lg l0 ss (approved jf (schema_map defs) (verdict_of (decisions_in c ss)))) (gc_slot c) g"
proof -
  let ?I = "grown lg l0 ss (approved jf (schema_map defs) (verdict_of (decisions_in c ss)))"
  have node: "?I (snd (fn c' s w))" if "g_nodes g n = Some fn" "gc_slot c' = gc_slot c" "?I w" for n fn c' s w
  proof -
    have d: "decisions_in c' ss = decisions_in c ss" using that(2) by (simp add: decisions_in_def)
    from assms(2) that(1) consider
        (agent) a into out where "fn = agent_node jf defs exec a into out" "a_middlewares a = []"
          "\<And>req. stays_out lg (\<lambda>w. snd (Complete (a_provider a) req w))"
      | (other) "stays_out lg (\<lambda>w. snd (fn c' s w))"
      unfolding gated_graph_def by blast
    then show ?thesis
    proof cases
      case agent
      show ?thesis
        unfolding agent(1) d [symmetric]
        by (rule agent_node_grown [OF assms(1) agent(2,3)]) (simp add: d that(3))
    next
      case other
      then show ?thesis by (rule grown_out) (rule that(3))
    qed
  qed
  have others:
    "g_configs g n = Some nc \<Longrightarrow> nc_onFailure nc = Some h \<Longrightarrow> stays_out lg (\<lambda>w. snd (h c' s e w))"
    "g_cond g n = Some r \<Longrightarrow> stays_out lg (\<lambda>w. snd (r c' s w))"
    "g_fan g n = Some fo \<Longrightarrow> stays_out lg (\<lambda>w. snd (fo_fan fo c' s w))" for n nc h r fo c' s e
    using assms(2) by (simp_all add: gated_graph_def)
  show ?thesis
    unfolding graph_keeps_def
    by (intro conjI allI impI node grown_out [OF others(1)] grown_out [OF others(2)] grown_out [OF others(3)]) assumption+
qed

lemma settings_stay_out_keep: "settings_stay_out lg rt cfg \<Longrightarrow> settings_keep (grown lg l0 ss ok) rt cfg"
  by (auto simp: settings_stay_out_def settings_keep_def grown_def)

lemma nobody_approves: "list_all (approved jf schemas (verdict_of Map.empty)) new \<Longrightarrow> new = []"
  by (cases new) (auto simp: approved_def verdict_of_def)

text \<open>
  C2. Approval is durable. In a graph of agents behind \<open>AwaitApproval\<close>, whatever its routing,
  retries, timeouts and fan-outs, a run that is not resumed with decisions executes no tool call;
  and a run resumed with approvals executes only calls whose name and arguments have an approval
  among them, as they are or edited by it, the edits meeting the tool's schema. It holds from any
  checkpoint, so over any number of pauses.
\<close>

theorem approval_is_durable:
  assumes "logs_calls lg exec" and "gated_graph lg jf defs exec g" and "settings_stay_out lg rt cfg"
  shows "(gc_slot c = None \<longrightarrow> lg (gw_env (snd (graph_Run rt g cfg c s w))) = lg (gw_env w)) \<and>
    (rc_resume cfg = Some (DApprovals A) \<longrightarrow>
      (\<exists>new. lg (gw_env (snd (graph_Resume rt g cfg c w))) = lg (gw_env w) @ new \<and>
        list_all (approved jf (schema_map defs) (verdict_of A)) new))"
proof (intro conjI impI)
  assume c: "gc_slot c = None"
  let ?ok = "approved jf (schema_map defs) (verdict_of (decisions_in c (gw_slots w)))"
  have "grown lg (lg (gw_env w)) (gw_slots w) ?ok (snd (graph_Run rt g cfg c s w))"
    by (rule graph_Run_keeps [OF settings_stay_out_keep [OF assms(3)] gated_graph_keeps [OF assms(1,2)] grown_start])
  moreover have "decisions_in c (gw_slots w) = Map.empty" using c by (simp add: decisions_in_def)
  ultimately show "lg (gw_env (snd (graph_Run rt g cfg c s w))) = lg (gw_env w)"
    using nobody_approves by (auto simp: grown_def)
next
  assume A: "rc_resume cfg = Some (DApprovals A)"
  let ?R = "\<lambda>v. \<exists>new. lg (gw_env v) = lg (gw_env w) @ new \<and> list_all (approved jf (schema_map defs) (verdict_of A)) new"
  have loop: "?R (snd (snd (graph_loop rt g cfg c' st w1)))"
    if "attach_resume (rc_resume cfg) c (w\<lparr>gw_env := u\<rparr>) = (c', w1)" "lg u = lg (gw_env w)" for u c' w1 st
  proof -
    have d: "decisions_in c' (gw_slots w1) = A" and l: "lg (gw_env w1) = lg (gw_env w)"
      using that A by (auto simp: attach_resume_def decisions_in_def)
    have "grown lg (lg (gw_env w1)) (gw_slots w1) (approved jf (schema_map defs) (verdict_of (decisions_in c' (gw_slots w1))))
        (snd (snd (graph_loop rt g cfg c' st w1)))"
      by (rule graph_loop_keeps [OF settings_stay_out_keep [OF assms(3)] gated_graph_keeps [OF assms(1,2)] refl grown_start])
    then show ?thesis by (simp add: grown_def d l)
  qed
  have load: "lg u = lg (gw_env w)" if "rc_checkpointer cfg = Some cp" "cp_Load cp t (gw_env w) = (r, u)" for cp t r u
    using assms(3) that unfolding settings_stay_out_def by (metis snd_conv)
  show "?R (snd (graph_Resume rt g cfg c w))"
    using loop load
    by (auto simp: graph_Resume_def split: option.splits prod.splits sum.splits) (metis snd_conv)+
qed


section \<open>A run that pauses and is resumed\<close>

definition asker :: "'w provider" where
  "asker = \<lparr>Complete = (\<lambda>req w. (Inr (if list_ex (\<lambda>m. msg_role m = RoleTool) (req_messages req)
       then zero_response\<lparr>resp_content := ''sent''\<rparr>
       else zero_response\<lparr>resp_tool_calls := [zero_call\<lparr>tc_id := ''1'', tc_name := ''send'', tc_arguments := ''{}''\<rparr>]\<rparr>), w)),
     Stream = (\<lambda>req w. (Inr [], w))\<rparr>"

definition sending :: "('h \<times> (string \<times> string) list) gworld executor" where
  "sending name args w = ((''ok'', None), w\<lparr>gw_env := (fst (gw_env w), snd (gw_env w) @ [(name, args)])\<rparr>)"

definition mailer :: "('h \<times> (string \<times> string) list) gworld agent" where
  "mailer = New_agent asker [WithModel ''m'', WithMaxIterations_agent 2]"

definition mail_graph :: "json_fns \<Rightarrow> (string histories \<times> (string \<times> string) list, string) graph" where
  "mail_graph jf = AddEdge ''agent'' END_node (SetEntryPoint ''agent'' (AddNode ''agent''
     (agent_node jf [] sending mailer (\<lambda>s. [text_msg RoleUser s]) (\<lambda>s r. resp_content (ag_response r))) New_graph))"

definition mail_config :: "(string histories \<times> (string \<times> string) list, string) run_config" where
  "mail_config = buildConfig [WithCheckpointer MemoryCheckpointer, WithThreadID ''t'',
     WithResumeValue (DApprovals [approval_key (zero_call\<lparr>tc_name := ''send'', tc_arguments := ''{}''\<rparr>) \<mapsto> Approve])]"

lemma mail_settings:
  "logs_calls snd sending" "gated_graph snd jf [] sending (mail_graph jf)" "settings_stay_out snd quiet mail_config"
  "rc_resume mail_config = Some (DApprovals [approval_key (zero_call\<lparr>tc_name := ''send'', tc_arguments := ''{}''\<rparr>) \<mapsto> Approve])"
proof -
  show "logs_calls snd sending" by (simp add: logs_calls_def sending_def)
  have m: "a_middlewares mailer = []" "a_provider mailer = asker"
    by (simp_all add: mailer_def New_agent_def WithModel_def WithMaxIterations_agent_def)
  have "stays_out snd (\<lambda>w. snd (Complete (a_provider mailer) req w))" for req
    unfolding m by (simp add: stays_out_def asker_def)
  moreover have "g_nodes (mail_graph jf) = [''agent'' \<mapsto> agent_node jf [] sending mailer
      (\<lambda>s. [text_msg RoleUser s]) (\<lambda>s r. resp_content (ag_response r))]"
    and "g_configs (mail_graph jf) = Map.empty" "g_cond (mail_graph jf) = Map.empty" "g_fan (mail_graph jf) = Map.empty"
    by (simp_all add: mail_graph_def graph_builders)
  ultimately show "gated_graph snd jf [] sending (mail_graph jf)"
    unfolding gated_graph_def using m(1) by (simp split: if_split_asm) blast
  show "settings_stay_out snd quiet mail_config"
    by (auto simp: settings_stay_out_def mail_config_def buildConfig_def WithCheckpointer_def WithThreadID_def
        WithResumeValue_def quiet_def MemoryCheckpointer_def mcp_Save_def)
  show "rc_resume mail_config = Some (DApprovals [approval_key (zero_call\<lparr>tc_name := ''send'', tc_arguments := ''{}''\<rparr>) \<mapsto> Approve])"
    by (simp add: mail_config_def buildConfig_def WithCheckpointer_def WithThreadID_def WithResumeValue_def)
qed

definition paused_world :: "json_fns \<Rightarrow> (string histories \<times> (string \<times> string) list) gworld" where
  "paused_world jf = snd (graph_Run quiet (mail_graph jf) mail_config background ''hello'' \<lparr>gw_slots = [], gw_env = (Map.empty, [])\<rparr>)"

definition no_json :: json_fns where
  "no_json = \<lparr>jf_parse = (\<lambda>_. None), jf_show = (\<lambda>_. [])\<rparr>"

theorem approval_is_durable_witness:
  "snd (gw_env (paused_world no_json)) = [] \<and>
   (\<exists>new. snd (gw_env (snd (graph_Resume quiet (mail_graph no_json) mail_config background (paused_world no_json)))) = new \<and>
     list_all (approved no_json Map.empty (verdict_of [approval_key (zero_call\<lparr>tc_name := ''send'', tc_arguments := ''{}''\<rparr>) \<mapsto> Approve])) new)"
proof -
  note durable = approval_is_durable [where c = background, OF mail_settings(1-3)]
  have "schema_map [] = Map.empty" by (simp add: schema_map_def)
  moreover have first: "snd (gw_env (paused_world no_json)) = []"
    using durable by (simp add: paused_world_def background_def)
  ultimately show ?thesis
    using durable [THEN conjunct2, rule_format, OF mail_settings(4), where w = "paused_world no_json"] by simp
qed

text \<open>And the resumed run does send, once.\<close>

lemma mailer_tools:
  "a_middlewares (WithTools [] ex mailer) = []" "a_executor (WithTools [] ex mailer) = Some ex" "a_model (WithTools [] ex mailer) = ''m''"
  "a_max (WithTools [] ex mailer) = 2" "a_provider (WithTools [] ex mailer) = asker"
  by (simp_all add: WithTools_def mailer_def New_agent_def WithModel_def WithMaxIterations_agent_def)

lemma mail_run:
  assumes "ex ''send'' ''{}'' w = ((out, err), u)"
  shows "err = None \<Longrightarrow> \<exists>res. RunMessages (WithTools [] ex mailer) [text_msg RoleUser s] w = (Inr res, u)"
    and "err = Some e \<Longrightarrow> aborts e \<Longrightarrow>
      \<exists>e'. RunMessages (WithTools [] ex mailer) [text_msg RoleUser s] w = (Inl e', u) \<and> asInterrupt e' = asInterrupt e"
  using assms
  by (simp_all add: RunMessages_def agent_run_def mailer_tools numeral_2_eq_2 bare_round bare_calls baseCall_def asker_def
      agent_world_def agent_request_def zero_request_def cloneMessages_def clone_message_def text_msg_def zero_msg_def
      zero_response_def Let_def exec_tool_def count_call_def emit_def assistant_turn_def tool_msg_def zero_call_def)


abbreviation mail_key :: string where
  "mail_key \<equiv> approval_key (zero_call\<lparr>tc_name := ''send'', tc_arguments := ''{}''\<rparr>)"

lemma mail_node:
  "gc_slot c = None \<Longrightarrow> \<exists>e p. agent_node jf [] sending mailer (\<lambda>s. [text_msg RoleUser s]) out c s w = (Inl e, w) \<and> asInterrupt e = Some p"
  "gc_slot c = Some a \<Longrightarrow> sl_value (gw_slots w ! a) = DApprovals [mail_key \<mapsto> Approve] \<Longrightarrow>
    \<exists>r. agent_node jf [] sending mailer (\<lambda>s. [text_msg RoleUser s]) out c s w = (Inr (out s r), snd (sending ''send'' ''{}'' w))"
proof -
  note gate = gated_def hitl_Execute_def NewHumanInLoop_def WithToolSchemas_def requiresApproval_def AwaitApproval_def ResumeValue_def
    Let_def Approve_def
  show "\<exists>e p. agent_node jf [] sending mailer (\<lambda>s. [text_msg RoleUser s]) out c s w = (Inl e, w) \<and> asInterrupt e = Some p"
    if c: "gc_slot c = None"
  proof -
    obtain err where "gated jf [] sending c ''send'' ''{}'' w = (([], Some err), w)" "aborts err" "asInterrupt err \<noteq> None"
      using c by (simp add: gate Abort_def)
    then show ?thesis
      using mail_run(2) [of "gated jf [] sending c" w "[]" "Some err" w err s] by (auto simp: agent_node_def)
  qed
  show "\<exists>r. agent_node jf [] sending mailer (\<lambda>s. [text_msg RoleUser s]) out c s w = (Inr (out s r), snd (sending ''send'' ''{}'' w))"
    if "gc_slot c = Some a" "sl_value (gw_slots w ! a) = DApprovals [mail_key \<mapsto> Approve]"
  proof -
    have "gated jf [] sending c ''send'' ''{}'' w = ((''ok'', None), snd (sending ''send'' ''{}'' w))"
      using that by (simp add: gate sending_def)
    then show ?thesis
      using mail_run(1) [of "gated jf [] sending c" w "''ok''" None "snd (sending ''send'' ''{}'' w)" s] by (auto simp: agent_node_def)
  qed
qed

lemma mail_is_sent_once:
  "snd (gw_env (snd (graph_Resume quiet (mail_graph jf) mail_config background (paused_world jf)))) = [(''send'', ''{}'')]"
proof -
  let ?w0 = "\<lparr>gw_slots = [], gw_env = (Map.empty :: string histories, [] :: (string \<times> string) list)\<rparr>"
  let ?out = "\<lambda>(s :: string) r. resp_content (ag_response r)"
  obtain e p where e: "agent_node jf [] sending mailer (\<lambda>s. [text_msg RoleUser s]) ?out background ''hello'' ?w0 = (Inl e, ?w0)"
    "asInterrupt e = Some p"
    using mail_node(1) [of background jf ?out "''hello''" ?w0] by (auto simp: background_def)
  let ?ck = "\<lparr>ck_thread = ''t'', ck_step = 0, ck_node = ''agent'', ck_state = ''hello'', ck_done = False,
      ck_interruption = Some \<lparr>intr_node = ''agent'', intr_payload = p\<rparr>\<rparr>"
  have paused: "paused_world jf = \<lparr>gw_slots = [], gw_env = ([''t'' \<mapsto> [?ck]], [])\<rparr>"
    using e by (simp add: paused_world_def run_defs graph_builders mail_graph_def mail_config_def WithResumeValue_def)
  let ?c = "background\<lparr>gc_slot := Some 0\<rparr>"
  let ?w1 = "\<lparr>gw_slots = [\<lparr>sl_value = DApprovals [mail_key \<mapsto> Approve], sl_used = False\<rparr>], gw_env = ([''t'' \<mapsto> [?ck]], [])\<rparr>"
  have "\<exists>r :: agent_result. agent_node jf [] sending mailer (\<lambda>s. [text_msg RoleUser s]) ?out ?c ''hello'' ?w1 =
      (Inr (resp_content (ag_response r)), snd (sending ''send'' ''{}'' ?w1))"
    by (rule mail_node(2) [of ?c 0]) simp_all
  then obtain r :: agent_result where "agent_node jf [] sending mailer (\<lambda>s. [text_msg RoleUser s]) ?out ?c ''hello'' ?w1 =
      (Inr (resp_content (ag_response r)), snd (sending ''send'' ''{}'' ?w1))"
    by (elim exE)
  then show ?thesis
    unfolding paused
    by (simp add: graph_Resume_def run_defs graph_builders mail_graph_def mail_config_def WithResumeValue_def mcp_Load_def
        attach_resume_def sending_def)
qed

end
