(* ===== verification/Schema_Reflection.thy ===== *)
theory Schema_Reflection
  imports Go_Values
begin

text \<open>
  JSON Schemas derived from Go types (\<open>internal/jsonschema/jsonschema.go\<close>).

  A \<open>go_type\<close> is a \<open>reflect.Type\<close>: a basic kind, a composite or a named type, whose
  underlying type the environment \<open>env\<close> gives, so that types may be recursive; two types are
  the same when they are equal. \<open>reflectType\<close> and \<open>addFields\<close> call each other; as a Go type
  may send them round for ever, they take fuel and return \<open>None\<close> when it ends. Their set
  \<open>seen\<close>, which the code changes in place and restores, is an argument.
  \<open>strconv.ParseFloat\<close> is the parameter \<open>float\<close>.
\<close>

section \<open>Go types\<close>

datatype go_type =
    GKind string
  | GPointer go_type
  | GSlice go_type
  | GArray go_type
  | GMap go_type go_type
  | GStruct "go_field list"
  | GNamed string
and go_field =
    Field (fd_name: string) (fd_type: go_type) (fd_json: string) (fd_description: string)
      (fd_jsonschema: string) (fd_anonymous: bool) (fd_exported: bool)

type_synonym type_env = "string \<Rightarrow> go_type"

fun underlying :: "type_env \<Rightarrow> go_type \<Rightarrow> go_type" where
  "underlying env (GNamed n) = env n"
| "underlying env t = t"

definition integer_kinds :: "string list" where
  "integer_kinds = [''int'', ''int8'', ''int16'', ''int32'', ''int64'', ''uint'', ''uint8'', ''uint16'', ''uint32'', ''uint64'']"

definition timeType :: go_type where "timeType = GNamed ''time.Time''"
definition rawJSONType :: go_type where "rawJSONType = GNamed ''json.RawMessage''"

section \<open>Schemas\<close>

text \<open>The flat keywords of a \<open>Schema\<close>, with its \<open>order\<close>; the node adds its sub-schemas.\<close>

record node_keys =
  kw_type :: string
  kw_description :: string
  kw_format :: string
  kw_enum :: "json list"
  kw_required :: "string list"
  kw_minimum :: "rat option"
  kw_maximum :: "rat option"
  kw_min_length :: "int option"
  kw_max_length :: "int option"
  kw_min_items :: "int option"
  kw_max_items :: "int option"
  kw_order :: "string list"

datatype schema = Schema (sc_keys: node_keys) (sc_properties: "(string \<times> schema) list option")
  (sc_items: "schema option") (sc_additional: "schema option")

definition zero_keys :: node_keys where
  "zero_keys = \<lparr>kw_type = [], kw_description = [], kw_format = [], kw_enum = [], kw_required = [], kw_minimum = None,
     kw_maximum = None, kw_min_length = None, kw_max_length = None, kw_min_items = None, kw_max_items = None, kw_order = []\<rparr>"

definition leaf :: "string \<Rightarrow> string \<Rightarrow> schema" where
  "leaf t f = Schema (zero_keys\<lparr>kw_type := t, kw_format := f\<rparr>) None None None"

definition with_keys :: "schema \<Rightarrow> node_keys \<Rightarrow> schema" where
  "with_keys s k = Schema k (sc_properties s) (sc_items s) (sc_additional s)"

section \<open>Tags\<close>

fun Split :: "string \<Rightarrow> char \<Rightarrow> string list" where
  "Split [] sep = [[]]"
| "Split (c # s) sep = (if c = sep then [] # Split s sep else (c # hd (Split s sep)) # tl (Split s sep))"

lemma Split_nonempty [simp]: "Split s sep \<noteq> []"
  by (cases s) auto

text \<open>\<open>jsonName\<close>: the name, the options, and whether the field is skipped.\<close>

definition jsonName :: "go_field \<Rightarrow> string \<times> string list \<times> bool" where
  "jsonName f =
     (if fd_json f = ''-'' then ([], [], True)
      else if \<not> fd_anonymous f \<and> \<not> fd_exported f then ([], [], True)
      else let parts = Split (fd_json f) (CHR '','') in (hd parts, tl parts, False))"

text \<open>\<open>strconv.Atoi\<close> and \<open>ParseInt(v, 10, 64)\<close>; \<open>strconv.ParseBool\<close>.\<close>

definition is_digit :: "char \<Rightarrow> bool" where
  "is_digit c \<longleftrightarrow> (let n = of_char c :: nat in 48 \<le> n \<and> n \<le> 57)"

definition digits_value :: "string \<Rightarrow> int" where
  "digits_value s = foldl (\<lambda>n c. 10 * n + (of_char c - 48)) 0 s"

definition Atoi :: "string \<Rightarrow> int option" where
  "Atoi s =
     (let ds = (if s \<noteq> [] \<and> (hd s = CHR ''-'' \<or> hd s = CHR ''+'') then tl s else s);
          n = (if s \<noteq> [] \<and> hd s = CHR ''-'' then - digits_value ds else digits_value ds)
      in if ds = [] \<or> \<not> list_all is_digit ds \<or> n < - (2 ^ 63) \<or> n \<ge> 2 ^ 63 then None else Some n)"

definition ParseBool :: "string \<Rightarrow> bool option" where
  "ParseBool s =
     (if s \<in> set [''1'', ''t'', ''T'', ''TRUE'', ''true'', ''True''] then Some True
      else if s \<in> set [''0'', ''f'', ''F'', ''FALSE'', ''false'', ''False''] then Some False
      else None)"

definition bad_enum :: "string \<Rightarrow> string \<Rightarrow> go_error" where
  "bad_enum v what = Errorf (''jsonschema: enum value %q is not '' @ what) [FStr v]"

definition enumValue :: "(string \<Rightarrow> go_error + rat) \<Rightarrow> string \<Rightarrow> string \<Rightarrow> go_error + json" where
  "enumValue float typ v =
     (if typ = ''integer'' then
        (case Atoi v of None \<Rightarrow> Inl (bad_enum v ''an integer'') | Some n \<Rightarrow> Inr (JNum (of_int n)))
      else if typ = ''number'' then
        (case float v of Inl _ \<Rightarrow> Inl (bad_enum v ''a number'') | Inr n \<Rightarrow> Inr (JNum n))
      else if typ = ''boolean'' then
        (case ParseBool v of None \<Rightarrow> Inl (bad_enum v ''a boolean'') | Some b \<Rightarrow> Inr (JBool b))
      else Inr (JStr v))"

fun enum_values :: "(string \<Rightarrow> go_error + rat) \<Rightarrow> node_keys \<Rightarrow> string list \<Rightarrow> go_error + node_keys" where
  "enum_values float k [] = Inr k"
| "enum_values float k (v # vs) =
     (case enumValue float (kw_type k) v of
        Inl e \<Rightarrow> Inl e
      | Inr ev \<Rightarrow> enum_values float (k\<lparr>kw_enum := kw_enum k @ [ev]\<rparr>) vs)"

definition bad_number :: "string \<Rightarrow> string \<Rightarrow> go_error \<Rightarrow> go_error" where
  "bad_number key v e = Errorf ''jsonschema: %s=%q: %w'' [FStr key, FStr v, FWrap e]"

definition atoi_error :: "string \<Rightarrow> go_error" where
  "atoi_error v = Opaque (''strconv.Atoi: parsing '' @ Quote v @ '': invalid syntax'')"

text \<open>One key of the tag: the keywords and whether the field is required.\<close>

definition apply_key :: "(string \<Rightarrow> go_error + rat) \<Rightarrow> string \<Rightarrow> string \<Rightarrow> node_keys \<times> bool \<Rightarrow> go_error + node_keys \<times> bool" where
  "apply_key float key v st = (case st of (k, required) \<Rightarrow>
     (if key = ''required'' then Inr (k, True)
      else if key = ''optional'' then Inr (k, False)
      else if key = ''format'' then Inr (k\<lparr>kw_format := v\<rparr>, required)
      else if key = ''enum'' then
        (case enum_values float k (Split v (CHR ''|'')) of Inl e \<Rightarrow> Inl e | Inr k' \<Rightarrow> Inr (k', required))
      else if key = ''minimum'' \<or> key = ''maximum'' then
        (case float v of
           Inl e \<Rightarrow> Inl (bad_number key v e)
         | Inr n \<Rightarrow> Inr (if key = ''minimum'' then k\<lparr>kw_minimum := Some n\<rparr> else k\<lparr>kw_maximum := Some n\<rparr>, required))
      else if key \<in> set [''minLength'', ''maxLength'', ''minItems'', ''maxItems''] then
        (case Atoi v of
           None \<Rightarrow> Inl (bad_number key v (atoi_error v))
         | Some n \<Rightarrow> Inr (if key = ''minLength'' then k\<lparr>kw_min_length := Some n\<rparr>
             else if key = ''maxLength'' then k\<lparr>kw_max_length := Some n\<rparr>
             else if key = ''minItems'' then k\<lparr>kw_min_items := Some n\<rparr>
             else k\<lparr>kw_max_items := Some n\<rparr>, required))
      else Inl (Errorf ''jsonschema: unknown tag key %q'' [FStr key])))"

fun apply_keys :: "(string \<Rightarrow> go_error + rat) \<Rightarrow> string list \<Rightarrow> node_keys \<times> bool \<Rightarrow> go_error + node_keys \<times> bool" where
  "apply_keys float [] st = Inr st"
| "apply_keys float (kv # kvs) st =
     (case Cut (TrimSpace kv) (CHR ''='') of (key, v, found) \<Rightarrow>
        (case apply_key float key v st of Inl e \<Rightarrow> Inl e | Inr st' \<Rightarrow> apply_keys float kvs st'))"

definition applyTag :: "(string \<Rightarrow> go_error + rat) \<Rightarrow> schema \<Rightarrow> string \<Rightarrow> bool \<Rightarrow> go_error + schema \<times> bool" where
  "applyTag float s tag required =
     (if tag = [] then Inr (s, required)
      else case apply_keys float (Split tag (CHR '','')) (sc_keys s, required) of
        Inl e \<Rightarrow> Inl e
      | Inr (k, required') \<Rightarrow> Inr (with_keys s k, required'))"

section \<open>Reflection\<close>

text \<open>What \<open>addFields\<close> does with a field's schema: description, tag, order, property, required.\<close>

definition put_property :: "string \<Rightarrow> schema \<Rightarrow> bool \<Rightarrow> schema \<Rightarrow> schema" where
  "put_property name prop required s =
     (let props = (case sc_properties s of None \<Rightarrow> [] | Some ps \<Rightarrow> ps);
          k = sc_keys s;
          k1 = (if map_of props name = None then k\<lparr>kw_order := kw_order k @ [name]\<rparr> else k);
          k2 = (if required then k1\<lparr>kw_required := kw_required k1 @ [name]\<rparr> else k1)
      in Schema k2 (Some (AList.update name prop props)) (sc_items s) (sc_additional s))"

definition is_pointer :: "type_env \<Rightarrow> go_type \<Rightarrow> bool" where
  "is_pointer env t \<longleftrightarrow> (case underlying env t of GPointer _ \<Rightarrow> True | _ \<Rightarrow> False)"

definition field_error :: "go_field \<Rightarrow> go_error \<Rightarrow> go_error" where
  "field_error f e = Errorf ''field %s: %w'' [FStr (fd_name f), FWrap e]"

definition put_field :: "(string \<Rightarrow> go_error + rat) \<Rightarrow> type_env \<Rightarrow> go_field \<Rightarrow> string \<Rightarrow> string list \<Rightarrow> schema \<Rightarrow> schema \<Rightarrow> go_error + schema" where
  "put_field float env f name opts prop s =
     (case applyTag float (with_keys prop ((sc_keys prop)\<lparr>kw_description := fd_description f\<rparr>)) (fd_jsonschema f)
        (''omitempty'' \<notin> set opts \<and> ''omitzero'' \<notin> set opts \<and> \<not> is_pointer env (fd_type f)) of
        Inl e \<Rightarrow> Inl (field_error f e)
      | Inr (prop', required) \<Rightarrow> Inr (put_property (if name = [] then fd_name f else name) prop' required s))"

text \<open>The fields of an embedded struct, or of a pointer to one.\<close>

definition embedded_fields :: "type_env \<Rightarrow> go_field \<Rightarrow> string \<Rightarrow> go_field list option" where
  "embedded_fields env f name =
     (if fd_anonymous f \<and> name = [] then
        (case underlying env (case underlying env (fd_type f) of GPointer t \<Rightarrow> t | _ \<Rightarrow> fd_type f) of
           GStruct fs \<Rightarrow> Some fs
         | _ \<Rightarrow> None)
      else None)"

definition type_text :: "go_type \<Rightarrow> string" where
  "type_text t = (case t of GNamed n \<Rightarrow> n | GKind k \<Rightarrow> k | _ \<Rightarrow> ''(composite)'')"

definition basic_schema :: "string \<Rightarrow> go_type \<Rightarrow> go_error + schema" where
  "basic_schema k t =
     (if k = ''string'' then Inr (leaf ''string'' [])
      else if k = ''bool'' then Inr (leaf ''boolean'' [])
      else if k \<in> set integer_kinds then Inr (leaf ''integer'' [])
      else if k = ''float32'' \<or> k = ''float64'' then Inr (leaf ''number'' [])
      else if k = ''interface'' then Inr (leaf [] [])
      else Inl (Errorf ''jsonschema: unsupported kind %s (%s)'' [FStr k, FStr (type_text t)]))"

definition empty_object :: schema where
  "empty_object = Schema (zero_keys\<lparr>kw_type := ''object''\<rparr>) (Some []) None None"

fun reflect_type :: "(string \<Rightarrow> go_error + rat) \<Rightarrow> type_env \<Rightarrow> nat \<Rightarrow> go_type \<Rightarrow> go_type set \<Rightarrow> (go_error + schema) option"
  and add_fields :: "(string \<Rightarrow> go_error + rat) \<Rightarrow> type_env \<Rightarrow> nat \<Rightarrow> schema \<Rightarrow> go_field list \<Rightarrow> go_type set \<Rightarrow> (go_error + schema) option" where
  "reflect_type float env 0 t seen = None"
| "reflect_type float env (Suc n) t seen =
     (case underlying env t of
        GPointer u \<Rightarrow> reflect_type float env n u seen
      | u \<Rightarrow>
        if t = timeType then Some (Inr (leaf ''string'' ''date-time''))
        else if t = rawJSONType then Some (Inr (leaf [] []))
        else case u of
          GKind k \<Rightarrow> Some (basic_schema k t)
        | GSlice e \<Rightarrow>
            if underlying env e = GKind ''uint8'' then Some (Inr (leaf ''string'' ''byte''))
            else map_option (map_sum id (\<lambda>items. Schema (zero_keys\<lparr>kw_type := ''array''\<rparr>) None (Some items) None))
              (reflect_type float env n e seen)
        | GArray e \<Rightarrow>
            if underlying env e = GKind ''uint8'' then Some (Inr (leaf ''string'' ''byte''))
            else map_option (map_sum id (\<lambda>items. Schema (zero_keys\<lparr>kw_type := ''array''\<rparr>) None (Some items) None))
              (reflect_type float env n e seen)
        | GMap k e \<Rightarrow>
            if underlying env k \<noteq> GKind ''string''
            then Some (Inl (Errorf ''jsonschema: map key must be a string, got %s'' [FStr (type_text k)]))
            else map_option (map_sum id (\<lambda>val. Schema (zero_keys\<lparr>kw_type := ''object''\<rparr>) None None (Some val)))
              (reflect_type float env n e seen)
        | GStruct fs \<Rightarrow>
            if t \<in> seen
            then Some (Inl (Errorf ''jsonschema: recursive type %s is not supported'' [FStr (type_text t)]))
            else add_fields float env n empty_object fs (insert t seen)
        | _ \<Rightarrow> Some (Inl (Errorf ''jsonschema: unsupported kind %s (%s)'' [FStr [], FStr (type_text t)])))"
| "add_fields float env 0 s fs seen = None"
| "add_fields float env (Suc n) s [] seen = Some (Inr s)"
| "add_fields float env (Suc n) s (f # fs) seen =
     (case jsonName f of (name, opts, skip) \<Rightarrow>
        if skip then add_fields float env n s fs seen
        else case embedded_fields env f name of
          Some efs \<Rightarrow>
            (case add_fields float env n s efs seen of
               None \<Rightarrow> None
             | Some (Inl e) \<Rightarrow> Some (Inl e)
             | Some (Inr s') \<Rightarrow> add_fields float env n s' fs seen)
        | None \<Rightarrow>
            if \<not> fd_exported f then add_fields float env n s fs seen
            else case reflect_type float env n (fd_type f) seen of
              None \<Rightarrow> None
            | Some (Inl e) \<Rightarrow> Some (Inl (field_error f e))
            | Some (Inr prop) \<Rightarrow>
                (case put_field float env f name opts prop s of
                   Inl e \<Rightarrow> Some (Inl e)
                 | Inr s' \<Rightarrow> add_fields float env n s' fs seen))"

declare reflect_type.simps(2) [simp del] add_fields.simps(3) [simp del]

definition Reflect :: "(string \<Rightarrow> go_error + rat) \<Rightarrow> type_env \<Rightarrow> nat \<Rightarrow> go_type \<Rightarrow> (go_error + schema) option" where
  "Reflect float env fuel t = reflect_type float env fuel t {}"

end
