(* ===== verification/Schema_Properties.thy ===== *)
theory Schema_Properties
  imports Schema_Reflection "HOL-Library.Char_ord" "HOL-Library.List_Lexorder"
begin

text \<open>
  \<open>MarshalJSON\<close> and the theorems about reflected schemas: they are well formed, and reflection
  ends, rejecting recursion, on every type that does not embed itself.
\<close>

section \<open>Encoding\<close>

definition opt_entry :: "string \<Rightarrow> ('a \<Rightarrow> json) \<Rightarrow> 'a option \<Rightarrow> (string \<times> json) list" where
  "opt_entry name enc v = (case v of None \<Rightarrow> [] | Some a \<Rightarrow> [(name, enc a)])"

definition str_entry :: "string \<Rightarrow> string \<Rightarrow> (string \<times> json) list" where
  "str_entry name v = (if v = [] then [] else [(name, JStr v)])"

text \<open>The names of an object's properties in the order they are written.\<close>

definition write_order :: "node_keys \<Rightarrow> (string \<times> 'a) list \<Rightarrow> string list" where
  "write_order k ps =
     (if length (kw_order k) = length ps then kw_order k
      else kw_order k @ sort (filter (\<lambda>name. name \<notin> set (kw_order k)) (map fst ps)))"

definition int_json :: "int \<Rightarrow> json" where
  "int_json i = JNum (of_int i)"

definition head_entries :: "node_keys \<Rightarrow> json option \<Rightarrow> json option \<Rightarrow> (string \<times> json) list" where
  "head_entries k items additional =
     str_entry ''type'' (kw_type k) @ str_entry ''description'' (kw_description k) @ str_entry ''format'' (kw_format k) @
     (if kw_enum k = [] then [] else [(''enum'', JArr (kw_enum k))]) @
     (if kw_required k = [] then [] else [(''required'', JArr (map JStr (kw_required k)))]) @
     opt_entry ''items'' id items @ opt_entry ''additionalProperties'' id additional @
     opt_entry ''minimum'' JNum (kw_minimum k) @ opt_entry ''maximum'' JNum (kw_maximum k) @
     opt_entry ''minLength'' int_json (kw_min_length k) @ opt_entry ''maxLength'' int_json (kw_max_length k) @
     opt_entry ''minItems'' int_json (kw_min_items k) @ opt_entry ''maxItems'' int_json (kw_max_items k)"

fun MarshalJSON :: "schema \<Rightarrow> json" where
  "MarshalJSON (Schema k props items additional) =
     (let head = head_entries k (map_option MarshalJSON items) (map_option MarshalJSON additional) in
      case map_option (map (map_prod id MarshalJSON)) props of
        None \<Rightarrow> JObj head
      | Some docs \<Rightarrow>
          JObj ((''properties'', JObj (map (\<lambda>name. (name, case map_of docs name of None \<Rightarrow> JNull | Some d \<Rightarrow> d))
            (write_order k docs))) # head))"

definition FromType :: "(string \<Rightarrow> go_error + rat) \<Rightarrow> type_env \<Rightarrow> nat \<Rightarrow> go_type \<Rightarrow> (go_error + json) option" where
  "FromType float env fuel t = map_option (map_sum id MarshalJSON) (Reflect float env fuel t)"

section \<open>Well-formed schemas\<close>

fun typed_value :: "string \<Rightarrow> json \<Rightarrow> bool" where
  "typed_value t (JNum n) = (t = ''number'' \<or> t = ''integer'' \<and> n \<in> \<int>)"
| "typed_value t (JBool b) = (t = ''boolean'')"
| "typed_value t (JStr s) = (t \<notin> {''integer'', ''number'', ''boolean''})"
| "typed_value t _ = False"

definition enum_ok :: "node_keys \<Rightarrow> bool" where
  "enum_ok k \<longleftrightarrow> list_all (typed_value (kw_type k)) (kw_enum k)"

definition no_names :: "node_keys \<Rightarrow> bool" where
  "no_names k \<longleftrightarrow> kw_order k = [] \<and> kw_required k = []"

inductive wf_schema :: "schema \<Rightarrow> bool" where
  wf_leaf: "kw_type k \<in> {[], ''string'', ''boolean'', ''integer'', ''number''} \<Longrightarrow> no_names k \<Longrightarrow> enum_ok k \<Longrightarrow>
    wf_schema (Schema k None None None)"
| wf_array: "kw_type k = ''array'' \<Longrightarrow> no_names k \<Longrightarrow> enum_ok k \<Longrightarrow> wf_schema items \<Longrightarrow>
    wf_schema (Schema k None (Some items) None)"
| wf_map: "kw_type k = ''object'' \<Longrightarrow> no_names k \<Longrightarrow> enum_ok k \<Longrightarrow> wf_schema v \<Longrightarrow>
    wf_schema (Schema k None None (Some v))"
| wf_object: "kw_type k = ''object'' \<Longrightarrow> distinct (kw_order k) \<Longrightarrow> distinct (map fst ps) \<Longrightarrow>
    set (kw_order k) = fst ` set ps \<Longrightarrow> set (kw_required k) \<subseteq> set (kw_order k) \<Longrightarrow> enum_ok k \<Longrightarrow>
    (\<And>p. p \<in> set ps \<Longrightarrow> wf_schema (snd p)) \<Longrightarrow> wf_schema (Schema k (Some ps) None None)"

inductive_cases wf_objectE: "wf_schema (Schema k (Some ps) items additional)"
inductive_simps wf_object_iff: "wf_schema (Schema k (Some ps) None None)"

text \<open>A tag changes neither a node's type nor its names, and keeps its enum values of its type.\<close>

definition same_frame :: "node_keys \<Rightarrow> node_keys \<Rightarrow> bool" where
  "same_frame k k' \<longleftrightarrow> kw_type k' = kw_type k \<and> kw_order k' = kw_order k \<and> kw_required k' = kw_required k \<and>
     (enum_ok k \<longrightarrow> enum_ok k')"

lemma same_frame_refl: "same_frame k k"
  by (simp add: same_frame_def)

lemma same_frame_trans: "same_frame k k1 \<Longrightarrow> same_frame k1 k2 \<Longrightarrow> same_frame k k2"
  by (simp add: same_frame_def)

lemma wf_with_keys:
  assumes "wf_schema s" and "same_frame (sc_keys s) k"
  shows "wf_schema (with_keys s k)"
  using assms(1)
proof cases
  case (wf_object k0 ps)
  then have "wf_schema (Schema k (Some ps) None None)"
    using assms(2) by (intro wf_schema.wf_object) (simp_all add: same_frame_def)
  then show ?thesis by (simp add: wf_object with_keys_def)
qed (use assms(2) in \<open>auto simp: with_keys_def same_frame_def no_names_def intro!: wf_schema.intros\<close>)

lemma enumValue_ok: "enumValue float (kw_type k) v = Inr ev \<Longrightarrow> enum_ok k \<Longrightarrow> enum_ok (k\<lparr>kw_enum := kw_enum k @ [ev]\<rparr>)"
  by (auto simp: enumValue_def enum_ok_def split: if_splits option.splits sum.splits)

lemma enum_values_frame: "enum_values float k vs = Inr k' \<Longrightarrow> same_frame k k'"
proof (induction float k vs rule: enum_values.induct)
  case (2 float k v vs)
  then obtain ev where ev: "enumValue float (kw_type k) v = Inr ev"
    "enum_values float (k\<lparr>kw_enum := kw_enum k @ [ev]\<rparr>) vs = Inr k'"
    by (auto split: sum.splits)
  have "same_frame k (k\<lparr>kw_enum := kw_enum k @ [ev]\<rparr>)"
    using enumValue_ok [OF ev(1)] by (simp add: same_frame_def)
  then show ?case
    using 2(1) [OF ev] same_frame_trans by blast
qed (simp add: same_frame_refl)

lemma enum_ok_cong: "kw_type k' = kw_type k \<Longrightarrow> kw_enum k' = kw_enum k \<Longrightarrow> enum_ok k \<Longrightarrow> enum_ok k'"
  by (simp add: enum_ok_def)

lemma apply_key_frame:
  assumes "apply_key float key v (k, r) = Inr (k', r')"
  shows "same_frame k k'"
  using assms enum_values_frame [of float k "Split v (CHR ''|'')" k']
  by (auto simp: apply_key_def same_frame_def enum_ok_def split: if_splits sum.splits option.splits)

lemma apply_keys_frame:
  assumes "apply_keys float kvs (k, r) = Inr (k', r')"
  shows "same_frame k k'"
  using assms
proof (induction kvs arbitrary: k r)
  case (Cons kv kvs)
  obtain key v found where c: "Cut (TrimSpace kv) (CHR ''='') = (key, v, found)"
    by (metis prod.exhaust)
  obtain k1 r1 where s: "apply_key float key v (k, r) = Inr (k1, r1)" "apply_keys float kvs (k1, r1) = Inr (k', r')"
    using Cons.prems by (auto simp: c split: sum.splits)
  then show ?case
    using Cons.IH [OF s(2)] apply_key_frame [OF s(1)] same_frame_trans by blast
qed (simp add: same_frame_refl)

lemma applyTag_wf:
  assumes "wf_schema s" and "applyTag float s tag r = Inr (s', r')"
  shows "wf_schema s'"
  using assms apply_keys_frame wf_with_keys
  by (fastforce simp: applyTag_def split: if_splits sum.splits)

section \<open>Reflection builds well-formed schemas\<close>

lemma put_property_wf:
  assumes "wf_schema s" and "sc_properties s \<noteq> None" and "wf_schema prop"
  shows "wf_schema (put_property name prop r s)" and "sc_properties (put_property name prop r s) \<noteq> None"
proof -
  obtain k ps where s: "s = Schema k (Some ps) None None"
    using assms(1,2) by (cases s) (auto elim: wf_schema.cases)
  have "p \<in> set (AList.update name prop ps) \<Longrightarrow> wf_schema (snd p)" for p
  proof -
    assume p: "p \<in> set (AList.update name prop ps)"
    have "distinct (map fst (AList.update name prop ps))"
      using assms(1) by (auto simp: s wf_object_iff distinct_update)
    then have "map_of (AList.update name prop ps) (fst p) = Some (snd p)"
      using p by (simp add: map_of_eq_Some_iff)
    then show "wf_schema (snd p)"
      using assms(1,3) by (cases p) (auto simp: s wf_object_iff update_conv' map_of_eq_Some_iff split: if_splits dest!: map_of_SomeD)
  qed
  then show "wf_schema (put_property name prop r s)"
    using assms(1)
    by (auto simp: s put_property_def Let_def wf_object_iff dom_update distinct_update enum_ok_def map_of_eq_None_iff)
  show "sc_properties (put_property name prop r s) \<noteq> None"
    by (simp add: put_property_def Let_def)
qed


lemma put_field_wf:
  assumes "put_field float env f name opts prop s = Inr s'" and "wf_schema s" and "sc_properties s \<noteq> None"
    and "wf_schema prop"
  shows "wf_schema s'" and "sc_properties s' \<noteq> None"
proof -
  have "wf_schema (with_keys prop ((sc_keys prop)\<lparr>kw_description := fd_description f\<rparr>))"
    using assms(4) by (intro wf_with_keys) (auto simp: same_frame_def enum_ok_def)
  then show "wf_schema s'" and "sc_properties s' \<noteq> None"
    using assms applyTag_wf put_property_wf by (auto simp: put_field_def split: sum.splits)
qed

lemma leaf_wf: "t \<in> {[], ''string'', ''boolean'', ''integer'', ''number''} \<Longrightarrow> wf_schema (leaf t f)"
  by (auto simp: leaf_def zero_keys_def no_names_def enum_ok_def intro!: wf_schema.intros)

lemma basic_schema_wf: "basic_schema k t = Inr s \<Longrightarrow> wf_schema s"
  by (auto simp: basic_schema_def leaf_wf split: if_splits)

lemma composite_wf:
  "wf_schema e \<Longrightarrow> wf_schema (Schema (zero_keys\<lparr>kw_type := ''array''\<rparr>) None (Some e) None)"
  "wf_schema e \<Longrightarrow> wf_schema (Schema (zero_keys\<lparr>kw_type := ''object''\<rparr>) None None (Some e))"
  "wf_schema empty_object" "sc_properties empty_object \<noteq> None"
  by (auto simp: zero_keys_def no_names_def enum_ok_def empty_object_def intro!: wf_schema.intros)

lemma map_sum_Inr: "map_sum id f x = Inr b \<longleftrightarrow> (\<exists>a. x = Inr a \<and> b = f a)"
  by (cases x) auto

text \<open>The two functions in step on their fuel.\<close>

lemma reflect_step:
  "reflect_type float env (Suc n) t seen = Some (Inr s) \<Longrightarrow>
     (\<exists>u. reflect_type float env n u seen = Some (Inr s)) \<or> (\<exists>k. basic_schema k t = Inr s) \<or> (\<exists>ty f. s = leaf ty f \<and> ty \<in> {[], ''string''}) \<or>
     (\<exists>u e. reflect_type float env n u seen = Some (Inr e) \<and>
       (s = Schema (zero_keys\<lparr>kw_type := ''array''\<rparr>) None (Some e) None \<or> s = Schema (zero_keys\<lparr>kw_type := ''object''\<rparr>) None None (Some e))) \<or>
     (\<exists>fs. add_fields float env n empty_object fs (insert t seen) = Some (Inr s))"
  by (cases "underlying env t") (auto simp: reflect_type.simps(2) map_sum_Inr split: if_splits)

lemma add_fields_step:
  "add_fields float env (Suc n) s (f # fs) seen = Some (Inr r) \<Longrightarrow>
     add_fields float env n s fs seen = Some (Inr r) \<or>
     (\<exists>efs s'. add_fields float env n s efs seen = Some (Inr s') \<and> add_fields float env n s' fs seen = Some (Inr r)) \<or>
     (\<exists>name opts prop s'. reflect_type float env n (fd_type f) seen = Some (Inr prop) \<and>
        put_field float env f name opts prop s = Inr s' \<and> add_fields float env n s' fs seen = Some (Inr r))"
  by (auto simp: add_fields.simps(3) split: prod.splits if_splits option.splits sum.splits)

lemma reflection_wf:
  "(\<forall>t seen s. reflect_type float env n t seen = Some (Inr s) \<longrightarrow> wf_schema s) \<and>
   (\<forall>s0 fs seen s1. add_fields float env n s0 fs seen = Some (Inr s1) \<longrightarrow> wf_schema s0 \<longrightarrow> sc_properties s0 \<noteq> None \<longrightarrow>
     wf_schema s1 \<and> sc_properties s1 \<noteq> None)"
proof (induction n)
  case (Suc n)
  have T: "wf_schema s" if "reflect_type float env n t seen = Some (Inr s)" for t seen s
    using Suc that by blast
  have F: "wf_schema s1 \<and> sc_properties s1 \<noteq> None"
    if "add_fields float env n s0 fs seen = Some (Inr s1)" "wf_schema s0" "sc_properties s0 \<noteq> None" for s0 fs seen s1
    using Suc that by blast
  have "wf_schema s" if "reflect_type float env (Suc n) t seen = Some (Inr s)" for t seen s
    using reflect_step [OF that]
    by (elim disjE exE conjE) (auto intro: T basic_schema_wf leaf_wf composite_wf F [OF _ composite_wf(3,4), THEN conjunct1])
  moreover have "wf_schema s1 \<and> sc_properties s1 \<noteq> None"
    if "add_fields float env (Suc n) s0 fs seen = Some (Inr s1)" "wf_schema s0" "sc_properties s0 \<noteq> None" for s0 fs seen s1
  proof (cases fs)
    case (Cons f gs)
    from add_fields_step [OF that(1) [unfolded Cons]] show ?thesis
      using that(2,3) F T put_field_wf by meson
  qed (use that in auto)
  ultimately show ?case by blast
qed auto


lemma Marshal_properties:
  assumes "wf_schema s" and "sc_properties s = Some ps"
  shows "jfield ''properties'' (MarshalJSON s) =
    Some (JObj (map (\<lambda>name. (name, MarshalJSON (the (map_of ps name)))) (kw_order (sc_keys s))))"
proof -
  obtain k where s: "s = Schema k (Some ps) None None"
    using assms by (cases s) (auto elim: wf_schema.cases)
  have o: "distinct (kw_order k)" "set (kw_order k) = fst ` set ps" "distinct (map fst ps)"
    using assms(1) by (auto simp: s wf_object_iff)
  have "length (kw_order k) = length ps"
    using o distinct_card [of "kw_order k"] distinct_card [of "map fst ps"] by simp
  moreover have "map_of (map (map_prod id MarshalJSON) ps) name = Some (MarshalJSON (the (map_of ps name)))"
    if "name \<in> set (kw_order k)" for name
  proof -
    have "map_of ps name \<noteq> None" using that by (simp add: o(2) map_of_eq_None_iff)
    then show ?thesis by (auto simp: map_prod_def map_of_map)
  qed
  ultimately show ?thesis
    by (auto simp: s write_order_def Let_def)
qed

section \<open>Termination\<close>

lemma reflection_mono:
  "(\<forall>t seen. reflect_type float env n t seen \<noteq> None \<longrightarrow> reflect_type float env (Suc n) t seen = reflect_type float env n t seen) \<and>
   (\<forall>s fs seen. add_fields float env n s fs seen \<noteq> None \<longrightarrow> add_fields float env (Suc n) s fs seen = add_fields float env n s fs seen)"
proof (induction n)
  case (Suc n)
  have T: "reflect_type float env n t seen \<noteq> None \<Longrightarrow> reflect_type float env (Suc n) t seen = reflect_type float env n t seen" for t seen
    using Suc by blast
  have F: "add_fields float env n s fs seen \<noteq> None \<Longrightarrow> add_fields float env (Suc n) s fs seen = add_fields float env n s fs seen" for s fs seen
    using Suc by blast
  have "reflect_type float env (Suc (Suc n)) t seen = reflect_type float env (Suc n) t seen"
    if "reflect_type float env (Suc n) t seen \<noteq> None" for t seen
    using that
    unfolding reflect_type.simps(2) [of float env "Suc n" t seen] reflect_type.simps(2) [of float env n t seen]
    by (cases "underlying env t") (auto simp: T F split: if_splits)
  moreover have "add_fields float env (Suc (Suc n)) s fs seen = add_fields float env (Suc n) s fs seen"
    if "add_fields float env (Suc n) s fs seen \<noteq> None" for s fs seen
  proof (cases fs)
    case (Cons f gs)
    obtain name opts skip where j: "jsonName f = (name, opts, skip)"
      by (metis prod.exhaust)
    note steps = Cons add_fields.simps(3) [of float env "Suc n" s f gs seen] add_fields.simps(3) [of float env n s f gs seen] j prod.case
    consider "skip" | efs where "\<not> skip" "embedded_fields env f name = Some efs"
      | "\<not> skip" "embedded_fields env f name = None" "\<not> fd_exported f"
      | "\<not> skip" "embedded_fields env f name = None" "fd_exported f"
      by (cases "embedded_fields env f name") auto
    then show ?thesis
    proof cases
      case 2
      then show ?thesis using that unfolding steps
        by (cases "add_fields float env n s efs seen") (auto simp: F split: sum.splits)
    next
      case 4
      then show ?thesis using that unfolding steps
        by (cases "reflect_type float env n (fd_type f) seen") (auto simp: F T split: sum.splits)
    qed (use that in \<open>auto simp: steps F\<close>)
  qed simp
  ultimately show ?case by blast
qed auto

lemma reflect_type_enough: "reflect_type float env n t seen = Some r \<Longrightarrow> n \<le> m \<Longrightarrow> reflect_type float env m t seen = Some r"
  by (rotate_tac 1, induction m rule: dec_induct) (use reflection_mono in fastforce)+

lemma add_fields_enough: "add_fields float env n s fs seen = Some r \<Longrightarrow> n \<le> m \<Longrightarrow> add_fields float env m s fs seen = Some r"
  by (rotate_tac 1, induction m rule: dec_induct) (use reflection_mono in fastforce)+


text \<open>The types a type is made of; and those reached with no struct's \<open>seen\<close> mark in between.\<close>

definition components :: "type_env \<Rightarrow> go_type \<Rightarrow> go_type list" where
  "components env t = (case underlying env t of
     GPointer u \<Rightarrow> [u] | GSlice e \<Rightarrow> [e] | GArray e \<Rightarrow> [e] | GMap k e \<Rightarrow> [e] | GStruct fs \<Rightarrow> map fd_type fs | _ \<Rightarrow> [])"

definition unguarded :: "type_env \<Rightarrow> go_type \<Rightarrow> go_type list" where
  "unguarded env t = (case underlying env t of
     GStruct fs \<Rightarrow> map fd_type (filter fd_anonymous fs) | _ \<Rightarrow> components env t)"

definition fields_below :: "go_type set \<Rightarrow> (go_type \<Rightarrow> nat) \<Rightarrow> nat \<Rightarrow> go_field list \<Rightarrow> bool" where
  "fields_below T rank r fs \<longleftrightarrow> list_all (\<lambda>f. fd_type f \<in> T \<and> (fd_anonymous f \<longrightarrow> rank (fd_type f) < r)) fs"

text \<open>
  A finite set of types closed under components, whose recursion always passes through a struct's
  fields: embedding, pointers, slices, arrays and maps alone lead down in \<open>rank\<close>.
\<close>

definition type_graph :: "type_env \<Rightarrow> go_type set \<Rightarrow> (go_type \<Rightarrow> nat) \<Rightarrow> bool" where
  "type_graph env T rank \<longleftrightarrow> finite T \<and> (\<forall>t \<in> T. set (components env t) \<subseteq> T) \<and>
     (\<forall>t \<in> T. \<forall>u \<in> set (unguarded env t). rank u < rank t)"

lemma type_graphD:
  assumes "type_graph env T rank"
  shows "finite T" and "t \<in> T \<Longrightarrow> set (components env t) \<subseteq> T"
    and "t \<in> T \<Longrightarrow> u \<in> set (unguarded env t) \<Longrightarrow> rank u < rank t"
  using assms by (auto simp: type_graph_def)

lemma struct_fields_below: "type_graph env T rank \<Longrightarrow> t \<in> T \<Longrightarrow> underlying env t = GStruct fs \<Longrightarrow> fields_below T rank (rank t) fs"
  using type_graphD(2,3) [of env T rank t] by (fastforce simp: fields_below_def components_def unguarded_def list_all_iff)

lemma pointer_below: "type_graph env T rank \<Longrightarrow> t \<in> T \<Longrightarrow> underlying env t = GPointer u \<Longrightarrow> u \<in> T \<and> rank u < rank t"
  using type_graphD(2,3) [of env T rank t] by (auto simp: components_def unguarded_def)

lemma embedded_below:
  assumes G: "type_graph env T rank" and "embedded_fields env f name = Some efs" and "fd_type f \<in> T" and "rank (fd_type f) < r"
  shows "\<exists>r' < r. fields_below T rank r' efs"
proof (cases "underlying env (fd_type f)")
  case (GPointer u)
  then have "u \<in> T" "rank u < rank (fd_type f)" "underlying env u = GStruct efs"
    using assms pointer_below [OF G] by (auto simp: embedded_fields_def split: if_splits go_type.splits)
  then show ?thesis using struct_fields_below [OF G] assms(4) order.strict_trans by blast
qed (use assms struct_fields_below [OF G] in \<open>auto simp: embedded_fields_def split: if_splits go_type.splits\<close>)

lemma add_fields_terminates:
  assumes G: "type_graph env T rank" and types: "\<And>t. t \<in> T \<Longrightarrow> \<exists>n. reflect_type float env n t seen \<noteq> None"
    and "fields_below T rank r fs"
  shows "\<exists>n. add_fields float env n s fs seen \<noteq> None"
  using assms(3)
proof (induction r arbitrary: fs s rule: less_induct)
  case (less r)
  from less.prems show ?case
  proof (induction fs arbitrary: s)
    case (Cons f fs)
    obtain name opts skip where j: "jsonName f = (name, opts, skip)"
      by (metis prod.exhaust)
    have rest: "\<exists>n. add_fields float env n s' fs seen \<noteq> None" for s'
      using Cons by (simp add: fields_below_def)
    then obtain n0 r0 where n0: "add_fields float env n0 s fs seen = Some r0"
      by (meson not_None_eq)
    have f: "fd_type f \<in> T" "fd_anonymous f \<longrightarrow> rank (fd_type f) < r"
      using Cons.prems by (simp_all add: fields_below_def)
    consider "skip" | efs where "\<not> skip" "embedded_fields env f name = Some efs"
      | "\<not> skip" "embedded_fields env f name = None" "\<not> fd_exported f"
      | "\<not> skip" "embedded_fields env f name = None" "fd_exported f"
      by (cases "embedded_fields env f name") auto
    then show ?case
    proof cases
      case 2
      then have "fd_anonymous f" by (auto simp: embedded_fields_def split: if_splits)
      then obtain n1 x where n1: "add_fields float env n1 s efs seen = Some x"
        using embedded_below [OF G 2(2) f(1)] f(2) less.IH by (meson not_None_eq)
      show ?thesis
      proof (cases x)
        case (Inr s')
        obtain n2 y where n2: "add_fields float env n2 s' fs seen = Some y"
          using rest by (meson not_None_eq)
        show ?thesis
          using 2 Inr add_fields_enough [OF n1, of "max n1 n2"] add_fields_enough [OF n2, of "max n1 n2"]
          by (intro exI [of _ "Suc (max n1 n2)"]) (simp add: add_fields.simps(3) j)
      qed (use 2 n1 in \<open>auto simp: add_fields.simps(3) j intro!: exI [of _ "Suc n1"]\<close>)
    next
      case 4
      obtain n1 x where n1: "reflect_type float env n1 (fd_type f) seen = Some x"
        using types [OF f(1)] by blast
      show ?thesis
      proof (cases "\<exists>prop s'. x = Inr prop \<and> put_field float env f name opts prop s = Inr s'")
        case True
        then obtain pr s' where p: "x = Inr pr" "put_field float env f name opts pr s = Inr s'" by blast
        obtain n2 y where n2: "add_fields float env n2 s' fs seen = Some y"
          using rest by (meson not_None_eq)
        show ?thesis
          using 4 p reflect_type_enough [OF n1, of "max n1 n2"] add_fields_enough [OF n2, of "max n1 n2"]
          by (intro exI [of _ "Suc (max n1 n2)"]) (simp add: add_fields.simps(3) j)
      next
        case False
        then show ?thesis using 4 n1
          by (intro exI [of _ "Suc n1"]) (auto simp: add_fields.simps(3) j split: sum.splits)
      qed
    qed (use n0 in \<open>auto simp: add_fields.simps(3) j intro!: exI [of _ "Suc n0"]\<close>)
  qed (auto intro: exI [of _ 1])
qed

lemma reflect_type_terminates_below:
  assumes G: "type_graph env T rank" and fields: "\<And>t fs. t \<in> T \<Longrightarrow> t \<notin> seen \<Longrightarrow> underlying env t = GStruct fs \<Longrightarrow>
      \<exists>n. add_fields float env n empty_object fs (insert t seen) \<noteq> None"
    and "t \<in> T"
  shows "\<exists>n. reflect_type float env n t seen \<noteq> None"
  using assms(3)
proof (induction "rank t" arbitrary: t rule: less_induct)
  case less
  have elem: "\<exists>n. reflect_type float env n u seen \<noteq> None" if "u \<in> set (components env t)" "u \<in> set (unguarded env t)" for u
    using less.hyps [OF type_graphD(3) [OF G less.prems that(2)]] type_graphD(2) [OF G less.prems] that(1) by blast
  show ?case
  proof (cases "underlying env t")
    case (GStruct fs)
    show ?thesis
    proof (cases "t \<in> seen")
      case False
      then obtain n where "add_fields float env n empty_object fs (insert t seen) \<noteq> None"
        using fields less.prems GStruct by blast
      then show ?thesis using False GStruct by (intro exI [of _ "Suc n"]) (simp add: reflect_type.simps(2))
    qed (use GStruct in \<open>auto simp: reflect_type.simps(2) intro!: exI [of _ 1]\<close>)
  next
    case (GPointer u)
    then obtain n where "reflect_type float env n u seen \<noteq> None"
      using elem by (auto simp: components_def unguarded_def)
    then show ?thesis using GPointer by (intro exI [of _ "Suc n"]) (simp add: reflect_type.simps(2))
  next
    case (GSlice u)
    then obtain n where "reflect_type float env n u seen \<noteq> None"
      using elem by (auto simp: components_def unguarded_def)
    then show ?thesis using GSlice by (intro exI [of _ "Suc n"]) (simp add: reflect_type.simps(2))
  next
    case (GArray u)
    then obtain n where "reflect_type float env n u seen \<noteq> None"
      using elem by (auto simp: components_def unguarded_def)
    then show ?thesis using GArray by (intro exI [of _ "Suc n"]) (simp add: reflect_type.simps(2))
  next
    case (GMap k u)
    then obtain n where "reflect_type float env n u seen \<noteq> None"
      using elem by (auto simp: components_def unguarded_def)
    then show ?thesis using GMap by (intro exI [of _ "Suc n"]) (simp add: reflect_type.simps(2))
  qed (auto simp: reflect_type.simps(2) intro!: exI [of _ 1])
qed

lemma reflect_type_terminates:
  assumes G: "type_graph env T rank" and "t \<in> T"
  shows "\<exists>n. reflect_type float env n t seen \<noteq> None"
  using assms(2)
proof (induction "card (T - seen)" arbitrary: t seen rule: less_induct)
  case less
  show ?case
  proof (rule reflect_type_terminates_below [OF G _ less.prems])
    fix u fs
    assume u: "u \<in> T" "u \<notin> seen" "underlying env u = GStruct fs"
    have "T - insert u seen \<subset> T - seen" using u by blast
    then have "card (T - insert u seen) < card (T - seen)"
      using type_graphD(1) [OF G] by (simp add: psubset_card_mono)
    then show "\<exists>n. add_fields float env n empty_object fs (insert u seen) \<noteq> None"
      using less.hyps struct_fields_below [OF G u(1,3)] add_fields_terminates [OF G] by blast
  qed
qed

section \<open>Theorems\<close>

definition sentiment_fields :: "go_field list" where
  "sentiment_fields =
     [Field ''Label'' (GKind ''string'') ''label'' [] ''enum=positive|negative|neutral'' False True,
      Field ''Next'' (GPointer (GNamed ''Sentiment'')) ''next,omitempty'' [] [] False True]"

definition sentiment_env :: type_env where
  "sentiment_env n = (if n = ''Sentiment'' then GStruct sentiment_fields else GKind ''struct'')"


text \<open>
  Reflection ends, with a schema or an error, on every type of a finite graph of types that
  cannot lead back to a type through embedding, pointers, slices, arrays and maps alone; so a struct
  that refers to itself in a field is rejected and not followed for ever.
\<close>

theorem reflection_terminates:
  assumes "type_graph env T rank" and "t \<in> T"
  shows "\<exists>fuel r. Reflect float env fuel t = Some r"
  using reflect_type_terminates [OF assms, where seen = "{}"] by (auto simp: Reflect_def)

lemma reflection_terminates_witness:
  "\<exists>fuel r. Reflect (\<lambda>v. Inl (Opaque v)) sentiment_env fuel (GNamed ''Sentiment'') = Some r"
proof (rule reflection_terminates)
  let ?T = "{GNamed ''Sentiment'', GKind ''string'', GPointer (GNamed ''Sentiment'')}"
  show "type_graph sentiment_env ?T (\<lambda>t. case t of GPointer u \<Rightarrow> 1 | _ \<Rightarrow> 0)"
    by (simp add: type_graph_def components_def unguarded_def sentiment_env_def sentiment_fields_def)
  show "GNamed ''Sentiment'' \<in> ?T" by simp
qed

text \<open>A struct that embeds a pointer to itself, which Go allows, is followed for ever.\<close>

lemma embedded_self_diverges:
  assumes "env ''T'' = GStruct [Field ''T'' (GPointer (GNamed ''T'')) [] [] [] True True]"
  shows "Reflect float env fuel (GNamed ''T'') = None"
proof -
  let ?f = "Field ''T'' (GPointer (GNamed ''T'')) [] [] [] True True"
  have "add_fields float env n s [?f] seen = None" for n s seen
  proof (induction n arbitrary: s)
    case (Suc n)
    then show ?case using assms by (simp add: add_fields.simps(3) jsonName_def Let_def embedded_fields_def)
  qed simp
  then show ?thesis
    using assms by (cases fuel) (simp_all add: Reflect_def reflect_type.simps(2) timeType_def rawJSONType_def)
qed

text \<open>An array of bytes, which \<open>encoding/json\<close> writes as numbers, gets the schema of a string.\<close>

lemma byte_array_schema:
  "Reflect float env (Suc n) (GArray (GKind ''uint8'')) = Some (Inr (leaf ''string'' ''byte''))"
  by (simp add: Reflect_def reflect_type.simps(2) timeType_def rawJSONType_def)

text \<open>A field that hides an embedded one takes its entry, but the name is required twice.\<close>

lemma hidden_field_required_twice:
  "\<exists>s. Reflect float (\<lambda>n. GStruct [Field ''ID'' (GKind ''string'') ''id'' [] [] False True]) 5
      (GStruct [Field ''Base'' (GNamed ''Base'') [] [] [] True True, Field ''ID'' (GKind ''int'') ''id'' [] [] False True]) = Some (Inr s) \<and>
    kw_required (sc_keys s) = [''id'', ''id'']"
  by (simp add: Reflect_def eval_nat_numeral reflect_type.simps(2) add_fields.simps(3) timeType_def rawJSONType_def jsonName_def Let_def
      embedded_fields_def basic_schema_def leaf_def zero_keys_def put_field_def applyTag_def with_keys_def put_property_def
      empty_object_def is_pointer_def integer_kinds_def)


end
