(* ===== verification/Structured_Generation.thy ===== *)
theory Structured_Generation
  imports Schema_Properties Streaming
begin

text \<open>
  \<open>Generate\<close> (\<open>generate.go\<close>): a request for JSON of a Go type's schema, decoded into the type
  and asked again when it does not decode. The Go type \<open>T\<close> is a \<open>go_type\<close> for its schema and
  \<open>'t\<close> for its values; \<open>json.Unmarshal\<close> is the two functions of \<open>codec\<close>. A \<open>ParseError\<close> is
  the pair of the content and the decoding error.
\<close>

section \<open>Decoding\<close>

record 't value_codec =
  vc_plain :: "string \<Rightarrow> go_error + 't"
  vc_wrapped :: "string \<Rightarrow> go_error + 't option"

definition stripCodeFence :: "string \<Rightarrow> string" where
  "stripCodeFence s0 =
     (let fence = replicate 3 (CHR 0x60); s = TrimSpace s0 in
      if \<not> HasPrefix s fence then s
      else
        let t = TrimPrefix s fence;
            u = (case IndexByte t (CHR 0x0A) of Some nl \<Rightarrow> drop (nl + 1) t | None \<Rightarrow> t)
        in TrimSpace (TrimSuffix (TrimSpace u) fence))"

record parse_failure =
  pf_content :: string
  pf_err :: go_error

definition ParseError :: "parse_failure \<Rightarrow> go_error" where
  "ParseError e = Errorf ''langrails: parse structured output: %v'' [FWrap (pf_err e)]"

definition decodeStructured :: "'t value_codec \<Rightarrow> string \<Rightarrow> bool \<Rightarrow> parse_failure + 't" where
  "decodeStructured codec content wrapped =
     (let text = stripCodeFence content; fail = (\<lambda>e. Inl \<lparr>pf_content = content, pf_err = e\<rparr>) in
      if wrapped then
        (case vc_wrapped codec text of
           Inl e \<Rightarrow> fail e
         | Inr None \<Rightarrow> fail (Sentinel (''missing '' @ [CHR 0x22] @ ''value'' @ [CHR 0x22]))
         | Inr (Some v) \<Rightarrow> Inr v)
      else (case vc_plain codec text of Inl e \<Rightarrow> fail e | Inr v \<Rightarrow> Inr v))"

section \<open>The request\<close>

text \<open>The schema sent, and whether the value is wrapped in an object.\<close>

definition wrap_schema :: "schema \<Rightarrow> schema \<times> bool" where
  "wrap_schema s =
     (if kw_type (sc_keys s) \<noteq> ''object'' \<or> sc_additional s \<noteq> None
      then (Schema (zero_keys\<lparr>kw_type := ''object'', kw_required := [''value'']\<rparr>) (Some [(''value'', s)]) None None, True)
      else (s, False))"

definition complaint :: "go_error \<Rightarrow> string" where
  "complaint e = ''Your previous response could not be parsed: '' @ error_text e @
     ''. Respond again with only a JSON value matching the schema.''"

definition retry_messages :: "completion_response \<Rightarrow> parse_failure \<Rightarrow> message list" where
  "retry_messages resp perr =
     [zero_msg\<lparr>msg_role := ''assistant'', msg_content := resp_content resp\<rparr>,
      zero_msg\<lparr>msg_role := ''user'', msg_content := complaint (pf_err perr)\<rparr>]"

text \<open>\<open>WithParseRetries\<close> sets the one field of the configuration.\<close>

type_synonym generate_option = "int \<Rightarrow> int"

definition WithParseRetries :: "int \<Rightarrow> generate_option" where
  "WithParseRetries n retries = n"

section \<open>Generate\<close>

text \<open>The result is the value or error, the last response, and the world.\<close>

type_synonym ('t, 'w) generated = "(go_error + 't) \<times> completion_response option \<times> 'w"

function generate_from :: "'t value_codec \<Rightarrow> 'w provider \<Rightarrow> bool \<Rightarrow> int \<Rightarrow> int \<Rightarrow> completion_request \<Rightarrow> 'w \<Rightarrow> ('t, 'w) generated" where
  "generate_from codec p wrapped retries attempt r w =
     (case Complete p r w of
        (Inl err, w') \<Rightarrow> (Inl err, None, w')
      | (Inr resp, w') \<Rightarrow>
          (case decodeStructured codec (resp_content resp) wrapped of
             Inr out \<Rightarrow> (Inr out, Some resp, w')
           | Inl perr \<Rightarrow>
               if attempt \<ge> retries then (Inl (ParseError perr), Some resp, w')
               else generate_from codec p wrapped retries (attempt + 1)
                      (r\<lparr>req_messages := req_messages r @ retry_messages resp perr\<rparr>) w'))"
  by pat_completeness auto
termination
  by (relation "measure (\<lambda>(codec, p, wrapped, retries, attempt, r, w). nat (retries - attempt))") auto

declare generate_from.simps [simp del]

definition Generate :: "(string \<Rightarrow> go_error + rat) \<Rightarrow> type_env \<Rightarrow> nat \<Rightarrow> go_type \<Rightarrow> 't value_codec \<Rightarrow> 'w provider
    \<Rightarrow> completion_request \<Rightarrow> generate_option list \<Rightarrow> 'w \<Rightarrow> ('t, 'w) generated option" where
  "Generate float env fuel t codec p req opts w =
     map_option (\<lambda>reflected. case reflected of
        Inl err \<Rightarrow> (Inl (Errorf ''langrails: schema for %T: %w'' [FStr (type_text t), FWrap err]), None, w)
      | Inr s \<Rightarrow>
          let (s', wrapped) = wrap_schema s; retries = foldl (\<lambda>n opt. opt n) 0 opts
          in generate_from codec p wrapped retries 0 (req\<lparr>req_output_schema := RawJson (MarshalJSON s')\<rparr>) w)
       (Reflect float env fuel t)"

section \<open>What Generate returns\<close>

text \<open>
  The failed rounds of a conversation: \<open>failed codec p wrapped r w rounds w'\<close> when the model,
  asked \<open>r\<close> and then \<open>r\<close> with its answers and complaints, gave the responses in \<open>rounds\<close>, none of
  which decodes.
\<close>

definition asked_again :: "completion_request \<Rightarrow> (completion_response \<times> parse_failure) list \<Rightarrow> completion_request" where
  "asked_again r rounds = r\<lparr>req_messages := req_messages r @ concat (map (\<lambda>(resp, perr). retry_messages resp perr) rounds)\<rparr>"

inductive failed :: "'t value_codec \<Rightarrow> 'w provider \<Rightarrow> bool \<Rightarrow> completion_request \<Rightarrow> 'w
    \<Rightarrow> (completion_response \<times> parse_failure) list \<Rightarrow> 'w \<Rightarrow> bool" for codec p wrapped r w where
  failed_none: "failed codec p wrapped r w [] w"
| failed_round: "failed codec p wrapped r w rounds w1 \<Longrightarrow> Complete p (asked_again r rounds) w1 = (Inr resp, w2) \<Longrightarrow>
    decodeStructured codec (resp_content resp) wrapped = Inl perr \<Longrightarrow> failed codec p wrapped r w (rounds @ [(resp, perr)]) w2"

lemma asked_again_snoc:
  "asked_again r (rounds @ [(resp, perr)]) =
    (asked_again r rounds)\<lparr>req_messages := req_messages (asked_again r rounds) @ retry_messages resp perr\<rparr>"
  by (simp add: asked_again_def)

lemma asked_again_Nil [simp]: "asked_again r [] = r"
  by (simp add: asked_again_def)

definition last_round :: "'t value_codec \<Rightarrow> 'w provider \<Rightarrow> bool \<Rightarrow> bool \<Rightarrow> completion_request \<Rightarrow> 'w \<Rightarrow> ('t, 'w) generated \<Rightarrow> bool" where
  "last_round codec p wrapped spent r w res \<longleftrightarrow>
     (case Complete p r w of
        (Inl err, w') \<Rightarrow> res = (Inl err, None, w')
      | (Inr resp, w') \<Rightarrow>
          (case decodeStructured codec (resp_content resp) wrapped of
             Inr out \<Rightarrow> res = (Inr out, Some resp, w')
           | Inl perr \<Rightarrow> spent \<and> res = (Inl (ParseError perr), Some resp, w')))"

lemma generate_from_rounds:
  assumes "failed codec p wrapped r w before w0" and "length before = nat attempt" and "attempt \<ge> 0"
    and "attempt = 0 \<or> attempt \<le> retries"
  shows "\<exists>rounds w1. failed codec p wrapped r w rounds w1 \<and> length rounds \<le> nat retries \<and>
    last_round codec p wrapped (length rounds = nat retries) (asked_again r rounds) w1
      (generate_from codec p wrapped retries attempt (asked_again r before) w0)"
  using assms
proof (induction "nat (retries - attempt)" arbitrary: attempt before w0 rule: less_induct)
  case less
  let ?r = "asked_again r before"
  obtain a w' where a: "Complete p ?r w0 = (a, w')" by (metis prod.exhaust)
  have len: "length before \<le> nat retries" using less.prems by linarith
  show ?case
  proof (cases "\<exists>resp perr. a = Inr resp \<and> decodeStructured codec (resp_content resp) wrapped = Inl perr \<and> attempt < retries")
    case True
    then obtain resp perr where t: "a = Inr resp" "decodeStructured codec (resp_content resp) wrapped = Inl perr" "attempt < retries"
      by blast
    have step: "generate_from codec p wrapped retries attempt ?r w0 =
        generate_from codec p wrapped retries (attempt + 1) (asked_again r (before @ [(resp, perr)])) w'"
      using a t by (subst generate_from.simps) (simp add: asked_again_snoc)
    have "failed codec p wrapped r w (before @ [(resp, perr)]) w'"
      using less.prems(1) a t by (auto intro: failed_round)
    then show ?thesis
      unfolding step using less.hyps [of "attempt + 1" "before @ [(resp, perr)]" w'] less.prems(2,3) t(3)
      by (simp add: nat_add_distrib)
  next
    case False
    then have "last_round codec p wrapped (length before = nat retries) ?r w0
        (generate_from codec p wrapped retries attempt ?r w0)"
      using a less.prems by (subst generate_from.simps) (auto simp: last_round_def split: sum.splits)
    then show ?thesis using less.prems(1) len by blast
  qed
qed


definition counting_codec :: "string value_codec" where
  "counting_codec = \<lparr>vc_plain = (\<lambda>s. Inl (Opaque s)), vc_wrapped = (\<lambda>s. if s = ''2'' then Inr (Some s) else Inl (Opaque ''no''))\<rparr>"

definition counting_provider :: "nat provider" where
  "counting_provider = \<lparr>Complete = (\<lambda>req n. (Inr (zero_response\<lparr>resp_content := (if n = 1 then ''1'' else ''2'')\<rparr>), n + 1)),
     Stream = (\<lambda>req n. (Inr [], n))\<rparr>"


end
