(* ===== verification/Spec2Isabelle.thy ===== *)
theory Spec2Isabelle
  imports Conversation_Memory Resilience Rate_Limit Cache_Keys Graph_Properties Middleware_Properties Human_Approval
    Event_Frames Compat_Properties Anthropic_Properties Bedrock_Properties Gemini_Properties Responses_Properties
    Retry_After Http_Requests Compat_Documents Bedrock_Documents Anthropic_Documents Gemini_Documents Responses_Documents
    Cloud_Requests MCP_Process Loopback_Login Provider_Selection MCP_Properties MCP_Stdio
    MCP_OAuth_Properties A2A_Properties Decide_Backends Call_Hooks Prompt_Templates Decisions Durable_Approval
    Structured_Generation
begin

text \<open>
  A verification of langrails, a Go library for building applications on language models. This is the
  root: it imports every theory of the development and says which part of the program each of them
  models, how the parts fit together, what is proved, and what is left out.

  \<^bold>\<open>The program.\<close> A \<^emph>\<open>provider\<close> (package \<open>langrails\<close>, \<open>provider.go\<close>) completes a request or streams events for it.
  Two dozen packages under \<open>llm/\<close> are providers of remote services; others wrap a provider in the
  same interface: retries and fallbacks, rate limits, a cache, hooks, a router. On providers rest the loop of
  tools (\<open>tools/\<close>), agents with middleware and approval gates (\<open>agent/\<close>), chains, the
  conversation memory, decisions, generation to a schema, and the graph engine (\<open>graph/\<close>), which runs
  nodes over a state, checkpoints them, and pauses for answers. \<open>mcp/\<close> and \<open>a2a/\<close> connect
  to other programs: tools of MCP servers, with OAuth, and remote agents.

  \<^bold>\<open>Conventions.\<close> A Go function that touches anything outside of its arguments threads a world of type \<open>'w\<close>:
  \<open>f args w\<close> gives its result and the world after it. An error is a value of \<open>go_error\<close>
  (\<open>Go_Values\<close>), wrapped with \<open>Errorf\<close> where the code wraps with \<open>%w\<close>, so that \<open>errors.Is\<close> and \<open>errors.As\<close> are
  functions on it; a result with an error is \<open>go_error + 'a\<close>. A panic is \<open>None\<close> or a flag, as is a loop that never ends.
  Structs are records whose fields carry a prefix, interfaces are records of functions, closed sets of strings are
  strings with the code's own values. A Go string is the list of its bytes. \<open>int\<close> is unbounded where the code cannot
  reach its limits; durations, binary framing and sequence numbers are wrapped at their width
  (\<open>wrap64\<close>, \<open>word\<close>). What goroutines do to each other is a step relation, a schedule, or a
  predicate that says when a reader went away.

  \<^bold>\<open>Theories and sources.\<close>

  \<^item> \<open>Prelude\<close>: strings as the Go library has them (\<open>Cut\<close>, \<open>TrimSpace\<close>, \<open>Join\<close>, decimal numbers), and list lemmas.
    \<open>Go_Values\<close>: JSON values, errors, dynamic values. \<open>Messages\<close>: \<open>message.go\<close>, \<open>provider.go\<close>, \<open>toolchoice.go\<close>,
    \<open>servertool.go\<close>, \<open>reasoning.go\<close>. \<open>Json_Documents\<close>: how \<open>encoding/json\<close> writes and reads a struct.
    \<open>Url_Encodings\<close>: query, base64 and hexadecimal encodings.
  \<^item> \<open>Streaming\<close>: \<open>stream.go\<close>, events and their accumulator. \<open>Wire_Framing\<close>: \<open>internal/sse\<close>. \<open>Event_Frames\<close>:
    \<open>internal/eventstream\<close>, the binary frames of AWS on words. \<open>Media_Parts\<close>: \<open>internal/mediautil\<close>. \<open>Transport\<close>: the
    HTTP exchange the providers share. \<open>Retry_After\<close>: \<open>RetryAfterFromHeader\<close> of \<open>errors.go\<close>.
    \<open>Http_Requests\<close>: the headers of \<open>doRequest\<close> in \<open>llm/compat\<close> and \<open>llm/anthropic\<close>, and its answers' headers.
  \<^item> \<open>Resilience\<close>: \<open>retry.go\<close>, \<open>fallback.go\<close>. \<open>Rate_Limit\<close>: \<open>ratelimit.go\<close>. \<open>Response_Cache\<close>, \<open>Cache_Keys\<close>:
    \<open>cache.go\<close>, the cache and the keys of requests. \<open>Call_Hooks\<close>: \<open>hooks.go\<close>.
    \<open>Structured_Generation\<close>: \<open>generate.go\<close>. \<open>Conversation_Memory\<close>: \<open>memory/\<close>. \<open>Prompt_Templates\<close>: \<open>prompt/\<close>.
    \<open>Schema_Reflection\<close>, \<open>Schema_Properties\<close>: \<open>internal/jsonschema\<close>.
  \<^item> \<open>Compat_Provider\<close>, \<open>Compat_Properties\<close>, \<open>Compat_Documents\<close>: \<open>llm/compat\<close>, requests, responses and streams, and
    the JSON documents of its types. \<open>Anthropic_Provider\<close>, \<open>Bedrock_Provider\<close>, \<open>Gemini_Provider\<close>, \<open>OpenAI_Responses\<close> with
    their \<open>_Properties\<close>, and \<open>Streamed_Blocks\<close>, which two of them share: the other providers; \<open>Bedrock_Documents\<close>,
    \<open>Anthropic_Documents\<close>, \<open>Gemini_Documents\<close>, \<open>Responses_Documents\<close>: the JSON documents of their types. \<open>Request_Signing\<close>:
    \<open>internal/awssig\<close> and \<open>llm/gemini/oauth.go\<close>; \<open>Cloud_Requests\<close>: the requests of Bedrock and Vertex with
    their signatures and tokens. \<open>Provider_Selection\<close>: the constructors of every package, \<open>llm/registry.go\<close>, \<open>llm/fromstring.go\<close>.
  \<^item> \<open>Tool_Loop\<close>: \<open>tools/\<close> and \<open>chain/\<close>. \<open>Agents\<close>: \<open>agent/agent.go\<close>, \<open>middleware.go\<close> and the streaming agent.
    \<open>Agent_Middleware\<close>, \<open>Middleware_Properties\<close>: limits, retries, summarization and the rest. \<open>Human_Approval\<close>:
    \<open>hitl.go\<close>, \<open>validate.go\<close>. \<open>Decisions\<close>, \<open>Decide_Backends\<close>: \<open>decide/\<close> with its two services and \<open>internal/httpjson\<close>.
  \<^item> \<open>Checkpoints\<close>, \<open>Graph_Engine\<close>, \<open>Graph_Properties\<close>: \<open>graph/\<close>, the run loop, fan-out, node retries and timeouts,
    checkpoints, drains, interrupts and their answers, subgraphs. \<open>Durable_Approval\<close>: agents behind an approval gate in a graph.
  \<^item> \<open>MCP_Client\<close>, \<open>MCP_Operations\<close>, \<open>MCP_Properties\<close>: \<open>mcp/\<close> over HTTP, its tools, resources, prompts and
    elicitations. \<open>MCP_Stdio\<close>: the transport over a process's pipes as a step relation of its goroutines;
    \<open>MCP_Process\<close>: the start and the closing of the process. \<open>MCP_OAuth\<close>, \<open>MCP_OAuth_Properties\<close>: \<open>mcp/oauth\<close>;
    \<open>Loopback_Login\<close>: its login by a listener. \<open>A2A_Types\<close>, \<open>A2A\<close>, \<open>A2A_Properties\<close>: \<open>a2a/\<close>, client and server.

  \<^bold>\<open>Interfaces.\<close> What one component relies on in another is a locale, interpreted on the model of the component that
  provides it. \<open>checkpoint_store\<close> is the contract of a \<open>Checkpointer\<close> (a saved checkpoint is the latest of
  its thread), held by \<open>MemoryCheckpointer\<close>; resuming and draining are proved from it. \<open>response_cache\<close> is that of a
  \<open>Cache\<close>, held by \<open>MemoryCache\<close>. \<open>tool_box\<close> is that of an \<open>Executor\<close> that looks names up, held by \<open>MapExecutor\<close> and \<open>Set\<close>.
  \<open>frame_reader\<close> is a decoder that reads frame after frame from a byte stream, held by both framings. \<open>session_store\<close> and
  \<open>stored_source\<close> are the store of a token source and a source over one, held by \<open>MemoryStore\<close>. \<open>thread_progress\<close>
  is the progress of a thread under weak fairness, held by a caller over stdio, and by the two halves of closing its process.

  \<^bold>\<open>What is proved.\<close> The numbered properties, in the order of their importance:

  \<^item> Approval and durability (C1 to C4): a gated call runs only as it was approved, over any
    number of pauses and resumptions of a graph; a drained run that is resumed is the run without the drain; a resumed run executes
    the asking node again with the answer in its place.
  \<^item> Loops (C5, C14 to C16): the agent without middleware is the tool loop, the streaming agent agrees with
    the other, a fan-out has one result whatever its schedule, the transcript of the tool loop is well formed.
  \<^item> Providers (C6, C7, C19, C20, C29 to C34, C37, C40): streams assemble to the response they carry, in every framing and
    interleaving; a call over JSON documents is the server's own answer; frames are decoded exactly and a cut one is an error; requests are
    signed as the service checks them, for identifiers without characters it encodes again; strict schemas are strict;
    a refusal is waited out as its headers ask; what a model string selects.
  \<^item> Connections (C8 to C12, C21 to C27): calls over stdio return, and return what belongs to them; closing comes to an
    end; remote agents answer as local ones; questions in the middle of a call pause the graph; tokens survive restarts and
    refresh tokens are never lost; a login cannot be made to take a code with another state; when listings end.
  \<^item> Wrappers and the rest (C13, C17, C18, C28, C35, C36, C38, C39): retries refine a scan of the outcomes;
    the memory keeps a suffix, and when its trimming does not end; a cached answer was given to the same request; the bucket
    spaces requests; decisions are distributions; reflected schemas; the first answer that decodes.

  The other theorems are what these rest on, and the behaviour of operations the list has no room for: the bounds of the backoff,
  the other providers' calls over their JSON documents, the middleware limits, validation of arguments,
  eviction of the cache, termination of the schema reflection, hooks, prompt caching,
  the discovery of authorization servers. Lemmas about defects (a colon in a model's identifier is signed wrongly, a numeric error code hides
  the message, a web search in the answer makes an Anthropic call fail, a negative index panics, and others) state what the code does, beside the property they limit.

  \<^bold>\<open>Bounds and fuel.\<close> Two loops of the code may run for ever and are \<open>partial_function (option)\<close>: the trimming of the
  memory (\<open>trim_tokens\<close>) and the paginated listings (\<open>paginate\<close>); it is proved exactly when they end. \<open>Schema_Reflection\<close> takes fuel, since a
  struct that embeds itself is followed for ever; enough fuel is proved to exist for every other type. The
  remaining loops terminate by measures: the text left to read, the attempts or steps left.

  \<^bold>\<open>Parameters.\<close> Not modelled, and arguments of the definitions that use them: the network and the remote services, clocks,
  timers and random numbers, JSON text (its documents are modelled for every provider, for MCP, A2A,
  the decision services and the keys of the cache), SHA-256, HMAC and RSA, URL parsing, regular expressions, \<open>text/template\<close>, the
  application's callbacks. Where a law of theirs is needed it is a hypothesis, such as that text written for a document is read back as it.

  \<^bold>\<open>Not modelled.\<close> Rounding of floating-point numbers: they are rationals, and rate limits exact. Preemption inside of a
  handler, a node or a critical section: these are atomic steps. Constructors that only panic on the error of another
  (\<open>Must...\<close>), accessors, options that set an HTTP client, examples and test helpers.
\<close>

end
